(* ===== verification/Prelude.thy ===== *)
theory Prelude
  imports Complex_Main "HOL-Library.AList" "HOL-Library.Char_ord" "HOL-Library.List_Lexorder"
begin

text \<open>
  Shared vocabulary of the development: Python strings and their \<open>strip\<close>, \<open>lower\<close>,
  \<open>isspace\<close> and \<open>split\<close>; insertion-ordered dictionaries; exceptions; and effectful
  operations, which take a state and return a result (or an exception) together with the state
  at that point, so that what was written before an exception was raised stays written.

  Strings are lists of code points below 256; the identifiers, keys and event names that the
  services compare all lie in that range.
\<close>

named_theorems act_simps \<open>unfolding of effectful operations\<close>
named_theorems act_rules \<open>outcome rules of the operations of the services\<close>
named_theorems keeps_intros \<open>operations that preserve a state predicate\<close>

section \<open>Python strings\<close>

definition py_isspace :: "char \<Rightarrow> bool" where
  "py_isspace c \<longleftrightarrow>
     (let n = (of_char c :: nat) in 9 \<le> n \<and> n \<le> 13 \<or> 28 \<le> n \<and> n \<le> 32 \<or> n = 133 \<or> n = 160)"

definition lower_char :: "char \<Rightarrow> char" where
  "lower_char c =
     (let n = (of_char c :: nat)
      in if 65 \<le> n \<and> n \<le> 90 \<or> 192 \<le> n \<and> n \<le> 222 \<and> n \<noteq> 215 then char_of (n + 32) else c)"

definition py_lower :: "string \<Rightarrow> string" where
  "py_lower s = map lower_char s"

definition strip_with :: "(char \<Rightarrow> bool) \<Rightarrow> string \<Rightarrow> string" where
  "strip_with p s = rev (dropWhile p (rev (dropWhile p s)))"

definition py_strip :: "string \<Rightarrow> string" where
  "py_strip s = strip_with py_isspace s"

text \<open>
  \<open>str_strip_whitespace\<close> of pydantic trims the characters of the Unicode property White\_Space,
  which leaves out the four separators 28 to 31 that \<open>str.strip\<close> removes.
\<close>

definition uni_space :: "char \<Rightarrow> bool" where
  "uni_space c \<longleftrightarrow>
     (let n = (of_char c :: nat) in 9 \<le> n \<and> n \<le> 13 \<or> n = 32 \<or> n = 133 \<or> n = 160)"

definition pyd_strip :: "string \<Rightarrow> string" where
  "pyd_strip s = strip_with uni_space s"

text \<open>\<open>str.upper\<close>, by character: the sharp s becomes two letters; the two letters whose capital lies
  beyond code point 255 keep their own.\<close>

definition upper_text :: "char \<Rightarrow> string" where
  "upper_text c =
     (let n = (of_char c :: nat) in
      if 97 \<le> n \<and> n \<le> 122 \<or> 224 \<le> n \<and> n \<le> 254 \<and> n \<noteq> 247 then [char_of (n - 32)]
      else if n = 223 then ''SS'' else [c])"

fun split_on :: "char \<Rightarrow> string \<Rightarrow> string list" where
  "split_on c [] = [[]]"
| "split_on c (x # xs) =
     (if x = c then [] # split_on c xs
      else case split_on c xs of [] \<Rightarrow> [[x]] | w # ws \<Rightarrow> (x # w) # ws)"

fun join_with :: "string \<Rightarrow> string list \<Rightarrow> string" where
  "join_with sep [] = []"
| "join_with sep [w] = w"
| "join_with sep (w # ws) = w @ sep @ join_with sep ws"

text \<open>\<open>block in s\<close>.\<close>

definition contains_text :: "string \<Rightarrow> string \<Rightarrow> bool" where
  "contains_text block s = list_ex (\<lambda>i. take (length block) (drop i s) = block) [0 ..< Suc (length s)]"

lemma split_on_nonempty [simp]: "split_on c s \<noteq> []"
  by (induction s) (auto split: list.splits)

lemma split_on_no_sep: "w \<in> set (split_on c s) \<Longrightarrow> c \<notin> set w"
proof (induction s arbitrary: w)
  case Nil
  then show ?case by simp
next
  case (Cons x xs)
  then show ?case
    by (cases "split_on c xs") (auto split: if_splits)
qed

lemma split_on_absent: "c \<notin> set w \<Longrightarrow> split_on c w = [w]"
  by (induction w) auto

lemma split_on_append_sep: "c \<notin> set w \<Longrightarrow> split_on c (w @ c # s) = w # split_on c s"
  by (induction w) auto

lemma split_on_join:
  assumes "ws \<noteq> []" and "\<And>w. w \<in> set ws \<Longrightarrow> c \<notin> set w"
  shows "split_on c (join_with [c] ws) = ws"
  using assms
proof (induction ws rule: induct_list012)
  case 1
  then show ?case by simp
next
  case (2 w)
  then show ?case by (simp add: split_on_absent)
next
  case (3 w v ws)
  then show ?case by (simp add: split_on_append_sep)
qed

lemma strip_with_hd_last:
  assumes "s \<noteq> []" and "\<not> p (hd s)" and "\<not> p (last s)"
  shows "strip_with p s = s"
proof -
  have "dropWhile p s = s" using assms(1,2) by (cases s) auto
  moreover have "dropWhile p (rev s) = rev s" using assms(1,3)
    by (cases s rule: rev_cases) auto
  ultimately show ?thesis by (simp add: strip_with_def)
qed

lemma strip_with_no_space [simp]: "list_all (\<lambda>c. \<not> p c) s \<Longrightarrow> strip_with p s = s"
  by (cases "s = []") (simp add: strip_with_def, simp add: list_all_iff strip_with_hd_last)

lemma strip_with_Nil [simp]: "strip_with p [] = []"
  by (simp add: strip_with_def)

lemma set_strip_with: "set (strip_with p s) \<subseteq> set s"
  by (auto simp: strip_with_def dest!: set_dropWhileD)

lemma strip_with_ends:
  assumes "strip_with p s \<noteq> []"
  shows "\<not> p (hd (strip_with p s)) \<and> \<not> p (last (strip_with p s))"
proof -
  let ?t = "dropWhile p s" let ?u = "dropWhile p (rev ?t)"
  have u: "?u \<noteq> []" using assms by (simp add: strip_with_def)
  then have l: "\<not> p (last (strip_with p s))"
    by (simp add: strip_with_def last_rev hd_dropWhile)
  obtain pre where pre: "rev ?t = pre @ ?u"
    by (metis takeWhile_dropWhile_id)
  then have t: "?t = rev ?u @ rev pre" by (metis rev_append rev_rev_ident)
  then have "hd ?t = hd (rev ?u)" using u by (metis hd_append2 rev_is_Nil_conv)
  moreover have "?t \<noteq> []" using t u by (metis Nil_is_append_conv rev_is_Nil_conv)
  ultimately have "\<not> p (hd (rev ?u))" by (metis hd_dropWhile)
  with l show ?thesis by (simp add: strip_with_def)
qed

lemma strip_with_idem [simp]: "strip_with p (strip_with p s) = strip_with p s"
  by (cases "strip_with p s = []") (auto simp: strip_with_ends strip_with_hd_last)

lemma pyd_strip_idem [simp]: "pyd_strip (pyd_strip s) = pyd_strip s"
  by (simp add: pyd_strip_def)

lemma py_strip_idem [simp]: "py_strip (py_strip s) = py_strip s"
  by (simp add: py_strip_def)

section \<open>Character classes of the identifier patterns\<close>

definition is_lower :: "char \<Rightarrow> bool" where
  "is_lower c \<longleftrightarrow> (let n = (of_char c :: nat) in 97 \<le> n \<and> n \<le> 122)"

definition is_upper :: "char \<Rightarrow> bool" where
  "is_upper c \<longleftrightarrow> (let n = (of_char c :: nat) in 65 \<le> n \<and> n \<le> 90)"

definition is_digit :: "char \<Rightarrow> bool" where
  "is_digit c \<longleftrightarrow> (let n = (of_char c :: nat) in 48 \<le> n \<and> n \<le> 57)"

definition is_alnum :: "char \<Rightarrow> bool" where
  "is_alnum c \<longleftrightarrow> is_lower c \<or> is_upper c \<or> is_digit c"

definition is_hex :: "char \<Rightarrow> bool" where
  "is_hex c \<longleftrightarrow> (let n = (of_char c :: nat) in 48 \<le> n \<and> n \<le> 57 \<or> 97 \<le> n \<and> n \<le> 102)"

text \<open>The regular expression \<open>^[h][t]{0,n}$\<close>.\<close>

fun head_tail :: "(char \<Rightarrow> bool) \<Rightarrow> (char \<Rightarrow> bool) \<Rightarrow> nat \<Rightarrow> string \<Rightarrow> bool" where
  "head_tail h t n [] = False"
| "head_tail h t n (c # cs) = (h c \<and> list_all t cs \<and> length cs \<le> n)"

lemmas char_class_defs =
  is_lower_def is_upper_def is_digit_def is_alnum_def is_hex_def py_isspace_def uni_space_def

text \<open>The facts that evaluate the string operations on literals.\<close>

lemmas text_defs =
  char_class_defs py_lower_def lower_char_def py_strip_def pyd_strip_def strip_with_def Let_def

lemma alnum_not_space [simp]: "is_alnum c \<Longrightarrow> \<not> py_isspace c" "is_alnum c \<Longrightarrow> \<not> uni_space c"
  by (auto simp: char_class_defs Let_def)

lemma head_tail_chars:
  "head_tail h t n s \<Longrightarrow> (\<And>c. h c \<Longrightarrow> t c) \<Longrightarrow> c \<in> set s \<Longrightarrow> t c"
  by (cases s) (auto simp: list_all_iff)


section \<open>Exceptions\<close>

text \<open>
  The exception classes that the modelled code raises. The label stands for the message, which the
  code writes in Russian. \<open>ValidationError\<close> is pydantic's, with the name of the model that
  refused its input; \<open>TenantIsolationError\<close> also carries its correlation id and whether the
  denial was audited, \<open>UnauthorizedError\<close> its correlation id, \<open>ForbiddenError\<close> the
  action, the resource type and the required roles of the policy, \<open>SharedError\<close> its status
  code, error code and correlation id, \<open>HTTPException\<close> its status and detail, \<open>RateLimitedError\<close> the limit, the window, what remains,
  the time of the reset and the seconds to wait, \<open>TenantResourceLimitError\<close> the reason, the plan,
  the resource type and the seconds to wait, both with the correlation id; \<open>InvalidOperation\<close> is that of
  the module decimal; \<open>ExternalError\<close> is any
  other exception of code behind an interface.
\<close>

datatype exn =
    ValueError string
  | ValidationError string
  | TypeError string
  | TenantIsolationError string "string option" bool
  | UnauthorizedError string "string option"
  | ForbiddenError string string "string list"
  | SharedError int string "string option"
  | HTTPException int string
  | GatewayRouteNotFoundError string "string option"
  | RateLimitedError int int int int int "string option"
  | TenantResourceLimitError string string string int "string option"
  | S2SAuthenticationError string
  | InvalidOperation
  | ActivityTaskAlreadyExistsError
  | AgentRunAlreadyExistsError
  | PdnScopeViolationError "string list"
  | LinkRotationError string
  | TemplateSecurityError string
  | TemplateRenderError
  | TemplateValidationError "string list"
  | PayoutQueueError string
  | PayoutNotFoundError
  | PayoutNotExecutableError string
  | VetoWindowClosedError
  | PayoutConnectorError string string bool
  | PolicyManagerError string
  | PolicyNotFoundError string
  | ProxyRotationError string
  | ProxyPoolNotFoundError
  | ProxyUnavailableError
  | ExternalError string

text \<open>Python's pure code that may raise: continue with the value, or pass the exception on.\<close>

definition ebind :: "exn + 'a \<Rightarrow> ('a \<Rightarrow> exn + 'b) \<Rightarrow> exn + 'b" where
  "ebind m f = (case m of Inl e \<Rightarrow> Inl e | Inr x \<Rightarrow> f x)"

lemma ebind_simps [simp]: "ebind (Inl e) f = Inl e" "ebind (Inr x) f = f x"
  by (simp_all add: ebind_def)

lemma ebind_Inr [simp]: "ebind m f = Inr y \<longleftrightarrow> (\<exists>x. m = Inr x \<and> f x = Inr y)"
  by (cases m) auto

lemma ebind_Inl: "ebind m f = Inl e \<longleftrightarrow> m = Inl e \<or> (\<exists>x. m = Inr x \<and> f x = Inl e)"
  by (cases m) auto

section \<open>Effectful operations\<close>

type_synonym ('s, 'a) act = "'s \<Rightarrow> (exn + 'a) \<times> 's"

definition ret :: "'a \<Rightarrow> ('s, 'a) act" where
  "ret x s = (Inr x, s)"

definition fail :: "exn \<Rightarrow> ('s, 'a) act" where
  "fail e s = (Inl e, s)"

definition bnd :: "('s, 'a) act \<Rightarrow> ('a \<Rightarrow> ('s, 'b) act) \<Rightarrow> ('s, 'b) act" where
  "bnd m f s = (case m s of (Inl e, t) \<Rightarrow> (Inl e, t) | (Inr x, t) \<Rightarrow> f x t)"

definition lift :: "exn + 'a \<Rightarrow> ('s, 'a) act" where
  "lift r s = (r, s)"

definition require :: "bool \<Rightarrow> exn \<Rightarrow> ('s, unit) act" where
  "require b e = (if b then ret () else fail e)"

definition gets :: "('s \<Rightarrow> 'a) \<Rightarrow> ('s, 'a) act" where
  "gets f s = (Inr (f s), s)"

definition modify :: "('s \<Rightarrow> 's) \<Rightarrow> ('s, unit) act" where
  "modify f s = (Inr (), f s)"

text \<open>\<open>try: m; except Exception as error: h error\<close>.\<close>

definition catch :: "('s, 'a) act \<Rightarrow> (exn \<Rightarrow> ('s, 'a) act) \<Rightarrow> ('s, 'a) act" where
  "catch m h s = (case m s of (Inl e, t) \<Rightarrow> h e t | (Inr x, t) \<Rightarrow> (Inr x, t))"

text \<open>
  \<open>outcome m Q s\<close>: running \<open>m\<close> from \<open>s\<close> ends in a result and a state
  that satisfy \<open>Q\<close>, whether the result is a value or an exception.
\<close>

definition outcome :: "('s, 'a) act \<Rightarrow> (exn + 'a \<Rightarrow> 's \<Rightarrow> bool) \<Rightarrow> 's \<Rightarrow> bool" where
  "outcome m Q s = (case m s of (r, t) \<Rightarrow> Q r t)"

lemma outcomeD: "outcome m Q s \<Longrightarrow> m s = (r, t) \<Longrightarrow> Q r t"
  by (simp add: outcome_def)

lemma outcome_snd: "outcome m (\<lambda>r t. P t) s \<longleftrightarrow> P (snd (m s))"
  by (simp add: outcome_def split: prod.splits)

lemmas outcome_sndD = outcome_snd [THEN iffD1]

lemma outcomeI: "(\<And>r t. m s = (r, t) \<Longrightarrow> Q r t) \<Longrightarrow> outcome m Q s"
  by (simp add: outcome_def split: prod.splits)

lemma outcome_mono:
  "outcome m Q s \<Longrightarrow> (\<And>r t. Q r t \<Longrightarrow> R r t) \<Longrightarrow> outcome m R s"
  by (auto simp: outcome_def split: prod.splits)

lemma outcome_ret [act_simps]: "outcome (ret x) Q s = Q (Inr x) s"
  by (simp add: outcome_def ret_def)

lemma outcome_fail [act_simps]: "outcome (fail e) Q s = Q (Inl e) s"
  by (simp add: outcome_def fail_def)

lemma outcome_lift [act_simps]: "outcome (lift r) Q s = Q r s"
  by (simp add: outcome_def lift_def)

lemma outcome_gets [act_simps]: "outcome (gets f) Q s = Q (Inr (f s)) s"
  by (simp add: outcome_def gets_def)

lemma outcome_modify [act_simps]: "outcome (modify f) Q s = Q (Inr ()) (f s)"
  by (simp add: outcome_def modify_def)

lemma outcome_require [act_simps]:
  "outcome (require b e) Q s = ((b \<longrightarrow> Q (Inr ()) s) \<and> (\<not> b \<longrightarrow> Q (Inl e) s))"
  by (simp add: outcome_def require_def ret_def fail_def)

lemma outcome_bnd [act_simps]:
  "outcome (bnd m f) Q s =
     outcome m (\<lambda>r t. case r of Inl e \<Rightarrow> Q (Inl e) t | Inr x \<Rightarrow> outcome (f x) Q t) s"
  by (auto simp: outcome_def bnd_def split: prod.splits sum.splits)

lemma outcome_catch [act_simps]:
  "outcome (catch m h) Q s =
     outcome m (\<lambda>r t. case r of Inl e \<Rightarrow> outcome (h e) Q t | Inr x \<Rightarrow> Q (Inr x) t) s"
  by (auto simp: outcome_def catch_def split: prod.splits sum.splits)

lemma outcome_if [act_simps]:
  "outcome (if b then m else n) Q s = (if b then outcome m Q s else outcome n Q s)"
  by simp

lemma bnd_Inr:
  "bnd m f s = (Inr y, t) \<longleftrightarrow> (\<exists>x u. m s = (Inr x, u) \<and> f x u = (Inr y, t))"
  by (auto simp: bnd_def split: prod.splits sum.splits)

lemma act_eval:
  "ret x s = (Inr x, s)"
  "fail e s = (Inl e, s)"
  "lift r s = (r, s)"
  "gets f s = (Inr (f s), s)"
  "modify g s = (Inr (), g s)"
  "require b e' s = (if b then (Inr (), s) else (Inl e', s))"
  by (simp_all add: ret_def fail_def lift_def gets_def modify_def require_def)

text \<open>\<open>keeps P m\<close>: whatever \<open>m\<close> does, \<open>P\<close> survives it.\<close>

definition keeps :: "('s \<Rightarrow> bool) \<Rightarrow> ('s, 'a) act \<Rightarrow> bool" where
  "keeps P m \<longleftrightarrow> (\<forall>s. P s \<longrightarrow> P (snd (m s)))"

lemma keepsD: "keeps P m \<Longrightarrow> m s = (r, t) \<Longrightarrow> P s \<Longrightarrow> P t"
  by (metis keeps_def snd_conv)

lemma keeps_ret [keeps_intros]: "keeps P (ret x)"
  by (simp add: keeps_def ret_def)

lemma keeps_fail [keeps_intros]: "keeps P (fail e)"
  by (simp add: keeps_def fail_def)

lemma keeps_lift [keeps_intros]: "keeps P (lift r)"
  by (simp add: keeps_def lift_def)

lemma keeps_gets [keeps_intros]: "keeps P (gets f)"
  by (simp add: keeps_def gets_def)

lemma keeps_require [keeps_intros]: "keeps P (require b e)"
  by (simp add: keeps_def require_def ret_def fail_def)

lemma keeps_bnd [keeps_intros]:
  "keeps P m \<Longrightarrow> (\<And>x. keeps P (f x)) \<Longrightarrow> keeps P (bnd m f)"
  by (fastforce simp: keeps_def bnd_def split: prod.splits sum.splits)

lemma keeps_catch [keeps_intros]:
  "keeps P m \<Longrightarrow> (\<And>e. keeps P (h e)) \<Longrightarrow> keeps P (catch m h)"
  by (fastforce simp: keeps_def catch_def split: prod.splits sum.splits)

lemma keeps_if [keeps_intros]: "keeps P m \<Longrightarrow> keeps P n \<Longrightarrow> keeps P (if b then m else n)"
  by simp

lemma keeps_modify: "(\<And>s. P s \<Longrightarrow> P (f s)) \<Longrightarrow> keeps P (modify f)"
  by (simp add: keeps_def modify_def)

lemma map_sum_eq_Inr [simp]: "map_sum f g x = Inr y \<longleftrightarrow> (\<exists>z. x = Inr z \<and> y = g z)"
  by (cases x) auto

lemma map_sum_eq_Inl [simp]: "map_sum f g x = Inl y \<longleftrightarrow> (\<exists>z. x = Inl z \<and> y = f z)"
  by (cases x) auto

section \<open>Dictionaries\<close>

text \<open>
  A Python \<open>dict\<close> is an association list in insertion order: \<open>AList.update\<close> writes
  \<open>d[k] = v\<close> (in place for an existing key, at the end for a new one), \<open>AList.delete\<close>
  is \<open>del d[k]\<close> and \<open>map_of\<close> is \<open>d.get\<close>.
\<close>

type_synonym ('k, 'v) dict = "('k \<times> 'v) list"

definition dict_ok :: "('k, 'v) dict \<Rightarrow> bool" where
  "dict_ok d \<longleftrightarrow> distinct (map fst d)"

definition dict_values :: "('k, 'v) dict \<Rightarrow> 'v list" where
  "dict_values d = map snd d"

lemma dict_ok_Nil [simp]: "dict_ok []"
  by (simp add: dict_ok_def)

lemma dict_ok_update [simp]: "dict_ok d \<Longrightarrow> dict_ok (AList.update k v d)"
  by (simp add: dict_ok_def distinct_update)

lemma dict_get_update [simp]:
  "map_of (AList.update k v d) k' = (if k' = k then Some v else map_of d k')"
  by (simp add: update_conv')

lemma dict_update_new: "map_of d k = None \<Longrightarrow> AList.update k v d = d @ [(k, v)]"
  by (induction d) (auto split: if_splits)

lemma set_update_subset: "set (AList.update k v d) \<subseteq> insert (k, v) (set d)"
  by (induction d) auto

lemma dict_set_iff: "dict_ok d \<Longrightarrow> (k, v) \<in> set d \<longleftrightarrow> map_of d k = Some v"
  by (auto simp: dict_ok_def)

text \<open>The operations a repository needs of its dictionary, and the laws it relies on.\<close>

locale keyed_store =
  fixes lookup :: "'d \<Rightarrow> 'k \<Rightarrow> 'v option"
    and insert :: "'k \<Rightarrow> 'v \<Rightarrow> 'd \<Rightarrow> 'd"
    and entries :: "'d \<Rightarrow> ('k \<times> 'v) list"
    and ok :: "'d \<Rightarrow> bool"
  assumes lookup_insert: "lookup (insert k v d) k' = (if k' = k then Some v else lookup d k')"
    and ok_insert: "ok d \<Longrightarrow> ok (insert k v d)"
    and entries_lookup: "ok d \<Longrightarrow> (k, v) \<in> set (entries d) \<longleftrightarrow> lookup d k = Some v"
begin

lemma lookup_insert_same: "lookup (insert k v d) k = Some v"
  by (simp add: lookup_insert)

lemma lookup_insert_other: "k' \<noteq> k \<Longrightarrow> lookup (insert k v d) k' = lookup d k'"
  by (simp add: lookup_insert)

lemma entries_insert:
  "ok d \<Longrightarrow> set (entries (insert k v d)) = {(k, v)} \<union> {(k', v') \<in> set (entries d). k' \<noteq> k}"
  by (auto simp: entries_lookup ok_insert lookup_insert split: if_splits)

end

interpretation dict: keyed_store "map_of :: ('k, 'v) dict \<Rightarrow> 'k \<Rightarrow> 'v option" AList.update "\<lambda>d. d" dict_ok
  by unfold_locales (auto simp: dict_set_iff)

text \<open>
  \<open>tuple(sorted(d.values() if p, key=f))\<close>: Python's sort is stable, and so is \<open>sort_key\<close>.
\<close>

definition sorted_values :: "('k \<times> 'v \<Rightarrow> bool) \<Rightarrow> ('v \<Rightarrow> 'o::linorder) \<Rightarrow> ('k, 'v) dict \<Rightarrow> 'v list" where
  "sorted_values p f d = sort_key f (map snd (filter p d))"

lemma set_sorted_values: "set (sorted_values p f d) = snd ` {kv \<in> set d. p kv}"
  by (simp add: sorted_values_def)

lemma sorted_sorted_values: "sorted (map f (sorted_values p f d))"
  by (simp add: sorted_values_def)

text \<open>\<open>dict.fromkeys(xs)\<close>: the elements in order of first occurrence.\<close>

fun first_occurrences :: "'a list \<Rightarrow> 'a list" where
  "first_occurrences [] = []"
| "first_occurrences (x # xs) = x # first_occurrences (filter (\<lambda>y. y \<noteq> x) xs)"

lemma set_first_occurrences [simp]: "set (first_occurrences xs) = set xs"
  by (induction xs rule: first_occurrences.induct) auto

lemma distinct_first_occurrences [simp]: "distinct (first_occurrences xs)"
  by (induction xs rule: first_occurrences.induct) auto

lemma find_append_Some: "find P xs = Some x \<Longrightarrow> find P (xs @ ys) = Some x"
  by (induction xs) auto

lemma find_snoc: "find P (xs @ [x]) = (case find P xs of None \<Rightarrow> if P x then Some x else None | Some y \<Rightarrow> Some y)"
  by (induction xs) auto

end
