(* ===== verification/Values.thy ===== *)
theory Values
  imports Prelude "HOL-Library.Multiset"
begin

text \<open>
  The values that cross the services: finite and special floats, JSON documents with their
  canonical text (\<open>json.dumps(value, sort_keys=True)\<close>), points in time, and the runtime the
  code calls (hash, clock, identifier source, text of times and floats).
\<close>

section \<open>Numbers\<close>

text \<open>A Python float: a finite value is the rational it denotes.\<close>

datatype pyfloat = Fin rat | PosInf | NegInf | NaN

fun float_le :: "pyfloat \<Rightarrow> pyfloat \<Rightarrow> bool" where
  "float_le NaN _ = False"
| "float_le _ NaN = False"
| "float_le NegInf _ = True"
| "float_le _ PosInf = True"
| "float_le (Fin a) (Fin b) = (a \<le> b)"
| "float_le _ _ = False"

definition float_lt :: "pyfloat \<Rightarrow> pyfloat \<Rightarrow> bool" where
  "float_lt a b \<longleftrightarrow> float_le a b \<and> \<not> float_le b a"

text \<open>\<open>Field(ge=lo, le=hi, allow_inf_nan=False)\<close>.\<close>

fun finite_between :: "rat \<Rightarrow> rat \<Rightarrow> pyfloat \<Rightarrow> bool" where
  "finite_between lo hi (Fin a) = (lo \<le> a \<and> a \<le> hi)"
| "finite_between lo hi _ = False"

fun nat_digits :: "nat \<Rightarrow> string" where
  "nat_digits n = (if n < 10 then [char_of (48 + n)] else nat_digits (n div 10) @ [char_of (48 + n mod 10)])"

declare nat_digits.simps [simp del]

definition int_text :: "int \<Rightarrow> string" where
  "int_text i = (if i < 0 then CHR ''-'' # nat_digits (nat (- i)) else nat_digits (nat i))"

text \<open>\<open>int(text)\<close>: an optional sign and digits, with single underscores between digits,
  and not too many digits.\<close>

fun digits_value :: "nat \<Rightarrow> string \<Rightarrow> nat option" where
  "digits_value acc [] = Some acc"
| "digits_value acc (c # cs) =
     (if is_digit c then digits_value (10 * acc + (of_char c - 48)) cs
      else if c = CHR ''_'' \<and> cs \<noteq> [] \<and> is_digit (hd cs) then digits_value acc cs
      else None)"

text \<open>\<open>sys.int_info.default_max_str_digits\<close>.\<close>

definition max_int_digits :: nat where "max_int_digits = 4300"

definition unsigned_value :: "string \<Rightarrow> nat option" where
  "unsigned_value s = (if s \<noteq> [] \<and> is_digit (hd s) \<and> length (filter is_digit s) \<le> max_int_digits then digits_value 0 s else None)"

definition py_int :: "string \<Rightarrow> int option" where
  "py_int raw =
     (case py_strip raw of
        [] \<Rightarrow> None
      | c # cs \<Rightarrow>
          if c = CHR ''-'' then map_option (\<lambda>n. - int n) (unsigned_value cs)
          else if c = CHR ''+'' then map_option int (unsigned_value cs)
          else map_option int (unsigned_value (c # cs)))"

text \<open>An integer is read back from its text.\<close>

lemma digit_char: "(k :: nat) < 10 \<Longrightarrow> is_digit (char_of (48 + k)) \<and> of_char (char_of (48 + k)) - 48 = k"
  by (simp add: is_digit_def Let_def of_char_of)

lemma nat_digits_digits: "c \<in> set (nat_digits n) \<Longrightarrow> is_digit c"
proof (induction n rule: nat_digits.induct)
  case (1 n)
  then show ?case
    using digit_char [of n] digit_char [of "n mod 10"] by (subst (asm) nat_digits.simps) (auto split: if_splits)
qed

lemma nat_digits_nonempty [simp]: "nat_digits n \<noteq> []"
  by (subst nat_digits.simps) simp

lemma digits_value_append:
  "list_all is_digit xs \<Longrightarrow> digits_value acc (xs @ ys) =
     (case digits_value acc xs of None \<Rightarrow> None | Some a \<Rightarrow> digits_value a ys)"
  by (induction xs arbitrary: acc) auto

lemma digits_value_nat_digits: "digits_value acc (nat_digits n) = Some (acc * 10 ^ length (nat_digits n) + n)"
proof (induction n arbitrary: acc rule: nat_digits.induct)
  case (1 n)
  show ?case
  proof (cases "n < 10")
    case True
    then show ?thesis using digit_char [of n] by (subst (1 2) nat_digits.simps) (simp add: mult.commute)
  next
    case False
    have "nat_digits n = nat_digits (n div 10) @ [char_of (48 + n mod 10)]"
      using False by (subst nat_digits.simps) simp
    moreover have "list_all is_digit (nat_digits (n div 10))"
      by (auto simp: list_all_iff nat_digits_digits)
    ultimately show ?thesis
      using 1 [OF False, of acc] digit_char [of "n mod 10"]
      by (simp add: digits_value_append algebra_simps)
  qed
qed

lemma nat_digits_length: "n < 10 ^ k \<Longrightarrow> 0 < k \<Longrightarrow> length (nat_digits n) \<le> k"
proof (induction n arbitrary: k rule: nat_digits.induct)
  case (1 n)
  show ?case
  proof (cases "n < 10")
    case True
    then show ?thesis using 1(3) by (subst nat_digits.simps) simp
  next
    case False
    obtain j where j: "k = Suc j" using 1(3) by (cases k) auto
    moreover have "0 < j" using False 1(2) j by (cases j) auto
    ultimately have j: "k = Suc j" "0 < j" by simp_all
    then have "n div 10 < 10 ^ j" using 1(2) by (simp add: less_mult_imp_div_less mult.commute)
    then show ?thesis using 1(1) [OF False _ j(2)] False j(1) by (subst nat_digits.simps) simp
  qed
qed

lemma digit_not_sign: "is_digit c \<Longrightarrow> \<not> py_isspace c \<and> c \<noteq> CHR ''-'' \<and> c \<noteq> CHR ''+''"
  by (auto simp: is_digit_def py_isspace_def Let_def)

lemma max_int_digits_pos: "0 < max_int_digits"
  by (simp add: max_int_digits_def)

lemma unsigned_value_digits: "n < 10 ^ max_int_digits \<Longrightarrow> unsigned_value (nat_digits n) = Some n"
proof -
  assume "n < 10 ^ max_int_digits"
  then have "length (nat_digits n) \<le> max_int_digits" using nat_digits_length max_int_digits_pos by blast
  moreover have "filter is_digit (nat_digits n) = nat_digits n"
    by (simp add: filter_id_conv nat_digits_digits)
  moreover have "is_digit (hd (nat_digits n))" by (rule nat_digits_digits [of _ n]) simp
  ultimately show ?thesis by (simp add: unsigned_value_def digits_value_nat_digits)
qed

lemma int_text_chars:
  "int_text i \<noteq> []" "c \<in> set (int_text i) \<Longrightarrow> \<not> py_isspace c"
proof -
  show "int_text i \<noteq> []" by (simp add: int_text_def)
  have "\<not> py_isspace (CHR ''-'')" by (simp add: py_isspace_def)
  then show "c \<in> set (int_text i) \<Longrightarrow> \<not> py_isspace c"
    by (auto simp: int_text_def split: if_splits dest: nat_digits_digits digit_not_sign)
qed

lemma py_strip_int_text [simp]: "py_strip (int_text i) = int_text i"
  using int_text_chars(2) by (auto simp: py_strip_def list_all_iff intro!: strip_with_no_space)

lemma py_int_int_text:
  assumes "\<bar>i\<bar> < 10 ^ max_int_digits"
  shows "py_int (int_text i) = Some i"
proof (cases "i < 0")
  case True
  then have "nat (- i) < 10 ^ max_int_digits" using assms by (simp add: nat_less_iff)
  then show ?thesis
    unfolding py_int_def py_strip_int_text
    using True unsigned_value_digits [of "nat (- i)"] by (simp add: int_text_def)
next
  case False
  then have "nat i < 10 ^ max_int_digits" using assms by (simp add: nat_less_iff)
  moreover obtain d ds where "nat_digits (nat i) = d # ds" "is_digit d"
    using nat_digits_digits [of "hd (nat_digits (nat i))" "nat i"] by (cases "nat_digits (nat i)") auto
  ultimately show ?thesis
    unfolding py_int_def py_strip_int_text
    using False unsigned_value_digits [of "nat i"] digit_not_sign by (auto simp: int_text_def)
qed

section \<open>JSON documents\<close>

datatype json =
    JNull
  | JBool bool
  | JInt int
  | JFloat pyfloat
  | JStr string
  | JList "json list"
  | JObj "(string \<times> json) list"

definition hex_digit :: "nat \<Rightarrow> char" where
  "hex_digit n = (if n < 10 then char_of (48 + n) else char_of (87 + n))"

text \<open>The escapes of \<open>json.dumps\<close> with \<open>ensure_ascii=True\<close>.\<close>

definition json_escape_char :: "char \<Rightarrow> string" where
  "json_escape_char c =
     (let n = (of_char c :: nat) in
      if n = 34 then [CHR 0x5C, c]
      else if n = 92 then [CHR 0x5C, c]
      else if n = 10 then [CHR 0x5C, CHR ''n'']
      else if n = 13 then [CHR 0x5C, CHR ''r'']
      else if n = 9 then [CHR 0x5C, CHR ''t'']
      else if n = 8 then [CHR 0x5C, CHR ''b'']
      else if n = 12 then [CHR 0x5C, CHR ''f'']
      else if 32 \<le> n \<and> n \<le> 126 then [c]
      else [CHR 0x5C, CHR ''u'', CHR ''0'', CHR ''0'', hex_digit (n div 16), hex_digit (n mod 16)])"

definition json_quote :: "string \<Rightarrow> string" where
  "json_quote s = CHR 0x22 # concat (map json_escape_char s) @ [CHR 0x22]"

definition json_member :: "string \<times> string \<Rightarrow> string" where
  "json_member kv = json_quote (fst kv) @ '': '' @ snd kv"

fun json_float :: "(rat \<Rightarrow> string) \<Rightarrow> pyfloat \<Rightarrow> string" where
  "json_float r (Fin q) = r q"
| "json_float r PosInf = ''Infinity''"
| "json_float r NegInf = ''-Infinity''"
| "json_float r NaN = ''NaN''"

text \<open>\<open>json.dumps(value, sort_keys=True)\<close>; \<open>r\<close> is \<open>float.__repr__\<close>.\<close>

primrec json_dumps :: "(rat \<Rightarrow> string) \<Rightarrow> json \<Rightarrow> string" where
  "json_dumps r JNull = ''null''"
| "json_dumps r (JBool b) = (if b then ''true'' else ''false'')"
| "json_dumps r (JInt i) = int_text i"
| "json_dumps r (JFloat f) = json_float r f"
| "json_dumps r (JStr s) = json_quote s"
| "json_dumps r (JList xs) = ''['' @ join_with '', '' (map (json_dumps r) xs) @ '']''"
| "json_dumps r (JObj kvs) =
     ''{'' @ join_with '', ''
        (map json_member (sort_key fst (map (map_prod id (json_dumps r)) kvs))) @ ''}''"

text \<open>Every object in the document has distinct keys, as a Python dict has.\<close>

primrec json_ok :: "json \<Rightarrow> bool" where
  "json_ok JNull = True"
| "json_ok (JBool b) = True"
| "json_ok (JInt i) = True"
| "json_ok (JFloat f) = True"
| "json_ok (JStr s) = True"
| "json_ok (JList xs) = list_all id (map json_ok xs)"
| "json_ok (JObj kvs) =
     (distinct (map fst kvs) \<and> list_all (\<lambda>kv. snd kv) (map (map_prod id json_ok) kvs))"

lemma json_ok_list [simp]: "json_ok (JList xs) = (\<forall>x\<in>set xs. json_ok x)"
  by (simp add: list_all_iff)

lemma json_ok_obj [simp]:
  "json_ok (JObj kvs) = (distinct (map fst kvs) \<and> (\<forall>kv\<in>set kvs. json_ok (snd kv)))"
  by (auto simp: list_all_iff)

declare json_ok.simps(6,7) [simp del]

text \<open>The same document up to the order in which object keys were inserted, at every depth.\<close>

inductive json_same :: "json \<Rightarrow> json \<Rightarrow> bool" where
  same_atom: "json_same j j"
| same_list: "list_all2 json_same xs ys \<Longrightarrow> json_same (JList xs) (JList ys)"
| same_obj: "list_all2 (\<lambda>p q. fst p = fst q \<and> json_same (snd p) (snd q)) kvs kvs' \<Longrightarrow>
     mset kvs' = mset kvs'' \<Longrightarrow> json_same (JObj kvs) (JObj kvs'')"
monos list_all2_mono

lemma sort_key_fst_mset:
  assumes "mset xs = mset ys" and "distinct (map fst xs)"
  shows "sort_key fst xs = sort_key fst ys"
proof -
  have "inj_on fst (set xs)" using assms(2) by (simp add: distinct_map)
  moreover have "set (sort_key fst xs) = set xs" by simp
  ultimately show ?thesis
    using assms(1) by (intro sort_key_inj_key_eq) auto
qed

text \<open>
  A function that maps the elements of lists, and the members of objects in the order of their keys,
  does not see the insertion order of keys.
\<close>

lemma json_same_cong:
  assumes lists: "\<And>xs. f (JList xs) = l (map f xs)"
    and objects: "\<And>kvs. f (JObj kvs) = g (sort_key fst (map (map_prod id f) kvs))"
  shows "json_same a b \<Longrightarrow> json_ok a \<Longrightarrow> json_ok b \<Longrightarrow> f a = f b"
proof (induction rule: json_same.induct)
  case (same_atom j)
  show ?case ..
next
  case (same_list xs ys)
  then have "map f xs = map f ys"
    by (auto simp: list_all2_conv_all_nth list_eq_iff_nth_eq)
  then show ?case by (simp add: lists)
next
  case (same_obj kvs kvs' kvs'')
  let ?f = "map_prod id f"
  have keys: "map fst kvs = map fst kvs'"
    using same_obj.IH by (auto simp: list_all2_conv_all_nth list_eq_iff_nth_eq)
  have ok': "json_ok (snd q)" if "q \<in> set kvs'" for q
    using that same_obj.prems(2) same_obj.hyps by (metis json_ok_obj mset_eq_setD)
  have "map ?f kvs = map ?f kvs'"
  proof (rule nth_equalityI)
    show "length (map ?f kvs) = length (map ?f kvs')"
      using same_obj.IH by (simp add: list_all2_lengthD)
    fix i assume "i < length (map ?f kvs)"
    then have i: "i < length kvs" "i < length kvs'"
      using same_obj.IH by (auto simp: list_all2_lengthD)
    then have "fst (kvs ! i) = fst (kvs' ! i)" and "f (snd (kvs ! i)) = f (snd (kvs' ! i))"
      using same_obj.IH same_obj.prems(1) ok' by (auto simp: list_all2_conv_all_nth)
    with i show "map ?f kvs ! i = map ?f kvs' ! i"
      by (simp add: prod_eq_iff)
  qed
  moreover have "mset (map ?f kvs') = mset (map ?f kvs'')"
    using same_obj.hyps by simp
  moreover have "distinct (map fst (map ?f kvs'))"
    using same_obj.prems(1) keys by (simp add: comp_def)
  ultimately have "sort_key fst (map ?f kvs) = sort_key fst (map ?f kvs'')"
    using sort_key_fst_mset by (metis (no_types, lifting))
  then show ?case by (simp add: objects)
qed

text \<open>The canonical text does not depend on the insertion order of keys.\<close>

lemma json_dumps_same:
  "json_same a b \<Longrightarrow> json_ok a \<Longrightarrow> json_ok b \<Longrightarrow> json_dumps r a = json_dumps r b"
  by (rule json_same_cong
      [where l = "\<lambda>ts. ''['' @ join_with '', '' ts @ '']''"
         and g = "\<lambda>kvs. ''{'' @ join_with '', '' (map json_member kvs) @ ''}''"]) simp_all

section \<open>Points in time\<close>

text \<open>
  Microseconds since the epoch. A \<open>datetime\<close> is naive or carries its UTC offset; an argument
  \<open>datetime | str | None\<close> is a \<open>time_arg\<close>.
\<close>

datatype pydt = Naive int | Aware int int

datatype time_arg = NoTime | AtTime pydt | AtText string

definition hours :: "int \<Rightarrow> int" where
  "hours h = h * 3600000000"

section \<open>The runtime\<close>

text \<open>
  What the code takes from outside: the SHA-256 digest of a text in hexadecimal, the identifiers
  \<open>uuid4\<close> returns one after the other, the current time, \<open>datetime.fromisoformat\<close> after
  the replacement of \<open>Z\<close>, the ISO text of a UTC time, \<open>float.__repr__\<close>, and the copy
  that pydantic makes of a JSON value it validates.
\<close>

record runtime =
  rt_sha256 :: "string \<Rightarrow> string"
  rt_uuid4 :: "nat \<Rightarrow> string"
  rt_utcnow :: int
  rt_fromiso :: "string \<Rightarrow> pydt option"
  rt_isoformat :: "int \<Rightarrow> string"
  rt_float_repr :: "rat \<Rightarrow> string"
  rt_pyd_json :: "json \<Rightarrow> json"

fun as_utc :: "pydt \<Rightarrow> int" where
  "as_utc (Naive t) = t"
| "as_utc (Aware t off) = t - off"

text \<open>\<open>_normalize_datetime(value or datetime.now(UTC))\<close>.\<close>

definition normalize_datetime :: "runtime \<Rightarrow> time_arg \<Rightarrow> exn + int" where
  "normalize_datetime rt w =
     (case w of
        NoTime \<Rightarrow> Inr (rt_utcnow rt)
      | AtTime d \<Rightarrow> Inr (as_utc d)
      | AtText s \<Rightarrow>
          (if s = [] then Inr (rt_utcnow rt)
           else case rt_fromiso rt s of None \<Rightarrow> Inl (ValueError ''isoformat'') | Some d \<Rightarrow> Inr (as_utc d)))"

text \<open>\<open>"sha256:" + sha256(f"{tenant_id}:{value}")\<close>: references to subjects, reasons, payments.\<close>

definition scoped_hash :: "runtime \<Rightarrow> string \<Rightarrow> string \<Rightarrow> string" where
  "scoped_hash rt tenant value = ''sha256:'' @ rt_sha256 rt (tenant @ '':'' @ value)"

definition subject_ref_hash :: "runtime \<Rightarrow> string \<Rightarrow> string \<Rightarrow> string" where
  "subject_ref_hash rt tenant subject = scoped_hash rt tenant subject"

end
