(* ===== verification/SharedModels.thy ===== *)
theory SharedModels
  imports Values
begin

text \<open>
  The identifier types of \<open>libs/shared/models.py\<close>: the patterns that pydantic checks after it
  has trimmed a string (\<open>str_strip_whitespace=True\<close>). A validated field holds the trimmed text.
\<close>

definition tenant_char :: "char \<Rightarrow> bool" where
  "tenant_char c \<longleftrightarrow> is_alnum c \<or> c \<in> {CHR ''.'', CHR ''_'', CHR '':'', CHR ''-''}"

definition token_char :: "char \<Rightarrow> bool" where
  "token_char c \<longleftrightarrow> is_alnum c \<or> c \<in> {CHR ''.'', CHR ''_'', CHR '':'', CHR ''/'', CHR ''-''}"

definition word_char :: "char \<Rightarrow> bool" where
  "word_char c \<longleftrightarrow> is_lower c \<or> is_digit c \<or> c = CHR ''_''"

text \<open>\<open>TENANT_ID_PATTERN_TEXT\<close>, \<open>TOKEN_PATTERN_TEXT\<close>, \<open>EVENT_TYPE_PATTERN_TEXT\<close>
  and \<open>AUDIT_HASH_PATTERN_TEXT\<close>, with the length bounds of the annotated types.\<close>

definition tenant_id_ok :: "string \<Rightarrow> bool" where
  "tenant_id_ok s \<longleftrightarrow> head_tail is_alnum tenant_char 63 s"

definition token_ok :: "string \<Rightarrow> bool" where
  "token_ok s \<longleftrightarrow> head_tail is_alnum token_char 127 s"

definition word_ok :: "string \<Rightarrow> bool" where
  "word_ok s \<longleftrightarrow> head_tail is_lower word_char (length s) s"

definition event_type_shape :: "string \<Rightarrow> bool" where
  "event_type_shape s \<longleftrightarrow>
     (let ws = split_on (CHR ''.'') s in 2 \<le> length ws \<and> list_all word_ok ws)"

definition event_type_ok :: "string \<Rightarrow> bool" where
  "event_type_ok s \<longleftrightarrow> 3 \<le> length s \<and> length s \<le> 128 \<and> event_type_shape s"

definition audit_hash_ok :: "string \<Rightarrow> bool" where
  "audit_hash_ok s \<longleftrightarrow> length s = 64 \<and> list_all is_hex s"

text \<open>\<open>^\d{4}-(0[1-9]|1[0-2])$\<close>.\<close>

definition period_ok :: "string \<Rightarrow> bool" where
  "period_ok s \<longleftrightarrow>
     length s = 7 \<and> list_all is_digit (take 4 s) \<and> s ! 4 = CHR ''-'' \<and>
     (s ! 5 = CHR ''0'' \<and> is_digit (s ! 6) \<and> s ! 6 \<noteq> CHR ''0'' \<or>
      s ! 5 = CHR ''1'' \<and> s ! 6 \<in> {CHR ''0'', CHR ''1'', CHR ''2''})"

text \<open>Optional fields: \<open>None\<close> is accepted as it is.\<close>

definition optional_ok :: "('a \<Rightarrow> bool) \<Rightarrow> 'a option \<Rightarrow> bool" where
  "optional_ok p x \<longleftrightarrow> (case x of None \<Rightarrow> True | Some y \<Rightarrow> p y)"

lemma optional_ok_simps [simp]:
  "optional_ok p None" "optional_ok p (Some y) = p y"
  by (simp_all add: optional_ok_def)

text \<open>\<open>Field(min_length=lo, max_length=hi)\<close>.\<close>

definition length_between :: "nat \<Rightarrow> nat \<Rightarrow> string \<Rightarrow> bool" where
  "length_between lo hi s \<longleftrightarrow> lo \<le> length s \<and> length s \<le> hi"

text \<open>A pydantic model either is built from the trimmed fields or raises.\<close>

definition model :: "string \<Rightarrow> bool \<Rightarrow> 'a \<Rightarrow> exn + 'a" where
  "model name ok x = (if ok then Inr x else Inl (ValidationError name))"

lemma model_Inr [simp]: "model n ok x = Inr y \<longleftrightarrow> ok \<and> y = x"
  by (auto simp: model_def)

lemma model_Inl [simp]: "model n ok x = Inl e \<longleftrightarrow> \<not> ok \<and> e = ValidationError n"
  by (auto simp: model_def)

section \<open>Valid identifiers\<close>

lemma tenant_char_not_space [simp]: "tenant_char c \<Longrightarrow> \<not> py_isspace c" "tenant_char c \<Longrightarrow> \<not> uni_space c"
  by (auto simp: tenant_char_def char_class_defs Let_def)

lemma token_char_not_space [simp]: "token_char c \<Longrightarrow> \<not> py_isspace c" "token_char c \<Longrightarrow> \<not> uni_space c"
  by (auto simp: token_char_def char_class_defs Let_def)

lemma tenant_id_chars: "tenant_id_ok s \<Longrightarrow> list_all tenant_char s"
  by (auto simp: tenant_id_ok_def list_all_iff tenant_char_def dest: head_tail_chars)

lemma token_chars: "token_ok s \<Longrightarrow> list_all token_char s"
  by (auto simp: token_ok_def list_all_iff token_char_def dest: head_tail_chars)

lemma tenant_id_strip [simp]: "tenant_id_ok s \<Longrightarrow> pyd_strip s = s" "tenant_id_ok s \<Longrightarrow> py_strip s = s"
  using tenant_id_chars [of s]
  by (auto simp: pyd_strip_def py_strip_def list_all_iff intro!: strip_with_no_space)

lemma token_strip [simp]: "token_ok s \<Longrightarrow> pyd_strip s = s" "token_ok s \<Longrightarrow> py_strip s = s"
  using token_chars [of s]
  by (auto simp: pyd_strip_def py_strip_def list_all_iff intro!: strip_with_no_space)

lemma tenant_id_nonempty [simp]: "\<not> tenant_id_ok []"
  by (simp add: tenant_id_ok_def)

lemma token_nonempty [simp]: "\<not> token_ok []"
  by (simp add: token_ok_def)

lemma word_not_space: "word_ok w \<Longrightarrow> c \<in> set w \<Longrightarrow> \<not> py_isspace c \<and> \<not> uni_space c"
  by (cases w) (auto simp: word_ok_def list_all_iff word_char_def char_class_defs Let_def)

lemma split_on_chars: "c \<in> set s \<Longrightarrow> c = d \<or> (\<exists>w\<in>set (split_on d s). c \<in> set w)"
proof (induction s)
  case (Cons x xs)
  then show ?case by (cases "split_on d xs") auto
qed simp

text \<open>Names made of dotted words hold no white space.\<close>

lemma dotted_no_space:
  assumes "list_all word_ok (split_on (CHR ''.'') s)" and "c \<in> set s"
  shows "\<not> py_isspace c \<and> \<not> uni_space c"
  using split_on_chars [OF assms(2), of "CHR ''.''"] assms(1) word_not_space
  by (auto simp: list_all_iff char_class_defs Let_def)

lemma event_type_no_space: "event_type_shape s \<Longrightarrow> c \<in> set s \<Longrightarrow> \<not> py_isspace c"
  using dotted_no_space by (auto simp: event_type_shape_def Let_def)

end
