(* ===== verification/AuditLog.thy ===== *)
theory AuditLog
  imports SharedModels
begin

text \<open>
  \<open>libs/shared/audit_logger.py\<close>: the payload of an audit event, its canonical JSON text, the
  SHA-256 audit hash over it, and \<open>AuditLogger.record\<close>, which builds a record and hands it to
  the configured sink. The sink is the in-memory one, or none.
\<close>

datatype number = NInt int | NFloat pyfloat

record audit_payload =
  ap_event_type :: string
  ap_tenant_id :: string
  ap_points :: "number option"
  ap_metadata :: "(string \<times> json) list"
  ap_timestamp :: int

record audit_record = audit_payload +
  ar_audit_hash :: string
  ar_correlation_id :: "string option"
  ar_actor_hash :: "string option"
  ar_source :: "string option"

record audit_state =
  audit_sink :: "audit_record list option"

text \<open>\<open>json.loads(json.dumps(value, sort_keys=True))\<close>: a copy with the keys in order.\<close>

primrec json_sorted :: "json \<Rightarrow> json" where
  "json_sorted JNull = JNull"
| "json_sorted (JBool b) = JBool b"
| "json_sorted (JInt i) = JInt i"
| "json_sorted (JFloat f) = JFloat f"
| "json_sorted (JStr s) = JStr s"
| "json_sorted (JList xs) = JList (map json_sorted xs)"
| "json_sorted (JObj kvs) = JObj (sort_key fst (map (map_prod id json_sorted) kvs))"

fun obj_members :: "json \<Rightarrow> (string \<times> json) list" where
  "obj_members (JObj kvs) = kvs"
| "obj_members _ = []"

definition clone_metadata :: "(string \<times> json) list option \<Rightarrow> (string \<times> json) list" where
  "clone_metadata m = (case m of None \<Rightarrow> [] | Some kvs \<Rightarrow> obj_members (json_sorted (JObj kvs)))"

definition normalize_tenant_id :: "string \<Rightarrow> exn + string" where
  "normalize_tenant_id s =
     (if head_tail is_alnum tenant_char 63 s then Inr s else Inl (ValueError ''tenant_id''))"

definition normalize_timestamp :: "runtime \<Rightarrow> time_arg \<Rightarrow> exn + int" where
  "normalize_timestamp rt w =
     (case w of
        NoTime \<Rightarrow> Inr (rt_utcnow rt)
      | AtTime d \<Rightarrow> Inr (as_utc d)
      | AtText s \<Rightarrow>
          (if py_strip s = [] then Inl (ValueError ''timestamp'')
           else case rt_fromiso rt s of None \<Rightarrow> Inl (ValueError ''isoformat'') | Some d \<Rightarrow> Inr (as_utc d)))"

definition number_json :: "number option \<Rightarrow> json" where
  "number_json p = (case p of None \<Rightarrow> JNull | Some (NInt i) \<Rightarrow> JInt i | Some (NFloat f) \<Rightarrow> JFloat f)"

definition to_hash_payload :: "runtime \<Rightarrow> audit_payload \<Rightarrow> json" where
  "to_hash_payload rt p =
     JObj [(''event_type'', JStr (ap_event_type p)),
           (''tenant_id'', JStr (ap_tenant_id p)),
           (''points'', number_json (ap_points p)),
           (''metadata'', JObj (ap_metadata p)),
           (''timestamp'', JStr (rt_isoformat rt (ap_timestamp p)))]"

definition canonical_audit_json :: "runtime \<Rightarrow> audit_payload \<Rightarrow> string" where
  "canonical_audit_json rt p = json_dumps (rt_float_repr rt) (to_hash_payload rt p)"

definition audit_hash_from_payload :: "runtime \<Rightarrow> audit_payload \<Rightarrow> string" where
  "audit_hash_from_payload rt p = rt_sha256 rt (canonical_audit_json rt p)"

definition build_audit_payload ::
    "runtime \<Rightarrow> string \<Rightarrow> string \<Rightarrow> number option \<Rightarrow> (string \<times> json) list option \<Rightarrow> time_arg
     \<Rightarrow> exn + audit_payload" where
  "build_audit_payload rt event_type tenant_id points metadata timestamp =
     (ebind (normalize_tenant_id tenant_id) (\<lambda>tenant.
      ebind (normalize_timestamp rt timestamp) (\<lambda>ts.
      model ''AuditPayload'' (event_type_ok (pyd_strip event_type) \<and> tenant_id_ok (pyd_strip tenant))
        \<lparr>ap_event_type = pyd_strip event_type, ap_tenant_id = pyd_strip tenant, ap_points = points,
         ap_metadata = obj_members (rt_pyd_json rt (JObj (clone_metadata metadata))),
         ap_timestamp = ts\<rparr>)))"

definition audit_hash ::
    "runtime \<Rightarrow> string \<Rightarrow> string \<Rightarrow> number option \<Rightarrow> (string \<times> json) list option \<Rightarrow> time_arg
     \<Rightarrow> exn + string" where
  "audit_hash rt event_type tenant_id points metadata timestamp =
     (ebind (build_audit_payload rt event_type tenant_id points metadata timestamp) (\<lambda>p. Inr (audit_hash_from_payload rt p)))"

definition audit_log_record ::
    "runtime \<Rightarrow> audit_payload \<Rightarrow> string option \<Rightarrow> string option \<Rightarrow> string option \<Rightarrow> exn + audit_record" where
  "audit_log_record rt p correlation_id actor_hash source =
     (let h = audit_hash_from_payload rt p; cid = map_option pyd_strip correlation_id in
      model ''AuditLogRecord'' (audit_hash_ok (pyd_strip h) \<and> optional_ok token_ok cid)
        \<lparr>ap_event_type = ap_event_type p, ap_tenant_id = ap_tenant_id p, ap_points = ap_points p,
         ap_metadata = obj_members (rt_pyd_json rt (JObj (ap_metadata p))),
         ap_timestamp = ap_timestamp p,
         ar_audit_hash = pyd_strip h, ar_correlation_id = cid,
         ar_actor_hash = map_option pyd_strip actor_hash,
         ar_source = map_option pyd_strip source\<rparr>)"

definition sink_record :: "audit_record \<Rightarrow> ('z audit_state_scheme, unit) act" where
  "sink_record r = modify (\<lambda>s. s\<lparr>audit_sink := map_option (\<lambda>rs. rs @ [r]) (audit_sink s)\<rparr>)"

text \<open>\<open>AuditLogger.record\<close>.\<close>

definition audit_log ::
    "runtime \<Rightarrow> string \<Rightarrow> string \<Rightarrow> number option \<Rightarrow> (string \<times> json) list option \<Rightarrow> time_arg
     \<Rightarrow> string option \<Rightarrow> string option \<Rightarrow> string option \<Rightarrow> ('z audit_state_scheme, audit_record) act" where
  "audit_log rt event_type tenant_id points metadata timestamp correlation_id actor_hash source =
     bnd (lift (build_audit_payload rt event_type tenant_id points metadata timestamp)) (\<lambda>p.
     bnd (lift (audit_log_record rt p correlation_id actor_hash source)) (\<lambda>r.
     bnd (sink_record r) (\<lambda>_. ret r)))"

section \<open>What a call of the logger does\<close>

text \<open>The records that a call of the logger can produce, and the one place it writes.\<close>

definition audit_record_of ::
    "string \<Rightarrow> string option \<Rightarrow> audit_record \<Rightarrow> bool" where
  "audit_record_of tenant cid r \<longleftrightarrow>
     audit_hash_ok (ar_audit_hash r) \<and> tenant_id_ok tenant \<and> ap_tenant_id r = tenant \<and>
     optional_ok token_ok (map_option pyd_strip cid)"

definition sink_append :: "audit_record \<Rightarrow> 'z audit_state_scheme \<Rightarrow> 'z audit_state_scheme" where
  "sink_append r s = s\<lparr>audit_sink := map_option (\<lambda>rs. rs @ [r]) (audit_sink s)\<rparr>"

lemma audit_log_record_Inr:
  assumes "build_audit_payload rt et ten pts md ts = Inr p"
    and "audit_log_record rt p cid ah src = Inr r"
  shows "audit_record_of ten cid r"
  using assms
  by (auto simp: audit_record_of_def build_audit_payload_def audit_log_record_def Let_def
      normalize_tenant_id_def tenant_id_ok_def split: sum.splits if_splits)

text \<open>The exceptions of the logger are those of its validation.\<close>

definition plain_error :: "exn \<Rightarrow> bool" where
  "plain_error e \<longleftrightarrow> (\<exists>l. e = ValueError l \<or> e = ValidationError l)"

lemma plain_error_simps [simp]: "plain_error (ValueError l)" "plain_error (ValidationError l)"
  "\<not> plain_error (PayoutConnectorError n c r)"
  by (auto simp: plain_error_def)

lemma normalize_timestamp_Inl: "normalize_timestamp rt w = Inl e \<Longrightarrow> plain_error e"
  by (auto simp: normalize_timestamp_def split: time_arg.splits if_splits option.splits)

lemma build_audit_payload_Inl:
  "build_audit_payload rt et ten pts md ts = Inl e \<Longrightarrow> plain_error e"
  by (auto simp: build_audit_payload_def normalize_tenant_id_def ebind_Inl split: if_splits
      dest: normalize_timestamp_Inl)

lemma audit_log_record_Inl: "audit_log_record rt p cid ah src = Inl e \<Longrightarrow> plain_error e"
  by (auto simp: audit_log_record_def Let_def)

lemma audit_log_rule [act_rules]:
  assumes "\<And>e. plain_error e \<Longrightarrow> Q (Inl e) s"
    and "\<And>r. audit_record_of ten cid r \<Longrightarrow> Q (Inr r) (sink_append r s)"
  shows "outcome (audit_log rt et ten pts md ts cid ah src) Q s"
  using assms
  by (auto simp: audit_log_def act_simps sink_record_def sink_append_def
      split: sum.splits dest!: audit_log_record_Inr build_audit_payload_Inl audit_log_record_Inl)

lemma normalize_tenant_id_Inr [simp]: "normalize_tenant_id s = Inr t \<longleftrightarrow> tenant_id_ok s \<and> t = s"
  by (auto simp: normalize_tenant_id_def tenant_id_ok_def)

text \<open>The copy of the metadata, and with it the audit hash, does not see the insertion order of keys.\<close>

lemma json_sorted_same:
  "json_same a b \<Longrightarrow> json_ok a \<Longrightarrow> json_ok b \<Longrightarrow> json_sorted a = json_sorted b"
  by (rule json_same_cong [where l = JList and g = JObj]) simp_all

section \<open>Models as JSON\<close>

text \<open>
  \<open>model_dump(mode="json", exclude_none=True)\<close>; how pydantic writes an instant and a JSON value
  in this mode is a parameter.
\<close>

record json_mode =
  jm_time :: "int \<Rightarrow> string"
  jm_value :: "json \<Rightarrow> json"

definition opt_member :: "string \<Rightarrow> ('a \<Rightarrow> json) \<Rightarrow> 'a option \<Rightarrow> (string \<times> json) list" where
  "opt_member name f v = (case v of None \<Rightarrow> [] | Some x \<Rightarrow> [(name, f x)])"

end
