(* ===== verification/Events.thy ===== *)
theory Events
  imports AuditLog
begin

text \<open>
  \<open>libs/shared/events.py\<close>: the event envelope and its normalisation, routing keys and topic
  patterns, the in-memory event bus, and the idempotent inbox. The record \<open>svc\<close> is the state
  that every service shares: the audit sink, the bus, and how many identifiers were drawn.
\<close>

section \<open>Normalisation of tokens\<close>

definition normalize_token :: "string \<Rightarrow> string \<Rightarrow> exn + string" where
  "normalize_token value label =
     (let n = py_strip value in
      if n = [] then Inl (ValueError label)
      else if list_ex py_isspace n then Inl (ValueError label)
      else Inr n)"

definition normalize_routing_segment :: "string \<Rightarrow> string \<Rightarrow> exn + string" where
  "normalize_routing_segment value label =
     (ebind (normalize_token value label) (\<lambda>n. if CHR ''.'' \<in> set n then Inl (ValueError label) else Inr n))"

definition normalize_event_type :: "string \<Rightarrow> exn + string" where
  "normalize_event_type event_type =
     (let n = py_strip event_type in if event_type_shape n then Inr n else Inl (ValueError ''type''))"

text \<open>\<open>^\d+\.\d+$\<close>.\<close>

definition schema_version_shape :: "string \<Rightarrow> bool" where
  "schema_version_shape s \<longleftrightarrow>
     (let ws = split_on (CHR ''.'') s in
      length ws = 2 \<and> list_all (\<lambda>w. w \<noteq> [] \<and> list_all is_digit w) ws)"

definition normalize_schema_version :: "string \<Rightarrow> exn + string" where
  "normalize_schema_version v =
     (let n = py_strip v in if schema_version_shape n then Inr n else Inl (ValueError ''schema_version''))"

definition normalize_binding_key :: "string \<Rightarrow> exn + string" where
  "normalize_binding_key k = normalize_token k ''binding_key''"

fun event_datetime :: "pydt \<Rightarrow> exn + int" where
  "event_datetime (Naive t) = Inl (ValueError ''occurred_at'')"
| "event_datetime (Aware t off) = Inr (t - off)"

section \<open>The envelope\<close>

record envelope =
  ev_event_id :: string
  ev_type :: string
  ev_schema_version :: string
  ev_tenant_id :: string
  ev_source :: string
  ev_correlation_id :: string
  ev_occurred_at :: int
  ev_payload :: "(string \<times> json) list"
  ev_causation_id :: "string option"

text \<open>\<open>EventEnvelope.__post_init__\<close>: the fields are normalised one after the other and the first
  that fails decides the exception.\<close>

definition event_envelope ::
    "string \<Rightarrow> string \<Rightarrow> string \<Rightarrow> string \<Rightarrow> string \<Rightarrow> string \<Rightarrow> pydt \<Rightarrow> (string \<times> json) list
     \<Rightarrow> string option \<Rightarrow> exn + envelope" where
  "event_envelope event_id type schema_version tenant_id source correlation_id occurred_at payload causation_id =
     (ebind (normalize_token event_id ''event_id'') (\<lambda>eid.
      ebind (normalize_event_type type) (\<lambda>ty.
      ebind (normalize_schema_version schema_version) (\<lambda>sv.
      ebind (normalize_routing_segment tenant_id ''tenant_id'') (\<lambda>ten.
      ebind (normalize_token source ''source'') (\<lambda>src.
      ebind (normalize_token correlation_id ''correlation_id'') (\<lambda>cid.
      ebind (event_datetime occurred_at) (\<lambda>occ.
      ebind ((case causation_id of None \<Rightarrow> Inr None
            | Some c \<Rightarrow> map_sum id Some (normalize_token c ''causation_id''))) (\<lambda>cau.
      Inr \<lparr>ev_event_id = eid, ev_type = ty, ev_schema_version = sv, ev_tenant_id = ten,
           ev_source = src, ev_correlation_id = cid, ev_occurred_at = occ, ev_payload = payload,
           ev_causation_id = cau\<rparr>)))))))))"

definition event_routing_key :: "string \<Rightarrow> string \<Rightarrow> exn + string" where
  "event_routing_key tenant_id event_type =
     (ebind (normalize_routing_segment tenant_id ''tenant_id'') (\<lambda>ten.
      ebind (normalize_event_type event_type) (\<lambda>ty.
      Inr (''tenant.'' @ ten @ ''.'' @ ty))))"

definition routing_key :: "envelope \<Rightarrow> exn + string" where
  "routing_key e = event_routing_key (ev_tenant_id e) (ev_type e)"

definition envelope_to_dict :: "runtime \<Rightarrow> envelope \<Rightarrow> (string \<times> json) list" where
  "envelope_to_dict rt e =
     [(''event_id'', JStr (ev_event_id e)),
      (''type'', JStr (ev_type e)),
      (''schema_version'', JStr (ev_schema_version e)),
      (''tenant_id'', JStr (ev_tenant_id e)),
      (''source'', JStr (ev_source e)),
      (''correlation_id'', JStr (ev_correlation_id e)),
      (''occurred_at'', JStr (rt_isoformat rt (ev_occurred_at e))),
      (''payload'', JObj (ev_payload e))]
     @ (case ev_causation_id e of None \<Rightarrow> [] | Some c \<Rightarrow> [(''causation_id'', JStr c)])"

definition required_string :: "(string \<times> json) list \<Rightarrow> string \<Rightarrow> exn + string" where
  "required_string d k = (case map_of d k of Some (JStr s) \<Rightarrow> Inr s | _ \<Rightarrow> Inl (ValueError k))"

definition optional_string :: "(string \<times> json) list \<Rightarrow> string \<Rightarrow> exn + string option" where
  "optional_string d k =
     (case map_of d k of
        None \<Rightarrow> Inr None | Some JNull \<Rightarrow> Inr None
      | Some (JStr s) \<Rightarrow> Inr (Some s) | Some _ \<Rightarrow> Inl (ValueError k))"

definition parse_event_datetime :: "runtime \<Rightarrow> string \<Rightarrow> exn + pydt" where
  "parse_event_datetime rt s =
     (case rt_fromiso rt s of None \<Rightarrow> Inl (ValueError ''isoformat'')
      | Some d \<Rightarrow> map_sum id (\<lambda>t. Aware t 0) (event_datetime d))"

definition envelope_from_dict :: "runtime \<Rightarrow> (string \<times> json) list \<Rightarrow> exn + envelope" where
  "envelope_from_dict rt d =
     (case map_of d ''payload'' of
        Some (JObj payload) \<Rightarrow>
         (ebind (required_string d ''event_id'') (\<lambda>eid.
          ebind (required_string d ''type'') (\<lambda>ty.
          ebind (required_string d ''schema_version'') (\<lambda>sv.
          ebind (required_string d ''tenant_id'') (\<lambda>ten.
          ebind (required_string d ''source'') (\<lambda>src.
          ebind (required_string d ''correlation_id'') (\<lambda>cid.
          ebind (required_string d ''occurred_at'') (\<lambda>occ.
          ebind (parse_event_datetime rt occ) (\<lambda>dt.
          ebind (optional_string d ''causation_id'') (\<lambda>cau.
          event_envelope eid ty sv ten src cid dt payload cau))))))))))
      | _ \<Rightarrow> Inl (ValueError ''payload''))"

section \<open>Topics\<close>

fun topic_parts_match :: "string list \<Rightarrow> string list \<Rightarrow> bool" where
  "topic_parts_match [] routing = (routing = [])"
| "topic_parts_match (h # tail) routing =
     (if h = ''#'' then
        (if tail = [] then True
         else list_ex (\<lambda>i. topic_parts_match tail (drop i routing)) [0 ..< Suc (length routing)])
      else if routing = [] then False
      else if h = ''*'' \<or> h = hd routing then topic_parts_match tail (tl routing)
      else False)"

definition topic_matches :: "string \<Rightarrow> string \<Rightarrow> exn + bool" where
  "topic_matches binding routing =
     (ebind (normalize_binding_key binding) (\<lambda>b.
      ebind (normalize_binding_key routing) (\<lambda>r.
      Inr (topic_parts_match (split_on (CHR ''.'') b) (split_on (CHR ''.'') r)))))"

text \<open>The AMQP meaning: a star is one word, a hash is any number of words.\<close>

inductive topic_spec :: "string list \<Rightarrow> string list \<Rightarrow> bool" where
  topic_nil: "topic_spec [] []"
| topic_star: "topic_spec bs rs \<Longrightarrow> topic_spec (''*'' # bs) (r # rs)"
| topic_word: "topic_spec bs rs \<Longrightarrow> w \<noteq> ''#'' \<Longrightarrow> topic_spec (w # bs) (w # rs)"
| topic_hash_none: "topic_spec bs rs \<Longrightarrow> topic_spec (''#'' # bs) rs"
| topic_hash_more: "topic_spec (''#'' # bs) rs \<Longrightarrow> topic_spec (''#'' # bs) (r # rs)"

inductive_simps topic_spec_Nil: "topic_spec [] rs"

lemma topic_spec_hash_drop: "topic_spec bs (drop i rs) \<Longrightarrow> topic_spec (''#'' # bs) rs"
proof (induction i arbitrary: rs)
  case 0
  then show ?case by (simp add: topic_hash_none)
next
  case (Suc i)
  then show ?case
    by (cases rs) (auto intro: topic_hash_none topic_hash_more)
qed

lemma topic_spec_hash_iff:
  "topic_spec (''#'' # bs) rs \<longleftrightarrow> (\<exists>i\<le>length rs. topic_spec bs (drop i rs))"
proof
  have "topic_spec xs rs \<Longrightarrow> xs = ''#'' # bs \<Longrightarrow> \<exists>i\<le>length rs. topic_spec bs (drop i rs)" for xs
  proof (induction rule: topic_spec.induct)
    case (topic_hash_none cs rs)
    then show ?case by (intro exI [of _ 0]) simp
  next
    case (topic_hash_more cs rs r)
    then obtain i where "i \<le> length rs" "topic_spec bs (drop i rs)" by auto
    then show ?case by (intro exI [of _ "Suc i"]) simp
  qed auto
  then show "topic_spec (''#'' # bs) rs \<Longrightarrow> \<exists>i\<le>length rs. topic_spec bs (drop i rs)" by simp
qed (auto intro: topic_spec_hash_drop)

lemma topic_spec_hash_all: "topic_spec [''#''] rs"
  by (induction rs) (auto intro: topic_spec.intros)

lemma topic_spec_word_iff:
  "h \<noteq> ''#'' \<Longrightarrow>
     topic_spec (h # bs) rs \<longleftrightarrow> rs \<noteq> [] \<and> (h = ''*'' \<or> h = hd rs) \<and> topic_spec bs (tl rs)"
  by (cases rs) (auto elim: topic_spec.cases intro: topic_spec.intros)

lemma topic_parts_match_spec: "topic_parts_match bs rs = topic_spec bs rs"
proof (induction bs rs rule: topic_parts_match.induct)
  case (1 rs)
  show ?case by (auto simp: topic_spec_Nil)
next
  case (2 h tail rs)
  show ?case
  proof (cases "h = ''#''")
    case True
    then show ?thesis
      using "2.IH"(1)
      by (cases "tail = []")
        (simp add: topic_spec_hash_all,
         auto simp: topic_spec_hash_iff list_ex_iff less_Suc_eq_le simp del: upt_Suc)
  next
    case False
    then show ?thesis using "2.IH"(2) by (auto simp: topic_spec_word_iff)
  qed
qed


section \<open>The in-memory bus\<close>

record published =
  pub_envelope :: envelope
  pub_routing_key :: string

definition published_event :: "envelope \<Rightarrow> exn + published" where
  "published_event e = map_sum id (\<lambda>k. \<lparr>pub_envelope = e, pub_routing_key = k\<rparr>) (routing_key e)"

fun consume_loop ::
    "string \<Rightarrow> nat option \<Rightarrow> published list \<Rightarrow> envelope list \<Rightarrow> published list
     \<Rightarrow> exn + (envelope list \<times> published list)" where
  "consume_loop binding limit [] consumed remaining = Inr (consumed, remaining)"
| "consume_loop binding limit (m # ms) consumed remaining =
     (if (case limit of None \<Rightarrow> True | Some n \<Rightarrow> length consumed < n) then
        (case topic_matches binding (pub_routing_key m) of
           Inl e \<Rightarrow> Inl e
         | Inr True \<Rightarrow> consume_loop binding limit ms (consumed @ [pub_envelope m]) remaining
         | Inr False \<Rightarrow> consume_loop binding limit ms consumed (remaining @ [m]))
      else consume_loop binding limit ms consumed (remaining @ [m]))"

definition bus_consume ::
    "string \<Rightarrow> int option \<Rightarrow> (published list, envelope list) act" where
  "bus_consume binding limit ms =
     (if (case limit of None \<Rightarrow> False | Some n \<Rightarrow> n \<le> 0) then (Inl (ValueError ''limit''), ms)
      else case consume_loop binding (map_option nat limit) ms [] [] of
             Inl e \<Rightarrow> (Inl e, ms)
           | Inr (consumed, remaining) \<Rightarrow> (Inr consumed, remaining))"

definition bus_match :: "string \<Rightarrow> published \<Rightarrow> bool" where
  "bus_match binding m \<longleftrightarrow> topic_matches binding (pub_routing_key m) = Inr True"

text \<open>Splitting a list at the first \<open>n\<close> elements that satisfy a predicate.\<close>

fun split_first :: "nat \<Rightarrow> ('a \<Rightarrow> bool) \<Rightarrow> 'a list \<Rightarrow> 'a list \<times> 'a list" where
  "split_first n p [] = ([], [])"
| "split_first n p (x # xs) =
     (if n \<noteq> 0 \<and> p x then map_prod (Cons x) id (split_first (n - 1) p xs)
      else map_prod id (Cons x) (split_first n p xs))"

lemma split_first_taken: "fst (split_first n p xs) = take n (filter p xs)"
proof (induction xs arbitrary: n)
  case (Cons x xs)
  then show ?case by (cases n) auto
qed simp

lemma split_first_mset: "mset (fst (split_first n p xs)) + mset (snd (split_first n p xs)) = mset xs"
  by (induction n p xs rule: split_first.induct) auto

lemma split_first_rest: "filter (\<lambda>x. \<not> p x) (snd (split_first n p xs)) = filter (\<lambda>x. \<not> p x) xs"
  by (induction n p xs rule: split_first.induct) auto

lemma split_first_all: "length xs \<le> n \<Longrightarrow> split_first n p xs = (filter p xs, filter (\<lambda>x. \<not> p x) xs)"
  by (induction xs arbitrary: n) (auto simp: Suc_le_eq)

lemma consume_loop_split:
  assumes "\<And>m. m \<in> set ms \<Longrightarrow> \<exists>b. topic_matches binding (pub_routing_key m) = Inr b"
    and "n = (case limit of None \<Rightarrow> length ms | Some l \<Rightarrow> l - length consumed)"
  shows "consume_loop binding limit ms consumed remaining =
     Inr (consumed @ map pub_envelope (fst (split_first n (bus_match binding) ms)),
          remaining @ snd (split_first n (bus_match binding) ms))"
  using assms
proof (induction ms arbitrary: consumed remaining n)
  case Nil
  then show ?case by simp
next
  case (Cons m ms)
  obtain b where b: "topic_matches binding (pub_routing_key m) = Inr b"
    using Cons.prems(1) by (meson list.set_intros(1))
  let ?k = "\<lambda>c. case limit of None \<Rightarrow> length ms | Some l \<Rightarrow> l - length c"
  have IH: "consume_loop binding limit ms c r =
      Inr (c @ map pub_envelope (fst (split_first (?k c) (bus_match binding) ms)),
           r @ snd (split_first (?k c) (bus_match binding) ms))" for c r
    using Cons.IH [OF _ refl, of c r] Cons.prems(1) by auto
  have m: "bus_match binding m = b"
    using b by (simp add: bus_match_def)
  show ?case
  proof (cases limit)
    case None
    then show ?thesis using b m IH Cons.prems(2)
      by (cases b) (auto simp: split_first_all)
  next
    case (Some l)
    then show ?thesis using b m IH Cons.prems(2)
      by (cases b; cases "l \<le> length consumed") (auto simp: Suc_diff_Suc)
  qed
qed

section \<open>The state that services share\<close>

record svc = audit_state +
  uuids :: nat
  bus :: "published list"

text \<open>\<open>f"{prefix}-{uuid4()}"\<close>, and \<open>given or _new_id(prefix)\<close>: an empty text counts as absent.\<close>

definition new_id :: "runtime \<Rightarrow> string \<Rightarrow> ('z svc_scheme, string) act" where
  "new_id rt prefix =
     bnd (gets uuids) (\<lambda>n.
     bnd (modify (\<lambda>s. s\<lparr>uuids := Suc (uuids s)\<rparr>)) (\<lambda>_.
     ret (prefix @ ''-'' @ rt_uuid4 rt n)))"

definition id_or_new :: "runtime \<Rightarrow> string option \<Rightarrow> string \<Rightarrow> ('z svc_scheme, string) act" where
  "id_or_new rt given prefix =
     (case given of None \<Rightarrow> new_id rt prefix | Some s \<Rightarrow> if s = [] then new_id rt prefix else ret s)"

text \<open>\<open>InMemoryEventBus.publish\<close>.\<close>

definition publish :: "envelope \<Rightarrow> ('z svc_scheme, unit) act" where
  "publish e =
     bnd (lift (published_event e)) (\<lambda>m.
     modify (\<lambda>s. s\<lparr>bus := bus s @ [m]\<rparr>))"

text \<open>Construct an envelope and publish it, as every service does at the end of an operation.\<close>

definition emit ::
    "string \<Rightarrow> string \<Rightarrow> string \<Rightarrow> string \<Rightarrow> string \<Rightarrow> string \<Rightarrow> int \<Rightarrow> (string \<times> json) list
     \<Rightarrow> string option \<Rightarrow> ('z svc_scheme, envelope) act" where
  "emit event_id type schema_version tenant_id source correlation_id occurred_at payload causation_id =
     bnd (lift (event_envelope event_id type schema_version tenant_id source correlation_id
                 (Aware occurred_at 0) payload causation_id)) (\<lambda>e.
     bnd (publish e) (\<lambda>_. ret e))"

text \<open>
  The part of a state that these operations leave alone, and \<open>svc_grows s t\<close>: from \<open>s\<close>
  to \<open>t\<close> only the audit sink, the bus and the identifier count have changed, and grown.
\<close>

definition svc_rest :: "'z svc_scheme \<Rightarrow> 'z svc_scheme" where
  "svc_rest s = s\<lparr>audit_sink := None, uuids := 0, bus := []\<rparr>"

definition sink_grows :: "audit_record list option \<Rightarrow> audit_record list option \<Rightarrow> bool" where
  "sink_grows a b \<longleftrightarrow> (case a of None \<Rightarrow> b = None | Some rs \<Rightarrow> (\<exists>rs'. b = Some (rs @ rs')))"

definition svc_grows :: "'z svc_scheme \<Rightarrow> 'z svc_scheme \<Rightarrow> bool" where
  "svc_grows s t \<longleftrightarrow>
     svc_rest t = svc_rest s \<and> uuids s \<le> uuids t \<and> (\<exists>ms. bus t = bus s @ ms) \<and>
     sink_grows (audit_sink s) (audit_sink t)"

lemma sink_grows_refl [simp]: "sink_grows a a"
  by (auto simp: sink_grows_def split: option.splits)

lemma sink_grows_trans: "sink_grows a b \<Longrightarrow> sink_grows b c \<Longrightarrow> sink_grows a c"
  by (auto simp: sink_grows_def split: option.splits)

lemma svc_grows_refl [simp]: "svc_grows s s"
  by (simp add: svc_grows_def)

lemma svc_grows_trans: "svc_grows s t \<Longrightarrow> svc_grows t u \<Longrightarrow> svc_grows s u"
  by (auto simp: svc_grows_def elim: sink_grows_trans)

lemma bus_sink [simp]: "bus (sink_append r s) = bus s"
  by (simp add: sink_append_def)

lemma svc_grows_sink [simp]: "svc_grows s (sink_append r s)"
  by (auto simp: svc_grows_def svc_rest_def sink_append_def sink_grows_def split: option.splits)

lemma svc_grows_bus [simp]: "svc_grows s (s\<lparr>bus := bus s @ ms\<rparr>)"
  by (simp add: svc_grows_def svc_rest_def)

lemma svc_grows_uuids [simp]: "svc_grows s (s\<lparr>uuids := Suc (uuids s)\<rparr>)"
  by (simp add: svc_grows_def svc_rest_def)

lemma svc_grows_sink_trans [intro]: "svc_grows s t \<Longrightarrow> svc_grows s (sink_append r t)"
  using svc_grows_trans svc_grows_sink by blast

lemma svc_grows_bus_trans [intro]: "svc_grows s t \<Longrightarrow> svc_grows s (t\<lparr>bus := bus t @ ms\<rparr>)"
  using svc_grows_trans svc_grows_bus by blast

lemma new_id_rule [act_rules]:
  assumes "\<And>i. Q (Inr i) (s\<lparr>uuids := Suc (uuids s)\<rparr>)"
  shows "outcome (new_id rt prefix) Q s"
  using assms by (simp add: new_id_def act_simps)

lemma id_or_new_rule [act_rules]:
  assumes "\<And>i t. svc_grows s t \<Longrightarrow> Q (Inr i) t"
  shows "outcome (id_or_new rt given prefix) Q s"
  using assms by (auto simp: id_or_new_def act_simps new_id_def split: option.splits)

lemma id_or_new_quiet:
  assumes "\<And>i t. svc_grows s t \<Longrightarrow> bus t = bus s \<Longrightarrow> Q (Inr i) t"
  shows "outcome (id_or_new rt given prefix) Q s"
  using assms by (auto simp: id_or_new_def act_simps new_id_def split: option.splits)

lemma id_or_new_state:
  assumes "\<And>i n. Q (Inr i) (s\<lparr>uuids := n\<rparr>)"
  shows "outcome (id_or_new rt given name) Q s"
  using assms [of _ "uuids s"] assms [of _ "Suc (uuids s)"]
  by (auto simp: id_or_new_def act_simps new_id_def split: option.splits)

text \<open>What the constructor establishes of an envelope.\<close>

definition envelope_ok :: "envelope \<Rightarrow> bool" where
  "envelope_ok e \<longleftrightarrow>
     normalize_token (ev_event_id e) ''event_id'' = Inr (ev_event_id e) \<and>
     normalize_event_type (ev_type e) = Inr (ev_type e) \<and>
     normalize_schema_version (ev_schema_version e) = Inr (ev_schema_version e) \<and>
     normalize_routing_segment (ev_tenant_id e) ''tenant_id'' = Inr (ev_tenant_id e) \<and>
     normalize_token (ev_source e) ''source'' = Inr (ev_source e) \<and>
     normalize_token (ev_correlation_id e) ''correlation_id'' = Inr (ev_correlation_id e) \<and>
     (\<forall>c. ev_causation_id e = Some c \<longrightarrow> normalize_token c ''causation_id'' = Inr c)"

lemma normalize_token_Inr:
  "normalize_token v l = Inr n \<Longrightarrow> n = py_strip v \<and> normalize_token n l = Inr n"
  by (auto simp: normalize_token_def Let_def split: if_splits)

lemma normalize_token_Inl: "normalize_token v l = Inl e \<Longrightarrow> e = ValueError l"
  by (auto simp: normalize_token_def Let_def split: if_splits)

lemma normalize_routing_segment_Inr:
  "normalize_routing_segment v l = Inr n \<Longrightarrow>
     n = py_strip v \<and> normalize_routing_segment n l = Inr n \<and> CHR ''.'' \<notin> set n"
  by (auto simp: normalize_routing_segment_def split: sum.splits if_splits dest: normalize_token_Inr)

lemma normalize_routing_segment_Inl: "normalize_routing_segment v l = Inl e \<Longrightarrow> e = ValueError l"
  by (auto simp: normalize_routing_segment_def ebind_Inl split: sum.splits if_splits dest: normalize_token_Inl)

lemma normalize_event_type_Inr:
  "normalize_event_type v = Inr n \<Longrightarrow> n = py_strip v \<and> normalize_event_type n = Inr n"
  by (auto simp: normalize_event_type_def Let_def split: if_splits)

lemma normalize_schema_version_Inr:
  "normalize_schema_version v = Inr n \<Longrightarrow> n = py_strip v \<and> normalize_schema_version n = Inr n"
  by (auto simp: normalize_schema_version_def Let_def split: if_splits)

lemma event_envelope_Inr:
  assumes "event_envelope eid ty sv ten src cid occ payload cau = Inr e"
  shows "envelope_ok e \<and> ev_type e = py_strip ty \<and> ev_tenant_id e = py_strip ten \<and>
    ev_payload e = payload \<and> CHR ''.'' \<notin> set (ev_tenant_id e)"
  using assms
  by (auto simp: event_envelope_def envelope_ok_def split: sum.splits option.splits
      dest: normalize_token_Inr normalize_routing_segment_Inr normalize_event_type_Inr
        normalize_schema_version_Inr)

lemma event_envelope_Inl:
  assumes "event_envelope eid ty sv ten src cid (Aware t off) payload cau = Inl e"
  shows "\<exists>l. e = ValueError l"
  using assms
  by (auto simp: event_envelope_def normalize_event_type_def normalize_schema_version_def Let_def ebind_Inl
      split: option.splits if_splits
      dest: normalize_token_Inl normalize_routing_segment_Inl)

text \<open>An envelope that was constructed can always be published.\<close>

lemma published_event_ok:
  assumes "envelope_ok e"
  shows "published_event e =
    Inr \<lparr>pub_envelope = e, pub_routing_key = ''tenant.'' @ ev_tenant_id e @ ''.'' @ ev_type e\<rparr>"
  using assms by (simp add: published_event_def routing_key_def event_routing_key_def envelope_ok_def)

lemma publish_ok:
  "envelope_ok e \<Longrightarrow> outcome (publish e) Q s =
     Q (Inr ()) (s\<lparr>bus := bus s @
       [\<lparr>pub_envelope = e, pub_routing_key = ''tenant.'' @ ev_tenant_id e @ ''.'' @ ev_type e\<rparr>]\<rparr>)"
  by (simp add: publish_def act_simps published_event_ok)

lemma emit_rule [act_rules]:
  assumes "\<And>l. Q (Inl (ValueError l)) s"
    and "\<And>e m. envelope_ok e \<Longrightarrow> pub_envelope m = e \<Longrightarrow> ev_type e = py_strip type \<Longrightarrow>
           ev_tenant_id e = py_strip tenant \<Longrightarrow> ev_payload e = payload \<Longrightarrow>
           CHR ''.'' \<notin> set (py_strip tenant) \<Longrightarrow> Q (Inr e) (s\<lparr>bus := bus s @ [m]\<rparr>)"
  shows "outcome (emit eid type sv tenant src cid occ payload cau) Q s"
proof (cases "event_envelope eid type sv tenant src cid (Aware occ 0) payload cau")
  case (Inl e)
  then show ?thesis
    using assms(1) by (auto simp: emit_def act_simps dest: event_envelope_Inl)
next
  case (Inr e)
  then show ?thesis
    using assms(2) [of e] event_envelope_Inr [OF Inr] published_event_ok [of e]
    by (auto simp: emit_def publish_def act_simps)
qed

section \<open>Idempotent processing\<close>

text \<open>
  \<open>InMemoryEventIdempotencyStore\<close> and \<open>IdempotentEventProcessor\<close>. A handler acts on the
  state of its service, which lies beside the store.
\<close>

record idempotency_store =
  in_progress :: "string set"
  completed :: "string set"

definition idempotency_begin :: "string \<Rightarrow> (idempotency_store \<times> 'w, bool) act" where
  "idempotency_begin event_id =
     bnd (lift (normalize_token event_id ''event_id'')) (\<lambda>n.
     bnd (gets (\<lambda>s. n \<in> completed (fst s) \<or> n \<in> in_progress (fst s))) (\<lambda>known.
     if known then ret False
     else bnd (modify (map_prod (\<lambda>i. i\<lparr>in_progress := insert n (in_progress i)\<rparr>) id)) (\<lambda>_. ret True)))"

definition idempotency_complete :: "string \<Rightarrow> (idempotency_store \<times> 'w, unit) act" where
  "idempotency_complete event_id =
     bnd (lift (normalize_token event_id ''event_id'')) (\<lambda>n.
     modify (map_prod
       (\<lambda>i. i\<lparr>in_progress := in_progress i - {n}, completed := insert n (completed i)\<rparr>) id))"

definition idempotency_fail :: "string \<Rightarrow> (idempotency_store \<times> 'w, unit) act" where
  "idempotency_fail event_id =
     bnd (lift (normalize_token event_id ''event_id'')) (\<lambda>n.
     modify (map_prod (\<lambda>i. i\<lparr>in_progress := in_progress i - {n}\<rparr>) id))"

definition on_service :: "('w, 'a) act \<Rightarrow> (idempotency_store \<times> 'w, 'a) act" where
  "on_service m s = (case m (snd s) of (r, w) \<Rightarrow> (r, (fst s, w)))"

definition idempotent_handle ::
    "envelope \<Rightarrow> (envelope \<Rightarrow> ('w, unit) act) \<Rightarrow> (idempotency_store \<times> 'w, bool) act" where
  "idempotent_handle ev handler =
     bnd (idempotency_begin (ev_event_id ev)) (\<lambda>started.
     if \<not> started then ret False
     else
       bnd (catch (on_service (handler ev))
              (\<lambda>e. bnd (idempotency_fail (ev_event_id ev)) (\<lambda>_. fail e))) (\<lambda>_.
       bnd (idempotency_complete (ev_event_id ev)) (\<lambda>_. ret True)))"

lemmas idempotency_defs =
  idempotent_handle_def idempotency_begin_def idempotency_complete_def idempotency_fail_def
  on_service_def bnd_def catch_def act_eval

text \<open>One delivery, for an event identifier that is a token: the three ways it can go.\<close>

lemma idempotent_handle_cases:
  assumes "normalize_token (ev_event_id ev) ''event_id'' = Inr n"
  shows "idempotent_handle ev handler (i, w) =
    (if n \<in> completed i \<or> n \<in> in_progress i then (Inr False, (i, w))
     else case handler ev w of
       (Inl e, w') \<Rightarrow> (Inl e, (i, w'))
     | (Inr u, w') \<Rightarrow> (Inr True, (i\<lparr>completed := insert n (completed i)\<rparr>, w')))"
  using assms by (auto simp: idempotency_defs split: prod.splits sum.splits)

lemma idempotent_handle_invalid:
  "normalize_token (ev_event_id ev) ''event_id'' = Inl e \<Longrightarrow>
     idempotent_handle ev handler (i, w) = (Inl e, (i, w))"
  by (simp add: idempotency_defs)

text \<open>Deliveries one after the other, with their results.\<close>

fun deliver ::
    "(envelope \<times> (envelope \<Rightarrow> ('w, unit) act)) list \<Rightarrow> idempotency_store \<times> 'w \<Rightarrow> (exn + bool) list" where
  "deliver [] s = []"
| "deliver ((ev, handler) # ds) s =
     (case idempotent_handle ev handler s of (r, t) \<Rightarrow> r # deliver ds t)"

lemma length_deliver [simp]: "length (deliver ds s) = length ds"
  by (induction ds s rule: deliver.induct) (auto split: prod.splits)

lemma idempotent_handle_completed:
  "completed (fst s) \<subseteq> completed (fst (snd (idempotent_handle ev handler s)))"
proof (cases s)
  case (Pair i w)
  show ?thesis
  proof (cases "normalize_token (ev_event_id ev) ''event_id''")
    case (Inl e)
    then show ?thesis by (simp add: Pair idempotent_handle_invalid)
  next
    case (Inr n)
    then show ?thesis
      by (auto simp: Pair idempotent_handle_cases split: prod.splits sum.splits)
  qed
qed

text \<open>After a completed event, every later delivery of it is answered with \<open>False\<close>.\<close>

lemma deliver_completed:
  "normalize_token (ev_event_id ev) ''event_id'' = Inr n \<Longrightarrow> n \<in> completed (fst s) \<Longrightarrow>
     j < length ds \<Longrightarrow> fst (ds ! j) = ev' \<Longrightarrow> ev_event_id ev' = ev_event_id ev \<Longrightarrow>
     deliver ds s ! j = Inr False"
proof (induction ds s arbitrary: j rule: deliver.induct)
  case (2 ev1 h ds s)
  obtain r t where step: "idempotent_handle ev1 h s = (r, t)" by (rule prod.exhaust)
  show ?case
  proof (cases j)
    case 0
    with 2 step show ?thesis by (cases s) (auto simp: idempotent_handle_cases)
  next
    case (Suc k)
    have "n \<in> completed (fst t)"
      using idempotent_handle_completed [of s ev1 h] step 2(3) by auto
    from 2(1) [OF step [symmetric] 2(2) this, of k] show ?thesis
      using Suc step 2(4-6) by simp
  qed
qed simp

lemma idempotent_handle_True:
  assumes "idempotent_handle ev h s = (Inr True, t)"
  obtains n where "normalize_token (ev_event_id ev) ''event_id'' = Inr n" "n \<in> completed (fst t)"
proof (cases "normalize_token (ev_event_id ev) ''event_id''")
  case (Inl e)
  with assms show ?thesis by (cases s) (simp add: idempotent_handle_invalid)
next
  case (Inr n)
  with assms that show ?thesis
    by (cases s) (auto simp: idempotent_handle_cases split: if_splits prod.splits sum.splits)
qed

lemma deliver_once:
  "i < j \<Longrightarrow> j < length ds \<Longrightarrow> ev_event_id (fst (ds ! i)) = ev_event_id (fst (ds ! j)) \<Longrightarrow>
     deliver ds s ! i = Inr True \<Longrightarrow> deliver ds s ! j = Inr False"
proof (induction ds s arbitrary: i j rule: deliver.induct)
  case (2 ev h ds s)
  obtain r t where step: "idempotent_handle ev h s = (r, t)" by (rule prod.exhaust)
  obtain l where j: "j = Suc l" using 2(2) by (cases j) auto
  show ?case
  proof (cases i)
    case 0
    with step 2(5) have "idempotent_handle ev h s = (Inr True, t)" by simp
    then obtain n where "normalize_token (ev_event_id ev) ''event_id'' = Inr n" "n \<in> completed (fst t)"
      by (rule idempotent_handle_True)
    from deliver_completed [OF this, of l ds "fst (ds ! l)"] show ?thesis
      using 0 j step 2(3,4) by simp
  next
    case (Suc k)
    from 2(1) [OF step [symmetric], of k l] show ?thesis
      using Suc j step 2(2-5) by simp
  qed
qed simp

end
