(* ===== verification/Redaction.thy ===== *)
theory Redaction
  imports Values
begin

text \<open>
  \<open>hitl_payout_gateway/audit_redaction.py\<close>: what may enter the audit trail of the metadata that a
  caller attaches to a payout operation. Sensitive keys are dropped at every depth and counted, a
  payment object is replaced by a summary, everything else is kept.
\<close>

definition sensitive_metadata_keys :: "string list" where
  "sensitive_metadata_keys =
     [''access_token'', ''amount'', ''amount_mcv'', ''amount_minor'', ''amount_rub'', ''api_key'',
      ''bank_account'', ''card'', ''card_number'', ''email'', ''pan'', ''password'', ''payout_amount'',
      ''phone'', ''raw_content'', ''recipient'', ''recipient_id'', ''recipient_token'', ''refresh_token'',
      ''secret'', ''source_content'', ''token'', ''transcript'', ''voice'']"

definition ends_with :: "string \<Rightarrow> string \<Rightarrow> bool" where
  "ends_with s suffix \<longleftrightarrow> length suffix \<le> length s \<and> drop (length s - length suffix) s = suffix"

definition is_sensitive_metadata_key :: "string \<Rightarrow> bool" where
  "is_sensitive_metadata_key k \<longleftrightarrow>
     k \<in> set sensitive_metadata_keys \<or>
     list_ex (ends_with k) [''_token'', ''_secret'', ''_password'', ''_email'']"

definition string_value :: "json option \<Rightarrow> string option" where
  "string_value v =
     (case v of
        Some (JStr s) \<Rightarrow> (let n = py_strip s in if n = [] then None else Some n)
      | _ \<Rightarrow> None)"

definition payment_metadata_summary :: "(string \<times> json) list \<Rightarrow> (string \<times> json) list" where
  "payment_metadata_summary payment =
     [(''present'', JBool True)]
     @ (case string_value (map_of payment ''currency'') of None \<Rightarrow> [] | Some c \<Rightarrow> [(''currency'', JStr c)])
     @ (case string_value (map_of payment ''rails'') of None \<Rightarrow> [] | Some r \<Rightarrow> [(''rails'', JStr r)])"

definition normalized_key :: "string \<Rightarrow> string" where
  "normalized_key k = py_lower (py_strip k)"

definition add_redacted_count :: "(string \<times> json) list \<times> nat \<Rightarrow> (string \<times> json) list" where
  "add_redacted_count sn =
     (if 0 < snd sn then AList.update ''redacted_metadata_fields'' (JInt (int (snd sn))) (fst sn)
      else fst sn)"

fun is_obj :: "json \<Rightarrow> bool" where
  "is_obj (JObj kvs) = True"
| "is_obj _ = False"

fun members :: "json \<Rightarrow> (string \<times> json) list" where
  "members (JObj kvs) = kvs"
| "members _ = []"

lemma size_member_json: "x \<in> set xs \<Longrightarrow> size x < Suc (size_list size (xs :: json list))"
  by (induction xs) auto

text \<open>The loop of \<open>audit_safe_metadata\<close> over the members, with the dict built so far and the count.\<close>

function redact_members ::
    "(string \<times> json) list \<Rightarrow> (string \<times> json) list \<Rightarrow> nat \<Rightarrow> (string \<times> json) list \<times> nat"
  and audit_safe_value :: "json \<Rightarrow> json" where
  "redact_members [] safe n = (safe, n)"
| "redact_members ((k, v) # kvs) safe n =
     (if normalized_key k = ''payment'' \<and> is_obj v then
        redact_members kvs (AList.update k (JObj (payment_metadata_summary (members v))) safe) n
      else if is_sensitive_metadata_key (normalized_key k) then redact_members kvs safe (Suc n)
      else redact_members kvs (AList.update k (audit_safe_value v) safe) n)"
| "audit_safe_value (JObj kvs) = JObj (add_redacted_count (redact_members kvs [] 0))"
| "audit_safe_value (JList xs) = JList (map audit_safe_value xs)"
| "audit_safe_value JNull = JNull"
| "audit_safe_value (JBool b) = JBool b"
| "audit_safe_value (JInt i) = JInt i"
| "audit_safe_value (JFloat f) = JFloat f"
| "audit_safe_value (JStr s) = JStr s"
  by pat_completeness auto

termination
  by (relation "measure (case_sum (\<lambda>(kvs, _, _). size_list (size_prod (\<lambda>_. 0) size) kvs) size)")
    (auto simp: size_member_json)

definition audit_safe_metadata :: "(string \<times> json) list \<Rightarrow> (string \<times> json) list" where
  "audit_safe_metadata metadata = add_redacted_count (redact_members metadata [] 0)"

section \<open>No sensitive key survives\<close>

text \<open>No object at any depth of the document has a sensitive key.\<close>

primrec no_sensitive :: "json \<Rightarrow> bool" where
  "no_sensitive JNull = True"
| "no_sensitive (JBool b) = True"
| "no_sensitive (JInt i) = True"
| "no_sensitive (JFloat f) = True"
| "no_sensitive (JStr s) = True"
| "no_sensitive (JList xs) = list_all id (map no_sensitive xs)"
| "no_sensitive (JObj kvs) =
     list_all (\<lambda>(k, ok). \<not> is_sensitive_metadata_key (normalized_key k) \<and> ok) (map (map_prod id no_sensitive) kvs)"

definition clean_members :: "(string \<times> json) list \<Rightarrow> bool" where
  "clean_members kvs \<longleftrightarrow>
     (\<forall>kv\<in>set kvs. \<not> is_sensitive_metadata_key (normalized_key (fst kv)) \<and> no_sensitive (snd kv))"

lemma no_sensitive_list [simp]: "no_sensitive (JList xs) = (\<forall>x\<in>set xs. no_sensitive x)"
  by (simp add: list_all_iff)

lemma no_sensitive_obj [simp]: "no_sensitive (JObj kvs) = clean_members kvs"
  by (auto simp: list_all_iff clean_members_def)

declare no_sensitive.simps(6,7) [simp del]

lemma clean_members_Nil [simp]: "clean_members []"
  by (simp add: clean_members_def)

lemma clean_members_Cons [simp]:
  "clean_members ((k, v) # kvs) \<longleftrightarrow>
     \<not> is_sensitive_metadata_key (normalized_key k) \<and> no_sensitive v \<and> clean_members kvs"
  by (simp add: clean_members_def)

lemma clean_update [simp]:
  "clean_members xs \<Longrightarrow> \<not> is_sensitive_metadata_key (normalized_key k) \<Longrightarrow> no_sensitive v \<Longrightarrow>
     clean_members (AList.update k v xs)"
  by (induction xs) auto

lemma normalized_plain [simp]:
  "normalized_key ''present'' = ''present''" "normalized_key ''currency'' = ''currency''"
  "normalized_key ''rails'' = ''rails''"
  "normalized_key ''redacted_metadata_fields'' = ''redacted_metadata_fields''"
  by (simp_all add: normalized_key_def text_defs)

lemma not_sensitive_plain [simp]:
  "\<not> is_sensitive_metadata_key ''present''" "\<not> is_sensitive_metadata_key ''currency''"
  "\<not> is_sensitive_metadata_key ''rails''" "\<not> is_sensitive_metadata_key ''payment''"
  "\<not> is_sensitive_metadata_key ''redacted_metadata_fields''"
  by (simp_all add: is_sensitive_metadata_key_def sensitive_metadata_keys_def ends_with_def)

lemma summary_clean [simp]: "clean_members (payment_metadata_summary p)"
  by (simp add: payment_metadata_summary_def split: option.splits)

lemma redacted_count_clean [simp]: "clean_members (fst sn) \<Longrightarrow> clean_members (add_redacted_count sn)"
  by (simp add: add_redacted_count_def)

lemma redact_clean:
  "clean_members safe \<Longrightarrow> clean_members (fst (redact_members kvs safe n))"
  "no_sensitive (audit_safe_value v)"
  by (induction kvs safe n and v rule: redact_members_audit_safe_value.induct) auto

section \<open>Redacting twice changes nothing\<close>

text \<open>What redaction leaves as it is: a member that is not sensitive, whose payment summary is itself
  and whose value is already redacted.\<close>

definition settled :: "string \<times> json \<Rightarrow> bool" where
  "settled kv \<longleftrightarrow>
     \<not> is_sensitive_metadata_key (normalized_key (fst kv)) \<and>
     (if normalized_key (fst kv) = ''payment'' \<and> is_obj (snd kv)
      then snd kv = JObj (payment_metadata_summary (members (snd kv)))
      else audit_safe_value (snd kv) = snd kv)"

lemma redact_settled:
  "dict_ok (safe @ kvs) \<Longrightarrow> list_all settled kvs \<Longrightarrow> redact_members kvs safe n = (safe @ kvs, n)"
proof (induction kvs arbitrary: safe)
  case Nil
  then show ?case by simp
next
  case (Cons kv kvs)
  obtain k v where kv: "kv = (k, v)" by (cases kv)
  have new: "AList.update k w safe = safe @ [(k, w)]" for w
    using Cons.prems(1) kv by (intro dict_update_new) (auto simp: dict_ok_def map_of_eq_None_iff)
  have "redact_members kvs (safe @ [kv]) n = (safe @ kv # kvs, n)"
    using Cons.IH [of "safe @ [kv]"] Cons.prems by simp
  moreover have "settled (k, v)" using Cons.prems(2) kv by simp
  ultimately show ?case
    unfolding settled_def kv by (cases "normalized_key k = ''payment'' \<and> is_obj v") (auto simp: new)
qed

lemma settled_update:
  "list_all settled xs \<Longrightarrow> settled (k, v) \<Longrightarrow> list_all settled (AList.update k v xs)"
  by (induction xs) auto

lemma summary_settled: "payment_metadata_summary (payment_metadata_summary p) = payment_metadata_summary p"
proof -
  have "string_value (map_option JStr (string_value v)) = string_value v" for v
    by (auto simp: string_value_def Let_def split: option.splits json.splits)
  then have "string_value (Some (JStr s)) = string_value v" if "string_value v = Some s" for v s
    using that by (metis option.simps(9))
  moreover have "string_value None = None" by (simp add: string_value_def)
  ultimately show ?thesis
    by (auto simp: payment_metadata_summary_def split: option.splits)
qed

lemma redact_ok_settled:
  "dict_ok safe \<Longrightarrow> list_all settled safe \<Longrightarrow>
     dict_ok (fst (redact_members kvs safe n)) \<and> list_all settled (fst (redact_members kvs safe n))"
  "audit_safe_value (audit_safe_value v) = audit_safe_value v"
proof (induction kvs safe n and v rule: redact_members_audit_safe_value.induct)
  case (2 k v kvs safe n)
  show ?case
  proof (cases "normalized_key k = ''payment'' \<and> is_obj v")
    case True
    then have "settled (k, JObj (payment_metadata_summary (members v)))"
      by (simp add: settled_def summary_settled)
    with True "2.IH"(1) "2.prems" show ?thesis by (simp add: settled_update)
  next
    case pay: False
    show ?thesis
    proof (cases "is_sensitive_metadata_key (normalized_key k)")
      case True
      from "2.IH"(2) [OF pay this "2.prems"] pay True show ?thesis by auto
    next
      case False
      have "is_obj (audit_safe_value v) = is_obj v" by (cases v) simp_all
      then have "settled (k, audit_safe_value v)"
        using "2.IH"(3) [OF pay False] pay False by (auto simp: settled_def)
      then show ?thesis
        using pay False "2.IH"(4) [OF pay False] "2.prems" by (auto simp: settled_update)
    qed
  qed
next
  case (3 kvs)
  let ?r = "add_redacted_count (redact_members kvs [] 0)"
  have "settled (''redacted_metadata_fields'', JInt i)" for i by (simp add: settled_def)
  then have "dict_ok ?r" "list_all settled ?r"
    using "3.IH" by (auto simp: add_redacted_count_def settled_update)
  then show ?case by (simp add: redact_settled add_redacted_count_def)
qed simp_all

end
