(* ===== verification/PayoutQueue.thy ===== *)
theory PayoutQueue
  imports Events Redaction
begin

text \<open>
  \<open>hitl_payout_gateway/queue_manager.py\<close>: the queued payout, its repository, the veto window
  setting, and the queue manager. A payout enters the queue with a veto window and leaves it ready
  for execution only after the window and with a two-factor confirmation.
\<close>

section \<open>Payouts\<close>

datatype payout_status = QUEUED | READY_TO_EXECUTE | CANCELED | EXECUTED

datatype payment_status = ACCEPTED | PROCESSING | SUCCEEDED | FAILED | RETURNED | REFUNDED

record payout =
  po_payout_id :: string
  po_tenant_id :: string
  po_member_id :: string
  po_member_hash :: string
  po_period :: string
  po_payout_share :: pyfloat
  po_distribution_id :: string
  po_distribution_hash :: string
  po_status :: payout_status
  po_veto_until :: int
  po_requires_2fa :: bool
  po_confirmation_id :: "string option"
  po_confirmed_by :: "string option"
  po_confirmed_by_hash :: "string option"
  po_confirmed_by_role :: "string option"
  po_confirmed_at :: "int option"
  po_audit_hash :: string
  po_created_by :: string
  po_created_by_hash :: string
  po_created_at :: int
  po_updated_at :: int
  po_veto_decision_id :: "string option"
  po_execution_id :: "string option"
  po_execution_ref_hash :: "string option"
  po_audit_chain_ref :: "string option"
  po_notification_id :: "string option"
  po_executed_at :: "int option"
  po_payment_connector_name :: "string option"
  po_payment_gateway_id :: "string option"
  po_payment_status :: "payment_status option"
  po_payment_status_synced_at :: "int option"
  po_payment_error_code :: "string option"
  po_payment_refund_id :: "string option"

fun payout_status_value :: "payout_status \<Rightarrow> string" where
  "payout_status_value QUEUED = ''queued''"
| "payout_status_value READY_TO_EXECUTE = ''ready_to_execute''"
| "payout_status_value CANCELED = ''canceled''"
| "payout_status_value EXECUTED = ''executed''"

text \<open>The constructor call of \<open>queue_payout\<close>: the fields it leaves out keep their defaults.\<close>

definition payout_queue_item ::
    "string \<Rightarrow> string \<Rightarrow> string \<Rightarrow> string \<Rightarrow> string \<Rightarrow> pyfloat \<Rightarrow> string \<Rightarrow> string \<Rightarrow> int \<Rightarrow> bool
     \<Rightarrow> string \<Rightarrow> string \<Rightarrow> string \<Rightarrow> int \<Rightarrow> exn + payout" where
  "payout_queue_item payout_id tenant_id member_id member_hash period payout_share distribution_id
     distribution_hash veto_until requires_2fa audit created_by created_by_hash queued_at =
     model ''PayoutQueueItem''
       (token_ok (pyd_strip payout_id) \<and> tenant_id_ok (pyd_strip tenant_id) \<and>
        token_ok (pyd_strip member_id) \<and> period_ok (pyd_strip period) \<and>
        finite_between 0 1 payout_share \<and> token_ok (pyd_strip distribution_id) \<and>
        audit_hash_ok (pyd_strip distribution_hash) \<and> audit_hash_ok (pyd_strip audit) \<and>
        token_ok (pyd_strip created_by))
       \<lparr>po_payout_id = pyd_strip payout_id, po_tenant_id = pyd_strip tenant_id,
        po_member_id = pyd_strip member_id, po_member_hash = pyd_strip member_hash,
        po_period = pyd_strip period, po_payout_share = payout_share,
        po_distribution_id = pyd_strip distribution_id,
        po_distribution_hash = pyd_strip distribution_hash,
        po_status = QUEUED, po_veto_until = veto_until, po_requires_2fa = requires_2fa,
        po_confirmation_id = None, po_confirmed_by = None, po_confirmed_by_hash = None,
        po_confirmed_by_role = None, po_confirmed_at = None,
        po_audit_hash = pyd_strip audit, po_created_by = pyd_strip created_by,
        po_created_by_hash = pyd_strip created_by_hash,
        po_created_at = queued_at, po_updated_at = queued_at,
        po_veto_decision_id = None, po_execution_id = None, po_execution_ref_hash = None,
        po_audit_chain_ref = None, po_notification_id = None, po_executed_at = None,
        po_payment_connector_name = None, po_payment_gateway_id = None, po_payment_status = None,
        po_payment_status_synced_at = None, po_payment_error_code = None, po_payment_refund_id = None\<rparr>"

definition with_status ::
    "payout \<Rightarrow> payout_status \<Rightarrow> int \<Rightarrow> string option \<Rightarrow> string option \<Rightarrow> payout" where
  "with_status p status updated_at audit veto_decision_id =
     p\<lparr>po_status := status, po_updated_at := updated_at,
       po_audit_hash := (case audit of None \<Rightarrow> po_audit_hash p | Some h \<Rightarrow> h),
       po_veto_decision_id :=
         (case veto_decision_id of None \<Rightarrow> po_veto_decision_id p | Some d \<Rightarrow> Some d)\<rparr>"

definition with_confirmation ::
    "payout \<Rightarrow> string \<Rightarrow> string \<Rightarrow> string \<Rightarrow> string \<Rightarrow> int \<Rightarrow> string \<Rightarrow> payout" where
  "with_confirmation p confirmation_id confirmed_by confirmed_by_hash confirmed_by_role confirmed_at
     audit =
     p\<lparr>po_confirmation_id := Some confirmation_id, po_confirmed_by := Some confirmed_by,
       po_confirmed_by_hash := Some confirmed_by_hash, po_confirmed_by_role := Some confirmed_by_role,
       po_confirmed_at := Some confirmed_at, po_audit_hash := audit,
       po_updated_at := confirmed_at\<rparr>"

definition with_execution ::
    "payout \<Rightarrow> string \<Rightarrow> string \<Rightarrow> string \<Rightarrow> string \<Rightarrow> int \<Rightarrow> string \<Rightarrow> string option
     \<Rightarrow> string option \<Rightarrow> payment_status option \<Rightarrow> payout" where
  "with_execution p execution_id execution_ref_hash audit_chain_ref notification_id executed_at
     audit payment_connector_name payment_gateway_id payment_status =
     p\<lparr>po_status := EXECUTED, po_execution_id := Some execution_id,
       po_execution_ref_hash := Some execution_ref_hash, po_audit_chain_ref := Some audit_chain_ref,
       po_notification_id := Some notification_id, po_executed_at := Some executed_at,
       po_audit_hash := audit, po_updated_at := executed_at,
       po_payment_connector_name := payment_connector_name,
       po_payment_gateway_id := payment_gateway_id, po_payment_status := payment_status,
       po_payment_status_synced_at := Some executed_at, po_payment_error_code := None,
       po_payment_refund_id := None\<rparr>"

text \<open>\<open>given or kept\<close> on optional texts.\<close>

definition text_or :: "string option \<Rightarrow> string option \<Rightarrow> string option" where
  "text_or given kept = (case given of None \<Rightarrow> kept | Some s \<Rightarrow> if s = [] then kept else Some s)"

definition with_payment_status ::
    "payout \<Rightarrow> payment_status \<Rightarrow> int \<Rightarrow> string \<Rightarrow> string option \<Rightarrow> string option \<Rightarrow> string option
     \<Rightarrow> string option \<Rightarrow> payout" where
  "with_payment_status p payment_status synced_at audit payment_connector_name payment_gateway_id
     payment_error_code payment_refund_id =
     p\<lparr>po_payment_status := Some payment_status, po_payment_status_synced_at := Some synced_at,
       po_payment_connector_name := text_or payment_connector_name (po_payment_connector_name p),
       po_payment_gateway_id := text_or payment_gateway_id (po_payment_gateway_id p),
       po_payment_error_code := payment_error_code, po_payment_refund_id := payment_refund_id,
       po_audit_hash := audit, po_updated_at := synced_at\<rparr>"

section \<open>The repository\<close>

type_synonym key = "string \<times> string"

record queue_state = svc +
  payouts :: "(key, payout) dict"

definition payout_key :: "string \<Rightarrow> string \<Rightarrow> key" where
  "payout_key tenant_id payout_id = (tenant_id, payout_id)"

definition key_of :: "payout \<Rightarrow> key" where
  "key_of p = payout_key (po_tenant_id p) (po_payout_id p)"

definition store_payout :: "payout \<Rightarrow> 'z queue_state_scheme \<Rightarrow> 'z queue_state_scheme" where
  "store_payout p s = s\<lparr>payouts := AList.update (key_of p) p (payouts s)\<rparr>"

definition add_payout :: "payout \<Rightarrow> ('z queue_state_scheme, payout) act" where
  "add_payout p =
     bnd (gets (\<lambda>s. map_of (payouts s) (key_of p))) (\<lambda>old.
     bnd (require (old = None) (PayoutQueueError ''duplicate payout_id'')) (\<lambda>_.
     bnd (modify (store_payout p)) (\<lambda>_.
     ret p)))"

definition get_payout :: "string \<Rightarrow> string \<Rightarrow> ('z queue_state_scheme, payout) act" where
  "get_payout tenant_id payout_id =
     bnd (gets (\<lambda>s. map_of (payouts s) (payout_key tenant_id payout_id))) (\<lambda>found.
     case found of None \<Rightarrow> fail PayoutNotFoundError | Some p \<Rightarrow> ret p)"

definition update_payout :: "payout \<Rightarrow> ('z queue_state_scheme, payout) act" where
  "update_payout p =
     bnd (gets (\<lambda>s. map_of (payouts s) (key_of p))) (\<lambda>old.
     bnd (require (old \<noteq> None) PayoutNotFoundError) (\<lambda>_.
     bnd (modify (store_payout p)) (\<lambda>_.
     ret p)))"

definition list_payouts :: "string \<Rightarrow> payout_status option \<Rightarrow> 'z queue_state_scheme \<Rightarrow> payout list" where
  "list_payouts tenant_id status s =
     sorted_values
       (\<lambda>(k, p). fst k = tenant_id \<and> (case status of None \<Rightarrow> True | Some st \<Rightarrow> po_status p = st))
       po_created_at (payouts s)"

section \<open>The veto window\<close>

definition default_veto_window_hours :: int where "default_veto_window_hours = 8"
definition min_veto_window_hours :: int where "min_veto_window_hours = 4"
definition max_veto_window_hours :: int where "max_veto_window_hours = 12"

definition validate_veto_window_hours :: "int \<Rightarrow> exn + int" where
  "validate_veto_window_hours v =
     (if v < min_veto_window_hours \<or> max_veto_window_hours < v
      then Inl (ValueError ''veto window range'') else Inr v)"

definition resolve_veto_window_hours :: "(string \<Rightarrow> string option) \<Rightarrow> exn + int" where
  "resolve_veto_window_hours environ =
     (case environ ''VETO_WINDOW_HOURS'' of
        None \<Rightarrow> Inr default_veto_window_hours
      | Some raw \<Rightarrow>
          if py_strip raw = [] then Inr default_veto_window_hours
          else (case py_int raw of
                 None \<Rightarrow> Inl (ValueError ''veto window integer'')
               | Some n \<Rightarrow> validate_veto_window_hours n))"

section \<open>The queue manager\<close>

record queue_request =
  qr_tenant_id :: string
  qr_member_id :: string
  qr_period :: string
  qr_payout_share :: pyfloat
  qr_distribution_id :: string
  qr_distribution_hash :: string
  qr_created_by :: string
  qr_correlation_id :: string
  qr_payout_id :: "string option"
  qr_event_id :: "string option"
  qr_now :: time_arg
  qr_requires_2fa :: bool
  qr_metadata :: "(string \<times> json) list"

definition queue_payout ::
    "runtime \<Rightarrow> int \<Rightarrow> queue_request \<Rightarrow> ('z queue_state_scheme, payout \<times> envelope) act" where
  "queue_payout rt veto_window_hours r =
     bnd (require (qr_requires_2fa r) (ValueError ''requires_2fa'')) (\<lambda>_.
     bnd (lift (normalize_datetime rt (qr_now r))) (\<lambda>queued_at.
     bnd (id_or_new rt (qr_payout_id r) ''payout'') (\<lambda>payout_id.
     let veto_until = queued_at + hours veto_window_hours;
         member_hash = subject_ref_hash rt (qr_tenant_id r) (qr_member_id r);
         created_by_hash = subject_ref_hash rt (qr_tenant_id r) (qr_created_by r)
     in
     bnd (audit_log rt ''payout.queued'' (qr_tenant_id r) None
            (Some [(''payout_id'', JStr payout_id),
                   (''member_hash'', JStr member_hash),
                   (''period'', JStr (qr_period r)),
                   (''distribution_id'', JStr (qr_distribution_id r)),
                   (''distribution_hash'', JStr (qr_distribution_hash r)),
                   (''status'', JStr (payout_status_value QUEUED)),
                   (''veto_until'', JStr (rt_isoformat rt veto_until)),
                   (''requires_2fa'', JBool (qr_requires_2fa r)),
                   (''created_by_hash'', JStr created_by_hash),
                   (''metadata'', JObj (audit_safe_metadata (qr_metadata r)))])
            (AtTime (Aware queued_at 0)) (Some (qr_correlation_id r)) (Some created_by_hash)
            (Some ''hitl-payout-gateway'')) (\<lambda>rec.
     bnd (lift (payout_queue_item payout_id (qr_tenant_id r) (qr_member_id r) member_hash
            (qr_period r) (qr_payout_share r) (qr_distribution_id r) (qr_distribution_hash r)
            veto_until (qr_requires_2fa r) (ar_audit_hash rec) (qr_created_by r) created_by_hash
            queued_at)) (\<lambda>p.
     bnd (add_payout p) (\<lambda>_.
     bnd (id_or_new rt (qr_event_id r) ''evt-payout-queued'') (\<lambda>event_id.
     bnd (emit event_id ''payout.queued'' ''1.0'' (qr_tenant_id r) ''hitl-payout-gateway''
            (qr_correlation_id r) queued_at
            [(''payout_id'', JStr (po_payout_id p)),
             (''period'', JStr (po_period p)),
             (''veto_until'', JStr (rt_isoformat rt (po_veto_until p))),
             (''requires_2fa'', JBool (po_requires_2fa p))] None) (\<lambda>e.
     ret (p, e)))))))))"

definition is_executable :: "payout \<Rightarrow> int \<Rightarrow> bool" where
  "is_executable p checked_at \<longleftrightarrow>
     po_status p \<in> {QUEUED, READY_TO_EXECUTE} \<and> po_veto_until p \<le> checked_at \<and>
     po_confirmation_id p \<noteq> None"

definition mark_ready_for_execution ::
    "runtime \<Rightarrow> string \<Rightarrow> string \<Rightarrow> time_arg \<Rightarrow> ('z queue_state_scheme, payout) act" where
  "mark_ready_for_execution rt tenant_id payout_id now =
     bnd (lift (normalize_datetime rt now)) (\<lambda>checked_at.
     bnd (get_payout tenant_id payout_id) (\<lambda>p.
     if po_status p = READY_TO_EXECUTE then ret p
     else if po_status p = CANCELED then fail (PayoutNotExecutableError ''canceled'')
     else if po_status p = EXECUTED then fail (PayoutNotExecutableError ''executed'')
     else if checked_at < po_veto_until p then fail (PayoutNotExecutableError ''veto window open'')
     else if po_confirmation_id p = None then fail (PayoutNotExecutableError ''not confirmed'')
     else if \<not> is_executable p checked_at then fail (PayoutNotExecutableError ''not executable'')
     else update_payout (with_status p READY_TO_EXECUTE checked_at None None)))"

section \<open>What the operations do\<close>

lemma svc_grows_payouts: "svc_grows s t \<Longrightarrow> payouts t = payouts s"
  by (cases s; cases t) (simp add: svc_grows_def svc_rest_def)

lemma svc_grows_store: "svc_grows s t \<Longrightarrow> svc_grows (store_payout p s) (store_payout p t)"
  by (cases s; cases t) (simp add: svc_grows_def svc_rest_def store_payout_def)

lemma payouts_store [simp]: "payouts (store_payout p s) = AList.update (key_of p) p (payouts s)"
  by (simp add: store_payout_def)

lemma payouts_sink [simp]: "payouts (sink_append r s) = payouts s"
  by (simp add: sink_append_def)

lemma store_after_sink:
  "svc_grows s t \<Longrightarrow> svc_grows (store_payout p (sink_append r t)) u \<Longrightarrow> svc_grows (store_payout p s) u"
  by (blast intro: svc_grows_trans svc_grows_store)

lemma store_after_sink_bus:
  "svc_grows s t \<Longrightarrow> svc_grows (store_payout p (sink_append r t)) u \<Longrightarrow>
     svc_grows (store_payout p s) (u\<lparr>bus := bus u @ ms\<rparr>)"
  by (blast intro: store_after_sink svc_grows_bus_trans)

lemma add_payout_rule [act_rules]:
  assumes "map_of (payouts s) (key_of p) \<noteq> None \<Longrightarrow> Q (Inl (PayoutQueueError ''duplicate payout_id'')) s"
    and "map_of (payouts s) (key_of p) = None \<Longrightarrow> Q (Inr p) (store_payout p s)"
  shows "outcome (add_payout p) Q s"
  using assms by (simp add: add_payout_def act_simps)

lemma get_payout_rule [act_rules]:
  assumes "map_of (payouts s) (payout_key t i) = None \<Longrightarrow> Q (Inl PayoutNotFoundError) s"
    and "\<And>p. map_of (payouts s) (payout_key t i) = Some p \<Longrightarrow> Q (Inr p) s"
  shows "outcome (get_payout t i) Q s"
  using assms by (simp add: get_payout_def act_simps split: option.splits)

lemma update_payout_rule [act_rules]:
  assumes "map_of (payouts s) (key_of p) = None \<Longrightarrow> Q (Inl PayoutNotFoundError) s"
    and "map_of (payouts s) (key_of p) \<noteq> None \<Longrightarrow> Q (Inr p) (store_payout p s)"
  shows "outcome (update_payout p) Q s"
  using assms by (simp add: update_payout_def act_simps)

text \<open>The payout that a request puts into the queue.\<close>

definition new_payout :: "runtime \<Rightarrow> int \<Rightarrow> queue_request \<Rightarrow> payout \<Rightarrow> bool" where
  "new_payout rt h r p \<longleftrightarrow>
     normalize_datetime rt (qr_now r) = Inr (po_created_at p) \<and>
     po_status p = QUEUED \<and> po_veto_until p = po_created_at p + hours h \<and>
     po_updated_at p = po_created_at p \<and> po_requires_2fa p \<and>
     po_confirmation_id p = None \<and> po_veto_decision_id p = None \<and> po_execution_id p = None \<and>
     po_payment_gateway_id p = None \<and>
     po_tenant_id p = qr_tenant_id r \<and> tenant_id_ok (po_tenant_id p) \<and> token_ok (po_payout_id p) \<and>
     token_ok (po_member_id p) \<and> finite_between 0 1 (po_payout_share p) \<and> period_ok (po_period p)"

text \<open>
  A request is refused before anything is stored, or the payout is stored; and then the event is
  published, or its envelope is refused while the payout stays in the queue.
\<close>

lemma queue_payout_rule:
  assumes "\<And>e t. svc_grows s t \<Longrightarrow> Q (Inl e) t"
    and "\<And>p l t. new_payout rt h r p \<Longrightarrow> map_of (payouts s) (key_of p) = None \<Longrightarrow>
           svc_grows (store_payout p s) t \<Longrightarrow> Q (Inl (ValueError l)) t"
    and "\<And>p e t. new_payout rt h r p \<Longrightarrow> map_of (payouts s) (key_of p) = None \<Longrightarrow>
           svc_grows (store_payout p s) t \<Longrightarrow> CHR ''.'' \<notin> set (qr_tenant_id r) \<Longrightarrow>
           ev_tenant_id e = qr_tenant_id r \<Longrightarrow> Q (Inr (p, e)) t"
  shows "outcome (queue_payout rt h r) Q s"
proof -
  have new: "new_payout rt h r p"
    if "normalize_datetime rt (qr_now r) = Inr n" "qr_requires_2fa r"
      and "audit_record_of (qr_tenant_id r) cid rec"
      and "payout_queue_item i (qr_tenant_id r) (qr_member_id r) mh (qr_period r) (qr_payout_share r)
             (qr_distribution_id r) (qr_distribution_hash r) (n + hours h) True a (qr_created_by r) ch n = Inr p"
    for i n mh a ch p cid rec
    using that by (auto simp: payout_queue_item_def new_payout_def audit_record_of_def)
  have tenant: "py_strip (qr_tenant_id r) = qr_tenant_id r"
    if "audit_record_of (qr_tenant_id r) cid rec" for cid rec
    using that by (simp add: audit_record_of_def)
  show ?thesis
    using assms(1) [OF svc_grows_refl]
    by (auto simp: queue_payout_def act_simps Let_def tenant svc_grows_payouts split: sum.splits
        intro!: id_or_new_rule audit_log_rule add_payout_rule emit_rule
        intro: assms new store_after_sink store_after_sink_bus)
qed

lemma mark_ready_rule:
  assumes "\<And>e. Q (Inl e) s"
    and "\<And>p. map_of (payouts s) (payout_key ten i) = Some p \<Longrightarrow> po_status p = READY_TO_EXECUTE \<Longrightarrow> Q (Inr p) s"
    and "\<And>p n. map_of (payouts s) (payout_key ten i) = Some p \<Longrightarrow> normalize_datetime rt now = Inr n \<Longrightarrow>
           po_status p = QUEUED \<Longrightarrow> is_executable p n \<Longrightarrow> map_of (payouts s) (key_of p) \<noteq> None \<Longrightarrow>
           Q (Inr (with_status p READY_TO_EXECUTE n None None))
             (store_payout (with_status p READY_TO_EXECUTE n None None) s)"
  shows "outcome (mark_ready_for_execution rt ten i now) Q s"
proof -
  have key: "key_of (with_status p st n a d) = key_of p" for p st n a d
    by (simp add: key_of_def with_status_def)
  show ?thesis
    using assms(1,2)
    by (auto simp: mark_ready_for_execution_def act_simps is_executable_def key split: sum.splits
        intro!: get_payout_rule update_payout_rule intro: assms(3) payout_status.exhaust)
qed

end
