(* ===== verification/PayoutVeto.thy ===== *)
theory PayoutVeto
  imports PayoutQueue
begin

text \<open>
  \<open>hitl_payout_gateway/veto_manager.py\<close>: the veto decision of the Council, its repository, and
  the veto, which cancels a queued payout before the end of its veto window.
\<close>

record veto_decision =
  vd_decision_id :: string
  vd_tenant_id :: string
  vd_payout_id :: string
  vd_actor_id :: string
  vd_actor_hash :: string
  vd_reason_code :: string
  vd_reason :: string
  vd_reason_hash :: string
  vd_audit_hash :: string
  vd_decided_at :: int
  vd_correlation_id :: string

record veto_state = queue_state +
  decisions :: "(key, veto_decision) dict"

text \<open>\<open>^[a-z][a-z0-9_]{0,63}$\<close>.\<close>

definition reason_code_ok :: "string \<Rightarrow> bool" where
  "reason_code_ok s \<longleftrightarrow> head_tail is_lower word_char 63 s"

definition veto_decision ::
    "string \<Rightarrow> string \<Rightarrow> string \<Rightarrow> string \<Rightarrow> string \<Rightarrow> string \<Rightarrow> string \<Rightarrow> string \<Rightarrow> string \<Rightarrow> int
     \<Rightarrow> string \<Rightarrow> exn + veto_decision" where
  "veto_decision decision_id tenant_id payout_id actor_id actor_hash reason_code reason reason_hash
     audit decided_at correlation_id =
     model ''VetoDecision''
       (token_ok (pyd_strip decision_id) \<and> tenant_id_ok (pyd_strip tenant_id) \<and>
        token_ok (pyd_strip payout_id) \<and> token_ok (pyd_strip actor_id) \<and>
        reason_code_ok (pyd_strip reason_code) \<and> length_between 1 512 (pyd_strip reason) \<and>
        audit_hash_ok (pyd_strip audit) \<and> token_ok (pyd_strip correlation_id))
       \<lparr>vd_decision_id = pyd_strip decision_id, vd_tenant_id = pyd_strip tenant_id,
        vd_payout_id = pyd_strip payout_id, vd_actor_id = pyd_strip actor_id,
        vd_actor_hash = pyd_strip actor_hash, vd_reason_code = pyd_strip reason_code,
        vd_reason = pyd_strip reason, vd_reason_hash = pyd_strip reason_hash,
        vd_audit_hash = pyd_strip audit, vd_decided_at = decided_at,
        vd_correlation_id = pyd_strip correlation_id\<rparr>"

definition decision_key :: "string \<Rightarrow> string \<Rightarrow> key" where
  "decision_key tenant_id decision_id = (tenant_id, decision_id)"

definition store_decision :: "veto_decision \<Rightarrow> 'z veto_state_scheme \<Rightarrow> 'z veto_state_scheme" where
  "store_decision d s =
     s\<lparr>decisions := AList.update (decision_key (vd_tenant_id d) (vd_decision_id d)) d (decisions s)\<rparr>"

definition add_decision :: "veto_decision \<Rightarrow> ('z veto_state_scheme, veto_decision) act" where
  "add_decision d =
     bnd (gets (\<lambda>s. map_of (decisions s) (decision_key (vd_tenant_id d) (vd_decision_id d)))) (\<lambda>old.
     bnd (require (old = None) (PayoutQueueError ''duplicate decision_id'')) (\<lambda>_.
     bnd (modify (store_decision d)) (\<lambda>_.
     ret d)))"

definition get_decision :: "string \<Rightarrow> string \<Rightarrow> ('z veto_state_scheme, veto_decision) act" where
  "get_decision tenant_id decision_id =
     bnd (gets (\<lambda>s. map_of (decisions s) (decision_key tenant_id decision_id))) (\<lambda>found.
     case found of None \<Rightarrow> fail (PayoutQueueError ''decision not found'') | Some d \<Rightarrow> ret d)"

definition list_decisions :: "string \<Rightarrow> ('z veto_state_scheme, veto_decision list) act" where
  "list_decisions tenant_id =
     gets (\<lambda>s. sorted_values (\<lambda>kv. fst (fst kv) = tenant_id) vd_decided_at (decisions s))"

record veto_request =
  vr_tenant_id :: string
  vr_payout_id :: string
  vr_actor_id :: string
  vr_reason_code :: string
  vr_reason :: string
  vr_correlation_id :: string
  vr_decision_id :: "string option"
  vr_event_id :: "string option"
  vr_now :: time_arg
  vr_metadata :: "(string \<times> json) list"

text \<open>\<open>VetoManager.veto_payout\<close>.\<close>

definition veto_payout :: "runtime \<Rightarrow> veto_request \<Rightarrow> ('z veto_state_scheme, veto_decision) act" where
  "veto_payout rt r =
     bnd (lift (normalize_datetime rt (vr_now r))) (\<lambda>decided_at.
     bnd (get_payout (vr_tenant_id r) (vr_payout_id r)) (\<lambda>p.
     bnd (require (po_status p = QUEUED) (PayoutNotExecutableError ''veto: not queued'')) (\<lambda>_.
     bnd (require (decided_at < po_veto_until p) VetoWindowClosedError) (\<lambda>_.
     bnd (id_or_new rt (vr_decision_id r) ''veto'') (\<lambda>decision_id.
     let actor_hash = subject_ref_hash rt (vr_tenant_id r) (vr_actor_id r);
         reason_hash = scoped_hash rt (vr_tenant_id r) (vr_reason r)
     in
     bnd (audit_log rt ''payout.vetoed'' (vr_tenant_id r) None
            (Some [(''payout_id'', JStr (po_payout_id p)),
                   (''decision_id'', JStr decision_id),
                   (''actor_hash'', JStr actor_hash),
                   (''reason_code'', JStr (vr_reason_code r)),
                   (''reason_hash'', JStr reason_hash),
                   (''previous_status'', JStr (payout_status_value (po_status p))),
                   (''new_status'', JStr (payout_status_value CANCELED)),
                   (''metadata'', JObj (audit_safe_metadata (vr_metadata r)))])
            (AtTime (Aware decided_at 0)) (Some (vr_correlation_id r)) (Some actor_hash)
            (Some ''hitl-payout-gateway'')) (\<lambda>rec.
     bnd (lift (veto_decision decision_id (vr_tenant_id r) (vr_payout_id r) (vr_actor_id r)
            actor_hash (vr_reason_code r) (vr_reason r) reason_hash (ar_audit_hash rec) decided_at
            (vr_correlation_id r))) (\<lambda>d.
     bnd (add_decision d) (\<lambda>_.
     bnd (update_payout (with_status p CANCELED decided_at (Some (vd_audit_hash d))
            (Some (vd_decision_id d)))) (\<lambda>_.
     bnd (id_or_new rt (vr_event_id r) ''evt-payout-vetoed'') (\<lambda>event_id.
     bnd (emit event_id ''payout.vetoed'' ''1.0'' (vr_tenant_id r) ''hitl-payout-gateway''
            (vr_correlation_id r) decided_at
            [(''payout_id'', JStr (po_payout_id p)),
             (''decision_id'', JStr (vd_decision_id d)),
             (''reason_code'', JStr (vd_reason_code d)),
             (''audit_hash'', JStr (vd_audit_hash d))] None) (\<lambda>_.
     ret d)))))))))))"

section \<open>What the operations do\<close>

lemma key_of_with_status [simp]: "key_of (with_status p st n a d) = key_of p"
  by (simp add: key_of_def with_status_def)

lemma svc_grows_decisions: "svc_grows s t \<Longrightarrow> decisions t = decisions s"
  by (cases s; cases t) (simp add: svc_grows_def svc_rest_def)

lemma svc_grows_store_decision: "svc_grows s t \<Longrightarrow> svc_grows (store_decision d s) (store_decision d t)"
  by (cases s; cases t) (simp add: svc_grows_def svc_rest_def store_decision_def)

lemma payouts_store_decision [simp]: "payouts (store_decision d s) = payouts s"
  by (simp add: store_decision_def)

lemma decisions_store_payout [simp]: "decisions (store_payout p s) = decisions s"
  by (simp add: store_payout_def)

lemma decisions_sink [simp]: "decisions (sink_append r s) = decisions s"
  by (simp add: sink_append_def)

lemma decisions_store [simp]:
  "decisions (store_decision d s) =
     AList.update (decision_key (vd_tenant_id d) (vd_decision_id d)) d (decisions s)"
  by (simp add: store_decision_def)

text \<open>\<open>keyed m\<close>: every payout is stored under its own tenant and identifier.\<close>

definition keyed :: "(key, payout) dict \<Rightarrow> bool" where
  "keyed d \<longleftrightarrow> (\<forall>kv\<in>set d. key_of (snd kv) = fst kv)"

lemma keyedD: "keyed d \<Longrightarrow> map_of d k = Some p \<Longrightarrow> key_of p = k"
  by (force simp: keyed_def dest: map_of_SomeD)

lemma keyed_update: "keyed d \<Longrightarrow> keyed (AList.update (key_of p) p d)"
  by (induction d) (auto simp: keyed_def)

text \<open>The step of a veto that is allowed: the decision is stored and the payout is canceled.\<close>

definition vetoed :: "veto_request \<Rightarrow> payout \<Rightarrow> int \<Rightarrow> veto_decision \<Rightarrow> bool" where
  "vetoed r p n d \<longleftrightarrow>
     po_status p = QUEUED \<and> n < po_veto_until p \<and> vd_decided_at d = n \<and>
     vd_tenant_id d = vr_tenant_id r \<and> tenant_id_ok (vr_tenant_id r) \<and>
     vd_payout_id d = pyd_strip (vr_payout_id r) \<and>
     token_ok (vd_decision_id d) \<and> token_ok (vd_payout_id d) \<and> token_ok (vd_actor_id d) \<and>
     vd_actor_id d = pyd_strip (vr_actor_id r)"

definition veto_step :: "payout \<Rightarrow> int \<Rightarrow> veto_decision \<Rightarrow> 'z veto_state_scheme \<Rightarrow> 'z veto_state_scheme" where
  "veto_step p n d s =
     store_payout (with_status p CANCELED n (Some (vd_audit_hash d)) (Some (vd_decision_id d)))
       (store_decision d s)"

lemma svc_grows_veto_step: "svc_grows s t \<Longrightarrow> svc_grows (veto_step p n d s) (veto_step p n d t)"
  by (simp add: veto_step_def svc_grows_store svc_grows_store_decision)

lemma after_veto_step:
  "svc_grows s t \<Longrightarrow> svc_grows (veto_step p n d (sink_append r t)) u \<Longrightarrow> svc_grows (veto_step p n d s) u"
  by (blast intro: svc_grows_trans svc_grows_veto_step)

lemma add_decision_rule [act_rules]:
  assumes "Q (Inl (PayoutQueueError ''duplicate decision_id'')) s"
    and "map_of (decisions s) (decision_key (vd_tenant_id d) (vd_decision_id d)) = None \<Longrightarrow>
           Q (Inr d) (store_decision d s)"
  shows "outcome (add_decision d) Q s"
  using assms by (simp add: add_decision_def act_simps)

lemma veto_decision_Inr:
  assumes "veto_decision i (vr_tenant_id r) (vr_payout_id r) (vr_actor_id r) ah rc rs rh a n cid = Inr d"
    and "audit_record_of (vr_tenant_id r) c rec" and "po_status p = QUEUED" and "n < po_veto_until p"
  shows "vetoed r p n d"
  using assms by (auto simp: veto_decision_def vetoed_def audit_record_of_def)

lemma veto_payout_rule:
  assumes "keyed (payouts s)"
    and "\<And>e t. svc_grows s t \<Longrightarrow> Q (Inl e) t"
    and "\<And>p n d rs t. map_of (payouts s) (payout_key (vr_tenant_id r) (vr_payout_id r)) = Some p \<Longrightarrow>
           normalize_datetime rt (vr_now r) = Inr n \<Longrightarrow> vetoed r p n d \<Longrightarrow>
           map_of (decisions s) (decision_key (vd_tenant_id d) (vd_decision_id d)) = None \<Longrightarrow>
           svc_grows (veto_step p n d s) t \<Longrightarrow> (\<exists>l. rs = Inl (ValueError l)) \<or> rs = Inr d \<Longrightarrow> Q rs t"
  shows "outcome (veto_payout rt r) Q s"
proof -
  have fin: "Q rs (u\<lparr>bus := bus u @ ms\<rparr>)"
    if "map_of (payouts s) (payout_key (vr_tenant_id r) (vr_payout_id r)) = Some p"
      and "normalize_datetime rt (vr_now r) = Inr n" and "vetoed r p n d"
      and "map_of (decisions s) (decision_key (vd_tenant_id d) (vd_decision_id d)) = None"
      and "svc_grows s t" and "svc_grows (veto_step p n d (sink_append rec t)) u"
      and "(\<exists>l. rs = Inl (ValueError l)) \<or> rs = Inr d"
    for p n d t rec u rs ms
    using that by (blast intro: assms(3) after_veto_step svc_grows_bus_trans)
  show ?thesis
    using assms(2) [OF svc_grows_refl] assms(1)
    by (auto simp: veto_payout_def act_simps Let_def svc_grows_payouts svc_grows_decisions keyedD
        split: sum.splits
        intro!: get_payout_rule id_or_new_rule audit_log_rule add_decision_rule update_payout_rule emit_rule
        intro: assms(2) veto_decision_Inr fin [where ms = "[]", simplified] fin
        simp flip: veto_step_def)
qed

end
