(* ===== verification/Tenancy.thy ===== *)
theory Tenancy
  imports SharedModels
begin

text \<open>
  \<open>libs/shared/tenant.py\<close>: the tenant context of a request, its transport in trusted headers,
  the check of a requested tenant with its audit event, and the tenant-scoped repository helper.
  The audit sink of a denial is an argument of the code; here it is the state, \<open>None\<close> for no
  sink. A record of the repository is a mapping, and \<open>_record_field\<close> reads it.
\<close>

section \<open>The context and its headers\<close>

record tenant_context =
  tc_tenant_id :: string
  tc_subject :: "string option"
  tc_roles :: "string list"
  tc_correlation_id :: "string option"

record tenant_audit_event =
  te_event_type :: string
  te_tenant_id :: "string option"
  te_requested_tenant_hash :: "string option"
  te_actor_hash :: "string option"
  te_resource_type :: string
  te_correlation_id :: "string option"
  te_reason :: string

definition TENANT_ID_HEADER :: string where "TENANT_ID_HEADER = ''x-tenant-id''"
definition SUBJECT_ID_HEADER :: string where "SUBJECT_ID_HEADER = ''x-subject-id''"
definition ACTOR_ROLES_HEADER :: string where "ACTOR_ROLES_HEADER = ''x-actor-roles''"
definition CORRELATION_ID_HEADER :: string where "CORRELATION_ID_HEADER = ''x-correlation-id''"
definition SERVICE_NAME_HEADER :: string where "SERVICE_NAME_HEADER = ''x-service-name''"
definition FORWARDED_PREFIX_HEADER :: string where "FORWARDED_PREFIX_HEADER = ''x-forwarded-prefix''"
definition ORIGINAL_PATH_HEADER :: string where "ORIGINAL_PATH_HEADER = ''x-original-path''"

lemmas header_names =
  TENANT_ID_HEADER_def SUBJECT_ID_HEADER_def ACTOR_ROLES_HEADER_def CORRELATION_ID_HEADER_def
  SERVICE_NAME_HEADER_def FORWARDED_PREFIX_HEADER_def ORIGINAL_PATH_HEADER_def

lemma header_distinct:
  "distinct [TENANT_ID_HEADER, SUBJECT_ID_HEADER, ACTOR_ROLES_HEADER, CORRELATION_ID_HEADER,
     SERVICE_NAME_HEADER, FORWARDED_PREFIX_HEADER, ORIGINAL_PATH_HEADER]"
  by (simp add: header_names)

definition opt_header :: "string \<Rightarrow> string option \<Rightarrow> (string \<times> string) list" where
  "opt_header name v = (case v of None \<Rightarrow> [] | Some x \<Rightarrow> [(name, x)])"

definition tenant_headers_from_context ::
    "tenant_context \<Rightarrow> string option \<Rightarrow> string option \<Rightarrow> string option \<Rightarrow> (string \<times> string) list" where
  "tenant_headers_from_context c service_name forwarded_prefix original_path =
     [(TENANT_ID_HEADER, tc_tenant_id c)]
     @ opt_header SUBJECT_ID_HEADER (tc_subject c)
     @ (if tc_roles c \<noteq> [] then [(ACTOR_ROLES_HEADER, join_with '','' (tc_roles c))] else [])
     @ opt_header CORRELATION_ID_HEADER (tc_correlation_id c)
     @ opt_header SERVICE_NAME_HEADER service_name
     @ opt_header FORWARDED_PREFIX_HEADER forwarded_prefix
     @ opt_header ORIGINAL_PATH_HEADER original_path"

text \<open>\<open>_validated_tenant_id\<close>: any value that is not a text of the pattern is refused.\<close>

definition validated_tenant_id :: "json option \<Rightarrow> string option \<Rightarrow> exn + string" where
  "validated_tenant_id v correlation_id =
     (case v of
        Some (JStr s) \<Rightarrow>
          if tenant_id_ok s then Inr s
          else Inl (TenantIsolationError ''tenant_id'' correlation_id False)
      | _ \<Rightarrow> Inl (TenantIsolationError ''tenant_id'' correlation_id False))"

definition optional_header :: "(string \<times> string) list \<Rightarrow> string \<Rightarrow> string option" where
  "optional_header h name =
     (case map_of h name of None \<Rightarrow> None | Some v \<Rightarrow> if v = [] then None else Some v)"

definition roles_from_header :: "string option \<Rightarrow> exn + string list" where
  "roles_from_header v =
     (case v of
        None \<Rightarrow> Inr []
      | Some s \<Rightarrow>
          if py_strip s = [] then Inr []
          else
            (let raw = split_on (CHR '','') s;
                 roles = map py_strip (filter (\<lambda>r. py_strip r \<noteq> []) raw)
             in if length roles \<noteq> length raw then Inl (UnauthorizedError ''X-Actor-Roles'' None)
                else Inr roles))"

text \<open>The comprehension that normalises header names: a later name overwrites an earlier one.\<close>

definition normalize_headers :: "(string \<times> string) list \<Rightarrow> (string \<times> string) list" where
  "normalize_headers h = fold (\<lambda>(k, v). AList.update (py_lower k) (py_strip v)) h []"

definition tenant_context_from_trusted_headers :: "(string \<times> string) list \<Rightarrow> exn + tenant_context" where
  "tenant_context_from_trusted_headers headers =
     (let h = normalize_headers headers;
          correlation_id = optional_header h CORRELATION_ID_HEADER
      in
      ebind (validated_tenant_id (map_option JStr (map_of h TENANT_ID_HEADER)) correlation_id) (\<lambda>tenant.
      ebind (roles_from_header (map_of h ACTOR_ROLES_HEADER)) (\<lambda>roles.
      Inr \<lparr>tc_tenant_id = tenant, tc_subject = optional_header h SUBJECT_ID_HEADER,
           tc_roles = roles, tc_correlation_id = correlation_id\<rparr>)))"

section \<open>Denials\<close>

type_synonym denial_sink = "tenant_audit_event list option"

definition hash_identifier :: "runtime \<Rightarrow> string option \<Rightarrow> string option" where
  "hash_identifier rt v = map_option (rt_sha256 rt) v"

definition build_tenant_violation_event ::
    "runtime \<Rightarrow> tenant_context option \<Rightarrow> string option \<Rightarrow> string \<Rightarrow> string option \<Rightarrow> string
     \<Rightarrow> tenant_audit_event" where
  "build_tenant_violation_event rt context requested_tenant_id resource_type correlation_id reason =
     \<lparr>te_event_type = ''tenant.isolation_violation'',
      te_tenant_id = map_option tc_tenant_id context,
      te_requested_tenant_hash = hash_identifier rt requested_tenant_id,
      te_actor_hash = hash_identifier rt (case context of None \<Rightarrow> None | Some c \<Rightarrow> tc_subject c),
      te_resource_type = resource_type, te_correlation_id = correlation_id, te_reason = reason\<rparr>"

definition record_denial :: "tenant_audit_event \<Rightarrow> denial_sink \<Rightarrow> denial_sink" where
  "record_denial e sink = map_option (\<lambda>es. es @ [e]) sink"

definition deny_tenant_access ::
    "runtime \<Rightarrow> tenant_context \<Rightarrow> string option \<Rightarrow> string \<Rightarrow> string \<Rightarrow> (denial_sink, 'a) act" where
  "deny_tenant_access rt context requested_tenant_id resource_type reason =
     bnd (gets (\<lambda>sink. sink \<noteq> None)) (\<lambda>audited.
     bnd (modify (record_denial
            (build_tenant_violation_event rt (Some context) requested_tenant_id resource_type
               (tc_correlation_id context) reason))) (\<lambda>_.
     fail (TenantIsolationError ''denied'' (tc_correlation_id context) audited)))"

text \<open>\<open>context or require_tenant_context()\<close>; \<open>ambient\<close> is the context variable.\<close>

definition resolve_context :: "tenant_context option \<Rightarrow> tenant_context option \<Rightarrow> exn + tenant_context" where
  "resolve_context ambient context =
     (case context of
        Some c \<Rightarrow> Inr c
      | None \<Rightarrow> (case ambient of Some c \<Rightarrow> Inr c
                | None \<Rightarrow> Inl (TenantIsolationError ''context missing'' None False)))"

definition assert_requested_tenant ::
    "runtime \<Rightarrow> tenant_context option \<Rightarrow> string option \<Rightarrow> tenant_context option \<Rightarrow> string
     \<Rightarrow> (denial_sink, unit) act" where
  "assert_requested_tenant rt ambient requested_tenant_id context resource_type =
     bnd (lift (resolve_context ambient context)) (\<lambda>c.
     case requested_tenant_id of
       None \<Rightarrow> ret ()
     | Some requested \<Rightarrow>
         bnd (lift (validated_tenant_id (Some (JStr requested)) (tc_correlation_id c))) (\<lambda>tenant.
         if tenant \<noteq> tc_tenant_id c
         then deny_tenant_access rt c (Some tenant) resource_type ''requested_tenant_mismatch''
         else ret ()))"

section \<open>The tenant-scoped repository\<close>

type_synonym db_record = "(string \<times> json) list"

definition record_field :: "db_record \<Rightarrow> string \<Rightarrow> json option" where
  "record_field r name = map_of r name"

definition record_tenant_id :: "db_record \<Rightarrow> string option \<Rightarrow> exn + string" where
  "record_tenant_id r correlation_id = validated_tenant_id (record_field r ''tenant_id'') correlation_id"

fun owned_records :: "tenant_context \<Rightarrow> db_record list \<Rightarrow> exn + db_record list" where
  "owned_records c [] = Inr []"
| "owned_records c (r # rs) =
     ebind (record_tenant_id r (tc_correlation_id c)) (\<lambda>tenant.
     ebind (owned_records c rs) (\<lambda>owned.
     Inr (if tenant = tc_tenant_id c then r # owned else owned)))"

definition list_for_tenant ::
    "tenant_context option \<Rightarrow> db_record list \<Rightarrow> tenant_context option \<Rightarrow> exn + db_record list" where
  "list_for_tenant ambient records context =
     ebind (resolve_context ambient context) (\<lambda>c. owned_records c records)"

definition require_owned ::
    "runtime \<Rightarrow> string \<Rightarrow> tenant_context option \<Rightarrow> db_record \<Rightarrow> tenant_context option
     \<Rightarrow> (denial_sink, db_record) act" where
  "require_owned rt resource_type ambient r context =
     bnd (lift (resolve_context ambient context)) (\<lambda>c.
     bnd (lift (record_tenant_id r (tc_correlation_id c))) (\<lambda>tenant.
     if tenant \<noteq> tc_tenant_id c
     then deny_tenant_access rt c (Some tenant) resource_type ''resource_tenant_mismatch''
     else ret r))"

definition get_owned ::
    "runtime \<Rightarrow> string \<Rightarrow> tenant_context option \<Rightarrow> db_record list \<Rightarrow> string \<Rightarrow> tenant_context option
     \<Rightarrow> string \<Rightarrow> (denial_sink, db_record option) act" where
  "get_owned rt resource_type ambient records resource_id context id_field =
     bnd (lift (resolve_context ambient context)) (\<lambda>c.
     case find (\<lambda>r. record_field r id_field = Some (JStr resource_id)) records of
       None \<Rightarrow> ret None
     | Some r \<Rightarrow> bnd (require_owned rt resource_type ambient r (Some c)) (\<lambda>r'. ret (Some r')))"

section \<open>Isolation\<close>

lemma validated_tenant_id_Inr [simp]:
  "validated_tenant_id v cid = Inr s \<longleftrightarrow> v = Some (JStr s) \<and> tenant_id_ok s"
  by (auto simp: validated_tenant_id_def split: option.splits json.splits)

lemma owned_records_filter:
  "owned_records c rs = Inr owned \<Longrightarrow>
     owned = filter (\<lambda>r. record_field r ''tenant_id'' = Some (JStr (tc_tenant_id c))) rs"
  by (induction rs arbitrary: owned) (auto simp: record_tenant_id_def)

lemma assert_requested_tenant_rule:
  assumes "\<And>e t. Q (Inl e) t"
    and "requested = None \<or> requested = Some (tc_tenant_id c) \<and> tenant_id_ok (tc_tenant_id c) \<Longrightarrow>
           Q (Inr ()) s"
  shows "outcome (assert_requested_tenant rt amb requested (Some c) rtype) Q s"
  using assms
  by (auto simp: assert_requested_tenant_def resolve_context_def deny_tenant_access_def act_simps
      split: option.splits sum.splits)

lemma require_owned_rule:
  assumes "\<And>e t. Q (Inl e) t"
    and "record_field r ''tenant_id'' = Some (JStr (tc_tenant_id c)) \<Longrightarrow> Q (Inr r) s"
  shows "outcome (require_owned rt rtype amb r (Some c)) Q s"
  using assms
  by (auto simp: require_owned_def resolve_context_def deny_tenant_access_def record_tenant_id_def act_simps
      split: sum.splits)

end
