(* ===== verification/Rbac.thy ===== *)
theory Rbac
  imports Tenancy
begin

text \<open>
  \<open>libs/shared/rbac.py\<close>: governance roles, deny-by-default access policies, and the policy
  that an HTTP method and path select.
\<close>

definition COUNCIL_ROLE :: string where "COUNCIL_ROLE = ''council''"

definition GOVERNANCE_ROLES :: "string list" where
  "GOVERNANCE_ROLES =
     [COUNCIL_ROLE, ''presidium'', ''board'', ''member_full'', ''member_assoc'', ''audience'']"

record access_policy =
  pol_allowed_roles :: "string list"
  pol_action :: string
  pol_resource_type :: string

definition require_non_empty :: "string \<Rightarrow> string \<Rightarrow> exn + unit" where
  "require_non_empty value field_name =
     (if py_strip value = [] then Inl (ValueError field_name) else Inr ())"

definition normalize_allowed_roles :: "string list \<Rightarrow> exn + string list" where
  "normalize_allowed_roles roles =
     (let normalized = first_occurrences roles in
      if list_ex (\<lambda>r. r \<notin> set GOVERNANCE_ROLES) normalized then Inl (ValueError ''allowed_roles'')
      else Inr normalized)"

definition make_access_policy :: "string list \<Rightarrow> string \<Rightarrow> string \<Rightarrow> exn + access_policy" where
  "make_access_policy allowed_roles action resource_type =
     ebind (require_non_empty action ''action'') (\<lambda>_.
     ebind (require_non_empty resource_type ''resource_type'') (\<lambda>_.
     ebind (normalize_allowed_roles allowed_roles) (\<lambda>roles.
     Inr \<lparr>pol_allowed_roles = roles, pol_action = py_strip action,
          pol_resource_type = py_strip resource_type\<rparr>)))"

definition policy_forbids :: "access_policy \<Rightarrow> exn" where
  "policy_forbids p = ForbiddenError (pol_action p) (pol_resource_type p) (pol_allowed_roles p)"

definition require_access ::
    "tenant_context option \<Rightarrow> access_policy \<Rightarrow> tenant_context option \<Rightarrow> exn + tenant_context" where
  "require_access ambient policy context =
     ebind (resolve_context ambient context) (\<lambda>c.
     let actor_roles = filter (\<lambda>r. r \<in> set GOVERNANCE_ROLES) (tc_roles c) in
     if list_ex (\<lambda>r. r \<in> set (pol_allowed_roles policy)) actor_roles then Inr c
     else Inl (policy_forbids policy))"

definition require_any_role ::
    "tenant_context option \<Rightarrow> string list \<Rightarrow> tenant_context option \<Rightarrow> string \<Rightarrow> string
     \<Rightarrow> exn + tenant_context" where
  "require_any_role ambient roles context action resource_type =
     ebind (make_access_policy roles action resource_type) (\<lambda>p. require_access ambient p context)"

section \<open>Endpoints\<close>

record endpoint_policy =
  ep_method :: string
  ep_path_template :: string
  ep_access_policy :: access_policy

text \<open>\<open>method.upper()\<close>.\<close>

definition method_upper :: "string \<Rightarrow> string" where
  "method_upper s = concat (map upper_text s)"

definition make_endpoint_policy :: "string \<Rightarrow> string \<Rightarrow> access_policy \<Rightarrow> exn + endpoint_policy" where
  "make_endpoint_policy method path_template policy =
     ebind (require_non_empty method ''method'') (\<lambda>_.
     ebind (require_non_empty path_template ''path_template'') (\<lambda>_.
     let template = py_strip path_template in
     if take 1 template \<noteq> ''/'' then Inl (ValueError ''path_template'')
     else Inr \<lparr>ep_method = method_upper (py_strip method), ep_path_template = template,
               ep_access_policy = policy\<rparr>))"

definition strip_char :: "char \<Rightarrow> string \<Rightarrow> string" where
  "strip_char c s = strip_with (\<lambda>x. x = c) s"

definition split_path :: "string \<Rightarrow> string list" where
  "split_path s =
     (let n = py_strip s in
      if n = ''/'' then []
      else filter (\<lambda>p. p \<noteq> []) (split_on (CHR ''/'') (strip_char (CHR ''/'') n)))"

definition is_path_parameter :: "string \<Rightarrow> bool" where
  "is_path_parameter t \<longleftrightarrow> t \<noteq> [] \<and> hd t = CHR 0x7B \<and> last t = CHR 0x7D"

definition path_part_matches :: "string \<Rightarrow> string \<Rightarrow> bool" where
  "path_part_matches t p \<longleftrightarrow>
     (if is_path_parameter t then 2 < length t \<and> p \<noteq> [] else t = p)"

definition path_template_matches :: "string \<Rightarrow> string \<Rightarrow> bool" where
  "path_template_matches template path \<longleftrightarrow>
     length (split_path template) = length (split_path path) \<and>
     list_all (\<lambda>(t, p). path_part_matches t p) (zip (split_path template) (split_path path))"

definition endpoint_matches :: "endpoint_policy \<Rightarrow> string \<Rightarrow> string \<Rightarrow> bool" where
  "endpoint_matches ep method path \<longleftrightarrow>
     ep_method ep = method_upper method \<and> path_template_matches (ep_path_template ep) path"

definition deny_all :: "access_policy" where
  "deny_all = \<lparr>pol_allowed_roles = [], pol_action = ''endpoint.unlisted'', pol_resource_type = ''endpoint''\<rparr>"

fun policy_for_scope ::
    "endpoint_policy list \<Rightarrow> access_policy \<Rightarrow> string \<Rightarrow> string \<Rightarrow> access_policy" where
  "policy_for_scope [] dflt method path = dflt"
| "policy_for_scope (ep # eps) dflt method path =
     (if endpoint_matches ep method path then ep_access_policy ep
      else policy_for_scope eps dflt method path)"

text \<open>\<open>RBACASGIMiddleware.__call__\<close> on an HTTP scope: the application runs, or the error is sent.\<close>

definition rbac_guard ::
    "endpoint_policy list \<Rightarrow> access_policy option \<Rightarrow> tenant_context option \<Rightarrow> string \<Rightarrow> string
     \<Rightarrow> exn + tenant_context" where
  "rbac_guard eps default_policy ambient method path =
     (let dflt = (case default_policy of None \<Rightarrow> deny_all | Some p \<Rightarrow> p) in
      require_access ambient (policy_for_scope eps dflt (method_upper method) path) None)"

definition audit_endpoint :: "string \<Rightarrow> string \<Rightarrow> string \<Rightarrow> endpoint_policy" where
  "audit_endpoint method template action =
     \<lparr>ep_method = method, ep_path_template = template,
      ep_access_policy =
        \<lparr>pol_allowed_roles = [COUNCIL_ROLE], pol_action = action, pol_resource_type = ''blockchain_auditor''\<rparr>\<rparr>"

definition BLOCKCHAIN_AUDIT_ENDPOINT_POLICIES :: "endpoint_policy list" where
  "BLOCKCHAIN_AUDIT_ENDPOINT_POLICIES =
     [audit_endpoint ''POST'' ''/audit/record'' ''blockchain_audit.record'',
      audit_endpoint ''POST'' ''/audit/verify'' ''blockchain_audit.verify'',
      audit_endpoint ''GET'' (''/audit/records/'' @ [CHR 0x7B] @ ''event_id'' @ [CHR 0x7D])
        ''blockchain_audit.read'']"

section \<open>Access\<close>

lemma require_access_Inr:
  "require_access amb p (Some c) = Inr d \<longleftrightarrow>
     d = c \<and> (\<exists>r. r \<in> set (tc_roles c) \<and> r \<in> set (pol_allowed_roles p) \<and> r \<in> set GOVERNANCE_ROLES)"
  by (auto simp: require_access_def resolve_context_def list_ex_iff Let_def)

lemma policy_for_scope_find:
  "policy_for_scope eps dflt m p =
     (case find (\<lambda>ep. endpoint_matches ep m p) eps of None \<Rightarrow> dflt | Some ep \<Rightarrow> ep_access_policy ep)"
  by (induction eps) auto

end
