(* ===== verification/Encodings.thy ===== *)
theory Encodings
  imports Values
begin

text \<open>
  The encodings of the Python standard library that tokens and secrets travel in. A byte is a
  character, a byte string a string. \<open>base64.urlsafe_b64decode\<close> and \<open>base64.b32decode\<close>
  follow their implementation: the first skips every character outside its alphabet.
\<close>

section \<open>UTF-8 of the first 256 code points\<close>

definition utf8_char :: "char \<Rightarrow> string" where
  "utf8_char c =
     (let n = (of_char c :: nat) in
      if n < 128 then [c] else [char_of (192 + n div 64), char_of (128 + n mod 64)])"

definition utf8 :: "string \<Rightarrow> string" where
  "utf8 s = concat (map utf8_char s)"

definition is_ascii :: "string \<Rightarrow> bool" where
  "is_ascii s \<longleftrightarrow> list_all (\<lambda>c. (of_char c :: nat) < 128) s"

section \<open>Base 64 with the URL-safe alphabet\<close>

definition base64_char :: "nat \<Rightarrow> char" where
  "base64_char n =
     (if n < 26 then char_of (65 + n) else if n < 52 then char_of (71 + n)
      else if n < 62 then char_of (n - 4) else if n = 62 then CHR ''-'' else CHR ''_'')"

definition sextet :: "char \<Rightarrow> nat option" where
  "sextet c =
     (let n = (of_char c :: nat) in
      if 65 \<le> n \<and> n \<le> 90 then Some (n - 65)
      else if 97 \<le> n \<and> n \<le> 122 then Some (n - 71)
      else if 48 \<le> n \<and> n \<le> 57 then Some (n + 4)
      else if c = CHR ''-'' \<or> c = CHR ''+'' then Some 62
      else if c = CHR ''_'' \<or> c = CHR 0x2F then Some 63
      else None)"

abbreviation byte :: "char \<Rightarrow> nat" where
  "byte c \<equiv> of_char c"

text \<open>\<open>base64.urlsafe_b64encode(data).rstrip(b"=")\<close>.\<close>

fun base64url_encode :: "string \<Rightarrow> string" where
  "base64url_encode [] = []"
| "base64url_encode [a] = [base64_char (byte a div 4), base64_char (byte a mod 4 * 16)]"
| "base64url_encode [a, b] =
     [base64_char (byte a div 4), base64_char (byte a mod 4 * 16 + byte b div 16),
      base64_char (byte b mod 16 * 4)]"
| "base64url_encode (a # b # c # cs) =
     [base64_char (byte a div 4), base64_char (byte a mod 4 * 16 + byte b div 16),
      base64_char (byte b mod 16 * 4 + byte c div 64), base64_char (byte c mod 64)]
     @ base64url_encode cs"

text \<open>
  \<open>binascii.a2b_base64\<close>: the position in the group of four, the bits left over, the padding
  characters in a row and the bytes read so far.
\<close>

fun a2b_base64 :: "nat \<Rightarrow> nat \<Rightarrow> nat \<Rightarrow> string \<Rightarrow> string \<Rightarrow> string option" where
  "a2b_base64 pos left pads out [] = (if pos = 0 then Some out else None)"
| "a2b_base64 pos left pads out (c # cs) =
     (if c = CHR ''='' then
        (if 2 \<le> pos \<and> 4 \<le> pos + pads + 1 then Some out
         else a2b_base64 pos left (if 2 \<le> pos then pads + 1 else pads) out cs)
      else case sextet c of
        None \<Rightarrow> a2b_base64 pos left pads out cs
      | Some v \<Rightarrow>
          if pos = 0 then a2b_base64 1 v 0 out cs
          else if pos = 1 then a2b_base64 2 (v mod 16) 0 (out @ [char_of (left * 4 + v div 16)]) cs
          else if pos = 2 then a2b_base64 3 (v mod 4) 0 (out @ [char_of (left * 16 + v div 4)]) cs
          else a2b_base64 0 0 0 (out @ [char_of (left * 64 + v)]) cs)"

definition base64_padding :: "string \<Rightarrow> string" where
  "base64_padding s = replicate ((4 - length s mod 4) mod 4) (CHR ''='')"

text \<open>\<open>_base64url_decode\<close>: text outside ASCII is a plain \<open>ValueError\<close>; \<open>Inr None\<close> stands for
  \<open>binascii.Error\<close>.\<close>

definition base64url_decode :: "string \<Rightarrow> exn + string option" where
  "base64url_decode segment =
     (if \<not> is_ascii segment then Inl (ValueError ''non-ASCII base64'')
      else Inr (a2b_base64 0 0 0 [] (segment @ base64_padding segment)))"

section \<open>Base 32\<close>

definition base32_value :: "char \<Rightarrow> nat option" where
  "base32_value c =
     (let n = byte c in
      if 65 \<le> n \<and> n \<le> 90 then Some (n - 65) else if 50 \<le> n \<and> n \<le> 55 then Some (n - 24) else None)"

definition ascii_upper :: "char \<Rightarrow> char" where
  "ascii_upper c = (if 97 \<le> byte c \<and> byte c \<le> 122 then char_of (byte c - 32) else c)"

fun base32_acc :: "nat \<Rightarrow> string \<Rightarrow> nat option" where
  "base32_acc acc [] = Some acc"
| "base32_acc acc (c # cs) =
     (case base32_value c of None \<Rightarrow> None | Some v \<Rightarrow> base32_acc (acc * 32 + v) cs)"

definition five_bytes :: "nat \<Rightarrow> string" where
  "five_bytes acc = map (\<lambda>i. char_of (acc div 256 ^ i)) [4, 3, 2, 1, 0]"

text \<open>The loop over the quanta of eight digits, with the last accumulator.\<close>

fun base32_quanta :: "nat \<Rightarrow> string \<Rightarrow> string \<Rightarrow> (nat \<times> string) option" where
  "base32_quanta acc decoded s =
     (if s = [] then Some (acc, decoded)
      else case base32_acc 0 (take 8 s) of
        None \<Rightarrow> None
      | Some a \<Rightarrow> base32_quanta a (decoded @ five_bytes a) (drop 8 s))"

declare base32_quanta.simps [simp del]

text \<open>\<open>base64.b32decode(s, casefold=True)\<close>; \<open>None\<close> stands for its exceptions.\<close>

definition b32decode :: "string \<Rightarrow> string option" where
  "b32decode s =
     (if \<not> is_ascii s \<or> length s mod 8 \<noteq> 0 then None
      else
        let u = map ascii_upper s;
            digits = rev (dropWhile (\<lambda>c. c = CHR ''='') (rev u));
            padchars = length u - length digits
        in case base32_quanta 0 [] digits of
             None \<Rightarrow> None
           | Some (acc, decoded) \<Rightarrow>
               if padchars \<notin> {0, 1, 3, 4, 6} then None
               else if 0 < padchars \<and> decoded \<noteq> [] then
                 Some (take (length decoded - 5) decoded
                       @ take ((43 - 5 * padchars) div 8) (five_bytes (acc * 2 ^ (5 * padchars))))
               else Some decoded)"

section \<open>The encoding is undone\<close>

lemma byte_bound [simp]: "byte c < 256"
  using of_char_mod_256 [of c, where 'a = nat] by (metis mod_less_divisor zero_less_numeral)

lemma base64_char_ascii: "n < 64 \<Longrightarrow> byte (base64_char n) < 128"
  by (auto simp: base64_char_def of_char_of)

lemma base64_char_neq:
  assumes "n < 64" "byte c < 128" "byte c \<notin> {48..57} \<union> {65..90} \<union> {97..122} \<union> {45, 95}"
  shows "base64_char n \<noteq> c"
proof
  assume "base64_char n = c"
  then have "byte c = byte (base64_char n)" by simp
  with assms show False by (auto simp: base64_char_def of_char_of split: if_splits)
qed

lemma sextet_base64:
  assumes "n < 64"
  shows "sextet (base64_char n) = Some n" "base64_char n \<noteq> CHR ''=''" "base64_char n \<noteq> CHR ''.''"
proof -
  show "sextet (base64_char n) = Some n"
    using assms by (auto simp: base64_char_def sextet_def Let_def of_char_of)
  show "base64_char n \<noteq> CHR ''=''" "base64_char n \<noteq> CHR ''.''"
    by (rule base64_char_neq [OF assms]; simp)+
qed

lemma a2b_steps:
  assumes "v < 64"
  shows "a2b_base64 0 l p out (base64_char v # cs) = a2b_base64 1 v 0 out cs"
    and "a2b_base64 1 l p out (base64_char v # cs) = a2b_base64 2 (v mod 16) 0 (out @ [char_of (l * 4 + v div 16)]) cs"
    and "a2b_base64 2 l p out (base64_char v # cs) = a2b_base64 3 (v mod 4) 0 (out @ [char_of (l * 16 + v div 4)]) cs"
    and "a2b_base64 3 l p out (base64_char v # cs) = a2b_base64 0 0 0 (out @ [char_of (l * 64 + v)]) cs"
  using sextet_base64 [OF assms] by simp_all

lemma a2b_padding:
  "a2b_base64 2 l 0 out ''=='' = Some out" "a2b_base64 3 l 0 out ''='' = Some out"
  "a2b_base64 0 l p out [] = Some out"
  by simp_all

lemma split_byte:
  fixes a b :: nat
  assumes "b < 256"
  shows "(a * 16 + b div 16) div 16 = a" "(a * 16 + b div 16) mod 16 = b div 16"
    and "(a * 4 + b div 64) div 4 = a" "(a * 4 + b div 64) mod 4 = b div 64"
proof -
  have "b div 16 < 16" "b div 64 < 4" using assms by auto
  then show "(a * 16 + b div 16) div 16 = a" "(a * 16 + b div 16) mod 16 = b div 16"
    and "(a * 4 + b div 64) div 4 = a" "(a * 4 + b div 64) mod 4 = b div 64"
    by (simp_all add: mult.commute)
qed

lemma char_of_byte_parts [simp]:
  "char_of (byte a div 4 * 4 + byte a mod 4) = a" "char_of (byte b div 16 * 16 + byte b mod 16) = b"
  "char_of (byte c div 64 * 64 + byte c mod 64) = c"
  by simp_all

lemma byte_div_bounds [simp]: "byte a div 4 < 64" "byte a div 16 < 16" "byte a div 64 < 4"
  using byte_bound [of a] by linarith+

lemma sextet_bounds [simp]:
  fixes m n :: nat
  shows "n < 16 \<Longrightarrow> m mod 4 * 16 + n < 64" "n < 4 \<Longrightarrow> m mod 16 * 4 + n < 64"
    "m mod 4 * 16 < 64" "m mod 16 * 4 < 64" "m mod 64 < 64"
proof -
  have "m mod 4 < 4" "m mod 16 < 16" by auto
  then show "n < 16 \<Longrightarrow> m mod 4 * 16 + n < 64" "n < 4 \<Longrightarrow> m mod 16 * 4 + n < 64"
    "m mod 4 * 16 < 64" "m mod 16 * 4 < 64" "m mod 64 < 64" by linarith+
qed

lemma padding_of_length:
  "base64_padding [x, y] = ''==''" "base64_padding [x, y, z] = ''=''" "base64_padding [] = []"
  "base64_padding (x # y # z # w # cs) = base64_padding cs"
  by (simp_all add: base64_padding_def numeral_2_eq_2)

lemma a2b_encode:
  "a2b_base64 0 l p out (base64url_encode bs @ base64_padding (base64url_encode bs)) = Some (out @ bs)"
proof (induction bs arbitrary: l p out rule: base64url_encode.induct)
  case 1
  then show ?case by (simp add: padding_of_length)
next
  case (2 a)
  show ?case
    by (simp add: padding_of_length a2b_steps a2b_padding del: a2b_base64.simps One_nat_def)
next
  case (3 a b)
  show ?case
    by (simp add: padding_of_length a2b_steps a2b_padding split_byte del: a2b_base64.simps One_nat_def)
next
  case (4 a b c cs)
  then show ?case
    by (simp add: padding_of_length a2b_steps split_byte del: a2b_base64.simps One_nat_def)
qed

lemma base64url_ascii: "is_ascii (base64url_encode bs)"
  by (induction bs rule: base64url_encode.induct) (simp_all add: is_ascii_def base64_char_ascii)

lemma base64url_roundtrip: "base64url_decode (base64url_encode bs) = Inr (Some bs)"
  using a2b_encode [of 0 0 "[]" bs] by (simp add: base64url_decode_def base64url_ascii)

lemma base64url_no_dot: "CHR ''.'' \<notin> set (base64url_encode bs)"
  by (induction bs rule: base64url_encode.induct) (simp_all add: sextet_base64(3)[symmetric, THEN not_sym] sextet_base64(3) not_sym)

lemma base64url_no_space: "c \<in> set (base64url_encode bs) \<Longrightarrow> \<not> py_isspace c"
proof -
  have char: "\<not> py_isspace (base64_char n)" if "n < 64" for n
  proof -
    have "byte (base64_char n) \<in> {45..122}"
      using that by (auto simp: base64_char_def of_char_of)
    then show ?thesis by (auto simp: py_isspace_def Let_def)
  qed
  show "c \<in> set (base64url_encode bs) \<Longrightarrow> \<not> py_isspace c"
    by (induction bs rule: base64url_encode.induct) (auto simp: char)
qed

end
