(* ===== verification/RawJson.thy ===== *)
theory RawJson
  imports Encodings Values
begin

text \<open>
  JSON texts as \<open>json.dumps\<close> writes them with \<open>ensure_ascii=False\<close>, and the digest of such a text that
  several services store as evidence.
\<close>

text \<open>Characters beyond ASCII, and the delete character, stand for themselves.\<close>

definition raw_escape_char :: "char \<Rightarrow> string" where
  "raw_escape_char c = (if 127 \<le> byte c then [c] else json_escape_char c)"

definition raw_quote :: "string \<Rightarrow> string" where
  "raw_quote s = CHR 0x22 # concat (map raw_escape_char s) @ [CHR 0x22]"

text \<open>\<open>json.dumps(payload, ensure_ascii=False, sort_keys=True)\<close>.\<close>

definition raw_member :: "string \<times> string \<Rightarrow> string" where
  "raw_member kv = raw_quote (fst kv) @ '': '' @ snd kv"

primrec json_raw :: "(rat \<Rightarrow> string) \<Rightarrow> json \<Rightarrow> string" where
  "json_raw r JNull = ''null''"
| "json_raw r (JBool b) = (if b then ''true'' else ''false'')"
| "json_raw r (JInt i) = int_text i"
| "json_raw r (JFloat f) = json_float r f"
| "json_raw r (JStr s) = raw_quote s"
| "json_raw r (JList xs) = ''['' @ join_with '', '' (map (json_raw r) xs) @ '']''"
| "json_raw r (JObj kvs) =
     ''{'' @ join_with '', '' (map raw_member (sort_key fst (map (map_prod id (json_raw r)) kvs))) @ ''}''"

definition hash_json_raw :: "runtime \<Rightarrow> (string \<times> json) list \<Rightarrow> string" where
  "hash_json_raw rt payload = rt_sha256 rt (json_raw (rt_float_repr rt) (JObj payload))"

end
