(* ===== verification/Floats.thy ===== *)
theory Floats
  imports Values
begin

text \<open>
  Python's \<open>float\<close>: the binary64 number nearest to a rational (ties to even), the conversion of
  an integer, which raises when it overflows, and the comparison of JSON values with \<open>==\<close>, where
  booleans, integers and floats compare as numbers. Signed zeros are one value.
\<close>

fun bit_count :: "nat \<Rightarrow> nat" where
  "bit_count n = (if n = 0 then 0 else Suc (bit_count (n div 2)))"

declare bit_count.simps [simp del]

definition two_pow :: "int \<Rightarrow> rat" where
  "two_pow i = (if 0 \<le> i then 2 ^ nat i else 1 / 2 ^ nat (- i))"

text \<open>The exponent \<open>e\<close> with \<open>2^e \<le> q < 2^(e+1)\<close>, for a positive \<open>q\<close>.\<close>

definition exponent_of :: "rat \<Rightarrow> int" where
  "exponent_of q =
     (case quotient_of q of (a, b) \<Rightarrow>
        let e = int (bit_count (nat a)) - int (bit_count (nat b)) in
        if two_pow e \<le> q then e else e - 1)"

definition round_half_even :: "rat \<Rightarrow> int" where
  "round_half_even q =
     (let f = \<lfloor>q\<rfloor>; d = q - of_int f in
      if d < 1 / 2 then f else if 1 / 2 < d then f + 1 else if even f then f else f + 1)"

definition round_positive :: "rat \<Rightarrow> rat" where
  "round_positive q =
     (let p = max (exponent_of q - 52) (- 1074) in of_int (round_half_even (q / two_pow p)) * two_pow p)"

definition fl :: "rat \<Rightarrow> pyfloat" where
  "fl q =
     (if q = 0 then Fin 0
      else if 0 < q then
        (let r = round_positive q in if r < two_pow 1024 then Fin r else PosInf)
      else
        (let r = round_positive (- q) in if r < two_pow 1024 then Fin (- r) else NegInf))"

text \<open>\<open>float(i)\<close>.\<close>

definition float_of_int :: "int \<Rightarrow> exn + pyfloat" where
  "float_of_int i =
     (case fl (of_int i) of
        Fin r \<Rightarrow> Inr (Fin r)
      | _ \<Rightarrow> Inl (ExternalError ''OverflowError''))"

lemma bit_count_bounds: "0 < n \<Longrightarrow> 2 ^ (bit_count n - 1) \<le> n \<and> n < 2 ^ bit_count n"
proof (induction n rule: bit_count.induct)
  case (1 n)
  show ?case
  proof (cases "n div 2 = 0")
    case True
    then have "n = 1" using 1(2) by (simp add: div_eq_0_iff)
    then show ?thesis by (simp add: bit_count.simps)
  next
    case False
    then have IH: "2 ^ (bit_count (n div 2) - 1) \<le> n div 2" "n div 2 < 2 ^ bit_count (n div 2)"
      using 1 by auto
    have pos: "0 < bit_count (n div 2)" using False by (simp add: bit_count.simps [of "n div 2"])
    have "bit_count n = Suc (bit_count (n div 2))" using 1(2) by (simp add: bit_count.simps [of n])
    moreover have "(2::nat) ^ bit_count (n div 2) = 2 * 2 ^ (bit_count (n div 2) - 1)"
      using pos by (cases "bit_count (n div 2)") auto
    moreover obtain h where "n div 2 = h" "2 * h \<le> n" "n < 2 * h + 2" by auto
    ultimately show ?thesis using IH by auto
  qed
qed

lemma bit_count_le: "0 < n \<Longrightarrow> n < 2 ^ k \<Longrightarrow> bit_count n \<le> k"
proof -
  assume "0 < n" "n < 2 ^ k"
  then have "(2::nat) ^ (bit_count n - 1) < 2 ^ k" using bit_count_bounds by (metis le_less_trans)
  then have "bit_count n - 1 < k" by (simp add: power_strict_increasing_iff)
  then show ?thesis by simp
qed

lemma bit_count_one [simp]: "bit_count (Suc 0) = 1"
  by (simp add: bit_count.simps [of "Suc 0"] bit_count.simps [of 0])

lemma round_half_even_int [simp]: "round_half_even (of_int i) = i"
  by (simp add: round_half_even_def)

text \<open>Integers below \<open>2^53\<close> are floats.\<close>

lemma round_positive_int:
  assumes "0 < i" "i < 2 ^ 53"
  shows "round_positive (of_int i) = of_int i"
proof -
  have "bit_count (nat i) \<le> 53"
    using assms by (intro bit_count_le) (auto simp: nat_less_iff)
  then have e: "exponent_of (of_int i) \<le> 52"
    by (simp add: exponent_of_def Let_def two_pow_def split: if_splits)
  let ?p = "max (exponent_of (of_int i) - 52) (- 1074)"
  have p: "?p \<le> 0" using e by simp
  then have tp: "two_pow ?p = 1 / 2 ^ nat (- ?p)" by (cases "?p = 0") (simp_all add: two_pow_def)
  have "(of_int i :: rat) / two_pow ?p = of_int (i * 2 ^ nat (- ?p))"
    by (simp add: tp)
  then have "round_half_even (of_int i / two_pow ?p) = i * 2 ^ nat (- ?p)"
    by (metis round_half_even_int)
  then show ?thesis by (simp add: round_positive_def Let_def tp)
qed

lemma float_of_int_exact:
  assumes "- (2 ^ 53) < i" "i < 2 ^ 53"
  shows "float_of_int i = Inr (Fin (of_int i))"
proof -
  have big: "(of_int j :: rat) < two_pow 1024" if "j < 2 ^ 53" for j
  proof -
    have "(of_int j :: rat) < of_int (2 ^ 53)" using that by (simp only: of_int_less_iff)
    also have "\<dots> \<le> (2 :: rat) ^ 1024" by simp
    finally show ?thesis by (simp add: two_pow_def)
  qed
  consider "i = 0" | "0 < i" | "i < 0" by linarith
  then show ?thesis
  proof cases
    case 1
    then show ?thesis by (simp add: float_of_int_def fl_def)
  next
    case 2
    then show ?thesis
      using assms round_positive_int [of i] big [of i] by (simp add: float_of_int_def fl_def Let_def)
  next
    case 3
    then show ?thesis
      using assms round_positive_int [of "- i"] big [of "- i"]
      by (simp add: float_of_int_def fl_def Let_def)
  qed
qed

text \<open>Evaluation takes the short way for integers.\<close>

definition fl_rounded :: "rat \<Rightarrow> pyfloat" where
  "fl_rounded q = fl q"

lemma fl_rounded_code [code]:
  "fl_rounded q =
     (if q = 0 then Fin 0
      else if 0 < q then
        (let r = round_positive q in if r < two_pow 1024 then Fin r else PosInf)
      else
        (let r = round_positive (- q) in if r < two_pow 1024 then Fin (- r) else NegInf))"
  unfolding fl_rounded_def by (rule fl_def)

lemma fl_code [code]:
  "fl q = (if of_int \<lfloor>q\<rfloor> = q \<and> \<bar>\<lfloor>q\<rfloor>\<bar> < 9007199254740992 then Fin q else fl_rounded q)"
proof (cases "of_int \<lfloor>q\<rfloor> = q \<and> \<bar>\<lfloor>q\<rfloor>\<bar> < 9007199254740992")
  case True
  have "float_of_int \<lfloor>q\<rfloor> = Inr (Fin (of_int \<lfloor>q\<rfloor>))" using True by (intro float_of_int_exact) auto
  then have "fl q = Fin q" using True by (auto simp: float_of_int_def split: pyfloat.splits)
  with True show ?thesis by simp
next
  case False
  show ?thesis by (subst if_not_P [OF False]) (simp add: fl_rounded_def)
qed

section \<open>Equality of JSON values\<close>

fun float_num_eq :: "pyfloat \<Rightarrow> pyfloat \<Rightarrow> bool" where
  "float_num_eq (Fin a) (Fin b) = (a = b)"
| "float_num_eq PosInf PosInf = True"
| "float_num_eq NegInf NegInf = True"
| "float_num_eq _ _ = False"

text \<open>The number that a boolean, an integer or a float stands for in a comparison.\<close>

fun as_number :: "json \<Rightarrow> pyfloat option" where
  "as_number (JBool b) = Some (Fin (if b then 1 else 0))"
| "as_number (JInt i) = Some (Fin (of_int i))"
| "as_number (JFloat f) = Some f"
| "as_number _ = None"

text \<open>\<open>a == b\<close>; dictionaries are equal when they have the same keys with equal values.\<close>

function json_eq :: "json \<Rightarrow> json \<Rightarrow> bool" where
  "json_eq a b =
     (case (a, b) of
        (JNull, JNull) \<Rightarrow> True
      | (JStr s, JStr t) \<Rightarrow> s = t
      | (JList xs, JList ys) \<Rightarrow> length xs = length ys \<and> list_all (\<lambda>(x, y). json_eq x y) (zip xs ys)
      | (JObj kvs, JObj kws) \<Rightarrow>
          length kvs = length kws \<and>
          list_all (\<lambda>kv. case map_of kws (fst kv) of None \<Rightarrow> False | Some w \<Rightarrow> json_eq (snd kv) w) kvs
      | _ \<Rightarrow>
          (case (as_number a, as_number b) of
             (Some x, Some y) \<Rightarrow> float_num_eq x y | _ \<Rightarrow> False))"
  by pat_completeness auto

termination
proof (relation "measure (\<lambda>(a, b). size a)", goal_cases)
  case 1
  then show ?case by simp
next
  case (2 a b a' b' xs xs' z x y)
  then have "x \<in> set xs" by (auto dest: set_zip_leftD)
  then have "size x \<le> size_list size xs" by (intro size_list_estimation' [of x xs]) auto
  then show ?case using 2 by auto
next
  case (3 a b x y kvs kws kv w)
  then have "snd kv \<in> set (map snd kvs)" by auto
  then show ?case
    using 3 size_list_estimation' [of kv kvs "size (snd kv)" "size_prod (\<lambda>_. 0) size"]
    by (cases kv) auto
qed

declare json_eq.simps [simp del]

end
