(* ===== verification/Urls.thy ===== *)
theory Urls
  imports SharedModels
begin

text \<open>
  \<open>urllib.parse.urlsplit\<close> and \<open>urlunsplit\<close> as the services use them: scheme, network
  location, path, query and fragment of a URL, and the user information of the location. The check
  of an address between square brackets is an argument.
\<close>

record url_parts =
  up_scheme :: string
  up_netloc :: string
  up_path :: string
  up_query :: string
  up_fragment :: string

text \<open>\<open>str.partition\<close> and \<open>str.rpartition\<close> at a character: before, found, after.\<close>

fun partition_at :: "char \<Rightarrow> string \<Rightarrow> string \<times> bool \<times> string" where
  "partition_at c [] = ([], False, [])"
| "partition_at c (x # xs) =
     (if x = c then ([], True, xs)
      else case partition_at c xs of (a, f, b) \<Rightarrow> (x # a, f, b))"

definition rpartition_at :: "char \<Rightarrow> string \<Rightarrow> string \<times> bool \<times> string" where
  "rpartition_at c s =
     (case partition_at c (rev s) of (a, f, b) \<Rightarrow> if f then (rev b, True, rev a) else ([], False, s))"

definition scheme_char :: "char \<Rightarrow> bool" where
  "scheme_char c \<longleftrightarrow> is_alnum c \<or> c \<in> {CHR ''+'', CHR ''-'', CHR ''.''}"

definition split_scheme :: "string \<Rightarrow> string \<times> string" where
  "split_scheme url =
     (case partition_at (CHR '':'') url of
        (a, found, rest) \<Rightarrow>
          if found \<and> a \<noteq> [] \<and> (is_lower (hd a) \<or> is_upper (hd a)) \<and> list_all scheme_char a
          then (py_lower a, rest) else ([], url))"

definition split_netloc :: "string \<Rightarrow> string \<times> string" where
  "split_netloc url =
     (if take 2 url = ''//'' then
        (takeWhile (\<lambda>c. c \<notin> set ''/?#'') (drop 2 url), dropWhile (\<lambda>c. c \<notin> set ''/?#'') (drop 2 url))
      else ([], url))"

text \<open>The leading control characters and blanks, and every tab and line break, are removed.\<close>

definition clean_url :: "string \<Rightarrow> string" where
  "clean_url url =
     filter (\<lambda>c. c \<notin> {CHR 0x09, CHR 0x0A, CHR 0x0D})
       (dropWhile (\<lambda>c. (of_char c :: nat) \<le> 32) url)"

definition urlsplit :: "(string \<Rightarrow> bool) \<Rightarrow> string \<Rightarrow> exn + url_parts" where
  "urlsplit bracketed url =
     (case split_scheme (clean_url url) of
        (scheme, rest) \<Rightarrow>
          (case split_netloc rest of
             (netloc, tail) \<Rightarrow>
               if (CHR ''['' \<in> set netloc) \<noteq> (CHR '']'' \<in> set netloc) then Inl (ValueError ''IPv6 URL'')
               else if CHR ''['' \<in> set netloc \<and> \<not> bracketed netloc then Inl (ValueError ''IPv6 URL'')
               else
                 (case partition_at (CHR ''#'') tail of
                    (before, _, fragment) \<Rightarrow>
                      (case partition_at (CHR ''?'') before of
                         (path, _, query) \<Rightarrow>
                           Inr \<lparr>up_scheme = scheme, up_netloc = netloc, up_path = path,
                                up_query = query, up_fragment = fragment\<rparr>))))"

text \<open>\<open>urlunsplit\<close> for a URL with a network location.\<close>

definition urlunsplit :: "url_parts \<Rightarrow> string" where
  "urlunsplit p =
     (let path = (if up_path p \<noteq> [] \<and> take 1 (up_path p) \<noteq> ''/'' then CHR ''/'' # up_path p else up_path p);
          located = (if up_netloc p \<noteq> [] then ''//'' @ up_netloc p @ path else path);
          with_scheme = (if up_scheme p \<noteq> [] then up_scheme p @ '':'' @ located else located);
          with_query = (if up_query p \<noteq> [] then with_scheme @ ''?'' @ up_query p else with_scheme)
      in if up_fragment p \<noteq> [] then with_query @ ''#'' @ up_fragment p else with_query)"

text \<open>\<open>parts.username is not None or parts.password is not None\<close>.\<close>

definition has_userinfo :: "url_parts \<Rightarrow> bool" where
  "has_userinfo p \<longleftrightarrow> CHR 0x40 \<in> set (up_netloc p)"

definition host_and_port :: "url_parts \<Rightarrow> string \<times> string" where
  "host_and_port p =
     (case rpartition_at (CHR 0x40) (up_netloc p) of
        (_, _, hostinfo) \<Rightarrow>
          (case partition_at (CHR ''['') hostinfo of
             (_, True, inner) \<Rightarrow>
               (case partition_at (CHR '']'') inner of
                  (host, _, after) \<Rightarrow> (host, snd (snd (partition_at (CHR '':'') after))))
           | (_, False, _) \<Rightarrow>
               (case partition_at (CHR '':'') hostinfo of (host, _, port) \<Rightarrow> (host, port))))"

text \<open>\<open>parts.hostname or ""\<close>: lower case up to a zone identifier.\<close>

definition url_hostname :: "url_parts \<Rightarrow> string" where
  "url_hostname p =
     (case partition_at (CHR 0x25) (fst (host_and_port p)) of
        (name, zoned, zone) \<Rightarrow> if zoned then py_lower name @ [CHR 0x25] @ zone else py_lower name)"

fun decimal :: "nat \<Rightarrow> string \<Rightarrow> nat" where
  "decimal acc [] = acc"
| "decimal acc (c # cs) = decimal (10 * acc + (of_char c - 48)) cs"

definition url_port :: "url_parts \<Rightarrow> exn + nat option" where
  "url_port p =
     (let port = snd (host_and_port p) in
      if port = [] then Inr None
      else if \<not> list_all is_digit port then Inl (ValueError ''port'')
      else let n = decimal 0 port in if 65535 < n then Inl (ValueError ''port'') else Inr (Some n))"

lemma partition_at_Some: "partition_at c s = (a, True, b) \<Longrightarrow> s = a @ c # b \<and> c \<notin> set a"
  by (induction s arbitrary: a) (auto split: if_splits prod.splits)

lemma partition_at_None: "partition_at c s = (a, False, b) \<Longrightarrow> a = s \<and> b = [] \<and> c \<notin> set s"
  by (induction s arbitrary: a) (auto split: if_splits prod.splits)

lemma partition_at_append: "c \<notin> set a \<Longrightarrow> partition_at c (a @ c # b) = (a, True, b)"
  by (induction a) auto

lemma partition_at_absent: "c \<notin> set a \<Longrightarrow> partition_at c a = (a, False, [])"
  by (induction a) auto

end
