(* ===== verification/Jwt.thy ===== *)
theory Jwt
  imports RawJson Floats Urls Tenancy
begin

text \<open>
  The token half of \<open>libs/shared/tenant.py\<close>: HS256 JSON web tokens, the context of their
  claims, and \<open>TenantContextASGIMiddleware\<close>. HMAC-SHA256 and \<open>json.loads\<close> of a byte
  string are parameters; byte strings and texts are lists of characters below 256, which is what the
  headers decoded as Latin-1 hold.
\<close>

section \<open>Parameters\<close>

text \<open>
  \<open>json.loads\<close> returns a value, raises one of the exceptions that \<open>_decode_json_segment\<close>
  catches (\<open>JSONDecodeError\<close>, \<open>UnicodeDecodeError\<close>), or raises another one.
\<close>

datatype loads_result = Loaded json | NotJson | LoadsRaised string

record jwt_library =
  hmac_sha256 :: "string \<Rightarrow> string \<Rightarrow> string"
  json_loads :: "string \<Rightarrow> loads_result"
  float_text :: "rat \<Rightarrow> string"

text \<open>\<open>secret: str | bytes\<close>.\<close>

datatype jwt_secret = TextSecret string | BytesSecret string

fun secret_bytes :: "jwt_secret \<Rightarrow> string" where
  "secret_bytes (TextSecret s) = utf8 s"
| "secret_bytes (BytesSecret b) = b"

section \<open>Encoding\<close>

text \<open>\<open>json.dumps\<close> with \<open>ensure_ascii=False\<close>, \<open>separators=(",", ":")\<close> and sorted keys.\<close>

definition compact_member :: "string \<times> string \<Rightarrow> string" where
  "compact_member kv = raw_quote (fst kv) @ '':'' @ snd kv"

primrec json_compact :: "(rat \<Rightarrow> string) \<Rightarrow> json \<Rightarrow> string" where
  "json_compact r JNull = ''null''"
| "json_compact r (JBool b) = (if b then ''true'' else ''false'')"
| "json_compact r (JInt i) = int_text i"
| "json_compact r (JFloat f) = json_float r f"
| "json_compact r (JStr s) = raw_quote s"
| "json_compact r (JList xs) = ''['' @ join_with '','' (map (json_compact r) xs) @ '']''"
| "json_compact r (JObj kvs) =
     ''{'' @ join_with '',''
        (map compact_member (sort_key fst (map (map_prod id (json_compact r)) kvs))) @ ''}''"

definition json_bytes :: "jwt_library \<Rightarrow> (string \<times> json) list \<Rightarrow> string" where
  "json_bytes lib payload = utf8 (json_compact (float_text lib) (JObj payload))"

definition sign_hs256 :: "jwt_library \<Rightarrow> string \<Rightarrow> jwt_secret \<Rightarrow> string" where
  "sign_hs256 lib signing_input secret = hmac_sha256 lib (secret_bytes secret) signing_input"

definition jwt_header :: "(string \<times> json) list option \<Rightarrow> (string \<times> json) list" where
  "jwt_header headers =
     (let h = [(''alg'', JStr ''HS256''), (''typ'', JStr ''JWT'')] in
      case headers of None \<Rightarrow> h | Some extra \<Rightarrow> fold (\<lambda>(k, v). AList.update k v) extra h)"

definition signing_input ::
    "jwt_library \<Rightarrow> (string \<times> json) list \<Rightarrow> (string \<times> json) list \<Rightarrow> string" where
  "signing_input lib header claims =
     base64url_encode (json_bytes lib header) @ ''.'' @ base64url_encode (json_bytes lib claims)"

definition encode_hs256_jwt ::
    "jwt_library \<Rightarrow> (string \<times> json) list \<Rightarrow> jwt_secret \<Rightarrow> (string \<times> json) list option \<Rightarrow> string" where
  "encode_hs256_jwt lib claims secret headers =
     (let si = signing_input lib (jwt_header headers) claims in
      si @ ''.'' @ base64url_encode (sign_hs256 lib si secret))"

section \<open>Decoding\<close>

definition decode_json_segment :: "jwt_library \<Rightarrow> string \<Rightarrow> exn + (string \<times> json) list" where
  "decode_json_segment lib segment =
     ebind (base64url_decode segment) (\<lambda>decoded.
     case decoded of
       None \<Rightarrow> Inl (UnauthorizedError ''JWT json'' None)
     | Some bytes \<Rightarrow>
         (case json_loads lib bytes of
            NotJson \<Rightarrow> Inl (UnauthorizedError ''JWT json'' None)
          | LoadsRaised e \<Rightarrow> Inl (ExternalError e)
          | Loaded (JObj kvs) \<Rightarrow> Inr kvs
          | Loaded _ \<Rightarrow> Inl (UnauthorizedError ''JWT object'' None)))"

fun is_numeric_claim :: "json \<Rightarrow> bool" where
  "is_numeric_claim (JInt _) = True"
| "is_numeric_claim (JFloat _) = True"
| "is_numeric_claim _ = False"

text \<open>\<open>claims.get(key)\<close>: a missing claim reads as \<open>None\<close>, as JSON \<open>null\<close> does.\<close>

definition claim :: "(string \<times> json) list \<Rightarrow> string \<Rightarrow> json" where
  "claim claims key = (case map_of claims key of None \<Rightarrow> JNull | Some v \<Rightarrow> v)"

text \<open>\<open>float(value)\<close> of a numeric claim: an integer beyond the range raises \<open>OverflowError\<close>.\<close>

fun claim_float :: "json \<Rightarrow> exn + pyfloat" where
  "claim_float (JInt i) = float_of_int i"
| "claim_float (JFloat f) = Inr f"
| "claim_float _ = Inl (TypeError ''float'')"

definition audience_matches :: "json \<Rightarrow> string \<Rightarrow> bool" where
  "audience_matches v expected =
     (case v of
        JStr s \<Rightarrow> s = expected
      | JList xs \<Rightarrow> JStr expected \<in> set xs
      | _ \<Rightarrow> False)"

definition check_exp :: "json \<Rightarrow> pyfloat \<Rightarrow> exn + unit" where
  "check_exp v now =
     (if v = JNull then Inr ()
      else if \<not> is_numeric_claim v then Inl (UnauthorizedError ''exp number'' None)
      else ebind (claim_float v) (\<lambda>e.
           if float_le e now then Inl (UnauthorizedError ''JWT expired'' None) else Inr ()))"

definition check_nbf :: "json \<Rightarrow> pyfloat \<Rightarrow> exn + unit" where
  "check_nbf v now =
     (if v = JNull then Inr ()
      else if \<not> is_numeric_claim v then Inl (UnauthorizedError ''nbf number'' None)
      else ebind (claim_float v) (\<lambda>e.
           if float_lt now e then Inl (UnauthorizedError ''JWT not yet valid'' None) else Inr ()))"

definition validate_registered_claims ::
    "(string \<times> json) list \<Rightarrow> string option \<Rightarrow> string option \<Rightarrow> pyfloat \<Rightarrow> exn + unit" where
  "validate_registered_claims claims expected_issuer expected_audience now =
     ebind (check_exp (claim claims ''exp'') now) (\<lambda>_.
     ebind (check_nbf (claim claims ''nbf'') now) (\<lambda>_.
     if (case expected_issuer of None \<Rightarrow> False | Some i \<Rightarrow> claim claims ''iss'' \<noteq> JStr i)
     then Inl (UnauthorizedError ''JWT issuer'' None)
     else if (case expected_audience of None \<Rightarrow> False
              | Some a \<Rightarrow> \<not> audience_matches (claim claims ''aud'') a)
     then Inl (UnauthorizedError ''JWT audience'' None)
     else Inr ()))"

definition decode_hs256_jwt ::
    "jwt_library \<Rightarrow> string \<Rightarrow> jwt_secret \<Rightarrow> string option \<Rightarrow> string option \<Rightarrow> pyfloat
     \<Rightarrow> exn + (string \<times> json) list" where
  "decode_hs256_jwt lib token secret expected_issuer expected_audience now =
     (case split_on (CHR ''.'') token of
        [header_segment, payload_segment, signature_segment] \<Rightarrow>
          ebind (decode_json_segment lib header_segment) (\<lambda>header.
          ebind (decode_json_segment lib payload_segment) (\<lambda>claims.
          if claim header ''alg'' \<noteq> JStr ''HS256'' then Inl (UnauthorizedError ''JWT alg'' None)
          else
            ebind (base64url_decode signature_segment) (\<lambda>actual_signature.
            if actual_signature = None then Inl (UnauthorizedError ''JWT signature base64url'' None)
            else if actual_signature \<noteq>
                      Some (sign_hs256 lib (header_segment @ ''.'' @ payload_segment) secret)
            then Inl (UnauthorizedError ''JWT signature'' None)
            else
              ebind (validate_registered_claims claims expected_issuer expected_audience now) (\<lambda>_.
              Inr claims))))
      | _ \<Rightarrow> Inl (UnauthorizedError ''JWT parts'' None))"

section \<open>The context of a token\<close>

text \<open>\<open>str.split()\<close>.\<close>

definition split_words :: "string \<Rightarrow> string list" where
  "split_words s =
     filter (\<lambda>w. w \<noteq> [])
       (split_on (CHR '' '') (map (\<lambda>c. if py_isspace c then CHR '' '' else c) s))"

definition optional_string_claim :: "(string \<times> json) list \<Rightarrow> string \<Rightarrow> exn + string option" where
  "optional_string_claim claims key =
     (case claim claims key of
        JNull \<Rightarrow> Inr None
      | JStr s \<Rightarrow> Inr (Some s)
      | _ \<Rightarrow> Inl (UnauthorizedError ''claim string'' None))"

fun string_items :: "json list \<Rightarrow> string list option" where
  "string_items [] = Some []"
| "string_items (JStr s # xs) = map_option ((#) s) (string_items xs)"
| "string_items _ = None"

definition roles_from_claims :: "(string \<times> json) list \<Rightarrow> exn + string list" where
  "roles_from_claims claims =
     (case claim claims ''roles'' of
        JNull \<Rightarrow> (case claim claims ''scope'' of JStr s \<Rightarrow> Inr (split_words s) | _ \<Rightarrow> Inr [])
      | JStr s \<Rightarrow> Inr [s]
      | JList xs \<Rightarrow>
          (case string_items xs of
             Some rs \<Rightarrow> Inr rs
           | None \<Rightarrow> Inl (UnauthorizedError ''claim roles'' None))
      | _ \<Rightarrow> Inl (UnauthorizedError ''claim roles'' None))"

definition tenant_context_from_claims ::
    "(string \<times> json) list \<Rightarrow> string option \<Rightarrow> exn + tenant_context" where
  "tenant_context_from_claims claims correlation_id =
     ebind (validated_tenant_id (map_of claims ''tenant_id'') correlation_id) (\<lambda>tenant.
     ebind (optional_string_claim claims ''sub'') (\<lambda>subject.
     ebind (roles_from_claims claims) (\<lambda>roles.
     Inr \<lparr>tc_tenant_id = tenant, tc_subject = subject, tc_roles = roles,
          tc_correlation_id = correlation_id\<rparr>)))"

definition extract_bearer_token :: "string option \<Rightarrow> string option \<Rightarrow> exn + string" where
  "extract_bearer_token authorization correlation_id =
     (case authorization of
        None \<Rightarrow> Inl (UnauthorizedError ''no credentials'' correlation_id)
      | Some h \<Rightarrow>
          (case partition_at (CHR '' '') (py_strip h) of
             (scheme, found, token) \<Rightarrow>
               if \<not> found \<or> py_lower scheme \<noteq> ''bearer'' \<or> py_strip token = []
               then Inl (UnauthorizedError ''Bearer'' None)
               else Inr (py_strip token)))"

definition tenant_context_from_authorization_header ::
    "jwt_library \<Rightarrow> string option \<Rightarrow> jwt_secret \<Rightarrow> string option \<Rightarrow> string option \<Rightarrow> string option
     \<Rightarrow> pyfloat \<Rightarrow> exn + tenant_context" where
  "tenant_context_from_authorization_header lib authorization secret expected_issuer
     expected_audience correlation_id now =
     ebind (extract_bearer_token authorization correlation_id) (\<lambda>token.
     ebind (decode_hs256_jwt lib token secret expected_issuer expected_audience now) (\<lambda>claims.
     tenant_context_from_claims claims correlation_id))"

section \<open>The error envelope\<close>

record error_body =
  eb_code :: string
  eb_message :: string
  eb_correlation_id :: "string option"

definition error_response_body :: "string \<Rightarrow> string \<Rightarrow> string option \<Rightarrow> exn + error_body" where
  "error_response_body code message correlation_id =
     (let cid = map_option pyd_strip correlation_id in
      model ''ErrorBody'' (optional_ok token_ok cid)
        \<lparr>eb_code = code, eb_message = message, eb_correlation_id = cid\<rparr>)"

section \<open>The middleware\<close>

text \<open>A header of the ASGI scope; one whose name or value is not bytes is skipped.\<close>

datatype raw_header = Header string string | OtherHeader

fun headers_from_scope :: "raw_header list option \<Rightarrow> (string \<times> string) list" where
  "headers_from_scope None = []"
| "headers_from_scope (Some hs) =
     fold (\<lambda>h d. case h of Header n v \<Rightarrow> AList.update (py_lower n) v d | OtherHeader \<Rightarrow> d) hs []"

record asgi_scope =
  sc_type :: string
  sc_headers :: "raw_header list option"

record middleware =
  mi_jwt_secret :: jwt_secret
  mi_expected_issuer :: "string option"
  mi_expected_audience :: "string option"

text \<open>
  The state: the audit sink of the middleware, the context variable, and the responses sent; the
  application keeps its own state in further fields.
\<close>

record asgi_state =
  as_sink :: denial_sink
  as_context :: "tenant_context option"
  as_sent :: "(int \<times> error_body) list"

definition on_sink :: "(denial_sink, 'a) act \<Rightarrow> ('z asgi_state_scheme, 'a) act" where
  "on_sink m s = (case m (as_sink s) of (r, k) \<Rightarrow> (r, s\<lparr>as_sink := k\<rparr>))"

definition send_error ::
    "int \<Rightarrow> string \<Rightarrow> string \<Rightarrow> string option \<Rightarrow> ('z asgi_state_scheme, unit) act" where
  "send_error status code message correlation_id =
     bnd (lift (error_response_body code message correlation_id)) (\<lambda>body.
     modify (\<lambda>s. s\<lparr>as_sent := as_sent s @ [(status, body)]\<rparr>))"

text \<open>\<open>a or b\<close> on optional texts: an empty text counts as missing.\<close>

definition or_else :: "string option \<Rightarrow> string option \<Rightarrow> string option" where
  "or_else a b = (case a of None \<Rightarrow> b | Some s \<Rightarrow> if s = [] then b else a)"

definition audit_missing_denial ::
    "runtime \<Rightarrow> string \<Rightarrow> string option \<Rightarrow> bool \<Rightarrow> string option \<Rightarrow> ('z asgi_state_scheme, unit) act" where
  "audit_missing_denial rt message error_correlation audited correlation_id =
     (if audited then ret ()
      else on_sink (modify (record_denial
             (build_tenant_violation_event rt None None ''http_request''
                (or_else error_correlation correlation_id) message))))"

definition authenticate ::
    "runtime \<Rightarrow> jwt_library \<Rightarrow> middleware \<Rightarrow> (string \<times> string) list \<Rightarrow> pyfloat
     \<Rightarrow> ('z asgi_state_scheme, tenant_context) act" where
  "authenticate rt lib mw headers now =
     bnd (lift (tenant_context_from_authorization_header lib (map_of headers ''authorization'')
            (mi_jwt_secret mw) (mi_expected_issuer mw) (mi_expected_audience mw)
            (map_of headers ''x-correlation-id'') now)) (\<lambda>context.
     bnd (on_sink (assert_requested_tenant rt None (map_of headers ''x-tenant-id'') (Some context)
            ''http_header'')) (\<lambda>_.
     ret context))"

text \<open>\<open>set_tenant_context\<close>, the application, and \<open>reset_tenant_context\<close> in \<open>finally\<close>.\<close>

definition with_context ::
    "tenant_context \<Rightarrow> ('z asgi_state_scheme, unit) act \<Rightarrow> ('z asgi_state_scheme, unit) act" where
  "with_context c app s =
     (case app (s\<lparr>as_context := Some c\<rparr>) of (r, t) \<Rightarrow> (r, t\<lparr>as_context := as_context s\<rparr>))"

definition call_middleware ::
    "runtime \<Rightarrow> jwt_library \<Rightarrow> middleware \<Rightarrow> asgi_scope \<Rightarrow> pyfloat \<Rightarrow> ('z asgi_state_scheme, unit) act
     \<Rightarrow> ('z asgi_state_scheme, unit) act" where
  "call_middleware rt lib mw scope now app s =
     (if sc_type scope \<noteq> ''http'' then app s
      else
        let headers = headers_from_scope (sc_headers scope) in
        case authenticate rt lib mw headers now s of
          (Inr context, t) \<Rightarrow> with_context context app t
        | (Inl (TenantIsolationError m cid audited), t) \<Rightarrow>
            bnd (audit_missing_denial rt m cid audited (map_of headers ''x-correlation-id''))
              (\<lambda>_. send_error 403 ''tenant_isolation_violation'' m cid) t
        | (Inl (UnauthorizedError m cid), t) \<Rightarrow> send_error 401 ''unauthorized'' m cid t
        | (Inl e, t) \<Rightarrow> (Inl e, t))"

section \<open>Tokens\<close>

lemma map_of_sort_key [simp]:
  assumes "distinct (map fst kvs)"
  shows "map_of (sort_key fst kvs) = map_of kvs"
proof -
  have "distinct (map fst (sort_key fst kvs))"
    using assms by (metis distinct_map distinct_sort set_sort)
  with assms show ?thesis by (simp add: map_of_inject_set)
qed

text \<open>The three segments of a token are the ones it was made of.\<close>

lemma split_token:
  "split_on (CHR ''.'') (base64url_encode a @ CHR ''.'' # base64url_encode b @ CHR ''.'' # base64url_encode c)
     = [base64url_encode a, base64url_encode b, base64url_encode c]"
  using base64url_no_dot [of a] base64url_no_dot [of b] base64url_no_dot [of c]
  by (simp add: split_on_append_sep split_on_absent)

lemma decode_json_segment_encode:
  "json_loads lib bytes = Loaded (JObj kvs) \<Longrightarrow>
     decode_json_segment lib (base64url_encode bytes) = Inr kvs"
  by (simp add: decode_json_segment_def base64url_roundtrip)

lemma decode_encode:
  assumes "json_loads lib (json_bytes lib (jwt_header headers)) = Loaded (JObj header)"
    and "claim header ''alg'' = JStr ''HS256''"
    and "json_loads lib (json_bytes lib claims) = Loaded (JObj claims')"
  shows "decode_hs256_jwt lib (encode_hs256_jwt lib claims secret headers) secret iss aud now =
    ebind (validate_registered_claims claims' iss aud now) (\<lambda>_. Inr claims')"
  using assms
  by (simp add: decode_hs256_jwt_def encode_hs256_jwt_def signing_input_def Let_def split_token
      decode_json_segment_encode base64url_roundtrip)

text \<open>A token in a \<open>Bearer\<close> header arrives as it was sent.\<close>

lemma encoded_no_space:
  "encode_hs256_jwt lib claims secret headers \<noteq> [] \<and>
   (\<forall>c\<in>set (encode_hs256_jwt lib claims secret headers). \<not> py_isspace c)"
proof -
  have "\<not> py_isspace (CHR ''.'')" by (simp add: py_isspace_def)
  then show ?thesis
    by (auto simp: encode_hs256_jwt_def signing_input_def Let_def dest: base64url_no_space)
qed

lemma extract_encoded_token:
  "extract_bearer_token (Some (''Bearer '' @ encode_hs256_jwt lib claims secret headers)) cid =
     Inr (encode_hs256_jwt lib claims secret headers)"
proof -
  let ?t = "encode_hs256_jwt lib claims secret headers"
  have t: "?t \<noteq> []" "list_all (\<lambda>c. \<not> py_isspace c) ?t" "\<not> py_isspace (last ?t)"
    using encoded_no_space [of lib claims secret headers] by (simp_all add: list_all_iff)
  have "py_strip (''Bearer '' @ ?t) = ''Bearer '' @ ?t"
    unfolding py_strip_def using t(1,3) by (intro strip_with_hd_last) (simp_all add: py_isspace_def)
  moreover have "py_lower ''Bearer'' = ''bearer''" by code_simp
  ultimately show ?thesis
    using t by (simp add: extract_bearer_token_def py_strip_def)
qed

lemma decode_hs256_jwtD:
  assumes "decode_hs256_jwt lib token secret iss aud now = Inr claims"
  obtains header_segment payload_segment signature_segment header
  where "split_on (CHR ''.'') token = [header_segment, payload_segment, signature_segment]"
    and "base64url_decode signature_segment =
           Inr (Some (sign_hs256 lib (header_segment @ ''.'' @ payload_segment) secret))"
    and "decode_json_segment lib header_segment = Inr header"
    and "claim header ''alg'' = JStr ''HS256''"
    and "decode_json_segment lib payload_segment = Inr claims"
    and "validate_registered_claims claims iss aud now = Inr ()"
  using assms
  by (auto simp: decode_hs256_jwt_def split: list.splits if_splits)

lemma valid_claims:
  assumes "validate_registered_claims claims (Some iss) (Some aud) now = Inr ()"
  shows "(claim claims ''exp'' = JNull \<or>
           (\<exists>e. claim_float (claim claims ''exp'') = Inr e \<and> \<not> float_le e now)) \<and>
    (claim claims ''nbf'' = JNull \<or>
           (\<exists>e. claim_float (claim claims ''nbf'') = Inr e \<and> \<not> float_lt now e)) \<and>
    claim claims ''iss'' = JStr iss \<and> audience_matches (claim claims ''aud'') aud"
  using assms
  by (auto simp: validate_registered_claims_def check_exp_def check_nbf_def split: if_splits)

lemma tenant_context_from_claimsD:
  "tenant_context_from_claims claims cid = Inr c \<Longrightarrow>
     tenant_id_ok (tc_tenant_id c) \<and> map_of claims ''tenant_id'' = Some (JStr (tc_tenant_id c)) \<and>
     tc_correlation_id c = cid"
  by (auto simp: tenant_context_from_claims_def)

section \<open>What the middleware does\<close>

lemma on_sink_eval: "on_sink m s = (fst (m (as_sink s)), s\<lparr>as_sink := snd (m (as_sink s))\<rparr>)"
  by (simp add: on_sink_def split: prod.splits)

lemma assert_requested_tenant_Inr:
  assumes "assert_requested_tenant rt amb requested (Some c) rtype k = (Inr u, k')"
  shows "k' = k \<and> (requested = None \<or> requested = Some (tc_tenant_id c))"
  using outcomeD [OF assert_requested_tenant_rule assms,
      of "\<lambda>r t. \<forall>u. r = Inr u \<longrightarrow> t = k \<and> (requested = None \<or> requested = Some (tc_tenant_id c))"]
  by auto

lemma authenticate_Inr:
  assumes "authenticate rt lib mw headers now s = (Inr c, t)"
  shows "t = s"
    and "tenant_context_from_authorization_header lib (map_of headers ''authorization'')
           (mi_jwt_secret mw) (mi_expected_issuer mw) (mi_expected_audience mw)
           (map_of headers ''x-correlation-id'') now = Inr c"
    and "map_of headers ''x-tenant-id'' = None \<or> map_of headers ''x-tenant-id'' = Some (tc_tenant_id c)"
  using assms assert_requested_tenant_Inr
  by (fastforce simp: authenticate_def bnd_Inr act_eval on_sink_def split: prod.splits)+

text \<open>The errors of a token: a tenant identifier that is refused was not audited yet.\<close>

lemma float_of_int_Inl: "float_of_int i = Inl e \<Longrightarrow> e = ExternalError ''OverflowError''"
  by (auto simp: float_of_int_def split: pyfloat.splits)

lemma claim_float_Inl: "claim_float v = Inl e \<Longrightarrow> e \<in> {ExternalError ''OverflowError'', TypeError ''float''}"
  by (cases v) (auto dest: float_of_int_Inl)

lemma validate_not_denial: "validate_registered_claims claims iss aud now \<noteq> Inl (TenantIsolationError m cid a)"
  by (auto simp: validate_registered_claims_def check_exp_def check_nbf_def ebind_Inl
      split: if_splits dest!: claim_float_Inl)

lemma segment_not_denial: "decode_json_segment lib seg \<noteq> Inl (TenantIsolationError m cid a)"
  by (auto simp: decode_json_segment_def base64url_decode_def ebind_Inl
      split: if_splits option.splits loads_result.splits json.splits)

lemma decode_not_denial: "decode_hs256_jwt lib token secret iss aud now \<noteq> Inl (TenantIsolationError m cid a)"
  by (auto simp: decode_hs256_jwt_def ebind_Inl validate_not_denial segment_not_denial base64url_decode_def
      split: if_splits list.splits)

lemma validated_tenant_id_Inl:
  "validated_tenant_id v cid = Inl e \<longleftrightarrow> e = TenantIsolationError ''tenant_id'' cid False \<and>
     (\<forall>s. v = Some (JStr s) \<longrightarrow> \<not> tenant_id_ok s)"
  by (auto simp: validated_tenant_id_def split: option.splits json.splits)

lemma claims_denial:
  "tenant_context_from_claims claims cid = Inl (TenantIsolationError m c a) \<Longrightarrow> \<not> a"
  by (auto simp: tenant_context_from_claims_def ebind_Inl validated_tenant_id_Inl
      optional_string_claim_def roles_from_claims_def split: json.splits option.splits)

lemma header_denial:
  "tenant_context_from_authorization_header lib authz secret iss aud cid now
     = Inl (TenantIsolationError m c a) \<Longrightarrow> \<not> a"
  by (auto simp: tenant_context_from_authorization_header_def ebind_Inl extract_bearer_token_def
      decode_not_denial dest: claims_denial split: option.splits prod.splits if_splits)

text \<open>A refused request: who refused it, and whether the denial is in the audit trail already.\<close>

definition refusal_audit :: "exn \<Rightarrow> denial_sink \<Rightarrow> denial_sink \<Rightarrow> bool" where
  "refusal_audit e k k' \<longleftrightarrow>
     k' = k \<and> (\<forall>m cid a. e = TenantIsolationError m cid a \<longrightarrow> \<not> a) \<or>
     (\<exists>m cid es ev. e = TenantIsolationError m cid True \<and> k = Some es \<and> k' = Some (es @ [ev]))"

lemma assert_requested_tenant_Inl:
  assumes "assert_requested_tenant rt amb requested (Some c) rtype k = (Inl e, k')"
  shows "refusal_audit e k k'"
proof -
  have "outcome (assert_requested_tenant rt amb requested (Some c) rtype)
      (\<lambda>r k'. \<forall>e. r = Inl e \<longrightarrow> refusal_audit e k k') k"
    by (cases k)
      (auto simp: assert_requested_tenant_def resolve_context_def deny_tenant_access_def act_simps
        record_denial_def refusal_audit_def validated_tenant_id_Inl split: option.splits sum.splits)
  from outcomeD [OF this assms] show ?thesis by simp
qed

lemma authenticate_Inl:
  assumes "authenticate rt lib mw headers now s = (Inl e, t)"
  shows "t = s\<lparr>as_sink := as_sink t\<rparr> \<and> refusal_audit e (as_sink s) (as_sink t)"
proof -
  have lib: "refusal_audit e k k" if "tenant_context_from_authorization_header lib authz secret iss aud cid now = Inl e"
    for authz secret iss aud cid k
    using that header_denial by (fastforce simp: refusal_audit_def)
  show ?thesis
    using assms
    by (auto simp: authenticate_def bnd_def act_eval on_sink_def
        dest!: lib assert_requested_tenant_Inl split: prod.splits sum.splits)
qed

text \<open>
  A request that is not served: at most one response, the application's state and the context
  variable untouched; a response with status 403 has left exactly one more event in the audit trail.
\<close>

definition not_served :: "'z asgi_state_scheme \<Rightarrow> exn + unit \<Rightarrow> 'z asgi_state_scheme \<Rightarrow> bool" where
  "not_served s r t \<longleftrightarrow>
     (\<exists>k rs. t = s\<lparr>as_sink := k, as_sent := as_sent s @ rs\<rparr> \<and>
       (rs = [] \<and> r \<noteq> Inr () \<or>
        (\<exists>body. rs = [(401, body)] \<and> eb_code body = ''unauthorized'' \<and> r = Inr () \<and> k = as_sink s) \<or>
        (\<exists>body. rs = [(403, body)] \<and> eb_code body = ''tenant_isolation_violation'' \<and> r = Inr () \<and>
           (case as_sink s of None \<Rightarrow> k = None | Some es \<Rightarrow> \<exists>ev. k = Some (es @ [ev])))))"

lemma send_error_outcome:
  "send_error status code msg cid s = (r, t) \<Longrightarrow>
     (\<exists>e. r = Inl e \<and> t = s) \<or>
     (\<exists>body. r = Inr () \<and> eb_code body = code \<and> t = s\<lparr>as_sent := as_sent s @ [(status, body)]\<rparr>)"
  by (cases "optional_ok token_ok (map_option pyd_strip cid)")
    (auto simp: send_error_def bnd_def act_eval error_response_body_def Let_def model_def
      intro!: exI [where x = "\<lparr>eb_code = code, eb_message = msg, eb_correlation_id = map_option pyd_strip cid\<rparr>"])

lemma not_servedI:
  assumes "t = s\<lparr>as_sink := k\<rparr>" and "send_error status code msg cid t = (r, u)"
    and "status = 401 \<and> code = ''unauthorized'' \<and> k = as_sink s \<or>
         status = 403 \<and> code = ''tenant_isolation_violation'' \<and>
           (case as_sink s of None \<Rightarrow> k = None | Some es \<Rightarrow> \<exists>ev. k = Some (es @ [ev]))"
  shows "not_served s r u"
  using send_error_outcome [OF assms(2)]
proof (elim disjE exE conjE)
  fix e assume "r = Inl e" "u = t"
  with assms(1) show ?thesis
    unfolding not_served_def by (intro exI [where x = k] exI [where x = "[]"]) simp
next
  fix body assume "r = Inr ()" "eb_code body = code" "u = t\<lparr>as_sent := as_sent t @ [(status, body)]\<rparr>"
  with assms(1,3) show ?thesis
    unfolding not_served_def by (intro exI [where x = k] exI [where x = "[(status, body)]"]) auto
qed

lemma audit_missing_denial_eval:
  assumes "refusal_audit (TenantIsolationError m cid a) (as_sink s) k"
  shows "\<exists>k'. audit_missing_denial rt m cid a c (s\<lparr>as_sink := k\<rparr>) = (Inr (), s\<lparr>as_sink := k'\<rparr>) \<and>
    (case as_sink s of None \<Rightarrow> k' = None | Some es \<Rightarrow> \<exists>ev. k' = Some (es @ [ev]))"
  using assms
  by (auto simp: refusal_audit_def audit_missing_denial_def on_sink_eval act_eval record_denial_def
      split: option.splits)

lemma call_middleware_cases:
  assumes "call_middleware rt lib mw scope now app s = (r, t)" and "sc_type scope = ''http''"
  shows "(\<exists>c. authenticate rt lib mw (headers_from_scope (sc_headers scope)) now s = (Inr c, s) \<and>
              with_context c app s = (r, t)) \<or> not_served s r t"
proof -
  let ?h = "headers_from_scope (sc_headers scope)"
  obtain q u where au: "authenticate rt lib mw ?h now s = (q, u)" by fastforce
  show ?thesis
  proof (cases q)
    case (Inr c)
    with au have "u = s" by (simp add: authenticate_Inr(1))
    with au Inr assms show ?thesis by (simp add: call_middleware_def)
  next
    case (Inl e)
    from authenticate_Inl [OF au [unfolded Inl]]
    obtain k where u: "u = s\<lparr>as_sink := k\<rparr>" and k: "refusal_audit e (as_sink s) k" by metis
    have "not_served s r t"
    proof (cases "\<exists>m cid a. e = TenantIsolationError m cid a")
      case True
      then obtain m cid a where e: "e = TenantIsolationError m cid a" by blast
      from audit_missing_denial_eval [OF k [unfolded e]] obtain k' where
        am: "audit_missing_denial rt m cid a (map_of ?h ''x-correlation-id'') u = (Inr (), s\<lparr>as_sink := k'\<rparr>)"
        and k': "case as_sink s of None \<Rightarrow> k' = None | Some es \<Rightarrow> \<exists>ev. k' = Some (es @ [ev])"
        unfolding u by blast
      have "send_error 403 ''tenant_isolation_violation'' m cid (s\<lparr>as_sink := k'\<rparr>) = (r, t)"
        using assms au Inl e am by (simp add: call_middleware_def bnd_def)
      from not_servedI [OF refl this] k' show ?thesis by simp
    next
      case False
      with k have "k = as_sink s" by (auto simp: refusal_audit_def)
      then have u: "u = s" using u by simp
      show ?thesis
      proof (cases "\<exists>m cid. e = UnauthorizedError m cid")
        case True
        then obtain m cid where "e = UnauthorizedError m cid" by blast
        then have sent: "send_error 401 ''unauthorized'' m cid s = (r, t)"
          using assms au Inl u by (simp add: call_middleware_def)
        show ?thesis by (rule not_servedI [OF _ sent, where k = "as_sink s"]) simp_all
      next
        case False
        with \<open>\<not> (\<exists>m cid a. e = TenantIsolationError m cid a)\<close> have "r = Inl e" "t = s"
          using assms au Inl u by (cases e; simp add: call_middleware_def)+
        then show ?thesis
          unfolding not_served_def by (intro exI [where x = "as_sink s"] exI [where x = "[]"]) simp
      qed
    qed
    then show ?thesis ..
  qed
qed

end
