(* ===== verification/Auth.thy ===== *)
theory Auth
  imports Jwt
begin

text \<open>
  \<open>libs/shared/auth.py\<close>: access and refresh tokens with their rotation, and time-based one-time
  passwords. HMAC-SHA1 is a parameter; the factories and the clock of the service are sequences of
  which the state counts how many values were drawn. A time is a rational number of seconds.
\<close>

section \<open>Tokens and their store\<close>

record token_pair =
  tp_access_token :: string
  tp_refresh_token :: string
  tp_token_type :: string
  tp_expires_in :: int
  tp_refresh_expires_in :: int

record refresh_record =
  rr_token_hash :: string
  rr_tenant_id :: string
  rr_subject :: string
  rr_roles :: "string list"
  rr_refresh_jti :: string
  rr_issued_at :: int
  rr_expires_at :: int
  rr_revoked_at :: "int option"
  rr_replaced_by_jti :: "string option"

record two_factor_confirmation =
  tf_tenant_id :: string
  tf_subject :: "string option"
  tf_operation :: string
  tf_resource_id :: string
  tf_method :: string
  tf_confirmed_at :: int
  tf_correlation_id :: "string option"

record auth_state =
  refresh_records :: "(string, refresh_record) dict"
  clock_reads :: nat
  ids_drawn :: nat
  tokens_drawn :: nat

definition store_save :: "refresh_record \<Rightarrow> auth_state \<Rightarrow> auth_state" where
  "store_save r s = s\<lparr>refresh_records := AList.update (rr_token_hash r) r (refresh_records s)\<rparr>"

definition store_get :: "string \<Rightarrow> auth_state \<Rightarrow> refresh_record option" where
  "store_get h s = map_of (refresh_records s) h"

definition store_revoke :: "string \<Rightarrow> int \<Rightarrow> string option \<Rightarrow> auth_state \<Rightarrow> auth_state" where
  "store_revoke h revoked_at replaced_by s =
     (case store_get h s of
        None \<Rightarrow> s
      | Some r \<Rightarrow>
          s\<lparr>refresh_records :=
             AList.update h (r\<lparr>rr_revoked_at := Some revoked_at, rr_replaced_by_jti := replaced_by\<rparr>)
               (refresh_records s)\<rparr>)"

section \<open>The token service\<close>

record auth_service =
  sv_jwt_secret :: jwt_secret
  sv_issuer :: string
  sv_audience :: string
  sv_access_ttl :: int
  sv_refresh_ttl :: int
  sv_clock :: "nat \<Rightarrow> rat"
  sv_ids :: "nat \<Rightarrow> string"
  sv_tokens :: "nat \<Rightarrow> string"

definition auth_token_service :: "auth_service \<Rightarrow> exn + auth_service" where
  "auth_token_service sv =
     (if sv_access_ttl sv \<le> 0 then Inl (ValueError ''access_ttl_seconds'')
      else if sv_refresh_ttl sv \<le> 0 then Inl (ValueError ''refresh_ttl_seconds'')
      else Inr sv)"

text \<open>\<open>int(x)\<close> of a float: towards zero.\<close>

definition int_of_float :: "rat \<Rightarrow> int" where
  "int_of_float q = (if 0 \<le> q then \<lfloor>q\<rfloor> else - \<lfloor>- q\<rfloor>)"

definition read_clock :: "auth_service \<Rightarrow> (auth_state, rat) act" where
  "read_clock sv s = (Inr (sv_clock sv (clock_reads s)), s\<lparr>clock_reads := Suc (clock_reads s)\<rparr>)"

definition draw_id :: "auth_service \<Rightarrow> (auth_state, string) act" where
  "draw_id sv s = (Inr (sv_ids sv (ids_drawn s)), s\<lparr>ids_drawn := Suc (ids_drawn s)\<rparr>)"

definition draw_token :: "auth_service \<Rightarrow> (auth_state, string) act" where
  "draw_token sv s = (Inr (sv_tokens sv (tokens_drawn s)), s\<lparr>tokens_drawn := Suc (tokens_drawn s)\<rparr>)"

definition hash_refresh_token :: "runtime \<Rightarrow> string \<Rightarrow> string" where
  "hash_refresh_token rt refresh_token = rt_sha256 rt refresh_token"

definition normalize_roles :: "string list \<Rightarrow> exn + string list" where
  "normalize_roles roles =
     (if list_ex (\<lambda>r. py_strip r = []) roles then Inl (ValueError ''roles'') else Inr roles)"

definition require_text :: "string \<Rightarrow> string \<Rightarrow> exn + unit" where
  "require_text v name = (if py_strip v = [] then Inl (ValueError name) else Inr ())"

definition access_claims ::
    "auth_service \<Rightarrow> string \<Rightarrow> string \<Rightarrow> string list \<Rightarrow> int \<Rightarrow> string \<Rightarrow> (string \<times> json) list" where
  "access_claims sv subject tenant_id roles issued_at jti =
     [(''aud'', JStr (sv_audience sv)), (''exp'', JInt (issued_at + sv_access_ttl sv)),
      (''iat'', JInt issued_at), (''iss'', JStr (sv_issuer sv)), (''jti'', JStr jti),
      (''nbf'', JInt issued_at), (''roles'', JList (map JStr roles)), (''sub'', JStr subject),
      (''tenant_id'', JStr tenant_id), (''typ'', JStr ''access'')]"

definition issue_access_token ::
    "jwt_library \<Rightarrow> auth_service \<Rightarrow> string \<Rightarrow> string \<Rightarrow> string list \<Rightarrow> int \<Rightarrow> (auth_state, string) act" where
  "issue_access_token lib sv subject tenant_id roles issued_at =
     bnd (draw_id sv) (\<lambda>jti.
     ret (encode_hs256_jwt lib (access_claims sv subject tenant_id roles issued_at jti)
            (sv_jwt_secret sv) None))"

definition issue_token_pair ::
    "runtime \<Rightarrow> jwt_library \<Rightarrow> auth_service \<Rightarrow> string \<Rightarrow> string \<Rightarrow> string list \<Rightarrow> string option
     \<Rightarrow> (auth_state, token_pair) act" where
  "issue_token_pair rt lib sv subject tenant_id roles correlation_id =
     bnd (read_clock sv) (\<lambda>now.
     let issued_at = int_of_float now in
     bnd (lift (normalize_roles roles)) (\<lambda>rs.
     bnd (lift (require_text subject ''subject'')) (\<lambda>_.
     bnd (lift (tenant_context_from_claims
            [(''tenant_id'', JStr tenant_id), (''sub'', JStr subject), (''roles'', JList (map JStr rs))]
            correlation_id)) (\<lambda>_.
     bnd (issue_access_token lib sv subject tenant_id rs issued_at) (\<lambda>access_token.
     bnd (draw_token sv) (\<lambda>refresh_token.
     bnd (draw_id sv) (\<lambda>refresh_jti.
     bnd (modify (store_save
            \<lparr>rr_token_hash = hash_refresh_token rt refresh_token, rr_tenant_id = tenant_id,
             rr_subject = subject, rr_roles = rs, rr_refresh_jti = refresh_jti,
             rr_issued_at = issued_at, rr_expires_at = issued_at + sv_refresh_ttl sv,
             rr_revoked_at = None, rr_replaced_by_jti = None\<rparr>)) (\<lambda>_.
     ret \<lparr>tp_access_token = access_token, tp_refresh_token = refresh_token,
          tp_token_type = ''Bearer'', tp_expires_in = sv_access_ttl sv,
          tp_refresh_expires_in = sv_refresh_ttl sv\<rparr>))))))))"

definition verify_access_token ::
    "jwt_library \<Rightarrow> auth_service \<Rightarrow> string \<Rightarrow> string option \<Rightarrow> (auth_state, tenant_context) act" where
  "verify_access_token lib sv token correlation_id =
     bnd (read_clock sv) (\<lambda>now.
     bnd (lift (decode_hs256_jwt lib token (sv_jwt_secret sv) (Some (sv_issuer sv))
            (Some (sv_audience sv)) (Fin now))) (\<lambda>claims.
     if claim claims ''typ'' \<noteq> JStr ''access'' then fail (UnauthorizedError ''access token'' correlation_id)
     else if \<not> (case claim claims ''jti'' of JStr _ \<Rightarrow> True | _ \<Rightarrow> False)
     then fail (UnauthorizedError ''claim jti'' correlation_id)
     else lift (tenant_context_from_claims claims correlation_id)))"

definition refresh_token_pair ::
    "runtime \<Rightarrow> jwt_library \<Rightarrow> auth_service \<Rightarrow> string \<Rightarrow> string option \<Rightarrow> (auth_state, token_pair) act" where
  "refresh_token_pair rt lib sv refresh_token correlation_id =
     bnd (read_clock sv) (\<lambda>clock.
     let now = int_of_float clock; token_hash = hash_refresh_token rt refresh_token in
     bnd (gets (store_get token_hash)) (\<lambda>found.
     case found of
       None \<Rightarrow> fail (UnauthorizedError ''refresh token'' correlation_id)
     | Some r \<Rightarrow>
         if rr_revoked_at r \<noteq> None then fail (UnauthorizedError ''refresh token'' correlation_id)
         else if rr_expires_at r \<le> now then
           bnd (modify (store_revoke token_hash now None)) (\<lambda>_.
           fail (UnauthorizedError ''refresh token expired'' correlation_id))
         else
           bnd (issue_token_pair rt lib sv (rr_subject r) (rr_tenant_id r) (rr_roles r) correlation_id)
             (\<lambda>pair.
           bnd (gets (store_get (hash_refresh_token rt (tp_refresh_token pair)))) (\<lambda>replacement.
           bnd (modify (store_revoke token_hash now (map_option rr_refresh_jti replacement))) (\<lambda>_.
           ret pair)))))"

definition revoke_refresh_token ::
    "runtime \<Rightarrow> auth_service \<Rightarrow> string \<Rightarrow> (auth_state, unit) act" where
  "revoke_refresh_token rt sv refresh_token =
     bnd (read_clock sv) (\<lambda>now.
     modify (store_revoke (hash_refresh_token rt refresh_token) (int_of_float now) None))"

section \<open>One-time passwords\<close>

record totp_service =
  to_issuer :: string
  to_step :: int
  to_digits :: nat
  to_drift :: int
  to_clock :: rat

definition totp_service_ok :: "totp_service \<Rightarrow> exn + totp_service" where
  "totp_service_ok sv =
     (if to_step sv \<le> 0 then Inl (ValueError ''step_seconds'')
      else if to_digits sv < 6 \<or> 8 < to_digits sv then Inl (ValueError ''digits'')
      else if to_drift sv < 0 then Inl (ValueError ''allowed_drift_steps'')
      else Inr sv)"

definition normalize_base32_secret :: "string \<Rightarrow> string" where
  "normalize_base32_secret secret = concat (split_words (concat (map upper_text secret)))"

definition decode_totp_secret :: "string \<Rightarrow> exn + string" where
  "decode_totp_secret secret =
     (let n = normalize_base32_secret secret in
      case b32decode (n @ replicate ((8 - length n mod 8) mod 8) (CHR ''='')) of
        None \<Rightarrow> Inl (UnauthorizedError ''2FA secret'' None)
      | Some key \<Rightarrow> Inr key)"

text \<open>\<open>counter.to_bytes(8, "big")\<close>.\<close>

definition counter_bytes :: "int \<Rightarrow> exn + string" where
  "counter_bytes counter =
     (if 0 \<le> counter \<and> counter < 2 ^ 64
      then Inr (map (\<lambda>i. char_of (nat counter div 256 ^ i)) (rev [0..<8]))
      else Inl (ExternalError ''OverflowError''))"

text \<open>\<open>int.from_bytes(bytes, "big")\<close>.\<close>

definition from_big_endian :: "string \<Rightarrow> nat" where
  "from_big_endian bytes = foldl (\<lambda>acc b. acc * 256 + byte b) 0 bytes"

definition zfill :: "nat \<Rightarrow> string \<Rightarrow> string" where
  "zfill n s = replicate (n - length s) (CHR ''0'') @ s"

text \<open>The truncation of a digest to a code.\<close>

definition hotp_code :: "string \<Rightarrow> nat \<Rightarrow> string" where
  "hotp_code digest digits =
     (let offset = byte (last digest) mod 16;
          code = from_big_endian (take 4 (drop offset digest)) mod 2 ^ 31
      in zfill digits (nat_digits (code mod 10 ^ digits)))"

definition hotp :: "(string \<Rightarrow> string \<Rightarrow> string) \<Rightarrow> string \<Rightarrow> int \<Rightarrow> nat \<Rightarrow> exn + string" where
  "hotp hmac_sha1 secret counter digits =
     ebind (decode_totp_secret secret) (\<lambda>key.
     ebind (counter_bytes counter) (\<lambda>bytes.
     Inr (hotp_code (hmac_sha1 key bytes) digits)))"

definition totp_counter :: "totp_service \<Rightarrow> rat option \<Rightarrow> int" where
  "totp_counter sv at_time =
     \<lfloor>(case at_time of None \<Rightarrow> to_clock sv | Some t \<Rightarrow> t) / of_int (to_step sv)\<rfloor>"

definition generate_totp ::
    "(string \<Rightarrow> string \<Rightarrow> string) \<Rightarrow> totp_service \<Rightarrow> string \<Rightarrow> rat option \<Rightarrow> exn + string" where
  "generate_totp hmac_sha1 sv secret at_time = hotp hmac_sha1 secret (totp_counter sv at_time) (to_digits sv)"

text \<open>\<open>str.isdigit\<close> of one character: the superscripts one, two and three are digits too.\<close>

definition py_isdigit :: "char \<Rightarrow> bool" where
  "py_isdigit c \<longleftrightarrow> is_digit c \<or> byte c \<in> {178, 179, 185}"

text \<open>The loop over the drift window; \<open>hmac.compare_digest\<close> refuses text outside ASCII.\<close>

fun check_counters ::
    "(string \<Rightarrow> string \<Rightarrow> string) \<Rightarrow> string \<Rightarrow> nat \<Rightarrow> string \<Rightarrow> int list \<Rightarrow> exn + bool" where
  "check_counters hmac_sha1 secret digits code [] = Inr False"
| "check_counters hmac_sha1 secret digits code (c # cs) =
     (if c < 0 then check_counters hmac_sha1 secret digits code cs
      else ebind (hotp hmac_sha1 secret c digits) (\<lambda>expected.
           if \<not> is_ascii code then Inl (TypeError ''compare_digest'')
           else if expected = code then Inr True
           else check_counters hmac_sha1 secret digits code cs))"

definition normalize_code :: "string \<Rightarrow> string" where
  "normalize_code code = filter (\<lambda>c. c \<noteq> CHR '' '') (py_strip code)"

definition verify_totp ::
    "(string \<Rightarrow> string \<Rightarrow> string) \<Rightarrow> totp_service \<Rightarrow> string \<Rightarrow> string \<Rightarrow> rat option \<Rightarrow> exn + bool" where
  "verify_totp hmac_sha1 sv secret code at_time =
     (let n = normalize_code code in
      if length n \<noteq> to_digits sv \<or> n = [] \<or> \<not> list_all py_isdigit n then Inr False
      else check_counters hmac_sha1 secret (to_digits sv) n
             (map (\<lambda>drift. totp_counter sv at_time + drift) [- to_drift sv .. to_drift sv]))"

definition confirm_sensitive_operation ::
    "(string \<Rightarrow> string \<Rightarrow> string) \<Rightarrow> totp_service \<Rightarrow> tenant_context \<Rightarrow> string \<Rightarrow> string \<Rightarrow> string \<Rightarrow> string
     \<Rightarrow> rat option \<Rightarrow> exn + two_factor_confirmation" where
  "confirm_sensitive_operation hmac_sha1 sv context secret code operation resource_id at_time =
     (let confirmed_at = int_of_float (case at_time of None \<Rightarrow> to_clock sv | Some t \<Rightarrow> t) in
      ebind (verify_totp hmac_sha1 sv secret code (Some (of_int confirmed_at))) (\<lambda>verified.
      if \<not> verified then Inl (UnauthorizedError ''2FA code'' (tc_correlation_id context))
      else Inr \<lparr>tf_tenant_id = tc_tenant_id context, tf_subject = tc_subject context,
                tf_operation = operation, tf_resource_id = resource_id, tf_method = ''totp'',
                tf_confirmed_at = confirmed_at, tf_correlation_id = tc_correlation_id context\<rparr>))"

section \<open>Spent refresh tokens\<close>

lemma auth_effects [act_simps]:
  "outcome (read_clock sv) Q s = Q (Inr (sv_clock sv (clock_reads s))) (s\<lparr>clock_reads := Suc (clock_reads s)\<rparr>)"
  "outcome (draw_id sv) Q' s = Q' (Inr (sv_ids sv (ids_drawn s))) (s\<lparr>ids_drawn := Suc (ids_drawn s)\<rparr>)"
  "outcome (draw_token sv) Q' s =
     Q' (Inr (sv_tokens sv (tokens_drawn s))) (s\<lparr>tokens_drawn := Suc (tokens_drawn s)\<rparr>)"
  by (simp_all add: outcome_def read_clock_def draw_id_def draw_token_def)

text \<open>The token hash is in the store, and it is revoked.\<close>

definition spent :: "string \<Rightarrow> auth_state \<Rightarrow> bool" where
  "spent h s \<longleftrightarrow> (\<exists>r. store_get h s = Some r \<and> rr_revoked_at r \<noteq> None)"

text \<open>No token that the factory will still give has this hash.\<close>

definition not_drawn_again :: "runtime \<Rightarrow> auth_service \<Rightarrow> string \<Rightarrow> auth_state \<Rightarrow> bool" where
  "not_drawn_again rt sv h s \<longleftrightarrow> (\<forall>n\<ge>tokens_drawn s. hash_refresh_token rt (sv_tokens sv n) \<noteq> h)"

definition stays_spent :: "runtime \<Rightarrow> auth_service \<Rightarrow> string \<Rightarrow> auth_state \<Rightarrow> bool" where
  "stays_spent rt sv h s \<longleftrightarrow> spent h s \<and> not_drawn_again rt sv h s"

lemma store_get_save [simp]:
  "store_get h (store_save r s) = (if h = rr_token_hash r then Some r else store_get h s)"
  by (simp add: store_get_def store_save_def)

lemma store_get_revoke [simp]:
  "store_get h (store_revoke h' t j s) =
     (if h = h' then map_option (\<lambda>r. r\<lparr>rr_revoked_at := Some t, rr_replaced_by_jti := j\<rparr>) (store_get h s)
      else store_get h s)"
  by (auto simp: store_get_def store_revoke_def split: option.splits)

lemma store_get_counters [simp]:
  "store_get h (s\<lparr>clock_reads := a\<rparr>) = store_get h s"
  "store_get h (s\<lparr>ids_drawn := a\<rparr>) = store_get h s"
  "store_get h (s\<lparr>tokens_drawn := a\<rparr>) = store_get h s"
  by (simp_all add: store_get_def)

lemma tokens_drawn_store [simp]:
  "tokens_drawn (store_save r s) = tokens_drawn s" "tokens_drawn (store_revoke h t j s) = tokens_drawn s"
  by (simp_all add: store_save_def store_revoke_def split: option.splits)

lemma not_drawn_again_Suc:
  "not_drawn_again rt sv h s \<Longrightarrow> tokens_drawn t \<ge> tokens_drawn s \<Longrightarrow> not_drawn_again rt sv h t"
  by (auto simp: not_drawn_again_def)

text \<open>What issuing does to the store: nothing, or one unused record under the hash of a fresh token.\<close>

lemma issue_token_pair_rule:
  assumes "\<And>e t. tokens_drawn t = tokens_drawn s \<Longrightarrow> (\<And>h. store_get h t = store_get h s) \<Longrightarrow> Q (Inl e) t"
    and "\<And>p t. tokens_drawn t = Suc (tokens_drawn s) \<Longrightarrow>
           tp_refresh_token p = sv_tokens sv (tokens_drawn s) \<Longrightarrow>
           (\<And>h. h \<noteq> hash_refresh_token rt (tp_refresh_token p) \<Longrightarrow> store_get h t = store_get h s) \<Longrightarrow>
           (\<exists>r. store_get (hash_refresh_token rt (tp_refresh_token p)) t = Some r \<and> rr_revoked_at r = None \<and>
                rr_subject r = subject \<and> rr_tenant_id r = tenant \<and> rr_roles r = roles) \<Longrightarrow> Q (Inr p) t"
  shows "outcome (issue_token_pair rt lib sv subject tenant roles cid) Q s"
  using assms
  by (auto simp: issue_token_pair_def issue_access_token_def normalize_roles_def require_text_def Let_def
      act_simps split: sum.splits)

lemma refresh_token_pair_rule:
  assumes fails: "\<And>e t. tokens_drawn t = tokens_drawn s \<Longrightarrow>
      (\<forall>h. store_get h t = store_get h s) \<or>
      (\<exists>now r. store_get (hash_refresh_token rt token) s = Some r \<and>
         (\<forall>h. store_get h t = (if h = hash_refresh_token rt token
            then Some (r\<lparr>rr_revoked_at := Some now, rr_replaced_by_jti := None\<rparr>) else store_get h s))) \<Longrightarrow>
      Q (Inl e) t"
    and succeeds: "\<And>p r t. store_get (hash_refresh_token rt token) s = Some r \<Longrightarrow> rr_revoked_at r = None \<Longrightarrow>
      tokens_drawn t = Suc (tokens_drawn s) \<Longrightarrow> tp_refresh_token p = sv_tokens sv (tokens_drawn s) \<Longrightarrow>
      (\<exists>r. store_get (hash_refresh_token rt token) t = Some r \<and> rr_revoked_at r \<noteq> None) \<Longrightarrow>
      (\<And>h. h \<noteq> hash_refresh_token rt token \<Longrightarrow> h \<noteq> hash_refresh_token rt (tp_refresh_token p) \<Longrightarrow>
         store_get h t = store_get h s) \<Longrightarrow> Q (Inr p) t"
  shows "outcome (refresh_token_pair rt lib sv token cid) Q s"
proof -
  let ?h = "hash_refresh_token rt token"
  have fin: "Q (Inr p) (store_revoke ?h now j t)"
    if "store_get ?h s = Some r" "rr_revoked_at r = None" "tokens_drawn t = Suc (tokens_drawn s)"
      "tp_refresh_token p = sv_tokens sv (tokens_drawn s)"
      "\<And>h. h \<noteq> hash_refresh_token rt (tp_refresh_token p) \<Longrightarrow> store_get h t = store_get h s"
      "\<exists>r. store_get (hash_refresh_token rt (tp_refresh_token p)) t = Some r"
    for p now j t r
  proof (rule succeeds [OF that(1,2)])
    show "\<exists>r. store_get ?h (store_revoke ?h now j t) = Some r \<and> rr_revoked_at r \<noteq> None"
      using that by (cases "?h = hash_refresh_token rt (tp_refresh_token p)") auto
  qed (use that in auto)
  show ?thesis
    unfolding refresh_token_pair_def
    by (auto simp: act_simps Let_def split: option.splits intro!: issue_token_pair_rule fails)
      (auto intro!: fin)
qed

lemma revoke_refresh_token_rule:
  assumes "\<And>t. tokens_drawn t = tokens_drawn s \<Longrightarrow>
      (\<And>h r. store_get h s = Some r \<Longrightarrow> \<exists>r'. store_get h t = Some r' \<and>
           (rr_revoked_at r \<noteq> None \<longrightarrow> rr_revoked_at r' \<noteq> None)) \<Longrightarrow> Q (Inr ()) t"
  shows "outcome (revoke_refresh_token rt sv token) Q s"
  unfolding revoke_refresh_token_def by (simp add: act_simps, rule assms) auto

section \<open>Any sequence of calls\<close>

datatype auth_call =
    IssueTokens string string "string list" "string option"
  | VerifyAccess string "string option"
  | RefreshTokens string "string option"
  | RevokeRefresh string

fun auth_step :: "runtime \<Rightarrow> jwt_library \<Rightarrow> auth_service \<Rightarrow> auth_call \<Rightarrow> auth_state \<Rightarrow> auth_state" where
  "auth_step rt lib sv (IssueTokens subject tenant roles cid) s =
     snd (issue_token_pair rt lib sv subject tenant roles cid s)"
| "auth_step rt lib sv (VerifyAccess token cid) s = snd (verify_access_token lib sv token cid s)"
| "auth_step rt lib sv (RefreshTokens token cid) s = snd (refresh_token_pair rt lib sv token cid s)"
| "auth_step rt lib sv (RevokeRefresh token) s = snd (revoke_refresh_token rt sv token s)"

definition run_auth :: "runtime \<Rightarrow> jwt_library \<Rightarrow> auth_service \<Rightarrow> auth_call list \<Rightarrow> auth_state \<Rightarrow> auth_state" where
  "run_auth rt lib sv calls s = fold (auth_step rt lib sv) calls s"

lemma verify_access_store:
  "outcome (verify_access_token lib sv token cid)
     (\<lambda>r t. tokens_drawn t = tokens_drawn s \<and> (\<forall>h. store_get h t = store_get h s)) s"
  by (auto simp: verify_access_token_def act_simps split: sum.splits json.splits)

lemma auth_step_stays_spent:
  assumes "stays_spent rt sv h s"
  shows "stays_spent rt sv h (auth_step rt lib sv call s)"
proof -
  have fresh: "hash_refresh_token rt (sv_tokens sv (tokens_drawn s)) \<noteq> h"
    and spent: "\<exists>r. store_get h s = Some r \<and> rr_revoked_at r \<noteq> None"
    and later: "tokens_drawn t \<ge> tokens_drawn s \<Longrightarrow> not_drawn_again rt sv h t" for t
    using assms by (auto simp: stays_spent_def spent_def not_drawn_again_def)
  show ?thesis
  proof (cases call)
    case (IssueTokens subject tenant roles cid)
    have "outcome (issue_token_pair rt lib sv subject tenant roles cid) (\<lambda>r t. stays_spent rt sv h t) s"
      using fresh spent by (intro issue_token_pair_rule) (auto simp: stays_spent_def spent_def later)
    then show ?thesis by (simp add: IssueTokens outcome_snd)
  next
    case (VerifyAccess token cid)
    have "outcome (verify_access_token lib sv token cid) (\<lambda>r t. stays_spent rt sv h t) s"
      using spent by - (rule outcome_mono [OF verify_access_store], auto simp: stays_spent_def spent_def later)
    then show ?thesis by (simp add: VerifyAccess outcome_snd)
  next
    case (RefreshTokens token cid)
    have "outcome (refresh_token_pair rt lib sv token cid) (\<lambda>r t. stays_spent rt sv h t) s"
      using fresh spent later
      by (intro refresh_token_pair_rule; cases "h = hash_refresh_token rt token")
        (auto simp: stays_spent_def spent_def)
    then show ?thesis by (simp add: RefreshTokens outcome_snd)
  next
    case (RevokeRefresh token)
    have "outcome (revoke_refresh_token rt sv token) (\<lambda>r t. stays_spent rt sv h t) s"
      using spent by (intro revoke_refresh_token_rule) (fastforce simp: stays_spent_def spent_def later)
    then show ?thesis by (simp add: RevokeRefresh outcome_snd)
  qed
qed

lemma run_auth_stays_spent: "stays_spent rt sv h s \<Longrightarrow> stays_spent rt sv h (run_auth rt lib sv calls s)"
  by (induction calls arbitrary: s) (simp_all add: run_auth_def auth_step_stays_spent)

lemma refresh_spent:
  "spent (hash_refresh_token rt token) s \<Longrightarrow>
     fst (refresh_token_pair rt lib sv token cid s) = Inl (UnauthorizedError ''refresh token'' cid)"
  by (auto simp: spent_def refresh_token_pair_def bnd_def read_clock_def Let_def act_eval)

lemma refresh_success_spends:
  assumes "refresh_token_pair rt lib sv token cid s = (Inr p, t)"
  shows "spent (hash_refresh_token rt token) t \<and> tokens_drawn t = Suc (tokens_drawn s)"
proof -
  have "outcome (refresh_token_pair rt lib sv token cid)
      (\<lambda>r t. \<forall>p. r = Inr p \<longrightarrow> spent (hash_refresh_token rt token) t \<and> tokens_drawn t = Suc (tokens_drawn s)) s"
    by (rule refresh_token_pair_rule) (auto simp: spent_def)
  from outcomeD [OF this assms] show ?thesis by simp
qed

section \<open>Issued access tokens\<close>

lemma string_items_map [simp]: "string_items (map JStr rs) = Some rs"
  by (induction rs) auto

lemma access_claims_context [simp]:
  "tenant_id_ok tenant \<Longrightarrow>
     tenant_context_from_claims (access_claims sv subject tenant roles iat jti) cid =
       Inr \<lparr>tc_tenant_id = tenant, tc_subject = Some subject, tc_roles = roles, tc_correlation_id = cid\<rparr>"
  by (simp add: tenant_context_from_claims_def access_claims_def optional_string_claim_def
      roles_from_claims_def claim_def validated_tenant_id_def)

lemma access_claims_valid:
  assumes "0 \<le> iat" "0 < sv_access_ttl sv" "iat + sv_access_ttl sv < 2 ^ 53"
  shows "validate_registered_claims (access_claims sv subject tenant roles iat jti)
      (Some (sv_issuer sv)) (Some (sv_audience sv)) (Fin now) =
    (if of_int (iat + sv_access_ttl sv) \<le> now then Inl (UnauthorizedError ''JWT expired'' None)
     else if now < of_int iat then Inl (UnauthorizedError ''JWT not yet valid'' None)
     else Inr ())"
  using assms
  by (auto simp: validate_registered_claims_def check_exp_def check_nbf_def access_claims_def claim_def
      audience_matches_def float_of_int_exact float_lt_def)

lemma issue_token_pair_Inr:
  assumes "issue_token_pair rt lib sv subject tenant roles cid s = (Inr p, t)"
  shows "tenant_id_ok tenant"
    and "tp_access_token p = encode_hs256_jwt lib
           (access_claims sv subject tenant roles (int_of_float (sv_clock sv (clock_reads s)))
              (sv_ids sv (ids_drawn s))) (sv_jwt_secret sv) None"
  using assms
  by (auto simp: issue_token_pair_def issue_access_token_def bnd_Inr read_clock_def draw_id_def
      draw_token_def act_eval Let_def normalize_roles_def require_text_def
      tenant_context_from_claims_def split: if_splits)

section \<open>One-time codes\<close>

lemma is_digit_byte: "is_digit c \<longleftrightarrow> 48 \<le> byte c \<and> byte c \<le> 57"
  by (simp add: is_digit_def Let_def)

lemma nat_digits_digit: "list_all is_digit (nat_digits n)"
proof (induction n rule: nat_digits.induct)
  case (1 n)
  have "is_digit (char_of (48 + k))" if "k < 10" for k :: nat
    using that by (simp add: is_digit_byte of_char_of)
  then show ?case using 1 by (subst nat_digits.simps) (simp add: list_all_iff)
qed

lemma length_nat_digits: "0 < k \<Longrightarrow> n < 10 ^ k \<Longrightarrow> length (nat_digits n) \<le> k"
proof (induction n arbitrary: k rule: nat_digits.induct)
  case (1 n)
  show ?case
  proof (cases "n < 10")
    case True
    then show ?thesis using 1 by (subst nat_digits.simps) simp
  next
    case False
    then obtain j where k: "k = Suc j" "0 < j"
      using 1 by (cases k; cases "k - 1") auto
    have "length (nat_digits (n div 10)) \<le> j"
      using 1(1) [OF False k(2)] 1(3) k by (simp add: div_less_iff_less_mult mult.commute)
    then show ?thesis using False k by (subst nat_digits.simps) simp
  qed
qed

lemma hotp_code_shape:
  assumes "0 < digits"
  shows "length (hotp_code digest digits) = digits \<and> list_all is_digit (hotp_code digest digits)"
  using assms length_nat_digits [OF assms] nat_digits_digit
  by (auto simp: hotp_code_def zfill_def Let_def list_all_iff is_digit_byte)

lemma hotp_Inr:
  assumes "decode_totp_secret secret = Inr key" and "0 \<le> c" and "c < 2 ^ 64"
  shows "\<exists>digest. hotp hmac secret c digits = Inr (hotp_code digest digits)"
  using assms by (auto simp: hotp_def counter_bytes_def)

lemma check_counters_iff:
  assumes "decode_totp_secret secret = Inr key" and "is_ascii code" and "\<forall>c\<in>set cs. c < 2 ^ 64"
  shows "check_counters hmac secret digits code cs =
           Inr (\<exists>c\<in>set cs. 0 \<le> c \<and> hotp hmac secret c digits = Inr code)"
  using assms(3)
proof (induction cs)
  case (Cons c cs)
  show ?case
  proof (cases "c < 0")
    case False
    then obtain digest where "hotp hmac secret c digits = Inr (hotp_code digest digits)"
      using hotp_Inr [OF assms(1), of c hmac digits] Cons.prems by auto
    then show ?thesis using Cons False assms(2) by auto
  qed (use Cons in auto)
qed simp

lemma hotp_shape:
  assumes "hotp hmac secret c digits = Inr code" and "0 < digits"
  shows "length code = digits \<and> list_all is_digit code"
  using assms hotp_code_shape by (auto simp: hotp_def)

lemma digits_isdigit: "list_all is_digit s \<Longrightarrow> list_all py_isdigit s"
  by (auto simp: list_all_iff py_isdigit_def)

lemma verify_totp_window:
  assumes "decode_totp_secret secret = Inr key" and "is_ascii (normalize_code code)" and "0 < to_digits sv"
    and "totp_counter sv time + to_drift sv < 2 ^ 64"
  shows "verify_totp hmac sv secret code time =
    Inr (\<exists>c. \<bar>c - totp_counter sv time\<bar> \<le> to_drift sv \<and> 0 \<le> c \<and>
           hotp hmac secret c (to_digits sv) = Inr (normalize_code code))"
proof -
  let ?n = "normalize_code code" and ?k = "totp_counter sv time"
  let ?cs = "map (\<lambda>drift. ?k + drift) [- to_drift sv .. to_drift sv]"
  have window: "c \<in> set ?cs \<longleftrightarrow> \<bar>c - ?k\<bar> \<le> to_drift sv" for c
    by (auto simp: image_iff intro: bexI [where x = "c - ?k"])
  show ?thesis
  proof (cases "length ?n \<noteq> to_digits sv \<or> ?n = [] \<or> \<not> list_all py_isdigit ?n")
    case True
    then have "hotp hmac secret c (to_digits sv) \<noteq> Inr ?n" for c
      using hotp_shape [OF _ assms(3)] digits_isdigit assms(3) by fastforce
    with True show ?thesis by (simp add: verify_totp_def Let_def)
  next
    case False
    have "check_counters hmac secret (to_digits sv) ?n ?cs =
        Inr (\<exists>c\<in>set ?cs. 0 \<le> c \<and> hotp hmac secret c (to_digits sv) = Inr ?n)"
      using assms window by (intro check_counters_iff) auto
    with False window show ?thesis by (simp add: verify_totp_def Let_def Bex_def del: set_map)
  qed
qed

end
