(* ===== verification/PayoutConfirm.thy ===== *)
theory PayoutConfirm
  imports PayoutVeto Rbac Auth
begin

text \<open>
  \<open>hitl_payout_gateway/confirmation_manager.py\<close>: the two-factor confirmation of a queued payout
  by a member of the Council, and the repository of confirmations with its index by payout.
\<close>

record confirmation =
  pc_confirmation_id :: string
  pc_tenant_id :: string
  pc_payout_id :: string
  pc_actor_id :: string
  pc_actor_hash :: string
  pc_actor_role :: string
  pc_two_factor_method :: string
  pc_operation :: string
  pc_audit_hash :: string
  pc_confirmed_at :: int
  pc_correlation_id :: string

record confirm_state = veto_state +
  confirmations :: "(key, confirmation) dict"
  payout_index :: "(key, string) dict"

definition PAYOUT_CONFIRM_OPERATION :: string where "PAYOUT_CONFIRM_OPERATION = ''payout.confirm''"

definition PAYOUT_CONFIRM_POLICY :: access_policy where
  "PAYOUT_CONFIRM_POLICY =
     \<lparr>pol_allowed_roles = [COUNCIL_ROLE], pol_action = PAYOUT_CONFIRM_OPERATION,
      pol_resource_type = ''hitl_payout''\<rparr>"

definition payout_confirmation ::
    "string \<Rightarrow> string \<Rightarrow> string \<Rightarrow> string \<Rightarrow> string \<Rightarrow> string \<Rightarrow> string \<Rightarrow> string \<Rightarrow> string \<Rightarrow> int
     \<Rightarrow> string \<Rightarrow> exn + confirmation" where
  "payout_confirmation confirmation_id tenant_id payout_id actor_id actor_hash actor_role method
     operation audit confirmed_at correlation_id =
     model ''PayoutConfirmation''
       (token_ok (pyd_strip confirmation_id) \<and> tenant_id_ok (pyd_strip tenant_id) \<and>
        token_ok (pyd_strip payout_id) \<and> token_ok (pyd_strip actor_id) \<and>
        token_ok (pyd_strip actor_role) \<and> length_between 1 32 (pyd_strip method) \<and>
        audit_hash_ok (pyd_strip audit) \<and> token_ok (pyd_strip correlation_id))
       \<lparr>pc_confirmation_id = pyd_strip confirmation_id, pc_tenant_id = pyd_strip tenant_id,
        pc_payout_id = pyd_strip payout_id, pc_actor_id = pyd_strip actor_id,
        pc_actor_hash = pyd_strip actor_hash, pc_actor_role = pyd_strip actor_role,
        pc_two_factor_method = pyd_strip method, pc_operation = pyd_strip operation,
        pc_audit_hash = pyd_strip audit, pc_confirmed_at = confirmed_at,
        pc_correlation_id = pyd_strip correlation_id\<rparr>"

definition confirmation_key :: "string \<Rightarrow> string \<Rightarrow> key" where
  "confirmation_key tenant_id confirmation_id = (tenant_id, confirmation_id)"

definition store_confirmation :: "confirmation \<Rightarrow> 'z confirm_state_scheme \<Rightarrow> 'z confirm_state_scheme" where
  "store_confirmation c s =
     s\<lparr>confirmations :=
         AList.update (confirmation_key (pc_tenant_id c) (pc_confirmation_id c)) c (confirmations s),
       payout_index :=
         AList.update (payout_key (pc_tenant_id c) (pc_payout_id c)) (pc_confirmation_id c)
           (payout_index s)\<rparr>"

definition add_confirmation :: "confirmation \<Rightarrow> ('z confirm_state_scheme, confirmation) act" where
  "add_confirmation c =
     bnd (gets (\<lambda>s. map_of (confirmations s)
            (confirmation_key (pc_tenant_id c) (pc_confirmation_id c)))) (\<lambda>old.
     bnd (require (old = None) (PayoutQueueError ''duplicate confirmation_id'')) (\<lambda>_.
     bnd (gets (\<lambda>s. map_of (payout_index s) (payout_key (pc_tenant_id c) (pc_payout_id c)))) (\<lambda>indexed.
     bnd (require (indexed = None) (PayoutNotExecutableError ''already confirmed'')) (\<lambda>_.
     bnd (modify (store_confirmation c)) (\<lambda>_.
     ret c)))))"

definition get_confirmation :: "string \<Rightarrow> string \<Rightarrow> ('z confirm_state_scheme, confirmation) act" where
  "get_confirmation tenant_id confirmation_id =
     bnd (gets (\<lambda>s. map_of (confirmations s) (confirmation_key tenant_id confirmation_id))) (\<lambda>found.
     case found of None \<Rightarrow> fail (PayoutQueueError ''confirmation not found'') | Some c \<Rightarrow> ret c)"

definition get_confirmation_for_payout ::
    "string \<Rightarrow> string \<Rightarrow> ('z confirm_state_scheme, confirmation) act" where
  "get_confirmation_for_payout tenant_id payout_id =
     bnd (gets (\<lambda>s. map_of (payout_index s) (payout_key tenant_id payout_id))) (\<lambda>found.
     case found of None \<Rightarrow> fail (PayoutQueueError ''confirmation not found'')
     | Some confirmation_id \<Rightarrow> get_confirmation tenant_id confirmation_id)"

definition list_confirmations :: "string \<Rightarrow> ('z confirm_state_scheme, confirmation list) act" where
  "list_confirmations tenant_id =
     gets (\<lambda>s. sorted_values (\<lambda>kv. fst (fst kv) = tenant_id) pc_confirmed_at (confirmations s))"

definition require_matching_two_factor_confirmation ::
    "two_factor_confirmation \<Rightarrow> string \<Rightarrow> string \<Rightarrow> tenant_context \<Rightarrow> exn + unit" where
  "require_matching_two_factor_confirmation c tenant_id payout_id context =
     (if tf_tenant_id c \<noteq> tenant_id \<or> tf_subject c \<noteq> tc_subject context \<or>
         tf_operation c \<noteq> PAYOUT_CONFIRM_OPERATION \<or> tf_resource_id c \<noteq> payout_id
      then Inl (PayoutNotExecutableError ''2FA mismatch'')
      else if tf_correlation_id c \<noteq> None \<and> tc_correlation_id context \<noteq> None \<and>
              tf_correlation_id c \<noteq> tc_correlation_id context
      then Inl (PayoutNotExecutableError ''2FA correlation mismatch'')
      else Inr ())"

definition confirmed_by_role :: "string list \<Rightarrow> exn + string" where
  "confirmed_by_role roles =
     (case find (\<lambda>r. r \<in> set (pol_allowed_roles PAYOUT_CONFIRM_POLICY)) roles of
        Some r \<Rightarrow> Inr r
      | None \<Rightarrow> Inl (PayoutNotExecutableError ''role''))"

definition resolve_correlation_id :: "tenant_context \<Rightarrow> two_factor_confirmation \<Rightarrow> exn + string" where
  "resolve_correlation_id context c =
     (case text_or (tc_correlation_id context) (tf_correlation_id c) of
        None \<Rightarrow> Inl (PayoutQueueError ''correlation_id'')
      | Some cid \<Rightarrow>
          if py_strip cid = [] then Inl (PayoutQueueError ''correlation_id'') else Inr cid)"

text \<open>\<open>datetime.fromtimestamp(seconds, tz=UTC)\<close>: the years 1 to 9999.\<close>

definition datetime_from_unix :: "int \<Rightarrow> exn + int" where
  "datetime_from_unix seconds =
     (if - 62135596800 \<le> seconds \<and> seconds \<le> 253402300799 then Inr (seconds * 1000000)
      else Inl (ValueError ''timestamp''))"

record confirm_request =
  cr_tenant_id :: string
  cr_payout_id :: string
  cr_context :: tenant_context
  cr_two_factor :: two_factor_confirmation
  cr_confirmation_id :: "string option"
  cr_event_id :: "string option"
  cr_metadata :: "(string \<times> json) list"

text \<open>\<open>PayoutConfirmationManager.confirm_payout\<close>. Its calls of the tenant check pass no audit sink.\<close>

definition check_requested_tenant :: "runtime \<Rightarrow> string \<Rightarrow> tenant_context \<Rightarrow> exn + unit" where
  "check_requested_tenant rt tenant_id context =
     fst (assert_requested_tenant rt None (Some tenant_id) (Some context) ''hitl_payout'' None)"

definition confirm_payout :: "runtime \<Rightarrow> confirm_request \<Rightarrow> ('z confirm_state_scheme, confirmation) act" where
  "confirm_payout rt r =
     bnd (lift (check_requested_tenant rt (cr_tenant_id r) (cr_context r))) (\<lambda>_.
     bnd (lift (require_access None PAYOUT_CONFIRM_POLICY (Some (cr_context r)))) (\<lambda>actor.
     case tc_subject actor of
       None \<Rightarrow> fail (PayoutNotExecutableError ''subject required'')
     | Some subject \<Rightarrow>
     bnd (get_payout (cr_tenant_id r) (cr_payout_id r)) (\<lambda>p.
     bnd (require (po_status p = QUEUED) (PayoutNotExecutableError ''confirm: not queued'')) (\<lambda>_.
     bnd (require (po_confirmation_id p = None) (PayoutNotExecutableError ''already confirmed'')) (\<lambda>_.
     bnd (lift (require_matching_two_factor_confirmation (cr_two_factor r) (cr_tenant_id r)
            (cr_payout_id r) actor)) (\<lambda>_.
     bnd (id_or_new rt (cr_confirmation_id r) ''confirmation'') (\<lambda>confirmation_id.
     bnd (lift (confirmed_by_role (tc_roles actor))) (\<lambda>actor_role.
     let actor_hash = subject_ref_hash rt (cr_tenant_id r) subject in
     bnd (lift (datetime_from_unix (tf_confirmed_at (cr_two_factor r)))) (\<lambda>confirmed_at.
     bnd (lift (resolve_correlation_id actor (cr_two_factor r))) (\<lambda>correlation_id.
     bnd (audit_log rt ''payout.confirmed'' (cr_tenant_id r) None
            (Some [(''payout_id'', JStr (po_payout_id p)),
                   (''confirmation_id'', JStr confirmation_id),
                   (''actor_hash'', JStr actor_hash),
                   (''confirmed_by_role'', JStr actor_role),
                   (''two_factor_method'', JStr (tf_method (cr_two_factor r))),
                   (''operation'', JStr (tf_operation (cr_two_factor r))),
                   (''resource_id'', JStr (tf_resource_id (cr_two_factor r))),
                   (''previous_status'', JStr (payout_status_value (po_status p))),
                   (''metadata'', JObj (audit_safe_metadata (cr_metadata r)))])
            (AtTime (Aware confirmed_at 0)) (Some correlation_id) (Some actor_hash)
            (Some ''hitl-payout-gateway'')) (\<lambda>rec.
     bnd (lift (payout_confirmation confirmation_id (cr_tenant_id r) (cr_payout_id r) subject
            actor_hash actor_role (tf_method (cr_two_factor r)) (tf_operation (cr_two_factor r))
            (ar_audit_hash rec) confirmed_at correlation_id)) (\<lambda>c.
     bnd (add_confirmation c) (\<lambda>_.
     bnd (update_payout (with_confirmation p (pc_confirmation_id c) (pc_actor_id c)
            (pc_actor_hash c) (pc_actor_role c) (pc_confirmed_at c) (pc_audit_hash c))) (\<lambda>_.
     bnd (id_or_new rt (cr_event_id r) ''evt-payout-confirmed'') (\<lambda>event_id.
     bnd (emit event_id ''payout.confirmed'' ''1.0'' (cr_tenant_id r) ''hitl-payout-gateway''
            correlation_id confirmed_at
            [(''payout_id'', JStr (po_payout_id p)),
             (''decision_id'', JStr (pc_confirmation_id c)),
             (''confirmed_by_role'', JStr (pc_actor_role c)),
             (''audit_hash'', JStr (pc_audit_hash c))] None) (\<lambda>_.
     ret c))))))))))))))))"

section \<open>What the operations do\<close>

lemma key_of_with_confirmation [simp]: "key_of (with_confirmation p a b c d e f) = key_of p"
  by (simp add: key_of_def with_confirmation_def)

lemma svc_grows_confirmations:
  "svc_grows s t \<Longrightarrow> confirmations t = confirmations s \<and> payout_index t = payout_index s"
  by (cases s; cases t) (simp add: svc_grows_def svc_rest_def)

lemma svc_grows_store_confirmation:
  "svc_grows s t \<Longrightarrow> svc_grows (store_confirmation c s) (store_confirmation c t)"
  by (cases s; cases t) (simp add: svc_grows_def svc_rest_def store_confirmation_def)

lemma confirm_fields [simp]:
  "payouts (store_confirmation c s) = payouts s"
  "decisions (store_confirmation c s) = decisions s"
  "confirmations (store_payout p s) = confirmations s"
  "payout_index (store_payout p s) = payout_index s"
  "confirmations (store_decision d s) = confirmations s"
  "payout_index (store_decision d s) = payout_index s"
  "confirmations (sink_append rec s) = confirmations s"
  "payout_index (sink_append rec s) = payout_index s"
  by (simp_all add: store_confirmation_def store_payout_def store_decision_def sink_append_def)

text \<open>The step of a confirmation that is accepted.\<close>

definition confirmed :: "confirm_request \<Rightarrow> payout \<Rightarrow> confirmation \<Rightarrow> bool" where
  "confirmed r p c \<longleftrightarrow>
     po_status p = QUEUED \<and> po_confirmation_id p = None \<and>
     cr_tenant_id r = tc_tenant_id (cr_context r) \<and> tenant_id_ok (cr_tenant_id r) \<and>
     COUNCIL_ROLE \<in> set (tc_roles (cr_context r)) \<and> pc_actor_role c = COUNCIL_ROLE \<and>
     tf_tenant_id (cr_two_factor r) = cr_tenant_id r \<and>
     tf_subject (cr_two_factor r) = tc_subject (cr_context r) \<and>
     tf_operation (cr_two_factor r) = PAYOUT_CONFIRM_OPERATION \<and>
     tf_resource_id (cr_two_factor r) = cr_payout_id r \<and>
     (\<exists>subject. tc_subject (cr_context r) = Some subject \<and> pc_actor_id c = pyd_strip subject) \<and>
     pc_tenant_id c = cr_tenant_id r \<and> pc_payout_id c = pyd_strip (cr_payout_id r) \<and>
     token_ok (pc_confirmation_id c) \<and> token_ok (pc_payout_id c) \<and> token_ok (pc_actor_id c) \<and>
     pc_confirmed_at c = tf_confirmed_at (cr_two_factor r) * 1000000"

definition confirm_step :: "payout \<Rightarrow> confirmation \<Rightarrow> 'z confirm_state_scheme \<Rightarrow> 'z confirm_state_scheme" where
  "confirm_step p c s =
     store_payout (with_confirmation p (pc_confirmation_id c) (pc_actor_id c) (pc_actor_hash c)
         (pc_actor_role c) (pc_confirmed_at c) (pc_audit_hash c))
       (store_confirmation c s)"

lemma svc_grows_confirm_step: "svc_grows s t \<Longrightarrow> svc_grows (confirm_step p c s) (confirm_step p c t)"
  by (simp add: confirm_step_def svc_grows_store svc_grows_store_confirmation)

lemma after_confirm_step:
  "svc_grows s t \<Longrightarrow> svc_grows (confirm_step p c (sink_append r t)) u \<Longrightarrow> svc_grows (confirm_step p c s) u"
  by (blast intro: svc_grows_trans svc_grows_confirm_step)

definition fresh_confirmation :: "confirmation \<Rightarrow> 'z confirm_state_scheme \<Rightarrow> bool" where
  "fresh_confirmation c s \<longleftrightarrow>
     map_of (confirmations s) (confirmation_key (pc_tenant_id c) (pc_confirmation_id c)) = None \<and>
     map_of (payout_index s) (payout_key (pc_tenant_id c) (pc_payout_id c)) = None"

lemma fresh_confirmation_stable [simp]:
  "fresh_confirmation c (sink_append rec s) = fresh_confirmation c s"
  "svc_grows s t \<Longrightarrow> fresh_confirmation c t = fresh_confirmation c s"
  by (simp_all add: fresh_confirmation_def svc_grows_confirmations)

lemma add_confirmation_rule [act_rules]:
  assumes "\<And>e. Q (Inl e) s" and "fresh_confirmation c s \<Longrightarrow> Q (Inr c) (store_confirmation c s)"
  shows "outcome (add_confirmation c) Q s"
  using assms by (auto simp: add_confirmation_def fresh_confirmation_def act_simps)

lemma check_requested_tenant_Inr [simp]:
  "check_requested_tenant rt t c = Inr u \<longleftrightarrow> t = tc_tenant_id c \<and> tenant_id_ok t"
  by (auto simp: check_requested_tenant_def assert_requested_tenant_def resolve_context_def act_eval
      bnd_def deny_tenant_access_def validated_tenant_id_def)

lemma confirmed_by_role_Inr [simp]:
  "confirmed_by_role roles = Inr r \<longleftrightarrow> r = COUNCIL_ROLE \<and> COUNCIL_ROLE \<in> set roles"
  by (auto simp: confirmed_by_role_def PAYOUT_CONFIRM_POLICY_def find_Some_iff find_None_iff
      split: option.splits) (metis nth_mem)

lemma strip_council [simp]: "pyd_strip COUNCIL_ROLE = COUNCIL_ROLE"
  by (simp add: COUNCIL_ROLE_def text_defs)

lemma require_matching_Inr:
  "require_matching_two_factor_confirmation c t i ctx = Inr u \<Longrightarrow>
     tf_tenant_id c = t \<and> tf_subject c = tc_subject ctx \<and> tf_operation c = PAYOUT_CONFIRM_OPERATION \<and>
     tf_resource_id c = i"
  by (auto simp: require_matching_two_factor_confirmation_def split: if_splits)

lemma council_access:
  "require_access None PAYOUT_CONFIRM_POLICY (Some c) = Inr d \<longleftrightarrow> d = c \<and> COUNCIL_ROLE \<in> set (tc_roles c)"
  by (auto simp: require_access_Inr PAYOUT_CONFIRM_POLICY_def GOVERNANCE_ROLES_def)

lemma datetime_from_unix_Inr: "datetime_from_unix n = Inr t \<Longrightarrow> t = n * 1000000"
  by (simp add: datetime_from_unix_def split: if_splits)

lemma confirm_payout_rule:
  assumes "keyed (payouts s)"
    and "\<And>e t. svc_grows s t \<Longrightarrow> Q (Inl e) t"
    and "\<And>p c rs t. map_of (payouts s) (payout_key (cr_tenant_id r) (cr_payout_id r)) = Some p \<Longrightarrow>
           confirmed r p c \<Longrightarrow> fresh_confirmation c s \<Longrightarrow> svc_grows (confirm_step p c s) t \<Longrightarrow>
           (\<exists>l. rs = Inl (ValueError l)) \<or> rs = Inr c \<Longrightarrow> Q rs t"
  shows "outcome (confirm_payout rt r) Q s"
proof -
  have ok: "confirmed r p c"
    if "payout_confirmation i (tc_tenant_id (cr_context r)) (cr_payout_id r) subject ah COUNCIL_ROLE m op a
             n cid = Inr c"
      and "tc_subject (cr_context r) = Some subject"
      and "datetime_from_unix (tf_confirmed_at (cr_two_factor r)) = Inr n"
      and "cr_tenant_id r = tc_tenant_id (cr_context r)" "tenant_id_ok (tc_tenant_id (cr_context r))"
      and "COUNCIL_ROLE \<in> set (tc_roles (cr_context r))"
      and "tf_tenant_id (cr_two_factor r) = tc_tenant_id (cr_context r)"
      and "tf_subject (cr_two_factor r) = Some subject"
      and "tf_operation (cr_two_factor r) = PAYOUT_CONFIRM_OPERATION"
      and "tf_resource_id (cr_two_factor r) = cr_payout_id r"
      and "po_status p = QUEUED" "po_confirmation_id p = None"
    for i subject ah m op a n cid c p
    using that by (auto simp: payout_confirmation_def confirmed_def dest: datetime_from_unix_Inr)
  have fin: "Q rs (u\<lparr>bus := bus u @ ms\<rparr>)"
    if "map_of (payouts s) (payout_key (tc_tenant_id (cr_context r)) (cr_payout_id r)) = Some p"
      and "payout_confirmation i (tc_tenant_id (cr_context r)) (cr_payout_id r) subject ah COUNCIL_ROLE m op a
             n cid = Inr c"
      and "cr_tenant_id r = tc_tenant_id (cr_context r)" "tenant_id_ok (tc_tenant_id (cr_context r))"
      and "tc_subject (cr_context r) = Some subject"
      and "datetime_from_unix (tf_confirmed_at (cr_two_factor r)) = Inr n"
      and "COUNCIL_ROLE \<in> set (tc_roles (cr_context r))"
      and "tf_tenant_id (cr_two_factor r) = tc_tenant_id (cr_context r)"
      and "tf_subject (cr_two_factor r) = Some subject"
      and "tf_operation (cr_two_factor r) = PAYOUT_CONFIRM_OPERATION"
      and "tf_resource_id (cr_two_factor r) = cr_payout_id r"
      and "po_status p = QUEUED" "po_confirmation_id p = None"
      and "fresh_confirmation c s" and "svc_grows s t"
      and "svc_grows (confirm_step p c (sink_append rec t)) u"
      and "(\<exists>l. rs = Inl (ValueError l)) \<or> rs = Inr c"
    for p c n t rec u rs ms i subject ah m op a cid
  proof (rule assms(3) [of p c])
    show "svc_grows (confirm_step p c s) (u\<lparr>bus := bus u @ ms\<rparr>)"
      using that by (blast intro: after_confirm_step svc_grows_bus_trans)
    show "confirmed r p c" using that by (intro ok)
  qed (use that in simp_all)
  show ?thesis
    using assms(2) [OF svc_grows_refl] assms(1)
    by (auto simp: confirm_payout_def act_simps Let_def svc_grows_payouts keyedD council_access
        split: sum.splits option.splits dest!: require_matching_Inr
        intro!: get_payout_rule id_or_new_rule audit_log_rule add_confirmation_rule update_payout_rule emit_rule
        intro: assms(2) fin [where ms = "[]", simplified] fin
        simp flip: confirm_step_def)
qed

end
