(* ===== verification/PayoutConnectors.thy ===== *)
theory PayoutConnectors
  imports PayoutConfirm
begin

text \<open>
  \<open>hitl_payout_gateway/execution_manager.py\<close>: the execution of a confirmed payout through three
  connectors, and the reconciliation of its payment status (the operations are in \<open>PayoutExecution\<close>). A connector is code behind an
  interface: a function of the command and of the state of the outside world, which may raise. The
  in-memory connectors of the module are instances.
\<close>

section \<open>Commands and results\<close>

definition connector_name_ok :: "string \<Rightarrow> bool" where
  "connector_name_ok s \<longleftrightarrow> head_tail is_lower (\<lambda>c. word_char c \<or> c = CHR ''-'') 63 s"

definition ref_hash_ok :: "string \<Rightarrow> bool" where
  "ref_hash_ok s \<longleftrightarrow> take 7 s = ''sha256:'' \<and> audit_hash_ok (drop 7 s)"

definition template_key_ok :: "string \<Rightarrow> bool" where
  "template_key_ok s \<longleftrightarrow> head_tail is_lower word_char 127 s"

fun payment_status_value :: "payment_status \<Rightarrow> string" where
  "payment_status_value ACCEPTED = ''accepted''"
| "payment_status_value PROCESSING = ''processing''"
| "payment_status_value SUCCEEDED = ''succeeded''"
| "payment_status_value FAILED = ''failed''"
| "payment_status_value RETURNED = ''returned''"
| "payment_status_value REFUNDED = ''refunded''"

record payment_command =
  pm_tenant_id :: string
  pm_payout_id :: string
  pm_execution_id :: string
  pm_member_id :: string
  pm_member_hash :: string
  pm_period :: string
  pm_payout_share :: pyfloat
  pm_distribution_id :: string
  pm_distribution_hash :: string
  pm_correlation_id :: string
  pm_requested_at :: int
  pm_metadata :: "(string \<times> json) list"

record payment_result =
  pr_execution_ref :: string
  pr_connector_name :: string
  pr_executed_at :: int
  pr_gateway_payment_id :: "string option"
  pr_gateway_status :: payment_status

record status_command =
  sc_tenant_id :: string
  sc_payout_id :: string
  sc_execution_id :: string
  sc_payment_gateway_id :: string
  sc_connector_name :: string
  sc_correlation_id :: string
  sc_requested_at :: int
  sc_metadata :: "(string \<times> json) list"

record status_result =
  sr_payment_gateway_id :: string
  sr_status :: payment_status
  sr_connector_name :: string
  sr_synced_at :: int
  sr_error_code :: "string option"
  sr_retryable :: bool
  sr_refund_id :: "string option"

record status_receipt =
  st_tenant_id :: string
  st_payout_id :: string
  st_payment_gateway_id :: string
  st_payment_ref_hash :: string
  st_status :: payment_status
  st_connector_name :: string
  st_synced_at :: int
  st_audit_hash :: string
  st_correlation_id :: string
  st_error_code :: "string option"
  st_retryable :: bool
  st_refund_id :: "string option"

record chain_command =
  bc_tenant_id :: string
  bc_event_id :: string
  bc_event_type :: string
  bc_audit_hash :: string
  bc_correlation_id :: string
  bc_occurred_at :: int
  bc_metadata :: "(string \<times> json) list"

record chain_result =
  br_audit_chain_ref :: string
  br_connector_name :: string
  br_recorded_at :: int

record notification_command =
  nc_notification_id :: string
  nc_tenant_id :: string
  nc_recipient_id :: string
  nc_recipient_hash :: string
  nc_payout_id :: string
  nc_event_type :: string
  nc_template_key :: string
  nc_correlation_id :: string
  nc_metadata :: "(string \<times> json) list"

record notification_result =
  nr_notification_id :: string
  nr_connector_name :: string
  nr_accepted_at :: int

record execution_receipt =
  er_execution_id :: string
  er_tenant_id :: string
  er_payout_id :: string
  er_execution_ref_hash :: string
  er_audit_hash :: string
  er_audit_chain_ref :: string
  er_notification_id :: string
  er_executed_at :: int
  er_correlation_id :: string

definition json_copy :: "runtime \<Rightarrow> (string \<times> json) list \<Rightarrow> (string \<times> json) list" where
  "json_copy rt m = obj_members (rt_pyd_json rt (JObj m))"

definition payment_command ::
    "runtime \<Rightarrow> payout \<Rightarrow> string \<Rightarrow> string \<Rightarrow> string \<Rightarrow> string \<Rightarrow> int \<Rightarrow> (string \<times> json) list
     \<Rightarrow> exn + payment_command" where
  "payment_command rt p tenant_id payout_id execution_id correlation_id requested_at metadata =
     model ''PayoutPaymentCommand''
       (tenant_id_ok (pyd_strip tenant_id) \<and> token_ok (pyd_strip payout_id) \<and>
        token_ok (pyd_strip execution_id) \<and> token_ok (pyd_strip (po_member_id p)) \<and>
        ref_hash_ok (pyd_strip (po_member_hash p)) \<and> length (pyd_strip (po_period p)) = 7 \<and>
        finite_between 0 1 (po_payout_share p) \<and> token_ok (pyd_strip (po_distribution_id p)) \<and>
        audit_hash_ok (pyd_strip (po_distribution_hash p)) \<and> token_ok (pyd_strip correlation_id))
       \<lparr>pm_tenant_id = pyd_strip tenant_id, pm_payout_id = pyd_strip payout_id,
        pm_execution_id = pyd_strip execution_id, pm_member_id = pyd_strip (po_member_id p),
        pm_member_hash = pyd_strip (po_member_hash p), pm_period = pyd_strip (po_period p),
        pm_payout_share = po_payout_share p, pm_distribution_id = pyd_strip (po_distribution_id p),
        pm_distribution_hash = pyd_strip (po_distribution_hash p),
        pm_correlation_id = pyd_strip correlation_id, pm_requested_at = requested_at,
        pm_metadata = json_copy rt metadata\<rparr>"

definition status_command ::
    "runtime \<Rightarrow> string \<Rightarrow> string \<Rightarrow> string \<Rightarrow> string \<Rightarrow> string \<Rightarrow> string \<Rightarrow> int \<Rightarrow> (string \<times> json) list
     \<Rightarrow> exn + status_command" where
  "status_command rt tenant_id payout_id execution_id gateway_id connector_name correlation_id
     requested_at metadata =
     model ''PayoutPaymentStatusCommand''
       (tenant_id_ok (pyd_strip tenant_id) \<and> token_ok (pyd_strip payout_id) \<and>
        token_ok (pyd_strip execution_id) \<and> length_between 1 256 (pyd_strip gateway_id) \<and>
        connector_name_ok (pyd_strip connector_name) \<and> token_ok (pyd_strip correlation_id))
       \<lparr>sc_tenant_id = pyd_strip tenant_id, sc_payout_id = pyd_strip payout_id,
        sc_execution_id = pyd_strip execution_id, sc_payment_gateway_id = pyd_strip gateway_id,
        sc_connector_name = pyd_strip connector_name, sc_correlation_id = pyd_strip correlation_id,
        sc_requested_at = requested_at, sc_metadata = json_copy rt metadata\<rparr>"

definition chain_command ::
    "runtime \<Rightarrow> string \<Rightarrow> string \<Rightarrow> string \<Rightarrow> string \<Rightarrow> string \<Rightarrow> int \<Rightarrow> (string \<times> json) list
     \<Rightarrow> exn + chain_command" where
  "chain_command rt tenant_id event_id event_type audit correlation_id occurred_at metadata =
     model ''BlockchainAuditRecordCommand''
       (tenant_id_ok (pyd_strip tenant_id) \<and> token_ok (pyd_strip event_id) \<and>
        event_type_ok (pyd_strip event_type) \<and> audit_hash_ok (pyd_strip audit) \<and>
        token_ok (pyd_strip correlation_id))
       \<lparr>bc_tenant_id = pyd_strip tenant_id, bc_event_id = pyd_strip event_id,
        bc_event_type = pyd_strip event_type, bc_audit_hash = pyd_strip audit,
        bc_correlation_id = pyd_strip correlation_id, bc_occurred_at = occurred_at,
        bc_metadata = json_copy rt metadata\<rparr>"

definition notification_command ::
    "runtime \<Rightarrow> string \<Rightarrow> string \<Rightarrow> payout \<Rightarrow> string \<Rightarrow> string \<Rightarrow> string \<Rightarrow> (string \<times> json) list
     \<Rightarrow> exn + notification_command" where
  "notification_command rt notification_id tenant_id p event_type template_key correlation_id metadata =
     model ''PayoutNotificationCommand''
       (token_ok (pyd_strip notification_id) \<and> tenant_id_ok (pyd_strip tenant_id) \<and>
        token_ok (pyd_strip (po_member_id p)) \<and> ref_hash_ok (pyd_strip (po_member_hash p)) \<and>
        token_ok (pyd_strip (po_payout_id p)) \<and> event_type_ok (pyd_strip event_type) \<and>
        template_key_ok (pyd_strip template_key) \<and> token_ok (pyd_strip correlation_id))
       \<lparr>nc_notification_id = pyd_strip notification_id, nc_tenant_id = pyd_strip tenant_id,
        nc_recipient_id = pyd_strip (po_member_id p), nc_recipient_hash = pyd_strip (po_member_hash p),
        nc_payout_id = pyd_strip (po_payout_id p), nc_event_type = pyd_strip event_type,
        nc_template_key = pyd_strip template_key, nc_correlation_id = pyd_strip correlation_id,
        nc_metadata = json_copy rt metadata\<rparr>"

definition execution_receipt ::
    "string \<Rightarrow> string \<Rightarrow> string \<Rightarrow> string \<Rightarrow> string \<Rightarrow> string \<Rightarrow> string \<Rightarrow> int \<Rightarrow> string
     \<Rightarrow> exn + execution_receipt" where
  "execution_receipt execution_id tenant_id payout_id ref_hash audit chain_ref notification_id
     executed_at correlation_id =
     model ''PayoutExecutionReceipt''
       (token_ok (pyd_strip execution_id) \<and> tenant_id_ok (pyd_strip tenant_id) \<and>
        token_ok (pyd_strip payout_id) \<and> ref_hash_ok (pyd_strip ref_hash) \<and>
        audit_hash_ok (pyd_strip audit) \<and> length_between 1 256 (pyd_strip chain_ref) \<and>
        token_ok (pyd_strip notification_id) \<and> token_ok (pyd_strip correlation_id))
       \<lparr>er_execution_id = pyd_strip execution_id, er_tenant_id = pyd_strip tenant_id,
        er_payout_id = pyd_strip payout_id, er_execution_ref_hash = pyd_strip ref_hash,
        er_audit_hash = pyd_strip audit, er_audit_chain_ref = pyd_strip chain_ref,
        er_notification_id = pyd_strip notification_id, er_executed_at = executed_at,
        er_correlation_id = pyd_strip correlation_id\<rparr>"

definition status_receipt ::
    "string \<Rightarrow> string \<Rightarrow> string \<Rightarrow> status_result \<Rightarrow> string \<Rightarrow> string \<Rightarrow> exn + status_receipt" where
  "status_receipt tenant_id payout_id ref_hash res audit correlation_id =
     model ''PayoutPaymentStatusReceipt''
       (tenant_id_ok (pyd_strip tenant_id) \<and> token_ok (pyd_strip payout_id) \<and>
        length_between 1 256 (pyd_strip (sr_payment_gateway_id res)) \<and>
        ref_hash_ok (pyd_strip ref_hash) \<and> connector_name_ok (pyd_strip (sr_connector_name res)) \<and>
        audit_hash_ok (pyd_strip audit) \<and> token_ok (pyd_strip correlation_id) \<and>
        optional_ok (length_between 1 128) (map_option pyd_strip (sr_error_code res)) \<and>
        optional_ok (length_between 1 256) (map_option pyd_strip (sr_refund_id res)))
       \<lparr>st_tenant_id = pyd_strip tenant_id, st_payout_id = pyd_strip payout_id,
        st_payment_gateway_id = pyd_strip (sr_payment_gateway_id res),
        st_payment_ref_hash = pyd_strip ref_hash, st_status = sr_status res,
        st_connector_name = pyd_strip (sr_connector_name res), st_synced_at = sr_synced_at res,
        st_audit_hash = pyd_strip audit, st_correlation_id = pyd_strip correlation_id,
        st_error_code = map_option pyd_strip (sr_error_code res), st_retryable = sr_retryable res,
        st_refund_id = map_option pyd_strip (sr_refund_id res)\<rparr>"

section \<open>Connectors\<close>

record 'x connectors =
  pay_connector :: "payment_command \<Rightarrow> ('x, payment_result) act"
  status_connector :: "(status_command \<Rightarrow> ('x, status_result) act) option"
  chain_connector :: "chain_command \<Rightarrow> ('x, chain_result) act"
  notify_connector :: "notification_command \<Rightarrow> ('x, notification_result) act"

record 'x exec_state = confirm_state +
  outside :: 'x

definition call_outside ::
    "('c \<Rightarrow> ('x, 'r) act) \<Rightarrow> 'c \<Rightarrow> (('x, 'z) exec_state_scheme, 'r) act" where
  "call_outside f c s = (case f c (outside s) of (r, x) \<Rightarrow> (r, s\<lparr>outside := x\<rparr>))"

text \<open>The in-memory connectors.\<close>

record memory_connectors =
  mem_commands :: "payment_command list"
  mem_results :: "(key, payment_result) dict"
  mem_records :: "chain_command list"
  mem_notifications :: "notification_command list"

definition payment_result ::
    "string \<Rightarrow> string \<Rightarrow> int \<Rightarrow> exn + payment_result" where
  "payment_result execution_ref connector_name executed_at =
     model ''PayoutPaymentResult''
       (length_between 1 256 (pyd_strip execution_ref) \<and> connector_name_ok (pyd_strip connector_name))
       \<lparr>pr_execution_ref = pyd_strip execution_ref, pr_connector_name = pyd_strip connector_name,
        pr_executed_at = executed_at, pr_gateway_payment_id = None, pr_gateway_status = SUCCEEDED\<rparr>"

definition raise_if :: "exn option \<Rightarrow> ('s, unit) act" where
  "raise_if fail_with = (case fail_with of None \<Rightarrow> ret () | Some e \<Rightarrow> fail e)"

definition memory_payment ::
    "string \<Rightarrow> exn option \<Rightarrow> payment_command \<Rightarrow> (memory_connectors, payment_result) act" where
  "memory_payment connector_name fail_with c =
     bnd (raise_if fail_with) (\<lambda>_.
     bnd (modify (\<lambda>x. x\<lparr>mem_commands := mem_commands x @ [c]\<rparr>)) (\<lambda>_.
     bnd (gets (\<lambda>x. map_of (mem_results x) (pm_tenant_id c, pm_execution_id c))) (\<lambda>existing.
     case existing of
       Some r \<Rightarrow> ret r
     | None \<Rightarrow>
         bnd (lift (payment_result (''payment-'' @ pm_execution_id c) connector_name (pm_requested_at c))) (\<lambda>r.
         bnd (modify (\<lambda>x. x\<lparr>mem_results :=
                AList.update (pm_tenant_id c, pm_execution_id c) r (mem_results x)\<rparr>)) (\<lambda>_.
         ret r)))))"

definition memory_chain ::
    "string \<Rightarrow> exn option \<Rightarrow> chain_command \<Rightarrow> (memory_connectors, chain_result) act" where
  "memory_chain connector_name fail_with c =
     bnd (raise_if fail_with) (\<lambda>_.
     bnd (modify (\<lambda>x. x\<lparr>mem_records := mem_records x @ [c]\<rparr>)) (\<lambda>_.
     lift (model ''BlockchainAuditRecordResult''
       (length_between 1 256 (pyd_strip (''audit-chain-'' @ bc_event_id c)) \<and>
        connector_name_ok (pyd_strip connector_name))
       \<lparr>br_audit_chain_ref = pyd_strip (''audit-chain-'' @ bc_event_id c),
        br_connector_name = pyd_strip connector_name, br_recorded_at = bc_occurred_at c\<rparr>)))"

definition memory_notify ::
    "runtime \<Rightarrow> string \<Rightarrow> exn option \<Rightarrow> notification_command \<Rightarrow> (memory_connectors, notification_result) act" where
  "memory_notify rt connector_name fail_with c =
     bnd (raise_if fail_with) (\<lambda>_.
     bnd (modify (\<lambda>x. x\<lparr>mem_notifications := mem_notifications x @ [c]\<rparr>)) (\<lambda>_.
     lift (model ''PayoutNotificationResult''
       (token_ok (pyd_strip (nc_notification_id c)) \<and> connector_name_ok (pyd_strip connector_name))
       \<lparr>nr_notification_id = pyd_strip (nc_notification_id c),
        nr_connector_name = pyd_strip connector_name, nr_accepted_at = rt_utcnow rt\<rparr>)))"

end
