(* ===== verification/PayoutExecution.thy ===== *)
theory PayoutExecution
  imports PayoutConnectors
begin

text \<open>
  \<open>hitl_payout_gateway/execution_manager.py\<close>: \<open>PayoutExecutionManager\<close>. A payout is paid,
  recorded in the audit chain and notified, in this order, and is marked executed after all three;
  a failing connector leaves it as it was and publishes \<open>payout.failed\<close>.
\<close>

section \<open>The operations\<close>

definition require_executable :: "payout \<Rightarrow> int \<Rightarrow> exn + unit" where
  "require_executable p n =
     (if po_status p = CANCELED then Inl (PayoutNotExecutableError ''execute: canceled'')
      else if po_status p = EXECUTED then Inl (PayoutNotExecutableError ''execute: executed'')
      else if po_status p \<notin> {QUEUED, READY_TO_EXECUTE} then Inl (PayoutNotExecutableError ''execute: status'')
      else if n < po_veto_until p then Inl (PayoutNotExecutableError ''execute: veto window open'')
      else if po_confirmation_id p = None then Inl (PayoutNotExecutableError ''execute: not confirmed'')
      else Inr ())"

fun as_connector_error :: "string \<Rightarrow> exn \<Rightarrow> exn" where
  "as_connector_error name (PayoutConnectorError n c r) = PayoutConnectorError n c r"
| "as_connector_error name e = PayoutConnectorError name ''connector_error'' True"

fun connector_error_parts :: "exn \<Rightarrow> string \<times> string \<times> bool" where
  "connector_error_parts (PayoutConnectorError n c r) = (n, c, r)"
| "connector_error_parts e = ([], [], False)"

text \<open>\<open>_record_connector_failure\<close>, followed by the \<open>raise\<close> of each of its callers.\<close>

definition record_connector_failure ::
    "runtime \<Rightarrow> payout \<Rightarrow> string \<Rightarrow> int \<Rightarrow> string \<Rightarrow> string option \<Rightarrow> (string \<times> json) list \<Rightarrow> exn
     \<Rightarrow> ('z svc_scheme, 'a) act" where
  "record_connector_failure rt p connector_name occurred_at correlation_id failure_event_id metadata err =
     (let cerr = as_connector_error connector_name err in
      case connector_error_parts cerr of (name, code, retryable) \<Rightarrow>
      bnd (audit_log rt ''payout.failed'' (po_tenant_id p) None
             (Some [(''payout_id'', JStr (po_payout_id p)),
                    (''connector'', JStr name),
                    (''error_code'', JStr code),
                    (''retryable'', JBool retryable),
                    (''previous_status'', JStr (payout_status_value (po_status p))),
                    (''metadata'', JObj (audit_safe_metadata metadata))])
             (AtTime (Aware occurred_at 0)) (Some correlation_id) None
             (Some ''hitl-payout-gateway'')) (\<lambda>rec.
      bnd (id_or_new rt failure_event_id ''evt-payout-failed'') (\<lambda>event_id.
      bnd (emit event_id ''payout.failed'' ''1.0'' (po_tenant_id p) ''hitl-payout-gateway''
             correlation_id occurred_at
             [(''payout_id'', JStr (po_payout_id p)),
              (''error_code'', JStr code),
              (''retryable'', JBool retryable),
              (''connector'', JStr name),
              (''audit_hash'', JStr (ar_audit_hash rec))] None) (\<lambda>_.
      fail cerr))))"

record execute_request =
  xr_tenant_id :: string
  xr_payout_id :: string
  xr_correlation_id :: string
  xr_execution_id :: "string option"
  xr_event_id :: "string option"
  xr_failure_event_id :: "string option"
  xr_notification_id :: "string option"
  xr_now :: time_arg
  xr_metadata :: "(string \<times> json) list"

text \<open>\<open>try: await connector(Command(...)) except Exception: record the failure and raise\<close>.\<close>

definition try_connector ::
    "runtime \<Rightarrow> execute_request \<Rightarrow> payout \<Rightarrow> string \<Rightarrow> int \<Rightarrow> exn + 'c \<Rightarrow> ('c \<Rightarrow> ('x, 'r) act)
     \<Rightarrow> (('x, 'z) exec_state_scheme, 'r) act" where
  "try_connector rt r p connector_name occurred_at command connector =
     catch (bnd (lift command) (call_outside connector))
       (record_connector_failure rt p connector_name occurred_at (xr_correlation_id r)
          (xr_failure_event_id r) (xr_metadata r))"

definition opt_str :: "string option \<Rightarrow> json" where
  "opt_str v = (case v of None \<Rightarrow> JNull | Some s \<Rightarrow> JStr s)"

definition execute_payout ::
    "runtime \<Rightarrow> 'x connectors \<Rightarrow> execute_request \<Rightarrow> (('x, 'z) exec_state_scheme, execution_receipt) act" where
  "execute_payout rt conns r =
     bnd (lift (normalize_datetime rt (xr_now r))) (\<lambda>requested_at.
     bnd (get_payout (xr_tenant_id r) (xr_payout_id r)) (\<lambda>p.
     bnd (lift (require_executable p requested_at)) (\<lambda>_.
     bnd (id_or_new rt (xr_execution_id r) ''execution'') (\<lambda>execution_id.
     bnd (id_or_new rt (xr_event_id r) ''evt-payout-executed'') (\<lambda>event_id.
     bnd (id_or_new rt (xr_notification_id r) ''notification'') (\<lambda>notification_id.
     bnd (try_connector rt r p ''payment_gateway'' requested_at
            (payment_command rt p (xr_tenant_id r) (xr_payout_id r) execution_id (xr_correlation_id r)
               requested_at (xr_metadata r))
            (pay_connector conns)) (\<lambda>payment.
     let executed_at = pr_executed_at payment;
         ref_hash = scoped_hash rt (xr_tenant_id r) (pr_execution_ref payment)
     in
     bnd (audit_log rt ''payout.executed'' (xr_tenant_id r) None
            (Some [(''payout_id'', JStr (po_payout_id p)),
                   (''execution_id'', JStr execution_id),
                   (''execution_ref_hash'', JStr ref_hash),
                   (''payment_connector'', JStr (pr_connector_name payment)),
                   (''previous_status'', JStr (payout_status_value (po_status p))),
                   (''new_status'', JStr (payout_status_value EXECUTED)),
                   (''confirmation_id'', opt_str (po_confirmation_id p)),
                   (''distribution_hash'', JStr (po_distribution_hash p)),
                   (''metadata'', JObj (audit_safe_metadata (xr_metadata r)))])
            (AtTime (Aware executed_at 0)) (Some (xr_correlation_id r)) None
            (Some ''hitl-payout-gateway'')) (\<lambda>rec.
     bnd (try_connector rt r p ''blockchain_auditor'' executed_at
            (chain_command rt (xr_tenant_id r) event_id ''payout.executed'' (ar_audit_hash rec)
               (xr_correlation_id r) executed_at
               [(''payout_id'', JStr (po_payout_id p)),
                (''execution_id'', JStr execution_id),
                (''execution_ref_hash'', JStr ref_hash),
                (''source'', JStr ''hitl-payout-gateway'')])
            (chain_connector conns)) (\<lambda>chain.
     bnd (try_connector rt r p ''notification_gateway'' executed_at
            (notification_command rt notification_id (xr_tenant_id r) p ''payout.executed''
               ''hitl_payout_executed'' (xr_correlation_id r)
               [(''payout_id'', JStr (po_payout_id p)),
                (''execution_ref_hash'', JStr ref_hash),
                (''audit_hash'', JStr (ar_audit_hash rec)),
                (''audit_chain_ref'', JStr (br_audit_chain_ref chain))])
            (notify_connector conns)) (\<lambda>notification.
     bnd (update_payout (with_execution p execution_id ref_hash (br_audit_chain_ref chain)
            (nr_notification_id notification) executed_at (ar_audit_hash rec)
            (Some (pr_connector_name payment))
            (text_or (pr_gateway_payment_id payment) (Some (pr_execution_ref payment)))
            (Some (pr_gateway_status payment)))) (\<lambda>updated.
     bnd (emit event_id ''payout.executed'' ''1.0'' (xr_tenant_id r) ''hitl-payout-gateway''
            (xr_correlation_id r) executed_at
            [(''payout_id'', JStr (po_payout_id updated)),
             (''execution_ref_hash'', JStr ref_hash),
             (''status'', JStr (payout_status_value (po_status updated))),
             (''audit_hash'', JStr (ar_audit_hash rec))] None) (\<lambda>_.
     lift (execution_receipt execution_id (xr_tenant_id r) (xr_payout_id r) ref_hash
             (ar_audit_hash rec) (br_audit_chain_ref chain) (nr_notification_id notification)
             executed_at (xr_correlation_id r))))))))))))))"

definition payment_status_connector ::
    "'x connectors \<Rightarrow> exn + (status_command \<Rightarrow> ('x, status_result) act)" where
  "payment_status_connector conns =
     (case status_connector conns of
        Some f \<Rightarrow> Inr f
      | None \<Rightarrow> Inl (PayoutConnectorError ''payment_gateway'' ''payment_status_sync_unsupported'' False))"

definition sync_connector_name :: "payout \<Rightarrow> string" where
  "sync_connector_name p =
     (case text_or (po_payment_connector_name p) None of None \<Rightarrow> ''payment_gateway'' | Some n \<Rightarrow> n)"

definition synced_payload ::
    "payout \<Rightarrow> status_result \<Rightarrow> string \<Rightarrow> string option \<Rightarrow> string \<Rightarrow> (string \<times> json) list" where
  "synced_payload updated res ref_hash refund_hash audit =
     [(''payout_id'', JStr (po_payout_id updated)),
      (''payment_ref_hash'', JStr ref_hash),
      (''status'', JStr (case po_payment_status updated of
         Some st \<Rightarrow> payment_status_value st | None \<Rightarrow> payment_status_value (sr_status res))),
      (''connector'', JStr (sr_connector_name res)),
      (''audit_hash'', JStr audit)]
     @ (case sr_error_code res of None \<Rightarrow> [] | Some c \<Rightarrow> [(''error_code'', JStr c)])
     @ (case refund_hash of None \<Rightarrow> [] | Some h \<Rightarrow> [(''refund_ref_hash'', JStr h)])"

text \<open>\<open>sync_payment_status\<close>; of the request it reads no execution and no notification identifier.\<close>

definition sync_payment_status ::
    "runtime \<Rightarrow> 'x connectors \<Rightarrow> execute_request \<Rightarrow> (('x, 'z) exec_state_scheme, status_receipt) act" where
  "sync_payment_status rt conns r =
     bnd (lift (normalize_datetime rt (xr_now r))) (\<lambda>requested_at.
     bnd (get_payout (xr_tenant_id r) (xr_payout_id r)) (\<lambda>p.
     case (po_execution_id p, po_payment_gateway_id p) of
       (Some execution_id, Some gateway_id) \<Rightarrow>
     bnd (lift (payment_status_connector conns)) (\<lambda>connector.
     let connector_name = sync_connector_name p in
     bnd (try_connector rt r p connector_name requested_at
            (status_command rt (xr_tenant_id r) (xr_payout_id r) execution_id gateway_id connector_name
               (xr_correlation_id r) requested_at (xr_metadata r))
            connector) (\<lambda>res.
     let ref_hash = scoped_hash rt (xr_tenant_id r) (sr_payment_gateway_id res);
         refund_hash = map_option (scoped_hash rt (xr_tenant_id r)) (sr_refund_id res)
     in
     bnd (audit_log rt ''payout.payment_status_synced'' (xr_tenant_id r) None
            (Some [(''payout_id'', JStr (po_payout_id p)),
                   (''execution_id'', JStr execution_id),
                   (''payment_ref_hash'', JStr ref_hash),
                   (''payment_connector'', JStr (sr_connector_name res)),
                   (''previous_payment_status'',
                      opt_str (map_option payment_status_value (po_payment_status p))),
                   (''new_payment_status'', JStr (payment_status_value (sr_status res))),
                   (''error_code'', opt_str (sr_error_code res)),
                   (''retryable'', JBool (sr_retryable res)),
                   (''refund_ref_hash'', opt_str refund_hash),
                   (''metadata'', JObj (audit_safe_metadata (xr_metadata r)))])
            (AtTime (Aware (sr_synced_at res) 0)) (Some (xr_correlation_id r)) None
            (Some ''hitl-payout-gateway'')) (\<lambda>rec.
     bnd (update_payout (with_payment_status p (sr_status res) (sr_synced_at res) (ar_audit_hash rec)
            (Some (sr_connector_name res)) (Some (sr_payment_gateway_id res)) (sr_error_code res)
            (sr_refund_id res))) (\<lambda>updated.
     bnd (id_or_new rt (xr_event_id r) ''evt-payout-payment-status-synced'') (\<lambda>event_id.
     bnd (emit event_id ''payout.payment_status_synced'' ''1.0'' (xr_tenant_id r) ''hitl-payout-gateway''
            (xr_correlation_id r) (sr_synced_at res)
            (synced_payload updated res ref_hash refund_hash (ar_audit_hash rec)) None) (\<lambda>_.
     lift (status_receipt (xr_tenant_id r) (xr_payout_id r) ref_hash res (ar_audit_hash rec)
             (xr_correlation_id r))))))))
     | _ \<Rightarrow> fail (PayoutNotExecutableError ''sync: not sent'')))"

section \<open>What the operations do\<close>

text \<open>\<open>exec_grows\<close> is \<open>svc_grows\<close> up to the state of the outside world.\<close>

definition exec_grows :: "('x, 'z) exec_state_scheme \<Rightarrow> ('x, 'z) exec_state_scheme \<Rightarrow> bool" where
  "exec_grows s t \<longleftrightarrow> svc_grows (s\<lparr>outside := outside t\<rparr>) t"

lemma svc_grows_outside: "svc_grows s t \<Longrightarrow> outside t = outside s"
  by (cases s; cases t) (simp add: svc_grows_def svc_rest_def)

lemma svc_grows_set_outside: "svc_grows s t \<Longrightarrow> svc_grows (s\<lparr>outside := x\<rparr>) (t\<lparr>outside := x\<rparr>)"
  by (cases s; cases t) (simp add: svc_grows_def svc_rest_def)

lemma exec_grows_svc: "svc_grows s t \<Longrightarrow> exec_grows s t"
  using svc_grows_set_outside [of s t "outside t"] by (simp add: exec_grows_def)

lemma exec_grows_refl [simp]: "exec_grows s s"
  by (simp add: exec_grows_svc)

lemma exec_grows_trans: "exec_grows s t \<Longrightarrow> exec_grows t u \<Longrightarrow> exec_grows s u"
  unfolding exec_grows_def
  using svc_grows_set_outside [of "s\<lparr>outside := outside t\<rparr>" t "outside u"]
  by (auto intro: svc_grows_trans)

lemma exec_grows_call [simp]: "exec_grows s (s\<lparr>outside := x\<rparr>)"
  by (simp add: exec_grows_def)

lemma exec_grows_store: "exec_grows s t \<Longrightarrow> exec_grows (store_payout p s) (store_payout p t)"
  using svc_grows_store [of "s\<lparr>outside := outside t\<rparr>" t p]
  by (cases s) (simp add: exec_grows_def store_payout_def)

lemma exec_grows_fields:
  assumes "exec_grows s t"
  shows "payouts t = payouts s" "decisions t = decisions s" "confirmations t = confirmations s"
    "payout_index t = payout_index s"
  using assms svc_grows_payouts [of "s\<lparr>outside := outside t\<rparr>" t]
    svc_grows_decisions [of "s\<lparr>outside := outside t\<rparr>" t]
    svc_grows_confirmations [of "s\<lparr>outside := outside t\<rparr>" t]
  by (cases s; simp add: exec_grows_def)+

lemma exec_grows_chain:
  "exec_grows s t \<Longrightarrow> svc_grows t u \<Longrightarrow> exec_grows s u"
  "exec_grows s t \<Longrightarrow> exec_grows s (t\<lparr>outside := x\<rparr>)"
  "exec_grows s t \<Longrightarrow> exec_grows s (sink_append rec t)"
  "exec_grows s t \<Longrightarrow> exec_grows s (t\<lparr>bus := bus t @ ms\<rparr>)"
  by (metis exec_grows_trans exec_grows_svc exec_grows_call svc_grows_sink svc_grows_bus)+

lemma bus_store [simp]: "bus (store_payout p s) = bus s"
  by (simp add: store_payout_def)

text \<open>The event of a failure carries the code of the error that is raised.\<close>

definition is_connector_error :: "exn \<Rightarrow> bool" where
  "is_connector_error e \<longleftrightarrow> (\<exists>n c r. e = PayoutConnectorError n c r)"

lemma is_connector_error_simps [simp]:
  "is_connector_error (PayoutConnectorError n c r)" "\<not> is_connector_error (ValueError l)"
  "\<not> is_connector_error (PayoutNotExecutableError l)" "\<not> is_connector_error PayoutNotFoundError"
  by (auto simp: is_connector_error_def)

lemma plain_not_connector: "plain_error e \<Longrightarrow> \<not> is_connector_error e"
  by (auto simp: plain_error_def is_connector_error_def)

definition failure_event :: "payout \<Rightarrow> exn \<Rightarrow> published \<Rightarrow> bool" where
  "failure_event p e m \<longleftrightarrow>
     is_connector_error e \<and> ev_type (pub_envelope m) = ''payout.failed'' \<and>
     map_of (ev_payload (pub_envelope m)) ''payout_id'' = Some (JStr (po_payout_id p)) \<and>
     map_of (ev_payload (pub_envelope m)) ''error_code'' = Some (JStr (fst (snd (connector_error_parts e))))"

lemma is_connector_error_as: "is_connector_error (as_connector_error n e)"
  by (cases e) auto

lemma svc_grows_after_sink: "svc_grows (sink_append rec s) t \<Longrightarrow> svc_grows s t"
  using svc_grows_sink svc_grows_trans by blast

lemma record_failure_rule:
  assumes "\<And>e t. plain_error e \<Longrightarrow> svc_grows s t \<Longrightarrow> bus t = bus s \<Longrightarrow> Q (Inl e) t"
    and "\<And>e m t. svc_grows s t \<Longrightarrow> bus t = bus s @ [m] \<Longrightarrow> failure_event p e m \<Longrightarrow>
           e = as_connector_error name err \<Longrightarrow> Q (Inl e) t"
  shows "outcome (record_connector_failure rt p name occ cid fid md err) Q s"
proof -
  have event_name: "py_strip ''payout.failed'' = ''payout.failed''"
    by (simp add: text_defs)
  have fin: "Q (Inl (as_connector_error name err)) (u\<lparr>bus := bus s @ [m]\<rparr>)"
    if "svc_grows (sink_append rec s) u" "bus u = bus s" "ev_type (pub_envelope m) = ''payout.failed''"
      "connector_error_parts (as_connector_error name err) = (nm, code, rtr)"
      "ev_payload (pub_envelope m) =
         [(''payout_id'', JStr (po_payout_id p)), (''error_code'', JStr code), (''retryable'', JBool rtr),
          (''connector'', JStr nm), (''audit_hash'', a)]"
    for u m rec nm code rtr a
  proof (rule assms(2) [of _ m])
    show "svc_grows s (u\<lparr>bus := bus s @ [m]\<rparr>)"
      using that svc_grows_bus_trans [of s u "[m]"] by (metis svc_grows_after_sink)
    show "failure_event p (as_connector_error name err) m"
      using that by (simp add: failure_event_def is_connector_error_as)
  qed simp_all
  have start: "Q (Inl e) s" if "plain_error e" for e
    using that by (intro assms(1)) auto
  have refused: "Q (Inl (ValueError l)) t" if "svc_grows (sink_append rec s) t" "bus t = bus s" for l t rec
    using that by (auto intro: assms(1) svc_grows_after_sink)
  show ?thesis
    by (auto simp: record_connector_failure_def Let_def act_simps event_name
        split: prod.splits
        intro!: audit_log_rule id_or_new_quiet emit_rule intro: start) (auto intro: refused fin)
qed

lemma call_outside_rule:
  assumes "\<And>r x. Q r (s\<lparr>outside := x\<rparr>)"
  shows "outcome (call_outside f c) Q s"
  using assms by (auto simp: call_outside_def outcome_def split: prod.splits)

lemma try_connector_rule:
  assumes "\<And>e t. plain_error e \<Longrightarrow> exec_grows s t \<Longrightarrow> bus t = bus s \<Longrightarrow> Q (Inl e) t"
    and "\<And>e m t. failure_event p e m \<Longrightarrow> exec_grows s t \<Longrightarrow> bus t = bus s @ [m] \<Longrightarrow> Q (Inl e) t"
    and "\<And>v x. Q (Inr v) (s\<lparr>outside := x\<rparr>)"
  shows "outcome (try_connector rt r p name occ command connector) Q s"
proof -
  have handler: "outcome (record_connector_failure rt p name occ cid fid md err) Q u"
    if u: "exec_grows s u" "bus u = bus s" for u err cid fid md
  proof (rule record_failure_rule)
    show "Q (Inl e) t" if "plain_error e" "svc_grows u t" "bus t = bus u" for e t
      using u that assms(1) exec_grows_chain(1) by metis
    show "Q (Inl e) t" if "svc_grows u t" "bus t = bus u @ [m]" "failure_event p e m" for e m t
      using u that assms(2) exec_grows_chain(1) by metis
  qed
  show ?thesis
    using assms(3)
    by (cases command) (auto simp: try_connector_def act_simps split: sum.splits
        intro!: call_outside_rule handler)
qed

text \<open>The payout after its execution.\<close>

definition executed_from :: "payout \<Rightarrow> payout \<Rightarrow> bool" where
  "executed_from p p' \<longleftrightarrow>
     (\<exists>i h c n tt a pn g st. p' = with_execution p i h c n tt a (Some pn) (Some g) st)"

definition may_execute :: "runtime \<Rightarrow> execute_request \<Rightarrow> (key, payout) dict \<Rightarrow> payout \<Rightarrow> bool" where
  "may_execute rt r d p \<longleftrightarrow>
     map_of d (payout_key (xr_tenant_id r) (xr_payout_id r)) = Some p \<and>
     (\<exists>n. normalize_datetime rt (xr_now r) = Inr n \<and> is_executable p n)"

lemma require_executable_Inr [simp]: "require_executable p n = Inr u \<longleftrightarrow> is_executable p n"
  by (cases "po_status p") (auto simp: require_executable_def is_executable_def)

lemma require_executable_Inl: "require_executable p n = Inl e \<Longrightarrow> \<not> is_connector_error e"
  by (auto simp: require_executable_def split: if_splits)

lemma normalize_datetime_Inl: "normalize_datetime rt w = Inl e \<Longrightarrow> plain_error e"
  by (auto simp: normalize_datetime_def split: time_arg.splits if_splits option.splits)

lemma key_of_with_execution [simp]: "key_of (with_execution p a b c d e f g h i) = key_of p"
  by (simp add: key_of_def with_execution_def)

lemma text_or_Some: "\<exists>g. text_or a (Some b) = Some g"
  by (auto simp: text_or_def split: option.splits)

text \<open>The steps before the repository is written, seen from the state the operation started in.\<close>

definition calm :: "('x, 'z) exec_state_scheme \<Rightarrow> ('x, 'z) exec_state_scheme \<Rightarrow> bool" where
  "calm b s \<longleftrightarrow> exec_grows b s \<and> bus s = bus b"

lemma calm_refl [simp]: "calm s s"
  by (simp add: calm_def)

lemma calm_payouts: "calm b s \<Longrightarrow> payouts s = payouts b"
  by (simp add: calm_def exec_grows_fields)

lemma calm_intros:
  "calm b s \<Longrightarrow> calm b (sink_append r s)"
  "calm b s \<Longrightarrow> calm b (s\<lparr>outside := x\<rparr>)"
  "calm b s \<Longrightarrow> svc_grows s t \<Longrightarrow> bus t = bus s \<Longrightarrow> calm b t"
  "calm b s \<Longrightarrow> exec_grows s t \<Longrightarrow> bus t = bus s \<Longrightarrow> calm b t"
  by (auto simp: calm_def intro: exec_grows_chain exec_grows_trans)

lemma calm_id:
  assumes "calm b s" and "\<And>i t. calm b t \<Longrightarrow> Q (Inr i) t"
  shows "outcome (id_or_new rt given prefix) Q s"
  using assms by (intro id_or_new_quiet) (auto dest: calm_intros)

lemma calm_audit:
  assumes "calm b s" and "\<And>e. plain_error e \<Longrightarrow> calm b s \<Longrightarrow> Q (Inl e) s" and "\<And>r t. calm b t \<Longrightarrow> Q (Inr r) t"
  shows "outcome (audit_log rt et ten pts md ts cid ah src) Q s"
  using assms by (intro audit_log_rule) (auto intro: calm_intros(1))

lemma calm_try:
  assumes "calm b s" and "\<And>e t. plain_error e \<Longrightarrow> calm b t \<Longrightarrow> Q (Inl e) t"
    and "\<And>e m t. failure_event p e m \<Longrightarrow> exec_grows b t \<Longrightarrow> bus t = bus b @ [m] \<Longrightarrow> Q (Inl e) t"
    and "\<And>v t. calm b t \<Longrightarrow> Q (Inr v) t"
  shows "outcome (try_connector rt r p name occ command connector) Q s"
proof (rule try_connector_rule)
  show "Q (Inl e) t" if "plain_error e" "exec_grows s t" "bus t = bus s" for e t
    using that assms(1,2) calm_intros(4) by blast
  show "Q (Inl e) t" if "failure_event p e m" "exec_grows s t" "bus t = bus s @ [m]" for e m t
  proof (rule assms(3) [of e m t])
    show "exec_grows b t"
      using exec_grows_trans [of b s t] that(2) assms(1) by (simp add: calm_def)
  qed (use that assms(1) in \<open>simp_all add: calm_def\<close>)
  show "Q (Inr v) (s\<lparr>outside := x\<rparr>)" for v x
    by (intro assms(4) calm_intros(2) [OF assms(1)])
qed

lemma execute_payout_rule:
  fixes s :: "('x, 'z) exec_state_scheme"
  assumes "keyed (payouts s)"
    and "\<And>e. \<not> is_connector_error e \<Longrightarrow> Q (Inl e) s"
    and "\<And>p e t. may_execute rt r (payouts s) p \<Longrightarrow> plain_error e \<Longrightarrow> calm s t \<Longrightarrow> Q (Inl e) t"
    and "\<And>p e m t. may_execute rt r (payouts s) p \<Longrightarrow> failure_event p e m \<Longrightarrow> exec_grows s t \<Longrightarrow>
           bus t = bus s @ [m] \<Longrightarrow> Q (Inl e) t"
    and "\<And>p p' rs t. may_execute rt r (payouts s) p \<Longrightarrow> executed_from p p' \<Longrightarrow>
           exec_grows (store_payout p' s) t \<Longrightarrow> (\<exists>e. rs = Inl e \<and> plain_error e) \<or> (\<exists>x. rs = Inr x) \<Longrightarrow> Q rs t"
  shows "outcome (execute_payout rt conns r) Q s"
proof -
  have refused: "Q (Inl e) s" if "normalize_datetime rt w = Inl e \<or> require_executable p n = Inl e" for e w p n
    using that assms(2) plain_not_connector normalize_datetime_Inl require_executable_Inl by blast
  have allowed: "may_execute rt r (payouts s) p"
    if "map_of (payouts s) (payout_key (xr_tenant_id r) (xr_payout_id r)) = Some p"
      "normalize_datetime rt (xr_now r) = Inr n" "is_executable p n" for p n
    using that by (auto simp: may_execute_def)
  have failed: "Q (Inl e) t"
    if "map_of (payouts s) (payout_key (xr_tenant_id r) (xr_payout_id r)) = Some p"
      "normalize_datetime rt (xr_now r) = Inr n" "is_executable p n"
      "plain_error e \<and> calm s t \<or> (\<exists>m. failure_event p e m \<and> exec_grows s t \<and> bus t = bus s @ [m])" for p n e t
    using allowed [OF that(1-3)] that(4) assms(3,4) by blast
  have present: "map_of (payouts s) (key_of p) = Some p"
    if "map_of (payouts s) (payout_key (xr_tenant_id r) (xr_payout_id r)) = Some p" for p
    using that keyedD [OF assms(1)] by simp
  have executed: "Q (Inl (ValueError l)) (store_payout p' t) \<and>
      Q (execution_receipt a1 a2 a3 a4 a5 a6 a7 a8 a9) (store_payout p' t\<lparr>bus := bus t @ ms\<rparr>)"
    if "map_of (payouts s) (payout_key (xr_tenant_id r) (xr_payout_id r)) = Some p"
      "normalize_datetime rt (xr_now r) = Inr n" "is_executable p n" "calm s t"
      "p' = with_execution p i h c nn tt a (Some pn) (text_or g0 (Some g)) st"
    for p n t p' i h c nn tt a pn g0 g st ms l a1 a2 a3 a4 a5 a6 a7 a8 a9
  proof -
    obtain g' where "text_or g0 (Some g) = Some g'" using text_or_Some by blast
    then have "p' = with_execution p i h c nn tt a (Some pn) (Some g') st"
      using that(5) by simp
    then have p': "executed_from p p'"
      unfolding executed_from_def by blast
    have grows: "exec_grows (store_payout p' s) (store_payout p' t)"
      using that(4) by (simp add: calm_def exec_grows_store)
    have "(\<exists>e. execution_receipt a1 a2 a3 a4 a5 a6 a7 a8 a9 = Inl e \<and> plain_error e) \<or>
        (\<exists>x. execution_receipt a1 a2 a3 a4 a5 a6 a7 a8 a9 = Inr x)"
      by (cases "execution_receipt a1 a2 a3 a4 a5 a6 a7 a8 a9") (auto simp: execution_receipt_def)
    moreover have "exec_grows (store_payout p' s) (store_payout p' t\<lparr>bus := bus t @ ms\<rparr>)"
      using exec_grows_chain(4) [OF grows, of ms] by simp
    ultimately show ?thesis
      using assms(5) [OF allowed [OF that(1-3)] p'] grows by auto
  qed
  show ?thesis
    using assms(2) [of PayoutNotFoundError]
    by (auto simp: execute_payout_def act_simps Let_def calm_payouts present
        split: sum.splits
        intro!: get_payout_rule calm_id [where b = s] calm_audit [where b = s] calm_try [where b = s]
          update_payout_rule emit_rule)
      (auto intro: refused failed executed [THEN conjunct1] executed [THEN conjunct2])
qed

definition sent :: "execute_request \<Rightarrow> (key, payout) dict \<Rightarrow> payout \<Rightarrow> bool" where
  "sent r d p \<longleftrightarrow>
     map_of d (payout_key (xr_tenant_id r) (xr_payout_id r)) = Some p \<and>
     po_execution_id p \<noteq> None \<and> po_payment_gateway_id p \<noteq> None"

definition synced_from :: "payout \<Rightarrow> payout \<Rightarrow> bool" where
  "synced_from p p' \<longleftrightarrow> (\<exists>st n a c g e f. p' = with_payment_status p st n a (Some c) (Some g) e f)"

lemma key_of_with_payment_status [simp]: "key_of (with_payment_status p a b c d e f g) = key_of p"
  by (simp add: key_of_def with_payment_status_def)

lemma sync_payment_status_rule:
  fixes s :: "('x, 'z) exec_state_scheme"
  assumes "keyed (payouts s)"
    and "\<And>e. Q (Inl e) s"
    and "\<And>p e t. sent r (payouts s) p \<Longrightarrow> plain_error e \<Longrightarrow> calm s t \<Longrightarrow> Q (Inl e) t"
    and "\<And>p e m t. sent r (payouts s) p \<Longrightarrow> failure_event p e m \<Longrightarrow> exec_grows s t \<Longrightarrow>
           bus t = bus s @ [m] \<Longrightarrow> Q (Inl e) t"
    and "\<And>p p' rs t. sent r (payouts s) p \<Longrightarrow> synced_from p p' \<Longrightarrow> exec_grows (store_payout p' s) t \<Longrightarrow> Q rs t"
  shows "outcome (sync_payment_status rt conns r) Q s"
proof -
  let ?found = "\<lambda>p. map_of (payouts s) (payout_key (xr_tenant_id r) (xr_payout_id r)) = Some p"
  have failed: "Q (Inl e) t"
    if "?found p" "po_execution_id p = Some i" "po_payment_gateway_id p = Some g"
      "plain_error e \<and> calm s t \<or> (\<exists>m. failure_event p e m \<and> exec_grows s t \<and> bus t = bus s @ [m])" for p i g e t
  proof -
    have "sent r (payouts s) p" using that(1-3) by (simp add: sent_def)
    then show ?thesis using that(4) assms(3,4) by blast
  qed
  have present: "map_of (payouts s) (key_of p) = Some p" if "?found p" for p
    using that keyedD [OF assms(1)] by simp
  have synced: "Q rs (u\<lparr>bus := bus u @ ms\<rparr>)"
    if "?found p" "po_execution_id p = Some i" "po_payment_gateway_id p = Some g" "calm s t"
      "svc_grows (store_payout (with_payment_status p st n a (Some c) (Some g') e f) t) u"
    for p i g t u rs ms st n a c g' e f
  proof -
    let ?p' = "with_payment_status p st n a (Some c) (Some g') e f"
    have "synced_from p ?p'" unfolding synced_from_def by blast
    moreover have "exec_grows (store_payout ?p' s) (store_payout ?p' t)"
      using that(4) by (simp add: calm_def exec_grows_store)
    then have "exec_grows (store_payout ?p' s) (u\<lparr>bus := bus u @ ms\<rparr>)"
      using that(5) by (metis exec_grows_chain(1,4))
    moreover have "sent r (payouts s) p" using that(1-3) by (simp add: sent_def)
    ultimately show ?thesis using assms(5) by blast
  qed
  have synced0: "Q rs u"
    if "?found p" "po_execution_id p = Some i" "po_payment_gateway_id p = Some g" "calm s t"
      "svc_grows (store_payout (with_payment_status p st n a (Some c) (Some g') e f) t) u"
    for p i g t u rs st n a c g' e f
    using synced [OF that, of rs "[]"] by simp
  show ?thesis
    by (auto simp: sync_payment_status_def act_simps Let_def calm_payouts present assms(2)
        split: sum.splits option.splits
        intro!: get_payout_rule calm_id [where b = s] calm_audit [where b = s] calm_try [where b = s]
          update_payout_rule emit_rule id_or_new_rule)
      (auto intro: failed synced synced0)
qed

end
