(* ===== verification/PayoutMachine.thy ===== *)
theory PayoutMachine
  imports PayoutExecution
begin

text \<open>
  The payout gateway as a state machine: any sequence of calls of its operations, with any
  arguments and any connectors, from empty repositories. The file gives the abstract life cycle of
  one payout, shows that every call refines it, and proves the invariants of the reachable states.
\<close>

section \<open>The machine\<close>

datatype call =
    Queue queue_request
  | Veto veto_request
  | Confirm confirm_request
  | MarkReady string string time_arg
  | Execute execute_request
  | Sync execute_request

type_synonym 'x gateway = "'x exec_state"

text \<open>One call: the state after it, whether it returned or raised.\<close>

fun run_call :: "runtime \<Rightarrow> int \<Rightarrow> 'x connectors \<Rightarrow> call \<Rightarrow> 'x gateway \<Rightarrow> 'x gateway" where
  "run_call rt h conns (Queue r) s = snd (queue_payout rt h r s)"
| "run_call rt h conns (Veto r) s = snd (veto_payout rt r s)"
| "run_call rt h conns (Confirm r) s = snd (confirm_payout rt r s)"
| "run_call rt h conns (MarkReady t i n) s = snd (mark_ready_for_execution rt t i n s)"
| "run_call rt h conns (Execute r) s = snd (execute_payout rt conns r s)"
| "run_call rt h conns (Sync r) s = snd (sync_payment_status rt conns r s)"

definition empty_gateway :: "'x gateway \<Rightarrow> bool" where
  "empty_gateway s \<longleftrightarrow> payouts s = [] \<and> decisions s = [] \<and> confirmations s = [] \<and> payout_index s = []"

text \<open>The states a gateway can reach, with the window \<open>h\<close> its queue manager validated. The
  clock, the identifiers and the connectors may be others at every call.\<close>

inductive reachable :: "int \<Rightarrow> 'x gateway \<Rightarrow> bool" for h where
  reach_init: "empty_gateway s \<Longrightarrow> validate_veto_window_hours h = Inr h' \<Longrightarrow> reachable h s"
| reach_call: "reachable h s \<Longrightarrow> reachable h (run_call rt h conns c s)"

section \<open>What a call changes\<close>

definition same_repo :: "'x gateway \<Rightarrow> 'x gateway \<Rightarrow> bool" where
  "same_repo s t \<longleftrightarrow>
     payouts t = payouts s \<and> decisions t = decisions s \<and> confirmations t = confirmations s \<and>
     payout_index t = payout_index s"

lemma same_repo_svc: "svc_grows s t \<Longrightarrow> same_repo s t"
  by (simp add: same_repo_def svc_grows_payouts svc_grows_decisions svc_grows_confirmations)

lemma same_repo_exec: "exec_grows s t \<Longrightarrow> same_repo s t"
  by (simp add: same_repo_def exec_grows_fields)

lemma same_repo_calm: "calm s t \<Longrightarrow> same_repo s t"
  by (simp add: calm_def same_repo_exec)

inductive effect :: "int \<Rightarrow> 'x gateway \<Rightarrow> 'x gateway \<Rightarrow> bool" for h s where
  eff_none: "same_repo s t \<Longrightarrow> effect h s t"
| eff_queue: "new_payout rt h r p \<Longrightarrow> map_of (payouts s) (key_of p) = None \<Longrightarrow>
     same_repo (store_payout p s) t \<Longrightarrow> effect h s t"
| eff_veto: "map_of (payouts s) (payout_key (vr_tenant_id r) (vr_payout_id r)) = Some p \<Longrightarrow>
     vetoed r p n d \<Longrightarrow>
     map_of (decisions s) (decision_key (vd_tenant_id d) (vd_decision_id d)) = None \<Longrightarrow>
     same_repo (veto_step p n d s) t \<Longrightarrow> effect h s t"
| eff_confirm: "map_of (payouts s) (payout_key (cr_tenant_id r) (cr_payout_id r)) = Some p \<Longrightarrow>
     confirmed r p c \<Longrightarrow> fresh_confirmation c s \<Longrightarrow> same_repo (confirm_step p c s) t \<Longrightarrow> effect h s t"
| eff_ready: "map_of (payouts s) k = Some p \<Longrightarrow> po_status p = QUEUED \<Longrightarrow> is_executable p n \<Longrightarrow>
     same_repo (store_payout (with_status p READY_TO_EXECUTE n None None) s) t \<Longrightarrow> effect h s t"
| eff_execute: "map_of (payouts s) k = Some p \<Longrightarrow> is_executable p n \<Longrightarrow> executed_from p p' \<Longrightarrow>
     same_repo (store_payout p' s) t \<Longrightarrow> effect h s t"
| eff_sync: "map_of (payouts s) k = Some p \<Longrightarrow> po_execution_id p \<noteq> None \<Longrightarrow> synced_from p p' \<Longrightarrow>
     same_repo (store_payout p' s) t \<Longrightarrow> effect h s t"

lemma effect_outcome: "outcome m (\<lambda>_ t. effect h s t) s \<Longrightarrow> effect h s (snd (m s))"
  by (simp add: outcome_def split: prod.splits)

lemma run_call_effect:
  assumes "keyed (payouts s)"
  shows "effect h s (run_call rt h conns c s)"
proof (cases c)
  case (Queue r)
  then show ?thesis
    by (auto intro!: effect_outcome queue_payout_rule intro: eff_none eff_queue same_repo_svc)
next
  case (Veto r)
  then show ?thesis
    using assms by (auto intro!: effect_outcome veto_payout_rule intro: eff_none eff_veto same_repo_svc)
next
  case (Confirm r)
  then show ?thesis
    using assms by (auto intro!: effect_outcome confirm_payout_rule intro: eff_none eff_confirm same_repo_svc)
next
  case (MarkReady ten i n)
  then show ?thesis
    by (auto intro!: effect_outcome mark_ready_rule intro: eff_none eff_ready same_repo_svc svc_grows_refl)
next
  case (Execute r)
  have "effect h s t" if "may_execute rt r (payouts s) p" "executed_from p p'" "exec_grows (store_payout p' s) t"
    for p p' t
    using that by (auto simp: may_execute_def intro: eff_execute same_repo_exec)
  with Execute show ?thesis
    using assms by (auto intro!: effect_outcome execute_payout_rule
        intro: eff_none same_repo_svc same_repo_calm same_repo_exec svc_grows_refl)
next
  case (Sync r)
  have "effect h s t" if "sent r (payouts s) p" "synced_from p p'" "exec_grows (store_payout p' s) t"
    for p p' t
    using that eff_sync [of s "payout_key (xr_tenant_id r) (xr_payout_id r)" p p' t h]
    by (auto simp: sent_def intro: same_repo_exec)
  with Sync show ?thesis
    using assms by (auto intro!: effect_outcome sync_payment_status_rule
        intro: eff_none same_repo_svc same_repo_calm same_repo_exec svc_grows_refl)
qed

text \<open>What each update of a payout keeps.\<close>

lemma with_status_fields [simp]:
  "po_tenant_id (with_status p st n a d) = po_tenant_id p"
  "po_payout_id (with_status p st n a d) = po_payout_id p"
  "po_status (with_status p st n a d) = st"
  "po_veto_until (with_status p st n a d) = po_veto_until p"
  "po_created_at (with_status p st n a d) = po_created_at p"
  "po_requires_2fa (with_status p st n a d) = po_requires_2fa p"
  "po_confirmation_id (with_status p st n a d) = po_confirmation_id p"
  "po_execution_id (with_status p st n a d) = po_execution_id p"
  "po_veto_decision_id (with_status p st n a d) = (case d of None \<Rightarrow> po_veto_decision_id p | Some x \<Rightarrow> Some x)"
  by (simp_all add: with_status_def)

lemma with_confirmation_fields [simp]:
  "po_tenant_id (with_confirmation p i b bh br n a) = po_tenant_id p"
  "po_payout_id (with_confirmation p i b bh br n a) = po_payout_id p"
  "po_status (with_confirmation p i b bh br n a) = po_status p"
  "po_veto_until (with_confirmation p i b bh br n a) = po_veto_until p"
  "po_created_at (with_confirmation p i b bh br n a) = po_created_at p"
  "po_requires_2fa (with_confirmation p i b bh br n a) = po_requires_2fa p"
  "po_confirmation_id (with_confirmation p i b bh br n a) = Some i"
  "po_execution_id (with_confirmation p i b bh br n a) = po_execution_id p"
  "po_veto_decision_id (with_confirmation p i b bh br n a) = po_veto_decision_id p"
  by (simp_all add: with_confirmation_def)

lemma with_execution_fields [simp]:
  "po_tenant_id (with_execution p i h c m n a pn g st) = po_tenant_id p"
  "po_payout_id (with_execution p i h c m n a pn g st) = po_payout_id p"
  "po_status (with_execution p i h c m n a pn g st) = EXECUTED"
  "po_veto_until (with_execution p i h c m n a pn g st) = po_veto_until p"
  "po_created_at (with_execution p i h c m n a pn g st) = po_created_at p"
  "po_requires_2fa (with_execution p i h c m n a pn g st) = po_requires_2fa p"
  "po_confirmation_id (with_execution p i h c m n a pn g st) = po_confirmation_id p"
  "po_execution_id (with_execution p i h c m n a pn g st) = Some i"
  "po_veto_decision_id (with_execution p i h c m n a pn g st) = po_veto_decision_id p"
  by (simp_all add: with_execution_def)

lemma with_payment_status_fields [simp]:
  "po_tenant_id (with_payment_status p st n a c g e f) = po_tenant_id p"
  "po_payout_id (with_payment_status p st n a c g e f) = po_payout_id p"
  "po_status (with_payment_status p st n a c g e f) = po_status p"
  "po_veto_until (with_payment_status p st n a c g e f) = po_veto_until p"
  "po_created_at (with_payment_status p st n a c g e f) = po_created_at p"
  "po_requires_2fa (with_payment_status p st n a c g e f) = po_requires_2fa p"
  "po_confirmation_id (with_payment_status p st n a c g e f) = po_confirmation_id p"
  "po_execution_id (with_payment_status p st n a c g e f) = po_execution_id p"
  "po_veto_decision_id (with_payment_status p st n a c g e f) = po_veto_decision_id p"
  by (simp_all add: with_payment_status_def)

lemma executed_from_fields:
  assumes "executed_from p p'"
  shows "key_of p' = key_of p" "po_status p' = EXECUTED" "po_execution_id p' \<noteq> None"
    "po_confirmation_id p' = po_confirmation_id p" "po_veto_decision_id p' = po_veto_decision_id p"
    "po_requires_2fa p' = po_requires_2fa p" "po_veto_until p' = po_veto_until p"
    "po_created_at p' = po_created_at p" "po_tenant_id p' = po_tenant_id p" "po_payout_id p' = po_payout_id p"
  using assms by (auto simp: executed_from_def)

lemma synced_from_fields:
  assumes "synced_from p p'"
  shows "key_of p' = key_of p" "po_status p' = po_status p" "po_execution_id p' = po_execution_id p"
    "po_confirmation_id p' = po_confirmation_id p" "po_veto_decision_id p' = po_veto_decision_id p"
    "po_requires_2fa p' = po_requires_2fa p" "po_veto_until p' = po_veto_until p"
    "po_created_at p' = po_created_at p" "po_tenant_id p' = po_tenant_id p" "po_payout_id p' = po_payout_id p"
  using assms by (auto simp: synced_from_def)

section \<open>The life cycle of a payout\<close>

text \<open>
  The contract of the gateway for one payout: absent, or in a status and confirmed or not. A payout
  enters unconfirmed, is confirmed while queued, is canceled only from the queue, and is made ready
  or executed only when confirmed; a canceled or executed payout stays so.
\<close>

type_synonym phase = "(payout_status \<times> bool) option"

inductive life :: "phase \<Rightarrow> phase \<Rightarrow> bool" where
  life_stay: "life ph ph"
| life_enqueue: "life None (Some (QUEUED, False))"
| life_confirm: "life (Some (QUEUED, False)) (Some (QUEUED, True))"
| life_cancel: "life (Some (QUEUED, b)) (Some (CANCELED, b))"
| life_ready: "life (Some (QUEUED, True)) (Some (READY_TO_EXECUTE, True))"
| life_execute: "st \<in> {QUEUED, READY_TO_EXECUTE} \<Longrightarrow> life (Some (st, True)) (Some (EXECUTED, True))"

inductive_cases life_from_canceled: "life (Some (CANCELED, b)) ph"
inductive_cases life_from_executed: "life (Some (EXECUTED, b)) ph"
inductive_cases life_to_executed: "life ph (Some (EXECUTED, b))"
inductive_cases life_to_none: "life ph None"

definition phase_of :: "payout \<Rightarrow> payout_status \<times> bool" where
  "phase_of p = (po_status p, po_confirmation_id p \<noteq> None)"

definition phase :: "(key, payout) dict \<Rightarrow> key \<Rightarrow> phase" where
  "phase d k = map_option phase_of (map_of d k)"

lemma phase_update: "phase (AList.update k p d) k' = (if k' = k then Some (phase_of p) else phase d k')"
  by (simp add: phase_def)

text \<open>Every change is one step of the life cycle of one payout; all other payouts are untouched.\<close>

lemma effect_life:
  assumes "keyed (payouts s)" and "effect h s t"
  shows "\<exists>k. life (phase (payouts s) k) (phase (payouts t) k) \<and>
    (\<forall>k'. k' \<noteq> k \<longrightarrow> map_of (payouts t) k' = map_of (payouts s) k')"
  using assms(2)
proof cases
  case eff_none
  then show ?thesis by (auto simp: same_repo_def intro: life_stay)
next
  case (eff_queue rt r p)
  then show ?thesis
    by (intro exI [of _ "key_of p"])
      (auto simp: same_repo_def phase_update phase_of_def new_payout_def phase_def intro: life_enqueue)
next
  case (eff_veto r p n d)
  then show ?thesis
    using keyedD [OF assms(1) eff_veto(1)]
    by (intro exI [of _ "key_of p"])
      (auto simp: same_repo_def veto_step_def phase_def phase_of_def vetoed_def intro: life_cancel)
next
  case (eff_confirm r p c)
  then show ?thesis
    using keyedD [OF assms(1) eff_confirm(1)]
    by (intro exI [of _ "key_of p"])
      (auto simp: same_repo_def confirm_step_def phase_def phase_of_def confirmed_def
        intro: life_confirm)
next
  case (eff_ready k p n)
  then show ?thesis
    using keyedD [OF assms(1) eff_ready(1)]
    by (intro exI [of _ "key_of p"])
      (auto simp: same_repo_def phase_def phase_of_def is_executable_def intro: life_ready)
next
  case (eff_execute k p n p')
  then have "life (Some (phase_of p)) (Some (phase_of p'))"
    by (auto simp: phase_of_def is_executable_def executed_from_fields intro: life_execute)
  then show ?thesis
    using keyedD [OF assms(1) eff_execute(1)] eff_execute
    by (intro exI [of _ "key_of p"]) (simp add: same_repo_def phase_def executed_from_fields)
next
  case (eff_sync k p p')
  then show ?thesis
    using keyedD [OF assms(1) eff_sync(1)]
    by (intro exI [of _ "key_of p"])
      (simp add: same_repo_def phase_def phase_of_def synced_from_fields life_stay)
qed

section \<open>The invariant\<close>

definition payout_ok :: "int \<Rightarrow> payout \<Rightarrow> bool" where
  "payout_ok h p \<longleftrightarrow>
     tenant_id_ok (po_tenant_id p) \<and> token_ok (po_payout_id p) \<and>
     po_requires_2fa p \<and> po_veto_until p = po_created_at p + hours h \<and>
     (po_status p = EXECUTED \<longleftrightarrow> po_execution_id p \<noteq> None) \<and>
     (po_status p = CANCELED \<longleftrightarrow> po_veto_decision_id p \<noteq> None) \<and>
     (po_status p \<in> {READY_TO_EXECUTE, EXECUTED} \<longrightarrow> po_confirmation_id p \<noteq> None)"

text \<open>The decision and the confirmation that a payout names are stored, and belong to it.\<close>

definition links_ok :: "'x gateway \<Rightarrow> payout \<Rightarrow> bool" where
  "links_ok s p \<longleftrightarrow>
     map_of (payout_index s) (key_of p) = po_confirmation_id p \<and>
     (\<forall>i. po_confirmation_id p = Some i \<longrightarrow>
        (\<exists>c. map_of (confirmations s) (confirmation_key (po_tenant_id p) i) = Some c \<and>
             pc_payout_id c = po_payout_id p \<and> pc_actor_role c = COUNCIL_ROLE)) \<and>
     (\<forall>i. po_veto_decision_id p = Some i \<longrightarrow>
        (\<exists>d. map_of (decisions s) (decision_key (po_tenant_id p) i) = Some d \<and>
             vd_payout_id d = po_payout_id p \<and> vd_decided_at d < po_veto_until p))"

definition gateway_ok :: "int \<Rightarrow> 'x gateway \<Rightarrow> bool" where
  "gateway_ok h s \<longleftrightarrow>
     dict_ok (payouts s) \<and> keyed (payouts s) \<and>
     (\<forall>k p. map_of (payouts s) k = Some p \<longrightarrow> payout_ok h p \<and> links_ok s p) \<and>
     (\<forall>k. map_of (payouts s) k = None \<longrightarrow> map_of (payout_index s) k = None)"

lemma gateway_okD:
  assumes "gateway_ok h s" "map_of (payouts s) k = Some p"
  shows "payout_ok h p" "links_ok s p" "key_of p = k"
  using assms keyedD unfolding gateway_ok_def by blast+

lemma store_keeps_ok:
  assumes "gateway_ok h s" and "payouts t = AList.update (key_of p) p (payouts s)"
    and "payout_ok h p" and "links_ok t p"
    and "\<And>k d. map_of (decisions s) k = Some d \<Longrightarrow> map_of (decisions t) k = Some d"
    and "\<And>k c. map_of (confirmations s) k = Some c \<Longrightarrow> map_of (confirmations t) k = Some c"
    and "\<And>k. k \<noteq> key_of p \<Longrightarrow> map_of (payout_index t) k = map_of (payout_index s) k"
  shows "gateway_ok h t"
proof -
  have "links_ok t q" if "map_of (payouts s) k = Some q" "k \<noteq> key_of p" for k q
    using gateway_okD [OF assms(1) that(1)] assms(5-7) that(2) unfolding links_ok_def by metis
  then show ?thesis
    using assms(1-4,7) by (auto simp: gateway_ok_def keyed_update)
qed

lemma effect_keeps_ok:
  assumes "gateway_ok h s" and "effect h s t"
  shows "gateway_ok h t"
  using assms(2)
proof cases
  case eff_none
  then show ?thesis using assms(1) by (simp add: gateway_ok_def links_ok_def same_repo_def)
next
  case (eff_queue rt r p)
  have "map_of (payout_index s) (key_of p) = None"
    using assms(1) eff_queue(2) unfolding gateway_ok_def by blast
  with eff_queue show ?thesis
    by (intro store_keeps_ok [OF assms(1), of t p])
      (auto simp: same_repo_def new_payout_def payout_ok_def links_ok_def)
next
  case (eff_veto r p n d)
  note p = gateway_okD [OF assms(1) eff_veto(1)]
  have "pyd_strip (vr_payout_id r) = po_payout_id p" "vr_tenant_id r = po_tenant_id p"
    using p(1,3) by (auto simp: key_of_def payout_key_def payout_ok_def)
  then show ?thesis
    using p eff_veto
    by (intro store_keeps_ok [OF assms(1), of t "with_status p CANCELED n (Some (vd_audit_hash d)) (Some (vd_decision_id d))"])
      (auto simp: same_repo_def veto_step_def vetoed_def payout_ok_def links_ok_def)
next
  case (eff_confirm r p c)
  note p = gateway_okD [OF assms(1) eff_confirm(1)]
  have k: "pyd_strip (cr_payout_id r) = po_payout_id p" "cr_tenant_id r = po_tenant_id p"
    using p(1,3) by (auto simp: key_of_def payout_key_def payout_ok_def)
  then show ?thesis
    using p eff_confirm
    by (intro store_keeps_ok [OF assms(1), of t "with_confirmation p (pc_confirmation_id c) (pc_actor_id c)
          (pc_actor_hash c) (pc_actor_role c) (pc_confirmed_at c) (pc_audit_hash c)"])
      (auto simp: same_repo_def confirm_step_def confirmed_def payout_ok_def links_ok_def
        store_confirmation_def fresh_confirmation_def key_of_def)
next
  case (eff_ready k p n)
  note p = gateway_okD [OF assms(1) eff_ready(1)]
  show ?thesis
    using p eff_ready
    by (intro store_keeps_ok [OF assms(1), of t "with_status p READY_TO_EXECUTE n None None"])
      (auto simp: same_repo_def is_executable_def payout_ok_def links_ok_def)
next
  case (eff_execute k p n p')
  note p = gateway_okD [OF assms(1) eff_execute(1)]
  have "payout_ok h p'" "links_ok t p'"
    using p eff_execute
    by (auto simp: is_executable_def payout_ok_def links_ok_def executed_from_fields same_repo_def)
  then show ?thesis
    using eff_execute by (intro store_keeps_ok [OF assms(1), of t p']) (simp_all add: same_repo_def)
next
  case (eff_sync k p p')
  note p = gateway_okD [OF assms(1) eff_sync(1)]
  have "payout_ok h p'" "links_ok t p'"
    using p eff_sync by (auto simp: payout_ok_def links_ok_def synced_from_fields same_repo_def)
  then show ?thesis
    using eff_sync by (intro store_keeps_ok [OF assms(1), of t p']) (simp_all add: same_repo_def)
qed

lemma reachable_ok: "reachable h s \<Longrightarrow> gateway_ok h s"
proof (induction rule: reachable.induct)
  case (reach_init s h')
  then show ?case by (simp add: empty_gateway_def gateway_ok_def keyed_def)
next
  case (reach_call s rt conns c)
  then show ?case
    using run_call_effect effect_keeps_ok by (metis gateway_ok_def)
qed

lemma reachable_window: "reachable h s \<Longrightarrow> min_veto_window_hours \<le> h \<and> h \<le> max_veto_window_hours"
  by (induction rule: reachable.induct)
    (auto simp: validate_veto_window_hours_def split: if_splits)

end
