(* ===== verification/Samples.thy ===== *)
theory Samples
  imports Values
begin

text \<open>
  A runtime for the concrete runs that show the hypotheses of the properties to hold: a constant
  digest, constant identifiers, the clock at the epoch, and an identity for the copy of JSON values.
\<close>

definition sample_digest :: string where
  "sample_digest = replicate 64 (CHR ''a'')"

definition sample_runtime :: runtime where
  "sample_runtime =
     \<lparr>rt_sha256 = (\<lambda>_. sample_digest), rt_uuid4 = (\<lambda>_. ''u''), rt_utcnow = 0,
      rt_fromiso = (\<lambda>_. Some (Aware 0 0)), rt_isoformat = (\<lambda>_. ''t''), rt_float_repr = (\<lambda>_. ''0''),
      rt_pyd_json = (\<lambda>j. j)\<rparr>"

lemma not_isl_Inr: "\<not> isl (fst p) \<Longrightarrow> \<exists>x t. p = (Inr x, t)"
  by (cases p; cases "fst p") auto

end
