(* ===== verification/PayoutRuns.thy ===== *)
theory PayoutRuns
  imports PayoutMachine Samples
begin

text \<open>
  Concrete runs of the payout gateway with the sample runtime and the in-memory connectors: a payout
  is queued, then vetoed, or confirmed and executed. The states they end in are computed from the
  operations.
\<close>

definition sample_gateway :: "memory_connectors gateway" where
  "sample_gateway =
     \<lparr>audit_sink = None, uuids = 0, bus = [], payouts = [], decisions = [], confirmations = [],
      payout_index = [],
      outside = \<lparr>mem_commands = [], mem_results = [], mem_records = [], mem_notifications = []\<rparr>\<rparr>"

definition sample_queue :: queue_request where
  "sample_queue =
     \<lparr>qr_tenant_id = ''a'', qr_member_id = ''m'', qr_period = ''2024-05'', qr_payout_share = Fin 1,
      qr_distribution_id = ''d'', qr_distribution_hash = replicate 64 (CHR ''0''),
      qr_created_by = ''c'', qr_correlation_id = ''r'', qr_payout_id = Some ''p'',
      qr_event_id = Some ''e'', qr_now = AtTime (Aware 0 0), qr_requires_2fa = True,
      qr_metadata = []\<rparr>"

definition sample_veto :: veto_request where
  "sample_veto =
     \<lparr>vr_tenant_id = ''a'', vr_payout_id = ''p'', vr_actor_id = ''x'', vr_reason_code = ''k'',
      vr_reason = ''w'', vr_correlation_id = ''r'', vr_decision_id = Some ''v'',
      vr_event_id = Some ''f'', vr_now = AtTime (Aware 1 0), vr_metadata = []\<rparr>"

definition sample_confirm :: confirm_request where
  "sample_confirm =
     \<lparr>cr_tenant_id = ''a'', cr_payout_id = ''p'',
      cr_context = \<lparr>tc_tenant_id = ''a'', tc_subject = Some ''x'', tc_roles = [''council''],
        tc_correlation_id = Some ''r''\<rparr>,
      cr_two_factor = \<lparr>tf_tenant_id = ''a'', tf_subject = Some ''x'',
        tf_operation = PAYOUT_CONFIRM_OPERATION, tf_resource_id = ''p'', tf_method = ''totp'',
        tf_confirmed_at = 1, tf_correlation_id = None\<rparr>,
      cr_confirmation_id = Some ''y'', cr_event_id = Some ''g'', cr_metadata = []\<rparr>"

definition sample_execute :: execute_request where
  "sample_execute =
     \<lparr>xr_tenant_id = ''a'', xr_payout_id = ''p'', xr_correlation_id = ''r'',
      xr_execution_id = Some ''z'', xr_event_id = Some ''h'', xr_failure_event_id = Some ''i'',
      xr_notification_id = Some ''n'', xr_now = AtTime (Aware (hours 8) 0), xr_metadata = []\<rparr>"

definition sample_connectors :: "exn option \<Rightarrow> memory_connectors connectors" where
  "sample_connectors failing =
     \<lparr>pay_connector = memory_payment ''mock'' None, status_connector = None,
      chain_connector = memory_chain ''mock'' failing,
      notify_connector = memory_notify sample_runtime ''mock'' None\<rparr>"

definition sample_call :: "call \<Rightarrow> memory_connectors gateway \<Rightarrow> memory_connectors gateway" where
  "sample_call = run_call sample_runtime 8 (sample_connectors None)"

definition queued_gateway :: "memory_connectors gateway" where
  "queued_gateway = sample_call (Queue sample_queue) sample_gateway"

lemma queued_gateway_state [code]:
  "queued_gateway =
    \<lparr>audit_sink = None, uuids = 0,
    bus =
      [\<lparr>pub_envelope =
          \<lparr>ev_event_id = ''e'', ev_type = ''payout.queued'',
             ev_schema_version = ''1.0'', ev_tenant_id = ''a'',
             ev_source = ''hitl-payout-gateway'', ev_correlation_id = ''r'',
             ev_occurred_at = 0,
             ev_payload =
               [(''payout_id'', JStr ''p''), (''period'', JStr ''2024-05''),
                (''veto_until'', JStr ''t''),
                (''requires_2fa'', JBool True)],
             ev_causation_id = None\<rparr>,
          pub_routing_key = ''tenant.a.payout.queued''\<rparr>],
    payouts =
      [((''a'', ''p''),
        \<lparr>po_payout_id = ''p'', po_tenant_id = ''a'', po_member_id = ''m'',
           po_member_hash =
             (''sha256:'' @ sample_digest),
           po_period = ''2024-05'', po_payout_share = Fin 1,
           po_distribution_id = ''d'',
           po_distribution_hash =
             (replicate 64 (CHR ''0'')),
           po_status = QUEUED, po_veto_until = 28800000000,
           po_requires_2fa = True, po_confirmation_id = None,
           po_confirmed_by = None, po_confirmed_by_hash = None,
           po_confirmed_by_role = None, po_confirmed_at = None,
           po_audit_hash =
             sample_digest,
           po_created_by = ''c'',
           po_created_by_hash =
             (''sha256:'' @ sample_digest),
           po_created_at = 0, po_updated_at = 0, po_veto_decision_id = None,
           po_execution_id = None, po_execution_ref_hash = None,
           po_audit_chain_ref = None, po_notification_id = None,
           po_executed_at = None, po_payment_connector_name = None,
           po_payment_gateway_id = None, po_payment_status = None,
           po_payment_status_synced_at = None, po_payment_error_code = None,
           po_payment_refund_id = None\<rparr>)],
    decisions = [], confirmations = [], payout_index = [],
    outside =
      \<lparr>mem_commands = [], mem_results = [], mem_records = [],
         mem_notifications = []\<rparr>\<rparr>"
  by code_simp

definition canceled_gateway :: "memory_connectors gateway" where
  "canceled_gateway = sample_call (Veto sample_veto) queued_gateway"

lemma canceled_gateway_state [code]:
  "canceled_gateway =
    \<lparr>audit_sink = None, uuids = 0,
    bus =
      [\<lparr>pub_envelope =
          \<lparr>ev_event_id = ''e'', ev_type = ''payout.queued'',
             ev_schema_version = ''1.0'', ev_tenant_id = ''a'',
             ev_source = ''hitl-payout-gateway'', ev_correlation_id = ''r'',
             ev_occurred_at = 0,
             ev_payload =
               [(''payout_id'', JStr ''p''), (''period'', JStr ''2024-05''),
                (''veto_until'', JStr ''t''),
                (''requires_2fa'', JBool True)],
             ev_causation_id = None\<rparr>,
          pub_routing_key = ''tenant.a.payout.queued''\<rparr>,
       \<lparr>pub_envelope =
          \<lparr>ev_event_id = ''f'', ev_type = ''payout.vetoed'',
             ev_schema_version = ''1.0'', ev_tenant_id = ''a'',
             ev_source = ''hitl-payout-gateway'', ev_correlation_id = ''r'',
             ev_occurred_at = 1,
             ev_payload =
               [(''payout_id'', JStr ''p''), (''decision_id'', JStr ''v''),
                (''reason_code'', JStr ''k''),
                (''audit_hash'',
                 JStr
                  sample_digest)],
             ev_causation_id = None\<rparr>,
          pub_routing_key = ''tenant.a.payout.vetoed''\<rparr>],
    payouts =
      [((''a'', ''p''),
        \<lparr>po_payout_id = ''p'', po_tenant_id = ''a'', po_member_id = ''m'',
           po_member_hash =
             (''sha256:'' @ sample_digest),
           po_period = ''2024-05'', po_payout_share = Fin 1,
           po_distribution_id = ''d'',
           po_distribution_hash =
             (replicate 64 (CHR ''0'')),
           po_status = CANCELED, po_veto_until = 28800000000,
           po_requires_2fa = True, po_confirmation_id = None,
           po_confirmed_by = None, po_confirmed_by_hash = None,
           po_confirmed_by_role = None, po_confirmed_at = None,
           po_audit_hash =
             sample_digest,
           po_created_by = ''c'',
           po_created_by_hash =
             (''sha256:'' @ sample_digest),
           po_created_at = 0, po_updated_at = 1,
           po_veto_decision_id = Some ''v'', po_execution_id = None,
           po_execution_ref_hash = None, po_audit_chain_ref = None,
           po_notification_id = None, po_executed_at = None,
           po_payment_connector_name = None, po_payment_gateway_id = None,
           po_payment_status = None, po_payment_status_synced_at = None,
           po_payment_error_code = None, po_payment_refund_id = None\<rparr>)],
    decisions =
      [((''a'', ''v''),
        \<lparr>vd_decision_id = ''v'', vd_tenant_id = ''a'', vd_payout_id = ''p'',
           vd_actor_id = ''x'',
           vd_actor_hash =
             (''sha256:'' @ sample_digest),
           vd_reason_code = ''k'', vd_reason = ''w'',
           vd_reason_hash =
             (''sha256:'' @ sample_digest),
           vd_audit_hash =
             sample_digest,
           vd_decided_at = 1, vd_correlation_id = ''r''\<rparr>)],
    confirmations = [], payout_index = [],
    outside =
      \<lparr>mem_commands = [], mem_results = [], mem_records = [],
         mem_notifications = []\<rparr>\<rparr>"
  by code_simp

definition confirmed_gateway :: "memory_connectors gateway" where
  "confirmed_gateway = sample_call (Confirm sample_confirm) queued_gateway"

lemma confirmed_gateway_state [code]:
  "confirmed_gateway =
    \<lparr>audit_sink = None, uuids = 0,
    bus =
      [\<lparr>pub_envelope =
          \<lparr>ev_event_id = ''e'', ev_type = ''payout.queued'',
             ev_schema_version = ''1.0'', ev_tenant_id = ''a'',
             ev_source = ''hitl-payout-gateway'', ev_correlation_id = ''r'',
             ev_occurred_at = 0,
             ev_payload =
               [(''payout_id'', JStr ''p''), (''period'', JStr ''2024-05''),
                (''veto_until'', JStr ''t''),
                (''requires_2fa'', JBool True)],
             ev_causation_id = None\<rparr>,
          pub_routing_key = ''tenant.a.payout.queued''\<rparr>,
       \<lparr>pub_envelope =
          \<lparr>ev_event_id = ''g'', ev_type = ''payout.confirmed'',
             ev_schema_version = ''1.0'', ev_tenant_id = ''a'',
             ev_source = ''hitl-payout-gateway'', ev_correlation_id = ''r'',
             ev_occurred_at = 1000000,
             ev_payload =
               [(''payout_id'', JStr ''p''), (''decision_id'', JStr ''y''),
                (''confirmed_by_role'', JStr ''council''),
                (''audit_hash'',
                 JStr
                  sample_digest)],
             ev_causation_id = None\<rparr>,
          pub_routing_key = ''tenant.a.payout.confirmed''\<rparr>],
    payouts =
      [((''a'', ''p''),
        \<lparr>po_payout_id = ''p'', po_tenant_id = ''a'', po_member_id = ''m'',
           po_member_hash =
             (''sha256:'' @ sample_digest),
           po_period = ''2024-05'', po_payout_share = Fin 1,
           po_distribution_id = ''d'',
           po_distribution_hash =
             (replicate 64 (CHR ''0'')),
           po_status = QUEUED, po_veto_until = 28800000000,
           po_requires_2fa = True, po_confirmation_id = Some ''y'',
           po_confirmed_by = Some ''x'',
           po_confirmed_by_hash =
             Some
              (''sha256:'' @ sample_digest),
           po_confirmed_by_role = Some ''council'',
           po_confirmed_at = Some 1000000,
           po_audit_hash =
             sample_digest,
           po_created_by = ''c'',
           po_created_by_hash =
             (''sha256:'' @ sample_digest),
           po_created_at = 0, po_updated_at = 1000000,
           po_veto_decision_id = None, po_execution_id = None,
           po_execution_ref_hash = None, po_audit_chain_ref = None,
           po_notification_id = None, po_executed_at = None,
           po_payment_connector_name = None, po_payment_gateway_id = None,
           po_payment_status = None, po_payment_status_synced_at = None,
           po_payment_error_code = None, po_payment_refund_id = None\<rparr>)],
    decisions = [],
    confirmations =
      [((''a'', ''y''),
        \<lparr>pc_confirmation_id = ''y'', pc_tenant_id = ''a'',
           pc_payout_id = ''p'', pc_actor_id = ''x'',
           pc_actor_hash =
             (''sha256:'' @ sample_digest),
           pc_actor_role = ''council'', pc_two_factor_method = ''totp'',
           pc_operation = ''payout.confirm'',
           pc_audit_hash =
             sample_digest,
           pc_confirmed_at = 1000000, pc_correlation_id = ''r''\<rparr>)],
    payout_index = [((''a'', ''p''), ''y'')],
    outside =
      \<lparr>mem_commands = [], mem_results = [], mem_records = [],
         mem_notifications = []\<rparr>\<rparr>"
  by code_simp

definition executed_gateway :: "memory_connectors gateway" where
  "executed_gateway = sample_call (Execute sample_execute) confirmed_gateway"

lemma executed_gateway_state [code]:
  "executed_gateway =
    \<lparr>audit_sink = None, uuids = 0,
    bus =
      [\<lparr>pub_envelope =
          \<lparr>ev_event_id = ''e'', ev_type = ''payout.queued'',
             ev_schema_version = ''1.0'', ev_tenant_id = ''a'',
             ev_source = ''hitl-payout-gateway'', ev_correlation_id = ''r'',
             ev_occurred_at = 0,
             ev_payload =
               [(''payout_id'', JStr ''p''), (''period'', JStr ''2024-05''),
                (''veto_until'', JStr ''t''),
                (''requires_2fa'', JBool True)],
             ev_causation_id = None\<rparr>,
          pub_routing_key = ''tenant.a.payout.queued''\<rparr>,
       \<lparr>pub_envelope =
          \<lparr>ev_event_id = ''g'', ev_type = ''payout.confirmed'',
             ev_schema_version = ''1.0'', ev_tenant_id = ''a'',
             ev_source = ''hitl-payout-gateway'', ev_correlation_id = ''r'',
             ev_occurred_at = 1000000,
             ev_payload =
               [(''payout_id'', JStr ''p''), (''decision_id'', JStr ''y''),
                (''confirmed_by_role'', JStr ''council''),
                (''audit_hash'',
                 JStr
                  sample_digest)],
             ev_causation_id = None\<rparr>,
          pub_routing_key = ''tenant.a.payout.confirmed''\<rparr>,
       \<lparr>pub_envelope =
          \<lparr>ev_event_id = ''h'', ev_type = ''payout.executed'',
             ev_schema_version = ''1.0'', ev_tenant_id = ''a'',
             ev_source = ''hitl-payout-gateway'', ev_correlation_id = ''r'',
             ev_occurred_at = 28800000000,
             ev_payload =
               [(''payout_id'', JStr ''p''),
                (''execution_ref_hash'',
                 JStr
                  (''sha256:'' @ sample_digest)),
                (''status'', JStr ''executed''),
                (''audit_hash'',
                 JStr
                  sample_digest)],
             ev_causation_id = None\<rparr>,
          pub_routing_key = ''tenant.a.payout.executed''\<rparr>],
    payouts =
      [((''a'', ''p''),
        \<lparr>po_payout_id = ''p'', po_tenant_id = ''a'', po_member_id = ''m'',
           po_member_hash =
             (''sha256:'' @ sample_digest),
           po_period = ''2024-05'', po_payout_share = Fin 1,
           po_distribution_id = ''d'',
           po_distribution_hash =
             (replicate 64 (CHR ''0'')),
           po_status = EXECUTED, po_veto_until = 28800000000,
           po_requires_2fa = True, po_confirmation_id = Some ''y'',
           po_confirmed_by = Some ''x'',
           po_confirmed_by_hash =
             Some
              (''sha256:'' @ sample_digest),
           po_confirmed_by_role = Some ''council'',
           po_confirmed_at = Some 1000000,
           po_audit_hash =
             sample_digest,
           po_created_by = ''c'',
           po_created_by_hash =
             (''sha256:'' @ sample_digest),
           po_created_at = 0, po_updated_at = 28800000000,
           po_veto_decision_id = None, po_execution_id = Some ''z'',
           po_execution_ref_hash =
             Some
              (''sha256:'' @ sample_digest),
           po_audit_chain_ref = Some ''audit-chain-h'',
           po_notification_id = Some ''n'',
           po_executed_at = Some 28800000000,
           po_payment_connector_name = Some ''mock'',
           po_payment_gateway_id = Some ''payment-z'',
           po_payment_status = Some SUCCEEDED,
           po_payment_status_synced_at = Some 28800000000,
           po_payment_error_code = None, po_payment_refund_id = None\<rparr>)],
    decisions = [],
    confirmations =
      [((''a'', ''y''),
        \<lparr>pc_confirmation_id = ''y'', pc_tenant_id = ''a'',
           pc_payout_id = ''p'', pc_actor_id = ''x'',
           pc_actor_hash =
             (''sha256:'' @ sample_digest),
           pc_actor_role = ''council'', pc_two_factor_method = ''totp'',
           pc_operation = ''payout.confirm'',
           pc_audit_hash =
             sample_digest,
           pc_confirmed_at = 1000000, pc_correlation_id = ''r''\<rparr>)],
    payout_index = [((''a'', ''p''), ''y'')],
    outside =
      \<lparr>mem_commands =
         [\<lparr>pm_tenant_id = ''a'', pm_payout_id = ''p'',
             pm_execution_id = ''z'', pm_member_id = ''m'',
             pm_member_hash =
               (''sha256:'' @ sample_digest),
             pm_period = ''2024-05'', pm_payout_share = Fin 1,
             pm_distribution_id = ''d'',
             pm_distribution_hash =
               (replicate 64 (CHR ''0'')),
             pm_correlation_id = ''r'', pm_requested_at = 28800000000,
             pm_metadata = []\<rparr>],
         mem_results =
           [((''a'', ''z''),
             \<lparr>pr_execution_ref = ''payment-z'',
                pr_connector_name = ''mock'', pr_executed_at = 28800000000,
                pr_gateway_payment_id = None,
                pr_gateway_status = SUCCEEDED\<rparr>)],
         mem_records =
           [\<lparr>bc_tenant_id = ''a'', bc_event_id = ''h'',
               bc_event_type = ''payout.executed'',
               bc_audit_hash =
                 sample_digest,
               bc_correlation_id = ''r'', bc_occurred_at = 28800000000,
               bc_metadata =
                 [(''payout_id'', JStr ''p''),
                  (''execution_id'', JStr ''z''),
                  (''execution_ref_hash'',
                   JStr
                    (''sha256:'' @ sample_digest)),
                  (''source'', JStr ''hitl-payout-gateway'')]\<rparr>],
         mem_notifications =
           [\<lparr>nc_notification_id = ''n'', nc_tenant_id = ''a'',
               nc_recipient_id = ''m'',
               nc_recipient_hash =
                 (''sha256:'' @ sample_digest),
               nc_payout_id = ''p'', nc_event_type = ''payout.executed'',
               nc_template_key = ''hitl_payout_executed'',
               nc_correlation_id = ''r'',
               nc_metadata =
                 [(''payout_id'', JStr ''p''),
                  (''execution_ref_hash'',
                   JStr
                    (''sha256:'' @ sample_digest)),
                  (''audit_hash'',
                   JStr
                    sample_digest),
                  (''audit_chain_ref'', JStr ''audit-chain-h'')]\<rparr>]\<rparr>\<rparr>"
  by code_simp

lemma samples_reachable:
  "reachable 8 sample_gateway" "reachable 8 queued_gateway" "reachable 8 canceled_gateway"
  "reachable 8 confirmed_gateway" "reachable 8 executed_gateway"
proof -
  show s: "reachable 8 sample_gateway"
    by (rule reach_init [of _ _ 8])
      (simp_all add: sample_gateway_def empty_gateway_def validate_veto_window_hours_def
        min_veto_window_hours_def max_veto_window_hours_def)
  show q: "reachable 8 queued_gateway"
    unfolding queued_gateway_def sample_call_def by (intro reach_call s)
  show "reachable 8 canceled_gateway"
    unfolding canceled_gateway_def sample_call_def by (intro reach_call q)
  show c: "reachable 8 confirmed_gateway"
    unfolding confirmed_gateway_def sample_call_def by (intro reach_call q)
  show "reachable 8 executed_gateway"
    unfolding executed_gateway_def sample_call_def by (intro reach_call c)
qed

lemmas gateway_states = queued_gateway_state canceled_gateway_state confirmed_gateway_state executed_gateway_state

lemma queued_payout:
  "map_option po_status (map_of (payouts queued_gateway) (''a'', ''p'')) = Some QUEUED"
  by (simp add: queued_gateway_state)

lemma canceled_payout:
  "map_option po_status (map_of (payouts canceled_gateway) (''a'', ''p'')) = Some CANCELED"
  by (simp add: canceled_gateway_state)

lemma executed_payout:
  "map_option po_status (map_of (payouts executed_gateway) (''a'', ''p'')) = Some EXECUTED"
  by (simp add: executed_gateway_state)

end
