(* ===== verification/PayoutProperties.thy ===== *)
theory PayoutProperties
  imports PayoutRuns
begin

text \<open>
  The properties of the payout gateway, each with a concrete run of \<open>PayoutRuns\<close> on which its
  hypotheses hold.
\<close>

section \<open>The life cycle\<close>

text \<open>C1. Every call of the gateway, with any arguments, clock and connectors, returning or raising,
  moves at most one payout, by one step of the life cycle (enter unconfirmed, confirm while queued,
  cancel from the queue, ready or executed only when confirmed, and nothing after cancellation or
  execution), and leaves every other payout as it was.\<close>

theorem calls_refine_life_cycle:
  assumes "reachable h s"
  shows "\<exists>k. life (phase (payouts s) k) (phase (payouts (run_call rt h conns c s)) k) \<and>
    (\<forall>k'. k' \<noteq> k \<longrightarrow>
       map_of (payouts (run_call rt h conns c s)) k' = map_of (payouts s) k')"
proof -
  have "keyed (payouts s)" using reachable_ok [OF assms] by (simp add: gateway_ok_def)
  then show ?thesis using effect_life run_call_effect by blast
qed

theorem calls_refine_life_cycle_witness:
  "\<exists>k. life (phase (payouts queued_gateway) k) (phase (payouts canceled_gateway) k) \<and>
    (\<forall>k'. k' \<noteq> k \<longrightarrow> map_of (payouts canceled_gateway) k' = map_of (payouts queued_gateway) k')"
  unfolding canceled_gateway_def sample_call_def
  by (rule calls_refine_life_cycle) (rule samples_reachable(2))

text \<open>C2. In every reachable state of the gateway a stored payout is stored under its own tenant and
  identifier and is well formed: valid identifiers, two-factor confirmation required, the veto window
  exactly as long as configured, an execution identifier exactly when executed, a veto decision exactly
  when canceled, and a confirmation whenever it is ready or executed.\<close>

theorem reachable_payout_invariant:
  assumes "reachable h s" and "map_of (payouts s) k = Some p"
  shows "key_of p = k \<and> payout_ok h p"
  using gateway_okD [OF reachable_ok [OF assms(1)] assms(2)] by simp

theorem reachable_payout_invariant_witness:
  "\<exists>p. map_of (payouts executed_gateway) (''a'', ''p'') = Some p \<and> key_of p = (''a'', ''p'') \<and> payout_ok 8 p"
  using executed_payout reachable_payout_invariant [OF samples_reachable(5)] by fastforce

text \<open>C3. No payout becomes ready or executed without a stored confirmation of that very payout by a
  member of the Council.\<close>

theorem ready_needs_council_confirmation:
  assumes "reachable h s" and "map_of (payouts s) (tenant, payout_id) = Some p"
    and "po_status p \<in> {READY_TO_EXECUTE, EXECUTED}"
  shows "\<exists>i c. po_confirmation_id p = Some i \<and>
    map_of (confirmations s) (confirmation_key tenant i) = Some c \<and>
    pc_payout_id c = payout_id \<and> pc_actor_role c = COUNCIL_ROLE"
proof -
  note ok = gateway_okD [OF reachable_ok [OF assms(1)] assms(2)]
  then obtain i where i: "po_confirmation_id p = Some i" using assms(3) by (auto simp: payout_ok_def)
  show ?thesis using ok(2,3) i by (auto simp: links_ok_def key_of_def payout_key_def)
qed

theorem ready_needs_council_confirmation_witness:
  "\<exists>p i c. map_of (payouts executed_gateway) (''a'', ''p'') = Some p \<and> po_confirmation_id p = Some i \<and>
    map_of (confirmations executed_gateway) (confirmation_key ''a'' i) = Some c \<and>
    pc_payout_id c = ''p'' \<and> pc_actor_role c = COUNCIL_ROLE"
  using executed_payout ready_needs_council_confirmation [OF samples_reachable(5), of "''a''" "''p''"] by force

text \<open>A canceled payout has a stored veto decision on it, taken before the end of a veto window that
  is between four and twelve hours long from the queueing on.\<close>

theorem canceled_inside_veto_window:
  assumes "reachable h s" and "map_of (payouts s) (tenant, payout_id) = Some p"
    and "po_status p = CANCELED"
  shows "\<exists>i d. po_veto_decision_id p = Some i \<and>
    map_of (decisions s) (decision_key tenant i) = Some d \<and> vd_payout_id d = payout_id \<and>
    vd_decided_at d < po_veto_until p \<and>
    po_created_at p + hours 4 \<le> po_veto_until p \<and> po_veto_until p \<le> po_created_at p + hours 12"
proof -
  note ok = gateway_okD [OF reachable_ok [OF assms(1)] assms(2)]
  then obtain i where i: "po_veto_decision_id p = Some i" using assms(3) by (auto simp: payout_ok_def)
  moreover have "4 \<le> h" "h \<le> 12"
    using reachable_window [OF assms(1)] by (auto simp: min_veto_window_hours_def max_veto_window_hours_def)
  ultimately show ?thesis
    using ok by (auto simp: links_ok_def payout_ok_def key_of_def payout_key_def hours_def)
qed

theorem canceled_inside_veto_window_witness:
  "\<exists>p i d. map_of (payouts canceled_gateway) (''a'', ''p'') = Some p \<and> po_veto_decision_id p = Some i \<and>
    map_of (decisions canceled_gateway) (decision_key ''a'' i) = Some d \<and> vd_decided_at d < po_veto_until p"
  using canceled_payout canceled_inside_veto_window [OF samples_reachable(3), of "''a''" "''p''"] by fastforce

text \<open>A run: any number of calls, each with its own runtime and connectors.\<close>

definition run_calls ::
    "int \<Rightarrow> (runtime \<times> 'x connectors \<times> call) list \<Rightarrow> 'x gateway \<Rightarrow> 'x gateway" where
  "run_calls h cs s = fold (\<lambda>(rt, conns, c). run_call rt h conns c) cs s"

lemma run_calls_reachable: "reachable h s \<Longrightarrow> reachable h (run_calls h cs s)"
  by (induction cs arbitrary: s) (auto simp: run_calls_def intro: reach_call)

text \<open>A payout without what the synchronisation of its payment status writes
  (\<open>with_payment_status\<close>): its status, its confirmation, its veto, its execution and its origin
  remain.\<close>

definition without_payment :: "payout \<Rightarrow> payout" where
  "without_payment p =
     p\<lparr>po_payment_status := None, po_payment_status_synced_at := None, po_payment_connector_name := None,
       po_payment_gateway_id := None, po_payment_error_code := None, po_payment_refund_id := None,
       po_audit_hash := [], po_updated_at := 0\<rparr>"

lemma synced_without_payment: "synced_from p p' \<Longrightarrow> without_payment p' = without_payment p"
  by (cases p) (auto simp: synced_from_def with_payment_status_def without_payment_def)

lemma without_payment_simps:
  "po_status (without_payment p) = po_status p"
  "po_confirmation_id (without_payment p) = po_confirmation_id p"
  "po_confirmed_by (without_payment p) = po_confirmed_by p"
  "po_confirmed_by_role (without_payment p) = po_confirmed_by_role p"
  "po_confirmed_at (without_payment p) = po_confirmed_at p"
  "po_veto_decision_id (without_payment p) = po_veto_decision_id p"
  "po_execution_id (without_payment p) = po_execution_id p"
  by (simp_all add: without_payment_def)

lemma without_payment_fields:
  assumes "without_payment q = without_payment p"
  shows "po_status q = po_status p" "po_confirmation_id q = po_confirmation_id p"
    "po_confirmed_by q = po_confirmed_by p" "po_confirmed_by_role q = po_confirmed_by_role p"
    "po_confirmed_at q = po_confirmed_at p" "po_veto_decision_id q = po_veto_decision_id p"
    "po_execution_id q = po_execution_id p"
  using without_payment_simps [of q] without_payment_simps [of p] unfolding assms by simp_all

text \<open>What can become of a canceled or executed payout: a canceled one stays as it is, an executed one
  up to its payment status.\<close>

definition settled_as :: "payout \<Rightarrow> payout \<Rightarrow> bool" where
  "settled_as p q \<longleftrightarrow> without_payment q = without_payment p \<and> (q = p \<or> po_status p = EXECUTED)"

lemma settled_refl: "settled_as p p"
  by (simp add: settled_as_def)

lemma settled_status: "settled_as p q \<Longrightarrow> po_status q = po_status p"
  unfolding settled_as_def using without_payment_fields(1) by blast

lemma settled_trans: "settled_as p q \<Longrightarrow> settled_as q r \<Longrightarrow> settled_as p r"
  using settled_status [of p q] unfolding settled_as_def by metis

lemma effect_settled:
  assumes ok: "gateway_ok h s" and "effect h s t" and p: "map_of (payouts s) k = Some p"
    and final: "po_status p \<in> {CANCELED, EXECUTED}"
  shows "\<exists>q. map_of (payouts t) k = Some q \<and> settled_as p q"
proof -
  have other: ?thesis if "same_repo u t" "payouts u = AList.update (key_of q') q' (payouts s)" "key_of q' \<noteq> k"
    for q' and u :: "'a gateway"
    using that p by (auto simp: same_repo_def settled_refl)
  have key: "key_of q = k'" if "map_of (payouts s) k' = Some q" for q k'
    using gateway_okD(3) [OF ok that] .
  show ?thesis
    using assms(2)
  proof cases
    case eff_none
    then show ?thesis using p by (simp add: same_repo_def settled_refl)
  next
    case (eff_queue rt r q)
    then show ?thesis using p by (intro other [of "store_payout q s" q]) auto
  next
    case (eff_veto r q n d)
    then have "key_of q \<noteq> k" using key p final by (fastforce simp: vetoed_def)
    with eff_veto show ?thesis
      by (intro other [of "veto_step q n d s" "with_status q CANCELED n (Some (vd_audit_hash d)) (Some (vd_decision_id d))"])
        (auto simp: veto_step_def)
  next
    case (eff_confirm r q c)
    then have "key_of q \<noteq> k" using key p final by (fastforce simp: confirmed_def)
    with eff_confirm show ?thesis
      by (intro other [of "confirm_step q c s" "with_confirmation q (pc_confirmation_id c) (pc_actor_id c)
            (pc_actor_hash c) (pc_actor_role c) (pc_confirmed_at c) (pc_audit_hash c)"])
        (auto simp: confirm_step_def store_confirmation_def)
  next
    case (eff_ready k' q n)
    then have "key_of q \<noteq> k" using key p final by fastforce
    with eff_ready show ?thesis
      by (intro other [of "store_payout (with_status q READY_TO_EXECUTE n None None) s"
            "with_status q READY_TO_EXECUTE n None None"]) auto
  next
    case (eff_execute k' q n q')
    then have "key_of q \<noteq> k" using key p final by (fastforce simp: is_executable_def)
    with eff_execute show ?thesis
      by (intro other [of "store_payout q' s" q']) (auto simp: executed_from_fields)
  next
    case (eff_sync k' q q')
    show ?thesis
    proof (cases "k' = k")
      case True
      then have q: "q = p" using eff_sync(1) p by simp
      then have "po_status p = EXECUTED"
        using gateway_okD(1) [OF ok p] eff_sync(2) by (simp add: payout_ok_def)
      with eff_sync q key [OF p] show ?thesis
        by (auto simp: same_repo_def settled_as_def synced_from_fields synced_without_payment)
    next
      case False
      with eff_sync show ?thesis
        using key [OF eff_sync(1)] by (intro other [of "store_payout q' s" q']) (auto simp: synced_from_fields)
    qed
  qed
qed

lemma run_call_settled:
  assumes "reachable h s" and "map_of (payouts s) k = Some p" and "po_status p \<in> {CANCELED, EXECUTED}"
  shows "\<exists>q. map_of (payouts (run_call rt h conns c s)) k = Some q \<and> settled_as p q"
proof -
  note ok = reachable_ok [OF assms(1)]
  then have "effect h s (run_call rt h conns c s)" by (intro run_call_effect) (simp add: gateway_ok_def)
  then show ?thesis using effect_settled [OF ok _ assms(2,3)] by blast
qed

lemma run_calls_settled:
  assumes "reachable h s" and "map_of (payouts s) k = Some p" and "po_status p \<in> {CANCELED, EXECUTED}"
  shows "\<exists>q. map_of (payouts (run_calls h cs s)) k = Some q \<and> settled_as p q"
  using assms
proof (induction cs arbitrary: s p)
  case (Cons c cs)
  obtain rt conns d where c: "c = (rt, conns, d)" by (cases c)
  obtain q where q: "map_of (payouts (run_call rt h conns d s)) k = Some q" "settled_as p q"
    using run_call_settled Cons.prems by blast
  moreover have "po_status q \<in> {CANCELED, EXECUTED}"
    using settled_status [OF q(2)] Cons.prems(3) by simp
  ultimately show ?case
    using Cons.IH [OF reach_call [OF Cons.prems(1)], of rt conns d q] settled_trans [OF q(2)]
    unfolding run_calls_def c by auto
qed (simp add: run_calls_def settled_refl)

text \<open>C5. A canceled or executed payout keeps its status, its confirmation (which one, by whom, in which
  role and when), its veto decision and its execution under every later run of the gateway. A canceled
  payout even stays exactly as it is; of an executed one only what the synchronisation of the payment
  status writes can change: the payment fields, the audit hash and the time of the update.\<close>

theorem canceled_and_executed_are_final:
  assumes "reachable h s" and "map_of (payouts s) k = Some p" and "po_status p \<in> {CANCELED, EXECUTED}"
  shows "\<exists>q. map_of (payouts (run_calls h cs s)) k = Some q \<and> po_status q = po_status p \<and>
    po_confirmation_id q = po_confirmation_id p \<and> po_confirmed_by q = po_confirmed_by p \<and>
    po_confirmed_by_role q = po_confirmed_by_role p \<and> po_confirmed_at q = po_confirmed_at p \<and>
    po_veto_decision_id q = po_veto_decision_id p \<and> po_execution_id q = po_execution_id p \<and>
    without_payment q = without_payment p \<and> (q = p \<or> po_status p = EXECUTED)"
proof -
  obtain q where q: "map_of (payouts (run_calls h cs s)) k = Some q" "settled_as p q"
    using run_calls_settled [OF assms] by blast
  note same = q(2) [unfolded settled_as_def]
  show ?thesis
    using q(1) same without_payment_fields [OF conjunct1 [OF same]] by (intro exI [of _ q]) blast
qed

theorem canceled_and_executed_are_final_witness:
  "\<exists>p. map_of (payouts canceled_gateway) (''a'', ''p'') = Some p \<and> po_status p = CANCELED \<and>
     map_of (payouts (run_calls 8 [(sample_runtime, sample_connectors None, Execute sample_execute)]
       canceled_gateway)) (''a'', ''p'') = Some p"
  using canceled_payout canceled_and_executed_are_final [OF samples_reachable(3), of "(''a'', ''p'')"]
  by fastforce

section \<open>Execution\<close>

lemma reachable_keyed: "reachable h s \<Longrightarrow> keyed (payouts s)"
  using reachable_ok by (auto simp: gateway_ok_def)

lemma failure_event_error: "failure_event p e m \<Longrightarrow> is_connector_error e"
  by (simp add: failure_event_def)

text \<open>C4. The outside world changes during an execution (money is sent, the audit chain is written, a
  message goes out) only if the payout is stored, queued or ready, confirmed, and past its veto window
  at the time of the request.\<close>

theorem connectors_called_only_when_executable:
  assumes "reachable h s" and "execute_payout rt conns r s = (rs, t)" and "outside t \<noteq> outside s"
  shows "\<exists>p n. map_of (payouts s) (payout_key (xr_tenant_id r) (xr_payout_id r)) = Some p \<and>
    normalize_datetime rt (xr_now r) = Inr n \<and> po_status p \<in> {QUEUED, READY_TO_EXECUTE} \<and>
    po_veto_until p \<le> n \<and> po_confirmation_id p \<noteq> None"
proof -
  have "outcome (execute_payout rt conns r) (\<lambda>_ t. outside t = outside s \<or> (\<exists>p. may_execute rt r (payouts s) p)) s"
    by (rule execute_payout_rule [OF reachable_keyed [OF assms(1)]]) auto
  from outcomeD [OF this assms(2)] assms(3) show ?thesis
    by (auto simp: may_execute_def is_executable_def)
qed

theorem connectors_called_only_when_executable_witness:
  "\<exists>p. map_of (payouts confirmed_gateway) (''a'', ''p'') = Some p \<and> po_veto_until p \<le> hours 8"
proof -
  have "outside executed_gateway \<noteq> outside confirmed_gateway" by code_simp
  then show ?thesis
    using connectors_called_only_when_executable [OF samples_reachable(4), of sample_runtime
        "sample_connectors None" sample_execute]
    by (cases "execute_payout sample_runtime (sample_connectors None) sample_execute confirmed_gateway")
      (auto simp: executed_gateway_def sample_call_def sample_execute_def payout_key_def normalize_datetime_def)
qed

text \<open>When a connector fails, the error it raises is passed on, every payout, decision and
  confirmation stays as it was, and the only message published is payout.failed with the code of that
  error.\<close>

theorem connector_failure_keeps_payouts:
  assumes "reachable h s" and "execute_payout rt conns r s = (Inl (PayoutConnectorError name code again), t)"
  shows "payouts t = payouts s \<and> decisions t = decisions s \<and> confirmations t = confirmations s \<and>
    (\<exists>m. bus t = bus s @ [m] \<and> ev_type (pub_envelope m) = ''payout.failed'' \<and>
         map_of (ev_payload (pub_envelope m)) ''error_code'' = Some (JStr code))"
proof -
  have "outcome (execute_payout rt conns r) (\<lambda>rs t. \<forall>e. rs = Inl e \<longrightarrow> is_connector_error e \<longrightarrow>
      (\<exists>p m. failure_event p e m \<and> exec_grows s t \<and> bus t = bus s @ [m])) s"
    using plain_not_connector
    by (intro execute_payout_rule [OF reachable_keyed [OF assms(1)]]) blast+
  from outcomeD [OF this assms(2)] obtain p m where "failure_event p (PayoutConnectorError name code again) m"
      "exec_grows s t" "bus t = bus s @ [m]"
    by (auto simp: is_connector_error_def)
  then show ?thesis by (auto simp: failure_event_def exec_grows_fields)
qed

text \<open>An execution that returns a receipt was allowed, and leaves the payout executed.\<close>

theorem receipt_means_executed:
  assumes "reachable h s" and "execute_payout rt conns r s = (Inr receipt, t)"
  shows "\<exists>p p'. map_of (payouts s) (payout_key (xr_tenant_id r) (xr_payout_id r)) = Some p \<and>
    po_status p \<in> {QUEUED, READY_TO_EXECUTE} \<and> po_confirmation_id p \<noteq> None \<and>
    payouts t = AList.update (key_of p) p' (payouts s) \<and> key_of p' = key_of p \<and>
    po_status p' = EXECUTED \<and> po_execution_id p' \<noteq> None"
proof -
  have "outcome (execute_payout rt conns r) (\<lambda>rs t. (\<exists>x. rs = Inr x) \<longrightarrow>
      (\<exists>p p'. may_execute rt r (payouts s) p \<and> executed_from p p' \<and> exec_grows (store_payout p' s) t)) s"
    by (rule execute_payout_rule [OF reachable_keyed [OF assms(1)]]) auto
  from outcomeD [OF this assms(2)] obtain p p' where p: "may_execute rt r (payouts s) p" "executed_from p p'"
      "exec_grows (store_payout p' s) t"
    by auto
  have "payouts t = AList.update (key_of p) p' (payouts s)"
    using exec_grows_fields(1) [OF p(3)] executed_from_fields(1) [OF p(2)] by simp
  then show ?thesis
    using p(1) executed_from_fields(1-3) [OF p(2)]
    by (intro exI [of _ p] exI [of _ p']) (auto simp: may_execute_def is_executable_def)
qed

text \<open>A veto at the end of the window or later is refused and changes nothing.\<close>

theorem late_veto_refused:
  assumes "map_of (payouts s) (payout_key (vr_tenant_id r) (vr_payout_id r)) = Some p"
    and "po_status p = QUEUED" and "normalize_datetime rt (vr_now r) = Inr n" and "po_veto_until p \<le> n"
  shows "veto_payout rt r s = (Inl VetoWindowClosedError, s)"
  using assms by (simp add: veto_payout_def get_payout_def bnd_def act_eval)

theorem late_veto_refused_witness:
  "veto_payout sample_runtime (sample_veto\<lparr>vr_now := AtTime (Aware (hours 8) 0)\<rparr>) queued_gateway
   = (Inl VetoWindowClosedError, queued_gateway)"
proof -
  have "map_option (\<lambda>p. (po_status p, po_veto_until p)) (map_of (payouts queued_gateway) (''a'', ''p'')) =
      Some (QUEUED, hours 8)"
    by code_simp
  then obtain p where "map_of (payouts queued_gateway) (''a'', ''p'') = Some p" "po_status p = QUEUED"
      "po_veto_until p = hours 8"
    by auto
  then show ?thesis
    by (intro late_veto_refused [of _ _ p _ "hours 8"])
      (simp_all add: sample_veto_def payout_key_def normalize_datetime_def)
qed

section \<open>The queue\<close>

text \<open>A payout that is queued is new under its key, is appended to the repository in status queued,
  unconfirmed, with two-factor confirmation required, a share between zero and one and the veto window
  of the manager after the time of the request; the tenant of the event has no dot.\<close>

theorem queue_payout_effect:
  assumes "queue_payout rt h r s = (Inr (p, e), t)"
  shows "payouts t = payouts s @ [(key_of p, p)] \<and> map_of (payouts s) (key_of p) = None \<and>
    new_payout rt h r p \<and> ev_tenant_id e = qr_tenant_id r \<and> CHR ''.'' \<notin> set (qr_tenant_id r)"
proof -
  have "outcome (queue_payout rt h r) (\<lambda>rs t. \<forall>p e. rs = Inr (p, e) \<longrightarrow>
      map_of (payouts s) (key_of p) = None \<and> new_payout rt h r p \<and> svc_grows (store_payout p s) t \<and>
      ev_tenant_id e = qr_tenant_id r \<and> CHR ''.'' \<notin> set (qr_tenant_id r)) s"
    by (rule queue_payout_rule) auto
  from outcomeD [OF this assms] show ?thesis
    by (auto simp: svc_grows_payouts dict_update_new)
qed

theorem queue_payout_effect_witness:
  "\<exists>p. payouts queued_gateway = [(key_of p, p)] \<and> new_payout sample_runtime 8 sample_queue p"
proof -
  let ?r = "queue_payout sample_runtime 8 sample_queue sample_gateway"
  have "\<not> isl (fst ?r)" by code_simp
  then obtain p e where "?r = (Inr (p, e), snd ?r)"
    by (metis isl_def prod.collapse sum.exhaust_disc sum.collapse(2) surj_pair)
  from queue_payout_effect [OF this] show ?thesis
    by (auto simp: queued_gateway_def sample_call_def sample_gateway_def)
qed

text \<open>The listing of a tenant holds exactly the stored payouts of that tenant with the requested
  status, oldest first.\<close>

theorem list_payouts_of_tenant:
  assumes "reachable h s"
  shows "sorted (map po_created_at (list_payouts tenant status s)) \<and>
    set (list_payouts tenant status s) =
      {p. map_of (payouts s) (key_of p) = Some p \<and> po_tenant_id p = tenant \<and>
          (status = None \<or> status = Some (po_status p))}"
proof -
  have ok: "dict_ok (payouts s)" "keyed (payouts s)"
    using reachable_ok [OF assms] by (auto simp: gateway_ok_def)
  have mem: "(k, p) \<in> set (payouts s) \<longleftrightarrow> k = key_of p \<and> map_of (payouts s) (key_of p) = Some p" for k p
    using ok dict_set_iff keyedD by metis
  have "p \<in> set (list_payouts tenant status s) \<longleftrightarrow>
      map_of (payouts s) (key_of p) = Some p \<and> po_tenant_id p = tenant \<and>
      (status = None \<or> status = Some (po_status p))" for p
    by (auto simp: list_payouts_def set_sorted_values mem key_of_def payout_key_def image_iff split: option.splits)
  then show ?thesis by (auto simp: list_payouts_def sorted_sorted_values)
qed

theorem list_payouts_of_tenant_witness:
  "set (list_payouts ''a'' (Some CANCELED) canceled_gateway) =
    {p. map_of (payouts canceled_gateway) (key_of p) = Some p \<and> po_tenant_id p = ''a'' \<and> CANCELED = po_status p}"
  using list_payouts_of_tenant [OF samples_reachable(3), of "''a''" "Some CANCELED"] by simp

text \<open>The window read from the environment lies between four and twelve hours, and is eight hours
  when the variable is unset or blank.\<close>

theorem configured_window_in_bounds:
  assumes "resolve_veto_window_hours env = Inr h"
  shows "4 \<le> h \<and> h \<le> 12 \<and>
    (env ''VETO_WINDOW_HOURS'' = None \<or> map_option py_strip (env ''VETO_WINDOW_HOURS'') = Some [] \<longrightarrow> h = 8)"
  using assms
  by (auto simp: resolve_veto_window_hours_def validate_veto_window_hours_def min_veto_window_hours_def
      max_veto_window_hours_def default_veto_window_hours_def split: option.splits if_splits)

theorem configured_window_in_bounds_witness: "4 \<le> (12::int) \<and> (12::int) \<le> 12"
proof -
  have "resolve_veto_window_hours (\<lambda>_. Some ''12'') = Inr 12" by code_simp
  from configured_window_in_bounds [OF this] show ?thesis by blast
qed

section \<open>Paying once\<close>

text \<open>
  What the gateway needs of a payment connector: a payment that was accepted under a key stays on
  record, and a repeated command under that key returns the recorded result and records nothing new.
\<close>

locale payment_provider =
  fixes pay :: "'c \<Rightarrow> ('x, 'r) act"
    and key :: "'c \<Rightarrow> 'k"
    and paid :: "'x \<Rightarrow> 'k \<Rightarrow> 'r option"
  assumes recorded: "pay c x = (Inr r, y) \<Longrightarrow> paid y (key c) = Some r"
    and kept: "paid x k = Some r \<Longrightarrow> pay c x = (res, y) \<Longrightarrow> paid y k = Some r"
    and repeated: "paid x (key c) = Some r \<Longrightarrow> pay c x = (Inr r', y) \<Longrightarrow> r' = r \<and> paid y = paid x"
begin

lemma kept_all: "paid x k = Some r \<Longrightarrow> paid (fold (\<lambda>c x. snd (pay c x)) cs x) k = Some r"
  by (induction cs arbitrary: x) (auto, metis kept prod.collapse)

lemma paid_once:
  assumes "pay c x = (Inr r, y)" and "z = fold (\<lambda>c x. snd (pay c x)) cs y"
    and "key d = key c" and "pay d z = (Inr r', w)"
  shows "r' = r \<and> paid w = paid z"
  using assms recorded kept_all repeated by metis

end

interpretation memory_payment: payment_provider "memory_payment name fail_with"
    "\<lambda>c. (pm_tenant_id c, pm_execution_id c)" "\<lambda>x. map_of (mem_results x)"
  by unfold_locales
    (auto simp: memory_payment_def bnd_def act_eval raise_if_def split: option.splits sum.splits if_splits)

text \<open>The in-memory payment connector pays once for a tenant and an execution identifier: after any
  other payments, a second command with the same pair returns the first result and records no further
  payment.\<close>

theorem execution_id_pays_once:
  assumes "memory_payment name fail_with c x = (Inr r, y)"
    and "z = fold (\<lambda>c x. snd (memory_payment name fail_with c x)) cs y"
    and "pm_tenant_id d = pm_tenant_id c" and "pm_execution_id d = pm_execution_id c"
    and "memory_payment name fail_with d z = (Inr r', w)"
  shows "r' = r \<and> map_of (mem_results w) = map_of (mem_results z)"
  using memory_payment.paid_once [OF assms(1,2) _ assms(5)] assms(3,4) by simp

definition sample_payment :: payment_command where
  "sample_payment =
     \<lparr>pm_tenant_id = ''a'', pm_payout_id = ''p'', pm_execution_id = ''z'', pm_member_id = ''m'',
      pm_member_hash = ''h'', pm_period = ''2024-05'', pm_payout_share = Fin 1, pm_distribution_id = ''d'',
      pm_distribution_hash = ''d'', pm_correlation_id = ''r'', pm_requested_at = 0, pm_metadata = []\<rparr>"

theorem execution_id_pays_once_witness:
  "\<exists>r y w. memory_payment ''mock'' None sample_payment (outside sample_gateway) = (Inr r, y) \<and>
    memory_payment ''mock'' None (sample_payment\<lparr>pm_requested_at := 5\<rparr>) y = (Inr r, w) \<and>
    map_of (mem_results w) = map_of (mem_results y)"
proof -
  let ?m = "memory_payment ''mock'' None"
  let ?a = "?m sample_payment (outside sample_gateway)"
  let ?b = "?m (sample_payment\<lparr>pm_requested_at := 5\<rparr>) (snd ?a)"
  have "\<not> isl (fst ?a)" "\<not> isl (fst ?b)" by code_simp+
  then obtain r r' where a: "?a = (Inr r, snd ?a)" and b: "?b = (Inr r', snd ?b)"
    by (metis isl_def prod.collapse sum.exhaust_disc sum.collapse(2))
  from execution_id_pays_once [OF a, of _ "[]" "sample_payment\<lparr>pm_requested_at := 5\<rparr>"] b
  have "r' = r \<and> map_of (mem_results (snd ?b)) = map_of (mem_results (snd ?a))" by simp
  with a b show ?thesis by metis
qed

definition twice_paid_gateway :: "memory_connectors gateway" where
  "twice_paid_gateway =
     snd (execute_payout sample_runtime (sample_connectors None)
            (sample_execute\<lparr>xr_execution_id := Some ''zz''\<rparr>)
            (snd (execute_payout sample_runtime
              (sample_connectors (Some (PayoutConnectorError ''b'' ''c'' True))) sample_execute
              confirmed_gateway)))"

text \<open>A failure of the audit chain after the payment leaves the payout executable, and a retry under
  another execution identifier pays a second time: the run that fails once and is retried has two
  payments on record for one payout.\<close>

theorem retry_with_new_execution_id_pays_again:
  "map fst (mem_results (outside twice_paid_gateway)) = [(''a'', ''z''), (''a'', ''zz'')]"
  by code_simp

end
