(* ===== verification/Resilience.thy ===== *)
theory Resilience
  imports Prelude
begin

text \<open>
  \<open>libs/shared/resilience.py\<close>: retries with exponential backoff, time budgets and a circuit
  breaker around the calls of a dependency. The dependency, the sleeper and the clock are code
  behind interfaces: functions on the state of the outside world. Seconds are exact rationals.
\<close>

section \<open>Failures and policies\<close>

datatype dependency_kind = DATABASE | MESSAGE_BROKER | EXTERNAL_API | PROXY

datatype failure_mode = UNAVAILABLE | TIMEOUT | RATE_LIMITED | DEGRADED_MODE

datatype circuit_state = CLOSED | OPEN | HALF_OPEN

record dependency_failure =
  df_name :: string
  df_kind :: dependency_kind
  df_mode :: failure_mode
  df_code :: string
  df_retryable :: bool

definition normalize_name :: "string \<Rightarrow> string \<Rightarrow> exn + string" where
  "normalize_name value label =
     (let n = py_strip value in
      if n = [] then Inl (ValueError label)
      else if list_ex py_isspace n then Inl (ValueError label)
      else Inr n)"

definition normalize_error_code :: "string \<Rightarrow> exn + string" where
  "normalize_error_code value = normalize_name (py_lower (py_strip value)) ''error_code''"

definition make_dependency_failure ::
    "string \<Rightarrow> dependency_kind \<Rightarrow> failure_mode \<Rightarrow> string \<Rightarrow> bool \<Rightarrow> exn + dependency_failure" where
  "make_dependency_failure name kind mode code retryable =
     ebind (normalize_name name ''dependency_name'') (\<lambda>n.
     ebind (normalize_error_code code) (\<lambda>c.
     Inr \<lparr>df_name = n, df_kind = kind, df_mode = mode, df_code = c, df_retryable = retryable\<rparr>))"

definition DEFAULT_RETRYABLE_ERROR_CODES :: "string list" where
  "DEFAULT_RETRYABLE_ERROR_CODES =
     [''dependency_error'', ''dependency_timeout'', ''postgresql_timeout'', ''postgresql_unavailable'',
      ''rabbitmq_unavailable'', ''external_api_timeout'', ''external_api_unavailable'',
      ''proxy_unavailable'']"

record retry_policy =
  rp_max_attempts :: nat
  rp_initial_backoff :: rat
  rp_multiplier :: rat
  rp_max_backoff :: rat
  rp_codes :: "string list"

record timeout_budget =
  tb_per_attempt :: "rat option"
  tb_total :: "rat option"

record breaker_policy =
  bp_failure_threshold :: nat
  bp_recovery_threshold :: nat
  bp_cooldown :: rat

fun normalize_codes :: "string list \<Rightarrow> exn + string list" where
  "normalize_codes [] = Inr []"
| "normalize_codes (c # cs) =
     ebind (normalize_error_code c) (\<lambda>n. ebind (normalize_codes cs) (\<lambda>ns. Inr (n # ns)))"

definition make_retry_policy ::
    "int \<Rightarrow> rat \<Rightarrow> rat \<Rightarrow> rat \<Rightarrow> string list \<Rightarrow> exn + retry_policy" where
  "make_retry_policy max_attempts initial multiplier max_backoff codes =
     (if max_attempts \<le> 0 then Inl (ValueError ''max_attempts'')
      else if initial < 0 then Inl (ValueError ''initial_backoff_seconds'')
      else if multiplier < 1 then Inl (ValueError ''backoff_multiplier'')
      else if max_backoff < initial then Inl (ValueError ''max_backoff_seconds'')
      else ebind (normalize_codes codes) (\<lambda>cs.
        Inr \<lparr>rp_max_attempts = nat max_attempts, rp_initial_backoff = initial,
             rp_multiplier = multiplier, rp_max_backoff = max_backoff, rp_codes = cs\<rparr>))"

definition positive_seconds :: "rat option \<Rightarrow> bool" where
  "positive_seconds t \<longleftrightarrow> (case t of None \<Rightarrow> True | Some x \<Rightarrow> 0 < x)"

definition make_timeout_budget :: "rat option \<Rightarrow> rat option \<Rightarrow> exn + timeout_budget" where
  "make_timeout_budget per_attempt total_s =
     (if \<not> positive_seconds per_attempt then Inl (ValueError ''per_attempt_seconds'')
      else if \<not> positive_seconds total_s then Inl (ValueError ''total_seconds'')
      else if (case (per_attempt, total_s) of (Some p, Some t) \<Rightarrow> t < p | _ \<Rightarrow> False)
      then Inl (ValueError ''total_seconds'')
      else Inr \<lparr>tb_per_attempt = per_attempt, tb_total = total_s\<rparr>)"

definition make_breaker_policy :: "int \<Rightarrow> int \<Rightarrow> rat \<Rightarrow> exn + breaker_policy" where
  "make_breaker_policy failure_threshold recovery_threshold cooldown =
     (if failure_threshold \<le> 0 then Inl (ValueError ''failure_threshold'')
      else if recovery_threshold \<le> 0 then Inl (ValueError ''recovery_success_threshold'')
      else if cooldown < 0 then Inl (ValueError ''cooldown_seconds'')
      else Inr \<lparr>bp_failure_threshold = nat failure_threshold,
                bp_recovery_threshold = nat recovery_threshold, bp_cooldown = cooldown\<rparr>)"

definition is_retryable :: "retry_policy \<Rightarrow> dependency_failure \<Rightarrow> bool" where
  "is_retryable rp f \<longleftrightarrow> df_retryable f \<and> df_code f \<in> set (rp_codes rp)"

text \<open>\<open>delay_for_attempt\<close> for a positive attempt, the only ones \<open>execute\<close> asks for.\<close>

definition delay_for_attempt :: "retry_policy \<Rightarrow> nat \<Rightarrow> rat" where
  "delay_for_attempt rp attempt =
     min (rp_initial_backoff rp * rp_multiplier rp ^ (attempt - 1)) (rp_max_backoff rp)"

section \<open>The guard\<close>

text \<open>One call of the dependency under its per-attempt timeout.\<close>

datatype 'v attempt = Returned 'v | TimedOut | FailedWith dependency_failure | Crashed

record ('v, 'x) dependency =
  dep_call :: "rat option \<Rightarrow> 'x \<Rightarrow> 'v attempt \<times> 'x"
  dep_sleep :: "rat \<Rightarrow> 'x \<Rightarrow> 'x"
  dep_clock :: "'x \<Rightarrow> rat \<times> 'x"

record guard =
  gd_name :: string
  gd_kind :: dependency_kind
  gd_retry :: retry_policy
  gd_budget :: timeout_budget
  gd_breaker :: breaker_policy

record 'x guard_state =
  gs_state :: circuit_state
  gs_failures :: nat
  gs_successes :: nat
  gs_opened_at :: "rat option"
  gs_outside :: 'x

datatype call_status = SUCCEEDED_CALL | DEGRADED_CALL

record 'v call_result =
  re_status :: call_status
  re_attempts :: nat
  re_value :: 'v
  re_error_code :: "string option"
  re_degraded_reason :: "string option"
  re_circuit_state :: circuit_state
  re_recovered :: bool

datatype guard_error = Raised dependency_failure | FallbackRaised exn

definition read_clock :: "('v, 'x) dependency \<Rightarrow> 'x guard_state \<Rightarrow> rat \<times> 'x guard_state" where
  "read_clock dep s = (case dep_clock dep (gs_outside s) of (t, x) \<Rightarrow> (t, s\<lparr>gs_outside := x\<rparr>))"

definition open_circuit :: "('v, 'x) dependency \<Rightarrow> 'x guard_state \<Rightarrow> 'x guard_state" where
  "open_circuit dep s =
     (case read_clock dep s of
        (t, s1) \<Rightarrow> s1\<lparr>gs_state := OPEN, gs_opened_at := Some t, gs_successes := 0\<rparr>)"

definition record_failure :: "('v, 'x) dependency \<Rightarrow> guard \<Rightarrow> 'x guard_state \<Rightarrow> 'x guard_state" where
  "record_failure dep g s =
     (if gs_state s = HALF_OPEN then open_circuit dep s
      else
        let s1 = s\<lparr>gs_failures := Suc (gs_failures s)\<rparr> in
        if bp_failure_threshold (gd_breaker g) \<le> gs_failures s1 then open_circuit dep s1 else s1)"

definition record_success :: "guard \<Rightarrow> 'x guard_state \<Rightarrow> bool \<times> 'x guard_state" where
  "record_success g s =
     (if gs_state s = HALF_OPEN then
        let s1 = s\<lparr>gs_successes := Suc (gs_successes s)\<rparr> in
        if bp_recovery_threshold (gd_breaker g) \<le> gs_successes s1
        then (True, s1\<lparr>gs_state := CLOSED, gs_failures := 0, gs_successes := 0, gs_opened_at := None\<rparr>)
        else (False, s1)
      else (False, s\<lparr>gs_failures := 0, gs_successes := 0\<rparr>))"

definition transition_open_circuit_if_ready ::
    "('v, 'x) dependency \<Rightarrow> guard \<Rightarrow> 'x guard_state \<Rightarrow> 'x guard_state" where
  "transition_open_circuit_if_ready dep g s =
     (if gs_state s \<noteq> OPEN then s
      else case gs_opened_at s of
        None \<Rightarrow> s
      | Some opened \<Rightarrow>
          (case read_clock dep s of
             (now, s1) \<Rightarrow>
               if bp_cooldown (gd_breaker g) \<le> now - opened
               then s1\<lparr>gs_state := HALF_OPEN, gs_successes := 0\<rparr>
               else s1))"

definition should_retry ::
    "('v, 'x) dependency \<Rightarrow> guard \<Rightarrow> dependency_failure \<Rightarrow> nat \<Rightarrow> nat \<Rightarrow> rat \<Rightarrow> 'x guard_state
     \<Rightarrow> bool \<times> 'x guard_state" where
  "should_retry dep g f attempt max_attempts started_at s =
     (if gs_state s = OPEN then (False, s)
      else if max_attempts \<le> attempt then (False, s)
      else if \<not> is_retryable (gd_retry g) f then (False, s)
      else case tb_total (gd_budget g) of
        None \<Rightarrow> (True, s)
      | Some limit \<Rightarrow>
          (case read_clock dep s of
             (now, s1) \<Rightarrow> (now - started_at + delay_for_attempt (gd_retry g) attempt < limit, s1)))"

definition own_failure :: "guard \<Rightarrow> failure_mode \<Rightarrow> string \<Rightarrow> dependency_failure" where
  "own_failure g mode code =
     \<lparr>df_name = gd_name g, df_kind = gd_kind g, df_mode = mode, df_code = code, df_retryable = True\<rparr>"

fun failure_of :: "guard \<Rightarrow> 'v attempt \<Rightarrow> dependency_failure" where
  "failure_of g TimedOut = own_failure g TIMEOUT ''dependency_timeout''"
| "failure_of g (FailedWith f) = f"
| "failure_of g _ = own_failure g UNAVAILABLE ''dependency_error''"

datatype 'v attempts_end = Won nat 'v bool | Lost nat dependency_failure

text \<open>The loop over the attempts, from \<open>attempt\<close> on.\<close>

function run_attempts ::
    "('v, 'x) dependency \<Rightarrow> guard \<Rightarrow> rat \<Rightarrow> nat \<Rightarrow> nat \<Rightarrow> 'x guard_state \<Rightarrow> 'v attempts_end \<times> 'x guard_state" where
  "run_attempts dep g started_at max_attempts attempt s =
     (case dep_call dep (tb_per_attempt (gd_budget g)) (gs_outside s) of
        (a, x) \<Rightarrow>
          let s1 = s\<lparr>gs_outside := x\<rparr> in
          (case a of
             Returned v \<Rightarrow> (case record_success g s1 of (recovered, s2) \<Rightarrow> (Won attempt v recovered, s2))
           | _ \<Rightarrow>
               (case should_retry dep g (failure_of g a) attempt max_attempts started_at
                       (record_failure dep g s1) of
                  (retry, s2) \<Rightarrow>
                    if \<not> (retry \<and> attempt < max_attempts) then (Lost attempt (failure_of g a), s2)
                    else run_attempts dep g started_at max_attempts (Suc attempt)
                           (s2\<lparr>gs_outside :=
                              dep_sleep dep (delay_for_attempt (gd_retry g) attempt) (gs_outside s2)\<rparr>))))"
  by pat_completeness auto

termination
  by (relation "measure (\<lambda>(dep, g, st, m, attempt, s). m - attempt)") auto

declare run_attempts.simps [simp del]

definition degraded_result ::
    "nat \<Rightarrow> dependency_failure \<Rightarrow> string \<Rightarrow> 'x guard_state \<Rightarrow> (exn + 'v) \<times> 'x
     \<Rightarrow> (guard_error + 'v call_result) \<times> 'x guard_state" where
  "degraded_result attempts f reason s out =
     (case out of (r, x) \<Rightarrow>
        let s1 = s\<lparr>gs_outside := x\<rparr> in
        (case r of
           Inl e \<Rightarrow> (Inl (FallbackRaised e), s1)
         | Inr v \<Rightarrow>
             (Inr \<lparr>re_status = DEGRADED_CALL, re_attempts = attempts, re_value = v,
                   re_error_code = Some (df_code f), re_degraded_reason = Some reason,
                   re_circuit_state = gs_state s1, re_recovered = False\<rparr>, s1)))"

text \<open>\<open>_fallback_or_raise\<close> followed by \<open>_degraded_result\<close>.\<close>

definition fallback_or_raise ::
    "(dependency_failure \<Rightarrow> 'x \<Rightarrow> (exn + 'v) \<times> 'x) option \<Rightarrow> nat \<Rightarrow> dependency_failure \<Rightarrow> string
     \<Rightarrow> 'x guard_state \<Rightarrow> (guard_error + 'v call_result) \<times> 'x guard_state" where
  "fallback_or_raise fallback attempts f reason s =
     (case fallback of
        None \<Rightarrow> (Inl (Raised f), s)
      | Some h \<Rightarrow> degraded_result attempts f reason s (h f (gs_outside s)))"

definition guard_execute ::
    "('v, 'x) dependency \<Rightarrow> guard \<Rightarrow> (dependency_failure \<Rightarrow> 'x \<Rightarrow> (exn + 'v) \<times> 'x) option
     \<Rightarrow> 'x guard_state \<Rightarrow> (guard_error + 'v call_result) \<times> 'x guard_state" where
  "guard_execute dep g fallback s0 =
     (let s = transition_open_circuit_if_ready dep g s0 in
      if gs_state s = OPEN
      then fallback_or_raise fallback 0 (own_failure g DEGRADED_MODE ''circuit_open'') ''circuit_open'' s
      else
        let max_attempts = (if gs_state s = HALF_OPEN then 1 else rp_max_attempts (gd_retry g)) in
        (case read_clock dep s of
           (started_at, s1) \<Rightarrow>
             (case run_attempts dep g started_at max_attempts 1 s1 of
                (Won attempts v recovered, s2) \<Rightarrow>
                  (Inr \<lparr>re_status = SUCCEEDED_CALL, re_attempts = attempts, re_value = v,
                        re_error_code = None, re_degraded_reason = None,
                        re_circuit_state = gs_state s2, re_recovered = recovered\<rparr>, s2)
              | (Lost attempts f, s2) \<Rightarrow> fallback_or_raise fallback attempts f ''retry_exhausted'' s2)))"

definition initial_guard_state :: "'x \<Rightarrow> 'x guard_state" where
  "initial_guard_state x =
     \<lparr>gs_state = CLOSED, gs_failures = 0, gs_successes = 0, gs_opened_at = None, gs_outside = x\<rparr>"

section \<open>The breaker\<close>

text \<open>What the state of the breaker guarantees in each of its states.\<close>

definition breaker_ok :: "breaker_policy \<Rightarrow> 'x guard_state \<Rightarrow> bool" where
  "breaker_ok b s \<longleftrightarrow>
     (gs_state s = CLOSED \<longrightarrow> gs_failures s < bp_failure_threshold b \<and> gs_opened_at s = None) \<and>
     (gs_state s \<noteq> CLOSED \<longrightarrow> gs_opened_at s \<noteq> None) \<and>
     (gs_state s = HALF_OPEN \<longrightarrow> gs_successes s < bp_recovery_threshold b) \<and>
     (gs_state s = OPEN \<longrightarrow> gs_successes s = 0)"

definition guard_valid :: "guard \<Rightarrow> bool" where
  "guard_valid g \<longleftrightarrow>
     0 < bp_failure_threshold (gd_breaker g) \<and> 0 < bp_recovery_threshold (gd_breaker g) \<and>
     0 < rp_max_attempts (gd_retry g)"

lemma breaker_outside [simp]: "breaker_ok b (s\<lparr>gs_outside := x\<rparr>) = breaker_ok b s"
  by (simp add: breaker_ok_def)

lemma read_clock_ok: "read_clock dep s = (t, s') \<Longrightarrow> \<exists>x. s' = s\<lparr>gs_outside := x\<rparr>"
  by (auto simp: read_clock_def split: prod.splits)

lemma open_circuit_ok: "breaker_ok b (open_circuit dep s)"
  by (auto simp: open_circuit_def read_clock_def breaker_ok_def split: prod.splits)

lemma record_failure_ok:
  assumes "breaker_ok (gd_breaker g) s"
  shows "breaker_ok (gd_breaker g) (record_failure dep g s)"
proof -
  have "breaker_ok (gd_breaker g) (s\<lparr>gs_failures := Suc (gs_failures s)\<rparr>)"
    if "Suc (gs_failures s) < bp_failure_threshold (gd_breaker g)"
    using assms that by (simp add: breaker_ok_def)
  then show ?thesis
    by (simp add: record_failure_def open_circuit_ok Let_def)
qed

lemma record_success_ok:
  "guard_valid g \<Longrightarrow> breaker_ok (gd_breaker g) s \<Longrightarrow> record_success g s = (r, s') \<Longrightarrow> breaker_ok (gd_breaker g) s'"
  by (auto simp: record_success_def breaker_ok_def guard_valid_def Let_def split: if_splits)

lemma transition_ok:
  "guard_valid g \<Longrightarrow> breaker_ok (gd_breaker g) s \<Longrightarrow>
     breaker_ok (gd_breaker g) (transition_open_circuit_if_ready dep g s)"
  by (auto simp: transition_open_circuit_if_ready_def breaker_ok_def guard_valid_def read_clock_def
      split: option.splits prod.splits)

lemma should_retry_ok:
  assumes "should_retry dep g f a m st s = (r, s')"
  shows "\<exists>x. s' = s\<lparr>gs_outside := x\<rparr>"
proof -
  have "s' = s\<lparr>gs_outside := gs_outside s'\<rparr>"
    using assms
    by (auto simp: should_retry_def read_clock_def split: if_splits option.splits prod.splits)
  then show ?thesis by blast
qed

text \<open>One round of the loop.\<close>

lemma run_attempts_returned:
  "dep_call dep (tb_per_attempt (gd_budget g)) (gs_outside s) = (Returned v, x) \<Longrightarrow>
   record_success g (s\<lparr>gs_outside := x\<rparr>) = (b, s2) \<Longrightarrow> run_attempts dep g st m a s = (Won a v b, s2)"
  by (subst run_attempts.simps) simp

lemma run_attempts_failed:
  "dep_call dep (tb_per_attempt (gd_budget g)) (gs_outside s) = (res, x) \<Longrightarrow> \<forall>v. res \<noteq> Returned v \<Longrightarrow>
   should_retry dep g (failure_of g res) a m st (record_failure dep g (s\<lparr>gs_outside := x\<rparr>)) = (retry, s2) \<Longrightarrow>
   run_attempts dep g st m a s =
     (if retry \<and> a < m
      then run_attempts dep g st m (Suc a)
             (s2\<lparr>gs_outside := dep_sleep dep (delay_for_attempt (gd_retry g) a) (gs_outside s2)\<rparr>)
      else (Lost a (failure_of g res), s2))"
  by (subst run_attempts.simps) (cases res; simp)

text \<open>The loop makes at most \<open>m\<close> attempts and keeps the breaker in order.\<close>

fun attempts_of :: "'v attempts_end \<Rightarrow> nat" where
  "attempts_of (Won n v b) = n"
| "attempts_of (Lost n f) = n"

lemma run_attempts_end:
  assumes "guard_valid g" and "breaker_ok (gd_breaker g) s" and "a \<le> m"
    and "run_attempts dep g st m a s = (r, s')"
  shows "breaker_ok (gd_breaker g) s' \<and> a \<le> attempts_of r \<and> attempts_of r \<le> m"
  using assms(2-)
proof (induction "m - a" arbitrary: a s rule: less_induct)
  case less
  obtain res x where call: "dep_call dep (tb_per_attempt (gd_budget g)) (gs_outside s) = (res, x)"
    by fastforce
  let ?s1 = "s\<lparr>gs_outside := x\<rparr>"
  show ?case
  proof (cases "\<exists>v. res = Returned v")
    case True
    then obtain v where v: "res = Returned v" by blast
    obtain b s2 where win: "record_success g ?s1 = (b, s2)" by fastforce
    have "breaker_ok (gd_breaker g) s2" using record_success_ok [OF assms(1) _ win] less.prems(1) by simp
    then show ?thesis
      using run_attempts_returned [OF call [unfolded v] win] less.prems(2,3) by auto
  next
    case False
    obtain retry s2 where retry: "should_retry dep g (failure_of g res) a m st (record_failure dep g ?s1) = (retry, s2)"
      by fastforce
    note eq = run_attempts_failed [OF call _ retry]
    have s2: "breaker_ok (gd_breaker g) s2"
      using should_retry_ok [OF retry] record_failure_ok [of g ?s1 dep] less.prems(1) by auto
    show ?thesis
    proof (cases "retry \<and> a < m")
      case True
      let ?s3 = "s2\<lparr>gs_outside := dep_sleep dep (delay_for_attempt (gd_retry g) a) (gs_outside s2)\<rparr>"
      have "run_attempts dep g st m (Suc a) ?s3 = (r, s')"
        using eq False True less.prems(3) by simp
      then show ?thesis
        using less.hyps [of "Suc a" ?s3] True s2 by (auto simp: diff_less_mono2)
    next
      case stop: False
      then show ?thesis using eq False less.prems(2,3) s2 by (auto split: if_splits)
    qed
  qed
qed

lemma fallback_or_raise_state:
  "fallback_or_raise fb n f reason s = (r, t) \<Longrightarrow> t = s\<lparr>gs_outside := gs_outside t\<rparr>"
  by (auto simp: fallback_or_raise_def degraded_result_def Let_def
      split: option.splits prod.splits sum.splits)

lemma guard_execute_ok:
  assumes "guard_valid g" and "breaker_ok (gd_breaker g) s" and "guard_execute dep g fb s = (r, t)"
  shows "breaker_ok (gd_breaker g) t"
proof -
  let ?s = "transition_open_circuit_if_ready dep g s"
  have ok: "breaker_ok (gd_breaker g) ?s" using assms(1,2) by (rule transition_ok)
  have after: "breaker_ok (gd_breaker g) t" if "fallback_or_raise fb n f reason u = (r, t)" "breaker_ok (gd_breaker g) u"
    for n f reason u
    using fallback_or_raise_state [OF that(1)] that(2) by (metis breaker_outside)
  show ?thesis
  proof (cases "gs_state ?s = OPEN")
    case True
    then show ?thesis using assms(3) ok after by (simp add: guard_execute_def Let_def)
  next
    case False
    obtain st s1 where clk: "read_clock dep ?s = (st, s1)" by fastforce
    obtain e s2 where run: "run_attempts dep g st (if gs_state ?s = HALF_OPEN then 1 else rp_max_attempts (gd_retry g)) 1 s1 = (e, s2)"
      by fastforce
    have "breaker_ok (gd_breaker g) s1" using ok read_clock_ok [OF clk] by auto
    then have "breaker_ok (gd_breaker g) s2" using run_attempts_end [OF assms(1) _ _ run] assms(1)
      by (auto simp: guard_valid_def split: if_splits)
    then show ?thesis
      using assms(3) False clk run after by (auto simp: guard_execute_def Let_def split: attempts_end.splits)
  qed
qed

text \<open>A result counts the attempts of the loop, and none when the circuit is open.\<close>

lemma fallback_attempts:
  "fallback_or_raise fb n f reason s = (Inr x, t) \<Longrightarrow> re_attempts x = n"
  by (auto simp: fallback_or_raise_def degraded_result_def Let_def split: option.splits prod.splits sum.splits)

lemma guard_execute_attempts:
  assumes "guard_valid g" and "breaker_ok (gd_breaker g) s" and "guard_execute dep g fb s = (Inr x, t)"
  shows "re_attempts x \<le> rp_max_attempts (gd_retry g)"
proof -
  let ?s = "transition_open_circuit_if_ready dep g s"
  let ?m = "if gs_state ?s = HALF_OPEN then 1 else rp_max_attempts (gd_retry g)"
  have ok: "breaker_ok (gd_breaker g) ?s" using assms(1,2) by (rule transition_ok)
  show ?thesis
  proof (cases "gs_state ?s = OPEN")
    case True
    then show ?thesis using assms(3) fallback_attempts by (fastforce simp: guard_execute_def Let_def)
  next
    case False
    obtain st s1 where clk: "read_clock dep ?s = (st, s1)" by fastforce
    obtain e s2 where run: "run_attempts dep g st ?m 1 s1 = (e, s2)" by fastforce
    have "breaker_ok (gd_breaker g) s1" using ok read_clock_ok [OF clk] by auto
    then have "attempts_of e \<le> ?m" using run_attempts_end [OF assms(1) _ _ run] assms(1)
      by (auto simp: guard_valid_def split: if_splits)
    moreover have "?m \<le> rp_max_attempts (gd_retry g)" using assms(1) by (simp add: guard_valid_def)
    moreover have "re_attempts x = attempts_of e"
      using assms(3) False clk run fallback_attempts
      by (cases e) (fastforce simp: guard_execute_def Let_def)+
    ultimately show ?thesis by simp
  qed
qed

end
