(* ===== verification/Cache.thy ===== *)
theory Cache
  imports Tenancy "HOL-Library.Sublist"
begin

text \<open>
  \<open>libs/shared/cache.py\<close>: the tenant cache with time-to-live entries, counters and locks, kept
  in memory. The clock is a sequence of readings; the state counts how many were taken. A stored
  value is its JSON copy, which is the value itself.
\<close>

section \<open>Keys\<close>

definition normalize_key_segment :: "string \<Rightarrow> string \<Rightarrow> exn + string" where
  "normalize_key_segment value label =
     (let n = py_strip value in
      if n = [] then Inl (ValueError label)
      else if CHR '':'' \<in> set n \<or> list_ex py_isspace n then Inl (ValueError label)
      else Inr n)"

definition tenant_cache_prefix :: "tenant_context \<Rightarrow> string \<Rightarrow> string \<Rightarrow> exn + string" where
  "tenant_cache_prefix context namespace pfx =
     ebind (normalize_key_segment pfx ''prefix'') (\<lambda>p.
     ebind (normalize_key_segment (tc_tenant_id context) ''tenant_id'') (\<lambda>t.
     Inr (p @ '':tenant:'' @ t @ '':'' @ namespace @ '':'')))"

definition build_tenant_cache_key ::
    "tenant_context option \<Rightarrow> string \<Rightarrow> string \<Rightarrow> tenant_context option \<Rightarrow> string \<Rightarrow> exn + string" where
  "build_tenant_cache_key ambient namespace key context pfx =
     ebind (resolve_context ambient context) (\<lambda>c.
     ebind (normalize_key_segment namespace ''namespace'') (\<lambda>ns.
     ebind (normalize_key_segment key ''key'') (\<lambda>k.
     ebind (tenant_cache_prefix c ns pfx) (\<lambda>p. Inr (p @ k)))))"

definition build_tenant_lock_key ::
    "tenant_context option \<Rightarrow> string \<Rightarrow> string \<Rightarrow> tenant_context option \<Rightarrow> string \<Rightarrow> exn + string" where
  "build_tenant_lock_key ambient namespace key context pfx =
     ebind (normalize_key_segment namespace ''namespace'') (\<lambda>ns.
     build_tenant_cache_key ambient (''locks.'' @ ns) key context pfx)"

definition normalize_owner :: "string \<Rightarrow> exn + string" where
  "normalize_owner owner =
     (let n = py_strip owner in if n = [] then Inl (ValueError ''owner'') else Inr n)"

section \<open>The cache\<close>

record cache_entry =
  ce_value :: json
  ce_expires_at :: "rat option"

record lock_entry =
  le_owner :: string
  le_expires_at :: rat

record cache_state =
  cs_entries :: "(string, cache_entry) dict"
  cs_locks :: "(string, lock_entry) dict"
  cs_readings :: nat

record cache_config =
  cc_prefix :: string
  cc_default_ttl :: int
  cc_lock_ttl :: int
  cc_clock :: "nat \<Rightarrow> rat"
  cc_ambient :: "tenant_context option"

definition make_cache ::
    "string \<Rightarrow> int \<Rightarrow> int \<Rightarrow> (nat \<Rightarrow> rat) \<Rightarrow> tenant_context option \<Rightarrow> exn + cache_config" where
  "make_cache pfx default_ttl lock_ttl clock ambient =
     (if default_ttl \<le> 0 then Inl (ValueError ''default_ttl_seconds'')
      else if lock_ttl \<le> 0 then Inl (ValueError ''lock_ttl_seconds'')
      else ebind (normalize_key_segment pfx ''key_prefix'') (\<lambda>p.
        Inr \<lparr>cc_prefix = p, cc_default_ttl = default_ttl, cc_lock_ttl = lock_ttl,
             cc_clock = clock, cc_ambient = ambient\<rparr>))"

type_synonym 'a cache_act = "(cache_state, 'a) act"

definition clock_now :: "cache_config \<Rightarrow> rat cache_act" where
  "clock_now cc =
     bnd (gets cs_readings) (\<lambda>n.
     bnd (modify (\<lambda>s. s\<lparr>cs_readings := Suc (cs_readings s)\<rparr>)) (\<lambda>_.
     ret (cc_clock cc n)))"

definition positive_ttl :: "int option \<Rightarrow> int \<Rightarrow> exn + int" where
  "positive_ttl ttl_seconds dflt =
     (let ttl = (case ttl_seconds of None \<Rightarrow> dflt | Some t \<Rightarrow> t) in
      if ttl \<le> 0 then Inl (ValueError ''ttl_seconds'') else Inr ttl)"

definition expires_at :: "cache_config \<Rightarrow> int option \<Rightarrow> int \<Rightarrow> rat cache_act" where
  "expires_at cc ttl_seconds dflt =
     bnd (clock_now cc) (\<lambda>now.
     bnd (lift (positive_ttl ttl_seconds dflt)) (\<lambda>ttl.
     ret (now + of_int ttl)))"

definition entry_live :: "rat \<Rightarrow> cache_entry \<Rightarrow> bool" where
  "entry_live now e \<longleftrightarrow> (case ce_expires_at e of None \<Rightarrow> True | Some t \<Rightarrow> now < t)"

definition purge :: "rat \<Rightarrow> cache_state \<Rightarrow> cache_state" where
  "purge now s =
     s\<lparr>cs_entries := filter (\<lambda>kv. entry_live now (snd kv)) (cs_entries s),
       cs_locks := filter (\<lambda>kv. now < le_expires_at (snd kv)) (cs_locks s)\<rparr>"

definition purge_expired :: "cache_config \<Rightarrow> unit cache_act" where
  "purge_expired cc = bnd (clock_now cc) (\<lambda>now. modify (purge now))"

definition cache_key ::
    "cache_config \<Rightarrow> string \<Rightarrow> string \<Rightarrow> tenant_context option \<Rightarrow> exn + string" where
  "cache_key cc namespace key context =
     build_tenant_cache_key (cc_ambient cc) namespace key context (cc_prefix cc)"

definition lock_key ::
    "cache_config \<Rightarrow> string \<Rightarrow> string \<Rightarrow> tenant_context option \<Rightarrow> exn + string" where
  "lock_key cc namespace key context =
     build_tenant_lock_key (cc_ambient cc) namespace key context (cc_prefix cc)"

definition get_json ::
    "cache_config \<Rightarrow> string \<Rightarrow> string \<Rightarrow> tenant_context option \<Rightarrow> json option cache_act" where
  "get_json cc namespace key context =
     bnd (purge_expired cc) (\<lambda>_.
     bnd (lift (cache_key cc namespace key context)) (\<lambda>k.
     gets (\<lambda>s. map_option ce_value (map_of (cs_entries s) k))))"

definition store_entry :: "string \<Rightarrow> json \<Rightarrow> rat \<Rightarrow> cache_state \<Rightarrow> cache_state" where
  "store_entry k v t s =
     s\<lparr>cs_entries := AList.update k \<lparr>ce_value = v, ce_expires_at = Some t\<rparr> (cs_entries s)\<rparr>"

definition set_json ::
    "cache_config \<Rightarrow> string \<Rightarrow> string \<Rightarrow> json \<Rightarrow> tenant_context option \<Rightarrow> int option \<Rightarrow> unit cache_act" where
  "set_json cc namespace key value context ttl_seconds =
     bnd (lift (cache_key cc namespace key context)) (\<lambda>k.
     bnd (expires_at cc ttl_seconds (cc_default_ttl cc)) (\<lambda>t.
     modify (store_entry k value t)))"

definition cache_delete ::
    "cache_config \<Rightarrow> string \<Rightarrow> string \<Rightarrow> tenant_context option \<Rightarrow> bool cache_act" where
  "cache_delete cc namespace key context =
     bnd (lift (cache_key cc namespace key context)) (\<lambda>k.
     bnd (gets (\<lambda>s. map_of (cs_entries s) k \<noteq> None)) (\<lambda>present.
     bnd (modify (\<lambda>s. s\<lparr>cs_entries := AList.delete k (cs_entries s)\<rparr>)) (\<lambda>_.
     ret present)))"

definition invalidate_namespace ::
    "cache_config \<Rightarrow> string \<Rightarrow> tenant_context option \<Rightarrow> nat cache_act" where
  "invalidate_namespace cc namespace context =
     bnd (lift (resolve_context (cc_ambient cc) context)) (\<lambda>c.
     bnd (lift (normalize_key_segment namespace ''namespace'')) (\<lambda>ns.
     bnd (lift (tenant_cache_prefix c ns (cc_prefix cc))) (\<lambda>p.
     bnd (gets (\<lambda>s. length (filter (\<lambda>kv. prefix p (fst kv)) (cs_entries s)))) (\<lambda>n.
     bnd (modify (\<lambda>s. s\<lparr>cs_entries := filter (\<lambda>kv. \<not> prefix p (fst kv)) (cs_entries s)\<rparr>)) (\<lambda>_.
     ret n)))))"

definition counter_value :: "cache_entry option \<Rightarrow> exn + int" where
  "counter_value e =
     (case e of
        None \<Rightarrow> Inr 0
      | Some x \<Rightarrow> (case ce_value x of JInt i \<Rightarrow> Inr i | _ \<Rightarrow> Inl (TypeError ''counter'')))"

definition increment ::
    "cache_config \<Rightarrow> string \<Rightarrow> string \<Rightarrow> tenant_context option \<Rightarrow> int \<Rightarrow> int option \<Rightarrow> int cache_act" where
  "increment cc namespace key context amount ttl_seconds =
     bnd (lift (cache_key cc namespace key context)) (\<lambda>k.
     bnd (purge_expired cc) (\<lambda>_.
     bnd (gets (\<lambda>s. map_of (cs_entries s) k)) (\<lambda>e.
     bnd (lift (counter_value e)) (\<lambda>current.
     bnd (expires_at cc ttl_seconds (cc_default_ttl cc)) (\<lambda>t.
     bnd (modify (store_entry k (JInt (current + amount)) t)) (\<lambda>_.
     ret (current + amount)))))))"

definition acquire_lock ::
    "cache_config \<Rightarrow> string \<Rightarrow> string \<Rightarrow> string \<Rightarrow> tenant_context option \<Rightarrow> int option \<Rightarrow> bool cache_act" where
  "acquire_lock cc namespace key owner context ttl_seconds =
     bnd (lift (lock_key cc namespace key context)) (\<lambda>k.
     bnd (purge_expired cc) (\<lambda>_.
     bnd (gets (\<lambda>s. map_of (cs_locks s) k \<noteq> None)) (\<lambda>held.
     if held then ret False
     else
       bnd (lift (normalize_owner owner)) (\<lambda>name.
       bnd (expires_at cc ttl_seconds (cc_lock_ttl cc)) (\<lambda>t.
       bnd (modify (\<lambda>s. s\<lparr>cs_locks :=
              AList.update k \<lparr>le_owner = name, le_expires_at = t\<rparr> (cs_locks s)\<rparr>)) (\<lambda>_.
       ret True))))))"

definition release_lock ::
    "cache_config \<Rightarrow> string \<Rightarrow> string \<Rightarrow> string \<Rightarrow> tenant_context option \<Rightarrow> bool cache_act" where
  "release_lock cc namespace key owner context =
     bnd (lift (lock_key cc namespace key context)) (\<lambda>k.
     bnd (purge_expired cc) (\<lambda>_.
     bnd (gets (\<lambda>s. map_of (cs_locks s) k)) (\<lambda>held.
     case held of
       None \<Rightarrow> ret False
     | Some l \<Rightarrow>
         bnd (lift (normalize_owner owner)) (\<lambda>name.
         if le_owner l \<noteq> name then ret False
         else
           bnd (modify (\<lambda>s. s\<lparr>cs_locks := AList.delete k (cs_locks s)\<rparr>)) (\<lambda>_.
           ret True)))))"

section \<open>Keys belong to one tenant, namespace and key\<close>

lemma normalize_key_segment_Inr:
  "normalize_key_segment v l = Inr n \<Longrightarrow> n \<noteq> [] \<and> CHR '':'' \<notin> set n \<and> n = py_strip v"
  by (auto simp: normalize_key_segment_def Let_def split: if_splits)

lemma append_sep_eq:
  "c \<notin> set a \<Longrightarrow> c \<notin> set b \<Longrightarrow> a @ c # x = b @ c # y \<longleftrightarrow> a = b \<and> x = y"
proof (induction a arbitrary: b)
  case Nil
  then show ?case by (cases b) auto
next
  case (Cons h a)
  then show ?case by (cases b) auto
qed

text \<open>The four segments of a key can be read back.\<close>

definition segments :: "string \<Rightarrow> string \<Rightarrow> string \<Rightarrow> string \<Rightarrow> string" where
  "segments p t ns k = p @ '':tenant:'' @ t @ '':'' @ ns @ '':'' @ k"

lemma segments_inj:
  assumes "CHR '':'' \<notin> set p" "CHR '':'' \<notin> set t" "CHR '':'' \<notin> set ns"
    and "CHR '':'' \<notin> set p'" "CHR '':'' \<notin> set t'" "CHR '':'' \<notin> set ns'"
  shows "segments p t ns k = segments p' t' ns' k' \<longleftrightarrow> p = p' \<and> t = t' \<and> ns = ns' \<and> k = k'"
proof
  assume "segments p t ns k = segments p' t' ns' k'"
  then have "p @ CHR '':'' # (''tenant:'' @ t @ CHR '':'' # ns @ CHR '':'' # k) =
      p' @ CHR '':'' # (''tenant:'' @ t' @ CHR '':'' # ns' @ CHR '':'' # k')"
    by (simp add: segments_def)
  then have p: "p = p'" and "t @ CHR '':'' # (ns @ CHR '':'' # k) = t' @ CHR '':'' # (ns' @ CHR '':'' # k')"
    using append_sep_eq [OF assms(1,4)] by blast+
  then have t: "t = t'" and "ns @ CHR '':'' # k = ns' @ CHR '':'' # k'"
    using append_sep_eq [OF assms(2,5)] by blast+
  then show "p = p' \<and> t = t' \<and> ns = ns' \<and> k = k'"
    using p append_sep_eq [OF assms(3,6)] by blast
qed simp

lemma tenant_cache_prefix_Inr:
  assumes "tenant_cache_prefix c ns p = Inr x"
  shows "x = segments (py_strip p) (py_strip (tc_tenant_id c)) ns [] \<and>
    CHR '':'' \<notin> set (py_strip p) \<and> CHR '':'' \<notin> set (py_strip (tc_tenant_id c))"
proof -
  obtain p' t where "normalize_key_segment p ''prefix'' = Inr p'"
      "normalize_key_segment (tc_tenant_id c) ''tenant_id'' = Inr t"
      "x = p' @ '':tenant:'' @ t @ '':'' @ ns @ '':''"
    using assms unfolding tenant_cache_prefix_def ebind_Inr by blast
  then show ?thesis
    using normalize_key_segment_Inr unfolding segments_def by (metis append_Nil2)
qed

lemma build_tenant_cache_key_Inr:
  assumes "build_tenant_cache_key amb ns k ctx p = Inr x"
  obtains c where "resolve_context amb ctx = Inr c"
    "x = segments (py_strip p) (py_strip (tc_tenant_id c)) (py_strip ns) (py_strip k)"
    "CHR '':'' \<notin> set (py_strip p)" "CHR '':'' \<notin> set (py_strip (tc_tenant_id c))"
    "CHR '':'' \<notin> set (py_strip ns)" "CHR '':'' \<notin> set (py_strip k)"
proof -
  obtain c ns' k' q where c: "resolve_context amb ctx = Inr c"
      and n: "normalize_key_segment ns ''namespace'' = Inr ns'" "normalize_key_segment k ''key'' = Inr k'"
      and q: "tenant_cache_prefix c ns' p = Inr q" and x: "x = q @ k'"
    using assms unfolding build_tenant_cache_key_def ebind_Inr by blast
  note ns = normalize_key_segment_Inr [OF n(1)] and k = normalize_key_segment_Inr [OF n(2)]
  note pf = tenant_cache_prefix_Inr [OF q]
  have "x = segments (py_strip p) (py_strip (tc_tenant_id c)) (py_strip ns) (py_strip k)"
    using pf ns k x by (simp add: segments_def)
  then show thesis using pf ns k by (intro that [OF c]) blast+
qed

lemma prefix_segments:
  assumes "CHR '':'' \<notin> set p" "CHR '':'' \<notin> set t" "CHR '':'' \<notin> set ns"
    and "CHR '':'' \<notin> set p'" "CHR '':'' \<notin> set t'" "CHR '':'' \<notin> set ns'"
  shows "prefix (segments p t ns []) (segments p' t' ns' k) \<longleftrightarrow> p = p' \<and> t = t' \<and> ns = ns'"
proof
  assume "prefix (segments p t ns []) (segments p' t' ns' k)"
  then obtain z where z: "segments p' t' ns' k = segments p t ns [] @ z" unfolding prefix_def by blast
  have "segments p t ns [] @ z = segments p t ns z" unfolding segments_def append_assoc append_Nil ..
  with z have "segments p' t' ns' k = segments p t ns z" by (simp only:)
  then show "p = p' \<and> t = t' \<and> ns = ns'" using segments_inj [OF assms(4,5,6,1,2,3)] by blast
next
  assume "p = p' \<and> t = t' \<and> ns = ns'"
  moreover have "segments p t ns k = segments p t ns [] @ k" unfolding segments_def append_assoc append_Nil ..
  ultimately show "prefix (segments p t ns []) (segments p' t' ns' k)"
    by (simp only: prefixI)
qed

section \<open>What the operations do\<close>

lemma cache_key_tenant:
  assumes "cache_key cc ns k (Some c) = Inr y" and "cache_key cc ns' k' (Some c') = Inr x"
    and "py_strip (tc_tenant_id c) \<noteq> py_strip (tc_tenant_id c')"
  shows "y \<noteq> x"
proof -
  obtain a b where "resolve_context (cc_ambient cc) (Some c) = Inr a" "resolve_context (cc_ambient cc) (Some c') = Inr b"
      and y: "y = segments (py_strip (cc_prefix cc)) (py_strip (tc_tenant_id a)) (py_strip ns) (py_strip k)"
      and x: "x = segments (py_strip (cc_prefix cc)) (py_strip (tc_tenant_id b)) (py_strip ns') (py_strip k')"
      and no: "CHR '':'' \<notin> set (py_strip (cc_prefix cc))" "CHR '':'' \<notin> set (py_strip (tc_tenant_id a))"
        "CHR '':'' \<notin> set (py_strip ns)" "CHR '':'' \<notin> set (py_strip (tc_tenant_id b))" "CHR '':'' \<notin> set (py_strip ns')"
    using assms(1,2) unfolding cache_key_def by (metis build_tenant_cache_key_Inr)
  then have "a = c" "b = c'" by (simp_all add: resolve_context_def)
  then show ?thesis
    using assms(3) x y segments_inj [OF no(1,2,3,1,4,5)] by blast
qed

lemma prefix_tenant:
  assumes "tenant_cache_prefix c ns (cc_prefix cc) = Inr p" and "CHR '':'' \<notin> set ns"
    and "cache_key cc ns' k' (Some c') = Inr x"
    and "py_strip (tc_tenant_id c) \<noteq> py_strip (tc_tenant_id c')"
  shows "\<not> prefix p x"
proof -
  obtain b where "resolve_context (cc_ambient cc) (Some c') = Inr b"
      and x: "x = segments (py_strip (cc_prefix cc)) (py_strip (tc_tenant_id b)) (py_strip ns') (py_strip k')"
      and no: "CHR '':'' \<notin> set (py_strip (cc_prefix cc))" "CHR '':'' \<notin> set (py_strip (tc_tenant_id b))"
        "CHR '':'' \<notin> set (py_strip ns')"
    using assms(3) unfolding cache_key_def by (metis build_tenant_cache_key_Inr)
  then have "b = c'" by (simp add: resolve_context_def)
  then show ?thesis
    using assms(4) x tenant_cache_prefix_Inr [OF assms(1)] prefix_segments [OF no(1) _ assms(2) no] by blast
qed

lemma map_of_filter_keep:
  "(\<And>v. P (x, v)) \<Longrightarrow> map_of (filter P d) x = map_of d x"
  by (induction d) auto

lemma map_of_filter_dict:
  "dict_ok d \<Longrightarrow> map_of (filter (\<lambda>kv. P (snd kv)) d) x = (case map_of d x of Some v \<Rightarrow> if P v then Some v else None | None \<Rightarrow> None)"
proof (induction d)
  case (Cons kv d)
  obtain k v where "kv = (k, v)" by (cases kv)
  moreover have "map_of d k = None" using Cons.prems \<open>kv = (k, v)\<close> by (auto simp: dict_ok_def map_of_eq_None_iff)
  ultimately show ?case using Cons by (auto simp: dict_ok_def)
qed simp

lemma dict_ok_filter: "dict_ok d \<Longrightarrow> dict_ok (filter P d)"
  unfolding dict_ok_def by (induction d) auto

lemma set_json_rule:
  assumes "\<And>e t. cs_entries t = cs_entries s \<Longrightarrow> Q (Inl e) t"
    and "\<And>k. cache_key cc ns key ctx = Inr k \<Longrightarrow>
           Q (Inr ()) (store_entry k v (cc_clock cc (cs_readings s) +
                of_int (case ttl of None \<Rightarrow> cc_default_ttl cc | Some n \<Rightarrow> n))
             (s\<lparr>cs_readings := Suc (cs_readings s)\<rparr>))"
  shows "outcome (set_json cc ns key v ctx ttl) Q s"
  using assms
  by (auto simp: set_json_def expires_at_def clock_now_def positive_ttl_def act_simps Let_def split: sum.splits)

lemma cache_delete_rule:
  assumes "\<And>e. Q (Inl e) s"
    and "\<And>k b. cache_key cc ns key ctx = Inr k \<Longrightarrow> Q (Inr b) (s\<lparr>cs_entries := AList.delete k (cs_entries s)\<rparr>)"
  shows "outcome (cache_delete cc ns key ctx) Q s"
  using assms by (auto simp: cache_delete_def act_simps split: sum.splits)

lemma invalidate_namespace_rule:
  assumes "\<And>e. Q (Inl e) s"
    and "\<And>c n p b. resolve_context (cc_ambient cc) ctx = Inr c \<Longrightarrow> normalize_key_segment ns ''namespace'' = Inr n \<Longrightarrow>
           tenant_cache_prefix c n (cc_prefix cc) = Inr p \<Longrightarrow>
           Q (Inr b) (s\<lparr>cs_entries := filter (\<lambda>kv. \<not> prefix p (fst kv)) (cs_entries s)\<rparr>)"
  shows "outcome (invalidate_namespace cc ns ctx) Q s"
  using assms by (auto simp: invalidate_namespace_def act_simps split: sum.splits)

lemma acquire_lock_rule:
  assumes "\<And>r t. r \<noteq> Inr True \<Longrightarrow> Q r t"
    and "\<And>k name t. lock_key cc ns key ctx = Inr k \<Longrightarrow> normalize_owner own = Inr name \<Longrightarrow>
           t = purge (cc_clock cc (cs_readings s)) s \<Longrightarrow> map_of (cs_locks t) k = None \<Longrightarrow>
           Q (Inr True) (t\<lparr>cs_readings := cs_readings s + 2, cs_locks := AList.update k
             \<lparr>le_owner = name, le_expires_at = cc_clock cc (Suc (cs_readings s)) +
                of_int (case ttl of None \<Rightarrow> cc_lock_ttl cc | Some n \<Rightarrow> n)\<rparr> (cs_locks t)\<rparr>)"
  shows "outcome (acquire_lock cc ns key own ctx ttl) Q s"
  using assms(1) assms(2) [OF _ _ refl]
  by (auto simp: acquire_lock_def purge_expired_def expires_at_def clock_now_def positive_ttl_def act_simps
      purge_def Let_def split: sum.splits)

text \<open>What happens on a lock that is held and has not expired.\<close>

lemma held_lock:
  assumes "lock_key cc ns key ctx = Inr k" and "dict_ok (cs_locks s)" and "map_of (cs_locks s) k = Some l"
    and "cc_clock cc (cs_readings s) < le_expires_at l"
  shows "fst (acquire_lock cc ns key own ctx ttl s) = Inr False"
    and "normalize_owner own = Inr name \<Longrightarrow> fst (release_lock cc ns key own ctx s) = Inr (le_owner l = name)"
proof -
  let ?s = "purge (cc_clock cc (cs_readings s)) (s\<lparr>cs_readings := Suc (cs_readings s)\<rparr>)"
  have "map_of (cs_locks ?s) k = Some l"
    using assms(2-4) map_of_filter_dict [of "cs_locks s" "\<lambda>l. cc_clock cc (cs_readings s) < le_expires_at l" k]
    by (simp add: purge_def)
  then show "fst (acquire_lock cc ns key own ctx ttl s) = Inr False"
    and "normalize_owner own = Inr name \<Longrightarrow> fst (release_lock cc ns key own ctx s) = Inr (le_owner l = name)"
    using assms(1)
    by (simp_all add: acquire_lock_def release_lock_def purge_expired_def clock_now_def bnd_def act_eval)
qed

end
