(* ===== verification/SharedProperties.thy ===== *)
theory SharedProperties
  imports Redaction Events Rbac Resilience Cache Samples
begin

text \<open>
  The properties of the shared libraries: audit metadata and hashes, events and topics, tenant
  isolation, role-based access, the circuit breaker, and the tenant cache.
\<close>

section \<open>Audit\<close>


text \<open>The audit hash of an event does not depend on the order in which the keys of its metadata, at
  any depth, were inserted.\<close>

theorem audit_hash_ignores_key_order:
  assumes "json_same (JObj m) (JObj m')" and "json_ok (JObj m)" and "json_ok (JObj m')"
  shows "audit_hash rt event_type tenant points (Some m) time = audit_hash rt event_type tenant points (Some m') time"
  using json_sorted_same [OF assms]
  by (simp add: audit_hash_def build_audit_payload_def clone_metadata_def del: json_sorted.simps)

theorem audit_hash_ignores_key_order_witness:
  "audit_hash sample_runtime ''a.b'' ''t'' None (Some [(''x'', JInt 1), (''y'', JInt 2)]) NoTime =
   audit_hash sample_runtime ''a.b'' ''t'' None (Some [(''y'', JInt 2), (''x'', JInt 1)]) NoTime"
proof (rule audit_hash_ignores_key_order)
  show "json_same (JObj [(''x'', JInt 1), (''y'', JInt 2)]) (JObj [(''y'', JInt 2), (''x'', JInt 1)])"
    by (rule same_obj [of _ "[(''x'', JInt 1), (''y'', JInt 2)]"]) (simp_all add: same_atom add_mset_commute)
qed simp_all

section \<open>Events\<close>

text \<open>C14. A binding pattern matches a routing key exactly as AMQP topics prescribe: a star stands for one
  word, a hash for any number of words, every other word for itself.\<close>

theorem topic_matching_is_amqp:
  assumes "topic_matches binding key = Inr b"
  shows "b = topic_spec (split_on (CHR ''.'') (py_strip binding)) (split_on (CHR ''.'') (py_strip key))"
  using assms by (auto simp: topic_matches_def normalize_binding_key_def topic_parts_match_spec
      dest: normalize_token_Inr)

theorem topic_matching_is_amqp_witness:
  "topic_spec (split_on (CHR ''.'') (py_strip ''a.*.#'')) (split_on (CHR ''.'') (py_strip ''a.b.c.d''))"
proof -
  have "topic_matches ''a.*.#'' ''a.b.c.d'' = Inr True" by code_simp
  from topic_matching_is_amqp [OF this] show ?thesis by simp
qed

lemma published_topic:
  assumes "envelope_ok (pub_envelope m)" and "published_event (pub_envelope m) = Inr m"
    and "normalize_binding_key binding = Inr b"
  shows "\<exists>r. topic_matches binding (pub_routing_key m) = Inr r"
proof -
  let ?e = "pub_envelope m"
  have "normalize_token (ev_tenant_id ?e) ''tenant_id'' = Inr (ev_tenant_id ?e)"
    using assms(1) by (auto simp: envelope_ok_def normalize_routing_segment_def split: if_splits)
  then have "\<forall>c\<in>set (ev_tenant_id ?e). \<not> py_isspace c"
    by (auto simp: normalize_token_def Let_def list_ex_iff split: if_splits)
  moreover have "\<forall>c\<in>set (ev_type ?e). \<not> py_isspace c"
    using assms(1) event_type_no_space
    by (auto simp: envelope_ok_def normalize_event_type_def Let_def split: if_splits)
  moreover have key: "pub_routing_key m = ''tenant.'' @ ev_tenant_id ?e @ ''.'' @ ev_type ?e"
    using published_event_ok [OF assms(1)] assms(2) by (metis published.select_convs(2) sum.inject(2))
  ultimately have "\<forall>c\<in>set (pub_routing_key m). \<not> py_isspace c"
    by (auto simp: py_isspace_def)
  then have "normalize_binding_key (pub_routing_key m) = Inr (pub_routing_key m)"
    using key by (simp add: normalize_binding_key_def normalize_token_def Let_def list_ex_iff list_all_iff py_strip_def)
  then show ?thesis using assms(3) by (simp add: topic_matches_def)
qed

text \<open>A consumer of the bus receives the first messages that match its binding, up to its limit and in
  the order of publication; all other messages stay on the bus in order, and none is lost or copied.\<close>

theorem consume_splits_the_bus:
  assumes "\<And>m. m \<in> set ms \<Longrightarrow> envelope_ok (pub_envelope m) \<and> published_event (pub_envelope m) = Inr m"
    and "normalize_binding_key binding = Inr b" and "limit = None \<or> limit = Some (int n) \<and> 0 < n"
  shows "\<exists>taken rest. bus_consume binding limit ms = (Inr (map pub_envelope taken), rest) \<and>
    taken = take (if limit = None then length ms else n) (filter (bus_match binding) ms) \<and>
    mset taken + mset rest = mset ms \<and>
    filter (\<lambda>m. \<not> bus_match binding m) rest = filter (\<lambda>m. \<not> bus_match binding m) ms"
proof -
  let ?k = "if limit = None then length ms else n"
  let ?s = "split_first ?k (bus_match binding) ms"
  have "consume_loop binding (map_option nat limit) ms [] [] = Inr (map pub_envelope (fst ?s), snd ?s)"
    using assms published_topic
    by (subst consume_loop_split [of _ _ ?k]) (auto split: option.splits)
  moreover have "filter (\<lambda>m. \<not> bus_match binding m) (snd ?s) = filter (\<lambda>m. \<not> bus_match binding m) ms"
    by (rule split_first_rest)
  ultimately show ?thesis
    using assms(3) split_first_taken [of ?k "bus_match binding" ms] split_first_mset [of ?k "bus_match binding" ms]
    by (intro exI [of _ "fst ?s"] exI [of _ "snd ?s"]) (auto simp: bus_consume_def)
qed

definition sample_message :: "string \<Rightarrow> string \<Rightarrow> published" where
  "sample_message i ty =
     \<lparr>pub_envelope = \<lparr>ev_event_id = i, ev_type = ty, ev_schema_version = ''1.0'', ev_tenant_id = ''t'',
        ev_source = ''s'', ev_correlation_id = ''c'', ev_occurred_at = 0, ev_payload = [],
        ev_causation_id = None\<rparr>,
      pub_routing_key = ''tenant.t.'' @ ty\<rparr>"

theorem consume_splits_the_bus_witness:
  "\<exists>rest. bus_consume ''tenant.*.a.#'' None [sample_message ''1'' ''a.b'', sample_message ''2'' ''b.a''] =
     (Inr (map pub_envelope [sample_message ''1'' ''a.b'']), rest)"
proof -
  let ?ms = "[sample_message ''1'' ''a.b'', sample_message ''2'' ''b.a'']"
  have ok: "list_all (\<lambda>m. envelope_ok (pub_envelope m) \<and> published_event (pub_envelope m) = Inr m) ?ms"
    by (simp add: sample_message_def envelope_ok_def published_event_def routing_key_def event_routing_key_def
        normalize_token_def normalize_routing_segment_def normalize_event_type_def
        normalize_schema_version_def event_type_shape_def schema_version_shape_def word_ok_def word_char_def text_defs)
  have "normalize_binding_key ''tenant.*.a.#'' = Inr ''tenant.*.a.#''"
    by (simp add: normalize_binding_key_def normalize_token_def text_defs)
  moreover have "filter (bus_match ''tenant.*.a.#'') ?ms = [sample_message ''1'' ''a.b'']" by code_simp
  ultimately show ?thesis
    using consume_splits_the_bus [of ?ms "''tenant.*.a.#''" "''tenant.*.a.#''" None 0] ok
    by (auto simp: list_all_iff)
qed

text \<open>An envelope that was constructed is read back from its dictionary unchanged.\<close>

theorem envelope_dict_roundtrip:
  assumes "envelope_ok e"
    and "rt_fromiso rt (rt_isoformat rt (ev_occurred_at e)) = Some (Aware (ev_occurred_at e) 0)"
  shows "envelope_from_dict rt (envelope_to_dict rt e) = Inr e"
  using assms
  by (cases e; cases "ev_causation_id e")
    (auto simp: envelope_from_dict_def envelope_to_dict_def required_string_def optional_string_def
      parse_event_datetime_def event_envelope_def envelope_ok_def)

theorem envelope_dict_roundtrip_witness:
  "envelope_from_dict sample_runtime (envelope_to_dict sample_runtime (pub_envelope (sample_message ''1'' ''a.b''))) =
   Inr (pub_envelope (sample_message ''1'' ''a.b''))"
  by (rule envelope_dict_roundtrip)
    (simp_all add: sample_message_def sample_runtime_def envelope_ok_def normalize_token_def
      normalize_routing_segment_def normalize_event_type_def normalize_schema_version_def event_type_shape_def
      schema_version_shape_def word_ok_def word_char_def text_defs)

text \<open>C23. However often an event is delivered and whichever handlers run, it is handled successfully at
  most once: after a delivery that returned \<open>True\<close>, every later delivery of the same event
  identifier returns \<open>False\<close>.\<close>

theorem event_handled_at_most_once:
  assumes "i < j" "j < length ds" "ev_event_id (fst (ds ! i)) = ev_event_id (fst (ds ! j))"
    and "deliver ds s ! i = Inr True"
  shows "deliver ds s ! j = Inr False"
  by (rule deliver_once [OF assms])

definition sample_event :: envelope where
  "sample_event =
     \<lparr>ev_event_id = ''e'', ev_type = ''a.b'', ev_schema_version = ''1.0'', ev_tenant_id = ''t'',
      ev_source = ''s'', ev_correlation_id = ''c'', ev_occurred_at = 0, ev_payload = [],
      ev_causation_id = None\<rparr>"

text \<open>The first handler fails, the second succeeds, the third is not called.\<close>

definition sample_deliveries :: "(envelope \<times> (envelope \<Rightarrow> (nat, unit) act)) list" where
  "sample_deliveries =
     [(sample_event, \<lambda>_. fail (ExternalError ''x'')), (sample_event, \<lambda>_. modify Suc), (sample_event, \<lambda>_. modify Suc)]"

theorem event_handled_at_most_once_witness:
  "deliver sample_deliveries (\<lparr>in_progress = {}, completed = {}\<rparr>, 0) ! 2 = Inr False"
proof -
  have n: "normalize_token (ev_event_id sample_event) ''event_id'' = Inr ''e''"
    by (simp add: normalize_token_def sample_event_def text_defs)
  have "deliver sample_deliveries (\<lparr>in_progress = {}, completed = {}\<rparr>, 0) ! 1 = Inr True"
    by (simp add: sample_deliveries_def idempotent_handle_cases [OF n] act_eval)
  from event_handled_at_most_once [OF _ _ _ this, of 2] show ?thesis
    by (simp add: sample_deliveries_def)
qed

section \<open>Tenants and roles\<close>

text \<open>Header values that travel unchanged: not empty, and without white space at the ends.\<close>

definition header_text :: "string \<Rightarrow> bool" where
  "header_text v \<longleftrightarrow> v \<noteq> [] \<and> py_strip v = v"

lemma join_with_strip:
  assumes "rs \<noteq> []" and "\<forall>r\<in>set rs. header_text r"
  shows "py_strip (join_with '','' rs) = join_with '','' rs \<and> join_with '','' rs \<noteq> [] \<and>
    hd (join_with '','' rs) = hd (hd rs)"
proof -
  have ends: "\<not> py_isspace (hd r) \<and> \<not> py_isspace (last r)" if "r \<in> set rs" for r
    using assms(2) that strip_with_ends [of py_isspace r] by (auto simp: header_text_def py_strip_def)
  have "join_with '','' rs \<noteq> [] \<and> hd (join_with '','' rs) = hd (hd rs) \<and>
      last (join_with '','' rs) = last (last rs)"
    using assms
  proof (induction rs rule: induct_list012)
    case (3 x y zs)
    then show ?case by (auto simp: header_text_def)
  qed (auto simp: header_text_def)
  then show ?thesis
    using ends [of "hd rs"] ends [of "last rs"] assms(1) by (auto simp: py_strip_def intro: strip_with_hd_last)
qed

lemma roles_roundtrip:
  assumes "rs \<noteq> []" and "\<forall>r\<in>set rs. header_text r \<and> CHR '','' \<notin> set r"
  shows "roles_from_header (Some (py_strip (join_with '','' rs))) = Inr rs"
proof -
  have "split_on (CHR '','') (join_with '','' rs) = rs"
    using assms by (intro split_on_join) auto
  moreover have "map py_strip rs = rs" "filter (\<lambda>r. py_strip r \<noteq> []) rs = rs"
    using assms(2) by (auto simp: header_text_def map_idI filter_id_conv)
  ultimately show ?thesis
    using join_with_strip [OF assms(1)] assms(2) by (simp add: roles_from_header_def Let_def)
qed

lemma header_lower [simp]:
  "py_lower TENANT_ID_HEADER = TENANT_ID_HEADER" "py_lower SUBJECT_ID_HEADER = SUBJECT_ID_HEADER"
  "py_lower ACTOR_ROLES_HEADER = ACTOR_ROLES_HEADER" "py_lower CORRELATION_ID_HEADER = CORRELATION_ID_HEADER"
  "py_lower SERVICE_NAME_HEADER = SERVICE_NAME_HEADER" "py_lower FORWARDED_PREFIX_HEADER = FORWARDED_PREFIX_HEADER"
  "py_lower ORIGINAL_PATH_HEADER = ORIGINAL_PATH_HEADER"
  by (simp_all add: header_names text_defs)

lemmas header_neq = header_distinct [unfolded distinct.simps list.set insert_iff empty_iff de_Morgan_disj]

lemma headers_one [simp]: "map_of (normalize_headers [(k, v)]) k' = (if k' = py_lower k then Some (py_strip v) else None)"
  by (simp add: normalize_headers_def)

lemma headers_opt [simp]:
  "map_of (normalize_headers (h @ opt_header k v)) k' =
     (if k' = py_lower k \<and> v \<noteq> None then map_option py_strip v else map_of (normalize_headers h) k')"
  by (cases v) (simp_all add: normalize_headers_def opt_header_def)

lemma headers_if [simp]:
  "map_of (normalize_headers (h @ (if b then [(k, v)] else []))) k' =
     (if k' = py_lower k \<and> b then Some (py_strip v) else map_of (normalize_headers h) k')"
  by (simp add: normalize_headers_def)

text \<open>A tenant context that a service writes into request headers is the context that the receiving
  service reads from them, whatever service name and paths travel along, when its tenant is valid, its
  texts are trimmed and no role contains a comma.\<close>

theorem tenant_headers_roundtrip:
  assumes "tenant_id_ok (tc_tenant_id c)"
    and "\<forall>s\<in>set_option (tc_subject c). header_text s" and "\<forall>s\<in>set_option (tc_correlation_id c). header_text s"
    and "\<forall>r\<in>set (tc_roles c). header_text r \<and> CHR '','' \<notin> set r"
  shows "tenant_context_from_trusted_headers (tenant_headers_from_context c name pfx path) = Inr c"
proof -
  let ?h = "normalize_headers (tenant_headers_from_context c name pfx path)"
  have h: "map_of ?h TENANT_ID_HEADER = Some (tc_tenant_id c)"
      "map_of ?h SUBJECT_ID_HEADER = map_option py_strip (tc_subject c)"
      "map_of ?h CORRELATION_ID_HEADER = map_option py_strip (tc_correlation_id c)"
      "map_of ?h ACTOR_ROLES_HEADER =
         (if tc_roles c = [] then None else Some (py_strip (join_with '','' (tc_roles c))))"
    unfolding tenant_headers_from_context_def append_assoc [symmetric]
    using assms(1) header_neq by (auto simp del: append_assoc append_Cons)
  have "optional_header ?h SUBJECT_ID_HEADER = tc_subject c"
      "optional_header ?h CORRELATION_ID_HEADER = tc_correlation_id c"
    using assms(2,3) by (auto simp: optional_header_def h header_text_def split: option.splits)
  moreover have "roles_from_header (map_of ?h ACTOR_ROLES_HEADER) = Inr (tc_roles c)"
    using roles_roundtrip [OF _ assms(4)] by (cases "tc_roles c = []") (simp_all add: h roles_from_header_def)
  ultimately show ?thesis
    using assms(1) by (simp add: tenant_context_from_trusted_headers_def Let_def h)
qed

definition sample_context :: tenant_context where
  "sample_context =
     \<lparr>tc_tenant_id = ''t1'', tc_subject = Some ''u'', tc_roles = [''council'', ''board''],
      tc_correlation_id = Some ''c''\<rparr>"

theorem tenant_headers_roundtrip_witness:
  "tenant_context_from_trusted_headers (tenant_headers_from_context sample_context (Some ''svc'') None None) =
   Inr sample_context"
  by (rule tenant_headers_roundtrip)
    (simp_all add: sample_context_def header_text_def tenant_id_ok_def tenant_char_def text_defs)

text \<open>A request for another tenant than that of its context is refused, and the refusal is recorded in
  the audit sink with the digest of the requested tenant; a request for the own tenant passes and records
  nothing.\<close>

theorem other_tenant_is_denied_and_audited:
  assumes "tenant_id_ok requested"
  shows "assert_requested_tenant rt amb (Some requested) (Some c) resource sink =
    (if requested = tc_tenant_id c then (Inr (), sink)
     else (Inl (TenantIsolationError ''denied'' (tc_correlation_id c) (sink \<noteq> None)),
           map_option (\<lambda>es. es @ [\<lparr>te_event_type = ''tenant.isolation_violation'',
             te_tenant_id = Some (tc_tenant_id c), te_requested_tenant_hash = Some (rt_sha256 rt requested),
             te_actor_hash = map_option (rt_sha256 rt) (tc_subject c), te_resource_type = resource,
             te_correlation_id = tc_correlation_id c, te_reason = ''requested_tenant_mismatch''\<rparr>]) sink))"
  using assms
  by (simp add: assert_requested_tenant_def resolve_context_def deny_tenant_access_def bnd_def act_eval
      record_denial_def build_tenant_violation_event_def hash_identifier_def validated_tenant_id_def)

theorem other_tenant_is_denied_and_audited_witness:
  "fst (assert_requested_tenant sample_runtime None (Some ''t2'') (Some sample_context) ''r'' None) =
   Inl (TenantIsolationError ''denied'' (Some ''c'') False)"
proof -
  have "tenant_id_ok ''t2''" by code_simp
  from other_tenant_is_denied_and_audited [OF this] show ?thesis by (simp add: sample_context_def)
qed

text \<open>Without a default policy, the access guard lets a request through exactly when some policy lists
  its method and path, and the first that does allows a governance role that the caller has.\<close>

theorem rbac_denies_unlisted_endpoints:
  "rbac_guard eps None (Some c) method path = Inr d \<longleftrightarrow>
     d = c \<and> (\<exists>ep. find (\<lambda>ep. endpoint_matches ep (method_upper method) path) eps = Some ep \<and>
       (\<exists>r\<in>set (tc_roles c). r \<in> set GOVERNANCE_ROLES \<and> r \<in> set (pol_allowed_roles (ep_access_policy ep))))"
proof -
  have "require_access (Some c) p None = require_access None p (Some c)" for p
    by (simp add: require_access_def resolve_context_def)
  then show ?thesis
    by (auto simp: rbac_guard_def policy_for_scope_find require_access_Inr deny_all_def split: option.splits)
qed

section \<open>Resilience\<close>

text \<open>A guarded call keeps the circuit breaker in order, and a call that returns made no more attempts
  than the retry policy allows.\<close>

theorem guarded_call_keeps_breaker:
  assumes "guard_valid g" and "breaker_ok (gd_breaker g) s" and "guard_execute dep g fb s = (r, t)"
  shows "breaker_ok (gd_breaker g) t \<and> (\<forall>x. r = Inr x \<longrightarrow> re_attempts x \<le> rp_max_attempts (gd_retry g))"
  using guard_execute_ok [OF assms] guard_execute_attempts [OF assms(1,2)] assms(3) by blast

definition sample_guard :: guard where
  "sample_guard =
     \<lparr>gd_name = ''db'', gd_kind = DATABASE,
      gd_retry = \<lparr>rp_max_attempts = 3, rp_initial_backoff = 1, rp_multiplier = 2, rp_max_backoff = 4,
        rp_codes = DEFAULT_RETRYABLE_ERROR_CODES\<rparr>,
      gd_budget = \<lparr>tb_per_attempt = None, tb_total = None\<rparr>,
      gd_breaker = \<lparr>bp_failure_threshold = 5, bp_recovery_threshold = 2, bp_cooldown = 10\<rparr>\<rparr>"

text \<open>A dependency that times out as often as the outside world says, and then returns.\<close>

definition flaky :: "(string, nat) dependency" where
  "flaky =
     \<lparr>dep_call = (\<lambda>_ n. if 0 < n then (TimedOut, n - 1) else (Returned ''ok'', n)),
      dep_sleep = (\<lambda>_ n. n), dep_clock = (\<lambda>n. (0, n))\<rparr>"

theorem guarded_call_keeps_breaker_witness:
  "breaker_ok (gd_breaker sample_guard) (snd (guard_execute flaky sample_guard None (initial_guard_state 2)))"
proof (rule guarded_call_keeps_breaker [THEN conjunct1, OF _ _ prod.collapse [symmetric]])
  show "guard_valid sample_guard" by (simp add: guard_valid_def sample_guard_def)
  show "breaker_ok (gd_breaker sample_guard) (initial_guard_state 2)"
    by (simp add: breaker_ok_def initial_guard_state_def sample_guard_def)
qed

text \<open>While the circuit is open and its cooldown has not passed, a guarded call never reaches the
  dependency: its result does not depend on what the dependency would do, and without a fallback it is the
  circuit-open failure.\<close>

theorem open_circuit_fails_fast:
  assumes "gs_state s = OPEN" and "gs_opened_at s = Some opened"
    and "fst (dep_clock dep (gs_outside s)) - opened < bp_cooldown (gd_breaker g)"
  shows "guard_execute (dep\<lparr>dep_call := f\<rparr>) g fb s = guard_execute dep g fb s \<and>
    fst (guard_execute dep g None s) = Inl (Raised (own_failure g DEGRADED_MODE ''circuit_open''))"
  using assms
  by (auto simp: guard_execute_def transition_open_circuit_if_ready_def read_clock_def fallback_or_raise_def Let_def
      split: prod.splits)

theorem open_circuit_fails_fast_witness:
  "fst (guard_execute flaky sample_guard None ((initial_guard_state 0)\<lparr>gs_state := OPEN, gs_opened_at := Some 0\<rparr>)) =
   Inl (Raised (own_failure sample_guard DEGRADED_MODE ''circuit_open''))"
  by (rule open_circuit_fails_fast [THEN conjunct2, of _ 0])
    (simp_all add: initial_guard_state_def flaky_def sample_guard_def)

section \<open>The cache\<close>

definition sample_cache :: cache_config where
  "sample_cache =
     \<lparr>cc_prefix = ''mc'', cc_default_ttl = 60, cc_lock_ttl = 5, cc_clock = (\<lambda>n. of_nat n), cc_ambient = None\<rparr>"

definition empty_cache :: cache_state where
  "empty_cache = \<lparr>cs_entries = [], cs_locks = [], cs_readings = 0\<rparr>"

text \<open>C13. Writing, deleting and invalidating on behalf of one tenant never touches an entry of another:
  its keys differ in the tenant segment, whatever namespaces and keys are chosen.\<close>

theorem cache_writes_stay_in_tenant:
  assumes "cache_key cc ns' key' (Some c') = Inr x"
    and "py_strip (tc_tenant_id c) \<noteq> py_strip (tc_tenant_id c')"
  shows "map_of (cs_entries (snd (set_json cc ns key v (Some c) ttl s))) x = map_of (cs_entries s) x \<and>
    map_of (cs_entries (snd (cache_delete cc ns key (Some c) s))) x = map_of (cs_entries s) x \<and>
    map_of (cs_entries (snd (invalidate_namespace cc ns (Some c) s))) x = map_of (cs_entries s) x"
proof (intro conjI)
  have other: "y \<noteq> x" if "cache_key cc ns key (Some c) = Inr y" for y
    using cache_key_tenant [OF that assms] .
  have "outcome (set_json cc ns key v (Some c) ttl) (\<lambda>_ t. map_of (cs_entries t) x = map_of (cs_entries s) x) s"
    using other by (intro set_json_rule) (auto simp: store_entry_def)
  then show "map_of (cs_entries (snd (set_json cc ns key v (Some c) ttl s))) x = map_of (cs_entries s) x"
    by (simp add: outcome_def split: prod.splits)
  have "outcome (cache_delete cc ns key (Some c)) (\<lambda>_ t. map_of (cs_entries t) x = map_of (cs_entries s) x) s"
    using other by (intro cache_delete_rule) (auto simp: delete_conv')
  then show "map_of (cs_entries (snd (cache_delete cc ns key (Some c) s))) x = map_of (cs_entries s) x"
    by (simp add: outcome_def split: prod.splits)
  have "map_of (filter (\<lambda>kv. \<not> prefix p (fst kv)) d) x = map_of d x"
    if "tenant_cache_prefix c n (cc_prefix cc) = Inr p" "normalize_key_segment ns ''namespace'' = Inr n" for p n and d :: "(string \<times> cache_entry) list"
    using prefix_tenant [OF that(1) _ assms] normalize_key_segment_Inr [OF that(2)] by (intro map_of_filter_keep) auto
  then have "outcome (invalidate_namespace cc ns (Some c)) (\<lambda>_ t. map_of (cs_entries t) x = map_of (cs_entries s) x) s"
    by (intro invalidate_namespace_rule) (auto simp: resolve_context_def)
  then show "map_of (cs_entries (snd (invalidate_namespace cc ns (Some c) s))) x = map_of (cs_entries s) x"
    by (simp add: outcome_def split: prod.splits)
qed

theorem cache_writes_stay_in_tenant_witness:
  "map_of (cs_entries (snd (set_json sample_cache ''n'' ''k'' JNull (Some sample_context) None
     (store_entry ''mc:tenant:t2:n:k'' (JInt 1) 9 empty_cache)))) ''mc:tenant:t2:n:k'' =
   Some \<lparr>ce_value = JInt 1, ce_expires_at = Some 9\<rparr>"
proof -
  let ?c = "sample_context\<lparr>tc_tenant_id := ''t2''\<rparr>"
  have "cache_key sample_cache ''n'' ''k'' (Some ?c) = Inr ''mc:tenant:t2:n:k''" by code_simp
  moreover have "py_strip (tc_tenant_id sample_context) \<noteq> py_strip (tc_tenant_id ?c)" by code_simp
  ultimately show ?thesis
    by (subst cache_writes_stay_in_tenant [THEN conjunct1, of sample_cache "''n''" "''k''" ?c])
      (simp_all add: store_entry_def empty_cache_def)
qed

text \<open>A value that was set is read back by the same tenant until its time to live has passed, and
  not afterwards.\<close>

theorem cached_value_lives_its_ttl:
  assumes "set_json cc ns key v ctx ttl s = (Inr (), t)" and "dict_ok (cs_entries s)"
  shows "fst (get_json cc ns key ctx t) =
    Inr (if cc_clock cc (cs_readings t) <
            cc_clock cc (cs_readings s) + of_int (case ttl of None \<Rightarrow> cc_default_ttl cc | Some n \<Rightarrow> n)
         then Some v else None)"
proof -
  have "outcome (set_json cc ns key v ctx ttl) (\<lambda>r t. r = Inr () \<longrightarrow>
      (\<exists>k. cache_key cc ns key ctx = Inr k \<and> dict_ok (cs_entries t) \<and>
       map_of (cs_entries t) k = Some \<lparr>ce_value = v, ce_expires_at = Some (cc_clock cc (cs_readings s) +
                of_int (case ttl of None \<Rightarrow> cc_default_ttl cc | Some n \<Rightarrow> n))\<rparr>)) s"
    using assms(2) by (intro set_json_rule) (auto simp: store_entry_def)
  from outcomeD [OF this assms(1)] show ?thesis
    using map_of_filter_dict [of "cs_entries t" "entry_live (cc_clock cc (cs_readings t))"]
    by (auto simp: get_json_def purge_expired_def clock_now_def bnd_def act_eval purge_def entry_live_def)
qed

theorem cached_value_lives_its_ttl_witness:
  "fst (get_json sample_cache ''n'' ''k'' (Some sample_context)
     (snd (set_json sample_cache ''n'' ''k'' (JInt 7) (Some sample_context) None empty_cache))) = Inr (Some (JInt 7))"
proof -
  let ?r = "set_json sample_cache ''n'' ''k'' (JInt 7) (Some sample_context) None empty_cache"
  have "fst ?r = Inr ()" "cs_readings (snd ?r) = 1" by code_simp+
  then have "?r = (Inr (), snd ?r)" by (metis prod.collapse)
  from cached_value_lives_its_ttl [OF this] show ?thesis
    using \<open>cs_readings (snd ?r) = 1\<close> by (simp add: empty_cache_def sample_cache_def)
qed

text \<open>After a lock was acquired, and until its time to live has passed, nobody acquires it again, its
  owner can release it, and nobody else can.\<close>

theorem lock_is_exclusive:
  assumes "acquire_lock cc ns key owner1 ctx ttl s = (Inr True, t)" and "dict_ok (cs_locks s)"
    and "cc_clock cc (cs_readings t) < cc_clock cc (cs_readings t - 1) +
           of_int (case ttl of None \<Rightarrow> cc_lock_ttl cc | Some n \<Rightarrow> n)"
  shows "fst (acquire_lock cc ns key owner2 ctx ttl' t) = Inr False \<and>
    fst (release_lock cc ns key owner1 ctx t) = Inr True \<and>
    (normalize_owner owner2 = Inr other \<and> py_strip owner2 \<noteq> py_strip owner1 \<longrightarrow>
       fst (release_lock cc ns key owner2 ctx t) = Inr False)"
proof -
  have "outcome (acquire_lock cc ns key owner1 ctx ttl) (\<lambda>r t. r = Inr True \<longrightarrow>
      (\<exists>k name. lock_key cc ns key ctx = Inr k \<and> normalize_owner owner1 = Inr name \<and> dict_ok (cs_locks t) \<and>
       cs_readings t = cs_readings s + 2 \<and>
       map_of (cs_locks t) k = Some \<lparr>le_owner = name, le_expires_at = cc_clock cc (Suc (cs_readings s)) +
                of_int (case ttl of None \<Rightarrow> cc_lock_ttl cc | Some n \<Rightarrow> n)\<rparr>)) s"
    using assms(2) by (intro acquire_lock_rule) (auto simp: purge_def dict_ok_filter)
  from outcomeD [OF this assms(1)] obtain k name where k: "lock_key cc ns key ctx = Inr k" "dict_ok (cs_locks t)"
      and l: "map_of (cs_locks t) k = Some \<lparr>le_owner = name, le_expires_at = cc_clock cc (Suc (cs_readings s)) +
                of_int (case ttl of None \<Rightarrow> cc_lock_ttl cc | Some n \<Rightarrow> n)\<rparr>"
      and name: "normalize_owner owner1 = Inr name" and n: "cs_readings t = cs_readings s + 2"
    by auto
  note held = held_lock [OF k l]
  have strip: "name = py_strip owner1" using name by (auto simp: normalize_owner_def Let_def split: if_splits)
  show ?thesis
    using held(1) held(2) [OF _ name] held(2) [of owner2] assms(3) n strip
    by (auto simp: normalize_owner_def Let_def split: if_splits)
qed

theorem lock_is_exclusive_witness:
  "fst (acquire_lock sample_cache ''n'' ''k'' ''other'' (Some sample_context) None
     (snd (acquire_lock sample_cache ''n'' ''k'' ''me'' (Some sample_context) None empty_cache))) = Inr False"
proof -
  let ?r = "acquire_lock sample_cache ''n'' ''k'' ''me'' (Some sample_context) None empty_cache"
  have r: "fst ?r = Inr True" "cs_readings (snd ?r) = 2" by code_simp+
  then have "?r = (Inr True, snd ?r)" by (metis prod.collapse)
  from lock_is_exclusive [OF this, of "''other''"] show ?thesis
    using r(2) by (simp add: empty_cache_def sample_cache_def)
qed

end
