(* ===== verification/PolicyManager.thy ===== *)
theory PolicyManager
  imports Events Floats
begin

text \<open>
  \<open>policy_manager/manager.py\<close>: versioned tenant policies with built-in defaults, their update
  with audit record and event, and their application to the facts of a decision.
\<close>

section \<open>Policies\<close>

datatype policy_decision = ALLOW | ESCALATE

record policy_record =
  pl_tenant_id :: string
  pl_key :: string
  pl_value :: "(string \<times> json) list"
  pl_version :: int
  pl_updated_by :: "string option"
  pl_updated_at :: int
  pl_audit_hash :: string
  pl_metadata :: "(string \<times> json) list"

record policy_state = svc +
  policy_history :: "(string \<times> string, policy_record list) dict"

text \<open>\<open>POLICY_KEY_PATTERN\<close>: one to eight lower-case words between dots.\<close>

definition policy_key_shape :: "string \<Rightarrow> bool" where
  "policy_key_shape s \<longleftrightarrow>
     (let ws = split_on (CHR ''.'') s in length ws \<le> 8 \<and> list_all word_ok ws)"

definition normalize_policy_key :: "string \<Rightarrow> exn + string" where
  "normalize_policy_key key =
     (let n = py_strip key in if policy_key_shape n then Inr n else Inl (ValueError ''policy key''))"

definition DEFAULT_POLICY_VALUES :: "(string, (string \<times> json) list) dict" where
  "DEFAULT_POLICY_VALUES =
     [
      (''automation.max_autonomous_risk_score'',
        [(''kind'', JStr ''threshold''),
         (''target'', JStr ''risk_score''),
         (''operator'', JStr ''lte''),
         (''threshold'', JFloat (Fin (3152519739159347 / 4503599627370496))),
         (''reason'', JStr ''risk_score_above_threshold''),
         (''decision_on_violation'', JStr ''escalate'')]),
      (''automation.min_agent_confidence'',
        [(''kind'', JStr ''threshold''),
         (''target'', JStr ''agent_confidence''),
         (''operator'', JStr ''gte''),
         (''threshold'', JFloat (Fin (5854679515581645 / 9007199254740992))),
         (''reason'', JStr ''confidence_below_threshold''),
         (''decision_on_violation'', JStr ''escalate'')]),
      (''hitl.veto_window_hours'',
        [(''kind'', JStr ''threshold''),
         (''target'', JStr ''veto_window_hours''),
         (''operator'', JStr ''between''),
         (''min'', JInt 4),
         (''max'', JInt 12),
         (''default'', JInt 8),
         (''reason'', JStr ''veto_window_out_of_range''),
         (''decision_on_violation'', JStr ''escalate'')]),
      (''rl_kpi.min_precision'',
        [(''kind'', JStr ''threshold''),
         (''target'', JStr ''rl_precision''),
         (''operator'', JStr ''gte''),
         (''threshold'', JFloat (Fin (3 / 4))),
         (''reason'', JStr ''rl_precision_below_threshold''),
         (''decision_on_violation'', JStr ''escalate'')]),
      (''rl_kpi.window_days'',
        [(''kind'', JStr ''threshold''),
         (''target'', JStr ''window_days''),
         (''operator'', JStr ''between''),
         (''min'', JInt 7),
         (''max'', JInt 30),
         (''reason'', JStr ''rl_kpi_window_out_of_range''),
         (''decision_on_violation'', JStr ''escalate'')]),
      (''rl_kpi.require_council_approval'',
        [(''kind'', JStr ''flag''),
         (''target'', JStr ''has_council_approval''),
         (''expected'', JBool True),
         (''reason'', JStr ''council_approval_required''),
         (''decision_on_violation'', JStr ''escalate'')]),
      (''rl_kpi.min_effect_lift'',
        [(''kind'', JStr ''threshold''),
         (''target'', JStr ''effect_lift''),
         (''operator'', JStr ''gte''),
         (''threshold'', JFloat (Fin (5764607523034235 / 288230376151711744))),
         (''reason'', JStr ''effect_lift_below_threshold''),
         (''decision_on_violation'', JStr ''escalate'')]),
      (''ethics.require_xai'',
        [(''kind'', JStr ''flag''),
         (''target'', JStr ''has_xai''),
         (''expected'', JBool True),
         (''reason'', JStr ''xai_required''),
         (''decision_on_violation'', JStr ''escalate'')])]"

definition policy_record ::
    "runtime \<Rightarrow> string \<Rightarrow> string \<Rightarrow> (string \<times> json) list \<Rightarrow> int \<Rightarrow> string option \<Rightarrow> int \<Rightarrow> string
     \<Rightarrow> (string \<times> json) list \<Rightarrow> exn + policy_record" where
  "policy_record rt tenant_id key value version updated_by updated_at audit metadata =
     model ''PolicyRecord''
       (tenant_id_ok (pyd_strip tenant_id) \<and> length_between 1 128 (pyd_strip key) \<and>
        policy_key_shape (pyd_strip key) \<and> 1 \<le> version \<and>
        optional_ok token_ok (map_option pyd_strip updated_by) \<and> audit_hash_ok (pyd_strip audit))
       \<lparr>pl_tenant_id = pyd_strip tenant_id, pl_key = pyd_strip key,
        pl_value = obj_members (rt_pyd_json rt (JObj value)), pl_version = version,
        pl_updated_by = map_option pyd_strip updated_by, pl_updated_at = updated_at,
        pl_audit_hash = pyd_strip audit,
        pl_metadata = obj_members (rt_pyd_json rt (JObj metadata))\<rparr>"

definition default_policy_record :: "runtime \<Rightarrow> string \<Rightarrow> string \<Rightarrow> (string \<times> json) list \<Rightarrow> exn + policy_record" where
  "default_policy_record rt tenant_id key value =
     policy_record rt tenant_id key value 1 None 0 (replicate 64 (CHR ''0'')) [(''source'', JStr ''default'')]"

section \<open>The repository\<close>

definition policy_key :: "string \<Rightarrow> string \<Rightarrow> string \<times> string" where
  "policy_key tenant_id key = (tenant_id, key)"

definition history_of :: "string \<Rightarrow> string \<Rightarrow> 'z policy_state_scheme \<Rightarrow> policy_record list" where
  "history_of tenant_id key s =
     (case map_of (policy_history s) (policy_key tenant_id key) of None \<Rightarrow> [] | Some h \<Rightarrow> h)"

definition get_policy ::
    "runtime \<Rightarrow> string \<Rightarrow> string \<Rightarrow> 'z policy_state_scheme \<Rightarrow> exn + policy_record" where
  "get_policy rt tenant_id key s =
     ebind (normalize_policy_key key) (\<lambda>k.
     let h = history_of tenant_id k s in
     if h \<noteq> [] then Inr (last h)
     else case map_of DEFAULT_POLICY_VALUES k of
       Some v \<Rightarrow> default_policy_record rt tenant_id k v
     | None \<Rightarrow> Inl (PolicyNotFoundError k))"

definition get_history ::
    "runtime \<Rightarrow> string \<Rightarrow> string \<Rightarrow> 'z policy_state_scheme \<Rightarrow> exn + policy_record list" where
  "get_history rt tenant_id key s =
     ebind (normalize_policy_key key) (\<lambda>k.
     let h = history_of tenant_id k s in
     case map_of DEFAULT_POLICY_VALUES k of
       Some v \<Rightarrow> ebind (default_policy_record rt tenant_id k v) (\<lambda>p. Inr (p # h))
     | None \<Rightarrow> if h \<noteq> [] then Inr h else Inl (PolicyNotFoundError k))"

fun default_records ::
    "runtime \<Rightarrow> string \<Rightarrow> (string, (string \<times> json) list) dict \<Rightarrow> exn + (string, policy_record) dict" where
  "default_records rt tenant_id [] = Inr []"
| "default_records rt tenant_id ((k, v) # kvs) =
     ebind (default_policy_record rt tenant_id k v) (\<lambda>p.
     ebind (default_records rt tenant_id kvs) (\<lambda>ps. Inr ((k, p) # ps)))"

definition list_policies ::
    "runtime \<Rightarrow> string \<Rightarrow> 'z policy_state_scheme \<Rightarrow> exn + policy_record list" where
  "list_policies rt tenant_id s =
     ebind (default_records rt tenant_id DEFAULT_POLICY_VALUES) (\<lambda>records.
     let current =
           fold (\<lambda>((t, k), h) d. if t = tenant_id \<and> h \<noteq> [] then AList.update k (last h) d else d)
             (policy_history s) records
     in Inr (sort_key pl_key (map snd current)))"

definition store_policy :: "policy_record \<Rightarrow> 'z policy_state_scheme \<Rightarrow> 'z policy_state_scheme" where
  "store_policy p s =
     s\<lparr>policy_history :=
         AList.update (policy_key (pl_tenant_id p) (pl_key p))
           (history_of (pl_tenant_id p) (pl_key p) s @ [p]) (policy_history s)\<rparr>"

definition save_policy :: "policy_record \<Rightarrow> ('z policy_state_scheme, policy_record) act" where
  "save_policy p = bnd (modify (store_policy p)) (\<lambda>_. ret p)"

section \<open>Updates\<close>

record policy_update =
  pu_tenant_id :: string
  pu_key :: string
  pu_updated_by :: string
  pu_correlation_id :: string
  pu_value :: "(string \<times> json) list"
  pu_metadata :: "(string \<times> json) list"
  pu_updated_at :: time_arg
  pu_event_id :: "string option"

definition existing_or_none ::
    "runtime \<Rightarrow> string \<Rightarrow> string \<Rightarrow> 'z policy_state_scheme \<Rightarrow> exn + policy_record option" where
  "existing_or_none rt tenant_id key s =
     (case get_policy rt tenant_id key s of
        Inr p \<Rightarrow> Inr (Some p)
      | Inl (PolicyNotFoundError k) \<Rightarrow> Inr None
      | Inl e \<Rightarrow> Inl e)"

definition update_policy :: "runtime \<Rightarrow> policy_update \<Rightarrow> ('z policy_state_scheme, policy_record) act" where
  "update_policy rt u =
     bnd (lift (normalize_policy_key (pu_key u))) (\<lambda>key.
     bnd (lift (normalize_datetime rt (pu_updated_at u))) (\<lambda>changed_at.
     bnd (gets (existing_or_none rt (pu_tenant_id u) key)) (\<lambda>looked_up.
     bnd (lift looked_up) (\<lambda>existing.
     let version = (case existing of None \<Rightarrow> 1 | Some p \<Rightarrow> pl_version p + 1);
         actor_hash = subject_ref_hash rt (pu_tenant_id u) (pu_updated_by u)
     in
     bnd (audit_log rt ''policy.updated'' (pu_tenant_id u) None
            (Some [(''key'', JStr key), (''version'', JInt version),
                   (''value'', JObj (pu_value u)), (''metadata'', JObj (pu_metadata u))])
            (AtTime (Aware changed_at 0)) (Some (pu_correlation_id u)) (Some actor_hash)
            (Some ''policy-manager'')) (\<lambda>rec.
     bnd (lift (policy_record rt (pu_tenant_id u) key (pu_value u) version (Some (pu_updated_by u))
            changed_at (ar_audit_hash rec) (pu_metadata u))) (\<lambda>p.
     bnd (save_policy p) (\<lambda>_.
     bnd (id_or_new rt (pu_event_id u) ''evt-policy-updated'') (\<lambda>event_id.
     bnd (emit event_id ''policy.updated'' ''1.0'' (pu_tenant_id u) ''policy-manager''
            (pu_correlation_id u) changed_at
            [(''key'', JStr (pl_key p)), (''version'', JInt (pl_version p)),
             (''audit_hash'', JStr (pl_audit_hash p))] None) (\<lambda>_.
     ret p)))))))))"

section \<open>Application\<close>

definition string_field ::
    "(string \<times> json) list \<Rightarrow> string \<Rightarrow> string option \<Rightarrow> exn + string" where
  "string_field value key dflt =
     (case map_of value key of
        Some (JStr s) \<Rightarrow>
          if py_strip s = [] then Inl (PolicyManagerError key) else Inr (py_strip s)
      | None \<Rightarrow> (case dflt of Some d \<Rightarrow> Inr d | None \<Rightarrow> Inl (PolicyManagerError key))
      | Some JNull \<Rightarrow> (case dflt of Some d \<Rightarrow> Inr d | None \<Rightarrow> Inl (PolicyManagerError key))
      | _ \<Rightarrow> Inl (PolicyManagerError key))"

definition number_field :: "(string \<times> json) list \<Rightarrow> string \<Rightarrow> exn + pyfloat" where
  "number_field value key =
     (case map_of value key of
        Some (JInt i) \<Rightarrow> float_of_int i
      | Some (JFloat f) \<Rightarrow> Inr f
      | _ \<Rightarrow> Inl (PolicyManagerError key))"

definition decision_on_violation :: "(string \<times> json) list \<Rightarrow> exn + policy_decision" where
  "decision_on_violation value =
     ebind (string_field value ''decision_on_violation'' (Some ''escalate'')) (\<lambda>d.
     if d = ''allow'' then Inr ALLOW
     else if d = ''escalate'' then Inr ESCALATE
     else Inl (PolicyManagerError ''decision_on_violation''))"

definition threshold_violation ::
    "(string \<times> json) list \<Rightarrow> string \<Rightarrow> pyfloat \<Rightarrow> exn + bool" where
  "threshold_violation value operator observed =
     (if operator = ''lte'' then ebind (number_field value ''threshold'') (\<lambda>t. Inr (float_lt t observed))
      else if operator = ''lt'' then ebind (number_field value ''threshold'') (\<lambda>t. Inr (float_le t observed))
      else if operator = ''gte'' then ebind (number_field value ''threshold'') (\<lambda>t. Inr (float_lt observed t))
      else if operator = ''gt'' then ebind (number_field value ''threshold'') (\<lambda>t. Inr (float_le observed t))
      else if operator = ''between'' then
        ebind (number_field value ''min'') (\<lambda>lo.
        if float_le lo observed
        then ebind (number_field value ''max'') (\<lambda>hi. Inr (\<not> float_le observed hi))
        else Inr True)
      else Inl (PolicyManagerError ''operator''))"

definition violation_reason :: "(string \<times> json) list \<Rightarrow> string \<Rightarrow> exn + string list" where
  "violation_reason value target =
     ebind (decision_on_violation value) (\<lambda>d.
     if d = ALLOW then Inr []
     else map_sum id (\<lambda>r. [r]) (string_field value ''reason'' (Some (target @ ''_policy_violation''))))"

definition threshold_policy_reasons ::
    "(string \<times> json) list \<Rightarrow> (string \<times> json) list \<Rightarrow> exn + string list" where
  "threshold_policy_reasons value facts =
     ebind (string_field value ''target'' None) (\<lambda>target.
     ebind (string_field value ''operator'' None) (\<lambda>operator.
     ebind (number_field facts target) (\<lambda>observed.
     ebind (threshold_violation value operator observed) (\<lambda>violation.
     if \<not> violation then Inr [] else violation_reason value target))))"

definition flag_policy_reasons ::
    "(string \<times> json) list \<Rightarrow> (string \<times> json) list \<Rightarrow> exn + string list" where
  "flag_policy_reasons value facts =
     ebind (string_field value ''target'' None) (\<lambda>target.
     case map_of value ''expected'' of
       None \<Rightarrow> Inl (PolicyManagerError ''expected'')
     | Some JNull \<Rightarrow> Inl (PolicyManagerError ''expected'')
     | Some expected \<Rightarrow>
         if json_eq (case map_of facts target of None \<Rightarrow> JNull | Some j \<Rightarrow> j) expected then Inr []
         else violation_reason value target)"

definition policy_reasons ::
    "policy_record \<Rightarrow> (string \<times> json) list \<Rightarrow> exn + string list" where
  "policy_reasons p facts =
     ebind (string_field (pl_value p) ''kind'' (Some ''metadata'')) (\<lambda>kind.
     if kind = ''threshold'' then threshold_policy_reasons (pl_value p) facts
     else if kind = ''flag'' then flag_policy_reasons (pl_value p) facts
     else Inr [])"

record policy_application =
  pa_tenant_id :: string
  pa_decision :: policy_decision
  pa_versions :: "(string, int) dict"
  pa_reasons :: "string list"
  pa_applied_at :: int

text \<open>The loop of \<open>apply_policies\<close>.\<close>

fun collect_reasons ::
    "runtime \<Rightarrow> string \<Rightarrow> (string \<times> json) list \<Rightarrow> 'z policy_state_scheme \<Rightarrow> string list
     \<Rightarrow> (string, int) dict \<Rightarrow> string list \<Rightarrow> exn + ((string, int) dict \<times> string list)" where
  "collect_reasons rt tenant_id facts s [] versions reasons = Inr (versions, reasons)"
| "collect_reasons rt tenant_id facts s (k # ks) versions reasons =
     ebind (get_policy rt tenant_id k s) (\<lambda>p.
     ebind (policy_reasons p facts) (\<lambda>rs.
     collect_reasons rt tenant_id facts s ks (AList.update (pl_key p) (pl_version p) versions)
       (reasons @ rs)))"

definition apply_policies ::
    "runtime \<Rightarrow> string \<Rightarrow> string list \<Rightarrow> (string \<times> json) list \<Rightarrow> time_arg \<Rightarrow> 'z policy_state_scheme
     \<Rightarrow> exn + policy_application" where
  "apply_policies rt tenant_id keys facts applied_at s =
     (if keys = [] then Inl (PolicyManagerError ''no policies'')
      else
        ebind (collect_reasons rt tenant_id facts s keys [] []) (\<lambda>(versions, reasons).
        let unique = first_occurrences reasons;
            decision = (if unique \<noteq> [] then ESCALATE else ALLOW)
        in
        ebind (normalize_datetime rt applied_at) (\<lambda>n.
        model ''PolicyApplicationResult'' (tenant_id_ok (pyd_strip tenant_id))
          \<lparr>pa_tenant_id = pyd_strip tenant_id, pa_decision = decision, pa_versions = versions,
           pa_reasons = map pyd_strip unique, pa_applied_at = n\<rparr>)))"

section \<open>What the operations do\<close>

lemma svc_grows_history: "svc_grows s t \<Longrightarrow> policy_history t = policy_history s"
  by (cases s; cases t) (simp add: svc_grows_def svc_rest_def)

lemma svc_grows_store_policy: "svc_grows s t \<Longrightarrow> svc_grows (store_policy p s) (store_policy p t)"
  by (cases s; cases t) (simp add: svc_grows_def svc_rest_def store_policy_def history_of_def)

lemma history_of_svc: "svc_grows s t \<Longrightarrow> history_of tenant k t = history_of tenant k s"
  by (simp add: history_of_def svc_grows_history)

lemma history_sink [simp]: "history_of tenant k (sink_append r s) = history_of tenant k s"
  by (simp add: history_of_def sink_append_def)

lemma history_of_store:
  "history_of tenant k (store_policy p s) =
     (if (tenant, k) = (pl_tenant_id p, pl_key p) then history_of tenant k s @ [p] else history_of tenant k s)"
  by (simp add: history_of_def store_policy_def policy_key_def)

text \<open>A policy key and a tenant that pass their checks are stored unchanged.\<close>

lemma policy_key_strip:
  assumes "policy_key_shape k"
  shows "pyd_strip k = k" "py_strip k = k"
proof -
  have "\<not> py_isspace c \<and> \<not> uni_space c" if "c \<in> set k" for c
    using dotted_no_space [OF _ that] assms by (simp add: policy_key_shape_def Let_def)
  then show "pyd_strip k = k" "py_strip k = k"
    by (auto simp: pyd_strip_def py_strip_def list_all_iff intro!: strip_with_no_space)
qed

lemma normalize_policy_key_Inr: "normalize_policy_key k = Inr n \<Longrightarrow> policy_key_shape n \<and> normalize_policy_key n = Inr n"
  by (auto simp: normalize_policy_key_def Let_def policy_key_strip split: if_splits)

text \<open>The record an update adds.\<close>

definition policy_of_update :: "runtime \<Rightarrow> policy_update \<Rightarrow> 'z policy_state_scheme \<Rightarrow> policy_record \<Rightarrow> bool" where
  "policy_of_update rt u s p \<longleftrightarrow>
     normalize_policy_key (pu_key u) = Inr (pl_key p) \<and> pl_tenant_id p = pu_tenant_id u \<and>
     tenant_id_ok (pl_tenant_id p) \<and> policy_key_shape (pl_key p) \<and>
     (\<exists>e. existing_or_none rt (pu_tenant_id u) (pl_key p) s = Inr e \<and>
          pl_version p = (case e of None \<Rightarrow> 1 | Some q \<Rightarrow> pl_version q + 1)) \<and>
     pl_updated_by p = Some (pyd_strip (pu_updated_by u)) \<and>
     normalize_datetime rt (pu_updated_at u) = Inr (pl_updated_at p)"

lemma policy_record_Inr:
  assumes "normalize_policy_key (pu_key u) = Inr k" "normalize_datetime rt (pu_updated_at u) = Inr n"
    and "existing_or_none rt (pu_tenant_id u) k s = Inr e"
    and "audit_record_of (pu_tenant_id u) cid rec"
    and "policy_record rt (pu_tenant_id u) k v (case e of None \<Rightarrow> 1 | Some p \<Rightarrow> pl_version p + 1)
           (Some (pu_updated_by u)) n a md = Inr p"
  shows "policy_of_update rt u s p"
  using assms
  by (auto simp: policy_record_def policy_of_update_def audit_record_of_def
      policy_key_strip dest: normalize_policy_key_Inr)

lemma update_policy_rule:
  assumes "\<And>e t. svc_grows s t \<Longrightarrow> Q (Inl e) t"
    and "\<And>p rs t. policy_of_update rt u s p \<Longrightarrow> svc_grows (store_policy p s) t \<Longrightarrow>
           (\<exists>l. rs = Inl (ValueError l)) \<or> rs = Inr p \<Longrightarrow> Q rs t"
  shows "outcome (update_policy rt u) Q s"
proof -
  have fin: "Q rs (t\<lparr>bus := bus t @ ms\<rparr>)"
    if "normalize_policy_key (pu_key u) = Inr k" "normalize_datetime rt (pu_updated_at u) = Inr n"
      "existing_or_none rt (pu_tenant_id u) k s = Inr e" "audit_record_of (pu_tenant_id u) cid rec"
      "policy_record rt (pu_tenant_id u) k v (case e of None \<Rightarrow> 1 | Some p \<Rightarrow> pl_version p + 1)
           (Some (pu_updated_by u)) n a md = Inr p"
      "svc_grows (store_policy p (sink_append rec s)) t"
      "(\<exists>l. rs = Inl (ValueError l)) \<or> rs = Inr p"
    for k n e cid rec v a md p t rs ms
  proof (rule assms(2) [of p])
    show "policy_of_update rt u s p" by (rule policy_record_Inr [OF that(1-5)])
    have "svc_grows (store_policy p s) (store_policy p (sink_append rec s))"
      by (simp add: svc_grows_store_policy)
    then show "svc_grows (store_policy p s) (t\<lparr>bus := bus t @ ms\<rparr>)"
      using that(6) by (blast intro: svc_grows_trans svc_grows_bus_trans)
  qed (rule that(7))
  show ?thesis
    using assms(1) [OF svc_grows_refl]
    by (auto simp: update_policy_def act_simps Let_def save_policy_def split: sum.splits
        intro!: id_or_new_rule audit_log_rule emit_rule)
      (auto intro: assms(1) fin fin [where ms = "[]", simplified])
qed

section \<open>Versions\<close>

text \<open>The versions of one policy count up by one, from 2 where there is a built-in default.\<close>

definition first_version :: "string \<Rightarrow> int" where
  "first_version k = (if map_of DEFAULT_POLICY_VALUES k = None then 1 else 2)"

definition versions_ok :: "'z policy_state_scheme \<Rightarrow> bool" where
  "versions_ok s \<longleftrightarrow>
     (\<forall>tenant k. map pl_version (history_of tenant k s) =
        map (\<lambda>i. first_version k + int i) [0..<length (history_of tenant k s)])"

lemma versions_ok_last:
  assumes "versions_ok s" "history_of tenant k s \<noteq> []"
  shows "pl_version (last (history_of tenant k s)) = first_version k + int (length (history_of tenant k s)) - 1"
proof -
  let ?h = "history_of tenant k s"
  have "pl_version (last ?h) = map pl_version ?h ! (length ?h - 1)"
    using assms(2) by (simp add: last_conv_nth)
  also have "\<dots> = first_version k + int (length ?h - 1)"
    using assms by (simp add: versions_ok_def)
  finally show ?thesis using assms(2) by (simp add: of_nat_diff Suc_leI)
qed

lemma versions_ok_svc: "svc_grows s t \<Longrightarrow> versions_ok t = versions_ok s"
  by (simp add: versions_ok_def history_of_svc)

lemma default_version: "default_policy_record rt tenant k v = Inr p \<Longrightarrow> pl_version p = 1"
  by (auto simp: default_policy_record_def policy_record_def)

lemma default_error: "default_policy_record rt tenant k v = Inl e \<Longrightarrow> e \<noteq> PolicyNotFoundError l"
  by (auto simp: default_policy_record_def policy_record_def)

lemma update_version:
  assumes "versions_ok s" and "policy_of_update rt u s p"
  shows "pl_version p = first_version (pl_key p) + int (length (history_of (pl_tenant_id p) (pl_key p) s))"
proof -
  let ?k = "pl_key p" let ?t = "pu_tenant_id u"
  have k: "normalize_policy_key ?k = Inr ?k"
    using assms(2) normalize_policy_key_Inr by (auto simp: policy_of_update_def)
  obtain e where e: "existing_or_none rt ?t ?k s = Inr e"
      "pl_version p = (case e of None \<Rightarrow> 1 | Some q \<Rightarrow> pl_version q + 1)"
    and t: "pl_tenant_id p = ?t"
    using assms(2) by (auto simp: policy_of_update_def)
  show ?thesis
  proof (cases "history_of ?t ?k s = []")
    case False
    then have "e = Some (last (history_of ?t ?k s))"
      using e(1) k by (simp add: existing_or_none_def get_policy_def Let_def)
    then show ?thesis using e(2) t versions_ok_last [OF assms(1) False] by simp
  next
    case True
    then show ?thesis
      using e k t
      by (auto simp: existing_or_none_def get_policy_def first_version_def Let_def
          split: option.splits sum.splits exn.splits dest: default_version default_error)
  qed
qed

lemma store_versions_ok:
  assumes "versions_ok s" and "policy_of_update rt u s p"
  shows "versions_ok (store_policy p s)"
  using assms(1) update_version [OF assms]
  by (auto simp: versions_ok_def history_of_store)

end
