(* ===== verification/ProxyRotation.thy ===== *)
theory ProxyRotation
  imports Events Urls "HOL-Library.Product_Lexorder"
begin

text \<open>
  \<open>neuro_agent_orchestrator/proxy_rotation.py\<close>: tenant-scoped pools of proxies, their health
  checks, and the round-robin lease of the next live proxy.
\<close>

section \<open>Endpoints and pools\<close>

datatype proxy_protocol = HTTP | SOCKS5 | MTPROTO

datatype health_status = HEALTHY | UNHEALTHY | DISABLED

fun protocol_value :: "proxy_protocol \<Rightarrow> string" where
  "protocol_value HTTP = ''http''"
| "protocol_value SOCKS5 = ''socks5''"
| "protocol_value MTPROTO = ''mtproto''"

fun protocol_schemes :: "proxy_protocol \<Rightarrow> string list" where
  "protocol_schemes HTTP = [''http'', ''https'']"
| "protocol_schemes SOCKS5 = [''socks5'', ''socks5h'']"
| "protocol_schemes MTPROTO = [''mtproto'']"

definition platform_ok :: "string \<Rightarrow> bool" where
  "platform_ok s \<longleftrightarrow> head_tail is_lower (\<lambda>c. word_char c \<or> c = CHR ''-'') 63 s"

definition reason_code_shape :: "string \<Rightarrow> bool" where
  "reason_code_shape s \<longleftrightarrow> head_tail is_lower word_char 63 s"

definition secret_ref_ok :: "string \<Rightarrow> bool" where
  "secret_ref_ok s \<longleftrightarrow> head_tail is_alnum token_char 255 s"

definition sha_ref_ok :: "string \<Rightarrow> bool" where
  "sha_ref_ok s \<longleftrightarrow> take 7 s = ''sha256:'' \<and> audit_hash_ok (drop 7 s)"

record proxy_config =
  xc_proxy_id :: string
  xc_protocol :: proxy_protocol
  xc_url :: string
  xc_secret_ref :: "string option"
  xc_priority :: int
  xc_enabled :: bool
  xc_metadata :: "(string \<times> json) list"

definition validated_proxy_url :: "(string \<Rightarrow> bool) \<Rightarrow> proxy_protocol \<Rightarrow> string \<Rightarrow> string option" where
  "validated_proxy_url bracketed protocol url =
     (case urlsplit bracketed url of
        Inl e \<Rightarrow> None
      | Inr parts \<Rightarrow>
          if up_scheme parts = [] \<or> up_netloc parts = [] \<or> has_userinfo parts then None
          else if up_scheme parts \<notin> set (protocol_schemes protocol) then None
          else Some (urlunsplit parts))"

definition proxy_endpoint_config ::
    "(string \<Rightarrow> bool) \<Rightarrow> string \<Rightarrow> proxy_protocol \<Rightarrow> string \<Rightarrow> string option \<Rightarrow> int \<Rightarrow> bool
     \<Rightarrow> (string \<times> json) list \<Rightarrow> exn + proxy_config" where
  "proxy_endpoint_config bracketed proxy_id protocol url secret_ref priority enabled metadata =
     (case validated_proxy_url bracketed protocol (pyd_strip url) of
        None \<Rightarrow> Inl (ValidationError ''ProxyEndpointConfig'')
      | Some u \<Rightarrow>
          model ''ProxyEndpointConfig''
            (token_ok (pyd_strip proxy_id) \<and> length_between 1 2048 (pyd_strip url) \<and>
             optional_ok secret_ref_ok (map_option pyd_strip secret_ref) \<and>
             0 \<le> priority \<and> priority \<le> 10000)
            \<lparr>xc_proxy_id = pyd_strip proxy_id, xc_protocol = protocol, xc_url = u,
             xc_secret_ref = map_option pyd_strip secret_ref, xc_priority = priority,
             xc_enabled = enabled, xc_metadata = metadata\<rparr>)"

record proxy_state =
  xs_proxy_id :: string
  xs_protocol :: proxy_protocol
  xs_redacted_url :: string
  xs_url_hash :: string
  xs_secret_ref_hash :: "string option"
  xs_priority :: int
  xs_enabled :: bool
  xs_health :: health_status
  xs_failures :: nat
  xs_successes :: nat
  xs_last_checked_at :: "int option"
  xs_last_latency_ms :: "int option"
  xs_last_failure_reason :: "string option"
  xs_metadata :: "(string \<times> json) list"

definition is_leasable :: "proxy_state \<Rightarrow> bool" where
  "is_leasable p \<longleftrightarrow> xs_enabled p \<and> xs_health p = HEALTHY"

record proxy_pool =
  pp_tenant_id :: string
  pp_pool_id :: string
  pp_platform :: string
  pp_revision :: nat
  pp_cursor :: nat
  pp_total :: nat
  pp_healthy :: nat
  pp_unhealthy :: nat
  pp_disabled :: nat
  pp_proxies :: "proxy_state list"
  pp_updated_by :: string
  pp_updated_at :: int
  pp_audit_hash :: string
  pp_metadata :: "(string \<times> json) list"

record proxy_check =
  ck_proxy_id :: string
  ck_alive :: bool
  ck_checked_at :: "int option"
  ck_latency_ms :: "int option"
  ck_reason_code :: "string option"

definition proxy_health_signal ::
    "string \<Rightarrow> bool \<Rightarrow> pydt option \<Rightarrow> int option \<Rightarrow> string option \<Rightarrow> exn + proxy_check" where
  "proxy_health_signal proxy_id alive checked_at latency_ms reason_code =
     model ''ProxyHealthSignal''
       (token_ok (pyd_strip proxy_id) \<and> optional_ok (\<lambda>n. 0 \<le> n) latency_ms \<and>
        optional_ok reason_code_shape (map_option pyd_strip reason_code))
       \<lparr>ck_proxy_id = pyd_strip proxy_id, ck_alive = alive,
        ck_checked_at = map_option as_utc checked_at, ck_latency_ms = latency_ms,
        ck_reason_code = map_option pyd_strip reason_code\<rparr>"

definition proxy_order :: "proxy_state \<Rightarrow> int \<times> string" where
  "proxy_order p = (xs_priority p, xs_proxy_id p)"

definition count_with :: "('a \<Rightarrow> bool) \<Rightarrow> 'a list \<Rightarrow> nat" where
  "count_with p xs = length (filter p xs)"

definition build_proxy_pool_state ::
    "runtime \<Rightarrow> string \<Rightarrow> string \<Rightarrow> string \<Rightarrow> nat \<Rightarrow> nat \<Rightarrow> proxy_state list \<Rightarrow> string \<Rightarrow> int
     \<Rightarrow> (string \<times> json) list \<Rightarrow> string \<Rightarrow> exn + proxy_pool" where
  "build_proxy_pool_state rt tenant_id pool_id platform revision cursor proxies updated_by updated_at
     metadata audit =
     (if proxies = [] then Inl (ProxyRotationError ''empty pool'')
      else
        let ordered = sort_key proxy_order proxies in
        model ''ProxyPoolState''
          (tenant_id_ok (pyd_strip tenant_id) \<and> token_ok (pyd_strip pool_id) \<and>
           platform_ok (pyd_strip (py_lower (py_strip platform))) \<and> 1 \<le> revision \<and>
           token_ok (pyd_strip updated_by) \<and> audit_hash_ok (pyd_strip audit))
          \<lparr>pp_tenant_id = pyd_strip tenant_id, pp_pool_id = pyd_strip pool_id,
           pp_platform = pyd_strip (py_lower (py_strip platform)), pp_revision = revision,
           pp_cursor = cursor mod length ordered, pp_total = length ordered,
           pp_healthy = count_with is_leasable ordered,
           pp_unhealthy = count_with (\<lambda>p. xs_health p = UNHEALTHY) ordered,
           pp_disabled = count_with (\<lambda>p. xs_health p = DISABLED) ordered,
           pp_proxies = ordered, pp_updated_by = pyd_strip updated_by, pp_updated_at = updated_at,
           pp_audit_hash = pyd_strip audit,
           pp_metadata = obj_members (rt_pyd_json rt (JObj metadata))\<rparr>)"

definition apply_check :: "int \<Rightarrow> proxy_check \<Rightarrow> proxy_state \<Rightarrow> proxy_state" where
  "apply_check updated_at c current =
     (let checked_at = (case ck_checked_at c of None \<Rightarrow> updated_at | Some t \<Rightarrow> t) in
      if ck_alive c then
        current\<lparr>xs_health := (if xs_enabled current then HEALTHY else DISABLED), xs_failures := 0,
          xs_successes := xs_successes current + 1, xs_last_checked_at := Some checked_at,
          xs_last_latency_ms := ck_latency_ms c, xs_last_failure_reason := None\<rparr>
      else
        current\<lparr>xs_health := UNHEALTHY, xs_failures := xs_failures current + 1,
          xs_last_checked_at := Some checked_at, xs_last_latency_ms := ck_latency_ms c,
          xs_last_failure_reason :=
            (case ck_reason_code c of None \<Rightarrow> Some ''health_check_failed''
             | Some r \<Rightarrow> if r = [] then Some ''health_check_failed'' else Some r)\<rparr>)"

fun apply_checks ::
    "int \<Rightarrow> proxy_check list \<Rightarrow> (string, proxy_state) dict \<Rightarrow> exn + (string, proxy_state) dict" where
  "apply_checks updated_at [] d = Inr d"
| "apply_checks updated_at (c # cs) d =
     (case map_of d (ck_proxy_id c) of
        None \<Rightarrow> Inl (ProxyRotationError ''proxy not in pool'')
      | Some current \<Rightarrow>
          apply_checks updated_at cs (AList.update (ck_proxy_id c) (apply_check updated_at c current) d))"

text \<open>\<open>{proxy.proxy_id: proxy for proxy in pool.proxies}\<close>.\<close>

definition by_proxy_id :: "proxy_state list \<Rightarrow> (string, proxy_state) dict" where
  "by_proxy_id ps = fold (\<lambda>p. AList.update (xs_proxy_id p) p) ps []"

definition apply_proxy_health_checks ::
    "runtime \<Rightarrow> proxy_pool \<Rightarrow> proxy_check list \<Rightarrow> string \<Rightarrow> int \<Rightarrow> exn + proxy_pool" where
  "apply_proxy_health_checks rt pool checks updated_by updated_at =
     ebind (apply_checks updated_at checks (by_proxy_id (pp_proxies pool))) (\<lambda>d.
     build_proxy_pool_state rt (pp_tenant_id pool) (pp_pool_id pool) (pp_platform pool)
       (pp_revision pool + 1) (pp_cursor pool) (map snd d) updated_by updated_at (pp_metadata pool)
       (pp_audit_hash pool))"

text \<open>The search from the cursor on, around the pool.\<close>

definition select_live_proxy :: "proxy_pool \<Rightarrow> exn + nat \<times> proxy_state" where
  "select_live_proxy pool =
     (let n = length (pp_proxies pool);
          candidate = (\<lambda>offset. (pp_cursor pool + offset) mod n)
      in case find (\<lambda>offset. is_leasable (pp_proxies pool ! candidate offset)) [0..<n] of
           Some offset \<Rightarrow> Inr (candidate offset, pp_proxies pool ! candidate offset)
         | None \<Rightarrow> Inl ProxyUnavailableError)"

definition scoped_proxy_hash :: "runtime \<Rightarrow> string \<Rightarrow> string" where
  "scoped_proxy_hash rt v = ''sha256:'' @ rt_sha256 rt v"

definition redacted_proxy_url :: "(string \<Rightarrow> bool) \<Rightarrow> string \<Rightarrow> exn + string" where
  "redacted_proxy_url bracketed url =
     ebind (urlsplit bracketed url) (\<lambda>parts.
     ebind (if has_userinfo parts
            then map_sum id (\<lambda>port. url_hostname parts @
                   (case port of None \<Rightarrow> [] | Some n \<Rightarrow> '':'' @ nat_digits n)) (url_port parts)
            else Inr (up_netloc parts)) (\<lambda>netloc.
     Inr (urlunsplit (parts\<lparr>up_netloc := netloc, up_fragment := []\<rparr>))))"

definition state_from_config :: "runtime \<Rightarrow> (string \<Rightarrow> bool) \<Rightarrow> proxy_config \<Rightarrow> exn + proxy_state" where
  "state_from_config rt bracketed c =
     ebind (redacted_proxy_url bracketed (xc_url c)) (\<lambda>redacted.
     model ''ProxyEndpointState''
       (token_ok (pyd_strip (xc_proxy_id c)) \<and> length_between 1 2048 (pyd_strip redacted) \<and>
        sha_ref_ok (pyd_strip (scoped_proxy_hash rt (xc_url c))) \<and>
        optional_ok sha_ref_ok (map_option (pyd_strip \<circ> scoped_proxy_hash rt) (xc_secret_ref c)) \<and>
        0 \<le> xc_priority c \<and> xc_priority c \<le> 10000)
       \<lparr>xs_proxy_id = pyd_strip (xc_proxy_id c), xs_protocol = xc_protocol c,
        xs_redacted_url = pyd_strip redacted,
        xs_url_hash = pyd_strip (scoped_proxy_hash rt (xc_url c)),
        xs_secret_ref_hash = map_option (pyd_strip \<circ> scoped_proxy_hash rt) (xc_secret_ref c),
        xs_priority = xc_priority c, xs_enabled = xc_enabled c,
        xs_health = (if xc_enabled c then HEALTHY else DISABLED), xs_failures = 0,
        xs_successes = 0, xs_last_checked_at = None, xs_last_latency_ms = None,
        xs_last_failure_reason = None,
        xs_metadata = obj_members (rt_pyd_json rt (JObj (xc_metadata c)))\<rparr>)"

fun states_from_configs ::
    "runtime \<Rightarrow> (string \<Rightarrow> bool) \<Rightarrow> proxy_config list \<Rightarrow> exn + proxy_state list" where
  "states_from_configs rt bracketed [] = Inr []"
| "states_from_configs rt bracketed (c # cs) =
     ebind (state_from_config rt bracketed c) (\<lambda>p.
     ebind (states_from_configs rt bracketed cs) (\<lambda>ps. Inr (p # ps)))"

definition ensure_unique_proxy_ids :: "proxy_state list \<Rightarrow> exn + unit" where
  "ensure_unique_proxy_ids ps =
     (if distinct (map xs_proxy_id ps) then Inr () else Inl (ProxyRotationError ''duplicate proxy_id''))"

definition string_list :: "string list \<Rightarrow> json" where
  "string_list ss = JList (map JStr ss)"

definition protocols_of :: "proxy_pool \<Rightarrow> string list" where
  "protocols_of pool = sort (first_occurrences (map (protocol_value \<circ> xs_protocol) (pp_proxies pool)))"

definition pool_audit_metadata :: "proxy_pool \<Rightarrow> (string \<times> json) list" where
  "pool_audit_metadata pool =
     [(''pool_id'', JStr (pp_pool_id pool)), (''platform'', JStr (pp_platform pool)),
      (''revision'', JInt (int (pp_revision pool))), (''rotation_strategy'', JStr ''round_robin''),
      (''total_proxy_count'', JInt (int (pp_total pool))),
      (''healthy_proxy_count'', JInt (int (pp_healthy pool))),
      (''unhealthy_proxy_count'', JInt (int (pp_unhealthy pool))),
      (''disabled_proxy_count'', JInt (int (pp_disabled pool))),
      (''proxy_ids'', string_list (map xs_proxy_id (pp_proxies pool))),
      (''protocols'', string_list (protocols_of pool)),
      (''metadata_keys'', string_list (sort (map fst (pp_metadata pool))))]"

section \<open>The manager\<close>

record rotation_state = svc +
  pools :: "(string \<times> string, proxy_pool) dict"

definition store_pool :: "proxy_pool \<Rightarrow> 'z rotation_state_scheme \<Rightarrow> 'z rotation_state_scheme" where
  "store_pool p s = s\<lparr>pools := AList.update (pp_tenant_id p, pp_pool_id p) p (pools s)\<rparr>"

definition save_pool :: "proxy_pool \<Rightarrow> ('z rotation_state_scheme, proxy_pool) act" where
  "save_pool p = bnd (modify (store_pool p)) (\<lambda>_. ret p)"

definition require_pool :: "string \<Rightarrow> string \<Rightarrow> ('z rotation_state_scheme, proxy_pool) act" where
  "require_pool tenant_id pool_id =
     bnd (gets (\<lambda>s. map_of (pools s) (tenant_id, pool_id))) (\<lambda>found.
     case found of None \<Rightarrow> fail ProxyPoolNotFoundError | Some p \<Rightarrow> ret p)"

record pool_request =
  uq_tenant_id :: string
  uq_pool_id :: string
  uq_platform :: string
  uq_proxies :: "proxy_config list"
  uq_updated_by :: string
  uq_correlation_id :: string
  uq_metadata :: "(string \<times> json) list"
  uq_updated_at :: time_arg
  uq_event_id :: "string option"

definition upsert_pool ::
    "runtime \<Rightarrow> (string \<Rightarrow> bool) \<Rightarrow> pool_request \<Rightarrow> ('z rotation_state_scheme, proxy_pool) act" where
  "upsert_pool rt bracketed r =
     bnd (require (uq_proxies r \<noteq> []) (ProxyRotationError ''empty pool'')) (\<lambda>_.
     bnd (gets (\<lambda>s. map_of (pools s) (uq_tenant_id r, uq_pool_id r))) (\<lambda>existing.
     bnd (lift (normalize_datetime rt (uq_updated_at r))) (\<lambda>changed_at.
     bnd (lift (states_from_configs rt bracketed (uq_proxies r))) (\<lambda>proxies.
     bnd (lift (ensure_unique_proxy_ids proxies)) (\<lambda>_.
     bnd (lift (build_proxy_pool_state rt (uq_tenant_id r) (uq_pool_id r) (uq_platform r)
            (case existing of None \<Rightarrow> 1 | Some p \<Rightarrow> pp_revision p + 1) 0 proxies (uq_updated_by r)
            changed_at (uq_metadata r) (replicate 64 (CHR ''0'')))) (\<lambda>built.
     bnd (audit_log rt ''neuro_agent.proxy_pool.updated'' (uq_tenant_id r) None
            (Some (pool_audit_metadata built)) (AtTime (Aware changed_at 0))
            (Some (uq_correlation_id r))
            (Some (subject_ref_hash rt (uq_tenant_id r) (uq_updated_by r)))
            (Some ''neuro-agent-orchestrator'')) (\<lambda>rec.
     let pool = built\<lparr>pp_audit_hash := ar_audit_hash rec\<rparr> in
     bnd (save_pool pool) (\<lambda>_.
     bnd (id_or_new rt (uq_event_id r) ''evt-proxy-pool-updated'') (\<lambda>event_id.
     bnd (emit event_id ''neuro_agent.proxy_pool.updated'' ''1.0'' (uq_tenant_id r)
            ''neuro-agent-orchestrator'' (uq_correlation_id r) changed_at
            [(''pool_id'', JStr (pp_pool_id pool)), (''platform'', JStr (pp_platform pool)),
             (''revision'', JInt (int (pp_revision pool))),
             (''total_proxy_count'', JInt (int (pp_total pool))),
             (''healthy_proxy_count'', JInt (int (pp_healthy pool))),
             (''unhealthy_proxy_count'', JInt (int (pp_unhealthy pool))),
             (''protocols'', string_list (protocols_of pool)),
             (''audit_hash'', JStr (pp_audit_hash pool))] None) (\<lambda>_.
     ret pool))))))))))"

record check_request =
  hq_tenant_id :: string
  hq_pool_id :: string
  hq_checks :: "proxy_check list"
  hq_checked_by :: string
  hq_correlation_id :: string
  hq_event_id :: "string option"

record check_result =
  hr_tenant_id :: string
  hr_pool_id :: string
  hr_checked :: nat
  hr_healthy :: nat
  hr_unhealthy :: nat
  hr_audit_hash :: string
  hr_pool :: proxy_pool

text \<open>\<open>max((check.checked_at ...), default=now)\<close>.\<close>

definition latest_check :: "int \<Rightarrow> proxy_check list \<Rightarrow> int" where
  "latest_check now checks =
     (case List.map_filter ck_checked_at checks of [] \<Rightarrow> now | t # ts \<Rightarrow> fold max ts t)"

definition check_pool_health ::
    "runtime \<Rightarrow> check_request \<Rightarrow> ('z rotation_state_scheme, check_result) act" where
  "check_pool_health rt r =
     bnd (require (hq_checks r \<noteq> []) (ProxyRotationError ''no checks'')) (\<lambda>_.
     bnd (require_pool (hq_tenant_id r) (hq_pool_id r)) (\<lambda>pool.
     bnd (lift (apply_proxy_health_checks rt pool (hq_checks r) (hq_checked_by r)
            (latest_check (rt_utcnow rt) (hq_checks r)))) (\<lambda>applied.
     let failed = string_list (map ck_proxy_id (filter (\<lambda>c. \<not> ck_alive c) (hq_checks r))) in
     bnd (audit_log rt ''neuro_agent.proxy_health.checked'' (hq_tenant_id r) None
            (Some (pool_audit_metadata applied @
               [(''checked_proxy_count'', JInt (int (length (hq_checks r)))),
                (''checked_proxy_ids'', string_list (map ck_proxy_id (hq_checks r))),
                (''failed_proxy_ids'', failed)]))
            (AtTime (Aware (pp_updated_at applied) 0)) (Some (hq_correlation_id r))
            (Some (subject_ref_hash rt (hq_tenant_id r) (hq_checked_by r)))
            (Some ''neuro-agent-orchestrator'')) (\<lambda>rec.
     let checked = applied\<lparr>pp_audit_hash := ar_audit_hash rec\<rparr> in
     bnd (save_pool checked) (\<lambda>_.
     bnd (id_or_new rt (hq_event_id r) ''evt-proxy-health-checked'') (\<lambda>event_id.
     bnd (emit event_id ''neuro_agent.proxy_health.checked'' ''1.0'' (hq_tenant_id r)
            ''neuro-agent-orchestrator'' (hq_correlation_id r) (pp_updated_at checked)
            [(''pool_id'', JStr (pp_pool_id checked)),
             (''revision'', JInt (int (pp_revision checked))),
             (''checked_proxy_count'', JInt (int (length (hq_checks r)))),
             (''healthy_proxy_count'', JInt (int (pp_healthy checked))),
             (''unhealthy_proxy_count'', JInt (int (pp_unhealthy checked))),
             (''failed_proxy_ids'', failed),
             (''audit_hash'', JStr (ar_audit_hash rec))] None) (\<lambda>_.
     lift (model ''ProxyHealthCheckResult''
       (tenant_id_ok (pyd_strip (hq_tenant_id r)) \<and> token_ok (pyd_strip (hq_pool_id r)) \<and>
        audit_hash_ok (pyd_strip (ar_audit_hash rec)))
       \<lparr>hr_tenant_id = pyd_strip (hq_tenant_id r), hr_pool_id = pyd_strip (hq_pool_id r),
        hr_checked = length (hq_checks r), hr_healthy = pp_healthy checked,
        hr_unhealthy = pp_unhealthy checked, hr_audit_hash = pyd_strip (ar_audit_hash rec),
        hr_pool = checked\<rparr>))))))))"

record lease_request =
  lq_tenant_id :: string
  lq_pool_id :: string
  lq_leased_by :: string
  lq_correlation_id :: string
  lq_selected_at :: time_arg
  lq_event_id :: "string option"

record proxy_lease =
  pe_tenant_id :: string
  pe_pool_id :: string
  pe_lease_id :: string
  pe_proxy_id :: string
  pe_protocol :: proxy_protocol
  pe_redacted_url :: string
  pe_url_hash :: string
  pe_secret_ref_hash :: "string option"
  pe_health :: health_status
  pe_pool_revision :: nat
  pe_selected_at :: int
  pe_audit_hash :: string

definition proxy_lease ::
    "string \<Rightarrow> proxy_pool \<Rightarrow> string \<Rightarrow> proxy_state \<Rightarrow> int \<Rightarrow> string \<Rightarrow> exn + proxy_lease" where
  "proxy_lease tenant_id pool lease_id p selected_at audit =
     model ''ProxyLease''
       (tenant_id_ok (pyd_strip tenant_id) \<and> token_ok (pyd_strip (pp_pool_id pool)) \<and>
        token_ok (pyd_strip lease_id) \<and> token_ok (pyd_strip (xs_proxy_id p)) \<and>
        length_between 1 2048 (pyd_strip (xs_redacted_url p)) \<and> sha_ref_ok (pyd_strip (xs_url_hash p)) \<and>
        optional_ok sha_ref_ok (map_option pyd_strip (xs_secret_ref_hash p)) \<and>
        1 \<le> pp_revision pool \<and> audit_hash_ok (pyd_strip audit))
       \<lparr>pe_tenant_id = pyd_strip tenant_id, pe_pool_id = pyd_strip (pp_pool_id pool),
        pe_lease_id = pyd_strip lease_id, pe_proxy_id = pyd_strip (xs_proxy_id p),
        pe_protocol = xs_protocol p, pe_redacted_url = pyd_strip (xs_redacted_url p),
        pe_url_hash = pyd_strip (xs_url_hash p),
        pe_secret_ref_hash = map_option pyd_strip (xs_secret_ref_hash p), pe_health = xs_health p,
        pe_pool_revision = pp_revision pool, pe_selected_at = selected_at,
        pe_audit_hash = pyd_strip audit\<rparr>"

definition lease_proxy ::
    "runtime \<Rightarrow> lease_request \<Rightarrow> ('z rotation_state_scheme, proxy_lease) act" where
  "lease_proxy rt r =
     bnd (require_pool (lq_tenant_id r) (lq_pool_id r)) (\<lambda>pool.
     bnd (lift (normalize_datetime rt (lq_selected_at r))) (\<lambda>selected_at.
     bnd (lift (select_live_proxy pool)) (\<lambda>(index, p).
     bnd (save_pool (pool\<lparr>pp_cursor := (index + 1) mod length (pp_proxies pool)\<rparr>)) (\<lambda>_.
     bnd (new_id rt ''proxy-lease'') (\<lambda>lease_id.
     bnd (audit_log rt ''neuro_agent.proxy.leased'' (lq_tenant_id r) None
            (Some [(''pool_id'', JStr (pp_pool_id pool)), (''lease_id'', JStr lease_id),
                   (''proxy_id'', JStr (xs_proxy_id p)),
                   (''protocol'', JStr (protocol_value (xs_protocol p))),
                   (''url_hash'', JStr (xs_url_hash p)),
                   (''pool_revision'', JInt (int (pp_revision pool))),
                   (''rotation_strategy'', JStr ''round_robin'')])
            (AtTime (Aware selected_at 0)) (Some (lq_correlation_id r))
            (Some (subject_ref_hash rt (lq_tenant_id r) (lq_leased_by r)))
            (Some ''neuro-agent-orchestrator'')) (\<lambda>rec.
     bnd (lift (proxy_lease (lq_tenant_id r) pool lease_id p selected_at (ar_audit_hash rec))) (\<lambda>lease.
     bnd (id_or_new rt (lq_event_id r) ''evt-proxy-leased'') (\<lambda>event_id.
     bnd (emit event_id ''neuro_agent.proxy.leased'' ''1.0'' (lq_tenant_id r)
            ''neuro-agent-orchestrator'' (lq_correlation_id r) selected_at
            [(''pool_id'', JStr (pp_pool_id pool)), (''lease_id'', JStr (pe_lease_id lease)),
             (''proxy_id'', JStr (xs_proxy_id p)),
             (''protocol'', JStr (protocol_value (xs_protocol p))),
             (''url_hash'', JStr (xs_url_hash p)),
             (''pool_revision'', JInt (int (pp_revision pool))),
             (''audit_hash'', JStr (pe_audit_hash lease))] None) (\<lambda>_.
     ret lease)))))))))"

section \<open>Pools in order\<close>

text \<open>
  A pool in order: sorted by priority and identifier, with distinct identifiers, its cursor inside,
  its counts those of its proxies, and none healthy that is switched off.
\<close>

definition proxies_ok :: "proxy_state list \<Rightarrow> bool" where
  "proxies_ok ps \<longleftrightarrow> distinct (map xs_proxy_id ps) \<and> (\<forall>p\<in>set ps. xs_health p = HEALTHY \<longrightarrow> xs_enabled p)"

definition pool_ok :: "proxy_pool \<Rightarrow> bool" where
  "pool_ok pool \<longleftrightarrow>
     pp_proxies pool \<noteq> [] \<and> proxies_ok (pp_proxies pool) \<and>
     sorted (map proxy_order (pp_proxies pool)) \<and> pp_cursor pool < length (pp_proxies pool) \<and>
     pp_total pool = length (pp_proxies pool) \<and>
     pp_healthy pool = count_with is_leasable (pp_proxies pool) \<and>
     pp_unhealthy pool = count_with (\<lambda>p. xs_health p = UNHEALTHY) (pp_proxies pool) \<and>
     pp_disabled pool = count_with (\<lambda>p. xs_health p = DISABLED) (pp_proxies pool) \<and>
     1 \<le> pp_revision pool"

lemma counts_sum:
  "\<forall>p\<in>set ps. xs_health p = HEALTHY \<longrightarrow> xs_enabled p \<Longrightarrow>
     count_with is_leasable ps + count_with (\<lambda>p. xs_health p = UNHEALTHY) ps +
     count_with (\<lambda>p. xs_health p = DISABLED) ps = length ps"
proof (induction ps)
  case (Cons p ps)
  then show ?case by (cases "xs_health p") (auto simp: count_with_def is_leasable_def)
qed (simp add: count_with_def)

lemma build_pool_ok:
  assumes "build_proxy_pool_state rt ten i pl rv cur ps by n md a = Inr pool" and "proxies_ok ps"
  shows "pool_ok pool"
proof -
  have "distinct (map xs_proxy_id (sort_key proxy_order ps))"
    using assms(2) by (simp add: proxies_ok_def distinct_map)
  moreover have "sort_key proxy_order ps \<noteq> []" if "ps \<noteq> []"
    using that by (metis length_0_conv length_sort)
  ultimately show ?thesis
    using assms by (auto simp: build_proxy_pool_state_def Let_def pool_ok_def proxies_ok_def split: if_splits)
qed

lemma build_pool_fields:
  "build_proxy_pool_state rt ten i pl rv cur ps by n md a = Inr pool \<Longrightarrow>
     pp_revision pool = rv \<and> set (pp_proxies pool) = set ps \<and> pp_cursor pool = cur mod length ps \<and>
     length (pp_proxies pool) = length ps \<and> pp_tenant_id pool = pyd_strip ten \<and> pp_pool_id pool = pyd_strip i"
  by (auto simp: build_proxy_pool_state_def Let_def split: if_splits)

lemma by_proxy_id_fold:
  "distinct (map xs_proxy_id ps) \<Longrightarrow> set (map xs_proxy_id ps) \<inter> set (map fst d) = {} \<Longrightarrow>
     fold (\<lambda>p. AList.update (xs_proxy_id p) p) ps d = d @ map (\<lambda>p. (xs_proxy_id p, p)) ps"
proof (induction ps arbitrary: d)
  case (Cons p ps)
  then have "map_of d (xs_proxy_id p) = None" by (auto simp: map_of_eq_None_iff image_iff)
  then have "AList.update (xs_proxy_id p) p d = d @ [(xs_proxy_id p, p)]" by (rule dict_update_new)
  then show ?case using Cons by auto
qed simp

lemma by_proxy_id_map: "distinct (map xs_proxy_id ps) \<Longrightarrow> by_proxy_id ps = map (\<lambda>p. (xs_proxy_id p, p)) ps"
  using by_proxy_id_fold [of ps "[]"] by (simp add: by_proxy_id_def)

text \<open>The dictionary of a pool's proxies under their own identifiers.\<close>

definition proxy_dict_ok :: "(string, proxy_state) dict \<Rightarrow> bool" where
  "proxy_dict_ok d \<longleftrightarrow>
     dict_ok d \<and> (\<forall>kv\<in>set d. xs_proxy_id (snd kv) = fst kv \<and> (xs_health (snd kv) = HEALTHY \<longrightarrow> xs_enabled (snd kv)))"

lemma proxy_dict_ok_update:
  assumes "proxy_dict_ok d" and "xs_proxy_id v = k" and "xs_health v = HEALTHY \<longrightarrow> xs_enabled v"
  shows "proxy_dict_ok (AList.update k v d)"
  using assms set_update_subset [of k v d] by (fastforce simp: proxy_dict_ok_def)

lemma apply_check_fields [simp]:
  "xs_proxy_id (apply_check n c p) = xs_proxy_id p" "xs_enabled (apply_check n c p) = xs_enabled p"
  by (simp_all add: apply_check_def Let_def)

lemma apply_check_health: "xs_health (apply_check n c p) = HEALTHY \<Longrightarrow> xs_enabled p"
  by (auto simp: apply_check_def Let_def split: if_splits)

lemma apply_checks_ok:
  "proxy_dict_ok d \<Longrightarrow> apply_checks n cs d = Inr d' \<Longrightarrow> proxy_dict_ok d' \<and> map fst d' = map fst d"
proof (induction cs arbitrary: d)
  case (Cons c cs)
  then obtain p where p: "map_of d (ck_proxy_id c) = Some p"
      "apply_checks n cs (AList.update (ck_proxy_id c) (apply_check n c p) d) = Inr d'"
    by (auto split: option.splits)
  have "(ck_proxy_id c, p) \<in> set d" using p(1) by (rule map_of_SomeD)
  then have "xs_proxy_id p = ck_proxy_id c" using Cons.prems(1) by (auto simp: proxy_dict_ok_def)
  then have "proxy_dict_ok (AList.update (ck_proxy_id c) (apply_check n c p) d)"
    using Cons.prems(1) apply_check_health by (intro proxy_dict_ok_update) auto
  moreover have "map fst (AList.update (ck_proxy_id c) (apply_check n c p) d) = map fst d"
    using p(1) by (metis domI dom_map_of_conv_image_fst list.set_map update_keys)
  ultimately show ?case using Cons.IH p(2) by auto
qed auto

lemma proxy_dict_values: "proxy_dict_ok d \<Longrightarrow> proxies_ok (map snd d)"
proof -
  assume ok: "proxy_dict_ok d"
  then have "map xs_proxy_id (map snd d) = map fst d"
    by (auto simp: proxy_dict_ok_def)
  then have "distinct (map xs_proxy_id (map snd d))"
    using ok by (metis proxy_dict_ok_def dict_ok_def)
  then show ?thesis using ok by (auto simp: proxies_ok_def proxy_dict_ok_def)
qed

lemma health_checks_ok:
  assumes "pool_ok pool" and "apply_proxy_health_checks rt pool cs by n = Inr pool'"
  shows "pool_ok pool' \<and> pp_revision pool' = pp_revision pool + 1 \<and> pp_cursor pool' = pp_cursor pool \<and>
    length (pp_proxies pool') = length (pp_proxies pool) \<and> pp_tenant_id pool' = pyd_strip (pp_tenant_id pool) \<and>
    pp_pool_id pool' = pyd_strip (pp_pool_id pool)"
proof -
  have d: "by_proxy_id (pp_proxies pool) = map (\<lambda>p. (xs_proxy_id p, p)) (pp_proxies pool)"
    using assms(1) by (intro by_proxy_id_map) (simp add: pool_ok_def proxies_ok_def)
  have "proxy_dict_ok (by_proxy_id (pp_proxies pool))"
    using assms(1) by (auto simp: d proxy_dict_ok_def dict_ok_def pool_ok_def proxies_ok_def comp_def)
  moreover obtain d' where d': "apply_checks n cs (by_proxy_id (pp_proxies pool)) = Inr d'"
      "build_proxy_pool_state rt (pp_tenant_id pool) (pp_pool_id pool) (pp_platform pool)
         (pp_revision pool + 1) (pp_cursor pool) (map snd d') by n (pp_metadata pool) (pp_audit_hash pool) = Inr pool'"
    using assms(2) by (auto simp: apply_proxy_health_checks_def)
  ultimately have ok: "proxy_dict_ok d'" "map fst d' = map fst (by_proxy_id (pp_proxies pool))"
    using apply_checks_ok by blast+
  then have "length d' = length (pp_proxies pool)" by (metis d length_map)
  then show ?thesis
    using build_pool_ok [OF d'(2) proxy_dict_values [OF ok(1)]] build_pool_fields [OF d'(2)] assms(1)
    by (auto simp: pool_ok_def)
qed

section \<open>What the operations do\<close>

lemma svc_grows_pools: "svc_grows s t \<Longrightarrow> pools t = pools s"
  by (cases s; cases t) (simp add: svc_grows_def svc_rest_def)

lemma svc_grows_store_pool: "svc_grows s t \<Longrightarrow> svc_grows (store_pool p s) (store_pool p t)"
  by (cases s; cases t) (simp add: svc_grows_def svc_rest_def store_pool_def)

lemma pools_store [simp]: "pools (store_pool p s) = AList.update (pp_tenant_id p, pp_pool_id p) p (pools s)"
  by (simp add: store_pool_def)

lemma require_pool_rule:
  assumes "\<And>e. Q (Inl e) s" and "\<And>p. map_of (pools s) (ten, i) = Some p \<Longrightarrow> Q (Inr p) s"
  shows "outcome (require_pool ten i) Q s"
  using assms by (simp add: require_pool_def act_simps split: option.splits)

lemma states_from_configs_enabled:
  "states_from_configs rt b cs = Inr ps \<Longrightarrow> \<forall>p\<in>set ps. xs_health p = HEALTHY \<longrightarrow> xs_enabled p"
proof (induction cs arbitrary: ps)
  case (Cons c cs)
  then show ?case by (auto simp: state_from_config_def split: if_splits)
qed simp

lemma after_store_pool:
  "svc_grows s t \<Longrightarrow> svc_grows (store_pool p (sink_append r t)) u \<Longrightarrow>
     svc_grows (store_pool p s) (u\<lparr>bus := bus u @ ms\<rparr>)"
  by (blast intro: svc_grows_trans svc_grows_store_pool svc_grows_bus_trans)

lemma after_store_pool0:
  "svc_grows s t \<Longrightarrow> svc_grows (store_pool p (sink_append r t)) u \<Longrightarrow> svc_grows (store_pool p s) u"
  using after_store_pool [of s t p r u "[]"] by simp

lemma upsert_pool_rule:
  assumes "\<And>e t. svc_grows s t \<Longrightarrow> Q (Inl e) t"
    and "\<And>p rs t. pool_ok p \<Longrightarrow> pp_revision p =
           (case map_of (pools s) (uq_tenant_id r, uq_pool_id r) of None \<Rightarrow> 1 | Some q \<Rightarrow> pp_revision q + 1) \<Longrightarrow>
           pp_cursor p = 0 \<Longrightarrow> svc_grows (store_pool p s) t \<Longrightarrow> Q rs t"
  shows "outcome (upsert_pool rt b r) Q s"
proof -
  let ?rv = "case map_of (pools s) (uq_tenant_id r, uq_pool_id r) of None \<Rightarrow> 1 | Some q \<Rightarrow> pp_revision q + 1"
  have fin: "Q rs (u\<lparr>bus := bus u @ ms\<rparr>)"
    if "build_proxy_pool_state rt ten i pl ?rv 0 ps by n md a = Inr pool"
      "states_from_configs rt b (uq_proxies r) = Inr ps" "distinct (map xs_proxy_id ps)"
      "svc_grows (store_pool (pool\<lparr>pp_audit_hash := h\<rparr>) (sink_append rec s)) u"
    for rs u ms ten i pl ps "by" n md a pool h rec
  proof (rule assms(2) [of "pool\<lparr>pp_audit_hash := h\<rparr>"])
    have "proxies_ok ps" using that(3) states_from_configs_enabled [OF that(2)] by (simp add: proxies_ok_def)
    then show "pool_ok (pool\<lparr>pp_audit_hash := h\<rparr>)"
      using build_pool_ok [OF that(1)] by (simp add: pool_ok_def)
    show "svc_grows (store_pool (pool\<lparr>pp_audit_hash := h\<rparr>) s) (u\<lparr>bus := bus u @ ms\<rparr>)"
      using after_store_pool [OF svc_grows_refl that(4)] .
  qed (use build_pool_fields [OF that(1)] in auto)
  note fin0 = fin [where ms = "[]", simplified]
  show ?thesis
    using assms(1) [OF svc_grows_refl]
    by (auto simp: upsert_pool_def act_simps Let_def save_pool_def ensure_unique_proxy_ids_def
        split: sum.splits if_splits intro!: id_or_new_rule audit_log_rule emit_rule)
      (auto intro: assms(1) fin fin0)
qed

lemma check_pool_health_rule:
  assumes "\<And>e t. svc_grows s t \<Longrightarrow> Q (Inl e) t"
    and "\<And>p q h rs t. map_of (pools s) (hq_tenant_id r, hq_pool_id r) = Some p \<Longrightarrow>
           apply_proxy_health_checks rt p (hq_checks r) (hq_checked_by r)
             (latest_check (rt_utcnow rt) (hq_checks r)) = Inr q \<Longrightarrow>
           svc_grows (store_pool (q\<lparr>pp_audit_hash := h\<rparr>) s) t \<Longrightarrow> Q rs t"
  shows "outcome (check_pool_health rt r) Q s"
proof -
  have fin: "Q rs (u\<lparr>bus := bus u @ ms\<rparr>)"
    if "map_of (pools s) (hq_tenant_id r, hq_pool_id r) = Some p"
      "apply_proxy_health_checks rt p (hq_checks r) (hq_checked_by r)
             (latest_check (rt_utcnow rt) (hq_checks r)) = Inr q"
      "svc_grows (store_pool (q\<lparr>pp_audit_hash := h\<rparr>) (sink_append rec s)) u"
    for rs u ms p q h rec
    using assms(2) [OF that(1,2)] after_store_pool [OF svc_grows_refl that(3)] by blast
  note fin0 = fin [where ms = "[]", simplified]
  show ?thesis
    using assms(1) [OF svc_grows_refl]
    by (auto simp: check_pool_health_def act_simps Let_def save_pool_def
        split: sum.splits intro!: require_pool_rule id_or_new_rule audit_log_rule emit_rule)
      (auto intro: assms(1) fin fin0)
qed

lemma new_id_grows:
  assumes "\<And>i t. svc_grows s t \<Longrightarrow> Q (Inr i) t"
  shows "outcome (new_id rt prefix) Q s"
  using assms by (auto simp: new_id_def act_simps)

text \<open>A lease moves the cursor past the chosen proxy, whatever happens afterwards.\<close>

lemma lease_proxy_rule:
  fixes s :: "'z rotation_state_scheme"
  assumes "\<And>e. Q (Inl e) s"
    and "\<And>p i x rs t. map_of (pools s) (lq_tenant_id r, lq_pool_id r) = Some p \<Longrightarrow>
           select_live_proxy p = Inr (i, x) \<Longrightarrow>
           svc_grows (store_pool (p\<lparr>pp_cursor := (i + 1) mod length (pp_proxies p)\<rparr>) s) t \<Longrightarrow>
           (\<exists>e. rs = Inl e) \<or> (\<exists>l. rs = Inr l \<and> pe_proxy_id l = pyd_strip (xs_proxy_id x)) \<Longrightarrow> Q rs t"
  shows "outcome (lease_proxy rt r) Q s"
proof -
  have grows: "svc_grows a (u\<lparr>bus := bus u @ ms\<rparr>)"
    if "svc_grows a t" "svc_grows (sink_append rec t) u" for a t u :: "'z rotation_state_scheme" and rec ms
    using that by (blast intro: svc_grows_trans svc_grows_sink svc_grows_bus_trans)
  have fin: "Q rs (u\<lparr>bus := bus u @ ms\<rparr>)"
    if "map_of (pools s) (lq_tenant_id r, lq_pool_id r) = Some p" "select_live_proxy p = Inr (i, x)"
      "svc_grows (store_pool (p\<lparr>pp_cursor := Suc i mod length (pp_proxies p)\<rparr>) s) t"
      "svc_grows (sink_append rec t) u"
      "(\<exists>e. rs = Inl e) \<or> (\<exists>l. rs = Inr l \<and> pe_proxy_id l = pyd_strip (xs_proxy_id x))"
    for p i x t rec u rs ms
    using assms(2) [OF that(1,2) _ that(5)] grows [OF that(3,4)] by simp
  have refused: "Q (Inl e) t"
    if "map_of (pools s) (lq_tenant_id r, lq_pool_id r) = Some p" "select_live_proxy p = Inr (i, x)"
      "svc_grows (store_pool (p\<lparr>pp_cursor := Suc i mod length (pp_proxies p)\<rparr>) s) t" for p i x t e
    using assms(2) [OF that(1,2), of t "Inl e"] that(3) by simp
  note fin0 = fin [of _ _ _ _ _ _ _ "[]", simplified]
  have lease: "pe_proxy_id l = pyd_strip (xs_proxy_id x)" if "proxy_lease ten p i x n a = Inr l" for ten p i x n a l
    using that by (auto simp: proxy_lease_def)
  show ?thesis
    using assms(1)
    by (auto simp: lease_proxy_def act_simps Let_def save_pool_def
        split: sum.splits prod.splits intro!: require_pool_rule id_or_new_rule new_id_grows audit_log_rule emit_rule)
      (auto intro: refused fin fin0 lease svc_grows_sink_trans)
qed

end
