(* ===== verification/PlatformProperties.thy ===== *)
theory PlatformProperties
  imports PolicyManager ProxyRotation Samples
begin

text \<open>
  The properties of the policy manager and of the rotation of proxies.
\<close>

section \<open>Policies\<close>

text \<open>An update of a policy, accepted or refused, keeps the version numbers of every history
  consecutive; an accepted one appends the new record to the history of its own tenant and key and
  leaves every other history as it was.\<close>

theorem policy_versions_count_up:
  assumes "versions_ok s" and "update_policy rt u s = (r, t)"
  shows "versions_ok t \<and>
    (\<forall>p. r = Inr p \<longrightarrow>
       (\<forall>tenant k. history_of tenant k t =
          history_of tenant k s @ (if (tenant, k) = (pl_tenant_id p, pl_key p) then [p] else [])) \<and>
       pl_version p = first_version (pl_key p) + int (length (history_of (pl_tenant_id p) (pl_key p) s)))"
proof -
  have "outcome (update_policy rt u) (\<lambda>r t. svc_grows s t \<and> (\<forall>p. r \<noteq> Inr p) \<or>
      (\<exists>p. policy_of_update rt u s p \<and> svc_grows (store_policy p s) t \<and> (\<forall>q. r = Inr q \<longrightarrow> q = p))) s"
    by (rule update_policy_rule) auto
  from outcomeD [OF this assms(2)] show ?thesis
    using assms(1) store_versions_ok update_version
    by (auto simp: versions_ok_svc history_of_svc history_of_store)
qed

definition no_policies :: policy_state where
  "no_policies = \<lparr>audit_sink = None, uuids = 0, bus = [], policy_history = []\<rparr>"

definition sample_update :: policy_update where
  "sample_update =
     \<lparr>pu_tenant_id = ''t'', pu_key = ''a.b'', pu_updated_by = ''u'', pu_correlation_id = ''c'', pu_value = [],
      pu_metadata = [], pu_updated_at = NoTime, pu_event_id = Some ''e''\<rparr>"

theorem policy_versions_count_up_witness:
  "versions_ok (snd (update_policy sample_runtime sample_update no_policies))"
  by (rule policy_versions_count_up [THEN conjunct1, OF _ prod.collapse [symmetric]])
    (simp add: versions_ok_def no_policies_def history_of_def)

lemma collect_reasons_Inr:
  assumes "collect_reasons rt tenant facts s ks vs rs = Inr (vs', rs')"
  shows "\<exists>new. rs' = rs @ new \<and>
    (new \<noteq> [] \<longleftrightarrow> (\<exists>k\<in>set ks. \<exists>p xs. get_policy rt tenant k s = Inr p \<and> policy_reasons p facts = Inr xs \<and> xs \<noteq> []))"
  using assms
proof (induction ks arbitrary: vs rs)
  case (Cons k ks)
  then obtain p xs where p: "get_policy rt tenant k s = Inr p" "policy_reasons p facts = Inr xs"
      and rest: "collect_reasons rt tenant facts s ks (AList.update (pl_key p) (pl_version p) vs) (rs @ xs) = Inr (vs', rs')"
    by auto
  from Cons.IH [OF rest] p show ?case by force
qed simp

text \<open>Applying policies escalates exactly when one of the policies in force for the tenant is violated
  by the facts; otherwise it allows, and then it gives no reason.\<close>

theorem escalation_means_violation:
  assumes "apply_policies rt tenant keys facts time s = Inr a"
  shows "(pa_decision a = ESCALATE \<longleftrightarrow>
      (\<exists>k\<in>set keys. \<exists>p rs. get_policy rt tenant k s = Inr p \<and> policy_reasons p facts = Inr rs \<and> rs \<noteq> [])) \<and>
    (pa_decision a = ALLOW \<longleftrightarrow> pa_reasons a = [])"
proof -
  obtain vs rs where c: "collect_reasons rt tenant facts s keys [] [] = Inr (vs, rs)"
      and d: "pa_decision a = (if first_occurrences rs \<noteq> [] then ESCALATE else ALLOW)"
        "pa_reasons a = map pyd_strip (first_occurrences rs)"
    using assms by (auto simp: apply_policies_def Let_def split: if_splits)
  have "first_occurrences rs = [] \<longleftrightarrow> rs = []" by (cases rs) simp_all
  with collect_reasons_Inr [OF c] d show ?thesis by auto
qed

definition sample_facts :: "(string \<times> json) list" where
  "sample_facts = [(''risk_score'', JFloat (Fin 1))]"

theorem escalation_means_violation_witness:
  "\<exists>k\<in>set [''automation.max_autonomous_risk_score'']. \<exists>p rs.
     get_policy sample_runtime ''t'' k no_policies = Inr p \<and> policy_reasons p sample_facts = Inr rs \<and> rs \<noteq> []"
proof -
  let ?r = "apply_policies sample_runtime ''t'' [''automation.max_autonomous_risk_score''] sample_facts NoTime no_policies"
  have "map_sum (\<lambda>_. ()) pa_decision ?r = Inr ESCALATE" by code_simp
  then obtain a where "?r = Inr a" "pa_decision a = ESCALATE" by auto
  with escalation_means_violation [OF this(1)] show ?thesis by blast
qed

text \<open>A threshold policy with a finite threshold is violated by a finite number exactly when the
  comparison its operator names fails; a number that is not a number violates none of the four.\<close>

theorem threshold_operators:
  assumes "number_field value ''threshold'' = Inr (Fin limit)"
  shows "threshold_violation value ''lte'' (Fin x) = Inr (\<not> x \<le> limit) \<and>
    threshold_violation value ''lt'' (Fin x) = Inr (\<not> x < limit) \<and>
    threshold_violation value ''gte'' (Fin x) = Inr (\<not> limit \<le> x) \<and>
    threshold_violation value ''gt'' (Fin x) = Inr (\<not> limit < x) \<and>
    (\<forall>operator\<in>{''lte'', ''lt'', ''gte'', ''gt''}. threshold_violation value operator NaN = Inr False)"
  using assms by (auto simp: threshold_violation_def float_lt_def)

theorem threshold_operators_witness:
  "threshold_violation [(''threshold'', JFloat (Fin 5))] ''lte'' NaN = Inr False"
proof -
  have "number_field [(''threshold'', JFloat (Fin 5))] ''threshold'' = Inr (Fin 5)"
    by (simp add: number_field_def)
  from threshold_operators [OF this] show ?thesis by blast
qed

section \<open>Proxies\<close>

definition pools_ok :: "'z rotation_state_scheme \<Rightarrow> bool" where
  "pools_ok s \<longleftrightarrow> (\<forall>k p. map_of (pools s) k = Some p \<longrightarrow> pool_ok p)"

lemma pools_ok_svc: "svc_grows s t \<Longrightarrow> pools_ok t = pools_ok s"
  by (simp add: pools_ok_def svc_grows_pools)

lemma pools_ok_store: "pools_ok s \<Longrightarrow> pool_ok p \<Longrightarrow> pools_ok (store_pool p s)"
  by (auto simp: pools_ok_def)

lemma pool_ok_audit [simp]: "pool_ok (p\<lparr>pp_audit_hash := a\<rparr>) = pool_ok p"
  by (simp add: pool_ok_def)

text \<open>Whatever the operations of the rotation are asked and whether they return or raise, every stored
  pool stays in order: sorted, with distinct proxies, its cursor inside, its counts those of its
  proxies, and no proxy healthy that is switched off.\<close>

theorem operations_keep_pools_in_order:
  assumes "pools_ok s"
  shows "pools_ok (snd (upsert_pool rt bracketed u s)) \<and> pools_ok (snd (check_pool_health rt h s)) \<and>
    pools_ok (snd (lease_proxy rt l s))"
proof (intro conjI)
  have "outcome (upsert_pool rt bracketed u) (\<lambda>_ t. pools_ok t) s"
    using assms by (intro upsert_pool_rule) (auto simp: pools_ok_svc pools_ok_store)
  then show "pools_ok (snd (upsert_pool rt bracketed u s))" by (simp add: outcome_def split: prod.splits)
  have checked: "pool_ok (q\<lparr>pp_audit_hash := a\<rparr>)"
    if "map_of (pools s) k = Some p" "apply_proxy_health_checks rt p cs b n = Inr q" for k p cs b n q a
    using health_checks_ok [OF _ that(2)] that(1) assms by (cases k) (simp add: pools_ok_def)
  have "outcome (check_pool_health rt h) (\<lambda>_ t. pools_ok t) s"
    using assms checked by (intro check_pool_health_rule) (auto simp: pools_ok_svc pools_ok_store)
  then show "pools_ok (snd (check_pool_health rt h s))" by (simp add: outcome_def split: prod.splits)
  have moved: "pool_ok (p\<lparr>pp_cursor := i mod length (pp_proxies p)\<rparr>)" if "map_of (pools s) k = Some p" for k p i
  proof -
    have "pool_ok p" using that assms by (cases k) (simp add: pools_ok_def)
    then show ?thesis by (simp add: pool_ok_def)
  qed
  have "outcome (lease_proxy rt l) (\<lambda>_ t. pools_ok t) s"
    using assms moved by (intro lease_proxy_rule) (auto simp: pools_ok_svc pools_ok_store)
  then show "pools_ok (snd (lease_proxy rt l s))" by (simp add: outcome_def split: prod.splits)
qed

text \<open>Every pool is stored under its own tenant and identifier.\<close>

definition pools_keyed :: "'z rotation_state_scheme \<Rightarrow> bool" where
  "pools_keyed s \<longleftrightarrow> (\<forall>k p. map_of (pools s) k = Some p \<longrightarrow> k = (pp_tenant_id p, pp_pool_id p))"

lemma pools_keyed_svc: "svc_grows s t \<Longrightarrow> pools_keyed t = pools_keyed s"
  by (simp add: pools_keyed_def svc_grows_pools)

lemma pools_keyed_store: "pools_keyed s \<Longrightarrow> pools_keyed (store_pool p s)"
  by (auto simp: pools_keyed_def)

lemma operations_keep_pools_keyed:
  assumes "pools_keyed s"
  shows "pools_keyed (snd (upsert_pool rt bracketed u s))" "pools_keyed (snd (check_pool_health rt h s))"
    "pools_keyed (snd (lease_proxy rt l s))"
proof -
  have "outcome (upsert_pool rt bracketed u) (\<lambda>_ t. pools_keyed t) s"
    using assms by (intro upsert_pool_rule) (auto simp: pools_keyed_svc pools_keyed_store)
  then show "pools_keyed (snd (upsert_pool rt bracketed u s))" by (simp add: outcome_def split: prod.splits)
  have "outcome (check_pool_health rt h) (\<lambda>_ t. pools_keyed t) s"
    using assms by (intro check_pool_health_rule) (auto simp: pools_keyed_svc pools_keyed_store)
  then show "pools_keyed (snd (check_pool_health rt h s))" by (simp add: outcome_def split: prod.splits)
  have "outcome (lease_proxy rt l) (\<lambda>_ t. pools_keyed t) s"
    using assms by (intro lease_proxy_rule) (auto simp: pools_keyed_svc pools_keyed_store)
  then show "pools_keyed (snd (lease_proxy rt l s))" by (simp add: outcome_def split: prod.splits)
qed

text \<open>A run of leases, of any pools: the answer to each of them, and the state after the last.\<close>

fun lease_run ::
    "(runtime \<times> lease_request) list \<Rightarrow> 'z rotation_state_scheme
     \<Rightarrow> (lease_request \<times> (exn + proxy_lease)) list \<times> 'z rotation_state_scheme" where
  "lease_run [] s = ([], s)"
| "lease_run ((rt, r) # calls) s =
     (let (x, t) = lease_proxy rt r s; (xs, u) = lease_run calls t in ((r, x) # xs, u))"

text \<open>The answers to the requests for one pool.\<close>

definition answers_for ::
    "string \<Rightarrow> string \<Rightarrow> (lease_request \<times> (exn + proxy_lease)) list \<Rightarrow> (exn + proxy_lease) list" where
  "answers_for tenant pool_id answers =
     map snd (filter (\<lambda>(r, x). lq_tenant_id r = tenant \<and> lq_pool_id r = pool_id) answers)"

text \<open>A lease that returned handed out this proxy.\<close>

definition hands_out :: "proxy_state \<Rightarrow> (exn + proxy_lease) \<Rightarrow> bool" where
  "hands_out p x \<longleftrightarrow> (\<exists>l. x = Inr l \<and> pe_proxy_id l = pyd_strip (xs_proxy_id p))"

text \<open>The steps from the cursor to a proxy, around the pool.\<close>

definition steps_to :: "proxy_pool \<Rightarrow> nat \<Rightarrow> nat" where
  "steps_to pool j = (j + length (pp_proxies pool) - pp_cursor pool) mod length (pp_proxies pool)"

lemma around:
  fixes n c d :: nat
  assumes "c < n" and "d < n"
  shows "((c + d) mod n + n - c) mod n = d"
proof (cases "c + d < n")
  case True
  then show ?thesis using assms by simp
next
  case False
  then have "(c + d) mod n = c + d - n" using assms by (simp add: mod_if)
  then show ?thesis using assms False by simp
qed

lemma around_back:
  fixes n c j :: nat
  assumes "c < n" and "j < n"
  shows "(c + (j + n - c) mod n) mod n = j"
proof (cases "c \<le> j")
  case True
  then have "j + n - c = (j - c) + n" by simp
  then have "(j + n - c) mod n = j - c" using assms by (metis less_imp_diff_less mod_add_self2 mod_less)
  then show ?thesis using True assms by simp
next
  case False
  then have "(j + n - c) mod n = j + n - c" using assms by simp
  then show ?thesis using False assms by simp
qed

lemma select_live_proxy_found:
  assumes "j < length (pp_proxies pool)" and "is_leasable (pp_proxies pool ! j)"
    and "pp_cursor pool < length (pp_proxies pool)"
  shows "\<exists>i p. select_live_proxy pool = Inr (i, p) \<and>
    (i = j \<or> steps_to (pool\<lparr>pp_cursor := (i + 1) mod length (pp_proxies pool)\<rparr>) j < steps_to pool j)"
proof -
  let ?n = "length (pp_proxies pool)" let ?c = "pp_cursor pool"
  let ?live = "\<lambda>k. is_leasable (pp_proxies pool ! ((?c + k) mod ?n))"
  let ?d = "steps_to pool j"
  have "0 < ?n" using assms(1) by linarith
  then have d: "?d < ?n" "(?c + ?d) mod ?n = j"
    using assms(1,3) around_back [of ?c ?n j] by (simp_all add: steps_to_def)
  obtain k where k: "find ?live [0..<?n] = Some k"
    using d assms(2) by (cases "find ?live [0..<?n]") (auto simp: find_None_iff)
  then have first: "k < ?n" "?live k" "\<forall>m<k. \<not> ?live m" by (auto simp: find_Some_iff)
  then have "k \<le> ?d" using d assms(2) by (metis not_le)
  let ?i = "(?c + k) mod ?n"
  have sel: "select_live_proxy pool = Inr (?i, pp_proxies pool ! ?i)"
    using k by (simp add: select_live_proxy_def Let_def)
  show ?thesis
  proof (cases "k = ?d")
    case True
    then show ?thesis using sel d by auto
  next
    case False
    let ?c' = "(?i + 1) mod ?n"
    have "(?c' + (?d - k - 1)) mod ?n = (?c + k + 1 + (?d - k - 1)) mod ?n" by (simp add: mod_simps)
    also have "?c + k + 1 + (?d - k - 1) = ?c + ?d" using False \<open>k \<le> ?d\<close> by simp
    finally have "(?c' + (?d - k - 1)) mod ?n = j" using d by simp
    moreover have "?c' < ?n" using \<open>0 < ?n\<close> by (rule mod_less_divisor)
    moreover have "?d - k - 1 < ?n" using d(1) by simp
    ultimately have "steps_to (pool\<lparr>pp_cursor := ?c'\<rparr>) j = ?d - k - 1"
      using around [of ?c' ?n "?d - k - 1"] by (simp add: steps_to_def)
    then show ?thesis using sel False \<open>k \<le> ?d\<close> by auto
  qed
qed

lemma select_live_proxy_Inr:
  assumes "select_live_proxy pool = Inr (i, p)"
  shows "i < length (pp_proxies pool)" "p = pp_proxies pool ! i" "is_leasable p"
proof -
  let ?n = "length (pp_proxies pool)"
  obtain k where k: "find (\<lambda>o'. is_leasable (pp_proxies pool ! ((pp_cursor pool + o') mod ?n))) [0..<?n] = Some k"
      and i: "i = (pp_cursor pool + k) mod ?n" "p = pp_proxies pool ! i"
    using assms by (auto simp: select_live_proxy_def Let_def split: option.splits)
  from k have "k < ?n" "is_leasable (pp_proxies pool ! ((pp_cursor pool + k) mod ?n))"
    by (auto simp: find_Some_iff)
  moreover from this(1) have "0 < ?n" by linarith
  ultimately show "i < ?n" "p = pp_proxies pool ! i" "is_leasable p" using i by simp_all
qed

text \<open>One lease: another pool keeps its entry; the pool that is asked has its cursor moved behind the
  proxy that is handed out, or the lease raises.\<close>

lemma lease_step:
  fixes s :: "'a rotation_state_scheme"
  assumes "pools_keyed s" and "map_of (pools s) (tenant, pool_id) = Some pool"
    and "lease_proxy rt r s = (x, t)"
  shows "if lq_tenant_id r = tenant \<and> lq_pool_id r = pool_id
    then isl x \<or> (\<exists>i p. select_live_proxy pool = Inr (i, p) \<and> hands_out p x \<and>
           map_of (pools t) (tenant, pool_id) = Some (pool\<lparr>pp_cursor := (i + 1) mod length (pp_proxies pool)\<rparr>))
    else map_of (pools t) (tenant, pool_id) = Some pool"
proof -
  let ?P = "\<lambda>(x :: exn + proxy_lease) (t :: 'a rotation_state_scheme). if lq_tenant_id r = tenant \<and> lq_pool_id r = pool_id
    then isl x \<or> (\<exists>i p. select_live_proxy pool = Inr (i, p) \<and> hands_out p x \<and>
           map_of (pools t) (tenant, pool_id) = Some (pool\<lparr>pp_cursor := (i + 1) mod length (pp_proxies pool)\<rparr>))
    else map_of (pools t) (tenant, pool_id) = Some pool"
  have key: "pp_tenant_id q = a" "pp_pool_id q = b" if "map_of (pools s) (a, b) = Some q" for a b q
    using assms(1) that by (auto simp: pools_keyed_def)
  have "outcome (lease_proxy rt r) ?P s"
  proof (rule lease_proxy_rule)
    fix q i y and x :: "exn + proxy_lease" and t :: "'a rotation_state_scheme"
    assume q: "map_of (pools s) (lq_tenant_id r, lq_pool_id r) = Some q" "select_live_proxy q = Inr (i, y)"
      and t: "svc_grows (store_pool (q\<lparr>pp_cursor := (i + 1) mod length (pp_proxies q)\<rparr>) s) t"
      and x: "(\<exists>e. x = Inl e) \<or> (\<exists>l. x = Inr l \<and> pe_proxy_id l = pyd_strip (xs_proxy_id y))"
    have "map_of (pools t) k = (if k = (lq_tenant_id r, lq_pool_id r)
        then Some (q\<lparr>pp_cursor := (i + 1) mod length (pp_proxies q)\<rparr>) else map_of (pools s) k)" for k
      using svc_grows_pools [OF t] key [OF q(1)] by simp
    with q x assms(2) show "?P x t" by (auto simp: hands_out_def)
  qed (use assms(2) in auto)
  from outcomeD [OF this assms(3)] show ?thesis .
qed

lemma lease_run_turns:
  assumes "pools_keyed s" and "map_of (pools s) (tenant, pool_id) = Some pool"
    and "pp_cursor pool < length (pp_proxies pool)"
    and "lease_run calls s = (answers, t)"
    and "\<forall>x\<in>set (answers_for tenant pool_id answers). \<not> isl x"
  shows "(\<forall>x\<in>set (answers_for tenant pool_id answers). \<exists>p\<in>set (pp_proxies pool). is_leasable p \<and> hands_out p x) \<and>
    (j < length (pp_proxies pool) \<longrightarrow> is_leasable (pp_proxies pool ! j) \<longrightarrow>
     steps_to pool j < length (answers_for tenant pool_id answers) \<longrightarrow>
     (\<exists>x\<in>set (answers_for tenant pool_id answers). hands_out (pp_proxies pool ! j) x))"
  using assms
proof (induction calls arbitrary: s pool answers t)
  case (Cons c calls)
  obtain rt r where c: "c = (rt, r)" by (cases c)
  obtain x u where x: "lease_proxy rt r s = (x, u)" by (cases "lease_proxy rt r s")
  obtain xs t' where xs: "lease_run calls u = (xs, t')" by (cases "lease_run calls u")
  have answers: "answers = (r, x) # xs" using Cons.prems(4) c x xs by simp
  have keyed: "pools_keyed u" using operations_keep_pools_keyed(3) [OF Cons.prems(1), of rt r] x by simp
  note step = lease_step [OF Cons.prems(1,2) x]
  show ?case
  proof (cases "lq_tenant_id r = tenant \<and> lq_pool_id r = pool_id")
    case False
    then have mine: "answers_for tenant pool_id answers = answers_for tenant pool_id xs"
      unfolding answers answers_for_def by simp
    have "map_of (pools u) (tenant, pool_id) = Some pool" using step False by simp
    from Cons.IH [OF keyed this Cons.prems(3) xs] Cons.prems(5) show ?thesis by (simp add: mine)
  next
    case True
    then have mine: "answers_for tenant pool_id answers = x # answers_for tenant pool_id xs"
      by (simp add: answers answers_for_def)
    let ?next = "\<lambda>i. pool\<lparr>pp_cursor := (i + 1) mod length (pp_proxies pool)\<rparr>"
    obtain i p where sel: "select_live_proxy pool = Inr (i, p)" and out: "hands_out p x"
        and u: "map_of (pools u) (tenant, pool_id) = Some (?next i)"
      using step True Cons.prems(5) by (auto simp: mine)
    note got = select_live_proxy_Inr [OF sel]
    have "pp_cursor (?next i) < length (pp_proxies (?next i))" using got(1) by (cases "pp_proxies pool") simp_all
    note IH = Cons.IH [OF keyed u this xs]
    have "p \<in> set (pp_proxies pool)" using got by simp
    moreover have "hands_out (pp_proxies pool ! j) x \<or> steps_to (?next i) j < steps_to pool j"
      if "j < length (pp_proxies pool)" "is_leasable (pp_proxies pool ! j)"
      using select_live_proxy_found [OF that Cons.prems(3)] sel got(2) out by auto
    ultimately show ?thesis
      using IH Cons.prems(5) out got(3) by (fastforce simp: mine)
  qed
qed (simp add: answers_for_def)

text \<open>C15. Rotation starves no proxy: in any run of leases, of this pool and of others, in which as many
  leases of this pool were asked for as it has proxies and none of them raised, every live proxy of the
  pool was handed out by one of them, and none handed out a proxy that is not live. The pool is in order
  and every pool is stored under its own key, as the operations keep them. (A lease that raises after its
  cursor is stored, because its audit record or its event is refused, passes over its proxy.)\<close>

theorem every_live_proxy_gets_its_turn:
  assumes "pools_keyed s" and "map_of (pools s) (tenant, pool_id) = Some pool" and "pool_ok pool"
    and "lease_run calls s = (answers, t)"
    and "\<forall>x\<in>set (answers_for tenant pool_id answers). \<not> isl x"
    and "length (pp_proxies pool) \<le> length (answers_for tenant pool_id answers)"
  shows "(\<forall>p\<in>set (pp_proxies pool). is_leasable p \<longrightarrow>
      (\<exists>x\<in>set (answers_for tenant pool_id answers). hands_out p x)) \<and>
    (\<forall>x\<in>set (answers_for tenant pool_id answers). \<exists>p\<in>set (pp_proxies pool). is_leasable p \<and> hands_out p x)"
proof -
  have cursor: "pp_cursor pool < length (pp_proxies pool)" using assms(3) by (simp add: pool_ok_def)
  have near: "steps_to pool j < length (answers_for tenant pool_id answers)" for j
  proof -
    have "0 < length (pp_proxies pool)" using cursor by linarith
    from mod_less_divisor [OF this] show ?thesis using assms(6) by (auto simp: steps_to_def intro: less_le_trans)
  qed
  show ?thesis
    using lease_run_turns [OF assms(1,2) cursor assms(4,5)] near by (auto simp: in_set_conv_nth)
qed

definition sample_proxy :: "string \<Rightarrow> int \<Rightarrow> health_status \<Rightarrow> proxy_state" where
  "sample_proxy i priority h =
     \<lparr>xs_proxy_id = i, xs_protocol = HTTP, xs_redacted_url = ''http://h'', xs_url_hash = ''sha256:'' @ sample_digest,
      xs_secret_ref_hash = None, xs_priority = priority, xs_enabled = True, xs_health = h, xs_failures = 0,
      xs_successes = 0, xs_last_checked_at = None, xs_last_latency_ms = None,
      xs_last_failure_reason = None, xs_metadata = []\<rparr>"

definition sample_pool :: proxy_pool where
  "sample_pool =
     \<lparr>pp_tenant_id = ''t'', pp_pool_id = ''p'', pp_platform = ''web'', pp_revision = 1, pp_cursor = 2,
      pp_total = 3, pp_healthy = 2, pp_unhealthy = 1, pp_disabled = 0,
      pp_proxies = [sample_proxy ''a'' 0 HEALTHY, sample_proxy ''b'' 1 UNHEALTHY, sample_proxy ''c'' 2 HEALTHY],
      pp_updated_by = ''u'', pp_updated_at = 0, pp_audit_hash = ''h'', pp_metadata = []\<rparr>"

definition sample_rotation :: rotation_state where
  "sample_rotation = \<lparr>audit_sink = None, uuids = 0, bus = [], pools = [((''t'', ''p''), sample_pool)]\<rparr>"

lemma sample_pool_ok: "pool_ok sample_pool"
proof -
  let ?ps = "[sample_proxy ''a'' 0 HEALTHY, sample_proxy ''b'' 1 UNHEALTHY, sample_proxy ''c'' 2 HEALTHY]"
  have "distinct (map xs_proxy_id ?ps)" "\<forall>p\<in>set ?ps. xs_enabled p" by (simp_all add: sample_proxy_def)
  moreover have "sorted (map proxy_order ?ps)" by (simp add: sample_proxy_def proxy_order_def)
  moreover have "count_with is_leasable ?ps = 2" by (simp add: sample_proxy_def count_with_def is_leasable_def)
  moreover have "count_with (\<lambda>p. xs_health p = UNHEALTHY) ?ps = 1"
      "count_with (\<lambda>p. xs_health p = DISABLED) ?ps = 0"
    by (simp_all add: sample_proxy_def count_with_def)
  ultimately show ?thesis by (simp add: pool_ok_def sample_pool_def proxies_ok_def)
qed

text \<open>Three leases of the pool with three proxies, the cursor at its last one and the middle one
  unhealthy.\<close>

definition sample_lease_request :: lease_request where
  "sample_lease_request =
     \<lparr>lq_tenant_id = ''t'', lq_pool_id = ''p'', lq_leased_by = ''u'', lq_correlation_id = ''c'',
      lq_selected_at = NoTime, lq_event_id = None\<rparr>"

definition sample_leases :: "(lease_request \<times> (exn + proxy_lease)) list" where
  "sample_leases = fst (lease_run (replicate 3 (sample_runtime, sample_lease_request)) sample_rotation)"

lemma sample_leases_answers:
  "map (map_sum (\<lambda>_. ()) pe_proxy_id) (answers_for ''t'' ''p'' sample_leases) = [Inr ''c'', Inr ''a'', Inr ''c'']"
  by code_simp

theorem every_live_proxy_gets_its_turn_witness:
  "\<exists>x\<in>set (answers_for ''t'' ''p'' sample_leases). hands_out (sample_proxy ''a'' 0 HEALTHY) x"
proof -
  have l: "length (answers_for ''t'' ''p'' sample_leases) = 3"
    using arg_cong [OF sample_leases_answers, of length] by simp
  have r: "\<forall>x\<in>set (answers_for ''t'' ''p'' sample_leases). \<not> isl x"
  proof
    fix x assume "x \<in> set (answers_for ''t'' ''p'' sample_leases)"
    then have "map_sum (\<lambda>_. ()) pe_proxy_id x \<in> set [Inr ''c'', Inr ''a'', Inr ''c'']"
      unfolding sample_leases_answers [symmetric] by simp
    then show "\<not> isl x" by (cases x) auto
  qed
  have "pools_keyed sample_rotation" "map_of (pools sample_rotation) (''t'', ''p'') = Some sample_pool"
    by (auto simp: pools_keyed_def sample_rotation_def sample_pool_def split: if_splits)
  from every_live_proxy_gets_its_turn [OF this sample_pool_ok prod.collapse [symmetric]
      r [unfolded sample_leases_def] _] l
  show ?thesis
    by (auto simp: sample_leases_def sample_pool_def is_leasable_def sample_proxy_def)
qed

theorem operations_keep_pools_in_order_witness:
  "pools_ok (snd (lease_proxy sample_runtime
     sample_lease_request sample_rotation))"
proof -
  have "pools_ok sample_rotation"
    using sample_pool_ok by (auto simp: pools_ok_def sample_rotation_def split: if_splits)
  from operations_keep_pools_in_order [OF this] show ?thesis by blast
qed

end
