(* ===== verification/SecurityProperties.thy ===== *)
theory SecurityProperties
  imports PayoutConfirm Samples
begin

text \<open>
  The properties of tokens, of the middleware that authenticates requests, of refresh tokens and of
  one-time passwords. The concrete runs use a service whose tokens and identifiers are numbers, a
  constant signature, and a parser that knows the two documents of one token.
\<close>

definition sample_service :: auth_service where
  "sample_service =
     \<lparr>sv_jwt_secret = TextSecret ''k'', sv_issuer = ''i'', sv_audience = ''a'', sv_access_ttl = 60,
      sv_refresh_ttl = 120, sv_clock = of_nat, sv_ids = nat_digits, sv_tokens = nat_digits\<rparr>"

definition sample_claims :: "(string \<times> json) list" where
  "sample_claims = access_claims sample_service ''u'' ''t'' [''r''] 0 (nat_digits 0)"

definition signing_only :: jwt_library where
  "signing_only = \<lparr>hmac_sha256 = (\<lambda>k m. ''sig''), json_loads = (\<lambda>b. NotJson), float_text = (\<lambda>q. ''0'')\<rparr>"

definition sample_library :: jwt_library where
  "sample_library = signing_only\<lparr>json_loads := (\<lambda>b.
     if b = json_bytes signing_only (jwt_header None) then Loaded (JObj (jwt_header None))
     else if b = json_bytes signing_only sample_claims then Loaded (JObj sample_claims) else NotJson)\<rparr>"

definition hashing_runtime :: runtime where
  "hashing_runtime = sample_runtime\<lparr>rt_sha256 := (\<lambda>s. s)\<rparr>"

definition no_tokens :: auth_state where
  "no_tokens = \<lparr>refresh_records = [], clock_reads = 0, ids_drawn = 0, tokens_drawn = 0\<rparr>"

lemma sample_bytes:
  "json_bytes sample_library kvs = json_bytes signing_only kvs"
  by (simp add: sample_library_def json_bytes_def)

lemma sample_header_loads:
  "json_loads sample_library (json_bytes sample_library (jwt_header None)) = Loaded (JObj (jwt_header None))"
  by (simp add: sample_bytes) (simp add: sample_library_def)

lemma sample_claims_loads:
  "json_loads sample_library (json_bytes sample_library sample_claims) = Loaded (JObj sample_claims)"
proof -
  have "hd (drop 3 (json_bytes signing_only (jwt_header None))) \<noteq> hd (drop 3 (json_bytes signing_only sample_claims))"
    by code_simp
  then have "json_bytes signing_only sample_claims \<noteq> json_bytes signing_only (jwt_header None)" by auto
  then show ?thesis by (simp add: sample_bytes) (simp add: sample_library_def)
qed

section \<open>Access tokens\<close>

text \<open>C16. An access token that the service issued is accepted from the second of its issue until it
  expires and gives back the tenant, the subject and the roles it was issued for; earlier and later it
  is refused. The parser is assumed to read back the two documents of the token.\<close>

theorem issued_token_verifies:
  assumes "issue_token_pair rt lib sv subject tenant roles cid s = (Inr p, s')"
    and "iat = int_of_float (sv_clock sv (clock_reads s))" and "0 \<le> iat" "iat + sv_access_ttl sv < 2 ^ 53"
    and "0 < sv_access_ttl sv"
    and "json_loads lib (json_bytes lib (jwt_header None)) = Loaded (JObj (jwt_header None))"
    and "claims = access_claims sv subject tenant roles iat (sv_ids sv (ids_drawn s))"
    and "json_loads lib (json_bytes lib claims) = Loaded (JObj claims)"
  shows "fst (verify_access_token lib sv (tp_access_token p) cid' t) =
    (let now = sv_clock sv (clock_reads t) in
     if of_int (iat + sv_access_ttl sv) \<le> now then Inl (UnauthorizedError ''JWT expired'' None)
     else if now < of_int iat then Inl (UnauthorizedError ''JWT not yet valid'' None)
     else Inr \<lparr>tc_tenant_id = tenant, tc_subject = Some subject, tc_roles = roles,
               tc_correlation_id = cid'\<rparr>)"
proof -
  note issued = issue_token_pair_Inr [OF assms(1), folded assms(2), folded assms(7)]
  have "claim (jwt_header None) ''alg'' = JStr ''HS256''"
    by (simp add: jwt_header_def claim_def)
  from decode_encode [OF assms(6) this assms(8)] access_claims_valid [OF assms(3,5,4)] issued
  show ?thesis
    by (simp add: verify_access_token_def bnd_def read_clock_def act_eval Let_def assms(7))
      (simp add: access_claims_def claim_def)
qed

theorem issued_token_verifies_witness:
  "\<exists>p s'. issue_token_pair hashing_runtime sample_library sample_service ''u'' ''t'' [''r''] None no_tokens = (Inr p, s') \<and>
     fst (verify_access_token sample_library sample_service (tp_access_token p) None no_tokens) =
       Inr \<lparr>tc_tenant_id = ''t'', tc_subject = Some ''u'', tc_roles = [''r''], tc_correlation_id = None\<rparr>"
proof -
  have "\<exists>p s'. issue_token_pair hashing_runtime sample_library sample_service ''u'' ''t'' [''r''] None no_tokens = (Inr p, s')"
    by (simp add: issue_token_pair_def issue_access_token_def bnd_def read_clock_def draw_id_def
        draw_token_def act_eval Let_def normalize_roles_def require_text_def text_defs
        tenant_context_from_claims_def validated_tenant_id_def tenant_id_ok_def is_alnum_def
        optional_string_claim_def roles_from_claims_def claim_def)
  then obtain p s' where p: "issue_token_pair hashing_runtime sample_library sample_service ''u'' ''t'' [''r''] None no_tokens = (Inr p, s')"
    by blast
  have iat: "0 = int_of_float (sv_clock sample_service (clock_reads no_tokens))"
    by (simp add: sample_service_def no_tokens_def int_of_float_def)
  have claims: "sample_claims = access_claims sample_service ''u'' ''t'' [''r''] 0 (sv_ids sample_service (ids_drawn no_tokens))"
    by (simp add: sample_claims_def sample_service_def no_tokens_def)
  have ttl: "0 + sv_access_ttl sample_service < 2 ^ 53" "0 < sv_access_ttl sample_service"
    by (simp_all add: sample_service_def)
  from issued_token_verifies [OF p iat order_refl ttl sample_header_loads claims sample_claims_loads, of None no_tokens]
  show ?thesis using p by (auto simp: sample_service_def no_tokens_def)
qed

text \<open>C17. A request is attributed to a tenant only with a token of three segments whose signature is the
  HMAC of the first two under the secret, whose algorithm is HS256, whose expiry, start, issuer and
  audience are respected, and whose claims name exactly that tenant, a valid identifier.\<close>

theorem accepted_token_is_signed:
  assumes "tenant_context_from_authorization_header lib authorization secret (Some iss) (Some aud) cid now = Inr c"
  shows "\<exists>token header_segment payload_segment signature_segment header claims.
    extract_bearer_token authorization cid = Inr token \<and>
    split_on (CHR ''.'') token = [header_segment, payload_segment, signature_segment] \<and>
    base64url_decode signature_segment =
      Inr (Some (hmac_sha256 lib (secret_bytes secret) (header_segment @ ''.'' @ payload_segment))) \<and>
    decode_json_segment lib header_segment = Inr header \<and> claim header ''alg'' = JStr ''HS256'' \<and>
    decode_json_segment lib payload_segment = Inr claims \<and>
    (claim claims ''exp'' = JNull \<or> (\<exists>e. claim_float (claim claims ''exp'') = Inr e \<and> \<not> float_le e now)) \<and>
    (claim claims ''nbf'' = JNull \<or> (\<exists>e. claim_float (claim claims ''nbf'') = Inr e \<and> \<not> float_lt now e)) \<and>
    claim claims ''iss'' = JStr iss \<and> audience_matches (claim claims ''aud'') aud \<and>
    map_of claims ''tenant_id'' = Some (JStr (tc_tenant_id c)) \<and> tenant_id_ok (tc_tenant_id c)"
proof -
  from assms obtain token claims
    where token: "extract_bearer_token authorization cid = Inr token"
      and decoded: "decode_hs256_jwt lib token secret (Some iss) (Some aud) now = Inr claims"
      and ctx: "tenant_context_from_claims claims cid = Inr c"
    by (auto simp: tenant_context_from_authorization_header_def)
  from decoded obtain h pl sg header
    where parts: "split_on (CHR ''.'') token = [h, pl, sg]"
        "base64url_decode sg = Inr (Some (sign_hs256 lib (h @ ''.'' @ pl) secret))"
        "decode_json_segment lib h = Inr header" "claim header ''alg'' = JStr ''HS256''"
        "decode_json_segment lib pl = Inr claims"
      and valid: "validate_registered_claims claims (Some iss) (Some aud) now = Inr ()"
    by (rule decode_hs256_jwtD)
  show ?thesis
    using token parts valid_claims [OF valid] tenant_context_from_claimsD [OF ctx]
    by (intro exI [where x = token] exI [where x = h] exI [where x = pl] exI [where x = sg]
        exI [where x = header] exI [where x = claims]) (simp add: sign_hs256_def)
qed

text \<open>The header that carries the sample token, and its acceptance.\<close>

definition sample_authorization :: string where
  "sample_authorization = ''Bearer '' @ encode_hs256_jwt sample_library sample_claims (TextSecret ''k'') None"

definition sample_context :: tenant_context where
  "sample_context =
     \<lparr>tc_tenant_id = ''t'', tc_subject = Some ''u'', tc_roles = [''r''], tc_correlation_id = None\<rparr>"

lemma sample_accepted:
  "tenant_context_from_authorization_header sample_library (Some sample_authorization) (TextSecret ''k'')
     (Some ''i'') (Some ''a'') None (Fin 1) = Inr sample_context"
proof -
  have "claim (jwt_header None) ''alg'' = JStr ''HS256''"
    by (simp add: jwt_header_def claim_def)
  note decoded = decode_encode [OF sample_header_loads this sample_claims_loads]
  have "validate_registered_claims sample_claims (Some ''i'') (Some ''a'') (Fin 1) = Inr ()"
    using access_claims_valid [of 0 sample_service "''u''" "''t''" "[''r'']" "nat_digits 0" 1]
    by (simp add: sample_claims_def sample_service_def)
  moreover have "tenant_context_from_claims sample_claims None = Inr sample_context"
    by (simp add: sample_claims_def sample_context_def tenant_id_ok_def is_alnum_def char_class_defs Let_def)
  ultimately show ?thesis
    by (simp add: tenant_context_from_authorization_header_def sample_authorization_def
        extract_encoded_token [simplified] decoded)
qed

theorem accepted_token_is_signed_witness:
  "\<exists>token header_segment payload_segment signature_segment.
     extract_bearer_token (Some sample_authorization) None = Inr token \<and>
     split_on (CHR ''.'') token = [header_segment, payload_segment, signature_segment] \<and>
     base64url_decode signature_segment = Inr (Some ''sig'')"
  using accepted_token_is_signed [OF sample_accepted]
  by (auto simp: sample_library_def signing_only_def)

section \<open>The middleware\<close>

text \<open>C18. For an HTTP request the middleware runs the application only with a context that a valid token
  proved and that agrees with the tenant header, and puts the context variable back afterwards.
  Otherwise the application does not run: its state and the context variable are untouched, at most one
  error is sent, 401 without an audit event, or 403 with exactly one more event in the audit trail.\<close>

theorem middleware_guards_the_app:
  assumes "call_middleware rt lib mw scope now app s = (r, t)" and "sc_type scope = ''http''"
  shows "(let headers = headers_from_scope (sc_headers scope) in
     \<exists>c u. tenant_context_from_authorization_header lib (map_of headers ''authorization'')
           (mi_jwt_secret mw) (mi_expected_issuer mw) (mi_expected_audience mw)
           (map_of headers ''x-correlation-id'') now = Inr c \<and>
         map_of headers ''x-tenant-id'' \<in> {None, Some (tc_tenant_id c)} \<and>
         app (s\<lparr>as_context := Some c\<rparr>) = (r, u) \<and> t = u\<lparr>as_context := as_context s\<rparr>) \<or>
    (\<exists>k rs. t = s\<lparr>as_sink := k, as_sent := as_sent s @ rs\<rparr> \<and>
       (rs = [] \<and> r \<noteq> Inr () \<or>
        (\<exists>body. rs = [(401, body)] \<and> r = Inr () \<and> k = as_sink s) \<or>
        (\<exists>body. rs = [(403, body)] \<and> r = Inr () \<and>
           (case as_sink s of None \<Rightarrow> k = None | Some es \<Rightarrow> \<exists>ev. k = Some (es @ [ev])))))"
  using call_middleware_cases [OF assms]
proof
  assume "\<exists>c. authenticate rt lib mw (headers_from_scope (sc_headers scope)) now s = (Inr c, s) \<and>
              with_context c app s = (r, t)"
  then obtain c where c: "authenticate rt lib mw (headers_from_scope (sc_headers scope)) now s = (Inr c, s)"
    and "with_context c app s = (r, t)" by blast
  then have "\<exists>u. app (s\<lparr>as_context := Some c\<rparr>) = (r, u) \<and> t = u\<lparr>as_context := as_context s\<rparr>"
    by (auto simp: with_context_def split: prod.splits)
  with authenticate_Inr(2,3) [OF c] show ?thesis by (auto simp: Let_def)
next
  assume "not_served s r t"
  then show ?thesis unfolding not_served_def by blast
qed

definition sample_middleware :: middleware where
  "sample_middleware = \<lparr>mi_jwt_secret = TextSecret ''k'', mi_expected_issuer = Some ''i'', mi_expected_audience = Some ''a''\<rparr>"

definition sample_scope :: asgi_scope where
  "sample_scope = \<lparr>sc_type = ''http'', sc_headers = Some [Header ''X-Tenant-Id'' ''other'']\<rparr>"

definition idle_state :: asgi_state where
  "idle_state = \<lparr>as_sink = Some [], as_context = None, as_sent = []\<rparr>"

theorem middleware_guards_the_app_witness:
  "\<exists>k rs. snd (call_middleware sample_runtime sample_library sample_middleware sample_scope (Fin 1)
             (fail (ExternalError ''app'')) idle_state) = idle_state\<lparr>as_sink := k, as_sent := rs\<rparr>"
proof -
  obtain r t where run: "call_middleware sample_runtime sample_library sample_middleware sample_scope (Fin 1)
      (fail (ExternalError ''app'')) idle_state = (r, t)" by (rule prod.exhaust)
  have "map_of (headers_from_scope (sc_headers sample_scope)) ''authorization'' = None"
    by (simp add: sample_scope_def py_lower_def lower_char_def Let_def)
  then have "tenant_context_from_authorization_header sample_library
      (map_of (headers_from_scope (sc_headers sample_scope)) ''authorization'') secret iss aud cid now \<noteq> Inr c"
    for secret iss aud cid now c
    by (simp add: tenant_context_from_authorization_header_def extract_bearer_token_def)
  with middleware_guards_the_app [OF run] have "\<exists>k rs. t = idle_state\<lparr>as_sink := k, as_sent := as_sent idle_state @ rs\<rparr>"
    by (auto simp: sample_scope_def Let_def)
  then show ?thesis using run by (auto simp: idle_state_def)
qed

section \<open>Refresh tokens\<close>

text \<open>C19. A refresh token works at most once: after a successful refresh with it, whatever the service
  is asked to issue, verify, refresh or revoke, every further refresh with it is refused, as long as the
  token factory does not produce a token with the same hash again.\<close>

theorem refresh_token_single_use:
  assumes "refresh_token_pair rt lib sv token cid s = (Inr p, t)"
    and "\<And>n. tokens_drawn s < n \<Longrightarrow> hash_refresh_token rt (sv_tokens sv n) \<noteq> hash_refresh_token rt token"
  shows "fst (refresh_token_pair rt lib sv token cid' (run_auth rt lib sv calls t)) =
    Inl (UnauthorizedError ''refresh token'' cid')"
proof (rule refresh_spent)
  have "stays_spent rt sv (hash_refresh_token rt token) t"
    using refresh_success_spends [OF assms(1)] assms(2)
    by (auto simp: stays_spent_def not_drawn_again_def)
  from run_auth_stays_spent [OF this] show "spent (hash_refresh_token rt token) (run_auth rt lib sv calls t)"
    by (simp add: stays_spent_def)
qed

definition one_token :: auth_state where
  "one_token = no_tokens\<lparr>refresh_records :=
     [(''r'', \<lparr>rr_token_hash = ''r'', rr_tenant_id = ''t'', rr_subject = ''u'', rr_roles = [''r''],
               rr_refresh_jti = ''j'', rr_issued_at = 0, rr_expires_at = 120, rr_revoked_at = None,
               rr_replaced_by_jti = None\<rparr>)]\<rparr>"

theorem refresh_token_single_use_witness:
  "\<exists>p t. refresh_token_pair hashing_runtime sample_library sample_service ''r'' None one_token = (Inr p, t) \<and>
     fst (refresh_token_pair hashing_runtime sample_library sample_service ''r'' None
       (run_auth hashing_runtime sample_library sample_service [RevokeRefresh ''r'', RefreshTokens ''r'' None] t)) =
     Inl (UnauthorizedError ''refresh token'' None)"
proof -
  have "\<exists>p t. refresh_token_pair hashing_runtime sample_library sample_service ''r'' None one_token = (Inr p, t)"
    by (simp add: refresh_token_pair_def issue_token_pair_def issue_access_token_def bnd_def read_clock_def
        draw_id_def draw_token_def act_eval Let_def normalize_roles_def require_text_def text_defs
        tenant_context_from_claims_def validated_tenant_id_def tenant_id_ok_def is_alnum_def
        optional_string_claim_def roles_from_claims_def claim_def one_token_def no_tokens_def
        store_get_def hash_refresh_token_def hashing_runtime_def sample_service_def int_of_float_def)
  then obtain p t where run: "refresh_token_pair hashing_runtime sample_library sample_service ''r'' None one_token = (Inr p, t)"
    by blast
  have "hash_refresh_token hashing_runtime (sv_tokens sample_service n) \<noteq> hash_refresh_token hashing_runtime ''r''" for n
  proof
    assume "hash_refresh_token hashing_runtime (sv_tokens sample_service n) = hash_refresh_token hashing_runtime ''r''"
    then have "nat_digits n = ''r''"
      by (simp add: hash_refresh_token_def hashing_runtime_def sample_service_def)
    with nat_digits_digit [of n] show False by (simp add: is_digit_byte)
  qed
  from refresh_token_single_use [OF run this] run show ?thesis by blast
qed

section \<open>One-time passwords\<close>

text \<open>C20. A code of ASCII characters is accepted exactly when, after spaces are removed, it is the code of
  a non-negative counter whose distance to the current one is at most the allowed drift.\<close>

theorem totp_accepts_window_codes:
  assumes "decode_totp_secret secret = Inr key" and "is_ascii (normalize_code code)"
    and "0 < to_digits sv" and "totp_counter sv time + to_drift sv < 2 ^ 64"
  shows "verify_totp hmac_sha1 sv secret code time =
    Inr (\<exists>c. \<bar>c - totp_counter sv time\<bar> \<le> to_drift sv \<and> 0 \<le> c \<and>
           hotp hmac_sha1 secret c (to_digits sv) = Inr (normalize_code code))"
  by (rule verify_totp_window [OF assms])

definition sample_digest_key :: "string \<Rightarrow> string \<Rightarrow> string" where
  "sample_digest_key k m = replicate 20 (CHR 0x01)"

definition sample_totp :: totp_service where
  "sample_totp = \<lparr>to_issuer = ''NMC'', to_step = 30, to_digits = 6, to_drift = 1, to_clock = 59\<rparr>"

lemma char_of_literals: 
  "char_of (n :: nat) = Char (odd n) (odd (n div 2)) (odd (n div 4)) (odd (n div 8))
     (odd (n div 16)) (odd (n div 32)) (odd (n div 64)) (odd (n div 128))"
  by (simp add: char_of_def bit_iff_odd bit_0)

lemma sample_secret: "decode_totp_secret ''gezdgnbv'' = Inr ''12345''"
  by (simp add: decode_totp_secret_def normalize_base32_secret_def split_words_def upper_text_def py_isspace_def
     Let_def char_of_literals b32decode_def is_ascii_def ascii_upper_def base32_quanta.simps base32_value_def five_bytes_def)


lemma sample_code: "hotp_code (replicate 20 (CHR 0x01)) 6 = ''843009''"
proof -
  have "take 4 (drop 1 (replicate 20 (CHR 0x01))) = [CHR 0x01, CHR 0x01, CHR 0x01, CHR 0x01]"
    by (simp add: numeral_eq_Suc)
  then have "from_big_endian (take 4 (drop 1 (replicate 20 (CHR 0x01)))) = 16843009"
    by (simp add: from_big_endian_def)
  moreover have "nat_digits 843009 = ''843009''"
    by (simp add: nat_digits.simps char_of_literals)
  ultimately show ?thesis
    by (simp add: hotp_code_def Let_def zfill_def last_replicate)
qed

lemma sample_hotp: "0 \<le> c \<Longrightarrow> c < 2 ^ 64 \<Longrightarrow> hotp sample_digest_key ''gezdgnbv'' c 6 = Inr ''843009''"
  by (simp add: hotp_def sample_secret counter_bytes_def sample_digest_key_def sample_code)

lemma sample_normalize: "normalize_code ''843 009'' = ''843009''" "is_ascii ''843009''"
  by (simp_all add: normalize_code_def text_defs is_ascii_def)

lemma sample_counter: "totp_counter sample_totp (Some 59) = 1" "to_digits sample_totp = 6" "to_drift sample_totp = 1"
  by (simp_all add: sample_totp_def totp_counter_def floor_divide_of_int_eq [of 59 30, simplified])

theorem totp_accepts_window_codes_witness:
  "verify_totp sample_digest_key sample_totp ''gezdgnbv'' ''843 009'' (Some 59) = Inr True"
proof -
  have "verify_totp sample_digest_key sample_totp ''gezdgnbv'' ''843 009'' (Some 59) =
    Inr (\<exists>c. \<bar>c - 1\<bar> \<le> 1 \<and> 0 \<le> c \<and> hotp sample_digest_key ''gezdgnbv'' c 6 = Inr ''843009'')"
    using totp_accepts_window_codes [OF sample_secret, of "''843 009''" sample_totp "Some 59" sample_digest_key]
    by (simp add: sample_normalize sample_counter)
  moreover have "\<exists>c. \<bar>c - 1\<bar> \<le> 1 \<and> 0 \<le> c \<and> hotp sample_digest_key ''gezdgnbv'' c 6 = Inr ''843009''"
    by (intro exI [where x = 1]) (simp add: sample_hotp)
  ultimately show ?thesis by simp
qed

text \<open>C21. Every code is a text of exactly as many decimal digits as configured.\<close>

theorem hotp_code_type:
  assumes "hotp hmac_sha1 secret counter digits = Inr code" and "0 < digits"
  shows "length code = digits \<and> list_all is_digit code"
  by (rule hotp_shape [OF assms])

theorem hotp_code_type_witness:
  "length ''843009'' = 6 \<and> list_all is_digit ''843009''"
  by (rule hotp_code_type [OF sample_hotp [of 1]]) simp_all

text \<open>C22. A two-factor confirmation exists only for a code of the drift window, and it opens the gate of the
  payout gateway for the tenant and the payout it was asked for and for no other.\<close>

theorem confirmation_is_for_one_payout:
  assumes "confirm_sensitive_operation hmac_sha1 sv ctx secret code operation resource time = Inr c"
  shows "verify_totp hmac_sha1 sv secret code (Some (of_int (tf_confirmed_at c))) = Inr True \<and>
    (require_matching_two_factor_confirmation c tenant payout_id ctx = Inr () \<longleftrightarrow>
       tenant = tc_tenant_id ctx \<and> payout_id = resource \<and> operation = PAYOUT_CONFIRM_OPERATION)"
  using assms
  by (auto simp: confirm_sensitive_operation_def require_matching_two_factor_confirmation_def Let_def
      split: if_splits)

theorem confirmation_is_for_one_payout_witness:
  "\<exists>c. confirm_sensitive_operation sample_digest_key sample_totp sample_context ''gezdgnbv''
         ''843 009'' PAYOUT_CONFIRM_OPERATION ''p1'' (Some 59) = Inr c \<and>
     require_matching_two_factor_confirmation c ''t'' ''p1'' sample_context = Inr () \<and>
     require_matching_two_factor_confirmation c ''t'' ''p2'' sample_context \<noteq> Inr ()"
proof -
  have "\<exists>c. \<bar>c - 1\<bar> \<le> 1 \<and> 0 \<le> c \<and> hotp sample_digest_key ''gezdgnbv'' c 6 = Inr ''843009''"
    by (intro exI [where x = 1]) (simp add: sample_hotp)
  with verify_totp_window [OF sample_secret, of "''843 009''" sample_totp "Some 59" sample_digest_key]
  have "verify_totp sample_digest_key sample_totp ''gezdgnbv'' ''843 009'' (Some 59) = Inr True"
    by (simp add: sample_normalize sample_counter)
  then obtain c where c: "confirm_sensitive_operation sample_digest_key sample_totp sample_context
      ''gezdgnbv'' ''843 009'' PAYOUT_CONFIRM_OPERATION ''p1'' (Some 59) = Inr c"
    by (simp add: confirm_sensitive_operation_def Let_def int_of_float_def)
  with confirmation_is_for_one_payout [OF c] show ?thesis by (auto simp: sample_context_def)
qed

end
