(* ===== verification/FloatArith.thy ===== *)
theory FloatArith
  imports Floats
begin

text \<open>
  Arithmetic of Python floats and its rounding error: the four operations, \<open>round(x, n)\<close>, which
  rounds the exact value half to even and returns the nearest float, and \<open>sum\<close>, which since
  Python 3.12 carries the rounding errors of a sum of floats along (the algorithm of Neumaier).
\<close>

section \<open>Operations\<close>

fun float_neg :: "pyfloat \<Rightarrow> pyfloat" where
  "float_neg (Fin a) = Fin (- a)"
| "float_neg PosInf = NegInf"
| "float_neg NegInf = PosInf"
| "float_neg NaN = NaN"

fun float_abs :: "pyfloat \<Rightarrow> pyfloat" where
  "float_abs (Fin a) = Fin \<bar>a\<bar>"
| "float_abs NaN = NaN"
| "float_abs _ = PosInf"

fun float_add :: "pyfloat \<Rightarrow> pyfloat \<Rightarrow> pyfloat" where
  "float_add (Fin a) (Fin b) = fl (a + b)"
| "float_add NaN _ = NaN"
| "float_add _ NaN = NaN"
| "float_add PosInf NegInf = NaN"
| "float_add NegInf PosInf = NaN"
| "float_add (Fin a) b = b"
| "float_add a _ = a"

definition float_sub :: "pyfloat \<Rightarrow> pyfloat \<Rightarrow> pyfloat" where
  "float_sub a b = float_add a (float_neg b)"

text \<open>The products and quotients that the services form; no divisor is zero.\<close>

text \<open>An infinite product by the sign of the finite factor.\<close>

definition signed_infinity :: "rat \<Rightarrow> pyfloat" where
  "signed_infinity a = (if a = 0 then NaN else if 0 < a then PosInf else NegInf)"

fun float_mul :: "pyfloat \<Rightarrow> pyfloat \<Rightarrow> pyfloat" where
  "float_mul (Fin a) (Fin b) = fl (a * b)"
| "float_mul (Fin a) PosInf = signed_infinity a"
| "float_mul (Fin a) NegInf = signed_infinity (- a)"
| "float_mul PosInf (Fin a) = signed_infinity a"
| "float_mul NegInf (Fin a) = signed_infinity (- a)"
| "float_mul PosInf PosInf = PosInf"
| "float_mul NegInf NegInf = PosInf"
| "float_mul PosInf NegInf = NegInf"
| "float_mul NegInf PosInf = NegInf"
| "float_mul _ _ = NaN"

fun float_div :: "pyfloat \<Rightarrow> pyfloat \<Rightarrow> pyfloat" where
  "float_div (Fin a) (Fin b) = fl (a / b)"
| "float_div (Fin a) PosInf = Fin 0"
| "float_div _ _ = NaN"

definition float_is_finite :: "pyfloat \<Rightarrow> bool" where
  "float_is_finite a \<longleftrightarrow> (case a of Fin _ \<Rightarrow> True | _ \<Rightarrow> False)"

fun py_round :: "nat \<Rightarrow> pyfloat \<Rightarrow> pyfloat" where
  "py_round n (Fin a) = fl (of_int (round_half_even (a * 10 ^ n)) / 10 ^ n)"
| "py_round n a = a"

text \<open>\<open>min(a, b)\<close>: the second argument only when it is smaller.\<close>

definition float_min :: "pyfloat \<Rightarrow> pyfloat \<Rightarrow> pyfloat" where
  "float_min a b = (if float_lt b a then b else a)"

text \<open>One step of \<open>sum\<close>: the running sum and the compensation.\<close>

definition sum_step :: "pyfloat \<Rightarrow> pyfloat \<times> pyfloat \<Rightarrow> pyfloat \<times> pyfloat" where
  "sum_step x sc =
     (case sc of (s, c) \<Rightarrow>
        let t = float_add s x in
        (t, if float_le (float_abs x) (float_abs s)
            then float_add c (float_add (float_sub s t) x)
            else float_add c (float_add (float_sub x t) s)))"

definition py_sum :: "pyfloat list \<Rightarrow> pyfloat" where
  "py_sum xs =
     (case fold sum_step xs (Fin 0, Fin 0) of (s, c) \<Rightarrow>
        if c \<noteq> Fin 0 \<and> float_is_finite c then float_add s c else s)"

section \<open>The nearest float\<close>

lemma two_pow_powi: "two_pow i = 2 powi i"
  by (auto simp: two_pow_def power_int_def field_simps)

lemma two_pow_pos [simp]: "0 < two_pow i"
  by (simp add: two_pow_powi)

lemma two_pow_Suc: "two_pow (i + 1) = 2 * two_pow i"
  by (simp add: two_pow_powi power_int_add)

lemma two_pow_diff: "two_pow (int m - int n) = 2 ^ m / 2 ^ n"
  by (simp add: two_pow_powi power_int_diff)

lemma exponent_of_le:
  assumes "0 < q"
  shows "two_pow (exponent_of q) \<le> q"
proof -
  obtain a b where ab: "quotient_of q = (a, b)" by (rule prod.exhaust)
  then have b: "0 < b" and q: "q = of_int a / of_int b"
    by (auto simp: quotient_of_denom_pos quotient_of_div)
  then have a: "0 < a" using assms by (simp add: zero_less_divide_iff)
  let ?A = "bit_count (nat a)" and ?B = "bit_count (nat b)"
  have "(2::nat) ^ (?A - 1) \<le> nat a" and B: "nat b < 2 ^ ?B"
    using bit_count_bounds [of "nat a"] bit_count_bounds [of "nat b"] a b by (simp_all del: nat_0_iff)
  moreover have "0 < ?A" using a by (simp add: bit_count.simps)
  ultimately have "(2::nat) ^ ?A \<le> 2 * nat a" by (cases ?A) auto
  then have "int (2 ^ ?A) \<le> int (2 * nat a)" by (simp only: of_nat_le_iff)
  then have A': "(2::int) ^ ?A \<le> 2 * a" using a by simp
  have "int (nat b) < int (2 ^ ?B)" using B by (simp only: of_nat_less_iff)
  then have B': "b \<le> (2::int) ^ ?B" using b by simp
  have "(of_int (2 ^ ?A) :: rat) \<le> of_int (2 * a)" "(of_int b :: rat) \<le> of_int (2 ^ ?B)"
    using A' B' by (simp_all only: of_int_le_iff)
  then have "(2::rat) ^ ?A / 2 ^ ?B \<le> 2 * of_int a / of_int b"
    using a b by (intro frac_le) auto
  then have half: "two_pow (int ?A - int ?B) \<le> 2 * q"
    by (simp add: two_pow_diff q)
  have "two_pow (int ?A - int ?B - 1) \<le> q"
    using half two_pow_Suc [of "int ?A - int ?B - 1"] by simp
  then show ?thesis by (simp add: exponent_of_def ab Let_def)
qed

lemma round_half_even_error: "\<bar>of_int (round_half_even q) - q\<bar> \<le> 1 / 2"
proof -
  define f where "f = \<lfloor>q\<rfloor>"
  have "of_int f \<le> q" "q < of_int f + 1" unfolding f_def by linarith+
  then show ?thesis
    by (auto simp: round_half_even_def Let_def abs_le_iff f_def [symmetric])
qed

lemma round_half_even_near:
  assumes "\<bar>q - of_int k\<bar> < 1 / 2"
  shows "round_half_even q = k"
proof -
  have "\<bar>of_int (round_half_even q) - of_int k\<bar> < (1 :: rat)"
    using round_half_even_error [of q] assms by linarith
  then have "\<bar>round_half_even q - k\<bar> < 1" by (metis of_int_abs of_int_diff of_int_less_1_iff)
  then show ?thesis by simp
qed

lemma round_positive_error:
  assumes "0 < q"
  shows "\<bar>round_positive q - q\<bar> \<le> q / 2 ^ 53 + 1 / 2 ^ 1075"
proof -
  let ?e = "exponent_of q"
  let ?p = "max (?e - 52) (- 1074)"
  have "two_pow (?e - 52) = two_pow ?e / 2 ^ 52"
    by (simp add: two_pow_powi power_int_diff)
  then have "two_pow (?e - 52) \<le> q / 2 ^ 52"
    using exponent_of_le [OF assms] by (simp add: divide_right_mono)
  moreover have "two_pow (- 1074) = 1 / 2 ^ 1074" by (simp add: two_pow_def)
  ultimately have p: "two_pow ?p \<le> q / 2 ^ 52 + 1 / 2 ^ 1074"
    using assms by (auto simp: max_def add_increasing add_increasing2)
  let ?x = "q / two_pow ?p"
  have "\<bar>of_int (round_half_even ?x) * two_pow ?p - ?x * two_pow ?p\<bar> \<le> 1 / 2 * two_pow ?p"
    using round_half_even_error [of ?x]
    by (simp only: left_diff_distrib [symmetric] abs_mult abs_of_pos [OF two_pow_pos])
      (intro mult_right_mono, auto simp: less_imp_le)
  then have "\<bar>round_positive q - q\<bar> \<le> two_pow ?p / 2"
    by (simp add: round_positive_def Let_def less_imp_neq [OF two_pow_pos, symmetric])
  also have "\<dots> \<le> q / 2 ^ 53 + 1 / 2 ^ 1075" using p by simp
  finally show ?thesis .
qed

text \<open>A finite float that differs from a rational by at most \<open>e\<close>.\<close>

definition near :: "rat \<Rightarrow> pyfloat \<Rightarrow> rat \<Rightarrow> bool" where
  "near e x q \<longleftrightarrow> (\<exists>r. x = Fin r \<and> \<bar>r - q\<bar> \<le> e)"

lemma near_Fin [simp]: "near e (Fin r) q \<longleftrightarrow> \<bar>r - q\<bar> \<le> e"
  by (simp add: near_def)

lemma nearE: "near e x q \<Longrightarrow> (\<And>r. x = Fin r \<Longrightarrow> \<bar>r - q\<bar> \<le> e \<Longrightarrow> thesis) \<Longrightarrow> thesis"
  by (auto simp: near_def)

lemma near_mono: "near e x q \<Longrightarrow> e \<le> e' \<Longrightarrow> near e' x q"
  by (auto simp: near_def)

text \<open>Up to \<open>M\<close> a result is rounded by at most \<open>M / 2^52\<close>.\<close>

lemma fl_near:
  assumes "\<bar>q\<bar> \<le> M" "1 \<le> M" "M \<le> 2 ^ 1000"
  shows "near (M / 2 ^ 52) (fl q) q"
proof -
  have tiny: "(1 :: rat) / 2 ^ 1075 \<le> M / 2 ^ 53"
  proof -
    have "(1 :: rat) / 2 ^ 1075 \<le> 1 / 2 ^ 53" by simp
    also have "\<dots> \<le> M / 2 ^ 53" using assms(2) by (intro divide_right_mono) auto
    finally show ?thesis .
  qed
  have pos: "\<bar>round_positive p - p\<bar> \<le> M / 2 ^ 52 \<and> round_positive p < two_pow 1024"
    if "0 < p" "p \<le> M" for p
  proof -
    have "p / 2 ^ 53 \<le> M / 2 ^ 53" using that by (intro divide_right_mono) auto
    with round_positive_error [OF that(1)] tiny
    have e: "\<bar>round_positive p - p\<bar> \<le> M / 2 ^ 52" by simp
    have "M / 2 ^ 52 \<le> M" using assms(2) by (simp add: divide_le_eq)
    with e that have "round_positive p \<le> 2 * M" by linarith
    also have "\<dots> \<le> 2 ^ 1001" using assms(3) by simp
    also have "\<dots> < two_pow 1024" by (simp add: two_pow_def)
    finally show ?thesis using e by simp
  qed
  consider "q = 0" | "0 < q" | "q < 0" by linarith
  then show ?thesis
  proof cases
    case 1
    then show ?thesis using assms(2) by (simp add: fl_def)
  next
    case 2
    then show ?thesis using pos [of q] assms(1) by (simp add: fl_def Let_def)
  next
    case 3
    then have r: "\<bar>round_positive (- q) - - q\<bar> \<le> M / 2 ^ 52" "round_positive (- q) < two_pow 1024"
      using pos [of "- q"] assms(1) by auto
    have "\<bar>- round_positive (- q) - q\<bar> \<le> M / 2 ^ 52" using r(1) by linarith
    then show ?thesis using 3 r(2) by (simp add: fl_def Let_def)
  qed
qed

lemma py_round_near:
  assumes "near e x (of_int k / 10 ^ n)" "e < 1 / (2 * 10 ^ n)"
  shows "py_round n x = fl (of_int k / 10 ^ n)"
proof -
  obtain r where x: "x = Fin r" and r: "\<bar>r - of_int k / 10 ^ n\<bar> \<le> e"
    using assms(1) by (rule nearE)
  have "r * 10 ^ n - of_int k = (r - of_int k / 10 ^ n) * 10 ^ n" by (simp add: left_diff_distrib)
  then have "\<bar>r * 10 ^ n - of_int k\<bar> = \<bar>r - of_int k / 10 ^ n\<bar> * 10 ^ n" by (simp add: abs_mult)
  also have "\<dots> < 1 / (2 * 10 ^ n) * 10 ^ n"
    using r assms(2) by (intro mult_strict_right_mono) auto
  finally have "round_half_even (r * 10 ^ n) = k"
    by (intro round_half_even_near) simp
  then show ?thesis by (simp add: x)
qed

lemma near_add:
  assumes "near e x a" "near d y b" "\<bar>a + b\<bar> + e + d \<le> M" "1 \<le> M" "M \<le> 2 ^ 1000"
  shows "near (e + d + M / 2 ^ 52) (float_add x y) (a + b)"
proof -
  obtain r s where rs: "x = Fin r" "\<bar>r - a\<bar> \<le> e" "y = Fin s" "\<bar>s - b\<bar> \<le> d"
    using assms(1,2) by (auto elim!: nearE)
  then have "\<bar>r + s\<bar> \<le> M" using assms(3) by linarith
  from fl_near [OF this assms(4,5)] obtain t where "fl (r + s) = Fin t" "\<bar>t - (r + s)\<bar> \<le> M / 2 ^ 52"
    by (rule nearE)
  moreover from this(2) rs(2,4) have "\<bar>t - (a + b)\<bar> \<le> e + d + M / 2 ^ 52" by linarith
  ultimately show ?thesis using rs by simp
qed

lemma near_mul:
  assumes "near e x a" "near d y b" "\<bar>a\<bar> \<le> A" "\<bar>b\<bar> \<le> B" "0 \<le> e" "0 \<le> d"
    and "(A + e) * (B + d) \<le> M" "1 \<le> M" "M \<le> 2 ^ 1000"
  shows "near (e * (B + d) + A * d + M / 2 ^ 52) (float_mul x y) (a * b)"
proof -
  obtain r s where rs: "x = Fin r" "\<bar>r - a\<bar> \<le> e" "y = Fin s" "\<bar>s - b\<bar> \<le> d"
    using assms(1,2) by (auto elim!: nearE)
  have r: "\<bar>r\<bar> \<le> A + e" and s: "\<bar>s\<bar> \<le> B + d" using rs assms(3,4) by linarith+
  have "\<bar>r * s\<bar> \<le> (A + e) * (B + d)" unfolding abs_mult using r s by (intro mult_mono) auto
  then have "\<bar>r * s\<bar> \<le> M" using assms(7) by linarith
  from fl_near [OF this assms(8,9)] obtain t where t: "fl (r * s) = Fin t" "\<bar>t - r * s\<bar> \<le> M / 2 ^ 52"
    by (rule nearE)
  have "r * s - a * b = (r - a) * s + a * (s - b)" by (simp add: algebra_simps)
  moreover have "\<bar>(r - a) * s\<bar> \<le> e * (B + d)" unfolding abs_mult using rs s assms(5) by (intro mult_mono) auto
  moreover have "\<bar>a * (s - b)\<bar> \<le> A * d" unfolding abs_mult using rs assms(3) by (intro mult_mono) auto
  ultimately have "\<bar>t - a * b\<bar> \<le> e * (B + d) + A * d + M / 2 ^ 52" using t(2) by linarith
  then show ?thesis using rs t by simp
qed

section \<open>The error of a sum\<close>

lemma sum_step_near:
  assumes fl: "\<And>q. \<bar>q\<bar> \<le> M \<Longrightarrow> near e (fl q) q" and "0 \<le> e"
    and s: "\<bar>\<sigma> - S\<bar> \<le> of_nat i * e" and c: "\<bar>\<gamma>\<bar> \<le> 4 * of_nat i * e"
    and M: "\<bar>S\<bar> + \<bar>q\<bar> + 4 * of_nat (Suc i) * e \<le> M"
  shows "\<exists>\<sigma>' \<gamma>'. sum_step (Fin q) (Fin \<sigma>, Fin \<gamma>) = (Fin \<sigma>', Fin \<gamma>') \<and>
    \<bar>\<sigma>' - (S + q)\<bar> \<le> of_nat (Suc i) * e \<and> \<bar>\<gamma>'\<bar> \<le> 4 * of_nat (Suc i) * e"
proof -
  have i: "0 \<le> of_nat i * e" using assms(2) by simp
  have Suc: "of_nat (Suc i) * e = of_nat i * e + e" by (simp add: algebra_simps)
  have M': "\<bar>S\<bar> + \<bar>q\<bar> + 4 * (of_nat i * e) + 4 * e \<le> M" using M Suc by (simp add: algebra_simps)
  have c': "\<bar>\<gamma>\<bar> \<le> 4 * (of_nat i * e)" using c by (simp add: algebra_simps)
  have "near e (fl (\<sigma> + q)) (\<sigma> + q)" using s M' i assms(2) by (intro fl) linarith
  then obtain \<tau> where t: "fl (\<sigma> + q) = Fin \<tau>" "\<bar>\<tau> - (\<sigma> + q)\<bar> \<le> e" by (rule nearE)
  have add: "\<exists>\<gamma>'. float_add (Fin \<gamma>) (float_add (float_sub (Fin a) (Fin \<tau>)) (Fin b)) = Fin \<gamma>' \<and>
      \<bar>\<gamma>'\<bar> \<le> 4 * (of_nat i * e) + 4 * e" if "a + b = \<sigma> + q" "\<bar>b\<bar> + e \<le> M" for a b
  proof -
    have "\<bar>a - \<tau>\<bar> \<le> M" using t(2) that by linarith
    then obtain d where d: "fl (a - \<tau>) = Fin d" "\<bar>d - (a - \<tau>)\<bar> \<le> e" using fl by (blast elim: nearE)
    then have db: "\<bar>d + b\<bar> \<le> 2 * e" using t(2) that(1) by linarith
    then have "\<bar>d + b\<bar> \<le> M" using M' i assms(2) by linarith
    then obtain w where w: "fl (d + b) = Fin w" "\<bar>w - (d + b)\<bar> \<le> e" using fl by (blast elim: nearE)
    then have w': "\<bar>w\<bar> \<le> 3 * e" using db by linarith
    then have "\<bar>\<gamma> + w\<bar> \<le> M" using c' M' assms(2) by linarith
    then obtain g where g: "fl (\<gamma> + w) = Fin g" "\<bar>g - (\<gamma> + w)\<bar> \<le> e" using fl by (blast elim: nearE)
    then have "\<bar>g\<bar> \<le> 4 * (of_nat i * e) + 4 * e" using c' w' by linarith
    with d w g show ?thesis by (simp add: float_sub_def)
  qed
  have "\<bar>q\<bar> + e \<le> M" "\<bar>\<sigma>\<bar> + e \<le> M" using s M' i assms(2) by linarith+
  with add [of \<sigma> q] add [of q \<sigma>] have
    "\<exists>g. sum_step (Fin q) (Fin \<sigma>, Fin \<gamma>) = (Fin \<tau>, Fin g) \<and> \<bar>g\<bar> \<le> 4 * (of_nat i * e) + 4 * e"
    by (cases "float_le (float_abs (Fin q)) (float_abs (Fin \<sigma>))")
      (simp_all add: sum_step_def Let_def t(1) add.commute)
  then obtain g where
    "sum_step (Fin q) (Fin \<sigma>, Fin \<gamma>) = (Fin \<tau>, Fin g)" "\<bar>g\<bar> \<le> 4 * (of_nat i * e) + 4 * e" by blast
  moreover have "\<bar>\<tau> - (S + q)\<bar> \<le> of_nat i * e + e" using t(2) s by linarith
  ultimately show ?thesis using Suc by (simp add: algebra_simps)
qed

lemma fold_sum_near:
  assumes fl: "\<And>q. \<bar>q\<bar> \<le> M \<Longrightarrow> near e (fl q) q" and "0 \<le> e"
  shows "\<bar>\<sigma> - S\<bar> \<le> of_nat i * e \<Longrightarrow> \<bar>\<gamma>\<bar> \<le> 4 * of_nat i * e \<Longrightarrow>
    \<bar>S\<bar> + (\<Sum>q\<leftarrow>qs. \<bar>q\<bar>) + 4 * of_nat (i + length qs) * e \<le> M \<Longrightarrow>
    \<exists>\<sigma>' \<gamma>'. fold sum_step (map Fin qs) (Fin \<sigma>, Fin \<gamma>) = (Fin \<sigma>', Fin \<gamma>') \<and>
      \<bar>\<sigma>' - (S + sum_list qs)\<bar> \<le> of_nat (i + length qs) * e \<and>
      \<bar>\<gamma>'\<bar> \<le> 4 * of_nat (i + length qs) * e"
proof (induction qs arbitrary: \<sigma> S \<gamma> i)
  case Nil
  then show ?case by simp
next
  case (Cons q qs)
  have nonneg: "0 \<le> (\<Sum>q\<leftarrow>qs. \<bar>q\<bar>)" by (intro sum_list_nonneg) auto
  have "4 * of_nat (i + length (q # qs)) * e = 4 * of_nat (Suc i) * e + 4 * (of_nat (length qs) * e)"
    by (simp add: algebra_simps)
  moreover have "0 \<le> of_nat (length qs) * e" using assms(2) by simp
  moreover have "(\<Sum>q\<leftarrow>q # qs. \<bar>q\<bar>) = \<bar>q\<bar> + (\<Sum>q\<leftarrow>qs. \<bar>q\<bar>)" by simp
  ultimately have "\<bar>S\<bar> + \<bar>q\<bar> + 4 * of_nat (Suc i) * e \<le> M"
    using Cons.prems(3) nonneg by linarith
  from sum_step_near [OF fl assms(2) Cons.prems(1,2) this] obtain \<sigma>' \<gamma>' where
    step: "sum_step (Fin q) (Fin \<sigma>, Fin \<gamma>) = (Fin \<sigma>', Fin \<gamma>')" "\<bar>\<sigma>' - (S + q)\<bar> \<le> of_nat (Suc i) * e"
      "\<bar>\<gamma>'\<bar> \<le> 4 * of_nat (Suc i) * e" by blast
  have "\<bar>S + q\<bar> + (\<Sum>q\<leftarrow>qs. \<bar>q\<bar>) + 4 * of_nat (Suc i + length qs) * e \<le> M"
    using Cons.prems(3) by simp
  from Cons.IH [OF step(2,3) this] step(1) show ?case by (simp add: algebra_simps)
qed

lemma py_sum_near:
  assumes fl: "\<And>q. \<bar>q\<bar> \<le> M \<Longrightarrow> near e (fl q) q" and "0 \<le> e"
    and "(\<Sum>q\<leftarrow>qs. \<bar>q\<bar>) + (5 * of_nat (length qs) + 1) * e \<le> M"
  shows "near ((5 * of_nat (length qs) + 1) * e) (py_sum (map Fin qs)) (sum_list qs)"
proof -
  let ?n = "of_nat (length qs) * e"
  have M: "(\<Sum>q\<leftarrow>qs. \<bar>q\<bar>) + 5 * ?n + e \<le> M" using assms(3) by (simp add: algebra_simps)
  have n: "0 \<le> ?n" using assms(2) by simp
  have "4 * of_nat (0 + length qs) * e = 4 * ?n" by simp
  then have "\<bar>0\<bar> + (\<Sum>q\<leftarrow>qs. \<bar>q\<bar>) + 4 * of_nat (0 + length qs) * e \<le> M" using M n assms(2) by linarith
  from fold_sum_near [OF fl assms(2) _ _ this, of 0 0] obtain s c where
    fold: "fold sum_step (map Fin qs) (Fin 0, Fin 0) = (Fin s, Fin c)"
    and s: "\<bar>s - sum_list qs\<bar> \<le> ?n" and c: "\<bar>c\<bar> \<le> 4 * ?n" by (auto simp: algebra_simps)
  have "\<bar>sum_list qs\<bar> \<le> (\<Sum>q\<leftarrow>qs. \<bar>q\<bar>)" by (rule sum_list_abs)
  then have "\<bar>s + c\<bar> \<le> M" using s c M assms(2) by linarith
  then obtain r where r: "fl (s + c) = Fin r" "\<bar>r - (s + c)\<bar> \<le> e" using fl by (blast elim: nearE)
  then have "\<bar>r - sum_list qs\<bar> \<le> 5 * ?n + e" using s c by linarith
  moreover have "\<bar>s - sum_list qs\<bar> \<le> 5 * ?n + e" using s n assms(2) by linarith
  ultimately have "near (5 * ?n + e) (py_sum (map Fin qs)) (sum_list qs)"
    using r by (simp add: py_sum_def fold float_is_finite_def)
  then show ?thesis by (simp add: algebra_simps)
qed

section \<open>Rounding is monotone\<close>

lemma exponent_of_less:
  assumes "0 < q"
  shows "q < two_pow (exponent_of q + 1)"
proof -
  obtain a b where ab: "quotient_of q = (a, b)" by (rule prod.exhaust)
  then have b: "0 < b" and q: "q = of_int a / of_int b"
    by (auto simp: quotient_of_denom_pos quotient_of_div)
  then have a: "0 < a" using assms by (simp add: zero_less_divide_iff)
  let ?A = "bit_count (nat a)" and ?B = "bit_count (nat b)"
  have A: "nat a < 2 ^ ?A" and "(2::nat) ^ (?B - 1) \<le> nat b"
    using bit_count_bounds [of "nat a"] bit_count_bounds [of "nat b"] a b by (simp_all del: nat_0_iff)
  moreover have "0 < ?B" using b by (simp add: bit_count.simps)
  ultimately have "(2::nat) ^ ?B \<le> 2 * nat b" by (cases ?B) auto
  then have "int (2 ^ ?B) \<le> int (2 * nat b)" by (simp only: of_nat_le_iff)
  then have B': "(2::int) ^ ?B \<le> 2 * b" using b by simp
  have "int (nat a) < int (2 ^ ?A)" using A by (simp only: of_nat_less_iff)
  then have A': "a < (2::int) ^ ?A" using a by simp
  have "(of_int a :: rat) < of_int (2 ^ ?A)" "(of_int (2 ^ ?B) :: rat) \<le> of_int (2 * b)"
    using A' B' by (simp_all only: of_int_le_iff of_int_less_iff)
  then have "of_int a / (2 * of_int b) < (2::rat) ^ ?A / 2 ^ ?B"
    using a b by (intro frac_less) auto
  then have "q < two_pow (int ?A - int ?B + 1)"
    by (simp add: two_pow_Suc two_pow_diff q)
  then show ?thesis by (simp add: exponent_of_def ab Let_def)
qed

lemma two_pow_mono: "i \<le> j \<Longrightarrow> two_pow i \<le> two_pow j"
  by (simp add: two_pow_powi power_int_increasing)

lemma two_pow_less: "two_pow i < two_pow j \<Longrightarrow> i < j"
  using two_pow_mono [of j i] by (meson not_less)

lemma exponent_of_mono:
  assumes "0 < q" "q \<le> r"
  shows "exponent_of q \<le> exponent_of r"
proof -
  have "two_pow (exponent_of q) < two_pow (exponent_of r + 1)"
    using exponent_of_le [OF assms(1)] exponent_of_less [of r] assms by linarith
  then show ?thesis using two_pow_less by fastforce
qed

lemma round_half_even_mono:
  assumes "q \<le> r"
  shows "round_half_even q \<le> round_half_even r"
proof (cases "\<lfloor>q\<rfloor> = \<lfloor>r\<rfloor>")
  case True
  with assms show ?thesis by (auto simp: round_half_even_def Let_def)
next
  case False
  then have "\<lfloor>q\<rfloor> + 1 \<le> \<lfloor>r\<rfloor>" using floor_mono [OF assms] by linarith
  moreover have "round_half_even q \<le> \<lfloor>q\<rfloor> + 1" "\<lfloor>r\<rfloor> \<le> round_half_even r"
    by (auto simp: round_half_even_def Let_def)
  ultimately show ?thesis by linarith
qed

text \<open>Rounding to multiples of \<open>two_pow p\<close>: powers of two from \<open>p\<close> on are fixed.\<close>

definition grid_round :: "int \<Rightarrow> rat \<Rightarrow> rat" where
  "grid_round p q = of_int (round_half_even (q / two_pow p)) * two_pow p"

lemma grid_round_mono: "q \<le> r \<Longrightarrow> grid_round p q \<le> grid_round p r"
  unfolding grid_round_def
  by (intro mult_right_mono) (auto intro!: round_half_even_mono divide_right_mono simp: less_imp_le)

lemma grid_round_power:
  assumes "p \<le> e"
  shows "grid_round p (two_pow e) = two_pow e"
proof -
  have "two_pow e / two_pow p = two_pow (e - p)" by (simp add: two_pow_powi power_int_diff)
  then have "two_pow e / two_pow p = 2 ^ nat (e - p)" using assms by (simp add: two_pow_def)
  then have "two_pow e / two_pow p = of_int (2 ^ nat (e - p))" by simp
  then have "grid_round p (two_pow e) = two_pow e / two_pow p * two_pow p"
    unfolding grid_round_def by (metis round_half_even_int)
  then show ?thesis using two_pow_pos [of p] by simp
qed

lemma round_positive_mono:
  assumes "0 < q" "q \<le> r"
  shows "round_positive q \<le> round_positive r"
proof -
  let ?p = "\<lambda>x. max (exponent_of x - 52) (- 1074)"
  have rp: "round_positive x = grid_round (?p x) x" for x
    by (simp add: round_positive_def grid_round_def Let_def)
  have e: "exponent_of q \<le> exponent_of r" using exponent_of_mono [OF assms] .
  show ?thesis
  proof (cases "?p q = ?p r")
    case True
    then show ?thesis using grid_round_mono [OF assms(2)] by (simp add: rp)
  next
    case False
    let ?b = "two_pow (exponent_of r)"
    have lt: "exponent_of q < exponent_of r" "?p r \<le> exponent_of r" "?p q \<le> exponent_of r"
      using False e by (auto simp: max_def split: if_splits)
    have "two_pow (exponent_of q + 1) \<le> ?b" using lt(1) by (intro two_pow_mono) simp
    then have "q \<le> ?b" using exponent_of_less [OF assms(1)] by linarith
    then have "round_positive q \<le> ?b"
      using grid_round_mono [of q ?b "?p q"] grid_round_power [OF lt(3)] by (simp only: rp)
    moreover have "?b \<le> round_positive r"
      using grid_round_mono [of ?b r "?p r"] grid_round_power [OF lt(2)] exponent_of_le [of r] assms
      by (simp add: rp)
    ultimately show ?thesis by linarith
  qed
qed

lemma round_positive_nonneg: "0 < q \<Longrightarrow> 0 \<le> round_positive q"
proof -
  assume "0 < q"
  then have "grid_round p 0 \<le> grid_round p q" for p by (intro grid_round_mono) simp
  moreover have zero: "grid_round p 0 = 0" for p by (simp add: grid_round_def round_half_even_def)
  ultimately have "0 \<le> grid_round p q" for p by metis
  then show ?thesis by (simp add: round_positive_def grid_round_def Let_def)
qed

lemma fl_mono:
  assumes "q \<le> r"
  shows "float_le (fl q) (fl r)"
proof -
  consider "0 < q" | "q = 0" | "q < 0" "0 < r" | "q < 0" "r = 0" | "q < 0" "r < 0" by linarith
  then show ?thesis
    by cases
      (use assms round_positive_mono [of q r] round_positive_mono [of "- r" "- q"]
        round_positive_nonneg [of r] round_positive_nonneg [of "- q"] in \<open>auto simp: fl_def Let_def\<close>)
qed

lemma fl_extremes [simp]: "float_le (fl q) PosInf" "float_le NegInf (fl q)"
  by (auto simp: fl_def Let_def)

lemma float_le_trans: "float_le a b \<Longrightarrow> float_le b c \<Longrightarrow> float_le a c"
  by (cases a; cases b; cases c) auto

end
