(* ===== verification/WeightEngine.thy ===== *)
theory WeightEngine
  imports FloatArith AuditLog
begin

text \<open>
  \<open>contribution_ledger/weight_engine.py\<close>: the weight (Kv) of a member, its points over the average
  of the Council up to a cap, and the shares of a payout in proportion to the weights, corrected so
  that they add up to one.
\<close>

section \<open>Inputs and outputs\<close>

definition COUNCIL_CAP_KV :: pyfloat where "COUNCIL_CAP_KV = fl (1 / 10)"
definition KV_RAW_DECIMALS :: nat where "KV_RAW_DECIMALS = 6"
definition KV_CAPPED_DECIMALS :: nat where "KV_CAPPED_DECIMALS = 5"
definition PAYOUT_SHARE_DECIMALS :: nat where "PAYOUT_SHARE_DECIMALS = 10"

text \<open>\<open>Field(ge=0, allow_inf_nan=False)\<close>.\<close>

fun non_negative_finite :: "pyfloat \<Rightarrow> bool" where
  "non_negative_finite (Fin a) = (0 \<le> a)"
| "non_negative_finite _ = False"

record member_points =
  mp_member_id :: string
  mp_total_points :: pyfloat

record weight_input =
  wi_avg_points_council :: pyfloat
  wi_members :: "member_points list"
  wi_cap_kv :: pyfloat

record member_weight =
  mw_member_id :: string
  mw_total_points :: pyfloat
  mw_avg_points_council :: pyfloat
  mw_kv_raw :: pyfloat
  mw_kv_capped :: pyfloat
  mw_payout_share :: pyfloat

record weight_output =
  wo_avg_points_council :: pyfloat
  wo_cap_kv :: pyfloat
  wo_total_kv_capped :: pyfloat
  wo_members :: "member_weight list"

definition member_points_input :: "string \<Rightarrow> pyfloat \<Rightarrow> exn + member_points" where
  "member_points_input member_id total_points =
     model ''MemberPointsInput'' (token_ok (pyd_strip member_id) \<and> non_negative_finite total_points)
       \<lparr>mp_member_id = pyd_strip member_id, mp_total_points = total_points\<rparr>"

definition weight_calculation_input ::
    "pyfloat \<Rightarrow> member_points list \<Rightarrow> pyfloat \<Rightarrow> exn + weight_input" where
  "weight_calculation_input avg_points_council members cap_kv =
     model ''WeightCalculationInput''
       (non_negative_finite avg_points_council \<and> finite_between 0 1 cap_kv)
       \<lparr>wi_avg_points_council = avg_points_council, wi_members = members, wi_cap_kv = cap_kv\<rparr>"

definition member_weight_output ::
    "string \<Rightarrow> pyfloat \<Rightarrow> pyfloat \<Rightarrow> pyfloat \<Rightarrow> pyfloat \<Rightarrow> pyfloat \<Rightarrow> exn + member_weight" where
  "member_weight_output member_id total_points avg_points_council kv_raw kv_capped payout_share =
     model ''MemberWeightOutput''
       (token_ok (pyd_strip member_id) \<and> non_negative_finite total_points \<and>
        non_negative_finite avg_points_council \<and> non_negative_finite kv_raw \<and>
        non_negative_finite kv_capped \<and> non_negative_finite payout_share)
       \<lparr>mw_member_id = pyd_strip member_id, mw_total_points = total_points,
        mw_avg_points_council = avg_points_council, mw_kv_raw = kv_raw, mw_kv_capped = kv_capped,
        mw_payout_share = payout_share\<rparr>"

section \<open>Weights\<close>

definition validate_non_negative_finite :: "pyfloat \<Rightarrow> string \<Rightarrow> exn + unit" where
  "validate_non_negative_finite v field_name =
     (if non_negative_finite v then Inr () else Inl (ValueError field_name))"

definition calculate_member_kv :: "pyfloat \<Rightarrow> pyfloat \<Rightarrow> pyfloat \<Rightarrow> exn + (pyfloat \<times> pyfloat)" where
  "calculate_member_kv total_points avg_points_council cap_kv =
     ebind (validate_non_negative_finite total_points ''total_points'') (\<lambda>_.
     ebind (validate_non_negative_finite avg_points_council ''avg_points_council'') (\<lambda>_.
     ebind (validate_non_negative_finite cap_kv ''cap_kv'') (\<lambda>_.
     if float_lt (Fin 1) cap_kv then Inl (ValueError ''cap_kv range'')
     else if avg_points_council = Fin 0 \<or> total_points = Fin 0 \<or> cap_kv = Fin 0
     then Inr (Fin 0, Fin 0)
     else
       let kv_raw = py_round KV_RAW_DECIMALS (float_div total_points avg_points_council) in
       Inr (kv_raw, py_round KV_CAPPED_DECIMALS (float_min kv_raw cap_kv)))))"

section \<open>Shares\<close>

fun validate_all :: "pyfloat list \<Rightarrow> exn + unit" where
  "validate_all [] = Inr ()"
| "validate_all (v # vs) =
     ebind (validate_non_negative_finite v ''kv_capped'') (\<lambda>_. validate_all vs)"

definition positive_indexes :: "pyfloat list \<Rightarrow> nat list" where
  "positive_indexes vs = filter (\<lambda>i. float_lt (Fin 0) (vs ! i)) [0..<length vs]"

definition raw_share :: "pyfloat \<Rightarrow> pyfloat \<Rightarrow> pyfloat" where
  "raw_share total_kv v =
     (if float_lt (Fin 0) v then py_round PAYOUT_SHARE_DECIMALS (float_div v total_kv) else Fin 0)"

definition share_residual :: "pyfloat list \<Rightarrow> pyfloat" where
  "share_residual shares = py_round PAYOUT_SHARE_DECIMALS (float_sub (Fin 1) (py_sum shares))"

definition correct_shares :: "pyfloat list \<Rightarrow> pyfloat list \<Rightarrow> pyfloat list" where
  "correct_shares rounded_values shares =
     (let residual = share_residual shares; is = positive_indexes rounded_values in
      if residual \<noteq> Fin 0 \<and> is \<noteq> [] then
        shares[last is := py_round PAYOUT_SHARE_DECIMALS (float_add (shares ! last is) residual)]
      else shares)"

definition calculate_payout_shares :: "pyfloat list \<Rightarrow> exn + pyfloat list" where
  "calculate_payout_shares kv_capped_values =
     ebind (validate_all kv_capped_values) (\<lambda>_.
     if kv_capped_values = [] then Inr []
     else
       let rounded_values = map (py_round KV_CAPPED_DECIMALS) kv_capped_values;
           total_kv_capped = py_round KV_CAPPED_DECIMALS (py_sum rounded_values)
       in if total_kv_capped = Fin 0 then Inr (map (\<lambda>_. Fin 0) rounded_values)
          else Inr (correct_shares rounded_values (map (raw_share total_kv_capped) rounded_values)))"

section \<open>The weights of a distribution\<close>

fun member_kvs :: "weight_input \<Rightarrow> member_points list \<Rightarrow> exn + (member_points \<times> pyfloat \<times> pyfloat) list" where
  "member_kvs req [] = Inr []"
| "member_kvs req (m # ms) =
     ebind (calculate_member_kv (mp_total_points m) (wi_avg_points_council req) (wi_cap_kv req)) (\<lambda>(raw, capped).
     ebind (member_kvs req ms) (\<lambda>rest.
     Inr ((m, raw, capped) # rest)))"

fun weight_outputs ::
    "weight_input \<Rightarrow> ((member_points \<times> pyfloat \<times> pyfloat) \<times> pyfloat) list \<Rightarrow> exn + member_weight list" where
  "weight_outputs req [] = Inr []"
| "weight_outputs req (((m, raw, capped), share) # rest) =
     ebind (member_weight_output (mp_member_id m) (mp_total_points m) (wi_avg_points_council req)
              raw capped share) (\<lambda>w.
     ebind (weight_outputs req rest) (\<lambda>ws. Inr (w # ws)))"

definition weights_of_request :: "weight_input \<Rightarrow> exn + weight_output" where
  "weights_of_request req =
     ebind (member_kvs req (wi_members req)) (\<lambda>kvs.
     let capped = map (\<lambda>(m, raw, c). c) kvs in
     ebind (calculate_payout_shares capped) (\<lambda>shares.
     ebind (weight_outputs req (zip kvs shares)) (\<lambda>members.
     let kv_sum = py_round KV_CAPPED_DECIMALS (py_sum capped) in
     model ''WeightCalculationOutput''
       (non_negative_finite (wi_avg_points_council req) \<and> non_negative_finite (wi_cap_kv req) \<and>
        non_negative_finite kv_sum)
       \<lparr>wo_avg_points_council = wi_avg_points_council req, wo_cap_kv = wi_cap_kv req,
        wo_total_kv_capped = kv_sum, wo_members = members\<rparr>)))"

fun member_inputs :: "(string \<times> pyfloat) list \<Rightarrow> exn + member_points list" where
  "member_inputs [] = Inr []"
| "member_inputs ((i, p) # ms) =
     ebind (member_points_input i p) (\<lambda>m. ebind (member_inputs ms) (\<lambda>rest. Inr (m # rest)))"

text \<open>\<open>calculate_weights\<close> of a mapping: validated, then computed.\<close>

definition calculate_weights ::
    "pyfloat \<Rightarrow> (string \<times> pyfloat) list \<Rightarrow> pyfloat \<Rightarrow> exn + weight_output" where
  "calculate_weights avg_points_council members cap_kv =
     ebind (member_inputs members) (\<lambda>ms.
     ebind (weight_calculation_input avg_points_council ms cap_kv) weights_of_request)"

text \<open>\<open>round(sum(xs), n)\<close>: the sum of nothing is the integer zero.\<close>

definition rounded_sum :: "nat \<Rightarrow> pyfloat list \<Rightarrow> number" where
  "rounded_sum n xs = (if xs = [] then NInt 0 else NFloat (py_round n (py_sum xs)))"

definition total_payout_share :: "weight_output \<Rightarrow> number" where
  "total_payout_share w = rounded_sum PAYOUT_SHARE_DECIMALS (map mw_payout_share (wo_members w))"

section \<open>Decimal floats\<close>

text \<open>The float nearest to \<open>k\<close> units of \<open>10^-n\<close>.\<close>

definition dec :: "nat \<Rightarrow> int \<Rightarrow> rat" where
  "dec n k = (case fl (of_int k / 10 ^ n) of Fin r \<Rightarrow> r | _ \<Rightarrow> 0)"

lemma dec_near:
  assumes "\<bar>of_int k / 10 ^ n\<bar> \<le> M" "1 \<le> M" "M \<le> 2 ^ 1000"
  shows "fl (of_int k / 10 ^ n) = Fin (dec n k) \<and> \<bar>dec n k - of_int k / 10 ^ n\<bar> \<le> M / 2 ^ 52"
  using fl_near [OF assms] by (auto simp: dec_def elim: nearE)

lemma dec_zero [simp]: "dec n 0 = 0"
  by (simp add: dec_def fl_def)

text \<open>The decimal units that \<open>round\<close> finds in a float.\<close>

definition units :: "nat \<Rightarrow> rat \<Rightarrow> int" where
  "units n a = round_half_even (a * 10 ^ n)"

lemma py_round_units: "py_round n (Fin a) = fl (of_int (units n a) / 10 ^ n)"
  by (simp add: units_def)

lemma units_error: "\<bar>of_int (units n a) / 10 ^ n - a\<bar> \<le> 1 / (2 * 10 ^ n)"
proof -
  have "(of_int (units n a) / 10 ^ n - a) * 10 ^ n = of_int (units n a) - a * 10 ^ n"
    by (simp add: left_diff_distrib)
  then have "\<bar>of_int (units n a) / 10 ^ n - a\<bar> * 10 ^ n = \<bar>of_int (units n a) - a * 10 ^ n\<bar>"
    by (metis abs_mult abs_of_pos zero_less_numeral zero_less_power)
  also have "\<dots> \<le> 1 / 2" unfolding units_def by (rule round_half_even_error)
  finally show ?thesis by (simp add: field_simps)
qed

lemma units_mono: "a \<le> b \<Longrightarrow> units n a \<le> units n b"
  unfolding units_def by (intro round_half_even_mono) (simp add: mult_right_mono)

lemma units_zero [simp]: "units n 0 = 0"
  using round_half_even_int [of 0] by (simp add: units_def)

lemma units_one [simp]: "units n 1 = 10 ^ n"
  using round_half_even_int [of "10 ^ n"] by (simp add: units_def)

lemma units_range: "0 \<le> a \<Longrightarrow> a \<le> 1 \<Longrightarrow> 0 \<le> units n a \<and> units n a \<le> 10 ^ n"
  using units_mono [of 0 a n] units_mono [of a 1 n] by simp

text \<open>Decimal floats of at most ten digits in the unit interval are in the order of their units.\<close>

lemma dec_unit:
  assumes "0 \<le> k" "k \<le> 10 ^ n"
  shows "fl (of_int k / 10 ^ n) = Fin (dec n k)" "\<bar>dec n k - of_int k / 10 ^ n\<bar> \<le> 1 / 2 ^ 52"
proof -
  have "(of_int k :: rat) \<le> of_int (10 ^ n)" using assms(2) by (simp only: of_int_le_iff)
  then have "\<bar>of_int k / 10 ^ n :: rat\<bar> \<le> 1" using assms(1) by simp
  from dec_near [OF this] show "fl (of_int k / 10 ^ n) = Fin (dec n k)"
    "\<bar>dec n k - of_int k / 10 ^ n\<bar> \<le> 1 / 2 ^ 52" by simp_all
qed

lemma dec_mono:
  assumes "0 \<le> j" "j \<le> k" "k \<le> 10 ^ n" "n \<le> 10"
  shows "dec n j \<le> dec n k"
proof (cases "j = k")
  case False
  then have "(of_int j :: rat) + 1 \<le> of_int k" using assms by (metis le_less of_int_1 of_int_add of_int_le_iff zless_imp_add1_zle)
  then have "(of_int j :: rat) / 10 ^ n + 1 / 10 ^ n \<le> of_int k / 10 ^ n"
    by (simp add: add_divide_distrib [symmetric] divide_right_mono)
  moreover have "(1 :: rat) / 10 ^ 10 \<le> 1 / 10 ^ n"
    using assms(4) by (intro divide_left_mono power_increasing) auto
  moreover have "2 * (1 / 2 ^ 52) \<le> (1 :: rat) / 10 ^ 10" by simp
  moreover have "\<bar>dec n j - of_int j / 10 ^ n\<bar> \<le> 1 / 2 ^ 52" "\<bar>dec n k - of_int k / 10 ^ n\<bar> \<le> 1 / 2 ^ 52"
    using dec_unit(2) assms by auto
  ultimately show ?thesis by linarith
qed simp

section \<open>Sums of decimal floats\<close>

definition dec_floats :: "nat \<Rightarrow> int list \<Rightarrow> pyfloat list" where
  "dec_floats d ms = map (\<lambda>m. fl (of_int m / 10 ^ d)) ms"

lemma sum_list_of_int: "(of_int (sum_list ms) :: rat) = sum_list (map of_int ms)"
  by (induction ms) simp_all

lemma sum_list_close:
  "(\<And>x. x \<in> set xs \<Longrightarrow> \<bar>f x - g x\<bar> \<le> (e :: rat)) \<Longrightarrow>
     \<bar>sum_list (map f xs) - sum_list (map g xs)\<bar> \<le> of_nat (length xs) * e"
proof (induction xs)
  case (Cons x xs)
  then have "\<bar>f x - g x\<bar> \<le> e" "\<bar>sum_list (map f xs) - sum_list (map g xs)\<bar> \<le> of_nat (length xs) * e" by auto
  moreover have "of_nat (length (x # xs)) * e = of_nat (length xs) * e + e" by (simp add: algebra_simps)
  ultimately show ?case by simp
qed simp

lemma sum_list_divide: "sum_list (map (\<lambda>x. f x / c) xs) = sum_list (map f xs) / (c :: rat)"
  by (induction xs) (simp_all add: add_divide_distrib)

lemma dec_sum_near:
  assumes A: "sum_list (map (\<lambda>m. \<bar>of_int m\<bar>) ms) / 10 ^ d \<le> (A :: rat)" "A + 1 \<le> M" "0 \<le> A" "M \<le> 8192"
    and n: "length ms \<le> 5000"
  shows "near ((6 * of_nat (length ms) + 1) * (M / 2 ^ 52)) (py_sum (dec_floats d ms)) (of_int (sum_list ms) / 10 ^ d)"
proof -
  let ?e = "M / 2 ^ 52" and ?n = "of_nat (length ms) :: rat"
  have M: "1 \<le> M" "M \<le> 2 ^ 1000" using A by (auto intro: order_trans [OF A(4)])
  have each: "\<bar>of_int m / 10 ^ d\<bar> \<le> M" if "m \<in> set ms" for m
  proof -
    have "\<bar>of_int m\<bar> \<le> sum_list (map (\<lambda>m. \<bar>of_int m :: rat\<bar>) ms)"
      using that by (intro member_le_sum_list) auto
    then have "\<bar>of_int m\<bar> / 10 ^ d \<le> A" using A(1) by (meson divide_right_mono order_trans zero_le_numeral zero_le_power)
    then show ?thesis using A(2) by simp
  qed
  note decs = dec_near [OF each M]
  have floats: "dec_floats d ms = map Fin (map (dec d) ms)"
    using decs by (simp add: dec_floats_def)
  have close: "\<bar>sum_list (map (dec d) ms) - sum_list (map (\<lambda>m. of_int m / 10 ^ d) ms)\<bar> \<le> ?n * ?e"
    using decs by (intro sum_list_close) blast
  have aclose: "\<bar>sum_list (map (\<lambda>m. \<bar>dec d m\<bar>) ms) - sum_list (map (\<lambda>m. \<bar>of_int m\<bar> / 10 ^ d) ms)\<bar> \<le> ?n * ?e"
  proof (rule sum_list_close)
    fix m assume "m \<in> set ms"
    then have "\<bar>dec d m - of_int m / 10 ^ d\<bar> \<le> ?e" using decs by blast
    moreover have "\<bar>of_int m\<bar> / 10 ^ d = \<bar>of_int m / 10 ^ d :: rat\<bar>" by simp
    ultimately show "\<bar>\<bar>dec d m\<bar> - \<bar>of_int m\<bar> / 10 ^ d\<bar> \<le> ?e" by linarith
  qed
  have "?n \<le> 5000" using n by (metis of_nat_le_iff of_nat_numeral)
  moreover have "0 \<le> ?e" "?e \<le> 8192 / 2 ^ 52" using A M by (auto intro: divide_right_mono)
  ultimately have "(6 * ?n + 1) * ?e \<le> (6 * 5000 + 1) * (8192 / 2 ^ 52)"
    by (intro mult_mono) auto
  also have "\<dots> \<le> 1" by simp
  finally have small: "(6 * ?n + 1) * ?e \<le> 1" .
  have "sum_list (map (\<lambda>m. \<bar>dec d m\<bar>) ms) + (5 * ?n + 1) * ?e \<le> M"
  proof -
    have "(6 * ?n + 1) * ?e = ?n * ?e + (5 * ?n + 1) * ?e" by (simp add: algebra_simps)
    with aclose [unfolded sum_list_divide] A(1,2) small show ?thesis by linarith
  qed
  then have "(\<Sum>q\<leftarrow>map (dec d) ms. \<bar>q\<bar>) + (5 * of_nat (length (map (dec d) ms)) + 1) * ?e \<le> M"
    by (simp add: comp_def)
  from py_sum_near [OF fl_near [OF _ M] \<open>0 \<le> ?e\<close> this] obtain r where
    r: "py_sum (dec_floats d ms) = Fin r" "\<bar>r - sum_list (map (dec d) ms)\<bar> \<le> (5 * ?n + 1) * ?e"
    unfolding floats by (auto elim: nearE)
  have "of_int (sum_list ms) / 10 ^ d = sum_list (map (\<lambda>m. of_int m / 10 ^ d :: rat) ms)"
    by (simp add: sum_list_divide sum_list_of_int)
  moreover have "(6 * ?n + 1) * ?e = ?n * ?e + (5 * ?n + 1) * ?e" by (simp add: algebra_simps)
  then have "\<bar>r - sum_list (map (\<lambda>m. of_int m / 10 ^ d) ms)\<bar> \<le> (6 * ?n + 1) * ?e"
    using r(2) close by linarith
  ultimately show ?thesis by (simp only: r(1) near_Fin)
qed

text \<open>Sums of decimal floats, rounded to as many digits, are exact for up to 5000 summands.\<close>

lemma dec_sum_exact:
  assumes "sum_list (map (\<lambda>m. \<bar>of_int m\<bar>) ms) / 10 ^ d \<le> (A :: rat)" "0 \<le> A" "length ms \<le> 5000"
    and "d = 5 \<and> A \<le> 8000 \<or> d = 10 \<and> A \<le> 3"
  shows "py_round d (py_sum (dec_floats d ms)) = fl (of_int (sum_list ms) / 10 ^ d)"
proof -
  define M :: rat where "M = (if d = 5 then 8192 else 4)"
  have "near ((6 * of_nat (length ms) + 1) * (M / 2 ^ 52)) (py_sum (dec_floats d ms)) (of_int (sum_list ms) / 10 ^ d)"
    using assms by (intro dec_sum_near [of _ _ A]) (auto simp: M_def)
  moreover have "(of_nat (length ms) :: rat) \<le> 5000" using assms(3) by (metis of_nat_le_iff of_nat_numeral)
  then have "(6 * of_nat (length ms) + 1) * (M / 2 ^ 52) \<le> (6 * 5000 + 1) * (M / 2 ^ 52)"
    by (intro mult_right_mono) (auto simp: M_def)
  moreover have "(6 * 5000 + 1) * (M / 2 ^ 52) < 1 / (2 * 10 ^ d)"
    using assms(4) by (auto simp: M_def)
  ultimately show ?thesis by (intro py_round_near) auto
qed

end
