(* ===== verification/WeightShares.thy ===== *)
theory WeightShares
  imports WeightEngine
begin

text \<open>
  What the weight engine computes, in decimal units: weights are units of \<open>10^-5\<close> below the cap,
  shares are units of \<open>10^-10\<close> that add up to one although every step rounds. The bound of 5000
  members keeps the accumulated rounding errors below half a unit.
\<close>

section \<open>The capped weight\<close>

lemma round_half_even_nonneg: "0 \<le> q \<Longrightarrow> 0 \<le> round_half_even q"
  using round_half_even_mono [of 0 q] round_half_even_int [of 0] by simp

lemma fl_nonneg:
  assumes "0 \<le> q"
  shows "fl q = PosInf \<or> (\<exists>r\<ge>0. fl q = Fin r)"
  using assms by (auto simp: fl_def round_positive_def Let_def round_half_even_nonneg less_imp_le)

lemma py_round_nonneg:
  assumes "x = PosInf \<or> (\<exists>r\<ge>0. x = Fin r)"
  shows "py_round n x = PosInf \<or> (\<exists>r\<ge>0. py_round n x = Fin r)"
proof (cases "x = PosInf")
  case False
  then obtain r where r: "0 \<le> r" "x = Fin r" using assms by blast
  then have "(0 :: rat) \<le> of_int (round_half_even (r * 10 ^ n)) / 10 ^ n"
    by (simp add: round_half_even_nonneg)
  from fl_nonneg [OF this] show ?thesis by (simp add: r(2))
qed simp

lemma calculate_member_kv_units:
  assumes "calculate_member_kv total_points avg (Fin cap) = Inr (raw, capped)" and "cap \<le> 1"
  shows "\<exists>k. capped = Fin (dec 5 k) \<and> 0 \<le> k \<and> k \<le> units 5 cap"
proof -
  from assms obtain p a where args: "total_points = Fin p" "0 \<le> p" "avg = Fin a" "0 \<le> a" "0 \<le> cap"
    by (auto simp: calculate_member_kv_def validate_non_negative_finite_def
        split: if_splits elim!: non_negative_finite.elims)
  have cap_units: "0 \<le> units 5 cap" using units_range [of cap 5] args assms(2) by simp
  show ?thesis
  proof (cases "a = 0 \<or> p = 0 \<or> cap = 0")
    case True
    with assms args have "capped = Fin 0"
      by (auto simp: calculate_member_kv_def validate_non_negative_finite_def split: if_splits)
    then show ?thesis using cap_units by (intro exI [where x = 0]) simp
  next
    case False
    let ?raw = "py_round 6 (fl (p / a))"
    from False assms args have capped: "capped = py_round 5 (float_min ?raw (Fin cap))"
      by (auto simp: calculate_member_kv_def validate_non_negative_finite_def KV_RAW_DECIMALS_def
          KV_CAPPED_DECIMALS_def Let_def split: if_splits)
    have "?raw = PosInf \<or> (\<exists>r\<ge>0. ?raw = Fin r)"
      using args by (intro py_round_nonneg fl_nonneg) simp
    then have "\<exists>m\<ge>0. float_min ?raw (Fin cap) = Fin m \<and> m \<le> cap"
      using args(5) by (elim disjE exE conjE) (force simp: float_min_def float_lt_def)+
    then obtain m where m: "float_min ?raw (Fin cap) = Fin m" "0 \<le> m" "m \<le> cap" by blast
    then have "0 \<le> units 5 m \<and> units 5 m \<le> 10 ^ 5" "units 5 m \<le> units 5 cap"
      using assms(2) units_range [of m 5] by (auto intro: units_mono)
    then show ?thesis
      using dec_unit [of "units 5 m" 5] by (intro exI [where x = "units 5 m"]) (simp add: capped m(1) py_round_units del: py_round.simps)
  qed
qed

section \<open>The raw shares\<close>

lemma float_lt_zero [simp]: "float_lt (Fin 0) (Fin a) \<longleftrightarrow> 0 < a"
  by (auto simp: float_lt_def)

lemma dec_pos:
  assumes "0 < k" "k \<le> 10 ^ 5"
  shows "0 < dec 5 k"
proof -
  have "(1 :: rat) / 10 ^ 5 \<le> of_int k / 10 ^ 5" using assms(1) by (intro divide_right_mono) auto
  moreover have "\<bar>dec 5 k - of_int k / 10 ^ 5\<bar> \<le> 1 / 2 ^ 52" using dec_unit(2) [of k 5] assms by simp
  moreover have "(1 :: rat) / 2 ^ 52 < 1 / 10 ^ 5" by simp
  ultimately show ?thesis by linarith
qed

text \<open>The total of at most 5000 weights.\<close>

lemma total_weight_near:
  assumes "1 \<le> K" "K \<le> 5000 * 10 ^ 5"
  shows "fl (of_int K / 10 ^ 5) = Fin (dec 5 K)" "\<bar>dec 5 K - of_int K / 10 ^ 5\<bar> \<le> 8192 / 2 ^ 52"
    and "(1 :: rat) / 10 ^ 5 \<le> of_int K / 10 ^ 5"
proof -
  have "(of_int K :: rat) \<le> of_int (5000 * 10 ^ 5)" using assms(2) by (simp only: of_int_le_iff)
  then have "\<bar>of_int K / 10 ^ 5 :: rat\<bar> \<le> 8192" using assms(1) by simp
  from dec_near [OF this] show "fl (of_int K / 10 ^ 5) = Fin (dec 5 K)"
    "\<bar>dec 5 K - of_int K / 10 ^ 5\<bar> \<le> 8192 / 2 ^ 52" by simp_all
  show "(1 :: rat) / 10 ^ 5 \<le> of_int K / 10 ^ 5" using assms(1) by (intro divide_right_mono) auto
qed

lemma raw_share_units:
  assumes "0 \<le> k" "k \<le> 10 ^ 5" "k \<le> K" "1 \<le> K" "K \<le> 5000 * 10 ^ 5"
  shows "\<exists>m\<ge>0. raw_share (Fin (dec 5 K)) (Fin (dec 5 k)) = fl (of_int m / 10 ^ 10) \<and>
    of_int m / 10 ^ 10 \<le> dec 5 k / dec 5 K + 1 / 10 ^ 10 \<and> (k = 0 \<longrightarrow> m = 0)"
proof (cases "k = 0")
  case True
  then show ?thesis by (intro exI [where x = 0]) (simp add: raw_share_def fl_def)
next
  case False
  let ?q = "dec 5 k / dec 5 K"
  have k: "0 < dec 5 k" using dec_pos [of k] assms False by simp
  note K = total_weight_near [OF assms(4,5)]
  have "(of_int k :: rat) / 10 ^ 5 \<le> of_int K / 10 ^ 5" using assms(3) by (intro divide_right_mono) auto
  moreover have "\<bar>dec 5 k - of_int k / 10 ^ 5\<bar> \<le> 1 / 2 ^ 52" using dec_unit(2) [of k 5] assms by simp
  moreover have "(1 :: rat) / 2 ^ 52 + 2 * (8192 / 2 ^ 52) \<le> 1 / 10 ^ 5" by simp
  ultimately have kK: "dec 5 k \<le> 2 * dec 5 K" using K(2,3) by linarith
  then have K0: "0 < dec 5 K" using k by linarith
  have q: "0 \<le> ?q" "\<bar>?q\<bar> \<le> 2" using k K0 kK by (auto simp: divide_le_eq)
  have "near (2 / 2 ^ 52) (fl ?q) ?q" using q(2) by (intro fl_near) auto
  then obtain r where r: "fl ?q = Fin r" "\<bar>r - ?q\<bar> \<le> 2 / 2 ^ 52" by (rule nearE)
  have "0 \<le> r" using fl_nonneg [OF q(1)] r(1) by auto
  then have "0 \<le> units 10 r" using units_mono [of 0 r 10] by simp
  moreover have "of_int (units 10 r) / 10 ^ 10 \<le> ?q + 1 / 10 ^ 10"
  proof -
    have "(2 :: rat) / 2 ^ 52 + 1 / (2 * 10 ^ 10) \<le> 1 / 10 ^ 10" by simp
    then show ?thesis using units_error [of 10 r] r(2) by linarith
  qed
  moreover have "raw_share (Fin (dec 5 K)) (Fin (dec 5 k)) = fl (of_int (units 10 r) / 10 ^ 10)"
    using k by (simp add: raw_share_def PAYOUT_SHARE_DECIMALS_def r(1) py_round_units del: py_round.simps)
  ultimately show ?thesis using False by blast
qed

text \<open>The raw shares of a list of weights add up to at most two.\<close>

lemma raw_shares_units:
  assumes ks: "\<forall>k\<in>set ks. 0 \<le> k \<and> k \<le> 10 ^ 5" and n: "length ks \<le> 5000" and pos: "1 \<le> sum_list ks"
  shows "\<exists>ms. map (raw_share (Fin (dec 5 (sum_list ks)))) (map (\<lambda>k. Fin (dec 5 k)) ks) = dec_floats 10 ms \<and>
    length ms = length ks \<and> (\<forall>m\<in>set ms. 0 \<le> m) \<and> of_int (sum_list ms) / 10 ^ 10 \<le> (2 :: rat) \<and>
    (\<forall>i<length ks. ks ! i = 0 \<longrightarrow> ms ! i = 0)"
proof -
  let ?K = "sum_list ks"
  have n': "(of_nat (length ks) :: rat) \<le> 5000" using n by (metis of_nat_le_iff of_nat_numeral)
  have "sum_list ks \<le> sum_list (map (\<lambda>_. 10 ^ 5) ks)"
    using ks by (induction ks) auto
  also have "\<dots> = int (length ks) * 10 ^ 5" by (simp add: sum_list_triv)
  also have "\<dots> \<le> 5000 * 10 ^ 5" using n by simp
  finally have Kmax: "?K \<le> 5000 * 10 ^ 5" .
  have le_sum: "k \<le> ?K" if "k \<in> set ks" for k using ks that by (intro member_le_sum_list) auto
  note K = total_weight_near [OF pos Kmax]
  have "\<forall>k\<in>set ks. \<exists>m\<ge>0. raw_share (Fin (dec 5 ?K)) (Fin (dec 5 k)) = fl (of_int m / 10 ^ 10) \<and>
    of_int m / 10 ^ 10 \<le> dec 5 k / dec 5 ?K + 1 / 10 ^ 10 \<and> (k = 0 \<longrightarrow> m = 0)"
    using raw_share_units ks le_sum pos Kmax by blast
  then obtain f where f: "\<forall>k\<in>set ks. 0 \<le> f k \<and>
    raw_share (Fin (dec 5 ?K)) (Fin (dec 5 k)) = fl (of_int (f k) / 10 ^ 10) \<and>
    of_int (f k) / 10 ^ 10 \<le> dec 5 k / dec 5 ?K + 1 / 10 ^ 10 \<and> (k = 0 \<longrightarrow> f k = 0)"
    by metis
  have "sum_list (map (\<lambda>k. of_int (f k) / 10 ^ 10) ks) \<le> sum_list (map (\<lambda>k. dec 5 k / dec 5 ?K + 1 / 10 ^ 10) ks)"
    using f by (intro sum_list_mono) blast
  also have "\<dots> = sum_list (map (dec 5) ks) / dec 5 ?K + of_nat (length ks) / 10 ^ 10"
    by (simp add: sum_list_addf sum_list_divide sum_list_triv)
  also have "\<dots> \<le> 3 / 2 + 1 / 2"
  proof (intro add_mono)
    have "\<bar>sum_list (map (dec 5) ks) - sum_list (map (\<lambda>k. of_int k / 10 ^ 5) ks)\<bar> \<le> of_nat (length ks) * (1 / 2 ^ 52)"
      using dec_unit(2) ks by (intro sum_list_close) blast
    moreover have "of_nat (length ks) * (1 / 2 ^ 52 :: rat) \<le> 5000 * (1 / 2 ^ 52)"
      using n' by (intro mult_right_mono) auto
    moreover have "sum_list (map (\<lambda>k. of_int k / 10 ^ 5 :: rat) ks) = of_int ?K / 10 ^ 5"
      by (simp add: sum_list_divide sum_list_of_int)
    moreover have "(5000 :: rat) * (1 / 2 ^ 52) + 3 / 2 * (8192 / 2 ^ 52) \<le> 1 / 2 * (1 / 10 ^ 5)" by simp
    ultimately have "sum_list (map (dec 5) ks) \<le> 3 / 2 * dec 5 ?K" using K(2,3) by linarith
    moreover have "(8192 :: rat) / 2 ^ 52 < 1 / 10 ^ 5" by simp
    then have "0 < dec 5 ?K" using K(2,3) by linarith
    ultimately show "sum_list (map (dec 5) ks) / dec 5 ?K \<le> 3 / 2" by (simp add: divide_le_eq)
    have "of_nat (length ks) / 10 ^ 10 \<le> (5000 :: rat) / 10 ^ 10" using n' by (intro divide_right_mono) auto
    then show "of_nat (length ks) / 10 ^ 10 \<le> (1 :: rat) / 2" by simp
  qed
  finally have "of_int (sum_list (map f ks)) / 10 ^ 10 \<le> (2 :: rat)"
    by (simp add: sum_list_divide sum_list_of_int comp_def)
  then show ?thesis
    using f nth_mem by (intro exI [where x = "map f ks"] conjI) (fastforce simp: dec_floats_def)+
qed

section \<open>The corrected shares\<close>

lemma error_of_complement: "\<bar>s - S\<bar> \<le> d \<Longrightarrow> \<bar>r - (1 - s)\<bar> \<le> e \<Longrightarrow> d + e \<le> c \<Longrightarrow> \<bar>r - (1 - S)\<bar> \<le> (c :: rat)"
  by linarith

lemma bound_of_sum:
  "\<bar>x - a\<bar> \<le> e \<Longrightarrow> \<bar>y - b\<bar> \<le> e \<Longrightarrow> \<bar>a\<bar> \<le> 3 \<Longrightarrow> \<bar>b\<bar> \<le> 3 \<Longrightarrow> e \<le> 1 \<Longrightarrow> \<bar>x + y\<bar> \<le> (8 :: rat)"
  by linarith

lemma error_of_sum:
  "\<bar>z - (x + y)\<bar> \<le> d \<Longrightarrow> \<bar>x - a\<bar> \<le> e \<Longrightarrow> \<bar>y - b\<bar> \<le> e \<Longrightarrow> d + 2 * e \<le> c \<Longrightarrow> \<bar>z - (a + b)\<bar> \<le> (c :: rat)"
  by linarith

lemma dec_ten:
  assumes "\<bar>of_int m\<bar> / 10 ^ 10 \<le> (3 :: rat)"
  shows "fl (of_int m / 10 ^ 10) = Fin (dec 10 m)" "\<bar>dec 10 m - of_int m / 10 ^ 10\<bar> \<le> 4 / 2 ^ 52"
  using dec_near [of m 10 4] assms by auto

lemma dec_ten_zero_iff:
  assumes "\<bar>of_int m\<bar> / 10 ^ 10 \<le> (3 :: rat)"
  shows "fl (of_int m / 10 ^ 10) = Fin 0 \<longleftrightarrow> m = 0"
proof
  assume "fl (of_int m / 10 ^ 10) = Fin 0"
  then have "\<bar>0 - of_int m / 10 ^ 10 :: rat\<bar> \<le> 4 / 2 ^ 52" using dec_ten [OF assms] by simp
  moreover have "(4 :: rat) / 2 ^ 52 < 1 / 10 ^ 10" by simp
  ultimately have "\<bar>of_int m / 10 ^ 10 :: rat\<bar> < 1 / 10 ^ 10" by linarith
  then have "\<bar>of_int m :: rat\<bar> < 1" by simp
  then show "m = 0" by (metis of_int_abs of_int_less_1_iff int_one_le_iff_zero_less linorder_not_le zero_less_abs_iff)
qed (simp add: fl_def)

lemma sum_list_abs_nonneg: "\<forall>m\<in>set ms. 0 \<le> m \<Longrightarrow> sum_list (map (\<lambda>m. \<bar>of_int m :: rat\<bar>) ms) = of_int (sum_list ms)"
  by (induction ms) auto

text \<open>The residual is exact in units.\<close>

lemma share_residual_units:
  assumes "\<forall>m\<in>set ms. 0 \<le> m" "of_int (sum_list ms) / 10 ^ 10 \<le> (2 :: rat)" "length ms \<le> 5000"
  shows "share_residual (dec_floats 10 ms) = fl (of_int (10 ^ 10 - sum_list ms) / 10 ^ 10)"
proof -
  let ?S = "of_int (sum_list ms) / 10 ^ 10 :: rat" and ?n = "of_nat (length ms) :: rat"
  have S0: "0 \<le> ?S" using assms(1) by (simp add: sum_list_nonneg)
  have "near ((6 * ?n + 1) * (4 / 2 ^ 52)) (py_sum (dec_floats 10 ms)) ?S"
    using assms by (intro dec_sum_near [of _ _ 2]) (simp_all add: sum_list_abs_nonneg)
  moreover have "?n \<le> 5000" using assms(3) by (metis of_nat_le_iff of_nat_numeral)
  then have "(6 * ?n + 1) * (4 / 2 ^ 52) \<le> (6 * 5000 + 1) * (4 / 2 ^ 52)" by (intro mult_right_mono) auto
  ultimately obtain s where s: "py_sum (dec_floats 10 ms) = Fin s" "\<bar>s - ?S\<bar> \<le> (6 * 5000 + 1) * (4 / 2 ^ 52)"
    by (auto elim!: nearE)
  have "((6 * 5000 + 1) * (4 / 2 ^ 52) :: rat) \<le> 1" by simp
  then have "\<bar>1 - s\<bar> \<le> 4" using s(2) S0 assms(2) by linarith
  then have "near (4 / 2 ^ 52) (fl (1 - s)) (1 - s)" by (intro fl_near) auto
  then obtain r where r: "fl (1 - s) = Fin r" "\<bar>r - (1 - s)\<bar> \<le> 4 / 2 ^ 52" by (rule nearE)
  have unit: "of_int (10 ^ 10 - sum_list ms) / 10 ^ 10 = 1 - ?S" by (simp add: diff_divide_distrib)
  have "near ((6 * 5000 + 2) * (4 / 2 ^ 52)) (Fin r) (of_int (10 ^ 10 - sum_list ms) / 10 ^ 10)"
    unfolding unit near_Fin by (rule error_of_complement [OF s(2) r(2)]) simp
  from py_round_near [OF this] show ?thesis
    by (simp add: share_residual_def PAYOUT_SHARE_DECIMALS_def float_sub_def s(1) r(1) del: py_round.simps)
qed

lemma sum_list_update_int: "i < length ms \<Longrightarrow> sum_list (ms[i := (x :: int)]) = sum_list ms + x - ms ! i"
  by (induction ms arbitrary: i) (auto split: nat.splits)

text \<open>Adding the residual to one share makes the units add up to one.\<close>

lemma corrected_units:
  assumes nonneg: "\<forall>m\<in>set ms. 0 \<le> m" and S: "of_int (sum_list ms) / 10 ^ 10 \<le> (2 :: rat)"
    and n: "length ms \<le> 5000" and ix: "positive_indexes vs \<noteq> []" "length vs = length ms"
  shows "\<exists>ms'. correct_shares vs (dec_floats 10 ms) = dec_floats 10 ms' \<and> length ms' = length ms \<and>
    sum_list ms' = 10 ^ 10 \<and> sum_list (map (\<lambda>m. \<bar>of_int m\<bar>) ms') / 10 ^ 10 \<le> (3 :: rat) \<and>
    (\<forall>i<length ms. i \<notin> set (positive_indexes vs) \<longrightarrow> ms' ! i = ms ! i)"
proof -
  let ?l = "last (positive_indexes vs)" and ?r = "10 ^ 10 - sum_list ms"
  have l: "?l \<in> set (positive_indexes vs)" using ix(1) by (rule last_in_set)
  then have l': "?l < length ms" using ix(2) by (auto simp: positive_indexes_def)
  have S0: "0 \<le> sum_list ms" using nonneg by (simp add: sum_list_nonneg)
  have r: "\<bar>of_int ?r\<bar> / 10 ^ 10 \<le> (1 :: rat)"
    using S S0 by (simp add: divide_le_eq abs_le_iff)
  note residual = share_residual_units [OF nonneg S n]
  show ?thesis
  proof (cases "?r = 0")
    case True
    then have "share_residual (dec_floats 10 ms) = Fin 0" by (simp only: residual) (simp add: fl_def)
    then have "correct_shares vs (dec_floats 10 ms) = dec_floats 10 ms" by (simp add: correct_shares_def Let_def)
    then show ?thesis using True S nonneg by (intro exI [where x = ms]) (simp add: sum_list_abs_nonneg)
  next
    case False
    let ?m = "ms ! ?l"
    have "ms ! ?l \<in> set ms" using l' by simp
    then have m: "0 \<le> ?m" "?m \<le> sum_list ms" using nonneg by (auto intro: member_le_sum_list)
    then have m3: "\<bar>of_int ?m\<bar> / 10 ^ 10 \<le> (3 :: rat)" using S by (simp add: divide_le_eq)
    have r3: "\<bar>of_int ?r\<bar> / 10 ^ 10 \<le> (3 :: rat)" using r by simp
    have not0: "share_residual (dec_floats 10 ms) \<noteq> Fin 0"
      using dec_ten_zero_iff [OF r3] False residual by simp
    have sum: "\<bar>dec 10 ?m + dec 10 ?r\<bar> \<le> 8"
    proof -
      have "\<bar>of_int ?m / 10 ^ 10 :: rat\<bar> \<le> 3" "\<bar>of_int ?r / 10 ^ 10 :: rat\<bar> \<le> 3" using m3 r3 by simp_all
      then show ?thesis by (intro bound_of_sum [OF dec_ten(2) [OF m3] dec_ten(2) [OF r3]]) simp_all
    qed
    have "near (8 / 2 ^ 52) (fl (dec 10 ?m + dec 10 ?r)) (dec 10 ?m + dec 10 ?r)"
      using sum by (intro fl_near) auto
    then obtain x where x: "fl (dec 10 ?m + dec 10 ?r) = Fin x" "\<bar>x - (dec 10 ?m + dec 10 ?r)\<bar> \<le> 8 / 2 ^ 52"
      by (rule nearE)
    have parts: "of_int (?m + ?r) / 10 ^ 10 = (of_int ?m / 10 ^ 10 + of_int ?r / 10 ^ 10 :: rat)"
      by (simp only: of_int_add add_divide_distrib)
    have "near (16 / 2 ^ 52) (Fin x) (of_int (?m + ?r) / 10 ^ 10)"
      unfolding near_Fin parts by (rule error_of_sum [OF x(2) dec_ten(2) [OF m3] dec_ten(2) [OF r3]]) simp
    from py_round_near [OF this] have new: "py_round 10 (Fin x) = fl (of_int (?m + ?r) / 10 ^ 10)" by simp
    have "correct_shares vs (dec_floats 10 ms) = (dec_floats 10 ms)[?l := fl (of_int (?m + ?r) / 10 ^ 10)]"
      using not0 ix(1) l' residual dec_ten(1) [OF m3] dec_ten(1) [OF r3] x(1) new
      by (simp add: correct_shares_def Let_def PAYOUT_SHARE_DECIMALS_def dec_floats_def del: py_round.simps of_int_add of_int_diff)
    also have "\<dots> = dec_floats 10 (ms[?l := ?m + ?r])" by (simp add: dec_floats_def map_update)
    finally have correct: "correct_shares vs (dec_floats 10 ms) = dec_floats 10 (ms[?l := ?m + ?r])" .
    have "sum_list (map (\<lambda>m. \<bar>of_int m :: rat\<bar>) (ms[?l := ?m + ?r])) \<le> of_int (sum_list ms) + \<bar>of_int ?r\<bar>"
    proof -
      have "sum_list (map abs (ms[?l := ?m + ?r])) = sum_list (map abs ms) + \<bar>?m + ?r\<bar> - \<bar>?m\<bar>"
        using l' sum_list_update_int [of ?l "map abs ms" "\<bar>?m + ?r\<bar>"] by (simp add: map_update)
      also have "map abs ms = ms" using nonneg by (simp add: map_idI)
      finally have "sum_list (map abs (ms[?l := ?m + ?r])) \<le> sum_list ms + \<bar>?r\<bar>" by linarith
      then have "(of_int (sum_list (map abs (ms[?l := ?m + ?r]))) :: rat) \<le> of_int (sum_list ms + \<bar>?r\<bar>)"
        by (simp only: of_int_le_iff)
      then show ?thesis by (simp only: sum_list_of_int map_map comp_def of_int_abs of_int_add)
    qed
    then have "sum_list (map (\<lambda>m. \<bar>of_int m :: rat\<bar>) (ms[?l := ?m + ?r])) / 10 ^ 10 \<le>
        of_int (sum_list ms) / 10 ^ 10 + \<bar>of_int ?r\<bar> / 10 ^ 10"
      by (simp only: add_divide_distrib [symmetric]) (intro divide_right_mono, simp_all)
    then have "sum_list (map (\<lambda>m. \<bar>of_int m :: rat\<bar>) (ms[?l := ?m + ?r])) / 10 ^ 10 \<le> 3" using S r by linarith
    moreover have "\<forall>i<length ms. i \<notin> set (positive_indexes vs) \<longrightarrow> ms[?l := ?m + ?r] ! i = ms ! i"
      using l by (metis nth_list_update_neq)
    ultimately show ?thesis
      using correct sum_list_update_int [OF l', of "?m + ?r"]
      by (intro exI [where x = "ms[?l := ?m + ?r]"]) simp
  qed
qed

section \<open>The shares of a payout\<close>

lemma fl_one [simp]: "fl 1 = Fin 1"
  using round_positive_int [of 1] by (simp add: fl_def two_pow_def)

lemma sum_list_zeros: "\<forall>k\<in>set ks. k = 0 \<Longrightarrow> sum_list ks = (0 :: int)"
  by (induction ks) auto

lemma validate_all_nonneg: "\<forall>a\<in>set as. 0 \<le> a \<Longrightarrow> validate_all (map Fin as) = Inr ()"
  by (induction as) (auto simp: validate_non_negative_finite_def)

lemma calculate_payout_shares_units:
  assumes unit: "\<forall>a\<in>set as. 0 \<le> a \<and> a \<le> 1" and n: "length as \<le> 5000"
    and pos: "1 \<le> sum_list (map (units 5) as)"
  shows "\<exists>ms. calculate_payout_shares (map Fin as) = Inr (dec_floats 10 ms) \<and> length ms = length as \<and>
    sum_list ms = 10 ^ 10 \<and> py_round 10 (py_sum (dec_floats 10 ms)) = Fin 1 \<and>
    (\<forall>i<length as. units 5 (as ! i) = 0 \<longrightarrow> ms ! i = 0)"
proof -
  let ?ks = "map (units 5) as"
  have ks: "\<forall>k\<in>set ?ks. 0 \<le> k \<and> k \<le> 10 ^ 5" using unit units_range [of _ 5] by auto
  have rounded: "map (py_round 5) (map Fin as) = map (\<lambda>k. Fin (dec 5 k)) ?ks"
    using ks dec_unit(1) [of _ 5] by (auto simp: py_round_units simp del: py_round.simps)
  then have rounded': "map (py_round 5) (map Fin as) = dec_floats 5 ?ks"
    using ks dec_unit(1) [of _ 5] by (auto simp: dec_floats_def)
  have "sum_list ?ks \<le> sum_list (map (\<lambda>_. 10 ^ 5) as)" using ks by (intro sum_list_mono) simp
  also have "\<dots> \<le> 5000 * 10 ^ 5" using n by (simp add: sum_list_triv)
  finally have K: "sum_list ?ks \<le> 5000 * 10 ^ 5" .
  then have "(of_int (sum_list ?ks) :: rat) \<le> of_int (5000 * 10 ^ 5)" by (simp only: of_int_le_iff)
  then have total_kv: "py_round 5 (py_sum (dec_floats 5 ?ks)) = fl (of_int (sum_list ?ks) / 10 ^ 5)"
  proof (intro dec_sum_exact [of _ _ 5000])
    have "sum_list (map (\<lambda>m. \<bar>of_int m :: rat\<bar>) ?ks) = of_int (sum_list ?ks)"
      using ks by (intro sum_list_abs_nonneg) blast
    then show "sum_list (map (\<lambda>m. \<bar>of_int m :: rat\<bar>) ?ks) / 10 ^ 5 \<le> 5000"
      using \<open>(of_int (sum_list ?ks) :: rat) \<le> of_int (5000 * 10 ^ 5)\<close> by simp
  qed (use n in auto)
  note total_kv = total_kv [unfolded total_weight_near(1) [OF pos K]]
  have "0 < dec 5 (sum_list ?ks)"
  proof -
    have "(8192 :: rat) / 2 ^ 52 < 1 / 10 ^ 5" by simp
    then show ?thesis using total_weight_near(2,3) [OF pos K] by linarith
  qed
  then have T0: "dec 5 (sum_list ?ks) \<noteq> 0" by simp
  obtain ms where raw: "map (raw_share (Fin (dec 5 (sum_list ?ks)))) (map (\<lambda>k. Fin (dec 5 k)) ?ks) = dec_floats 10 ms"
    and ms: "length ms = length ?ks" "\<forall>m\<in>set ms. 0 \<le> m" "of_int (sum_list ms) / 10 ^ 10 \<le> (2 :: rat)"
      "\<forall>i<length ?ks. ?ks ! i = 0 \<longrightarrow> ms ! i = 0"
    using raw_shares_units [OF ks _ pos] n by auto
  have ix: "i \<in> set (positive_indexes (map (\<lambda>k. Fin (dec 5 k)) ?ks)) \<longleftrightarrow> i < length as \<and> ?ks ! i \<noteq> 0" for i
  proof -
    have "0 < dec 5 (?ks ! i) \<longleftrightarrow> ?ks ! i \<noteq> 0" if "i < length as"
      using that ks dec_pos [of "?ks ! i"] by (cases "?ks ! i = 0") (auto simp: less_le)
    then show ?thesis by (auto simp: positive_indexes_def)
  qed
  have "\<exists>k\<in>set ?ks. k \<noteq> 0"
  proof (rule ccontr)
    assume "\<not> ?thesis"
    then have "sum_list ?ks = 0" by (intro sum_list_zeros) blast
    with pos show False by simp
  qed
  then obtain i where "i < length as" "?ks ! i \<noteq> 0" by (metis in_set_conv_nth length_map)
  with ix have "positive_indexes (map (\<lambda>k. Fin (dec 5 k)) ?ks) \<noteq> []" by fastforce
  from corrected_units [OF ms(2,3) _ this] ms(1) n obtain ms' where
    ms': "correct_shares (map (\<lambda>k. Fin (dec 5 k)) ?ks) (dec_floats 10 ms) = dec_floats 10 ms'"
      "length ms' = length ms" "sum_list ms' = 10 ^ 10"
      "sum_list (map (\<lambda>m. \<bar>of_int m\<bar>) ms') / 10 ^ 10 \<le> (3 :: rat)"
      "\<forall>i<length ms. i \<notin> set (positive_indexes (map (\<lambda>k. Fin (dec 5 k)) ?ks)) \<longrightarrow> ms' ! i = ms ! i"
    by auto
  have "as \<noteq> []" using pos by auto
  then have "calculate_payout_shares (map Fin as) = Inr (dec_floats 10 ms')"
    using unit T0 total_kv raw ms'(1)
    by (simp add: calculate_payout_shares_def validate_all_nonneg KV_CAPPED_DECIMALS_def Let_def
        rounded rounded' [unfolded rounded, symmetric] del: py_round.simps map_map)
  moreover have "py_round 10 (py_sum (dec_floats 10 ms')) = Fin 1"
    using dec_sum_exact [OF ms'(4), of] ms' ms(1) n by simp
  moreover have "\<forall>i<length as. units 5 (as ! i) = 0 \<longrightarrow> ms' ! i = 0"
    using ms'(5) ms(1,4) ix by simp
  ultimately show ?thesis using ms'(2,3) ms(1) by auto
qed

section \<open>The weights of a distribution\<close>

lemma dec_five_unit:
  assumes "0 \<le> k" "k \<le> 10 ^ 5"
  shows "0 \<le> dec 5 k" "dec 5 k \<le> 1" "units 5 (dec 5 k) = k"
proof -
  show "0 \<le> dec 5 k" using dec_mono [of 0 k 5] assms by simp
  have "dec 5 (10 ^ 5) = 1" by (simp add: dec_def)
  then show "dec 5 k \<le> 1" using dec_mono [of k "10 ^ 5" 5] assms by simp
  have "\<bar>dec 5 k - of_int k / 10 ^ 5\<bar> \<le> 1 / 2 ^ 52" using dec_unit(2) [of k 5] assms by simp
  then have "\<bar>(dec 5 k - of_int k / 10 ^ 5) * 10 ^ 5\<bar> \<le> 1 / 2 ^ 52 * 10 ^ 5"
    by (simp only: abs_mult) (intro mult_mono, simp_all)
  then have "\<bar>dec 5 k * 10 ^ 5 - of_int k\<bar> \<le> 1 / 2 ^ 52 * 10 ^ 5" by (simp add: left_diff_distrib)
  also have "(1 :: rat) / 2 ^ 52 * 10 ^ 5 < 1 / 2" by simp
  finally show "units 5 (dec 5 k) = k" unfolding units_def by (rule round_half_even_near)
qed

text \<open>The capped weights of a request, in units.\<close>

lemma member_kvs_units:
  assumes "wi_cap_kv req = Fin cap" "cap \<le> 1"
  shows "member_kvs req ms = Inr kvs \<Longrightarrow>
    \<exists>ks. map (\<lambda>(m, raw, c). c) kvs = map (\<lambda>k. Fin (dec 5 k)) ks \<and> length ks = length ms \<and>
      (\<forall>k\<in>set ks. 0 \<le> k \<and> k \<le> units 5 cap)"
proof (induction ms arbitrary: kvs)
  case (Cons m ms)
  then obtain raw c rest where "calculate_member_kv (mp_total_points m) (wi_avg_points_council req) (Fin cap) = Inr (raw, c)"
    and rest: "member_kvs req ms = Inr rest" and kvs: "kvs = (m, raw, c) # rest" using assms(1) by auto
  then obtain k where "c = Fin (dec 5 k)" "0 \<le> k" "k \<le> units 5 cap"
    using calculate_member_kv_units assms(2) by blast
  moreover obtain ks where "map (\<lambda>(m, raw, c). c) rest = map (\<lambda>k. Fin (dec 5 k)) ks" "length ks = length ms"
    "\<forall>k\<in>set ks. 0 \<le> k \<and> k \<le> units 5 cap" using Cons.IH [OF rest] by blast
  ultimately show ?case using kvs by (intro exI [where x = "k # ks"]) simp
qed simp

lemma weight_outputs_values:
  "weight_outputs req (zip kvs shares) = Inr ws \<Longrightarrow> length shares = length kvs \<Longrightarrow>
     map mw_payout_share ws = shares \<and> map mw_kv_capped ws = map (\<lambda>(m, raw, c). c) kvs"
proof (induction kvs arbitrary: shares ws)
  case (Cons x kvs)
  obtain m raw c where x: "x = (m, raw, c)" by (rule prod_cases3)
  obtain sh rest where "shares = sh # rest" using Cons.prems(2) by (cases shares) auto
  with Cons x show ?case by (fastforce simp: member_weight_output_def)
qed simp

lemma calculate_payout_shares_length: "calculate_payout_shares vs = Inr shares \<Longrightarrow> length shares = length vs"
  by (auto simp: calculate_payout_shares_def correct_shares_def Let_def split: if_splits)

lemma member_kvs_length: "member_kvs req ms = Inr kvs \<Longrightarrow> length kvs = length ms"
  by (induction ms arbitrary: kvs) auto

lemma weights_of_request_units:
  assumes "weights_of_request req = Inr w" and cap: "wi_cap_kv req = Fin cap" "0 \<le> cap" "cap \<le> 1"
  shows "\<exists>ks. map mw_kv_capped (wo_members w) = map (\<lambda>k. Fin (dec 5 k)) ks \<and> length ks = length (wi_members req) \<and>
    (\<forall>k\<in>set ks. 0 \<le> k \<and> k \<le> units 5 cap) \<and>
    calculate_payout_shares (map Fin (map (dec 5) ks)) = Inr (map mw_payout_share (wo_members w))"
proof -
  from assms(1) obtain kvs shares where kvs: "member_kvs req (wi_members req) = Inr kvs"
    and shares: "calculate_payout_shares (map (\<lambda>(m, raw, c). c) kvs) = Inr shares"
    and ws: "weight_outputs req (zip kvs shares) = Inr (wo_members w)"
    by (auto simp: weights_of_request_def Let_def)
  from member_kvs_units [OF cap(1,3) kvs] obtain ks where
    ks: "map (\<lambda>(m, raw, c). c) kvs = map (\<lambda>k. Fin (dec 5 k)) ks" "length ks = length (wi_members req)"
      "\<forall>k\<in>set ks. 0 \<le> k \<and> k \<le> units 5 cap" by blast
  have "length shares = length kvs" using calculate_payout_shares_length [OF shares] by simp
  from weight_outputs_values [OF ws this] ks shares show ?thesis
    by (intro exI [where x = ks]) (simp add: comp_def)
qed

lemma weights_sum_one:
  assumes "weights_of_request req = Inr w" and cap: "wi_cap_kv req = Fin cap" "0 \<le> cap" "cap \<le> 1"
    and n: "length (wi_members req) \<le> 5000" and pos: "\<exists>m\<in>set (wo_members w). mw_kv_capped m \<noteq> Fin 0"
  shows "total_payout_share w = NFloat (Fin 1)"
proof -
  from weights_of_request_units [OF assms(1) cap] obtain ks where
    capped: "map mw_kv_capped (wo_members w) = map (\<lambda>k. Fin (dec 5 k)) ks" and len: "length ks = length (wi_members req)"
    and ks: "\<forall>k\<in>set ks. 0 \<le> k \<and> k \<le> units 5 cap"
    and shares: "calculate_payout_shares (map Fin (map (dec 5) ks)) = Inr (map mw_payout_share (wo_members w))" by blast
  have ks': "\<forall>k\<in>set ks. 0 \<le> k \<and> k \<le> 10 ^ 5" using ks units_range [OF cap(2,3), of 5] by force
  then have unit: "\<forall>a\<in>set (map (dec 5) ks). 0 \<le> a \<and> a \<le> 1" and again: "map (units 5) (map (dec 5) ks) = ks"
    using dec_five_unit by (auto intro: map_idI)
  have "\<exists>k\<in>set ks. k \<noteq> 0"
  proof -
    obtain v where "v \<in> set (map mw_kv_capped (wo_members w))" "v \<noteq> Fin 0" using pos by auto
    then obtain k where "k \<in> set ks" "dec 5 k \<noteq> 0" unfolding capped by auto
    then show ?thesis by (metis dec_zero)
  qed
  then obtain k where "k \<in> set ks" "1 \<le> k" using ks' by force
  moreover have "k \<le> sum_list ks" using \<open>k \<in> set ks\<close> ks' by (intro member_le_sum_list) auto
  ultimately have "1 \<le> sum_list (map (units 5) (map (dec 5) ks))" using again by simp
  from calculate_payout_shares_units [OF unit _ this] n len obtain ms where
    "map mw_payout_share (wo_members w) = dec_floats 10 ms" "py_round 10 (py_sum (dec_floats 10 ms)) = Fin 1"
    "length ms = length ks" using shares by auto
  moreover have "ks \<noteq> []" using \<open>k \<in> set ks\<close> by auto
  ultimately show ?thesis
    by (auto simp: total_payout_share_def rounded_sum_def PAYOUT_SHARE_DECIMALS_def dec_floats_def simp del: py_round.simps)
qed

lemma weights_below_cap:
  assumes "weights_of_request req = Inr w" and cap: "wi_cap_kv req = Fin cap" "0 \<le> cap" "cap \<le> 1"
    and "m \<in> set (wo_members w)"
  shows "\<exists>v. mw_kv_capped m = Fin v \<and> 0 \<le> v \<and> float_le (Fin v) (py_round 5 (Fin cap))"
proof -
  from weights_of_request_units [OF assms(1) cap] obtain ks where
    "map mw_kv_capped (wo_members w) = map (\<lambda>k. Fin (dec 5 k)) ks" "\<forall>k\<in>set ks. 0 \<le> k \<and> k \<le> units 5 cap" by blast
  with assms(5) obtain k where k: "mw_kv_capped m = Fin (dec 5 k)" "0 \<le> k" "k \<le> units 5 cap"
    by (metis (no_types, lifting) image_iff list.set_map)
  have u: "units 5 cap \<le> 10 ^ 5" "0 \<le> units 5 cap" using units_range [OF cap(2,3), of 5] by auto
  have "dec 5 k \<le> dec 5 (units 5 cap)" using k u by (intro dec_mono) auto
  moreover have "py_round 5 (Fin cap) = Fin (dec 5 (units 5 cap))"
    using dec_unit(1) [OF u(2,1)] by (simp only: py_round_units)
  moreover have "0 \<le> dec 5 k" using dec_five_unit(1) [of k] k u by simp
  ultimately show ?thesis using k(1) by simp
qed

end
