(* ===== verification/PayoutExporter.thy ===== *)
theory PayoutExporter
  imports WeightEngine Events
begin

text \<open>
  \<open>contribution_ledger/payout_exporter.py\<close>: the distribution that the ledger hands to the payout
  gateway, its hash, and the event that announces it.
\<close>

record distribution_member =
  dm_member_id :: string
  dm_total_points :: pyfloat
  dm_kv_raw :: pyfloat
  dm_kv_capped :: pyfloat
  dm_payout_share :: pyfloat

record distribution_export =
  de_distribution_id :: string
  de_tenant_id :: string
  de_period :: string
  de_status :: string
  de_total_kv_capped :: pyfloat
  de_total_payout_share :: pyfloat
  de_member_count :: nat
  de_members :: "distribution_member list"
  de_distribution_hash :: string
  de_created_by :: string
  de_created_at :: int

definition payout_distribution_member ::
    "string \<Rightarrow> pyfloat \<Rightarrow> pyfloat \<Rightarrow> pyfloat \<Rightarrow> pyfloat \<Rightarrow> exn + distribution_member" where
  "payout_distribution_member member_id total_points kv_raw kv_capped payout_share =
     model ''PayoutDistributionMember''
       (token_ok (pyd_strip member_id) \<and> non_negative_finite total_points \<and> non_negative_finite kv_raw \<and>
        non_negative_finite kv_capped \<and> non_negative_finite payout_share)
       \<lparr>dm_member_id = pyd_strip member_id, dm_total_points = total_points, dm_kv_raw = kv_raw,
        dm_kv_capped = kv_capped, dm_payout_share = payout_share\<rparr>"

definition member_hash_payload :: "distribution_member \<Rightarrow> json" where
  "member_hash_payload m =
     JObj [(''member_id'', JStr (dm_member_id m)), (''total_points'', JFloat (dm_total_points m)),
           (''kv_raw'', JFloat (dm_kv_raw m)), (''kv_capped'', JFloat (dm_kv_capped m)),
           (''payout_share'', JFloat (dm_payout_share m))]"

text \<open>The members of a distribution: ready ones, weights, or mappings of the five fields.\<close>

datatype member_input =
    ReadyMember distribution_member
  | WeightMember member_weight
  | MappingMember string pyfloat pyfloat pyfloat pyfloat

fun distribution_member_from_input :: "member_input \<Rightarrow> exn + distribution_member" where
  "distribution_member_from_input (ReadyMember m) = Inr m"
| "distribution_member_from_input (WeightMember w) =
     payout_distribution_member (mw_member_id w) (mw_total_points w) (mw_kv_raw w) (mw_kv_capped w)
       (mw_payout_share w)"
| "distribution_member_from_input (MappingMember i p r c s) = payout_distribution_member i p r c s"

fun convert_members :: "member_input list \<Rightarrow> exn + distribution_member list" where
  "convert_members [] = Inr []"
| "convert_members (m # ms) =
     ebind (distribution_member_from_input m) (\<lambda>d.
     ebind (convert_members ms) (\<lambda>ds. Inr (d # ds)))"

definition distribution_members_from_weights :: "member_input list \<Rightarrow> exn + distribution_member list" where
  "distribution_members_from_weights raw_members =
     ebind (convert_members raw_members) (\<lambda>ms. Inr (sort_key dm_member_id ms))"

definition distribution_json ::
    "string \<Rightarrow> string \<Rightarrow> json \<Rightarrow> json \<Rightarrow> distribution_member list \<Rightarrow> json" where
  "distribution_json tenant_id period total_kv_capped total_share members =
     JObj [(''tenant_id'', JStr tenant_id), (''period'', JStr period),
           (''total_kv_capped'', total_kv_capped), (''total_payout_share'', total_share),
           (''members'', JList (map member_hash_payload members))]"

definition export_hash_payload :: "distribution_export \<Rightarrow> json" where
  "export_hash_payload d =
     distribution_json (de_tenant_id d) (de_period d) (JFloat (de_total_kv_capped d))
       (JFloat (de_total_payout_share d)) (de_members d)"

definition canonical_distribution_json :: "runtime \<Rightarrow> distribution_export \<Rightarrow> string" where
  "canonical_distribution_json rt d = json_dumps (rt_float_repr rt) (export_hash_payload d)"

definition to_hitl_payload :: "runtime \<Rightarrow> distribution_export \<Rightarrow> json" where
  "to_hitl_payload rt d =
     JObj [(''distribution_id'', JStr (de_distribution_id d)), (''tenant_id'', JStr (de_tenant_id d)),
           (''period'', JStr (de_period d)), (''status'', JStr (de_status d)),
           (''total_kv_capped'', JFloat (de_total_kv_capped d)),
           (''total_payout_share'', JFloat (de_total_payout_share d)),
           (''member_count'', JInt (int (de_member_count d))),
           (''members'', JList (map member_hash_payload (de_members d))),
           (''distribution_hash'', JStr (de_distribution_hash d)),
           (''created_by'', JStr (de_created_by d)),
           (''created_at'', JStr (rt_isoformat rt (de_created_at d)))]"

definition hash_json_payload :: "runtime \<Rightarrow> json \<Rightarrow> string" where
  "hash_json_payload rt payload = rt_sha256 rt (json_dumps (rt_float_repr rt) payload)"

text \<open>A \<open>float\<close> field of a pydantic model: an integer is converted.\<close>

fun number_float :: "number \<Rightarrow> pyfloat" where
  "number_float (NInt i) = fl (of_int i)"
| "number_float (NFloat f) = f"

definition payout_distribution_export ::
    "string \<Rightarrow> string \<Rightarrow> string \<Rightarrow> number \<Rightarrow> number \<Rightarrow> distribution_member list \<Rightarrow> string \<Rightarrow> string \<Rightarrow> int
     \<Rightarrow> exn + distribution_export" where
  "payout_distribution_export distribution_id tenant_id period total_kv total_share members hash
     created_by created_at =
     model ''PayoutDistributionExport''
       (token_ok (pyd_strip distribution_id) \<and> tenant_id_ok (pyd_strip tenant_id) \<and>
        period_ok (pyd_strip period) \<and> non_negative_finite (number_float total_kv) \<and>
        non_negative_finite (number_float total_share) \<and> audit_hash_ok (pyd_strip hash) \<and>
        token_ok (pyd_strip created_by))
       \<lparr>de_distribution_id = pyd_strip distribution_id, de_tenant_id = pyd_strip tenant_id,
        de_period = pyd_strip period, de_status = ''ready'', de_total_kv_capped = number_float total_kv,
        de_total_payout_share = number_float total_share, de_member_count = length members,
        de_members = members, de_distribution_hash = pyd_strip hash,
        de_created_by = pyd_strip created_by, de_created_at = created_at\<rparr>"

definition build_payout_distribution_export ::
    "runtime \<Rightarrow> string \<Rightarrow> string \<Rightarrow> member_input list \<Rightarrow> string option \<Rightarrow> string \<Rightarrow> time_arg
     \<Rightarrow> ('z svc_scheme, distribution_export) act" where
  "build_payout_distribution_export rt tenant_id period weights distribution_id created_by created_at =
     bnd (lift (distribution_members_from_weights weights)) (\<lambda>members.
     let total_kv = rounded_sum KV_CAPPED_DECIMALS (map dm_kv_capped members);
         total_share = rounded_sum PAYOUT_SHARE_DECIMALS (map dm_payout_share members)
     in
     bnd (id_or_new rt distribution_id ''distribution'') (\<lambda>new_id.
     bnd (lift (normalize_datetime rt created_at)) (\<lambda>created.
     lift (payout_distribution_export new_id tenant_id period total_kv total_share members
             (hash_json_payload rt
                (distribution_json tenant_id period (number_json (Some total_kv))
                   (number_json (Some total_share)) members))
             created_by created))))"

definition publish_payout_distribution_ready ::
    "runtime \<Rightarrow> distribution_export \<Rightarrow> string option \<Rightarrow> string \<Rightarrow> time_arg \<Rightarrow> string option
     \<Rightarrow> ('z svc_scheme, envelope) act" where
  "publish_payout_distribution_ready rt d event_id correlation_id occurred_at causation_id =
     bnd (id_or_new rt event_id ''evt-distribution-ready'') (\<lambda>eid.
     bnd (lift (normalize_datetime rt occurred_at)) (\<lambda>occurred.
     emit eid ''payout.distribution_ready'' ''1.0'' (de_tenant_id d) ''contribution-ledger''
       correlation_id occurred
       [(''period'', JStr (de_period d)), (''distribution_id'', JStr (de_distribution_id d)),
        (''distribution_hash'', JStr (de_distribution_hash d)),
        (''member_count'', JInt (int (de_member_count d)))] causation_id))"

section \<open>The hash of an export\<close>

lemma sum_nonempty: "xs \<noteq> [] \<Longrightarrow> rounded_sum n xs = NFloat (py_round n (py_sum xs))"
  by (simp add: rounded_sum_def)

lemma convert_members_length: "convert_members ms = Inr ds \<Longrightarrow> length ds = length ms"
  by (induction ms arbitrary: ds) auto

lemma build_export_Inr:
  assumes "build_payout_distribution_export rt tenant period weights did author created s = (Inr d, t)"
  obtains members where "distribution_members_from_weights weights = Inr members"
    and "de_members d = members" "de_tenant_id d = pyd_strip tenant" "de_period d = pyd_strip period"
    and "de_total_kv_capped d = number_float (rounded_sum KV_CAPPED_DECIMALS (map dm_kv_capped members))"
    and "de_total_payout_share d = number_float (rounded_sum PAYOUT_SHARE_DECIMALS (map dm_payout_share members))"
    and "de_distribution_hash d = pyd_strip (hash_json_payload rt
           (distribution_json tenant period (number_json (Some (rounded_sum KV_CAPPED_DECIMALS (map dm_kv_capped members))))
             (number_json (Some (rounded_sum PAYOUT_SHARE_DECIMALS (map dm_payout_share members)))) members))"
  using assms
  by (auto simp: build_payout_distribution_export_def bnd_Inr act_eval Let_def payout_distribution_export_def)

end
