(* ===== verification/PointsCalculator.thy ===== *)
theory PointsCalculator
  imports FloatArith SharedModels
begin

text \<open>
  \<open>contribution_ledger/points_calculator.py\<close>: the points of a contribution, the product of base
  points and multipliers in floats, rounded to two digits. Decimal literals are the floats nearest
  to them.
\<close>

section \<open>Contribution types and platforms\<close>

datatype contribution_event_type =
    IDEA | CONTENT_CREATION | PUBLISH | AMPLIFY | ENGAGE | ADMIN_MOD | COORDINATE | ORGANIZE
  | EXPERT_CONSULT | REFERRAL_CONVERT | WEEKLY_ACTIVITY

datatype platform = YOUTUBE | TELEGRAM | GEM_SPACE | DZEN | TENCHAT | VK | OK_PLATFORM | DEFAULT

fun event_type_value :: "contribution_event_type \<Rightarrow> string" where
  "event_type_value IDEA = ''idea''"
| "event_type_value CONTENT_CREATION = ''content_creation''"
| "event_type_value PUBLISH = ''publish''"
| "event_type_value AMPLIFY = ''amplify''"
| "event_type_value ENGAGE = ''engage''"
| "event_type_value ADMIN_MOD = ''admin_mod''"
| "event_type_value COORDINATE = ''coordinate''"
| "event_type_value ORGANIZE = ''organize''"
| "event_type_value EXPERT_CONSULT = ''expert_consult''"
| "event_type_value REFERRAL_CONVERT = ''referral_convert''"
| "event_type_value WEEKLY_ACTIVITY = ''weekly_activity''"

fun platform_value :: "platform \<Rightarrow> string" where
  "platform_value YOUTUBE = ''youtube''"
| "platform_value TELEGRAM = ''telegram''"
| "platform_value GEM_SPACE = ''gem_space''"
| "platform_value DZEN = ''dzen''"
| "platform_value TENCHAT = ''tenchat''"
| "platform_value VK = ''vk''"
| "platform_value OK_PLATFORM = ''ok''"
| "platform_value DEFAULT = ''default''"

definition all_event_types :: "contribution_event_type list" where
  "all_event_types = [IDEA, CONTENT_CREATION, PUBLISH, AMPLIFY, ENGAGE, ADMIN_MOD, COORDINATE, ORGANIZE,
     EXPERT_CONSULT, REFERRAL_CONVERT, WEEKLY_ACTIVITY]"

definition all_platforms :: "platform list" where
  "all_platforms = [YOUTUBE, TELEGRAM, GEM_SPACE, DZEN, TENCHAT, VK, OK_PLATFORM, DEFAULT]"

text \<open>\<open>_normalize_enum_value\<close> and the lookup of the member by its value.\<close>

definition normalize_enum_value :: "string \<Rightarrow> string" where
  "normalize_enum_value v = py_lower (py_strip v)"

definition parse_event_type :: "string \<Rightarrow> exn + contribution_event_type" where
  "parse_event_type v =
     (case find (\<lambda>e. event_type_value e = normalize_enum_value v) all_event_types of
        None \<Rightarrow> Inl (ValueError ''ContributionEventType'') | Some e \<Rightarrow> Inr e)"

definition parse_platform :: "string \<Rightarrow> exn + platform" where
  "parse_platform v =
     (case find (\<lambda>p. platform_value p = normalize_enum_value v) all_platforms of
        None \<Rightarrow> Inl (ValueError ''Platform'') | Some p \<Rightarrow> Inr p)"

section \<open>Base points and multipliers\<close>

text \<open>The decimal literals of the two tables, in tenths.\<close>

fun base_tenths :: "contribution_event_type \<Rightarrow> int" where
  "base_tenths IDEA = 5"
| "base_tenths CONTENT_CREATION = 120"
| "base_tenths PUBLISH = 50"
| "base_tenths AMPLIFY = 70"
| "base_tenths ENGAGE = 30"
| "base_tenths ADMIN_MOD = 35"
| "base_tenths COORDINATE = 20"
| "base_tenths ORGANIZE = 20"
| "base_tenths EXPERT_CONSULT = 30"
| "base_tenths REFERRAL_CONVERT = 20"
| "base_tenths WEEKLY_ACTIVITY = 10"

fun platform_tenths :: "platform \<Rightarrow> int" where
  "platform_tenths YOUTUBE = 16"
| "platform_tenths TELEGRAM = 15"
| "platform_tenths GEM_SPACE = 14"
| "platform_tenths DZEN = 13"
| "platform_tenths TENCHAT = 13"
| "platform_tenths VK = 12"
| "platform_tenths OK_PLATFORM = 11"
| "platform_tenths DEFAULT = 10"

definition get_base_points :: "contribution_event_type \<Rightarrow> pyfloat" where
  "get_base_points e = fl (of_int (base_tenths e) / 10)"

definition get_platform_multiplier :: "platform option \<Rightarrow> pyfloat" where
  "get_platform_multiplier p =
     fl (of_int (platform_tenths (case p of None \<Rightarrow> DEFAULT | Some q \<Rightarrow> q)) / 10)"

definition reach_tenths :: "contribution_event_type \<Rightarrow> int \<Rightarrow> int" where
  "reach_tenths e reach =
     (if e \<noteq> CONTENT_CREATION then 10 else if 100000 \<le> reach then 15
      else if 50000 \<le> reach then 13 else 10)"

definition calculate_reach_multiplier :: "contribution_event_type \<Rightarrow> int \<Rightarrow> exn + pyfloat" where
  "calculate_reach_multiplier e reach =
     (if reach < 0 then Inl (ValueError ''reach'')
      else Inr (fl (of_int (reach_tenths e reach) / 10)))"

definition calculate_amplification_multiplier :: "contribution_event_type \<Rightarrow> int \<Rightarrow> exn + pyfloat" where
  "calculate_amplification_multiplier e extra_reach =
     (if extra_reach < 0 then Inl (ValueError ''extra_reach'')
      else if e \<noteq> AMPLIFY then Inr (Fin 1)
      else ebind (float_of_int (extra_reach div 50000)) (\<lambda>full_steps.
           Inr (float_add (Fin 1) (float_mul full_steps (fl (5 / 100))))))"

section \<open>The points of a contribution\<close>

record points_output =
  pt_event_type :: contribution_event_type
  pt_platform :: platform
  pt_base_points :: pyfloat
  pt_platform_mult :: pyfloat
  pt_reach_mult :: pyfloat
  pt_amp_mult :: pyfloat
  pt_final_points :: pyfloat

record points_input =
  pi_event_type :: contribution_event_type
  pi_platform :: platform
  pi_reach :: int
  pi_extra_reach :: int

text \<open>\<open>PointsCalculationInput\<close>; a missing platform is \<open>DEFAULT\<close>.\<close>

definition points_calculation_input ::
    "string \<Rightarrow> string option \<Rightarrow> int \<Rightarrow> int \<Rightarrow> exn + points_input" where
  "points_calculation_input event_type platform reach extra_reach =
     (case (parse_event_type event_type,
            case platform of None \<Rightarrow> Inr DEFAULT | Some p \<Rightarrow> parse_platform p) of
        (Inr e, Inr p) \<Rightarrow>
          model ''PointsCalculationInput'' (0 \<le> reach \<and> 0 \<le> extra_reach)
            \<lparr>pi_event_type = e, pi_platform = p, pi_reach = reach, pi_extra_reach = extra_reach\<rparr>
      | _ \<Rightarrow> Inl (ValidationError ''PointsCalculationInput''))"

definition points_of_request :: "points_input \<Rightarrow> exn + points_output" where
  "points_of_request req =
     (let base_points = get_base_points (pi_event_type req);
          platform_mult = get_platform_multiplier (Some (pi_platform req)) in
      ebind (calculate_reach_multiplier (pi_event_type req) (pi_reach req)) (\<lambda>reach_mult.
      ebind (calculate_amplification_multiplier (pi_event_type req) (pi_extra_reach req)) (\<lambda>amp_mult.
      Inr \<lparr>pt_event_type = pi_event_type req, pt_platform = pi_platform req,
           pt_base_points = base_points, pt_platform_mult = platform_mult,
           pt_reach_mult = reach_mult, pt_amp_mult = amp_mult,
           pt_final_points = py_round 2
             (float_mul (float_mul (float_mul base_points platform_mult) reach_mult) amp_mult)\<rparr>)))"

definition calculate_points :: "string \<Rightarrow> string option \<Rightarrow> int \<Rightarrow> int \<Rightarrow> exn + points_output" where
  "calculate_points event_type platform reach extra_reach =
     ebind (points_calculation_input event_type platform reach extra_reach) points_of_request"

section \<open>The rounding errors\<close>

lemma tenths_near:
  assumes "\<bar>of_int t / 10\<bar> \<le> (16 :: rat)"
  shows "near (16 / 2 ^ 52) (fl (of_int t / 10)) (of_int t / 10)"
  using assms by (intro fl_near) auto

lemma base_bounds: "0 < base_tenths e \<and> base_tenths e \<le> 120"
  by (cases e) simp_all

lemma platform_bounds: "10 \<le> platform_tenths p \<and> platform_tenths p \<le> 16"
  by (cases p) simp_all

lemma reach_bounds: "10 \<le> reach_tenths e r \<and> reach_tenths e r \<le> 15"
  by (simp add: reach_tenths_def)

lemma scaled_bound: "0 \<le> t \<Longrightarrow> t \<le> n \<Longrightarrow> \<bar>of_int t / 10\<bar> \<le> (of_int n / 10 :: rat)"
  by (simp add: divide_right_mono)

text \<open>The product of base points, platform and reach multiplier.\<close>

lemma product_near:
  "near (2048 / 2 ^ 52)
     (float_mul (float_mul (get_base_points e) (get_platform_multiplier (Some p))) (fl (of_int (reach_tenths e r) / 10)))
     (of_int (base_tenths e) / 10 * (of_int (platform_tenths p) / 10) * (of_int (reach_tenths e r) / 10))"
proof -
  let ?u = "16 / 2 ^ 52 :: rat"
  let ?b = "of_int (base_tenths e) / 10 :: rat" and ?p = "of_int (platform_tenths p) / 10 :: rat"
    and ?r = "of_int (reach_tenths e r) / 10 :: rat"
  have b: "\<bar>?b\<bar> \<le> 12" using scaled_bound [of "base_tenths e" 120] base_bounds [of e] by simp
  have p: "\<bar>?p\<bar> \<le> 2" using scaled_bound [of "platform_tenths p" 20] platform_bounds [of p] by simp
  have r: "\<bar>?r\<bar> \<le> 2" using scaled_bound [of "reach_tenths e r" 20] reach_bounds [of e r] by simp
  have nb: "near ?u (get_base_points e) ?b" and np: "near ?u (get_platform_multiplier (Some p)) ?p"
    and nr: "near ?u (fl ?r) ?r"
    unfolding get_base_points_def get_platform_multiplier_def option.case
    using b p r by (intro tenths_near; linarith)+
  have "near (?u * (2 + ?u) + 12 * ?u + 32 / 2 ^ 52) (float_mul (get_base_points e) (get_platform_multiplier (Some p))) (?b * ?p)"
    using b p by (intro near_mul [OF nb np]) simp_all
  then have bp: "near (512 / 2 ^ 52) (float_mul (get_base_points e) (get_platform_multiplier (Some p))) (?b * ?p)"
    by (rule near_mono) simp
  have "\<bar>?b * ?p\<bar> \<le> 12 * 2" unfolding abs_mult using b p by (intro mult_mono) auto
  then have bp': "\<bar>?b * ?p\<bar> \<le> 24" by simp
  have "near (512 / 2 ^ 52 * (2 + ?u) + 24 * ?u + 64 / 2 ^ 52)
      (float_mul (float_mul (get_base_points e) (get_platform_multiplier (Some p))) (fl ?r)) (?b * ?p * ?r)"
    using bp' r by (intro near_mul [OF bp nr]) simp_all
  then show ?thesis by (rule near_mono) simp
qed

text \<open>Without amplification the points are the decimal product, to the last digit.\<close>

lemma points_exact:
  assumes "points_of_request req = Inr out" and "pi_event_type req \<noteq> AMPLIFY"
  shows "pt_final_points out =
    fl (of_int (base_tenths (pi_event_type req) * platform_tenths (pi_platform req) *
                reach_tenths (pi_event_type req) (pi_reach req)) / 1000)"
proof -
  let ?b = "base_tenths (pi_event_type req)" and ?p = "platform_tenths (pi_platform req)"
    and ?r = "reach_tenths (pi_event_type req) (pi_reach req)"
  have "\<exists>k. ?b * ?p * ?r = 10 * k"
  proof (cases "?r = 10")
    case True
    then show ?thesis by (intro exI [where x = "?b * ?p"]) simp
  next
    case False
    then have "?b = 120" by (auto simp: reach_tenths_def split: if_splits)
    then show ?thesis by (intro exI [where x = "12 * ?p * ?r"]) simp
  qed
  then obtain k where k: "?b * ?p * ?r = 10 * k" ..
  have exact: "of_int ?b / 10 * (of_int ?p / 10) * (of_int ?r / 10) = (of_int k / 10 ^ 2 :: rat)"
  proof -
    have "of_int ?b / 10 * (of_int ?p / 10) * (of_int ?r / 10) = (of_int (?b * ?p * ?r) / 1000 :: rat)" by simp
    then show ?thesis unfolding k by simp
  qed
  have b: "\<bar>of_int k / 10 ^ 2\<bar> \<le> (48 :: rat)"
  proof -
    have "?b * ?p * ?r \<le> 120 * 16 * 15" using base_bounds [of "pi_event_type req"] platform_bounds [of "pi_platform req"]
      reach_bounds [of "pi_event_type req" "pi_reach req"] by (intro mult_mono) auto
    moreover have "0 \<le> ?b * ?p * ?r" using base_bounds [of "pi_event_type req"] platform_bounds [of "pi_platform req"]
      reach_bounds [of "pi_event_type req" "pi_reach req"] by (intro mult_nonneg_nonneg) auto
    ultimately show ?thesis using k by simp
  qed
  note np = product_near [of "pi_event_type req" "pi_platform req" "pi_reach req", unfolded exact]
  have "near 0 (Fin 1) 1" by simp
  from near_mul [OF np this b, of 1 64]
  have "near (2112 / 2 ^ 52) (float_mul (float_mul (float_mul (get_base_points (pi_event_type req))
      (get_platform_multiplier (Some (pi_platform req)))) (fl (of_int ?r / 10))) (Fin 1)) (of_int k / 10 ^ 2)"
    by simp
  from py_round_near [OF this] assms have "pt_final_points out = fl (of_int k / 10 ^ 2)"
    by (auto simp: points_of_request_def calculate_reach_multiplier_def calculate_amplification_multiplier_def
        Let_def split: if_splits)
  moreover have "of_int (?b * ?p * ?r) / 1000 = (of_int k / 10 ^ 2 :: rat)" unfolding k by simp
  ultimately show ?thesis by (simp only:)
qed

end
