(* ===== verification/ContributionEvents.thy ===== *)
theory ContributionEvents
  imports WeightEngine PointsCalculator Events
begin

text \<open>
  \<open>contribution_ledger/contribution_events.py\<close>: a contribution is written to the audit log and
  announced by two events, the second of which refers to the first and to its audit hash.
\<close>

record contribution_input =
  ci_contribution_id :: string
  ci_tenant_id :: string
  ci_member_id :: string
  ci_contribution_type :: contribution_event_type
  ci_points_awarded :: pyfloat
  ci_metadata :: "(string \<times> json) list"
  ci_occurred_at :: int
  ci_correlation_id :: string
  ci_event_id :: "string option"
  ci_audit_event_id :: "string option"
  ci_causation_id :: "string option"

record contribution_result =
  cx_contribution_id :: string
  cx_tenant_id :: string
  cx_member_id_hash :: string
  cx_contribution_type :: string
  cx_points_awarded :: pyfloat
  cx_audit_hash :: string
  cx_contribution_event :: envelope
  cx_audit_event :: envelope

record contribution_call =
  cl_contribution_id :: string
  cl_tenant_id :: string
  cl_member_id :: string
  cl_contribution_type :: string
  cl_points_awarded :: pyfloat
  cl_metadata :: "(string \<times> json) list"
  cl_occurred_at :: time_arg
  cl_event_id :: "string option"
  cl_audit_event_id :: "string option"
  cl_correlation_id :: string
  cl_causation_id :: "string option"

definition contribution_event_input :: "runtime \<Rightarrow> contribution_call \<Rightarrow> int \<Rightarrow> exn + contribution_input" where
  "contribution_event_input rt c occurred_at =
     (case parse_event_type (cl_contribution_type c) of
        Inl _ \<Rightarrow> Inl (ValidationError ''ContributionEventInput'')
      | Inr ty \<Rightarrow>
          model ''ContributionEventInput''
            (token_ok (pyd_strip (cl_contribution_id c)) \<and> tenant_id_ok (pyd_strip (cl_tenant_id c)) \<and>
             token_ok (pyd_strip (cl_member_id c)) \<and> non_negative_finite (cl_points_awarded c) \<and>
             token_ok (pyd_strip (cl_correlation_id c)) \<and>
             optional_ok token_ok (map_option pyd_strip (cl_event_id c)) \<and>
             optional_ok token_ok (map_option pyd_strip (cl_audit_event_id c)) \<and>
             optional_ok token_ok (map_option pyd_strip (cl_causation_id c)))
            \<lparr>ci_contribution_id = pyd_strip (cl_contribution_id c), ci_tenant_id = pyd_strip (cl_tenant_id c),
             ci_member_id = pyd_strip (cl_member_id c), ci_contribution_type = ty,
             ci_points_awarded = cl_points_awarded c,
             ci_metadata = obj_members (rt_pyd_json rt (JObj (cl_metadata c))),
             ci_occurred_at = occurred_at, ci_correlation_id = pyd_strip (cl_correlation_id c),
             ci_event_id = map_option pyd_strip (cl_event_id c),
             ci_audit_event_id = map_option pyd_strip (cl_audit_event_id c),
             ci_causation_id = map_option pyd_strip (cl_causation_id c)\<rparr>)"

definition member_id_hash :: "runtime \<Rightarrow> string \<Rightarrow> string \<Rightarrow> string" where
  "member_id_hash rt tenant_id member_id = scoped_hash rt tenant_id member_id"

definition build_contribution_recorded_event ::
    "contribution_input \<Rightarrow> string \<Rightarrow> string \<Rightarrow> string \<Rightarrow> exn + envelope" where
  "build_contribution_recorded_event req event_id member_hash hash =
     event_envelope event_id ''contribution.recorded'' ''1.0'' (ci_tenant_id req) ''contribution-ledger''
       (ci_correlation_id req) (Aware (ci_occurred_at req) 0)
       [(''contribution_id'', JStr (ci_contribution_id req)), (''member_id_hash'', JStr member_hash),
        (''event_type'', JStr (event_type_value (ci_contribution_type req))),
        (''points_awarded'', JFloat (ci_points_awarded req)), (''audit_hash'', JStr hash)]
       (ci_causation_id req)"

definition build_audit_requested_event ::
    "contribution_input \<Rightarrow> string \<Rightarrow> string \<Rightarrow> string \<Rightarrow> string \<Rightarrow> exn + envelope" where
  "build_audit_requested_event req event_id audited_event_id member_hash hash =
     event_envelope event_id ''audit.record.requested'' ''1.0'' (ci_tenant_id req) ''contribution-ledger''
       (ci_correlation_id req) (Aware (ci_occurred_at req) 0)
       [(''event_type'', JStr ''contribution.recorded''), (''event_id'', JStr audited_event_id),
        (''audit_hash'', JStr hash),
        (''metadata'', JObj [(''contribution_id'', JStr (ci_contribution_id req)),
                             (''member_id_hash'', JStr member_hash)])]
       (Some audited_event_id)"

definition record_contribution_event ::
    "runtime \<Rightarrow> contribution_call \<Rightarrow> ('z svc_scheme, contribution_result) act" where
  "record_contribution_event rt c =
     bnd (lift (normalize_datetime rt (cl_occurred_at c))) (\<lambda>occurred_at.
     bnd (lift (contribution_event_input rt c occurred_at)) (\<lambda>req.
     bnd (audit_log rt ''contribution.recorded'' (ci_tenant_id req) (Some (NFloat (ci_points_awarded req)))
            (Some (ci_metadata req)) (AtTime (Aware (ci_occurred_at req) 0))
            (Some (ci_correlation_id req)) None (Some ''contribution-ledger'')) (\<lambda>rec.
     let member_hash = member_id_hash rt (ci_tenant_id req) (ci_member_id req) in
     bnd (id_or_new rt (ci_event_id req) ''evt-contribution'') (\<lambda>event_id.
     bnd (lift (build_contribution_recorded_event req event_id member_hash (ar_audit_hash rec))) (\<lambda>contribution_event.
     bnd (id_or_new rt (ci_audit_event_id req) ''evt-audit'') (\<lambda>audit_event_id.
     bnd (lift (build_audit_requested_event req audit_event_id (ev_event_id contribution_event)
            member_hash (ar_audit_hash rec))) (\<lambda>audit_event.
     bnd (publish contribution_event) (\<lambda>_.
     bnd (publish audit_event) (\<lambda>_.
     ret \<lparr>cx_contribution_id = ci_contribution_id req, cx_tenant_id = ci_tenant_id req,
          cx_member_id_hash = member_hash,
          cx_contribution_type = event_type_value (ci_contribution_type req),
          cx_points_awarded = ci_points_awarded req, cx_audit_hash = ar_audit_hash rec,
          cx_contribution_event = contribution_event, cx_audit_event = audit_event\<rparr>)))))))))"

section \<open>Both events or none\<close>

lemma normalize_token_label: "normalize_token v l = Inr n \<Longrightarrow> normalize_token v l' = Inr n"
  by (simp add: normalize_token_def Let_def split: if_splits)

lemma event_envelope_causation:
  assumes "event_envelope eid ty sv ten src cid occ payload (Some c) = Inr e" and "normalize_token c l = Inr c"
  shows "ev_causation_id e = Some c"
  using assms(1) normalize_token_label [OF assms(2), of "''causation_id''"]
  by (auto simp: event_envelope_def)

text \<open>The two events of a contribution: of its tenant, under their own types, with the member's hash, the
  kind and the points of this contribution and the hash of its audit record; the second names the first as
  the event it audits and as its cause.\<close>

definition recorded_payload :: "string \<Rightarrow> string \<Rightarrow> string \<Rightarrow> pyfloat \<Rightarrow> string \<Rightarrow> (string \<times> json) list" where
  "recorded_payload contribution_id member_hash event_type points hash =
     [(''contribution_id'', JStr contribution_id), (''member_id_hash'', JStr member_hash),
      (''event_type'', JStr event_type), (''points_awarded'', JFloat points), (''audit_hash'', JStr hash)]"

definition requested_payload :: "string \<Rightarrow> string \<Rightarrow> string \<Rightarrow> string \<Rightarrow> (string \<times> json) list" where
  "requested_payload contribution_id member_hash event_id hash =
     [(''event_type'', JStr ''contribution.recorded''), (''event_id'', JStr event_id), (''audit_hash'', JStr hash),
      (''metadata'', JObj [(''contribution_id'', JStr contribution_id), (''member_id_hash'', JStr member_hash)])]"

definition events_of_contribution ::
    "string \<Rightarrow> string \<Rightarrow> string \<Rightarrow> string \<Rightarrow> pyfloat \<Rightarrow> string \<Rightarrow> envelope \<Rightarrow> envelope \<Rightarrow> bool" where
  "events_of_contribution tenant contribution_id member_hash event_type points hash e1 e2 \<longleftrightarrow>
     ev_type e1 = ''contribution.recorded'' \<and> ev_tenant_id e1 = tenant \<and>
     ev_payload e1 = recorded_payload contribution_id member_hash event_type points hash \<and>
     ev_type e2 = ''audit.record.requested'' \<and> ev_tenant_id e2 = tenant \<and>
     ev_payload e2 = requested_payload contribution_id member_hash (ev_event_id e1) hash \<and>
     ev_causation_id e2 = Some (ev_event_id e1)"

text \<open>The events of what a call records.\<close>

definition events_of_call :: "runtime \<Rightarrow> contribution_call \<Rightarrow> string \<Rightarrow> envelope \<Rightarrow> envelope \<Rightarrow> bool" where
  "events_of_call rt c hash =
     events_of_contribution (pyd_strip (cl_tenant_id c)) (pyd_strip (cl_contribution_id c))
       (member_id_hash rt (pyd_strip (cl_tenant_id c)) (pyd_strip (cl_member_id c)))
       (normalize_enum_value (cl_contribution_type c)) (cl_points_awarded c) hash"

lemma contribution_event_input_Inr:
  assumes "contribution_event_input rt c now = Inr req"
  shows "ci_contribution_id req = pyd_strip (cl_contribution_id c)" "ci_tenant_id req = pyd_strip (cl_tenant_id c)"
    "py_strip (pyd_strip (cl_tenant_id c)) = pyd_strip (cl_tenant_id c)" "ci_member_id req = pyd_strip (cl_member_id c)"
    "event_type_value (ci_contribution_type req) = normalize_enum_value (cl_contribution_type c)"
    "ci_points_awarded req = cl_points_awarded c"
  using assms
  by (auto simp: contribution_event_input_def parse_event_type_def find_Some_iff split: sum.splits option.splits)

lemma both_events_built:
  assumes "contribution_event_input rt c now = Inr req"
    and "build_contribution_recorded_event req eid (member_id_hash rt (ci_tenant_id req) (ci_member_id req)) h = Inr e1"
    and "build_audit_requested_event req aid (ev_event_id e1)
           (member_id_hash rt (ci_tenant_id req) (ci_member_id req)) h = Inr e2"
  shows "envelope_ok e1 \<and> envelope_ok e2 \<and> events_of_call rt c h e1 e2"
proof -
  note input = contribution_event_input_Inr [OF assms(1)]
  note e1 = event_envelope_Inr [OF assms(2) [unfolded build_contribution_recorded_event_def]]
  note e2 = event_envelope_Inr [OF assms(3) [unfolded build_audit_requested_event_def]]
  have "normalize_token (ev_event_id e1) ''event_id'' = Inr (ev_event_id e1)"
    using e1 by (simp add: envelope_ok_def)
  from event_envelope_causation [OF assms(3) [unfolded build_audit_requested_event_def] this]
  have "ev_causation_id e2 = Some (ev_event_id e1)" .
  moreover have "py_strip ''contribution.recorded'' = ''contribution.recorded''"
      "py_strip ''audit.record.requested'' = ''audit.record.requested''"
    by (simp_all add: text_defs)
  ultimately show ?thesis
    using e1 e2 input
    by (simp add: events_of_call_def events_of_contribution_def recorded_payload_def requested_payload_def)
qed

lemma contribution_input_points:
  "contribution_event_input rt c now = Inr req \<Longrightarrow> ci_points_awarded req = cl_points_awarded c"
  by (rule contribution_event_input_Inr)

lemma record_contribution_event_rule:
  assumes fails: "\<And>e t. bus t = bus s \<Longrightarrow> svc_rest t = svc_rest s \<Longrightarrow> Q (Inl e) t"
    and succeeds: "\<And>x t m1 m2 rec. svc_rest t = svc_rest s \<Longrightarrow> bus t = bus s @ [m1, m2] \<Longrightarrow> pub_envelope m1 = cx_contribution_event x \<Longrightarrow>
      pub_envelope m2 = cx_audit_event x \<Longrightarrow> audit_sink t = map_option (\<lambda>rs. rs @ [rec]) (audit_sink s) \<Longrightarrow>
      ar_audit_hash rec = cx_audit_hash x \<Longrightarrow>
      events_of_call rt c (cx_audit_hash x) (cx_contribution_event x) (cx_audit_event x) \<Longrightarrow>
      cx_points_awarded x = cl_points_awarded c \<Longrightarrow> Q (Inr x) t"
  shows "outcome (record_contribution_event rt c) Q s"
proof -
  have fin: "Q (Inr x) (s\<lparr>audit_sink := map_option (\<lambda>rs. rs @ [rec]) (audit_sink s), uuids := n, bus := bus s @ [m1, m2]\<rparr>)"
    if "pub_envelope m1 = cx_contribution_event x" "pub_envelope m2 = cx_audit_event x"
      "ar_audit_hash rec = cx_audit_hash x" "cx_points_awarded x = cl_points_awarded c"
      "events_of_call rt c (cx_audit_hash x) (cx_contribution_event x) (cx_audit_event x)"
    for x rec n m1 m2
    using that by (intro succeeds [where rec = rec]) (simp_all add: svc_rest_def)
  show ?thesis
    unfolding record_contribution_event_def
    by (auto simp: act_simps Let_def sink_append_def svc_rest_def split: sum.split
        intro!: audit_log_rule id_or_new_state fails)
      (frule (2) both_events_built, auto simp: act_simps publish_ok contribution_input_points intro!: fin)
qed

end
