(* ===== verification/LedgerProperties.thy ===== *)
theory LedgerProperties
  imports WeightShares PayoutExporter ContributionEvents Samples
begin

text \<open>
  The properties of the contribution ledger: points, weights and shares, the exported distribution,
  and the events of a contribution.
\<close>

section \<open>Weights and shares\<close>

lemma calculate_weights_request:
  assumes "calculate_weights avg members cap = Inr w"
  obtains req c where "weights_of_request req = Inr w" "wi_cap_kv req = Fin c" "0 \<le> c" "c \<le> 1"
    "cap = Fin c" "length (wi_members req) = length members"
proof -
  from assms obtain ms req where ms: "member_inputs members = Inr ms"
    and req: "weight_calculation_input avg ms cap = Inr req" "weights_of_request req = Inr w"
    by (auto simp: calculate_weights_def)
  have "length ms = length members" using ms
    by (induction members arbitrary: ms) (auto split: prod.splits)
  moreover obtain c where "cap = Fin c" "0 \<le> c" "c \<le> 1" "wi_cap_kv req = Fin c" "wi_members req = ms"
    using req(1) by (cases cap) (auto simp: weight_calculation_input_def)
  ultimately show thesis using req(2) that by auto
qed

text \<open>C24. For up to 5000 members of whom at least one has a positive weight, the payout shares of a
  weight calculation add up to exactly one: the sum that the code forms of them, rounding errors of
  floats included, is the float 1.0.\<close>

theorem shares_add_up_to_one:
  assumes "calculate_weights avg members cap = Inr w" and "length members \<le> 5000"
    and "\<exists>m\<in>set (wo_members w). mw_kv_capped m \<noteq> Fin 0"
  shows "total_payout_share w = NFloat (Fin 1)"
  using assms(1)
proof (rule calculate_weights_request)
  fix req c assume "weights_of_request req = Inr w" "wi_cap_kv req = Fin c" "0 \<le> c" "c \<le> 1"
    "length (wi_members req) = length members"
  with assms(2,3) show ?thesis using weights_sum_one by simp
qed

lemma fl_zero [simp]: "fl 0 = Fin 0"
  by (simp add: fl_def)

lemma py_round_unit [simp]: "py_round n (Fin 1) = Fin 1" "py_round n (Fin 0) = Fin 0"
  by (simp_all add: py_round_units del: py_round.simps)

lemma sample_weights:
  "calculate_weights (Fin 1) [(''m'', Fin 1), (''n'', Fin 0)] (Fin 1) =
     Inr \<lparr>wo_avg_points_council = Fin 1, wo_cap_kv = Fin 1, wo_total_kv_capped = Fin 1,
          wo_members =
            [\<lparr>mw_member_id = ''m'', mw_total_points = Fin 1, mw_avg_points_council = Fin 1,
              mw_kv_raw = Fin 1, mw_kv_capped = Fin 1, mw_payout_share = Fin 1\<rparr>,
             \<lparr>mw_member_id = ''n'', mw_total_points = Fin 0, mw_avg_points_council = Fin 1,
              mw_kv_raw = Fin 0, mw_kv_capped = Fin 0, mw_payout_share = Fin 0\<rparr>]\<rparr>"
proof -
  have kv: "calculate_member_kv (Fin 1) (Fin 1) (Fin 1) = Inr (Fin 1, Fin 1)"
    "calculate_member_kv (Fin 0) (Fin 1) (Fin 1) = Inr (Fin 0, Fin 0)"
    by (simp_all add: calculate_member_kv_def validate_non_negative_finite_def Let_def float_lt_def
        float_min_def del: py_round.simps)
  have sum: "py_sum [Fin 1, Fin 0] = Fin 1"
    by (simp add: py_sum_def sum_step_def Let_def float_sub_def float_is_finite_def)
  have "positive_indexes [Fin 1, Fin 0] = [0]"
    by (simp add: positive_indexes_def upt_rec)
  then have shares: "calculate_payout_shares [Fin 1, Fin 0] = Inr [Fin 1, Fin 0]"
    by (simp add: calculate_payout_shares_def validate_non_negative_finite_def Let_def sum raw_share_def
        correct_shares_def share_residual_def float_sub_def del: py_round.simps)
  have ok: "token_ok ''m'' \<and> pyd_strip ''m'' = ''m''" "token_ok ''n'' \<and> pyd_strip ''n'' = ''n''"
    by (simp_all add: token_ok_def text_defs)
  show ?thesis
    by (simp add: calculate_weights_def member_points_input_def weight_calculation_input_def ok
        weights_of_request_def kv shares member_weight_output_def Let_def sum del: py_round.simps)
qed

theorem shares_add_up_to_one_witness:
  "\<exists>w. calculate_weights (Fin 1) [(''m'', Fin 1), (''n'', Fin 0)] (Fin 1) = Inr w \<and>
     total_payout_share w = NFloat (Fin 1)"
  using shares_add_up_to_one [OF sample_weights] sample_weights by simp

text \<open>No member's capped weight is negative or exceeds the cap of the calculation, rounded to the
  five digits of a weight.\<close>

theorem weights_stay_below_the_cap:
  assumes "calculate_weights avg members cap = Inr w" and "m \<in> set (wo_members w)"
  shows "\<exists>v. mw_kv_capped m = Fin v \<and> 0 \<le> v \<and> float_le (Fin v) (py_round 5 cap)"
  using assms(1)
proof (rule calculate_weights_request)
  fix req c assume "weights_of_request req = Inr w" "wi_cap_kv req = Fin c" "0 \<le> c" "c \<le> 1" "cap = Fin c"
  with weights_below_cap assms(2) show ?thesis by blast
qed

theorem weights_stay_below_the_cap_witness:
  "\<exists>w m. calculate_weights (Fin 1) [(''m'', Fin 1), (''n'', Fin 0)] (Fin 1) = Inr w \<and> m \<in> set (wo_members w) \<and>
     (\<exists>v. mw_kv_capped m = Fin v \<and> 0 \<le> v \<and> float_le (Fin v) (py_round 5 (Fin 1)))"
  by (rule exI, rule exI, rule conjI [OF sample_weights], rule conjI,
      simp (no_asm) only: weight_output.simps, rule list.set_intros(1),
      rule weights_stay_below_the_cap [OF sample_weights],
      simp (no_asm) only: weight_output.simps, rule list.set_intros(1))

section \<open>Points\<close>

text \<open>For every contribution but an amplification the points are the product of the decimal base
  points and multipliers, without any error: the float that the code returns is the one nearest to
  the exact decimal product.\<close>

theorem points_are_the_decimal_product:
  assumes "calculate_points event_type platform reach extra_reach = Inr out"
    and "pt_event_type out \<noteq> AMPLIFY"
  shows "pt_final_points out =
    fl (of_int (base_tenths (pt_event_type out) * platform_tenths (pt_platform out) *
                reach_tenths (pt_event_type out) reach) / 1000)"
proof -
  from assms(1) obtain req where req: "points_calculation_input event_type platform reach extra_reach = Inr req"
    and out: "points_of_request req = Inr out" by (auto simp: calculate_points_def)
  have "pi_reach req = reach" using req
    by (auto simp: points_calculation_input_def split: sum.splits)
  moreover have "pt_event_type out = pi_event_type req" "pt_platform out = pi_platform req"
    using out by (auto simp: points_of_request_def Let_def)
  ultimately show ?thesis using points_exact [OF out] assms(2) by simp
qed

theorem points_are_the_decimal_product_witness:
  "\<exists>out. calculate_points '' Content_Creation '' (Some ''YouTube'') 60000 0 = Inr out \<and>
     pt_final_points out = fl (24960 / 1000)"
proof -
  have e: "parse_event_type '' Content_Creation '' = Inr CONTENT_CREATION"
    and p: "parse_platform ''YouTube'' = Inr YOUTUBE" by code_simp+
  obtain out where out: "calculate_points '' Content_Creation '' (Some ''YouTube'') 60000 0 = Inr out"
      "pt_event_type out = CONTENT_CREATION" "pt_platform out = YOUTUBE"
    by (simp add: calculate_points_def points_calculation_input_def e p points_of_request_def
        calculate_reach_multiplier_def calculate_amplification_multiplier_def Let_def del: py_round.simps)
  from points_are_the_decimal_product [OF out(1)] out show ?thesis by (simp add: reach_tenths_def)
qed

section \<open>The exported distribution\<close>

lemma length_join: "length (join_with sep ws) = sum_list (map length ws) + (length ws - 1) * length sep"
  by (induction sep ws rule: join_with.induct) auto

lemma sum_list_sort_key: "sum_list (map f (sort_key g xs)) = sum_list (map (f :: 'a \<Rightarrow> nat) xs)"
  by (metis mset_map mset_sort sum_mset_sum_list)

lemma length_object_text:
  "length (json_dumps r (JObj kvs)) =
     2 + sum_list (map (\<lambda>kv. length (json_member (fst kv, json_dumps r (snd kv)))) kvs) + (length kvs - 1) * 2"
  by (simp add: length_join sum_list_sort_key comp_def map_prod_def split_beta)

text \<open>The hash of an exported distribution with members is the digest of its canonical JSON text, so
  a receiver can check it. For a distribution without members it is the digest of another text, since
  the totals are hashed as the integer 0 and stored as the float 0.0.\<close>

theorem export_hash_is_verifiable:
  assumes "build_payout_distribution_export rt tenant period weights did author created s = (Inr d, t)"
    and "pyd_strip tenant = tenant" "pyd_strip period = period" and "rt_float_repr rt 0 = ''0.0''"
  shows "if weights = []
    then \<exists>text. de_distribution_hash d = pyd_strip (rt_sha256 rt text) \<and> text \<noteq> canonical_distribution_json rt d
    else de_distribution_hash d = pyd_strip (rt_sha256 rt (canonical_distribution_json rt d))"
  using assms(1)
proof (rule build_export_Inr)
  fix members
  assume members: "distribution_members_from_weights weights = Inr members"
    and d: "de_members d = members" "de_tenant_id d = pyd_strip tenant" "de_period d = pyd_strip period"
      "de_total_kv_capped d = number_float (rounded_sum KV_CAPPED_DECIMALS (map dm_kv_capped members))"
      "de_total_payout_share d = number_float (rounded_sum PAYOUT_SHARE_DECIMALS (map dm_payout_share members))"
    and hash: "de_distribution_hash d = pyd_strip (hash_json_payload rt
           (distribution_json tenant period (number_json (Some (rounded_sum KV_CAPPED_DECIMALS (map dm_kv_capped members))))
             (number_json (Some (rounded_sum PAYOUT_SHARE_DECIMALS (map dm_payout_share members)))) members))"
  have len: "length members = length weights"
    using members by (auto simp: distribution_members_from_weights_def dest: convert_members_length)
  show ?thesis
  proof (cases "weights = []")
    case False
    then have "members \<noteq> []" using len by auto
    then show ?thesis
      using d hash assms(2,3) False
      by (simp add: canonical_distribution_json_def export_hash_payload_def hash_json_payload_def
          sum_nonempty number_json_def del: py_round.simps json_dumps.simps)
  next
    case True
    then have m: "members = []" using len by simp
    let ?text = "json_dumps (rt_float_repr rt) (distribution_json tenant period (JInt 0) (JInt 0) [])"
    have zero: "int_text 0 = ''0''" by code_simp
    have "length ?text \<noteq> length (canonical_distribution_json rt d)"
      using d assms(2-4) m zero
      by (simp add: canonical_distribution_json_def export_hash_payload_def distribution_json_def
          rounded_sum_def length_object_text json_member_def del: json_dumps.simps(7))
    then have "?text \<noteq> canonical_distribution_json rt d" by auto
    moreover have "de_distribution_hash d = pyd_strip (rt_sha256 rt ?text)"
      using hash m by (simp add: rounded_sum_def number_json_def hash_json_payload_def del: json_dumps.simps)
    ultimately show ?thesis using True by auto
  qed
qed

definition exporting_runtime :: runtime where
  "exporting_runtime = sample_runtime\<lparr>rt_float_repr := (\<lambda>_. ''0.0'')\<rparr>"

definition empty_service :: svc where
  "empty_service = \<lparr>audit_sink = Some [], uuids = 0, bus = []\<rparr>"

theorem export_hash_is_verifiable_witness:
  "\<exists>d t. build_payout_distribution_export exporting_runtime ''t'' ''2026-01'' [] (Some ''d'') ''u'' NoTime
       empty_service = (Inr d, t) \<and>
     (\<exists>text. de_distribution_hash d = pyd_strip (rt_sha256 exporting_runtime text) \<and>
       text \<noteq> canonical_distribution_json exporting_runtime d)"
proof -
  have hash: "rt_sha256 exporting_runtime x = sample_digest" for x
    by (simp add: exporting_runtime_def sample_runtime_def)
  have ok: "audit_hash_ok (pyd_strip sample_digest)" by code_simp
  have strip: "pyd_strip ''t'' = ''t''" "pyd_strip ''2026-01'' = ''2026-01''" by code_simp+
  have "token_ok (pyd_strip ''d'') \<and> tenant_id_ok (pyd_strip ''t'') \<and> period_ok (pyd_strip ''2026-01'') \<and>
      token_ok (pyd_strip ''u'')" by code_simp
  then have "\<exists>d t. build_payout_distribution_export exporting_runtime ''t'' ''2026-01'' [] (Some ''d'') ''u'' NoTime
       empty_service = (Inr d, t)"
    by (simp add: build_payout_distribution_export_def distribution_members_from_weights_def bnd_def act_eval
        id_or_new_def normalize_datetime_def Let_def payout_distribution_export_def rounded_sum_def
        hash_json_payload_def hash ok model_def del: json_dumps.simps)
  then obtain d t where run: "build_payout_distribution_export exporting_runtime ''t'' ''2026-01'' [] (Some ''d'')
       ''u'' NoTime empty_service = (Inr d, t)" by blast
  from export_hash_is_verifiable [OF run strip] run show ?thesis by (simp add: exporting_runtime_def)
qed

section \<open>The events of a contribution\<close>

text \<open>Recording a contribution either raises and publishes nothing, or publishes exactly two events
  in order, the contribution and the audit request, which are those of this call: of its tenant, member,
  kind and points, under the hash of the record it has just appended to the audit log; the second names
  the first as its cause.\<close>

theorem contribution_publishes_both_events:
  "case record_contribution_event rt c s of
     (Inl e, t) \<Rightarrow> bus t = bus s
   | (Inr x, t) \<Rightarrow> \<exists>m1 m2 rec. bus t = bus s @ [m1, m2] \<and>
       pub_envelope m1 = cx_contribution_event x \<and> pub_envelope m2 = cx_audit_event x \<and>
       audit_sink t = map_option (\<lambda>rs. rs @ [rec]) (audit_sink s) \<and> ar_audit_hash rec = cx_audit_hash x \<and>
       cx_points_awarded x = cl_points_awarded c \<and>
       events_of_call rt c (cx_audit_hash x) (cx_contribution_event x) (cx_audit_event x)"
proof -
  have "outcome (record_contribution_event rt c) (\<lambda>r t. case r of Inl e \<Rightarrow> bus t = bus s
     | Inr x \<Rightarrow> \<exists>m1 m2 rec. bus t = bus s @ [m1, m2] \<and>
         pub_envelope m1 = cx_contribution_event x \<and> pub_envelope m2 = cx_audit_event x \<and>
         audit_sink t = map_option (\<lambda>rs. rs @ [rec]) (audit_sink s) \<and> ar_audit_hash rec = cx_audit_hash x \<and>
         cx_points_awarded x = cl_points_awarded c \<and>
         events_of_call rt c (cx_audit_hash x) (cx_contribution_event x) (cx_audit_event x)) s"
    by (rule record_contribution_event_rule) auto
  then show ?thesis by (simp add: outcome_def split: prod.splits sum.splits)
qed

end
