(* ===== verification/S2sAuth.thy ===== *)
theory S2sAuth
  imports Jwt Rbac FloatArith
begin

text \<open>
  \<open>libs/shared/s2s_auth.py\<close>: requests between services, authenticated by a shared secret, by an
  RSA key or by a Kubernetes service account, and the cache of used nonces. Parameters: HMAC-SHA256,
  the JWT library, the file system, the environment, the Kubernetes TokenReview service and the
  random nonces. A time argument is the reading \<open>float(self._clock())\<close> of the operation.
\<close>

section \<open>Configuration\<close>

datatype auth_method = K8S_SA | RSA_KEY | SHARED_SECRET

fun auth_method_value :: "auth_method \<Rightarrow> string" where
  "auth_method_value K8S_SA = ''kubernetes_sa''"
| "auth_method_value RSA_KEY = ''rsa_key''"
| "auth_method_value SHARED_SECRET = ''shared_secret''"

record s2s_config =
  s2_shared_secret :: "jwt_secret option"
  s2_replay_window_seconds :: int
  s2_method :: "auth_method option"
  s2_service_name :: string
  s2_k8s_enabled :: bool
  s2_k8s_token_path :: string
  s2_k8s_audience :: string
  s2_k8s_issuer :: "string option"
  s2_k8s_tokenreview_url :: "string option"
  s2_k8s_tokenreview_token_path :: "string option"
  s2_k8s_tokenreview_timeout :: pyfloat
  s2_k8s_ca_path :: "string option"
  s2_k8s_oidc_public_key_path :: "string option"
  s2_rsa_private_key_path :: "string option"
  s2_rsa_public_key_path :: "string option"
  s2_rsa_issuer :: string
  s2_rsa_audience :: string
  s2_token_ttl_seconds :: int

definition ascii_space :: "char \<Rightarrow> bool" where
  "ascii_space c \<longleftrightarrow> (let n = byte c in 9 \<le> n \<and> n \<le> 13 \<or> n = 32)"

fun normalize_optional_secret :: "jwt_secret option \<Rightarrow> jwt_secret option" where
  "normalize_optional_secret None = None"
| "normalize_optional_secret (Some (TextSecret v)) =
     (if py_strip v = [] then None else Some (TextSecret (py_strip v)))"
| "normalize_optional_secret (Some (BytesSecret b)) =
     (if strip_with ascii_space b = [] then None else Some (BytesSecret b))"

definition auth_method_aliases :: "(string \<times> auth_method) list" where
  "auth_method_aliases =
     [(''k8s'', K8S_SA), (''k8s_sa'', K8S_SA), (''kubernetes'', K8S_SA), (''kubernetes_sa'', K8S_SA),
      (''rsa'', RSA_KEY), (''rsa_key'', RSA_KEY),
      (''shared'', SHARED_SECRET), (''secret'', SHARED_SECRET), (''shared_secret'', SHARED_SECRET)]"

definition normalize_optional_auth_method :: "string option \<Rightarrow> exn + auth_method option" where
  "normalize_optional_auth_method v =
     (case v of
        None \<Rightarrow> Inr None
      | Some s \<Rightarrow>
          let n = map (\<lambda>c. if c = CHR ''-'' then CHR ''_'' else c) (py_lower (py_strip s)) in
          if n = [] then Inr None
          else case map_of auth_method_aliases n of
                 None \<Rightarrow> Inl (ValueError ''S2S auth method'')
               | Some m \<Rightarrow> Inr (Some m))"

definition positive_int :: "int \<Rightarrow> string \<Rightarrow> exn + int" where
  "positive_int v field_name = (if v \<le> 0 then Inl (ValueError field_name) else Inr v)"

definition positive_float :: "pyfloat \<Rightarrow> string \<Rightarrow> exn + pyfloat" where
  "positive_float v field_name = (if float_le v (Fin 0) then Inl (ValueError field_name) else Inr v)"

definition normalize_config_text :: "string \<Rightarrow> string \<Rightarrow> exn + string" where
  "normalize_config_text v field_name =
     (if py_strip v = [] then Inl (ValueError field_name) else Inr (py_strip v))"

text \<open>Optional texts and optional paths: a blank one is \<open>None\<close>.\<close>

definition normalize_optional_config_text :: "string option \<Rightarrow> string option" where
  "normalize_optional_config_text v =
     (case v of None \<Rightarrow> None | Some s \<Rightarrow> if py_strip s = [] then None else Some (py_strip s))"

definition normalize_optional_path :: "string option \<Rightarrow> string option" where
  "normalize_optional_path v =
     (case v of None \<Rightarrow> None | Some s \<Rightarrow> if py_strip s = [] then None else Some (py_strip s))"

definition normalize_required_path :: "string \<Rightarrow> string \<Rightarrow> exn + string" where
  "normalize_required_path v field_name =
     (case normalize_optional_path (Some v) of None \<Rightarrow> Inl (ValueError field_name) | Some p \<Rightarrow> Inr p)"

text \<open>\<open>S2SConfig(method=method, ...)\<close>: the fields of \<open>c\<close>, normalised in their order.\<close>

definition s2s_config :: "string option \<Rightarrow> s2s_config \<Rightarrow> exn + s2s_config" where
  "s2s_config auth c =
     ebind (positive_int (s2_replay_window_seconds c) ''replay_window_seconds'') (\<lambda>window.
     ebind (normalize_optional_auth_method auth) (\<lambda>m.
     ebind (normalize_config_text (s2_service_name c) ''service_name'') (\<lambda>service.
     ebind (normalize_required_path (s2_k8s_token_path c) ''k8s_token_path'') (\<lambda>token_path.
     ebind (normalize_config_text (s2_k8s_audience c) ''k8s_audience'') (\<lambda>audience.
     ebind (positive_float (s2_k8s_tokenreview_timeout c) ''k8s_tokenreview_timeout_seconds'') (\<lambda>timeout.
     ebind (normalize_config_text (s2_rsa_issuer c) ''rsa_issuer'') (\<lambda>rsa_issuer.
     ebind (normalize_config_text (s2_rsa_audience c) ''rsa_audience'') (\<lambda>rsa_audience.
     ebind (positive_int (s2_token_ttl_seconds c) ''token_ttl_seconds'') (\<lambda>ttl.
     Inr \<lparr>s2_shared_secret = normalize_optional_secret (s2_shared_secret c),
          s2_replay_window_seconds = window, s2_method = m, s2_service_name = service,
          s2_k8s_enabled = s2_k8s_enabled c, s2_k8s_token_path = token_path,
          s2_k8s_audience = audience,
          s2_k8s_issuer = normalize_optional_config_text (s2_k8s_issuer c),
          s2_k8s_tokenreview_url = normalize_optional_config_text (s2_k8s_tokenreview_url c),
          s2_k8s_tokenreview_token_path = normalize_optional_path (s2_k8s_tokenreview_token_path c),
          s2_k8s_tokenreview_timeout = timeout,
          s2_k8s_ca_path = normalize_optional_path (s2_k8s_ca_path c),
          s2_k8s_oidc_public_key_path = normalize_optional_path (s2_k8s_oidc_public_key_path c),
          s2_rsa_private_key_path = normalize_optional_path (s2_rsa_private_key_path c),
          s2_rsa_public_key_path = normalize_optional_path (s2_rsa_public_key_path c),
          s2_rsa_issuer = rsa_issuer, s2_rsa_audience = rsa_audience,
          s2_token_ttl_seconds = ttl\<rparr>)))))))))"

section \<open>Parameters\<close>

text \<open>
  The outcome of \<open>jwt.decode\<close>, of the request to the TokenReview service (\<open>None\<close> for an
  \<open>httpx.HTTPError\<close>, then the body, \<open>None\<close> when it is not JSON), of reading a file
  (\<open>None\<close> for an \<open>OSError\<close>) and of parsing a float.
\<close>

datatype decode_result = JwtClaims json | JwtInvalidIssuer | JwtInvalidAudience | JwtInvalid

record s2s_library =
  sl_hmac_sha256 :: "string \<Rightarrow> string \<Rightarrow> string"
  sl_environ :: "string \<Rightarrow> string option"
  sl_is_file :: "string \<Rightarrow> bool"
  sl_read_file :: "string \<Rightarrow> string option"
  sl_parse_float :: "string \<Rightarrow> pyfloat option"
  sl_token_urlsafe :: "nat \<Rightarrow> string"
  sl_jwt_encode :: "(string \<times> json) list \<Rightarrow> string \<Rightarrow> string"
  sl_jwt_decode :: "string \<Rightarrow> string \<Rightarrow> string \<Rightarrow> string \<Rightarrow> decode_result"
  sl_jwt_unverified :: "string \<Rightarrow> json option"
  sl_tokenreview :: "string \<Rightarrow> string \<Rightarrow> string \<Rightarrow> string \<Rightarrow> json option option"

section \<open>The environment\<close>

definition env_bool :: "s2s_library \<Rightarrow> string \<Rightarrow> bool \<Rightarrow> exn + bool" where
  "env_bool lib name fallback =
     (case sl_environ lib name of
        None \<Rightarrow> Inr fallback
      | Some raw \<Rightarrow>
          let n = py_lower (py_strip raw) in
          if n \<in> {''1'', ''true'', ''yes'', ''on''} then Inr True
          else if n \<in> {''0'', ''false'', ''no'', ''off''} then Inr False
          else Inl (ValueError name))"

definition env_int :: "s2s_library \<Rightarrow> string \<Rightarrow> int \<Rightarrow> exn + int" where
  "env_int lib name fallback =
     (case sl_environ lib name of
        None \<Rightarrow> Inr fallback
      | Some raw \<Rightarrow>
          if py_strip raw = [] then Inr fallback
          else case py_int raw of None \<Rightarrow> Inl (ValueError name) | Some i \<Rightarrow> Inr i)"

definition env_float :: "s2s_library \<Rightarrow> string \<Rightarrow> pyfloat \<Rightarrow> exn + pyfloat" where
  "env_float lib name fallback =
     (case sl_environ lib name of
        None \<Rightarrow> Inr fallback
      | Some raw \<Rightarrow>
          if py_strip raw = [] then Inr fallback
          else case sl_parse_float lib raw of None \<Rightarrow> Inl (ValueError name) | Some f \<Rightarrow> Inr f)"

definition env_text :: "s2s_library \<Rightarrow> string \<Rightarrow> string \<Rightarrow> string" where
  "env_text lib name fallback = (case sl_environ lib name of None \<Rightarrow> fallback | Some v \<Rightarrow> v)"

definition s2s_config_from_env :: "s2s_library \<Rightarrow> exn + s2s_config" where
  "s2s_config_from_env lib =
     ebind (env_int lib ''S2S_REPLAY_WINDOW_SECONDS'' 300) (\<lambda>window.
     ebind (env_bool lib ''K8S_AUTH_ENABLED'' True) (\<lambda>enabled.
     ebind (env_float lib ''S2S_K8S_TOKENREVIEW_TIMEOUT_SECONDS'' (Fin 2)) (\<lambda>timeout.
     ebind (env_int lib ''S2S_TOKEN_TTL_SECONDS'' 60) (\<lambda>ttl.
     s2s_config (sl_environ lib ''S2S_AUTH_METHOD'')
       \<lparr>s2_shared_secret = map_option TextSecret (sl_environ lib ''S2S_SHARED_SECRET''),
        s2_replay_window_seconds = window, s2_method = None,
        s2_service_name = env_text lib ''SERVICE_NAME'' ''unknown'', s2_k8s_enabled = enabled,
        s2_k8s_token_path = env_text lib ''S2S_K8S_TOKEN_PATH''
          ''/var/run/secrets/kubernetes.io/serviceaccount/token'',
        s2_k8s_audience = env_text lib ''S2S_AUDIENCE'' ''nmc-services'',
        s2_k8s_issuer = sl_environ lib ''S2S_K8S_ISSUER'',
        s2_k8s_tokenreview_url = sl_environ lib ''S2S_K8S_TOKENREVIEW_URL'',
        s2_k8s_tokenreview_token_path = sl_environ lib ''S2S_K8S_TOKENREVIEW_TOKEN_PATH'',
        s2_k8s_tokenreview_timeout = timeout,
        s2_k8s_ca_path = Some (env_text lib ''S2S_K8S_CA_PATH''
          ''/var/run/secrets/kubernetes.io/serviceaccount/ca.crt''),
        s2_k8s_oidc_public_key_path = sl_environ lib ''S2S_K8S_OIDC_PUBLIC_KEY_PATH'',
        s2_rsa_private_key_path = sl_environ lib ''S2S_RSA_PRIVATE_KEY_PATH'',
        s2_rsa_public_key_path = sl_environ lib ''S2S_RSA_PUBLIC_KEY_PATH'',
        s2_rsa_issuer = env_text lib ''S2S_RSA_ISSUER'' ''nmc-s2s'',
        s2_rsa_audience = env_text lib ''S2S_RSA_AUDIENCE'' ''nmc-services'',
        s2_token_ttl_seconds = ttl\<rparr>))))"

definition path_is_file :: "s2s_library \<Rightarrow> string option \<Rightarrow> bool" where
  "path_is_file lib p = (case p of None \<Rightarrow> False | Some f \<Rightarrow> sl_is_file lib f)"

text \<open>\<open>detect_auth_method\<close> of a configuration; \<open>get_s2s_auth\<close> chooses the class by it.\<close>

definition detect_auth_method :: "s2s_library \<Rightarrow> s2s_config \<Rightarrow> auth_method" where
  "detect_auth_method lib c =
     (case s2_method c of
        Some m \<Rightarrow> m
      | None \<Rightarrow>
          if s2_k8s_enabled c \<and> sl_is_file lib (s2_k8s_token_path c) then K8S_SA
          else if path_is_file lib (s2_rsa_private_key_path c) \<and> path_is_file lib (s2_rsa_public_key_path c)
          then RSA_KEY
          else SHARED_SECRET)"

section \<open>Pieces of a signed request\<close>

definition s2s_error :: "string \<Rightarrow> exn + 'a" where
  "s2s_error m = Inl (S2SAuthenticationError m)"

definition normalize_method :: "string \<Rightarrow> exn + string" where
  "normalize_method v =
     (if py_strip v = [] then Inl (ValueError ''method'') else Inr (method_upper (py_strip v)))"

definition normalize_path :: "string \<Rightarrow> exn + string" where
  "normalize_path v =
     (let n = py_strip v in
      if n = [] then Inl (ValueError ''path'')
      else if hd n \<noteq> CHR 0x2F then Inl (ValueError ''path'')
      else Inr n)"

definition normalize_required_text :: "string option \<Rightarrow> string \<Rightarrow> exn + string" where
  "normalize_required_text v field_name =
     (case v of
        None \<Rightarrow> s2s_error field_name
      | Some s \<Rightarrow> if py_strip s = [] then s2s_error field_name else Inr (py_strip s))"

definition parse_timestamp :: "string option \<Rightarrow> exn + int" where
  "parse_timestamp v =
     ebind (normalize_required_text v ''X-S2S-Timestamp'') (\<lambda>raw.
     case py_int raw of None \<Rightarrow> s2s_error ''X-S2S-Timestamp'' | Some t \<Rightarrow> Inr t)"

definition signature_payload :: "string \<Rightarrow> string \<Rightarrow> int \<Rightarrow> string \<Rightarrow> string \<Rightarrow> string" where
  "signature_payload m path timestamp nonce service_name =
     join_with [CHR 0x0A] [m, path, int_text timestamp, nonce, service_name]"

text \<open>\<open>_normalize_headers\<close> is the same comprehension as in tenant.py.\<close>

definition s2s_headers :: "(string \<times> string) list \<Rightarrow> (string \<times> string) list" where
  "s2s_headers h = normalize_headers h"

definition bearer_token :: "(string \<times> string) list \<Rightarrow> exn + string" where
  "bearer_token h =
     ebind (normalize_required_text (map_of h ''authorization'') ''Authorization'') (\<lambda>raw.
     if take 7 raw \<noteq> ''Bearer '' then s2s_error ''Authorization''
     else normalize_required_text (Some (drop 7 raw)) ''Bearer token'')"

definition hex_text :: "string \<Rightarrow> string" where
  "hex_text bs = concat (map (\<lambda>c. [hex_digit (byte c div 16), hex_digit (byte c mod 16)]) bs)"

definition secret_of :: "s2s_config \<Rightarrow> exn + jwt_secret" where
  "secret_of c = (case s2_shared_secret c of None \<Rightarrow> s2s_error ''shared secret'' | Some s \<Rightarrow> Inr s)"

definition s2s_signature :: "s2s_library \<Rightarrow> jwt_secret \<Rightarrow> string \<Rightarrow> string" where
  "s2s_signature lib secret payload =
     hex_text (sl_hmac_sha256 lib (secret_bytes secret) (utf8 payload))"

text \<open>\<open>hmac.compare_digest\<close> of two texts raises for a text outside ASCII.\<close>

definition compare_texts :: "string \<Rightarrow> string \<Rightarrow> exn + bool" where
  "compare_texts a b =
     (if is_ascii a \<and> is_ascii b then Inr (a = b) else Inl (TypeError ''compare_digest''))"

definition read_text_file :: "s2s_library \<Rightarrow> string \<Rightarrow> string \<Rightarrow> exn + string" where
  "read_text_file lib path field_name =
     (case sl_read_file lib path of
        None \<Rightarrow> s2s_error field_name
      | Some v \<Rightarrow> if py_strip v = [] then s2s_error field_name else Inr (py_strip v))"

definition read_bytes_file :: "s2s_library \<Rightarrow> string \<Rightarrow> string \<Rightarrow> exn + string" where
  "read_bytes_file lib path field_name =
     (case sl_read_file lib path of
        None \<Rightarrow> s2s_error field_name
      | Some v \<Rightarrow> if strip_with ascii_space v = [] then s2s_error field_name else Inr v)"

text \<open>\<open>int(self._now())\<close>.\<close>

fun int_of_float :: "pyfloat \<Rightarrow> exn + int" where
  "int_of_float (Fin q) = Inr (if 0 \<le> q then \<lfloor>q\<rfloor> else \<lceil>q\<rceil>)"
| "int_of_float NaN = Inl (ValueError ''NaN'')"
| "int_of_float _ = Inl (ExternalError ''OverflowError'')"

section \<open>Used nonces\<close>

record s2s_state =
  ss_seen_nonces :: "(string, int) dict"
  ss_drawn :: nat

text \<open>\<open>now - timestamp\<close>: the integer is converted to a float, which may overflow.\<close>

definition elapsed :: "pyfloat \<Rightarrow> int \<Rightarrow> exn + pyfloat" where
  "elapsed now timestamp = ebind (float_of_int timestamp) (\<lambda>f. Inr (float_sub now f))"

definition exceeds :: "pyfloat \<Rightarrow> int \<Rightarrow> bool" where
  "exceeds d window = float_lt (Fin (of_int window)) d"

fun expired_nonces :: "pyfloat \<Rightarrow> int \<Rightarrow> (string \<times> int) list \<Rightarrow> exn + string list" where
  "expired_nonces now window [] = Inr []"
| "expired_nonces now window ((nonce, timestamp) # rest) =
     ebind (elapsed now timestamp) (\<lambda>d.
     ebind (expired_nonces now window rest) (\<lambda>ns.
     Inr (if exceeds d window then nonce # ns else ns)))"

definition drop_expired_nonces :: "pyfloat \<Rightarrow> int \<Rightarrow> (s2s_state, unit) act" where
  "drop_expired_nonces now window =
     bnd (gets (\<lambda>s. expired_nonces now window (ss_seen_nonces s))) (\<lambda>r.
     bnd (lift r) (\<lambda>expired.
     modify (\<lambda>s. s\<lparr>ss_seen_nonces := fold AList.delete expired (ss_seen_nonces s)\<rparr>)))"

definition nonce_key :: "string \<Rightarrow> string \<Rightarrow> string" where
  "nonce_key service_name nonce = service_name @ '':'' @ nonce"

definition remember ::
    "string \<Rightarrow> string \<Rightarrow> int \<Rightarrow> pyfloat \<Rightarrow> int \<Rightarrow> (s2s_state, unit) act" where
  "remember service_name nonce timestamp now window =
     bnd (drop_expired_nonces now window) (\<lambda>_.
     bnd (gets (\<lambda>s. map_of (ss_seen_nonces s) (nonce_key service_name nonce) \<noteq> None)) (\<lambda>used.
     if used then fail (S2SAuthenticationError ''nonce'')
     else modify (\<lambda>s. s\<lparr>ss_seen_nonces :=
            AList.update (nonce_key service_name nonce) timestamp (ss_seen_nonces s)\<rparr>)))"

text \<open>\<open>if abs(now - timestamp) > window: raise\<close>.\<close>

definition require_in_window :: "pyfloat \<Rightarrow> int \<Rightarrow> int \<Rightarrow> (s2s_state, unit) act" where
  "require_in_window now timestamp window =
     bnd (lift (elapsed now timestamp)) (\<lambda>d.
     require (\<not> exceeds (float_abs d) window) (S2SAuthenticationError ''timestamp window''))"

definition remember_verified_nonce ::
    "s2s_config \<Rightarrow> string \<Rightarrow> string \<Rightarrow> int \<Rightarrow> pyfloat \<Rightarrow> (s2s_state, unit) act" where
  "remember_verified_nonce c service_name nonce timestamp now =
     bnd (require_in_window now timestamp (s2_replay_window_seconds c)) (\<lambda>_.
     remember service_name nonce timestamp now (s2_replay_window_seconds c))"

text \<open>\<open>nonce or secrets.token_urlsafe(24)\<close> and \<open>timestamp if timestamp is not None else now\<close>.\<close>

definition nonce_or_new :: "s2s_library \<Rightarrow> string option \<Rightarrow> (s2s_state, string) act" where
  "nonce_or_new lib nonce =
     (case nonce of
        Some (c # cs) \<Rightarrow> ret (c # cs)
      | _ \<Rightarrow>
          bnd (gets (\<lambda>s. sl_token_urlsafe lib (ss_drawn s))) (\<lambda>n.
          bnd (modify (\<lambda>s. s\<lparr>ss_drawn := Suc (ss_drawn s)\<rparr>)) (\<lambda>_. ret n)))"

definition timestamp_or_now :: "int option \<Rightarrow> pyfloat \<Rightarrow> exn + int" where
  "timestamp_or_now timestamp now = (case timestamp of Some t \<Rightarrow> Inr t | None \<Rightarrow> int_of_float now)"

definition put_headers :: "(string \<times> string) list \<Rightarrow> (string \<times> string) list \<Rightarrow> (string \<times> string) list" where
  "put_headers new headers = fold (\<lambda>(k, v). AList.update k v) new headers"

record s2s_identity =
  id_service_name :: string
  id_method :: auth_method

section \<open>Shared secret\<close>

definition shared_sign_request ::
    "s2s_library \<Rightarrow> s2s_config \<Rightarrow> string \<Rightarrow> string \<Rightarrow> string \<Rightarrow> (string \<times> string) list
     \<Rightarrow> int option \<Rightarrow> string option \<Rightarrow> pyfloat \<Rightarrow> (s2s_state, (string \<times> string) list) act" where
  "shared_sign_request lib c m path service_name headers timestamp nonce now =
     bnd (lift (secret_of c)) (\<lambda>secret.
     bnd (lift (normalize_method m)) (\<lambda>nm.
     bnd (lift (normalize_path path)) (\<lambda>np.
     bnd (lift (normalize_required_text (Some service_name) ''service_name'')) (\<lambda>service.
     bnd (lift (timestamp_or_now timestamp now)) (\<lambda>ts.
     bnd (nonce_or_new lib nonce) (\<lambda>raw_nonce.
     bnd (lift (normalize_required_text (Some raw_nonce) ''nonce'')) (\<lambda>n.
     ret (put_headers
            [(''X-S2S-Method'', auth_method_value SHARED_SECRET), (''X-S2S-Service'', service),
             (''X-S2S-Timestamp'', int_text ts), (''X-S2S-Nonce'', n),
             (''X-S2S-Signature'', s2s_signature lib secret (signature_payload nm np ts n service))]
            headers))))))))"

definition shared_verify_request ::
    "s2s_library \<Rightarrow> s2s_config \<Rightarrow> (string \<times> string) list \<Rightarrow> string \<Rightarrow> string \<Rightarrow> pyfloat
     \<Rightarrow> (s2s_state, s2s_identity) act" where
  "shared_verify_request lib c headers m path now =
     (let h = s2s_headers headers in
      bnd (require (map_of h ''x-s2s-method'' = Some (auth_method_value SHARED_SECRET))
             (S2SAuthenticationError ''method'')) (\<lambda>_.
      bnd (lift (normalize_required_text (map_of h ''x-s2s-service'') ''X-S2S-Service'')) (\<lambda>service.
      bnd (lift (normalize_required_text (map_of h ''x-s2s-nonce'') ''X-S2S-Nonce'')) (\<lambda>nonce.
      bnd (lift (normalize_required_text (map_of h ''x-s2s-signature'') ''X-S2S-Signature'')) (\<lambda>signature.
      bnd (lift (parse_timestamp (map_of h ''x-s2s-timestamp''))) (\<lambda>ts.
      bnd (require_in_window now ts (s2_replay_window_seconds c)) (\<lambda>_.
      bnd (lift (normalize_method m)) (\<lambda>nm.
      bnd (lift (normalize_path path)) (\<lambda>np.
      bnd (lift (secret_of c)) (\<lambda>secret.
      bnd (lift (compare_texts (s2s_signature lib secret (signature_payload nm np ts nonce service)) signature)) (\<lambda>same.
      bnd (require same (S2SAuthenticationError ''signature'')) (\<lambda>_.
      bnd (remember service nonce ts now (s2_replay_window_seconds c)) (\<lambda>_.
      ret \<lparr>id_service_name = service, id_method = SHARED_SECRET\<rparr>)))))))))))))"

section \<open>RSA keys\<close>

definition ensure_claims_mapping :: "json \<Rightarrow> exn + (string \<times> json) list" where
  "ensure_claims_mapping v = (case v of JObj kvs \<Rightarrow> Inr kvs | _ \<Rightarrow> s2s_error ''claims'')"

definition claim_required_text :: "(string \<times> json) list \<Rightarrow> string \<Rightarrow> exn + string" where
  "claim_required_text claims name =
     (case map_of claims name of
        Some (JStr s) \<Rightarrow> if py_strip s = [] then s2s_error name else Inr (py_strip s)
      | _ \<Rightarrow> s2s_error name)"

text \<open>A boolean is an \<open>int\<close>.\<close>

definition claim_required_int :: "(string \<times> json) list \<Rightarrow> string \<Rightarrow> exn + int" where
  "claim_required_int claims name =
     (case map_of claims name of
        Some (JInt i) \<Rightarrow> Inr i
      | Some (JBool b) \<Rightarrow> Inr (if b then 1 else 0)
      | _ \<Rightarrow> s2s_error name)"

definition key_bytes :: "s2s_library \<Rightarrow> string option \<Rightarrow> string \<Rightarrow> exn + string" where
  "key_bytes lib path field_name =
     (case path of None \<Rightarrow> s2s_error field_name | Some p \<Rightarrow> read_bytes_file lib p field_name)"

definition decode_signed_token ::
    "s2s_library \<Rightarrow> string \<Rightarrow> string \<Rightarrow> string \<Rightarrow> string \<Rightarrow> exn + (string \<times> json) list" where
  "decode_signed_token lib token key audience issuer =
     (case sl_jwt_decode lib token key audience issuer of
        JwtClaims v \<Rightarrow> ensure_claims_mapping v
      | JwtInvalidIssuer \<Rightarrow> s2s_error ''issuer''
      | JwtInvalidAudience \<Rightarrow> s2s_error ''audience''
      | JwtInvalid \<Rightarrow> s2s_error ''token'')"

definition rsa_claims :: "s2s_config \<Rightarrow> string \<Rightarrow> int \<Rightarrow> string \<Rightarrow> string \<Rightarrow> string \<Rightarrow> (string \<times> json) list" where
  "rsa_claims c service timestamp nonce nm np =
     [(''iss'', JStr (s2_rsa_issuer c)), (''sub'', JStr service), (''aud'', JStr (s2_rsa_audience c)),
      (''iat'', JInt timestamp), (''nbf'', JInt (timestamp - 1)),
      (''exp'', JInt (timestamp + s2_token_ttl_seconds c)), (''nonce'', JStr nonce),
      (''method'', JStr nm), (''path'', JStr np)]"

definition rsa_sign_request ::
    "s2s_library \<Rightarrow> s2s_config \<Rightarrow> string \<Rightarrow> string \<Rightarrow> string \<Rightarrow> (string \<times> string) list
     \<Rightarrow> int option \<Rightarrow> string option \<Rightarrow> pyfloat \<Rightarrow> (s2s_state, (string \<times> string) list) act" where
  "rsa_sign_request lib c m path service_name headers timestamp nonce now =
     bnd (lift (normalize_method m)) (\<lambda>nm.
     bnd (lift (normalize_path path)) (\<lambda>np.
     bnd (lift (normalize_required_text (Some service_name) ''service_name'')) (\<lambda>service.
     bnd (lift (timestamp_or_now timestamp now)) (\<lambda>ts.
     bnd (nonce_or_new lib nonce) (\<lambda>raw_nonce.
     bnd (lift (normalize_required_text (Some raw_nonce) ''nonce'')) (\<lambda>n.
     bnd (lift (key_bytes lib (s2_rsa_private_key_path c) ''rsa_private_key_path'')) (\<lambda>key.
     ret (put_headers
            [(''Authorization'', ''Bearer '' @ sl_jwt_encode lib (rsa_claims c service ts n nm np) key),
             (''X-S2S-Method'', auth_method_value RSA_KEY), (''X-S2S-Service'', service),
             (''X-S2S-Timestamp'', int_text ts), (''X-S2S-Nonce'', n)]
            headers))))))))"

definition rsa_verify_request ::
    "s2s_library \<Rightarrow> s2s_config \<Rightarrow> (string \<times> string) list \<Rightarrow> string \<Rightarrow> string \<Rightarrow> pyfloat
     \<Rightarrow> (s2s_state, s2s_identity) act" where
  "rsa_verify_request lib c headers m path now =
     bnd (lift (normalize_method m)) (\<lambda>nm.
     bnd (lift (normalize_path path)) (\<lambda>np.
     let h = s2s_headers headers in
     bnd (require (map_of h ''x-s2s-method'' = Some (auth_method_value RSA_KEY))
            (S2SAuthenticationError ''method'')) (\<lambda>_.
     bnd (lift (bearer_token h)) (\<lambda>token.
     bnd (lift (key_bytes lib (s2_rsa_public_key_path c) ''rsa_public_key_path'')) (\<lambda>key.
     bnd (lift (decode_signed_token lib token key (s2_rsa_audience c) (s2_rsa_issuer c))) (\<lambda>claims.
     bnd (lift (claim_required_text claims ''sub'')) (\<lambda>service.
     bnd (lift (normalize_required_text (map_of h ''x-s2s-nonce'') ''X-S2S-Nonce'')) (\<lambda>nonce.
     bnd (lift (parse_timestamp (map_of h ''x-s2s-timestamp''))) (\<lambda>ts.
     bnd (lift (claim_required_int claims ''iat'')) (\<lambda>iat.
     bnd (require (iat = ts) (S2SAuthenticationError ''timestamp'')) (\<lambda>_.
     bnd (lift (claim_required_text claims ''nonce'')) (\<lambda>claimed_nonce.
     bnd (require (claimed_nonce = nonce) (S2SAuthenticationError ''nonce'')) (\<lambda>_.
     bnd (lift (claim_required_text claims ''method'')) (\<lambda>claimed_method.
     bnd (require (claimed_method = nm) (S2SAuthenticationError ''method'')) (\<lambda>_.
     bnd (lift (claim_required_text claims ''path'')) (\<lambda>claimed_path.
     bnd (require (claimed_path = np) (S2SAuthenticationError ''path'')) (\<lambda>_.
     bnd (remember_verified_nonce c service nonce ts now) (\<lambda>_.
     ret \<lparr>id_service_name = service, id_method = RSA_KEY\<rparr>))))))))))))))))))"

section \<open>Kubernetes service accounts\<close>

record review_result =
  rv_service_name :: string
  rv_audience :: string
  rv_issuer :: "string option"
  rv_claims :: "(string \<times> json) list"

definition k8s_review_result ::
    "string \<Rightarrow> string \<Rightarrow> string option \<Rightarrow> (string \<times> json) list \<Rightarrow> exn + review_result" where
  "k8s_review_result service_name audience issuer claims =
     ebind (normalize_config_text service_name ''service_name'') (\<lambda>service.
     ebind (normalize_config_text audience ''audience'') (\<lambda>aud.
     Inr \<lparr>rv_service_name = service, rv_audience = aud,
          rv_issuer = normalize_optional_config_text issuer, rv_claims = claims\<rparr>))"

definition service_name_from_k8s_username :: "string \<Rightarrow> exn + string" where
  "service_name_from_k8s_username username =
     (case split_on (CHR '':'') username of
        [a, b, namespace, name] \<Rightarrow>
          if a = ''system'' \<and> b = ''serviceaccount'' then Inr (namespace @ [CHR 0x2F] @ name)
          else normalize_config_text username ''service_name''
      | _ \<Rightarrow> normalize_config_text username ''service_name'')"

definition oidc_validator :: "s2s_library \<Rightarrow> string \<Rightarrow> s2s_config \<Rightarrow> exn + review_result" where
  "oidc_validator lib token c =
     (case s2_k8s_oidc_public_key_path c of
        None \<Rightarrow> s2s_error ''OIDC public key''
      | Some key_path \<Rightarrow>
          (case s2_k8s_issuer c of
             None \<Rightarrow> s2s_error ''issuer''
           | Some issuer \<Rightarrow>
               ebind (read_bytes_file lib key_path ''k8s_oidc_public_key_path'') (\<lambda>key.
               ebind (decode_signed_token lib token key (s2_k8s_audience c) issuer) (\<lambda>claims.
               ebind (claim_required_text claims ''sub'') (\<lambda>subject.
               ebind (service_name_from_k8s_username subject) (\<lambda>service.
               ebind (claim_required_text claims ''iss'') (\<lambda>iss.
               k8s_review_result service (s2_k8s_audience c) (Some iss) claims)))))))"

text \<open>\<open>value or fallback\<close>.\<close>

definition or_text :: "string option \<Rightarrow> string \<Rightarrow> string" where
  "or_text v fallback = (case v of Some (c # cs) \<Rightarrow> c # cs | _ \<Rightarrow> fallback)"

definition k8s_tokenreview_url :: "s2s_library \<Rightarrow> s2s_config \<Rightarrow> exn + string" where
  "k8s_tokenreview_url lib c =
     (case s2_k8s_tokenreview_url c of
        Some url \<Rightarrow> Inr url
      | None \<Rightarrow>
          (case sl_environ lib ''KUBERNETES_SERVICE_HOST'' of
             None \<Rightarrow> s2s_error ''TokenReview URL''
           | Some host \<Rightarrow>
               if py_strip host = [] then s2s_error ''TokenReview URL''
               else
                 let port = or_text (sl_environ lib ''KUBERNETES_SERVICE_PORT_HTTPS'')
                              (or_text (sl_environ lib ''KUBERNETES_SERVICE_PORT'') ''443'')
                 in Inr (''https://'' @ py_strip host @ '':'' @ py_strip port
                         @ ''/apis/authentication.k8s.io/v1/tokenreviews'')))"

definition string_list :: "json option \<Rightarrow> string list" where
  "string_list v =
     (case v of
        Some (JList xs) \<Rightarrow>
          concat (map (\<lambda>x. case x of JStr s \<Rightarrow> if py_strip s = [] then [] else [py_strip s] | _ \<Rightarrow> []) xs)
      | _ \<Rightarrow> [])"

definition tokenreview_username :: "(string \<times> json) list \<Rightarrow> exn + string" where
  "tokenreview_username status =
     (case map_of status ''user'' of
        Some (JObj user) \<Rightarrow>
          (case map_of user ''username'' of
             Some (JStr s) \<Rightarrow> if py_strip s = [] then s2s_error ''username'' else Inr (py_strip s)
           | _ \<Rightarrow> s2s_error ''username'')
      | _ \<Rightarrow> s2s_error ''user'')"

definition decode_unverified_claims :: "s2s_library \<Rightarrow> string \<Rightarrow> exn + (string \<times> json) list" where
  "decode_unverified_claims lib token =
     (case sl_jwt_unverified lib token of None \<Rightarrow> Inr [] | Some v \<Rightarrow> ensure_claims_mapping v)"

definition issuer_from_claims :: "(string \<times> json) list \<Rightarrow> string option" where
  "issuer_from_claims claims =
     (case map_of claims ''iss'' of
        Some (JStr s) \<Rightarrow> if py_strip s = [] then None else Some (py_strip s)
      | _ \<Rightarrow> None)"

definition parse_tokenreview_response ::
    "s2s_library \<Rightarrow> json option \<Rightarrow> string \<Rightarrow> s2s_config \<Rightarrow> exn + review_result" where
  "parse_tokenreview_response lib body token c =
     (case body of
        Some (JObj payload) \<Rightarrow>
          (case map_of payload ''status'' of
             Some (JObj status) \<Rightarrow>
               if map_of status ''authenticated'' \<noteq> Some (JBool True) then s2s_error ''authenticated''
               else if s2_k8s_audience c \<notin> set (string_list (map_of status ''audiences''))
               then s2s_error ''audience''
               else
                 ebind (tokenreview_username status) (\<lambda>username.
                 ebind (decode_unverified_claims lib token) (\<lambda>claims.
                 let issuer = issuer_from_claims claims in
                 if s2_k8s_issuer c \<noteq> None \<and> issuer \<noteq> s2_k8s_issuer c then s2s_error ''issuer''
                 else
                   ebind (service_name_from_k8s_username username) (\<lambda>service.
                   k8s_review_result service (s2_k8s_audience c) issuer claims)))
           | _ \<Rightarrow> s2s_error ''status'')
      | _ \<Rightarrow> s2s_error ''TokenReview body'')"

definition tokenreview_validator :: "s2s_library \<Rightarrow> string \<Rightarrow> s2s_config \<Rightarrow> exn + review_result" where
  "tokenreview_validator lib token c =
     ebind (k8s_tokenreview_url lib c) (\<lambda>url.
     ebind (read_text_file lib
              (case s2_k8s_tokenreview_token_path c of Some p \<Rightarrow> p | None \<Rightarrow> s2_k8s_token_path c)
              ''k8s_tokenreview_token_path'') (\<lambda>reviewer_token.
     case sl_tokenreview lib url reviewer_token token (s2_k8s_audience c) of
       None \<Rightarrow> s2s_error ''TokenReview''
     | Some body \<Rightarrow> parse_tokenreview_response lib body token c))"

definition default_k8s_token_validator :: "s2s_library \<Rightarrow> string \<Rightarrow> s2s_config \<Rightarrow> exn + review_result" where
  "default_k8s_token_validator lib token c =
     (if s2_k8s_oidc_public_key_path c \<noteq> None then oidc_validator lib token c
      else tokenreview_validator lib token c)"

definition k8s_sign_request ::
    "s2s_library \<Rightarrow> s2s_config \<Rightarrow> string \<Rightarrow> string \<Rightarrow> string \<Rightarrow> (string \<times> string) list
     \<Rightarrow> int option \<Rightarrow> string option \<Rightarrow> pyfloat \<Rightarrow> (s2s_state, (string \<times> string) list) act" where
  "k8s_sign_request lib c m path service_name headers timestamp nonce now =
     bnd (lift (normalize_method m)) (\<lambda>_.
     bnd (lift (normalize_path path)) (\<lambda>_.
     bnd (lift (normalize_required_text (Some service_name) ''service_name'')) (\<lambda>service.
     bnd (lift (timestamp_or_now timestamp now)) (\<lambda>ts.
     bnd (nonce_or_new lib nonce) (\<lambda>raw_nonce.
     bnd (lift (normalize_required_text (Some raw_nonce) ''nonce'')) (\<lambda>n.
     bnd (lift (read_text_file lib (s2_k8s_token_path c) ''k8s_token_path'')) (\<lambda>token.
     ret (put_headers
            [(''Authorization'', ''Bearer '' @ token), (''X-S2S-Method'', auth_method_value K8S_SA),
             (''X-S2S-Service'', service), (''X-S2S-Timestamp'', int_text ts), (''X-S2S-Nonce'', n)]
            headers))))))))"

definition k8s_verify_request ::
    "s2s_library \<Rightarrow> s2s_config \<Rightarrow> (string \<Rightarrow> s2s_config \<Rightarrow> exn + review_result)
     \<Rightarrow> (string \<times> string) list \<Rightarrow> string \<Rightarrow> string \<Rightarrow> pyfloat \<Rightarrow> (s2s_state, s2s_identity) act" where
  "k8s_verify_request lib c validator headers m path now =
     bnd (lift (normalize_method m)) (\<lambda>_.
     bnd (lift (normalize_path path)) (\<lambda>_.
     let h = s2s_headers headers in
     bnd (require (map_of h ''x-s2s-method'' = Some (auth_method_value K8S_SA))
            (S2SAuthenticationError ''method'')) (\<lambda>_.
     bnd (lift (bearer_token h)) (\<lambda>token.
     bnd (lift (normalize_required_text (map_of h ''x-s2s-nonce'') ''X-S2S-Nonce'')) (\<lambda>nonce.
     bnd (lift (parse_timestamp (map_of h ''x-s2s-timestamp''))) (\<lambda>ts.
     bnd (lift (validator token c)) (\<lambda>review.
     bnd (require (rv_audience review = s2_k8s_audience c) (S2SAuthenticationError ''audience'')) (\<lambda>_.
     bnd (require (s2_k8s_issuer c = None \<or> rv_issuer review = s2_k8s_issuer c)
            (S2SAuthenticationError ''issuer'')) (\<lambda>_.
     bnd (remember_verified_nonce c (rv_service_name review) nonce ts now) (\<lambda>_.
     ret \<lparr>id_service_name = rv_service_name review, id_method = K8S_SA\<rparr>))))))))))"

section \<open>The authenticator of a service\<close>

text \<open>\<open>get_s2s_auth\<close> picks the class; the two operations dispatch on it.\<close>

definition sign_request ::
    "s2s_library \<Rightarrow> s2s_config \<Rightarrow> string \<Rightarrow> string \<Rightarrow> string \<Rightarrow> (string \<times> string) list
     \<Rightarrow> int option \<Rightarrow> string option \<Rightarrow> pyfloat \<Rightarrow> (s2s_state, (string \<times> string) list) act" where
  "sign_request lib c m path service_name headers timestamp nonce now =
     (case detect_auth_method lib c of
        K8S_SA \<Rightarrow> k8s_sign_request lib c m path service_name headers timestamp nonce now
      | RSA_KEY \<Rightarrow> rsa_sign_request lib c m path service_name headers timestamp nonce now
      | SHARED_SECRET \<Rightarrow> shared_sign_request lib c m path service_name headers timestamp nonce now)"

definition verify_request ::
    "s2s_library \<Rightarrow> s2s_config \<Rightarrow> (string \<times> string) list \<Rightarrow> string \<Rightarrow> string \<Rightarrow> pyfloat
     \<Rightarrow> (s2s_state, s2s_identity) act" where
  "verify_request lib c headers m path now =
     (case detect_auth_method lib c of
        K8S_SA \<Rightarrow> k8s_verify_request lib c (default_k8s_token_validator lib) headers m path now
      | RSA_KEY \<Rightarrow> rsa_verify_request lib c headers m path now
      | SHARED_SECRET \<Rightarrow> shared_verify_request lib c headers m path now)"

text \<open>\<open>require_s2s\<close>: an identity that the request already carries is used as it is.\<close>

definition require_s2s ::
    "s2s_library \<Rightarrow> s2s_config \<Rightarrow> s2s_identity option \<Rightarrow> (string \<times> string) list \<Rightarrow> string \<Rightarrow> string
     \<Rightarrow> pyfloat \<Rightarrow> (s2s_state, s2s_identity) act" where
  "require_s2s lib c cached headers m path now =
     (case cached of
        Some i \<Rightarrow> ret i
      | None \<Rightarrow>
          catch (verify_request lib c headers m path now)
            (\<lambda>e. case e of S2SAuthenticationError d \<Rightarrow> fail (HTTPException 401 d) | _ \<Rightarrow> fail e))"

end
