(* ===== verification/RateWindow.thy ===== *)
theory RateWindow
  imports Prelude
begin

text \<open>
  Fixed-window counting, which the rate limiter of the gateway and the request quota of the tenant
  resources share: what a window admits, whatever the order of the requests within it. A run is a
  list of events; every event has a time, and some of the events ask for admission.
\<close>

primrec admissions :: "('s \<Rightarrow> 'e \<Rightarrow> bool \<times> 's) \<Rightarrow> 's \<Rightarrow> 'e list \<Rightarrow> ('e \<times> bool) list" where
  "admissions step s [] = []"
| "admissions step s (e # es) = (let (ok, t) = step s e in (e, ok) # admissions step t es)"

definition window_of :: "int \<Rightarrow> int \<Rightarrow> int" where
  "window_of width now = now - now mod width"

lemma window_of_mono:
  assumes "0 < width" and "m \<le> n"
  shows "window_of width m \<le> window_of width n"
proof -
  have "window_of width k = width * (k div width)" for k
    by (simp add: window_of_def minus_mod_eq_mult_div [symmetric])
  with assms show ?thesis by (simp add: zdiv_mono1)
qed

text \<open>The number of events of window \<open>w\<close> with property \<open>p\<close> that were admitted.\<close>

definition admitted_in :: "('e \<Rightarrow> bool) \<Rightarrow> ('e \<Rightarrow> int) \<Rightarrow> int \<Rightarrow> int \<Rightarrow> ('e \<times> bool) list \<Rightarrow> int" where
  "admitted_in p at_time width w ds =
     int (length (filter (\<lambda>(e, ok). ok \<and> p e \<and> window_of width (at_time e) = w) ds))"

lemma admitted_in_simps [simp]:
  "admitted_in p at_time width w [] = 0"
  "admitted_in p at_time width w ((e, ok) # ds) =
     (if ok \<and> p e \<and> window_of width (at_time e) = w then 1 else 0) + admitted_in p at_time width w ds"
  by (simp_all add: admitted_in_def)

text \<open>
  The contract of a counter: the state names its window and what was used of it. An event that touches
  the counter moves it into the window of its time, with nothing used of a new window, and is admitted
  exactly when it asks and the limit is not reached; any other event leaves the counter as it is.
\<close>

locale fixed_window =
  fixes step :: "'s \<Rightarrow> 'e \<Rightarrow> bool \<times> 's"
    and touches :: "'e \<Rightarrow> bool"
    and asks :: "'e \<Rightarrow> bool"
    and at_time :: "'e \<Rightarrow> int"
    and window :: "'s \<Rightarrow> int option"
    and used :: "'s \<Rightarrow> int"
    and ok :: "'s \<Rightarrow> bool"
    and width :: int
    and limit :: int
  assumes parameters: "ok s \<Longrightarrow> 0 < width \<and> 0 \<le> limit"
    and step_ok: "ok s \<Longrightarrow> step s e = (b, t) \<Longrightarrow> ok t"
    and step_other: "ok s \<Longrightarrow> step s e = (b, t) \<Longrightarrow> \<not> touches e \<Longrightarrow> window t = window s \<and> used t = used s"
    and step_window: "ok s \<Longrightarrow> step s e = (b, t) \<Longrightarrow> touches e \<Longrightarrow> window t = Some (window_of width (at_time e))"
    and step_admits: "ok s \<Longrightarrow> step s e = (b, t) \<Longrightarrow> touches e \<Longrightarrow>
      b = (asks e \<and> (if window s = Some (window_of width (at_time e)) then used s else 0) < limit)"
    and step_used: "ok s \<Longrightarrow> step s e = (b, t) \<Longrightarrow> touches e \<Longrightarrow>
      used t = (if window s = Some (window_of width (at_time e)) then used s else 0) + (if b then 1 else 0)"
begin

text \<open>What is left of window \<open>w\<close> in a state.\<close>

definition room :: "int \<Rightarrow> 's \<Rightarrow> int" where
  "room w s = max 0 (limit - (if window s = Some w then used s else 0))"

lemma room_nonneg: "0 \<le> room w s"
  by (simp add: room_def)

lemma room_step:
  assumes "ok s" "step s e = (b, t)" "window_of width (at_time e) = w"
  shows "(if b \<and> touches e then 1 else 0) + room w t \<le> room w s"
  using step_window [OF assms(1,2)] step_admits [OF assms(1,2)] step_used [OF assms(1,2)]
    step_other [OF assms(1,2)] assms(3)
  by (cases "touches e") (auto simp: room_def)

lemma room_elsewhere:
  assumes "ok s" "step s e = (b, t)" "window_of width (at_time e) \<noteq> w" "window s \<noteq> Some w"
  shows "room w t = room w s"
  using step_window [OF assms(1,2)] step_other [OF assms(1,2)] assms(3,4)
  by (cases "touches e") (auto simp: room_def)

lemma later_windows:
  assumes "ok s" "\<forall>e\<in>set es. w < window_of width (at_time e)"
  shows "admitted_in touches at_time width w (admissions step s es) = 0"
  using assms
proof (induction es arbitrary: s)
  case (Cons e es)
  obtain b t where "step s e = (b, t)" by fastforce
  with Cons step_ok [OF Cons.prems(1)] show ?case by simp
qed simp

text \<open>
  Events in the order of their times, none before the window of the state: what is admitted of a
  window is at most what was left of it.
\<close>

lemma admitted_in_room:
  assumes "ok s" and "sorted (map at_time es)"
    and "\<forall>e\<in>set es. \<forall>v. window s = Some v \<longrightarrow> v \<le> window_of width (at_time e)"
  shows "admitted_in touches at_time width w (admissions step s es) \<le> room w s"
  using assms
proof (induction es arbitrary: s)
  case Nil
  then show ?case by (simp add: room_def)
next
  case (Cons e es)
  obtain b t where st: "step s e = (b, t)" by fastforce
  have t: "ok t" using Cons.prems(1) st step_ok by blast
  have later: "\<forall>e'\<in>set es. window_of width (at_time e) \<le> window_of width (at_time e')"
    using Cons.prems(1,2) window_of_mono parameters by fastforce
  have "window t = window s \<or> window t = Some (window_of width (at_time e))"
    using step_window [OF Cons.prems(1) st] step_other [OF Cons.prems(1) st] by blast
  then have IH: "admitted_in touches at_time width w (admissions step t es) \<le> room w t"
    using Cons.IH [OF t] Cons.prems(2,3) later by fastforce
  consider "window_of width (at_time e) = w" | "window_of width (at_time e) < w" | "w < window_of width (at_time e)"
    by linarith
  then show ?case
  proof cases
    case 1
    then have "(if b \<and> touches e then 1 else 0) + room w t \<le> room w s" using room_step Cons.prems(1) st by blast
    with IH 1 st show ?thesis by simp
  next
    case 2
    then have "window s \<noteq> Some w" using Cons.prems(3) by fastforce
    then have "room w t = room w s" using room_elsewhere [OF Cons.prems(1) st] 2 by simp
    then show ?thesis using IH 2 st by simp
  next
    case 3
    have "\<forall>e'\<in>set es. w < window_of width (at_time e')" using 3 later by fastforce
    from later_windows [OF t this] 3 st show ?thesis by (simp add: room_nonneg)
  qed
qed

lemma admitted_in_limit:
  assumes "ok s" and "sorted (map at_time es)" and "window s = None"
  shows "admitted_in touches at_time width w (admissions step s es) \<le> limit"
  using admitted_in_room [OF assms(1,2), of w] assms(3) parameters [OF assms(1)] by (simp add: room_def)

end

end
