(* ===== verification/TenantResources.thy ===== *)
theory TenantResources
  imports Tenancy RateWindow
begin

text \<open>
  \<open>libs/shared/tenant_resources.py\<close>: the capacity plan of a tenant and the in-memory manager that
  admits requests per fixed window and counts concurrent operations, stored bytes and queue items. The
  manager is the state of the operations; a time argument is one reading \<open>int(self._clock())\<close>, in
  the order in which the code reads its clock.
\<close>

section \<open>Plans and usage\<close>

record resource_plan =
  rp_name :: string
  rp_request_limit :: int
  rp_window_seconds :: int
  rp_concurrent_operations :: int
  rp_storage_bytes :: int
  rp_queue_depth :: int

definition resource_plan :: "string \<Rightarrow> int \<Rightarrow> int \<Rightarrow> int \<Rightarrow> int \<Rightarrow> int \<Rightarrow> exn + resource_plan" where
  "resource_plan name request_limit window_seconds concurrent_operations storage_bytes queue_depth =
     (if py_strip name = [] then Inl (ValueError ''name'')
      else if window_seconds \<le> 0 then Inl (ValueError ''window_seconds'')
      else if request_limit < 0 then Inl (ValueError ''request_limit'')
      else if concurrent_operations < 0 then Inl (ValueError ''concurrent_operations'')
      else if storage_bytes < 0 then Inl (ValueError ''storage_bytes'')
      else if queue_depth < 0 then Inl (ValueError ''queue_depth'')
      else Inr \<lparr>rp_name = py_strip name, rp_request_limit = request_limit,
                rp_window_seconds = window_seconds, rp_concurrent_operations = concurrent_operations,
                rp_storage_bytes = storage_bytes, rp_queue_depth = queue_depth\<rparr>)"

record tenant_usage =
  tu_plan :: resource_plan
  tu_window_started_at :: int
  tu_requests_used :: int
  tu_concurrent_operations :: int
  tu_storage_bytes_used :: int
  tu_queue_items :: int

record resource_manager =
  rm_default_plan :: resource_plan
  rm_tenant_plans :: "(string, resource_plan) dict"
  rm_states :: "(string, tenant_usage) dict"

record resource_snapshot =
  sn_tenant_id :: string
  sn_usage :: tenant_usage

record resource_decision =
  rd_allowed :: bool
  rd_plan_name :: string
  rd_reason :: "string option"
  rd_retry_after_seconds :: int
  rd_service_name :: "string option"
  rd_operation :: "string option"
  rd_resource_type :: string
  rd_requested_amount :: int
  rd_snapshot :: resource_snapshot

text \<open>The properties of a snapshot: what remains of each capacity.\<close>

definition requests_remaining :: "resource_snapshot \<Rightarrow> int" where
  "requests_remaining sn = max (rp_request_limit (tu_plan (sn_usage sn)) - tu_requests_used (sn_usage sn)) 0"

definition operation_slots_remaining :: "resource_snapshot \<Rightarrow> int" where
  "operation_slots_remaining sn =
     max (rp_concurrent_operations (tu_plan (sn_usage sn)) - tu_concurrent_operations (sn_usage sn)) 0"

definition storage_bytes_remaining :: "resource_snapshot \<Rightarrow> int" where
  "storage_bytes_remaining sn = max (rp_storage_bytes (tu_plan (sn_usage sn)) - tu_storage_bytes_used (sn_usage sn)) 0"

definition queue_slots_remaining :: "resource_snapshot \<Rightarrow> int" where
  "queue_slots_remaining sn = max (rp_queue_depth (tu_plan (sn_usage sn)) - tu_queue_items (sn_usage sn)) 0"

section \<open>The state of a tenant\<close>

text \<open>\<open>_validated_tenant_id\<close>, \<open>_normalized_token\<close> and \<open>_positive_amount\<close>.\<close>

definition plain_tenant_id :: "string \<Rightarrow> exn + string" where
  "plain_tenant_id tenant_id =
     (if tenant_id_ok (py_strip tenant_id) then Inr (py_strip tenant_id) else Inl (ValueError ''tenant_id''))"

definition required_text :: "string \<Rightarrow> string \<Rightarrow> exn + string" where
  "required_text v label = (if py_strip v = [] then Inl (ValueError label) else Inr (py_strip v))"

definition positive_amount :: "int \<Rightarrow> string \<Rightarrow> exn + int" where
  "positive_amount v label = (if v \<le> 0 then Inl (ValueError label) else Inr v)"

definition window_started_at :: "resource_plan \<Rightarrow> int \<Rightarrow> int" where
  "window_started_at plan now = now - now mod rp_window_seconds plan"

definition roll_window_if_needed :: "resource_plan \<Rightarrow> int \<Rightarrow> tenant_usage \<Rightarrow> tenant_usage" where
  "roll_window_if_needed plan now u =
     (if tu_window_started_at u \<noteq> window_started_at plan now
      then u\<lparr>tu_window_started_at := window_started_at plan now, tu_requests_used := 0\<rparr>
      else u)"

definition plan_of :: "resource_manager \<Rightarrow> string \<Rightarrow> resource_plan" where
  "plan_of m tenant_id =
     (case map_of (rm_tenant_plans m) tenant_id of None \<Rightarrow> rm_default_plan m | Some p \<Rightarrow> p)"

definition plan_for_tenant :: "resource_manager \<Rightarrow> string \<Rightarrow> exn + resource_plan" where
  "plan_for_tenant m tenant_id = ebind (plain_tenant_id tenant_id) (\<lambda>t. Inr (plan_of m t))"

definition fresh_usage :: "resource_plan \<Rightarrow> int \<Rightarrow> tenant_usage" where
  "fresh_usage plan now =
     \<lparr>tu_plan = plan, tu_window_started_at = window_started_at plan now, tu_requests_used = 0,
      tu_concurrent_operations = 0, tu_storage_bytes_used = 0, tu_queue_items = 0\<rparr>"

definition current_usage :: "resource_manager \<Rightarrow> int \<Rightarrow> string \<Rightarrow> tenant_usage" where
  "current_usage m now t =
     (case map_of (rm_states m) t of
        None \<Rightarrow> fresh_usage (plan_of m t) now
      | Some u \<Rightarrow> roll_window_if_needed (plan_of m t) now (u\<lparr>tu_plan := plan_of m t\<rparr>))"

definition put_usage :: "string \<Rightarrow> tenant_usage \<Rightarrow> resource_manager \<Rightarrow> resource_manager" where
  "put_usage t u m = m\<lparr>rm_states := AList.update t u (rm_states m)\<rparr>"

text \<open>\<open>_state_for_context\<close> stores the state it returns; later writes to it are writes to the store.\<close>

definition state_for_context ::
    "tenant_context \<Rightarrow> int \<Rightarrow> (resource_manager, string \<times> tenant_usage) act" where
  "state_for_context c now =
     bnd (lift (plain_tenant_id (tc_tenant_id c))) (\<lambda>t.
     bnd (gets (\<lambda>m. current_usage m now t)) (\<lambda>u.
     bnd (modify (put_usage t u)) (\<lambda>_. ret (t, u))))"

definition usage_snapshot :: "tenant_context \<Rightarrow> tenant_usage \<Rightarrow> resource_snapshot" where
  "usage_snapshot c u = \<lparr>sn_tenant_id = tc_tenant_id c, sn_usage = u\<rparr>"

definition decision ::
    "bool \<Rightarrow> tenant_context \<Rightarrow> tenant_usage \<Rightarrow> string option \<Rightarrow> int \<Rightarrow> string option \<Rightarrow> string option
     \<Rightarrow> string \<Rightarrow> int \<Rightarrow> resource_decision" where
  "decision allowed c u reason retry_after service_name operation resource_type amount =
     \<lparr>rd_allowed = allowed, rd_plan_name = rp_name (tu_plan u), rd_reason = reason,
      rd_retry_after_seconds = retry_after, rd_service_name = service_name, rd_operation = operation,
      rd_resource_type = resource_type, rd_requested_amount = amount,
      rd_snapshot = usage_snapshot c u\<rparr>"

section \<open>The operations of the manager\<close>

definition configure_tenant :: "string \<Rightarrow> resource_plan \<Rightarrow> int \<Rightarrow> (resource_manager, unit) act" where
  "configure_tenant tenant_id plan now =
     bnd (lift (plain_tenant_id tenant_id)) (\<lambda>t.
     modify (\<lambda>m.
       let m' = m\<lparr>rm_tenant_plans := AList.update t plan (rm_tenant_plans m)\<rparr> in
       case map_of (rm_states m) t of
         None \<Rightarrow> m'
       | Some u \<Rightarrow> put_usage t (roll_window_if_needed plan now (u\<lparr>tu_plan := plan\<rparr>)) m'))"

definition admit_request ::
    "tenant_context \<Rightarrow> string \<Rightarrow> string \<Rightarrow> int \<Rightarrow> int \<Rightarrow> (resource_manager, resource_decision) act" where
  "admit_request c service_name operation now later =
     bnd (lift (required_text service_name ''service_name'')) (\<lambda>service.
     bnd (lift (required_text operation ''operation'')) (\<lambda>op.
     bnd (state_for_context c now) (\<lambda>(t, u).
     let retry_after = max 1 (tu_window_started_at u + rp_window_seconds (tu_plan u) - later) in
     if rp_request_limit (tu_plan u) \<le> tu_requests_used u then
       ret (decision False c u (Some ''request_limit_exceeded'') retry_after (Some service) (Some op) ''request'' 1)
     else
       let v = u\<lparr>tu_requests_used := tu_requests_used u + 1\<rparr> in
       bnd (modify (put_usage t v)) (\<lambda>_.
       ret (decision True c v None 0 (Some service) (Some op) ''request'' 1)))))"

definition acquire_operation_slot ::
    "tenant_context \<Rightarrow> string \<Rightarrow> int \<Rightarrow> (resource_manager, resource_decision) act" where
  "acquire_operation_slot c operation now =
     bnd (lift (required_text operation ''operation'')) (\<lambda>op.
     bnd (state_for_context c now) (\<lambda>(t, u).
     if rp_concurrent_operations (tu_plan u) \<le> tu_concurrent_operations u then
       ret (decision False c u (Some ''concurrency_limit_exceeded'') 1 None (Some op) ''concurrent_operation'' 1)
     else
       let v = u\<lparr>tu_concurrent_operations := tu_concurrent_operations u + 1\<rparr> in
       bnd (modify (put_usage t v)) (\<lambda>_.
       ret (decision True c v None 0 None (Some op) ''concurrent_operation'' 1))))"

definition release_operation_slot ::
    "tenant_context \<Rightarrow> string \<Rightarrow> int \<Rightarrow> (resource_manager, resource_snapshot) act" where
  "release_operation_slot c operation now =
     bnd (lift (required_text operation ''operation'')) (\<lambda>_.
     bnd (state_for_context c now) (\<lambda>(t, u).
     let v = u\<lparr>tu_concurrent_operations := max (tu_concurrent_operations u - 1) 0\<rparr> in
     bnd (modify (put_usage t v)) (\<lambda>_. ret (usage_snapshot c v))))"

definition reserve_queue_items ::
    "tenant_context \<Rightarrow> string \<Rightarrow> int \<Rightarrow> int \<Rightarrow> (resource_manager, resource_decision) act" where
  "reserve_queue_items c queue_name amount now =
     bnd (lift (required_text queue_name ''queue_name'')) (\<lambda>queue.
     bnd (lift (positive_amount amount ''amount'')) (\<lambda>n.
     bnd (state_for_context c now) (\<lambda>(t, u).
     if rp_queue_depth (tu_plan u) < tu_queue_items u + n then
       ret (decision False c u (Some ''queue_depth_exceeded'') 1 None (Some queue) ''queue'' n)
     else
       let v = u\<lparr>tu_queue_items := tu_queue_items u + n\<rparr> in
       bnd (modify (put_usage t v)) (\<lambda>_.
       ret (decision True c v None 0 None (Some queue) ''queue'' n)))))"

definition release_queue_items ::
    "tenant_context \<Rightarrow> string \<Rightarrow> int \<Rightarrow> int \<Rightarrow> (resource_manager, resource_snapshot) act" where
  "release_queue_items c queue_name amount now =
     bnd (lift (required_text queue_name ''queue_name'')) (\<lambda>_.
     bnd (lift (positive_amount amount ''amount'')) (\<lambda>n.
     bnd (state_for_context c now) (\<lambda>(t, u).
     let v = u\<lparr>tu_queue_items := max (tu_queue_items u - n) 0\<rparr> in
     bnd (modify (put_usage t v)) (\<lambda>_. ret (usage_snapshot c v)))))"

definition reserve_storage_bytes ::
    "tenant_context \<Rightarrow> int \<Rightarrow> string \<Rightarrow> int \<Rightarrow> (resource_manager, resource_decision) act" where
  "reserve_storage_bytes c amount resource_type now =
     bnd (lift (positive_amount amount ''amount'')) (\<lambda>n.
     bnd (lift (required_text resource_type ''resource_type'')) (\<lambda>ty.
     bnd (state_for_context c now) (\<lambda>(t, u).
     if rp_storage_bytes (tu_plan u) < tu_storage_bytes_used u + n then
       ret (decision False c u (Some ''storage_quota_exceeded'') 0 None None ty n)
     else
       let v = u\<lparr>tu_storage_bytes_used := tu_storage_bytes_used u + n\<rparr> in
       bnd (modify (put_usage t v)) (\<lambda>_. ret (decision True c v None 0 None None ty n)))))"

definition release_storage_bytes ::
    "tenant_context \<Rightarrow> int \<Rightarrow> string \<Rightarrow> int \<Rightarrow> (resource_manager, resource_snapshot) act" where
  "release_storage_bytes c amount resource_type now =
     bnd (lift (required_text resource_type ''resource_type'')) (\<lambda>_.
     bnd (lift (positive_amount amount ''amount'')) (\<lambda>n.
     bnd (state_for_context c now) (\<lambda>(t, u).
     let v = u\<lparr>tu_storage_bytes_used := max (tu_storage_bytes_used u - n) 0\<rparr> in
     bnd (modify (put_usage t v)) (\<lambda>_. ret (usage_snapshot c v)))))"

definition resource_snapshot :: "tenant_context \<Rightarrow> int \<Rightarrow> (resource_manager, resource_snapshot) act" where
  "resource_snapshot c now = bnd (state_for_context c now) (\<lambda>(_, u). ret (usage_snapshot c u))"

section \<open>Calls\<close>

text \<open>The operations a service calls for a tenant; plans are configured by \<open>configure_tenant\<close> only.\<close>

datatype tenant_call =
    AdmitRequest tenant_context string string int int
  | AcquireSlot tenant_context string int
  | ReleaseSlot tenant_context string int
  | ReserveQueue tenant_context string int int
  | ReleaseQueue tenant_context string int int
  | ReserveStorage tenant_context int string int
  | ReleaseStorage tenant_context int string int
  | TakeSnapshot tenant_context int

fun call_time :: "tenant_call \<Rightarrow> int" where
  "call_time (AdmitRequest c sv op now later) = now"
| "call_time (AcquireSlot c op now) = now"
| "call_time (ReleaseSlot c op now) = now"
| "call_time (ReserveQueue c q n now) = now"
| "call_time (ReleaseQueue c q n now) = now"
| "call_time (ReserveStorage c n ty now) = now"
| "call_time (ReleaseStorage c n ty now) = now"
| "call_time (TakeSnapshot c now) = now"

text \<open>The manager after a call, and whether the call was an admitted request.\<close>

fun tenant_step :: "resource_manager \<Rightarrow> tenant_call \<Rightarrow> bool \<times> resource_manager" where
  "tenant_step m (AdmitRequest c sv op now later) =
     (case admit_request c sv op now later m of (Inl e, t) \<Rightarrow> (False, t) | (Inr d, t) \<Rightarrow> (rd_allowed d, t))"
| "tenant_step m (AcquireSlot c op now) = (False, snd (acquire_operation_slot c op now m))"
| "tenant_step m (ReleaseSlot c op now) = (False, snd (release_operation_slot c op now m))"
| "tenant_step m (ReserveQueue c q n now) = (False, snd (reserve_queue_items c q n now m))"
| "tenant_step m (ReleaseQueue c q n now) = (False, snd (release_queue_items c q n now m))"
| "tenant_step m (ReserveStorage c n ty now) = (False, snd (reserve_storage_bytes c n ty now m))"
| "tenant_step m (ReleaseStorage c n ty now) = (False, snd (release_storage_bytes c n ty now m))"
| "tenant_step m (TakeSnapshot c now) = (False, snd (resource_snapshot c now m))"

primrec tenant_run :: "resource_manager \<Rightarrow> tenant_call list \<Rightarrow> resource_manager" where
  "tenant_run m [] = m"
| "tenant_run m (k # ks) = tenant_run (snd (tenant_step m k)) ks"

text \<open>The tenant whose usage a call reads and writes; \<open>None\<close> when its arguments are refused.\<close>

fun valid_text :: "string \<Rightarrow> bool" where
  "valid_text v = (py_strip v \<noteq> [])"

definition target :: "tenant_context \<Rightarrow> bool \<Rightarrow> string option" where
  "target c valid =
     (if valid \<and> tenant_id_ok (py_strip (tc_tenant_id c)) then Some (py_strip (tc_tenant_id c)) else None)"

fun call_target :: "tenant_call \<Rightarrow> string option" where
  "call_target (AdmitRequest c sv op now later) = target c (valid_text sv \<and> valid_text op)"
| "call_target (AcquireSlot c op now) = target c (valid_text op)"
| "call_target (ReleaseSlot c op now) = target c (valid_text op)"
| "call_target (ReserveQueue c q n now) = target c (valid_text q \<and> 0 < n)"
| "call_target (ReleaseQueue c q n now) = target c (valid_text q \<and> 0 < n)"
| "call_target (ReserveStorage c n ty now) = target c (0 < n \<and> valid_text ty)"
| "call_target (ReleaseStorage c n ty now) = target c (valid_text ty \<and> 0 < n)"
| "call_target (TakeSnapshot c now) = target c True"

text \<open>What a call does to the usage of its tenant.\<close>

fun usage_after :: "tenant_call \<Rightarrow> tenant_usage \<Rightarrow> bool \<times> tenant_usage" where
  "usage_after (AdmitRequest c sv op now later) u =
     (if rp_request_limit (tu_plan u) \<le> tu_requests_used u then (False, u)
      else (True, u\<lparr>tu_requests_used := tu_requests_used u + 1\<rparr>))"
| "usage_after (AcquireSlot c op now) u =
     (False, if rp_concurrent_operations (tu_plan u) \<le> tu_concurrent_operations u then u
             else u\<lparr>tu_concurrent_operations := tu_concurrent_operations u + 1\<rparr>)"
| "usage_after (ReleaseSlot c op now) u =
     (False, u\<lparr>tu_concurrent_operations := max (tu_concurrent_operations u - 1) 0\<rparr>)"
| "usage_after (ReserveQueue c q n now) u =
     (False, if rp_queue_depth (tu_plan u) < tu_queue_items u + n then u
             else u\<lparr>tu_queue_items := tu_queue_items u + n\<rparr>)"
| "usage_after (ReleaseQueue c q n now) u = (False, u\<lparr>tu_queue_items := max (tu_queue_items u - n) 0\<rparr>)"
| "usage_after (ReserveStorage c n ty now) u =
     (False, if rp_storage_bytes (tu_plan u) < tu_storage_bytes_used u + n then u
             else u\<lparr>tu_storage_bytes_used := tu_storage_bytes_used u + n\<rparr>)"
| "usage_after (ReleaseStorage c n ty now) u =
     (False, u\<lparr>tu_storage_bytes_used := max (tu_storage_bytes_used u - n) 0\<rparr>)"
| "usage_after (TakeSnapshot c now) u = (False, u)"

lemmas resource_defs =
  admit_request_def acquire_operation_slot_def release_operation_slot_def reserve_queue_items_def
  release_queue_items_def reserve_storage_bytes_def release_storage_bytes_def resource_snapshot_def

lemma put_usage_twice [simp]: "put_usage t v (put_usage t u m) = put_usage t v m"
  by (simp add: put_usage_def)

lemma tenant_step_None:
  "call_target k = None \<Longrightarrow> tenant_step m k = (False, m)"
  by (cases k) (auto simp: resource_defs state_for_context_def target_def bnd_def act_eval required_text_def
      positive_amount_def plain_tenant_id_def not_less split: if_splits)

lemma tenant_step_Some:
  assumes "call_target k = Some t"
  shows "tenant_step m k =
    (let (b, v) = usage_after k (current_usage m (call_time k) t) in (b, put_usage t v m))"
  using assms
  by (cases k) (auto simp: resource_defs state_for_context_def target_def bnd_def act_eval required_text_def
      positive_amount_def plain_tenant_id_def not_less Let_def decision_def split: if_splits)

section \<open>Quotas\<close>

definition plan_valid :: "resource_plan \<Rightarrow> bool" where
  "plan_valid p \<longleftrightarrow>
     0 < rp_window_seconds p \<and> 0 \<le> rp_request_limit p \<and> 0 \<le> rp_concurrent_operations p \<and>
     0 \<le> rp_storage_bytes p \<and> 0 \<le> rp_queue_depth p"

lemma resource_plan_valid: "resource_plan n r w c b q = Inr p \<Longrightarrow> plan_valid p"
  by (auto simp: resource_plan_def plan_valid_def split: if_splits)

definition usage_within :: "resource_plan \<Rightarrow> tenant_usage \<Rightarrow> bool" where
  "usage_within p u \<longleftrightarrow>
     tu_requests_used u \<in> {0..rp_request_limit p} \<and>
     tu_concurrent_operations u \<in> {0..rp_concurrent_operations p} \<and>
     tu_storage_bytes_used u \<in> {0..rp_storage_bytes p} \<and> tu_queue_items u \<in> {0..rp_queue_depth p}"

definition resources_within :: "resource_manager \<Rightarrow> bool" where
  "resources_within m \<longleftrightarrow>
     (\<forall>t. plan_valid (plan_of m t)) \<and>
     (\<forall>t u. map_of (rm_states m) t = Some u \<longrightarrow> usage_within (plan_of m t) u)"

definition fresh_manager :: "resource_plan \<Rightarrow> (string, resource_plan) dict \<Rightarrow> resource_manager" where
  "fresh_manager plan plans = \<lparr>rm_default_plan = plan, rm_tenant_plans = plans, rm_states = []\<rparr>"

lemma plan_of_put_usage [simp]: "plan_of (put_usage t u m) = plan_of m"
  by (simp add: plan_of_def put_usage_def fun_eq_iff split: option.split)

lemma states_put_usage [simp]:
  "map_of (rm_states (put_usage t u m)) t' = (if t' = t then Some u else map_of (rm_states m) t')"
  by (simp add: put_usage_def)

lemma tu_plan_current [simp]: "tu_plan (current_usage m now t) = plan_of m t"
  by (simp add: current_usage_def fresh_usage_def roll_window_if_needed_def split: option.split)

lemma current_usage_within: "resources_within m \<Longrightarrow> usage_within (plan_of m t) (current_usage m now t)"
  by (cases "map_of (rm_states m) t")
    (auto simp: resources_within_def current_usage_def fresh_usage_def roll_window_if_needed_def
      usage_within_def plan_valid_def)

lemma usage_after_within:
  assumes "usage_after k u = (b, v)" "call_target k = Some t" "usage_within (tu_plan u) u" "plan_valid (tu_plan u)"
  shows "usage_within (tu_plan u) v \<and> tu_plan v = tu_plan u"
  using assms by (cases k) (auto simp: usage_within_def plan_valid_def target_def split: if_splits)

lemma tenant_step_within:
  assumes "resources_within m" and "tenant_step m k = (b, n)"
  shows "resources_within n \<and> plan_of n = plan_of m"
proof (cases "call_target k")
  case None
  with assms show ?thesis by (simp add: tenant_step_None)
next
  case (Some t)
  obtain c v where v: "usage_after k (current_usage m (call_time k) t) = (c, v)" by fastforce
  with Some assms(2) have n: "n = put_usage t v m" by (simp add: tenant_step_Some)
  have "usage_within (plan_of m t) v"
    using usage_after_within [OF v Some] current_usage_within [OF assms(1), of t] assms(1)
    by (simp add: resources_within_def)
  with assms(1) show ?thesis by (simp add: resources_within_def n)
qed

text \<open>Other tenants are not affected.\<close>

lemma tenant_step_other:
  assumes "call_target k \<noteq> Some t" and "tenant_step m k = (b, n)"
  shows "plan_of n = plan_of m \<and> map_of (rm_states n) t = map_of (rm_states m) t"
  using assms
  by (cases "call_target k") (auto simp: tenant_step_None tenant_step_Some Let_def split: prod.splits)

section \<open>The request window of a tenant\<close>

fun is_request :: "tenant_call \<Rightarrow> bool" where
  "is_request (AdmitRequest c sv op now later) = True"
| "is_request _ = False"

definition usage_window :: "string \<Rightarrow> resource_manager \<Rightarrow> int option" where
  "usage_window t m = map_option tu_window_started_at (map_of (rm_states m) t)"

definition usage_requests :: "string \<Rightarrow> resource_manager \<Rightarrow> int" where
  "usage_requests t m = (case map_of (rm_states m) t of None \<Rightarrow> 0 | Some u \<Rightarrow> tu_requests_used u)"

lemma current_usage_requests:
  "tu_requests_used (current_usage m now t) =
     (if usage_window t m = Some (window_started_at (plan_of m t) now) then usage_requests t m else 0)"
  "tu_window_started_at (current_usage m now t) = window_started_at (plan_of m t) now"
  by (auto simp: current_usage_def usage_window_def usage_requests_def fresh_usage_def
      roll_window_if_needed_def split: option.split)

lemma usage_after_requests:
  "usage_after k u = (b, v) \<Longrightarrow>
     b = (is_request k \<and> tu_requests_used u < rp_request_limit (tu_plan u)) \<and>
     tu_requests_used v = tu_requests_used u + (if b then 1 else 0) \<and>
     tu_window_started_at v = tu_window_started_at u"
  by (cases k) (auto split: if_splits)

lemma tenant_step_requests:
  assumes "tenant_step m k = (b, n)" and "call_target k = Some t"
  shows "usage_window t n = Some (window_started_at (plan_of m t) (call_time k))"
    and "b = (is_request k \<and> tu_requests_used (current_usage m (call_time k) t) < rp_request_limit (plan_of m t))"
    and "usage_requests t n = tu_requests_used (current_usage m (call_time k) t) + (if b then 1 else 0)"
proof -
  obtain c v where v: "usage_after k (current_usage m (call_time k) t) = (c, v)" by fastforce
  with assms have n: "b = c" "n = put_usage t v m" by (simp_all add: tenant_step_Some)
  with usage_after_requests [OF v]
  show "usage_window t n = Some (window_started_at (plan_of m t) (call_time k))"
    and "b = (is_request k \<and> tu_requests_used (current_usage m (call_time k) t) < rp_request_limit (plan_of m t))"
    and "usage_requests t n = tu_requests_used (current_usage m (call_time k) t) + (if b then 1 else 0)"
    by (auto simp: usage_window_def usage_requests_def current_usage_requests(2))
qed

lemma tenant_step_plan: "tenant_step m k = (b, n) \<Longrightarrow> plan_of n = plan_of m"
  by (cases "call_target k") (auto simp: tenant_step_None tenant_step_Some split: prod.splits)

interpretation quota: fixed_window tenant_step "\<lambda>k. call_target k = Some t" is_request call_time
  "usage_window t" "usage_requests t" "\<lambda>m. plan_of m t = p \<and> plan_valid p"
  "rp_window_seconds p" "rp_request_limit p" for t p
proof (unfold_locales, goal_cases)
  case 1
  then show ?case by (simp add: plan_valid_def)
next
  case 2
  then show ?case by (simp add: tenant_step_plan)
next
  case (3 m k b n)
  then show ?case using tenant_step_other [of k t m b n] tenant_step_None [of k m]
    by (cases "call_target k") (auto simp: usage_window_def usage_requests_def tenant_step_Some split: prod.splits)
next
  case (4 m k b n)
  then show ?case using tenant_step_requests(1) by (simp add: window_of_def window_started_at_def)
next
  case (5 m k b n)
  then show ?case using tenant_step_requests(2) [OF 5(2,3)] current_usage_requests(1)
    by (simp add: window_of_def window_started_at_def)
next
  case (6 m k b n)
  then show ?case using tenant_step_requests(3) [OF 6(2,3)] current_usage_requests(1)
    by (simp add: window_of_def window_started_at_def)
qed

end
