(* ===== verification/Gateway.thy ===== *)
theory Gateway
  imports S2sAuth TenantResources
begin

text \<open>
  \<open>libs/shared/gateway.py\<close>: routes by path prefix, the fixed-window rate limiter, and the ASGI
  middleware that admits a request, rewrites its headers and hands it to the service. The services are
  a parameter, a function of the route and the rewritten scope. The middleware's error responses are
  those of the tenant middleware; \<open>gs_rate_headers\<close> keeps the rate-limit headers of a refusal.
\<close>

section \<open>Routes\<close>

record gateway_route =
  gr_service_name :: string
  gr_path_prefix :: string

definition rstrip_slash :: "string \<Rightarrow> string" where
  "rstrip_slash s = rev (dropWhile (\<lambda>c. c = CHR 0x2F) (rev s))"

definition normalize_path_prefix :: "string \<Rightarrow> exn + string" where
  "normalize_path_prefix path_prefix =
     (let n = rstrip_slash (py_strip path_prefix) in
      if n = [] then Inl (ValueError ''path_prefix'')
      else if hd n \<noteq> CHR 0x2F then Inl (ValueError ''path_prefix'')
      else if n = [CHR 0x2F] then Inl (ValueError ''path_prefix'')
      else Inr n)"

definition gateway_route :: "string \<Rightarrow> string \<Rightarrow> exn + gateway_route" where
  "gateway_route service_name path_prefix =
     ebind (normalize_path_prefix path_prefix) (\<lambda>prefix.
     if py_strip service_name = [] then Inl (ValueError ''service_name'')
     else Inr \<lparr>gr_service_name = py_strip service_name, gr_path_prefix = prefix\<rparr>)"

definition route_for_service :: "string \<Rightarrow> exn + gateway_route" where
  "route_for_service service_name = gateway_route (py_strip service_name) (CHR 0x2F # py_strip service_name)"

definition starts_with :: "string \<Rightarrow> string \<Rightarrow> bool" where
  "starts_with p s \<longleftrightarrow> take (length p) s = p"

definition route_matches :: "gateway_route \<Rightarrow> string \<Rightarrow> bool" where
  "route_matches r path \<longleftrightarrow> path = gr_path_prefix r \<or> starts_with (gr_path_prefix r @ [CHR 0x2F]) path"

definition downstream_path :: "gateway_route \<Rightarrow> string \<Rightarrow> string" where
  "downstream_path r path =
     (let suffix = drop (length (gr_path_prefix r)) path in if suffix = [] then [CHR 0x2F] else suffix)"

section \<open>The rate limiter\<close>

record rate_limit_policy =
  rl_limit :: int
  rl_window_seconds :: int

definition rate_limit_policy :: "int \<Rightarrow> int \<Rightarrow> exn + rate_limit_policy" where
  "rate_limit_policy limit window_seconds =
     (if limit \<le> 0 then Inl (ValueError ''limit'')
      else if window_seconds \<le> 0 then Inl (ValueError ''window_seconds'')
      else Inr \<lparr>rl_limit = limit, rl_window_seconds = window_seconds\<rparr>)"

record rate_limit_decision =
  rl_allowed :: bool
  rl_decision_limit :: int
  rl_remaining :: int
  rl_reset_at :: int
  rl_retry_after_seconds :: int

text \<open>The windows by key: when the window started and how many requests it has admitted.\<close>

type_synonym rate_windows = "(string, int \<times> int) dict"

definition limiter_check :: "rate_limit_policy \<Rightarrow> string \<Rightarrow> int \<Rightarrow> (rate_windows, rate_limit_decision) act" where
  "limiter_check p key now =
     bnd (require (py_strip key \<noteq> []) (ValueError ''rate limit key'')) (\<lambda>_.
     let start = now - now mod rl_window_seconds p;
         reset_at = start + rl_window_seconds p
     in
     bnd (gets (\<lambda>ws. case map_of ws key of
            Some (s, n) \<Rightarrow> if s = start then (s, n) else (start, 0)
          | None \<Rightarrow> (start, 0))) (\<lambda>(s, n).
     bnd (modify (AList.update key (s, n))) (\<lambda>_.
     if rl_limit p \<le> n then
       ret \<lparr>rl_allowed = False, rl_decision_limit = rl_limit p, rl_remaining = 0, rl_reset_at = reset_at,
            rl_retry_after_seconds = max 1 (reset_at - now)\<rparr>
     else
       bnd (modify (AList.update key (s, n + 1))) (\<lambda>_.
       ret \<lparr>rl_allowed = True, rl_decision_limit = rl_limit p, rl_remaining = rl_limit p - (n + 1),
            rl_reset_at = reset_at, rl_retry_after_seconds = 0\<rparr>))))"

section \<open>Headers\<close>

text \<open>\<open>bytes.lower\<close> changes ASCII letters only.\<close>

definition bytes_lower :: "string \<Rightarrow> string" where
  "bytes_lower s = map (\<lambda>c. if 65 \<le> byte c \<and> byte c \<le> 90 then char_of (byte c + 32) else c) s"

definition HOP_BY_HOP_HEADERS :: "string list" where
  "HOP_BY_HOP_HEADERS =
     [''connection'', ''keep-alive'', ''proxy-authenticate'', ''proxy-authorization'', ''te'', ''trailer'',
      ''transfer-encoding'', ''upgrade'']"

definition GATEWAY_CONTEXT_HEADERS :: "string list" where
  "GATEWAY_CONTEXT_HEADERS =
     [''x-actor-roles'', ''x-correlation-id'', ''x-forwarded-prefix'', ''x-original-path'',
      ''x-service-name'', ''x-subject-id'', ''x-tenant-id'']"

fun raw_headers :: "raw_header list option \<Rightarrow> (string \<times> string) list" where
  "raw_headers None = []"
| "raw_headers (Some hs) =
     concat (map (\<lambda>h. case h of Header n v \<Rightarrow> [(n, v)] | OtherHeader \<Rightarrow> []) hs)"

definition header_value :: "(string \<times> string) list \<Rightarrow> string \<Rightarrow> string option" where
  "header_value hs name = map_option snd (find (\<lambda>(n, v). bytes_lower n = bytes_lower name) hs)"

definition header_name_bytes :: "string \<Rightarrow> exn + string" where
  "header_name_bytes v =
     (let n = py_lower (py_strip v) in
      if n = [] then Inl (ValueError ''header name'')
      else if \<not> is_ascii n then Inl (ValueError ''ascii'')
      else Inr n)"

fun header_names_bytes :: "(string \<times> string) list \<Rightarrow> exn + (string \<times> string) list" where
  "header_names_bytes [] = Inr []"
| "header_names_bytes ((n, v) # hs) =
     ebind (header_name_bytes n) (\<lambda>m. ebind (header_names_bytes hs) (\<lambda>rest. Inr ((m, utf8 v) # rest)))"

section \<open>Requests\<close>

record gateway_scope =
  gw_type :: string
  gw_path :: string
  gw_method :: string
  gw_root_path :: string
  gw_raw_path :: "string option"
  gw_headers :: "raw_header list option"

text \<open>The configuration of the middleware; \<open>None\<close> for a manager or authenticator it was not given.\<close>

record gateway =
  gw_routes :: "gateway_route list"
  gw_rate_policy :: rate_limit_policy
  gw_has_resources :: bool
  gw_s2s :: "s2s_config option"
  gw_source_service_name :: string

definition gateway ::
    "gateway_route list \<Rightarrow> rate_limit_policy \<Rightarrow> bool \<Rightarrow> s2s_config option \<Rightarrow> string \<Rightarrow> exn + gateway" where
  "gateway routes policy has_resources s2s source_service_name =
     (if routes = [] then Inl (ValueError ''routes'')
      else if py_strip source_service_name = [] then Inl (ValueError ''source_service_name'')
      else Inr \<lparr>gw_routes = sort_key (\<lambda>r. - int (length (gr_path_prefix r))) routes,
                gw_rate_policy = policy, gw_has_resources = has_resources, gw_s2s = s2s,
                gw_source_service_name = py_strip source_service_name\<rparr>)"

record gateway_state = asgi_state +
  gs_windows :: rate_windows
  gs_resources :: resource_manager
  gs_s2s :: s2s_state
  gs_uuids :: nat
  gs_rate_headers :: "(string \<times> int) list list"

text \<open>The clock readings of one request, in the order in which they are made.\<close>

record gateway_times =
  gt_limiter :: int
  gt_admit :: int
  gt_retry :: int
  gt_slot :: int
  gt_sign :: pyfloat
  gt_release :: int

definition on_windows :: "(rate_windows, 'a) act \<Rightarrow> ('z gateway_state_scheme, 'a) act" where
  "on_windows m s = (case m (gs_windows s) of (r, w) \<Rightarrow> (r, s\<lparr>gs_windows := w\<rparr>))"

definition on_resources :: "(resource_manager, 'a) act \<Rightarrow> ('z gateway_state_scheme, 'a) act" where
  "on_resources m s = (case m (gs_resources s) of (r, w) \<Rightarrow> (r, s\<lparr>gs_resources := w\<rparr>))"

definition on_s2s :: "(s2s_state, 'a) act \<Rightarrow> ('z gateway_state_scheme, 'a) act" where
  "on_s2s m s = (case m (gs_s2s s) of (r, w) \<Rightarrow> (r, s\<lparr>gs_s2s := w\<rparr>))"

definition route_for_scope :: "gateway \<Rightarrow> gateway_scope \<Rightarrow> tenant_context \<Rightarrow> exn + gateway_route" where
  "route_for_scope g scope c =
     (case find (\<lambda>r. route_matches r (gw_path scope)) (gw_routes g) of
        Some r \<Rightarrow> Inr r
      | None \<Rightarrow> Inl (GatewayRouteNotFoundError (gw_path scope) (tc_correlation_id c)))"

definition rate_limit_key :: "tenant_context \<Rightarrow> gateway_route \<Rightarrow> string" where
  "rate_limit_key c r =
     ''tenant:'' @ tc_tenant_id c @ '':subject:'' @ or_text (tc_subject c) ''anonymous''
     @ '':service:'' @ gr_service_name r"

definition operation_name :: "gateway_scope \<Rightarrow> gateway_route \<Rightarrow> string" where
  "operation_name scope r = or_text (Some (py_lower (gw_method scope))) ''http'' @ ''.'' @ gr_service_name r"

definition rate_limited_error :: "rate_limit_policy \<Rightarrow> rate_limit_decision \<Rightarrow> tenant_context \<Rightarrow> exn" where
  "rate_limited_error p d c =
     RateLimitedError (rl_limit p) (rl_window_seconds p) (rl_remaining d) (rl_reset_at d)
       (rl_retry_after_seconds d) (tc_correlation_id c)"

definition resource_limit_error :: "resource_decision \<Rightarrow> tenant_context \<Rightarrow> exn" where
  "resource_limit_error d c =
     TenantResourceLimitError (or_text (rd_reason d) []) (rd_plan_name d) (rd_resource_type d)
       (rd_retry_after_seconds d) (tc_correlation_id c)"

text \<open>\<open>context.correlation_id or header\<close>, and a fresh one when both are missing.\<close>

definition correlation_for ::
    "runtime \<Rightarrow> tenant_context \<Rightarrow> (string \<times> string) list \<Rightarrow> ('z gateway_state_scheme, string) act" where
  "correlation_for rt c hs =
     (case or_else (tc_correlation_id c) (header_value hs ''x-correlation-id'') of
        Some cid \<Rightarrow> ret cid
      | None \<Rightarrow>
          bnd (gets (\<lambda>s. filter (\<lambda>x. x \<noteq> CHR ''-'') (rt_uuid4 rt (gs_uuids s)))) (\<lambda>cid.
          bnd (modify (\<lambda>s. s\<lparr>gs_uuids := Suc (gs_uuids s)\<rparr>)) (\<lambda>_. ret cid)))"

definition signed_downstream_headers ::
    "s2s_library \<Rightarrow> gateway \<Rightarrow> (string \<times> string) list \<Rightarrow> string \<Rightarrow> string \<Rightarrow> pyfloat
     \<Rightarrow> ('z gateway_state_scheme, (string \<times> string) list) act" where
  "signed_downstream_headers lib g headers m path now =
     (case gw_s2s g of
        None \<Rightarrow> ret headers
      | Some c \<Rightarrow>
          bnd (on_s2s (sign_request lib c m path (gw_source_service_name g) [] None None now)) (\<lambda>signed.
          bnd (lift (header_names_bytes signed)) (\<lambda>new.
          ret (filter (\<lambda>(n, v). bytes_lower n \<notin> set (map fst new)) headers @ new))))"

definition context_headers ::
    "tenant_context \<Rightarrow> gateway_route \<Rightarrow> string \<Rightarrow> string \<Rightarrow> (string \<times> string) list" where
  "context_headers c r original_path correlation_id =
     [(''x-correlation-id'', utf8 correlation_id), (''x-tenant-id'', utf8 (tc_tenant_id c)),
      (''x-service-name'', ''api-gateway''), (''x-forwarded-prefix'', utf8 (gr_path_prefix r)),
      (''x-original-path'', utf8 original_path),
      (''x-actor-roles'', utf8 (join_with '','' (tc_roles c)))]
     @ (case tc_subject c of None \<Rightarrow> [] | Some s \<Rightarrow> [(''x-subject-id'', utf8 s)])"

definition forwarded_headers :: "(string \<times> string) list \<Rightarrow> (string \<times> string) list" where
  "forwarded_headers hs =
     filter (\<lambda>(n, v). bytes_lower n \<notin> set HOP_BY_HOP_HEADERS \<and>
                      bytes_lower n \<notin> set GATEWAY_CONTEXT_HEADERS) hs"

definition downstream_headers ::
    "runtime \<Rightarrow> s2s_library \<Rightarrow> gateway \<Rightarrow> gateway_scope \<Rightarrow> gateway_route \<Rightarrow> tenant_context \<Rightarrow> pyfloat
     \<Rightarrow> ('z gateway_state_scheme, (string \<times> string) list) act" where
  "downstream_headers rt lib g scope r c now =
     (let hs = raw_headers (gw_headers scope) in
      bnd (correlation_for rt c hs) (\<lambda>cid.
      signed_downstream_headers lib g (forwarded_headers hs @ context_headers c r (gw_path scope) cid)
        (gw_method scope) (downstream_path r (gw_path scope)) now))"

definition root_path :: "gateway_scope \<Rightarrow> gateway_route \<Rightarrow> string" where
  "root_path scope r = rstrip_slash (gw_root_path scope) @ gr_path_prefix r"

definition downstream_scope ::
    "runtime \<Rightarrow> s2s_library \<Rightarrow> gateway \<Rightarrow> gateway_scope \<Rightarrow> gateway_route \<Rightarrow> tenant_context \<Rightarrow> pyfloat
     \<Rightarrow> ('z gateway_state_scheme, gateway_scope) act" where
  "downstream_scope rt lib g scope r c now =
     bnd (downstream_headers rt lib g scope r c now) (\<lambda>hs.
     let path = downstream_path r (gw_path scope) in
     ret (scope\<lparr>gw_path := path, gw_root_path := root_path scope r,
                gw_headers := Some (map (\<lambda>(n, v). Header n v) hs),
                gw_raw_path := map_option (\<lambda>_. utf8 path) (gw_raw_path scope)\<rparr>))"

section \<open>The middleware\<close>

text \<open>
  What the \<open>try\<close> block computes: the context, the route, the operation and the rewritten scope. A
  slot is acquired on the way when there is a resource manager.
\<close>

record admission =
  ad_context :: tenant_context
  ad_route :: gateway_route
  ad_operation :: string
  ad_scope :: gateway_scope

definition acquire_resources ::
    "gateway \<Rightarrow> tenant_context \<Rightarrow> gateway_route \<Rightarrow> string \<Rightarrow> gateway_times \<Rightarrow> ('z gateway_state_scheme, unit) act" where
  "acquire_resources g c r op tm =
     (if \<not> gw_has_resources g then ret ()
      else
        bnd (on_resources (admit_request c (gr_service_name r) op (gt_admit tm) (gt_retry tm))) (\<lambda>d.
        bnd (require (rd_allowed d) (resource_limit_error d c)) (\<lambda>_.
        bnd (on_resources (acquire_operation_slot c op (gt_slot tm))) (\<lambda>d'.
        require (rd_allowed d') (resource_limit_error d' c)))))"

definition admit ::
    "runtime \<Rightarrow> s2s_library \<Rightarrow> gateway \<Rightarrow> gateway_scope \<Rightarrow> gateway_times \<Rightarrow> ('z gateway_state_scheme, admission) act" where
  "admit rt lib g scope tm =
     bnd (gets as_context) (\<lambda>ambient.
     bnd (lift (resolve_context ambient None)) (\<lambda>c.
     bnd (lift (route_for_scope g scope c)) (\<lambda>r.
     let op = operation_name scope r in
     bnd (on_windows (limiter_check (gw_rate_policy g) (rate_limit_key c r) (gt_limiter tm))) (\<lambda>d.
     bnd (require (rl_allowed d) (rate_limited_error (gw_rate_policy g) d c)) (\<lambda>_.
     bnd (acquire_resources g c r op tm) (\<lambda>_.
     bnd (downstream_scope rt lib g scope r c (gt_sign tm)) (\<lambda>sc.
     ret \<lparr>ad_context = c, ad_route = r, ad_operation = op, ad_scope = sc\<rparr>)))))))"

text \<open>\<open>_send_error\<close> for the subclasses of \<open>TenantCoreError\<close>; other exceptions are not caught.\<close>

definition rate_headers :: "exn \<Rightarrow> (string \<times> int) list" where
  "rate_headers e =
     (case e of
        RateLimitedError limit window remaining reset_at retry_after cid \<Rightarrow>
          [(''retry-after'', retry_after), (''x-ratelimit-limit'', limit),
           (''x-ratelimit-remaining'', remaining), (''x-ratelimit-reset'', reset_at)]
      | _ \<Rightarrow> [])"

definition refuse :: "exn \<Rightarrow> int \<Rightarrow> string \<Rightarrow> string option \<Rightarrow> ('z gateway_state_scheme, unit) act" where
  "refuse e status code cid =
     bnd (send_error status code ''gateway'' cid) (\<lambda>_.
     modify (\<lambda>s. s\<lparr>gs_rate_headers := gs_rate_headers s @ [rate_headers e]\<rparr>))"

definition gateway_send_error :: "exn \<Rightarrow> ('z gateway_state_scheme, unit) act" where
  "gateway_send_error e =
     (case e of
        GatewayRouteNotFoundError path cid \<Rightarrow> refuse e 404 ''service_not_found'' cid
      | RateLimitedError limit window remaining reset_at retry_after cid \<Rightarrow> refuse e 429 ''rate_limited'' cid
      | TenantResourceLimitError reason plan ty retry_after cid \<Rightarrow> refuse e 429 ''rate_limited'' cid
      | TenantIsolationError m cid audited \<Rightarrow> refuse e 403 ''tenant_isolation_violation'' cid
      | UnauthorizedError m cid \<Rightarrow> refuse e 401 ''unauthorized'' cid
      | _ \<Rightarrow> fail e)"

text \<open>\<open>try: m; finally: f\<close>.\<close>

definition finally_do :: "('s, 'a) act \<Rightarrow> ('s, 'b) act \<Rightarrow> ('s, 'a) act" where
  "finally_do m f s =
     (case m s of (r, t) \<Rightarrow> case f t of (Inl e, u) \<Rightarrow> (Inl e, u) | (Inr _, u) \<Rightarrow> (r, u))"

definition release_slot ::
    "gateway \<Rightarrow> admission \<Rightarrow> gateway_times \<Rightarrow> ('z gateway_state_scheme, unit) act" where
  "release_slot g a tm =
     (if gw_has_resources g then
        bnd (on_resources (release_operation_slot (ad_context a) (ad_operation a) (gt_release tm))) (\<lambda>_. ret ())
      else ret ())"

definition call_gateway ::
    "runtime \<Rightarrow> s2s_library \<Rightarrow> gateway \<Rightarrow> gateway_scope \<Rightarrow> gateway_times
     \<Rightarrow> (gateway_route \<Rightarrow> gateway_scope \<Rightarrow> ('z gateway_state_scheme, unit) act)
     \<Rightarrow> ('z gateway_state_scheme, unit) act" where
  "call_gateway rt lib g scope tm app s =
     (if gw_type scope \<noteq> ''http''
      then gateway_send_error (GatewayRouteNotFoundError (gw_path scope) None) s
      else
        case admit rt lib g scope tm s of
          (Inl e, t) \<Rightarrow> gateway_send_error e t
        | (Inr a, t) \<Rightarrow> finally_do (app (ad_route a) (ad_scope a)) (release_slot g a tm) t)"

end
