(* ===== verification/S2sReplay.thy ===== *)
theory S2sReplay
  imports S2sAuth
begin

text \<open>
  The nonce cache over time. A nonce that was remembered with a time stamp is \<open>spent\<close>: as long as
  the clock does not run backwards, it either is in the cache or its time stamp is outside the window,
  and in both cases a request that carries it again is refused.
\<close>

section \<open>Elapsed time\<close>

lemma float_sub_mono: "float_le a b \<Longrightarrow> float_le (float_sub a (Fin q)) (float_sub b (Fin q))"
  by (cases a; cases b) (auto simp: float_sub_def intro!: fl_mono)

lemma exceeds_mono: "float_le d d' \<Longrightarrow> exceeds d w \<Longrightarrow> exceeds d' w"
  by (cases d; cases d') (auto simp: exceeds_def float_lt_def)

lemma exceeds_abs: "exceeds d w \<Longrightarrow> exceeds (float_abs d) w"
  by (cases d) (auto simp: exceeds_def float_lt_def)

definition timed_out :: "pyfloat \<Rightarrow> int \<Rightarrow> int \<Rightarrow> bool" where
  "timed_out now timestamp w \<longleftrightarrow> (\<exists>d. elapsed now timestamp = Inr d \<and> exceeds d w)"

lemma timed_out_mono: "float_le now now' \<Longrightarrow> timed_out now ts w \<Longrightarrow> timed_out now' ts w"
  by (auto simp: timed_out_def elapsed_def float_of_int_def split: pyfloat.splits
      intro: exceeds_mono [OF float_sub_mono])

section \<open>The cache\<close>

definition spent :: "string \<Rightarrow> int \<Rightarrow> int \<Rightarrow> pyfloat \<Rightarrow> s2s_state \<Rightarrow> bool" where
  "spent key ts w now s \<longleftrightarrow>
     dict_ok (ss_seen_nonces s) \<and> (map_of (ss_seen_nonces s) key = Some ts \<or> timed_out now ts w)"

lemma expired_nonces_set:
  "expired_nonces now w d = Inr ns \<Longrightarrow> set ns = {n. \<exists>ts. (n, ts) \<in> set d \<and> timed_out now ts w}"
proof (induction d arbitrary: ns)
  case (Cons p d)
  then show ?case by (cases p) (fastforce simp: timed_out_def split: if_splits)
qed simp

lemma map_of_fold_delete: "map_of (fold AList.delete ns d) k = (if k \<in> set ns then None else map_of d k)"
  by (induction ns arbitrary: d) (auto simp: delete_conv')

lemma dict_ok_fold_delete: "dict_ok d \<Longrightarrow> dict_ok (fold AList.delete ns d)"
  by (induction ns arbitrary: d) (auto simp: dict_ok_def distinct_delete)

lemma drop_expired_spent:
  assumes "drop_expired_nonces now' w s = (r, t)" "spent key ts w now s" "float_le now now'"
  shows "spent key ts w now' t"
proof (cases r)
  case (Inl e)
  with assms show ?thesis
    by (auto simp: drop_expired_nonces_def bnd_def act_eval spent_def split: sum.splits dest: timed_out_mono)
next
  case (Inr u)
  then obtain ns where ns: "expired_nonces now' w (ss_seen_nonces s) = Inr ns"
    and t: "t = s\<lparr>ss_seen_nonces := fold AList.delete ns (ss_seen_nonces s)\<rparr>"
    using assms(1) by (auto simp: drop_expired_nonces_def bnd_def act_eval split: sum.splits)
  have ok: "dict_ok (ss_seen_nonces s)" using assms(2) by (simp add: spent_def)
  show ?thesis
  proof (cases "timed_out now' ts w")
    case True
    then show ?thesis using ok by (simp add: spent_def t dict_ok_fold_delete)
  next
    case False
    then have "map_of (ss_seen_nonces s) key = Some ts"
      using assms(2,3) timed_out_mono by (auto simp: spent_def)
    moreover have "key \<notin> set ns"
      using False calculation ok expired_nonces_set [OF ns] by (auto simp: dict_set_iff)
    ultimately show ?thesis using ok by (simp add: spent_def t dict_ok_fold_delete map_of_fold_delete)
  qed
qed

text \<open>Remembering any nonce keeps a spent one spent, and remembering it again succeeds only when its
  time stamp has timed out.\<close>

lemma remember_spent:
  assumes "remember service nonce ts' now' w s = (r, t)" "spent key ts w now s" "float_le now now'"
  shows "spent key ts w now' t \<and> (nonce_key service nonce = key \<longrightarrow> r = Inr u \<longrightarrow> timed_out now' ts w)"
proof -
  obtain q v where dr: "drop_expired_nonces now' w s = (q, v)" by fastforce
  then have v: "spent key ts w now' v" using drop_expired_spent assms(2,3) by blast
  with dr assms(1) show ?thesis
    by (auto simp: remember_def bnd_def act_eval spent_def split: sum.splits if_splits)
qed

lemma remember_spends:
  assumes "remember service nonce ts now w s = (Inr u, t)" "dict_ok (ss_seen_nonces s)"
  shows "spent (nonce_key service nonce) ts w now t"
proof -
  obtain q v where dr: "drop_expired_nonces now w s = (q, v)" by fastforce
  then have "dict_ok (ss_seen_nonces v)"
    using assms(2) by (auto simp: drop_expired_nonces_def bnd_def act_eval dict_ok_fold_delete split: sum.splits)
  with dr assms(1) show ?thesis
    by (auto simp: remember_def bnd_def act_eval spent_def split: sum.splits if_splits)
qed

section \<open>Verification\<close>

text \<open>What a request says of itself: its nonce and its time stamp.\<close>

definition request_stamp :: "(string \<times> string) list \<Rightarrow> string \<Rightarrow> int \<Rightarrow> bool" where
  "request_stamp headers nonce ts \<longleftrightarrow>
     normalize_required_text (map_of (s2s_headers headers) ''x-s2s-nonce'') ''X-S2S-Nonce'' = Inr nonce \<and>
     parse_timestamp (map_of (s2s_headers headers) ''x-s2s-timestamp'') = Inr ts"

lemma request_stamp_unique:
  "request_stamp h n ts \<Longrightarrow> request_stamp h n' ts' \<Longrightarrow> n' = n \<and> ts' = ts"
  by (auto simp: request_stamp_def)

text \<open>The service that the credentials of a request stand for.\<close>

definition shared_service :: "(string \<times> string) list \<Rightarrow> string \<Rightarrow> bool" where
  "shared_service headers service \<longleftrightarrow>
     normalize_required_text (map_of (s2s_headers headers) ''x-s2s-service'') ''X-S2S-Service'' = Inr service"

definition rsa_service :: "s2s_library \<Rightarrow> s2s_config \<Rightarrow> (string \<times> string) list \<Rightarrow> string \<Rightarrow> bool" where
  "rsa_service lib c headers service \<longleftrightarrow>
     (\<exists>token key claims. bearer_token (s2s_headers headers) = Inr token \<and>
        key_bytes lib (s2_rsa_public_key_path c) ''rsa_public_key_path'' = Inr key \<and>
        decode_signed_token lib token key (s2_rsa_audience c) (s2_rsa_issuer c) = Inr claims \<and>
        claim_required_text claims ''sub'' = Inr service)"

definition k8s_service ::
    "s2s_config \<Rightarrow> (string \<Rightarrow> s2s_config \<Rightarrow> exn + review_result) \<Rightarrow> (string \<times> string) list \<Rightarrow> string \<Rightarrow> bool" where
  "k8s_service c validator headers service \<longleftrightarrow>
     (\<exists>token review. bearer_token (s2s_headers headers) = Inr token \<and> validator token c = Inr review \<and>
        rv_service_name review = service)"

definition request_service :: "s2s_library \<Rightarrow> s2s_config \<Rightarrow> (string \<times> string) list \<Rightarrow> string \<Rightarrow> bool" where
  "request_service lib c headers service =
     (case detect_auth_method lib c of
        K8S_SA \<Rightarrow> k8s_service c (default_k8s_token_validator lib) headers service
      | RSA_KEY \<Rightarrow> rsa_service lib c headers service
      | SHARED_SECRET \<Rightarrow> shared_service headers service)"

lemma request_service_unique:
  "request_service lib c h x \<Longrightarrow> request_service lib c h y \<Longrightarrow> x = y"
  by (auto simp: request_service_def shared_service_def rsa_service_def k8s_service_def split: auth_method.splits)

text \<open>
  A verification leaves the cache alone or remembers one nonce; when it accepts, this is the nonce of the
  request, whose time stamp is inside the window.
\<close>

definition verifies ::
    "int \<Rightarrow> pyfloat \<Rightarrow> (string \<times> string) list \<Rightarrow> (string \<Rightarrow> bool) \<Rightarrow> s2s_state
     \<Rightarrow> exn + s2s_identity \<Rightarrow> s2s_state \<Rightarrow> bool" where
  "verifies w now headers service s r t \<longleftrightarrow>
     (\<exists>e. r = Inl e) \<and> t = s \<or>
     (\<exists>sv nonce ts q. remember sv nonce ts now w s = (q, t) \<and> (\<exists>e. r = Inl e)) \<or>
     (\<exists>i nonce ts d. r = Inr i \<and> remember (id_service_name i) nonce ts now w s = (Inr (), t) \<and>
        request_stamp headers nonce ts \<and> service (id_service_name i) \<and>
        elapsed now ts = Inr d \<and> \<not> exceeds (float_abs d) w)"

lemma remember_cases: "remember sv n ts now w s = (q, t) \<Longrightarrow> q = Inr () \<or> (\<exists>e. q = Inl e)"
  by (cases q) auto

lemma in_window_eval:
  "require_in_window now ts w s =
     (case elapsed now ts of Inl e \<Rightarrow> (Inl e, s)
      | Inr d \<Rightarrow> if exceeds (float_abs d) w then (Inl (S2SAuthenticationError ''timestamp window''), s) else (Inr (), s))"
  by (auto simp: require_in_window_def bnd_def act_eval split: sum.split)

lemma verifies_fail [simp]: "verifies w now h sv s (Inl e) s"
  by (simp add: verifies_def)

lemma verifies_Inl: "remember sv nonce ts now w s = (Inl e, t) \<Longrightarrow> verifies w now h service s (Inl e') t"
  by (auto simp: verifies_def)

lemma verifies_Inr:
  assumes "remember sv nonce ts now w s = (Inr u, t)" "request_stamp h nonce ts" "service sv"
    "elapsed now ts = Inr d" "\<not> exceeds (float_abs d) w"
  shows "verifies w now h service s (Inr \<lparr>id_service_name = sv, id_method = x\<rparr>) t"
  using assms by (auto simp: verifies_def)

lemmas verify_simps =
  act_simps in_window_eval outcome_def [of "require_in_window _ _ _"] outcome_def [of "remember _ _ _ _ _"]
  request_stamp_def

lemma shared_verifies:
  "outcome (shared_verify_request lib c h m p now)
     (verifies (s2_replay_window_seconds c) now h (shared_service h) s) s"
  unfolding shared_verify_request_def Let_def
  by (auto simp: verify_simps shared_service_def split: sum.split intro: verifies_Inl intro!: verifies_Inr)

lemma rsa_verifies:
  "outcome (rsa_verify_request lib c h m p now)
     (verifies (s2_replay_window_seconds c) now h (rsa_service lib c h) s) s"
  unfolding rsa_verify_request_def Let_def remember_verified_nonce_def
  by (auto simp: verify_simps split: sum.split intro: verifies_Inl intro!: verifies_Inr)
    (auto simp: rsa_service_def)

lemma k8s_verifies:
  "outcome (k8s_verify_request lib c validator h m p now)
     (verifies (s2_replay_window_seconds c) now h (k8s_service c validator h) s) s"
  unfolding k8s_verify_request_def Let_def remember_verified_nonce_def
  by (auto simp: verify_simps split: sum.split intro: verifies_Inl intro!: verifies_Inr)
    (auto simp: k8s_service_def)

lemma verify_request_verifies:
  assumes "verify_request lib c h m p now s = (r, t)"
  shows "verifies (s2_replay_window_seconds c) now h (request_service lib c h) s r t"
  using assms outcomeD [OF shared_verifies [of lib c h m p now s]] outcomeD [OF rsa_verifies [of lib c h m p now s]]
    outcomeD [OF k8s_verifies [of lib c "default_k8s_token_validator lib" h m p now s]]
  unfolding verify_request_def request_service_def [abs_def]
  by (cases "detect_auth_method lib c") auto

lemma verify_keeps_spent:
  assumes "verify_request lib c h m p now' s = (r, t)"
    and "spent key ts (s2_replay_window_seconds c) now s" and "float_le now now'"
  shows "spent key ts (s2_replay_window_seconds c) now' t"
proof -
  have "spent key ts (s2_replay_window_seconds c) now' s"
    using assms(2,3) timed_out_mono by (auto simp: spent_def)
  then show ?thesis
    using verify_request_verifies [OF assms(1)] assms(2,3) remember_spent
    unfolding verifies_def by blast
qed

text \<open>The requests that an authenticator has served since, with the clock readings of each.\<close>

type_synonym s2s_call = "pyfloat \<times> (string \<times> string) list \<times> string \<times> string"

primrec verify_run :: "s2s_library \<Rightarrow> s2s_config \<Rightarrow> s2s_state \<Rightarrow> s2s_call list \<Rightarrow> s2s_state" where
  "verify_run lib c s [] = s"
| "verify_run lib c s (k # ks) =
     (case k of (now, h, m, p) \<Rightarrow> verify_run lib c (snd (verify_request lib c h m p now s)) ks)"

primrec clock_rises :: "pyfloat \<Rightarrow> s2s_call list \<Rightarrow> pyfloat \<Rightarrow> bool" where
  "clock_rises now [] later = float_le now later"
| "clock_rises now (k # ks) later = (float_le now (fst k) \<and> clock_rises (fst k) ks later)"

lemma run_keeps_spent:
  "spent key ts (s2_replay_window_seconds c) now s \<Longrightarrow> clock_rises now ks later \<Longrightarrow>
     \<exists>now'. float_le now' later \<and> spent key ts (s2_replay_window_seconds c) now' (verify_run lib c s ks)"
proof (induction ks arbitrary: now s)
  case (Cons k ks)
  obtain now' h m p where k: "k = (now', h, m, p)" by (metis prod_cases4)
  obtain r t where v: "verify_request lib c h m p now' s = (r, t)" by fastforce
  have "spent key ts (s2_replay_window_seconds c) now' t"
    using verify_keeps_spent [OF v] Cons.prems by (simp add: k)
  then show ?case using Cons.IH Cons.prems(2) v by (simp add: k)
qed auto

lemma spent_refused:
  assumes "spent (nonce_key service nonce) ts (s2_replay_window_seconds c) now s" "float_le now now'"
    and "request_stamp h nonce ts" "request_service lib c h service"
  shows "\<exists>e. fst (verify_request lib c h m p now' s) = Inl e"
proof -
  obtain r t where v: "verify_request lib c h m p now' s = (r, t)" by fastforce
  have False if "r = Inr i" for i
  proof -
    from verify_request_verifies [OF v, unfolded that verifies_def]
    obtain n ts' d where r: "remember (id_service_name i) n ts' now' (s2_replay_window_seconds c) s = (Inr (), t)"
      and st: "request_stamp h n ts'" and sv: "request_service lib c h (id_service_name i)"
      and d: "elapsed now' ts' = Inr d" "\<not> exceeds (float_abs d) (s2_replay_window_seconds c)" by auto
    have "n = nonce" "ts' = ts" "id_service_name i = service"
      using request_stamp_unique [OF assms(3) st] request_service_unique [OF assms(4) sv] by auto
    with remember_spent [OF r assms(1,2)] have "timed_out now' ts (s2_replay_window_seconds c)" by simp
    with d \<open>ts' = ts\<close> show False using exceeds_abs by (auto simp: timed_out_def)
  qed
  with v show ?thesis by (cases r) auto
qed

lemma accepted_spends:
  assumes "verify_request lib c h m p now s = (Inr i, t)" "dict_ok (ss_seen_nonces s)"
  obtains service nonce ts where "request_stamp h nonce ts" "request_service lib c h service"
    "spent (nonce_key service nonce) ts (s2_replay_window_seconds c) now t"
proof -
  from verify_request_verifies [OF assms(1), unfolded verifies_def]
  obtain nonce ts where "remember (id_service_name i) nonce ts now (s2_replay_window_seconds c) s = (Inr (), t)"
    "request_stamp h nonce ts" "request_service lib c h (id_service_name i)" by auto
  with remember_spends [OF _ assms(2)] that show thesis by blast
qed

section \<open>Signing\<close>

lemma header_names_lower:
  "py_lower ''X-S2S-Method'' = ''x-s2s-method''" "py_lower ''X-S2S-Service'' = ''x-s2s-service''"
  "py_lower ''X-S2S-Timestamp'' = ''x-s2s-timestamp''" "py_lower ''X-S2S-Nonce'' = ''x-s2s-nonce''"
  "py_lower ''X-S2S-Signature'' = ''x-s2s-signature''"
  by code_simp+

text \<open>The headers that a signature writes, over those of the caller: a later name overwrites an earlier one
  when the verifier lowers them.\<close>

lemma normalize_headers_Cons:
  "map_of (normalize_headers ((k, v) # h)) l =
     (case map_of (normalize_headers h) l of
        None \<Rightarrow> if l = py_lower k then Some (py_strip v) else None
      | Some w \<Rightarrow> Some w)"
proof -
  have "map_of (normalize_headers h) l = map_of (rev (map (\<lambda>(k, v). (py_lower k, py_strip v)) h)) l" for h
    by (induction h rule: rev_induct) (auto simp: normalize_headers_def)
  then show ?thesis by (auto simp: map_add_def split: option.split)
qed

lemma normalize_headers_Nil [simp]: "normalize_headers [] = []"
  by (simp add: normalize_headers_def)

lemma normalize_headers_None:
  "\<forall>k\<in>set (map fst h). py_lower k \<noteq> l \<Longrightarrow> map_of (normalize_headers h) l = None"
  by (induction h) (auto simp: normalize_headers_Cons)

lemma normalize_update_other:
  "py_lower k \<noteq> l \<Longrightarrow> map_of (normalize_headers (AList.update k v h)) l = map_of (normalize_headers h) l"
  by (induction h) (auto simp: normalize_headers_Cons split: option.split)

lemma normalize_update:
  assumes "distinct (map fst h)" and "k \<in> set (map fst h) \<Longrightarrow> \<forall>k'\<in>set (map fst h). py_lower k' = py_lower k \<longrightarrow> k' = k"
  shows "map_of (normalize_headers (AList.update k v h)) (py_lower k) = Some (py_strip v)"
  using assms
proof (induction h)
  case (Cons x h)
  obtain a b where x: "x = (a, b)" by (cases x)
  show ?case
  proof (cases "a = k")
    case True
    then have "\<forall>k'\<in>set (map fst h). py_lower k' \<noteq> py_lower k" using Cons.prems x by auto
    then show ?thesis using True x normalize_headers_None [of h] by (simp add: normalize_headers_Cons)
  next
    case False
    have "map_of (normalize_headers (AList.update k v h)) (py_lower k) = Some (py_strip v)"
      using Cons.prems x by (intro Cons.IH) auto
    then show ?thesis using False x by (simp add: normalize_headers_Cons)
  qed
qed (simp add: normalize_headers_Cons)

text \<open>No name of \<open>names\<close> that the caller uses comes in a second spelling.\<close>

definition one_spelling :: "string list \<Rightarrow> (string \<times> string) list \<Rightarrow> bool" where
  "one_spelling names h \<longleftrightarrow>
     distinct (map fst h) \<and>
     (\<forall>n\<in>set names. n \<in> set (map fst h) \<longrightarrow> (\<forall>k\<in>set (map fst h). py_lower k = py_lower n \<longrightarrow> k = n))"

lemma put_headers_other:
  "\<forall>k\<in>set (map fst new). py_lower k \<noteq> l \<Longrightarrow>
     map_of (normalize_headers (put_headers new h)) l = map_of (normalize_headers h) l"
  by (induction new arbitrary: h) (auto simp: put_headers_def normalize_update_other)

lemma put_headers_lookup:
  assumes "distinct (map (\<lambda>(k, v). py_lower k) new)" and "one_spelling (map fst new) h" and "(k, v) \<in> set new"
  shows "map_of (normalize_headers (put_headers new h)) (py_lower k) = Some (py_strip v)"
  using assms
proof (induction new arbitrary: h)
  case (Cons x new)
  obtain a b where x: "x = (a, b)" by (cases x)
  let ?h = "AList.update a b h"
  have keys: "set (map fst ?h) = insert a (set (map fst h))" by (auto simp: update_keys)
  have new: "\<forall>k\<in>set (map fst new). py_lower k \<noteq> py_lower a" using Cons.prems(1) x by force
  show ?case
  proof (cases "(k, v) = x")
    case True
    then have "map_of (normalize_headers ?h) (py_lower k) = Some (py_strip v)"
      using Cons.prems(2) x normalize_update [of h a b] by (auto simp: one_spelling_def)
    moreover have "put_headers (x # new) h = put_headers new ?h" by (simp add: put_headers_def x)
    ultimately show ?thesis using put_headers_other [OF new] True x by simp
  next
    case False
    have "one_spelling (map fst new) ?h"
      using Cons.prems(2) new unfolding one_spelling_def keys by (auto simp: x distinct_update)
    moreover have "put_headers (x # new) h = put_headers new ?h" by (simp add: put_headers_def x)
    ultimately show ?thesis using Cons.IH [of ?h] Cons.prems(1,3) False by simp
  qed
qed simp

lemma hex_text_chars: "c \<in> set (hex_text bs) \<Longrightarrow> is_hex c"
proof -
  have "is_hex (hex_digit k)" if "k < 16" for k
    using that by (auto simp: hex_digit_def is_hex_def of_char_of Let_def)
  moreover have "byte b div 16 < 16" "byte b mod 16 < 16" for b using byte_bound [of b] by auto
  ultimately show "c \<in> set (hex_text bs) \<Longrightarrow> is_hex c" by (auto simp: hex_text_def)
qed

lemma hex_not_space: "is_hex c \<Longrightarrow> \<not> py_isspace c"
  by (auto simp: is_hex_def py_isspace_def Let_def)

lemma hex_text_strip [simp]: "py_strip (hex_text bs) = hex_text bs"
  using hex_text_chars [of _ bs] hex_not_space
  by (auto simp: py_strip_def list_all_iff intro!: strip_with_no_space)

lemma hex_text_ascii [simp]: "is_ascii (hex_text bs)"
  using hex_text_chars [of _ bs] by (fastforce simp: is_ascii_def list_all_iff is_hex_def Let_def)

lemma hex_text_Nil [simp]: "hex_text bs = [] \<longleftrightarrow> bs = []"
  by (cases bs) (simp_all add: hex_text_def)

lemma required_text_strip:
  "normalize_required_text v f = Inr y \<Longrightarrow> py_strip y = y \<and> y \<noteq> [] \<and> normalize_required_text (Some y) g = Inr y"
  by (auto simp: normalize_required_text_def s2s_error_def split: option.splits if_splits)

lemma strip_kind: "py_strip ''shared_secret'' = ''shared_secret''"
  by code_simp

text \<open>No stored time stamp overflows.\<close>

lemma expired_nonces_defined:
  "\<forall>(k, v)\<in>set d. \<bar>v\<bar> < 2 ^ 53 \<Longrightarrow> \<exists>ns. expired_nonces now w d = Inr ns"
proof (induction d)
  case (Cons kv d)
  obtain k v where "kv = (k, v)" by fastforce
  moreover obtain ns where "expired_nonces now w d = Inr ns" using Cons by auto
  moreover have "float_of_int v = Inr (Fin (of_int v))"
    using Cons.prems \<open>kv = (k, v)\<close> by (intro float_of_int_exact) (simp_all add: abs_less_iff)
  ultimately show ?case by (simp add: elapsed_def)
qed simp

lemma remember_fresh:
  assumes "map_of (ss_seen_nonces s) (nonce_key service nonce) = None" "\<forall>(k, v)\<in>set (ss_seen_nonces s). \<bar>v\<bar> < 2 ^ 53"
  shows "\<exists>t. remember service nonce ts now w s = (Inr (), t)"
proof -
  obtain ns where "expired_nonces now w (ss_seen_nonces s) = Inr ns" using expired_nonces_defined assms(2) by blast
  with assms(1) show ?thesis
    by (simp add: remember_def drop_expired_nonces_def bnd_def act_eval map_of_fold_delete)
qed

end
