(* ===== verification/GatewayLemmas.thy ===== *)
theory GatewayLemmas
  imports Gateway S2sReplay
begin

text \<open>
  What the gateway does, step by step: the rate limiter as a fixed-window counter, the part of the
  state that admission leaves alone, the headers that a service receives, and the operation slots.
\<close>

section \<open>The rate limiter\<close>

definition limiter_step :: "rate_limit_policy \<Rightarrow> rate_windows \<Rightarrow> string \<times> int \<Rightarrow> bool \<times> rate_windows" where
  "limiter_step p ws k =
     (case limiter_check p (fst k) (snd k) ws of
        (Inl e, t) \<Rightarrow> (False, t) | (Inr d, t) \<Rightarrow> (rl_allowed d, t))"

definition policy_valid :: "rate_limit_policy \<Rightarrow> bool" where
  "policy_valid p \<longleftrightarrow> 0 < rl_limit p \<and> 0 < rl_window_seconds p"

lemma rate_limit_policy_valid: "rate_limit_policy n w = Inr p \<Longrightarrow> policy_valid p"
  by (auto simp: rate_limit_policy_def policy_valid_def split: if_splits)

definition key_window :: "string \<Rightarrow> rate_windows \<Rightarrow> int option" where
  "key_window key ws = map_option fst (map_of ws key)"

definition key_used :: "string \<Rightarrow> rate_windows \<Rightarrow> int" where
  "key_used key ws = (case map_of ws key of None \<Rightarrow> 0 | Some (s, n) \<Rightarrow> n)"

lemma limiter_step_blank: "py_strip key = [] \<Longrightarrow> limiter_step p ws (key, now) = (False, ws)"
  by (simp add: limiter_step_def limiter_check_def bnd_def act_eval)

lemma limiter_step_eval:
  assumes "py_strip key \<noteq> []"
  shows "limiter_step p ws (key, now) =
    (let w = window_of (rl_window_seconds p) now;
         n = (if key_window key ws = Some w then key_used key ws else 0) in
     if rl_limit p \<le> n then (False, AList.update key (w, n) ws) else (True, AList.update key (w, n + 1) ws))"
  using assms
  by (auto simp: limiter_step_def limiter_check_def bnd_def act_eval Let_def key_window_def key_used_def
      window_of_def split: option.splits)

lemma key_update [simp]:
  "key_window key (AList.update k v ws) = (if key = k then Some (fst v) else key_window key ws)"
  "key_used key (AList.update k v ws) = (if key = k then snd v else key_used key ws)"
  by (auto simp: key_window_def key_used_def split: prod.split)

interpretation limiter: fixed_window "limiter_step p" "\<lambda>k. fst k = key \<and> py_strip key \<noteq> []" "\<lambda>k. True" snd
  "key_window key" "key_used key" "\<lambda>ws. policy_valid p" "rl_window_seconds p" "rl_limit p" for p key
proof (unfold_locales, goal_cases)
  case 1
  then show ?case by (simp add: policy_valid_def)
next
  case 2
  then show ?case by simp
next
  case (3 ws k b t)
  then show ?case
    by (cases k; cases "py_strip (fst k) = []")
      (auto simp: limiter_step_blank limiter_step_eval Let_def split: if_splits)
next
  case (4 ws k b t)
  then show ?case by (cases k) (auto simp: limiter_step_eval Let_def split: if_splits)
next
  case (5 ws k b t)
  then show ?case by (cases k) (auto simp: limiter_step_eval Let_def split: if_splits)
next
  case (6 ws k b t)
  then show ?case by (cases k) (auto simp: limiter_step_eval Let_def split: if_splits)
qed

section \<open>What admission leaves alone\<close>

definition untouched :: "'z gateway_state_scheme \<Rightarrow> denial_sink \<times> tenant_context option \<times>
    (int \<times> error_body) list \<times> (string \<times> int) list list \<times> 'z" where
  "untouched s = (as_sink s, as_context s, as_sent s, gs_rate_headers s, gateway_state.more s)"

lemma untouched_on [simp]:
  "untouched (snd (on_windows m s)) = untouched s"
  "untouched (snd (on_resources n s)) = untouched s"
  "untouched (snd (on_s2s k s)) = untouched s"
  by (simp_all add: untouched_def on_windows_def on_resources_def on_s2s_def split: prod.split)

lemma keeps_untouched [keeps_intros]:
  "keeps (\<lambda>s. untouched s = x) (on_windows m)"
  "keeps (\<lambda>s. untouched s = x) (on_resources n)"
  "keeps (\<lambda>s. untouched s = x) (on_s2s k)"
  "keeps (\<lambda>s. untouched s = x) (modify (\<lambda>s. s\<lparr>gs_uuids := f s\<rparr>))"
  by (simp_all add: keeps_def act_eval untouched_def [of "_\<lparr>gs_uuids := _\<rparr>"] untouched_def [symmetric])

lemma keeps_option [keeps_intros]:
  "keeps P m \<Longrightarrow> (\<And>x. keeps P (f x)) \<Longrightarrow> keeps P (case v of None \<Rightarrow> m | Some x \<Rightarrow> f x)"
  by (cases v) auto

lemma admit_untouched: "keeps (\<lambda>s. untouched s = x) (admit rt lib g scope tm)"
  unfolding admit_def acquire_resources_def downstream_scope_def downstream_headers_def correlation_for_def
    signed_downstream_headers_def Let_def
  by (intro keeps_intros)

section \<open>The headers of a service\<close>

text \<open>The names that a signature adds.\<close>

definition SIGNATURE_HEADERS :: "string list" where
  "SIGNATURE_HEADERS =
     [''Authorization'', ''X-S2S-Method'', ''X-S2S-Service'', ''X-S2S-Timestamp'', ''X-S2S-Nonce'',
      ''X-S2S-Signature'']"

lemma put_headers_names: "fst ` set (put_headers new hs) \<subseteq> fst ` set new \<union> fst ` set hs"
proof (induction new arbitrary: hs)
  case (Cons kv new)
  have "fst ` set (AList.update (fst kv) (snd kv) hs) \<subseteq> insert (fst kv) (fst ` set hs)"
    using dom_update [of "fst kv" "snd kv" hs] by (simp add: dom_map_of_conv_image_fst)
  with Cons [of "AList.update (fst kv) (snd kv) hs"] show ?case
    by (auto simp: put_headers_def split_beta)
qed (simp add: put_headers_def)

lemma put_headers_mem: "(a, b) \<in> set (put_headers new []) \<Longrightarrow> a \<in> fst ` set new"
  using put_headers_names [of new "[]"] by (force simp: image_iff)

lemma sign_request_names:
  assumes "sign_request lib c m path service [] ts nonce now s = (Inr hs, t)"
  shows "set (map fst hs) \<subseteq> set SIGNATURE_HEADERS"
  using assms
  by (auto simp: sign_request_def shared_sign_request_def rsa_sign_request_def k8s_sign_request_def
      bnd_Inr act_eval SIGNATURE_HEADERS_def split: auth_method.splits dest!: put_headers_mem)

lemma header_names_bytes_names:
  "header_names_bytes hs = Inr new \<Longrightarrow> map fst new = map (\<lambda>n. py_lower (py_strip n)) (map fst hs)"
  by (induction hs arbitrary: new) (auto simp: header_name_bytes_def Let_def split: if_splits)

lemma signature_header_names:
  "(\<lambda>n. py_lower (py_strip n)) ` set SIGNATURE_HEADERS \<inter> set GATEWAY_CONTEXT_HEADERS = {}"
  by code_simp

lemma context_header_lower: "n \<in> set GATEWAY_CONTEXT_HEADERS \<Longrightarrow> bytes_lower n = n"
proof -
  have "list_all (\<lambda>n. bytes_lower n = n) GATEWAY_CONTEXT_HEADERS" by code_simp
  then show "n \<in> set GATEWAY_CONTEXT_HEADERS \<Longrightarrow> bytes_lower n = n" by (simp add: list_all_iff)
qed

definition values_of :: "string \<Rightarrow> (string \<times> string) list \<Rightarrow> string list" where
  "values_of name hs = map snd (filter (\<lambda>(n, v). bytes_lower n = name) hs)"

lemma values_of_append [simp]: "values_of name (xs @ ys) = values_of name xs @ values_of name ys"
  by (simp add: values_of_def)

lemma values_of_forwarded:
  "name \<in> set GATEWAY_CONTEXT_HEADERS \<Longrightarrow> values_of name (forwarded_headers hs) = []"
  by (auto simp: values_of_def forwarded_headers_def filter_empty_conv)

lemma values_of_keep:
  assumes "name \<in> set GATEWAY_CONTEXT_HEADERS" "set names \<inter> set GATEWAY_CONTEXT_HEADERS = {}"
  shows "values_of name (filter (\<lambda>(n, v). bytes_lower n \<notin> set names) hs) = values_of name hs"
  unfolding values_of_def filter_filter using assms
  by (intro arg_cong [where f = "map snd"] filter_cong) auto

lemma lower_signature:
  "bytes_lower n \<in> set GATEWAY_CONTEXT_HEADERS \<Longrightarrow> n \<notin> (\<lambda>n. py_lower (py_strip n)) ` set SIGNATURE_HEADERS"
proof -
  have "list_all (\<lambda>n. bytes_lower (py_lower (py_strip n)) \<notin> set GATEWAY_CONTEXT_HEADERS) SIGNATURE_HEADERS"
    by code_simp
  then show "bytes_lower n \<in> set GATEWAY_CONTEXT_HEADERS \<Longrightarrow> n \<notin> (\<lambda>n. py_lower (py_strip n)) ` set SIGNATURE_HEADERS"
    by (auto simp: list_all_iff)
qed

lemma signed_values:
  assumes "signed_downstream_headers lib g hs m path now s = (Inr out, t)" "name \<in> set GATEWAY_CONTEXT_HEADERS"
  shows "values_of name out = values_of name hs"
proof (cases "gw_s2s g")
  case None
  with assms show ?thesis by (simp add: signed_downstream_headers_def act_eval)
next
  case (Some c)
  with assms obtain u signed new v where
    sg: "sign_request lib c m path (gw_source_service_name g) [] None None now u = (Inr signed, v)"
    and new: "header_names_bytes signed = Inr new"
    and out: "out = filter (\<lambda>(n, v). bytes_lower n \<notin> set (map fst new)) hs @ new"
    by (auto simp: signed_downstream_headers_def bnd_Inr act_eval on_s2s_def split: prod.splits)
  have "set (map fst new) = (\<lambda>n. py_lower (py_strip n)) ` set (map fst signed)"
    unfolding header_names_bytes_names [OF new] by (simp add: image_image)
  then have names: "set (map fst new) \<subseteq> (\<lambda>n. py_lower (py_strip n)) ` set SIGNATURE_HEADERS"
    using sign_request_names [OF sg] by blast
  have "values_of name new = []"
  proof -
    have False if "(n, v) \<in> set new" "bytes_lower n = name" for n v
    proof -
      have "n \<in> set (map fst new)" using that(1) by force
      with names have "n \<in> (\<lambda>n. py_lower (py_strip n)) ` set SIGNATURE_HEADERS" by blast
      with lower_signature that(2) assms(2) show False by blast
    qed
    then show ?thesis by (auto simp: values_of_def filter_empty_conv)
  qed
  moreover have "values_of name (filter (\<lambda>(n, v). bytes_lower n \<notin> set (map fst new)) hs) = values_of name hs"
    using names signature_header_names assms(2) by (intro values_of_keep) blast+
  ultimately show ?thesis by (simp add: out)
qed

lemma values_of_Cons:
  "values_of name ((n, v) # hs) = (if bytes_lower n = name then v # values_of name hs else values_of name hs)"
  "values_of name [] = []"
  by (simp_all add: values_of_def)

lemma values_of_context:
  "values_of ''x-tenant-id'' (context_headers c r p cid) = [utf8 (tc_tenant_id c)]"
  "values_of ''x-actor-roles'' (context_headers c r p cid) = [utf8 (join_with '','' (tc_roles c))]"
  "values_of ''x-subject-id'' (context_headers c r p cid) =
     (case tc_subject c of None \<Rightarrow> [] | Some x \<Rightarrow> [utf8 x])"
proof -
  have l: "bytes_lower ''x-correlation-id'' = ''x-correlation-id''" "bytes_lower ''x-tenant-id'' = ''x-tenant-id''"
    "bytes_lower ''x-service-name'' = ''x-service-name''" "bytes_lower ''x-forwarded-prefix'' = ''x-forwarded-prefix''"
    "bytes_lower ''x-original-path'' = ''x-original-path''" "bytes_lower ''x-actor-roles'' = ''x-actor-roles''"
    "bytes_lower ''x-subject-id'' = ''x-subject-id''"
    by (rule context_header_lower; simp add: GATEWAY_CONTEXT_HEADERS_def)+
  show "values_of ''x-tenant-id'' (context_headers c r p cid) = [utf8 (tc_tenant_id c)]"
    unfolding context_headers_def by (cases "tc_subject c") (simp_all add: values_of_Cons l)
  show "values_of ''x-actor-roles'' (context_headers c r p cid) = [utf8 (join_with '','' (tc_roles c))]"
    unfolding context_headers_def by (cases "tc_subject c") (simp_all add: values_of_Cons l)
  show "values_of ''x-subject-id'' (context_headers c r p cid) =
       (case tc_subject c of None \<Rightarrow> [] | Some x \<Rightarrow> [utf8 x])"
    unfolding context_headers_def by (cases "tc_subject c") (simp_all add: values_of_Cons l)
qed

text \<open>The identity that a scope carries is the one of a context, whatever the client sent.\<close>

definition carries_identity :: "tenant_context \<Rightarrow> gateway_scope \<Rightarrow> bool" where
  "carries_identity c scope \<longleftrightarrow>
     values_of ''x-tenant-id'' (raw_headers (gw_headers scope)) = [utf8 (tc_tenant_id c)] \<and>
     values_of ''x-actor-roles'' (raw_headers (gw_headers scope)) = [utf8 (join_with '','' (tc_roles c))] \<and>
     values_of ''x-subject-id'' (raw_headers (gw_headers scope)) =
       (case tc_subject c of None \<Rightarrow> [] | Some x \<Rightarrow> [utf8 x])"

lemma raw_headers_map [simp]: "raw_headers (Some (map (\<lambda>(n, v). Header n v) hs)) = hs"
  by (induction hs) auto

lemma downstream_scope_identity:
  assumes "downstream_scope rt lib g scope r c now s = (Inr sc, t)"
  shows "carries_identity c sc"
proof -
  obtain out where out: "downstream_headers rt lib g scope r c now s = (Inr out, t)"
    and hs: "gw_headers sc = Some (map (\<lambda>(n, v). Header n v) out)"
    using assms by (auto simp: downstream_scope_def Let_def bnd_Inr act_eval)
  then obtain cid u where
    sg: "signed_downstream_headers lib g
           (forwarded_headers (raw_headers (gw_headers scope)) @ context_headers c r (gw_path scope) cid)
           (gw_method scope) (downstream_path r (gw_path scope)) now u = (Inr out, t)"
    by (auto simp: downstream_headers_def Let_def bnd_Inr)
  have "values_of name out = values_of name (context_headers c r (gw_path scope) cid)"
    if "name \<in> set GATEWAY_CONTEXT_HEADERS" for name
    using signed_values [OF sg that] values_of_forwarded [OF that] by simp
  then show ?thesis
    unfolding carries_identity_def hs raw_headers_map
    by (simp add: GATEWAY_CONTEXT_HEADERS_def values_of_context del: raw_headers.simps)
qed

section \<open>Admission\<close>

lemma route_for_scope_matches: "route_for_scope g scope c = Inr r \<Longrightarrow> route_matches r (gw_path scope)"
  by (auto simp: route_for_scope_def find_Some_iff split: option.splits)

lemma admit_steps:
  assumes "admit rt lib g scope tm s = (Inr a, t)"
  obtains d u v where "as_context s = Some (ad_context a)"
    and "route_for_scope g scope (ad_context a) = Inr (ad_route a)"
    and "ad_operation a = operation_name scope (ad_route a)"
    and "on_windows (limiter_check (gw_rate_policy g) (rate_limit_key (ad_context a) (ad_route a)) (gt_limiter tm)) s
           = (Inr d, u)" and "rl_allowed d"
    and "acquire_resources g (ad_context a) (ad_route a) (ad_operation a) tm u = (Inr (), v)"
    and "downstream_scope rt lib g scope (ad_route a) (ad_context a) (gt_sign tm) v = (Inr (ad_scope a), t)"
proof -
  from assms obtain c r d u v sc where
    "as_context s = Some c" "route_for_scope g scope c = Inr r"
    "on_windows (limiter_check (gw_rate_policy g) (rate_limit_key c r) (gt_limiter tm)) s = (Inr d, u)" "rl_allowed d"
    "acquire_resources g c r (operation_name scope r) tm u = (Inr (), v)"
    "downstream_scope rt lib g scope r c (gt_sign tm) v = (Inr sc, t)"
    "a = \<lparr>ad_context = c, ad_route = r, ad_operation = operation_name scope r, ad_scope = sc\<rparr>"
    by (clarsimp simp: admit_def Let_def bnd_Inr act_eval resolve_context_def split: option.splits if_splits)
  with that show thesis by simp
qed

lemma admit_Inr:
  assumes "admit rt lib g scope tm s = (Inr a, t)"
  shows "as_context s = Some (ad_context a)" and "carries_identity (ad_context a) (ad_scope a)"
    and "route_matches (ad_route a) (gw_path scope)"
  by (rule admit_steps [OF assms], blast dest: downstream_scope_identity route_for_scope_matches)+

lemma admit_keeps: "admit rt lib g scope tm s = (r, t) \<Longrightarrow> untouched t = untouched s"
  using keepsD [OF admit_untouched] by blast

section \<open>Operation slots\<close>

definition slots :: "string \<Rightarrow> resource_manager \<Rightarrow> int" where
  "slots t m = (case map_of (rm_states m) t of None \<Rightarrow> 0 | Some u \<Rightarrow> tu_concurrent_operations u)"

definition tenant_of :: "tenant_context \<Rightarrow> string" where
  "tenant_of c = py_strip (tc_tenant_id c)"

lemma slots_current: "tu_concurrent_operations (current_usage m now t) = slots t m"
  by (auto simp: slots_def current_usage_def fresh_usage_def roll_window_if_needed_def split: option.split)

lemma slots_put [simp]: "slots t (put_usage t' u m) = (if t = t' then tu_concurrent_operations u else slots t m)"
  by (simp add: slots_def)

lemma state_for_context_slots:
  "state_for_context c now m = (Inr (t, u), m') \<Longrightarrow>
     t = tenant_of c \<and> tenant_id_ok t \<and> m' = put_usage t u m \<and> tu_concurrent_operations u = slots t m"
  by (auto simp: state_for_context_def bnd_Inr act_eval plain_tenant_id_def tenant_of_def slots_current
      split: if_splits)

lemma state_for_context_Inl: "state_for_context c now m = (Inl e, m') \<Longrightarrow> m' = m"
  by (auto simp: state_for_context_def bnd_def act_eval split: sum.splits prod.splits)

lemma admit_request_slots: "admit_request c sv op now later m = (r, m') \<Longrightarrow> slots t m' = slots t m"
  by (auto simp: admit_request_def bnd_def act_eval Let_def
      split: sum.splits prod.splits if_splits dest!: state_for_context_slots state_for_context_Inl)

lemma acquire_slots:
  "acquire_operation_slot c op now m = (Inr d, m') \<Longrightarrow>
     slots t m' = slots t m + (if rd_allowed d \<and> t = tenant_of c then 1 else 0) \<and> tenant_id_ok (tenant_of c)"
  by (auto simp: acquire_operation_slot_def bnd_Inr act_eval Let_def decision_def
      split: if_splits dest!: state_for_context_slots)

lemma acquire_Inl: "acquire_operation_slot c op now m = (Inl e, m') \<Longrightarrow> slots t m' = slots t m"
  by (auto simp: acquire_operation_slot_def bnd_def act_eval Let_def
      split: sum.splits prod.splits if_splits dest!: state_for_context_slots state_for_context_Inl)

lemma operation_name_text: "py_strip (operation_name scope r) \<noteq> []"
proof
  assume "py_strip (operation_name scope r) = []"
  then have "dropWhile py_isspace (rev (dropWhile py_isspace (operation_name scope r))) = []"
    by (simp add: py_strip_def strip_with_def)
  then have "\<forall>c\<in>set (dropWhile py_isspace (operation_name scope r)). py_isspace c"
    by (simp add: dropWhile_eq_Nil_conv)
  then have "\<forall>c\<in>set (operation_name scope r). py_isspace c"
    by (metis dropWhile_eq_Nil_conv hd_dropWhile list.set_sel(1))
  moreover have "CHR ''.'' \<in> set (operation_name scope r)" by (simp add: operation_name_def)
  ultimately show False by (auto simp: py_isspace_def)
qed

lemma release_slots:
  assumes "py_strip op \<noteq> []" "tenant_id_ok (tenant_of c)"
  obtains sn m' where "release_operation_slot c op now m = (Inr sn, m')"
    and "\<And>t. slots t m' = (if t = tenant_of c then max (slots t m - 1) 0 else slots t m)"
  using assms
  by (simp add: release_operation_slot_def state_for_context_def bnd_def act_eval Let_def required_text_def
      plain_tenant_id_def tenant_of_def slots_current)

lemma keeps_resources [keeps_intros]:
  "keeps (\<lambda>s. gs_resources s = x) (on_windows m)"
  "keeps (\<lambda>s. gs_resources s = x) (on_s2s k)"
  "keeps (\<lambda>s. gs_resources s = x) (modify (\<lambda>s. s\<lparr>gs_uuids := f s\<rparr>))"
  "keeps (\<lambda>s. gs_resources s = x) (modify (\<lambda>s. s\<lparr>as_sent := h s\<rparr>))"
  "keeps (\<lambda>s. gs_resources s = x) (modify (\<lambda>s. s\<lparr>gs_rate_headers := i s\<rparr>))"
  by (simp_all add: keeps_def act_eval on_windows_def on_s2s_def split: prod.split)

lemma downstream_scope_resources: "keeps (\<lambda>s. gs_resources s = x) (downstream_scope rt lib g scope r c now)"
  unfolding downstream_scope_def downstream_headers_def correlation_for_def signed_downstream_headers_def Let_def
  by (intro keeps_intros)

lemma send_error_resources: "keeps (\<lambda>s. gs_resources s = x) (gateway_send_error e)"
  unfolding gateway_send_error_def refuse_def send_error_def
  by (cases e) (auto intro!: keeps_intros)

lemma acquire_resources_slots:
  assumes "acquire_resources g c r op tm s = (q, t)"
  shows "slots x (gs_resources t) = slots x (gs_resources s) +
      (if gw_has_resources g \<and> q = Inr () \<and> x = tenant_of c then 1 else 0)"
    and "gw_has_resources g \<Longrightarrow> q = Inr () \<Longrightarrow> tenant_id_ok (tenant_of c)"
  using assms
  by (auto simp: acquire_resources_def bnd_def act_eval on_resources_def split: sum.splits prod.splits if_splits
      dest!: acquire_slots [where t = x] acquire_Inl [where t = x] admit_request_slots [where t = x])

lemma admit_slots:
  assumes "admit rt lib g scope tm s = (Inr a, t)"
  shows "slots x (gs_resources t) = slots x (gs_resources s) +
    (if gw_has_resources g \<and> x = tenant_of (ad_context a) then 1 else 0)"
proof (rule admit_steps [OF assms])
  fix d u v
  assume w: "on_windows (limiter_check (gw_rate_policy g) (rate_limit_key (ad_context a) (ad_route a)) (gt_limiter tm)) s = (Inr d, u)"
    and r: "acquire_resources g (ad_context a) (ad_route a) (ad_operation a) tm u = (Inr (), v)"
    and d: "downstream_scope rt lib g scope (ad_route a) (ad_context a) (gt_sign tm) v = (Inr (ad_scope a), t)"
  from w have "gs_resources u = gs_resources s" by (auto simp: on_windows_def split: prod.splits)
  moreover have "gs_resources t = gs_resources v" using keepsD [OF downstream_scope_resources d refl] .
  ultimately show ?thesis using acquire_resources_slots(1) [OF r, of x] by simp
qed

lemma admit_tenant_ok:
  assumes "admit rt lib g scope tm s = (Inr a, t)" "gw_has_resources g"
  shows "tenant_id_ok (tenant_of (ad_context a))"
  by (rule admit_steps [OF assms(1)]) (blast dest: acquire_resources_slots(2) [OF _ assms(2) refl])

lemma downstream_scope_unsigned:
  assumes "gw_s2s g = None"
  shows "\<exists>sc t. downstream_scope rt lib g scope r c now s = (Inr sc, t)"
proof -
  obtain cid u where "correlation_for rt c (raw_headers (gw_headers scope)) s = (Inr cid, u)"
    by (cases "or_else (tc_correlation_id c) (header_value (raw_headers (gw_headers scope)) ''x-correlation-id'')")
      (auto simp: correlation_for_def bnd_def act_eval)
  with assms show ?thesis
    by (simp add: downstream_scope_def downstream_headers_def signed_downstream_headers_def Let_def bnd_def act_eval)
qed

text \<open>A refused request leaves the slots as they were, or keeps the one it took.\<close>

lemma admit_refused_grows:
  assumes "admit rt lib g scope tm s = (Inl e, t)"
  shows "slots x (gs_resources s) \<le> slots x (gs_resources t)"
proof -
  have w: "gs_resources u = gs_resources p" if "on_windows m p = (z, u)" for m :: "(rate_windows, 'x) act" and p u :: "'b gateway_state_scheme" and z
    using that by (auto simp: on_windows_def split: prod.splits)
  have d: "gs_resources q = gs_resources p" if "downstream_scope rt lib g scope r c now p = (z, q)" for r c now z and p q :: "'b gateway_state_scheme"
    using keepsD [OF downstream_scope_resources that refl] .
  show ?thesis
    using assms(1)
    by (auto simp: admit_def Let_def bnd_def act_eval split: sum.splits prod.splits if_splits
        dest!: w d acquire_resources_slots(1) [where x = x])
qed

lemma admit_refused_slots:
  assumes "admit rt lib g scope tm s = (Inl e, t)" "gw_s2s g = None"
  shows "slots x (gs_resources t) = slots x (gs_resources s)"
proof -
  have w: "gs_resources u = gs_resources p" if "on_windows m p = (z, u)" for m :: "(rate_windows, 'x) act" and p u :: "'b gateway_state_scheme" and z
    using that by (auto simp: on_windows_def split: prod.splits)
  have d: "downstream_scope rt lib g scope r c now p \<noteq> (Inl z, q)" for r c now p z q
    using downstream_scope_unsigned [OF assms(2), of rt lib scope r c now p] by auto
  show ?thesis
    using assms(1)
    by (auto simp: admit_def Let_def bnd_def act_eval d split: sum.splits prod.splits if_splits
        dest!: w acquire_resources_slots(1) [where x = x])
qed

end
