(* ===== verification/GatewayProperties.thy ===== *)
theory GatewayProperties
  imports SecurityProperties GatewayLemmas
begin

text \<open>
  The properties of the entry of the platform: tenant quotas, the rate limiter, signed requests between
  services, and the gateway on top of them.
\<close>

section \<open>Tenant resources\<close>

text \<open>C10. Whatever sequence of requests, reservations and releases the services make, no tenant's usage
  ever exceeds its plan or falls below zero, in requests of the current window, concurrent operations,
  stored bytes or queue items.\<close>

theorem usage_stays_within_plan:
  assumes "plan_valid plan" and "\<forall>(t, p)\<in>set plans. plan_valid p"
    and "map_of (rm_states (tenant_run (fresh_manager plan plans) calls)) tenant = Some u"
  shows "usage_within (plan_of (fresh_manager plan plans) tenant) u"
proof -
  have keep: "resources_within m \<Longrightarrow> resources_within (tenant_run m ks) \<and> plan_of (tenant_run m ks) = plan_of m" for m ks
  proof (induction ks arbitrary: m)
    case (Cons k ks)
    obtain b n where "tenant_step m k = (b, n)" by fastforce
    with Cons tenant_step_within [OF Cons.prems] show ?case by simp
  qed simp
  have "resources_within (fresh_manager plan plans)"
    using assms(1,2) by (fastforce simp: resources_within_def fresh_manager_def plan_of_def dest: map_of_SomeD split: option.split)
  from keep [OF this, of calls] assms(3) show ?thesis unfolding resources_within_def by metis
qed

definition sample_plan :: resource_plan where
  "sample_plan =
     \<lparr>rp_name = ''p'', rp_request_limit = 1, rp_window_seconds = 60, rp_concurrent_operations = 1,
      rp_storage_bytes = 0, rp_queue_depth = 0\<rparr>"

definition sample_context :: tenant_context where
  "sample_context = \<lparr>tc_tenant_id = ''t'', tc_subject = Some ''s'', tc_roles = [], tc_correlation_id = Some ''c''\<rparr>"

definition sample_request :: "int \<Rightarrow> tenant_call" where
  "sample_request now = AdmitRequest sample_context ''svc'' ''get'' now now"

lemma sample_plan_valid: "plan_valid sample_plan"
  by (simp add: plan_valid_def sample_plan_def)

lemma plan_of_fresh: "plan_of (fresh_manager p []) t = p"
  by (simp add: plan_of_def fresh_manager_def)

lemma sample_target: "call_target (sample_request now) = Some ''t''"
proof -
  have "py_strip ''svc'' \<noteq> []" "py_strip ''get'' \<noteq> []" "tenant_id_ok (py_strip ''t'')" "py_strip ''t'' = ''t''"
    by code_simp+
  then show ?thesis by (simp add: sample_request_def sample_context_def target_def)
qed

lemma sample_run:
  "tenant_step (fresh_manager sample_plan []) (sample_request 61) =
     (True, put_usage ''t'' ((fresh_usage sample_plan 61)\<lparr>tu_requests_used := 1\<rparr>) (fresh_manager sample_plan []))"
proof -
  have "current_usage (fresh_manager sample_plan []) 61 ''t'' = fresh_usage sample_plan 61"
    by (simp add: current_usage_def fresh_manager_def plan_of_def)
  then show ?thesis
    by (simp add: tenant_step_Some [OF sample_target] sample_request_def [THEN arg_cong [where f = call_time], simplified])
      (simp add: sample_request_def fresh_usage_def sample_plan_def)
qed

theorem usage_stays_within_plan_witness:
  "usage_within sample_plan ((fresh_usage sample_plan 61)\<lparr>tu_requests_used := 1\<rparr>)"
  using usage_stays_within_plan [OF sample_plan_valid, of "[]" "[sample_request 61]" "''t''"
      "(fresh_usage sample_plan 61)\<lparr>tu_requests_used := 1\<rparr>"]
  by (simp add: sample_run plan_of_fresh)

text \<open>The usage of a tenant is what its own calls make of it: leaving out all calls of other tenants
  changes nothing of its plan, counters and window.\<close>

theorem usage_depends_on_own_calls:
  "map_of (rm_states (tenant_run m calls)) tenant =
     map_of (rm_states (tenant_run m (filter (\<lambda>k. call_target k = Some tenant) calls))) tenant"
proof -
  have "map_of (rm_states (tenant_run m ks)) t = map_of (rm_states (tenant_run n (filter (\<lambda>k. call_target k = Some t) ks))) t"
    if "map_of (rm_states m) t = map_of (rm_states n) t" "plan_of m t = plan_of n t" for m n ks t
    using that
  proof (induction ks arbitrary: m n)
    case (Cons k ks)
    obtain b m' where m': "tenant_step m k = (b, m')" by fastforce
    show ?case
    proof (cases "call_target k = Some t")
      case False
      with tenant_step_other [OF False m'] Cons m' show ?thesis by simp
    next
      case True
      have "current_usage m (call_time k) t = current_usage n (call_time k) t"
        using Cons.prems by (cases "map_of (rm_states n) t") (auto simp: current_usage_def)
      then show ?thesis
        using Cons.IH [of "snd (tenant_step m k)" "snd (tenant_step n k)"] Cons.prems True
        by (auto simp: tenant_step_Some Let_def split: prod.splits)
    qed
  qed simp
  then show ?thesis by blast
qed

text \<open>C11. In calls with rising clock readings, the manager admits at most \<open>request_limit\<close> requests of
  a tenant in any window of its plan, whatever other calls come between them.\<close>

theorem requests_per_window_are_limited:
  assumes "plan_of m tenant = plan" and "plan_valid plan" and "map_of (rm_states m) tenant = None"
    and "sorted (map call_time calls)"
  shows "admitted_in (\<lambda>k. call_target k = Some tenant) call_time (rp_window_seconds plan) start
           (admissions tenant_step m calls) \<le> rp_request_limit plan"
  using quota.admitted_in_limit [of m tenant plan calls start] assms by (simp add: usage_window_def)

theorem requests_per_window_are_limited_witness:
  "admitted_in (\<lambda>k. call_target k = Some ''t'') call_time 60 60
     (admissions tenant_step (fresh_manager sample_plan []) [sample_request 61, sample_request 62]) \<le> 1"
proof -
  have "sorted (map call_time [sample_request 61, sample_request 62])" by (simp add: sample_request_def)
  from requests_per_window_are_limited [OF _ sample_plan_valid _ this, of "fresh_manager sample_plan []" "''t''" 60]
  show ?thesis by (simp add: plan_of_def fresh_manager_def sample_plan_def)
qed

section \<open>The rate limiter\<close>

text \<open>For every key the limiter admits at most \<open>limit\<close> requests of any window, with requests of
  other keys in between, as long as its clock does not run backwards.\<close>

theorem limiter_admits_at_most_the_limit:
  assumes "rate_limit_policy limit window_seconds = Inr policy" and "sorted (map snd requests)"
  shows "admitted_in (\<lambda>k. fst k = key \<and> py_strip key \<noteq> []) snd window_seconds start
           (admissions (limiter_step policy) [] requests) \<le> limit"
proof -
  have "policy_valid policy" "rl_limit policy = limit" "rl_window_seconds policy = window_seconds"
    using assms(1) rate_limit_policy_valid by (auto simp: rate_limit_policy_def split: if_splits)
  with limiter.admitted_in_limit [where p = policy and s = "[]" and es = requests and key = key and w = start] assms(2) show ?thesis
    by (simp add: key_window_def)
qed

theorem limiter_admits_at_most_the_limit_witness:
  "admitted_in (\<lambda>k. fst k = ''k'' \<and> py_strip ''k'' \<noteq> []) snd 60 0
     (admissions (limiter_step \<lparr>rl_limit = 1, rl_window_seconds = 60\<rparr>) [] [(''k'', 1), (''l'', 2), (''k'', 3)]) \<le> 1"
  by (rule limiter_admits_at_most_the_limit) (simp_all add: rate_limit_policy_def)

section \<open>Signed requests\<close>

text \<open>C7. A request that a service has accepted is never accepted again, by whatever method and on
  whatever path it is sent, as long as the clock does not run backwards: by then its nonce is still
  remembered, or its time stamp has left the window.\<close>

theorem accepted_request_is_not_accepted_again:
  assumes "verify_request lib c headers m p now s = (Inr i, t)" and "dict_ok (ss_seen_nonces s)"
    and "clock_rises now calls later"
  shows "\<exists>e. fst (verify_request lib c headers m' p' later (verify_run lib c t calls)) = Inl e"
proof (rule accepted_spends [OF assms(1,2)])
  fix service nonce ts
  assume st: "request_stamp headers nonce ts" "request_service lib c headers service"
    and sp: "spent (nonce_key service nonce) ts (s2_replay_window_seconds c) now t"
  from run_keeps_spent [OF sp assms(3)]
  obtain now' where now': "float_le now' later"
      "spent (nonce_key service nonce) ts (s2_replay_window_seconds c) now' (verify_run lib c t calls)" by blast
  from spent_refused [OF now'(2,1) st] show ?thesis .
qed

definition sample_library :: s2s_library where
  "sample_library =
     \<lparr>sl_hmac_sha256 = (\<lambda>_ _. ''k''), sl_environ = (\<lambda>_. None), sl_is_file = (\<lambda>_. False),
      sl_read_file = (\<lambda>_. None), sl_parse_float = (\<lambda>_. None), sl_token_urlsafe = (\<lambda>_. ''n''),
      sl_jwt_encode = (\<lambda>_ _. ''j''), sl_jwt_decode = (\<lambda>_ _ _ _. JwtInvalid),
      sl_jwt_unverified = (\<lambda>_. None), sl_tokenreview = (\<lambda>_ _ _ _. None)\<rparr>"

definition sample_config :: s2s_config where
  "sample_config =
     \<lparr>s2_shared_secret = Some (TextSecret ''x''), s2_replay_window_seconds = 300, s2_method = Some SHARED_SECRET,
      s2_service_name = ''svc'', s2_k8s_enabled = False, s2_k8s_token_path = ''/t'', s2_k8s_audience = ''a'',
      s2_k8s_issuer = None, s2_k8s_tokenreview_url = None, s2_k8s_tokenreview_token_path = None,
      s2_k8s_tokenreview_timeout = Fin 2, s2_k8s_ca_path = None, s2_k8s_oidc_public_key_path = None,
      s2_rsa_private_key_path = None, s2_rsa_public_key_path = None, s2_rsa_issuer = ''i'',
      s2_rsa_audience = ''a'', s2_token_ttl_seconds = 60\<rparr>"

definition sample_headers :: "(string \<times> string) list" where
  "sample_headers =
     [(''X-S2S-Method'', ''shared_secret''), (''X-S2S-Service'', ''svc''), (''X-S2S-Timestamp'', ''7''),
      (''X-S2S-Nonce'', ''n''), (''X-S2S-Signature'', ''6b'')]"

definition no_nonces :: s2s_state where
  "no_nonces = \<lparr>ss_seen_nonces = [], ss_drawn = 0\<rparr>"

lemma sample_headers_read:
  "s2s_headers sample_headers =
     [(''x-s2s-method'', ''shared_secret''), (''x-s2s-service'', ''svc''), (''x-s2s-timestamp'', ''7''),
      (''x-s2s-nonce'', ''n''), (''x-s2s-signature'', ''6b'')]"
  by code_simp

lemma sample_verify:
  "verify_request sample_library sample_config sample_headers ''GET'' ''/p'' (Fin 7) no_nonces =
     (Inr \<lparr>id_service_name = ''svc'', id_method = SHARED_SECRET\<rparr>, \<lparr>ss_seen_nonces = [(''svc:n'', 7)], ss_drawn = 0\<rparr>)"
proof -
  have h: "map_of (s2s_headers sample_headers) ''x-s2s-method'' = Some ''shared_secret''"
    "map_of (s2s_headers sample_headers) ''x-s2s-service'' = Some ''svc''"
    "map_of (s2s_headers sample_headers) ''x-s2s-nonce'' = Some ''n''"
    "map_of (s2s_headers sample_headers) ''x-s2s-signature'' = Some ''6b''"
    "map_of (s2s_headers sample_headers) ''x-s2s-timestamp'' = Some ''7''"
    by (simp_all add: sample_headers_read)
  have n: "normalize_required_text (Some ''svc'') f = Inr ''svc''" "normalize_required_text (Some ''n'') f = Inr ''n''"
    "normalize_required_text (Some ''6b'') f = Inr ''6b''" for f
    by (simp_all add: normalize_required_text_def text_defs)
  have ts: "parse_timestamp (Some ''7'') = Inr 7" by code_simp
  have el: "elapsed (Fin 7) 7 = Inr (Fin 0)"
    using float_of_int_exact [of 7] by (simp add: elapsed_def float_sub_def fl_def)
  have ex: "\<not> exceeds (Fin 0) 300" by (simp add: exceeds_def float_lt_def)
  have np: "normalize_method ''GET'' = Inr ''GET''" "normalize_path ''/p'' = Inr ''/p''" by code_simp+
  have sg: "compare_texts (s2s_signature sample_library (TextSecret ''x'') x) ''6b'' = Inr True" for x
  proof -
    have "hex_text ''k'' = ''6b''" "is_ascii ''6b''" by code_simp+
    then show ?thesis by (simp add: compare_texts_def s2s_signature_def sample_library_def)
  qed
  have c: "detect_auth_method sample_library sample_config = SHARED_SECRET"
    "secret_of sample_config = Inr (TextSecret ''x'')" "s2_replay_window_seconds sample_config = 300"
    by (simp_all add: detect_auth_method_def sample_config_def secret_of_def)
  show ?thesis
    by (simp add: verify_request_def c shared_verify_request_def Let_def h n ts bnd_def act_eval in_window_eval el ex
        np sg remember_def drop_expired_nonces_def no_nonces_def nonce_key_def)
qed

theorem accepted_request_is_not_accepted_again_witness:
  "\<exists>e. fst (verify_request sample_library sample_config sample_headers ''POST'' ''/q'' (Fin 8)
     (verify_run sample_library sample_config \<lparr>ss_seen_nonces = [(''svc:n'', 7)], ss_drawn = 0\<rparr> [])) = Inl e"
  by (rule accepted_request_is_not_accepted_again [OF sample_verify]) (simp_all add: no_nonces_def)

text \<open>C8. A request that is accepted under the shared secret carries the HMAC, under this secret, of its
  own method, path, time stamp, nonce and service name, and its time stamp lies inside the window.\<close>

theorem accepted_request_is_signed:
  assumes "shared_verify_request lib c headers m p now s = (Inr i, t)"
  shows "\<exists>secret nm np nonce ts d signature.
    s2_shared_secret c = Some secret \<and> normalize_method m = Inr nm \<and> normalize_path p = Inr np \<and>
    request_stamp headers nonce ts \<and> elapsed now ts = Inr d \<and> \<not> exceeds (float_abs d) (s2_replay_window_seconds c) \<and>
    map_of (s2s_headers headers) ''x-s2s-signature'' = Some signature \<and>
    py_strip signature = s2s_signature lib secret (signature_payload nm np ts nonce (id_service_name i))"
proof -
  have sig: "\<exists>x. v = Some x \<and> py_strip x = y" if "normalize_required_text v f = Inr y" for v f y
    using that by (auto simp: normalize_required_text_def s2s_error_def split: option.splits if_splits)
  have "outcome (shared_verify_request lib c headers m p now) (\<lambda>r t. \<forall>i. r = Inr i \<longrightarrow>
    (\<exists>secret nm np nonce ts d signature.
      s2_shared_secret c = Some secret \<and> normalize_method m = Inr nm \<and> normalize_path p = Inr np \<and>
      request_stamp headers nonce ts \<and> elapsed now ts = Inr d \<and> \<not> exceeds (float_abs d) (s2_replay_window_seconds c) \<and>
      map_of (s2s_headers headers) ''x-s2s-signature'' = Some signature \<and>
      py_strip signature = s2s_signature lib secret (signature_payload nm np ts nonce (id_service_name i)))) s"
    unfolding shared_verify_request_def Let_def
    by (auto simp: verify_simps secret_of_def compare_texts_def s2s_error_def split: sum.split option.split if_splits
        dest!: sig)
  from outcomeD [OF this assms] show ?thesis by simp
qed

theorem accepted_request_is_signed_witness:
  "\<exists>secret nm np nonce ts d signature.
    s2_shared_secret sample_config = Some secret \<and> normalize_method ''GET'' = Inr nm \<and> normalize_path ''/p'' = Inr np \<and>
    request_stamp sample_headers nonce ts \<and> elapsed (Fin 7) ts = Inr d \<and>
    \<not> exceeds (float_abs d) (s2_replay_window_seconds sample_config) \<and>
    map_of (s2s_headers sample_headers) ''x-s2s-signature'' = Some signature \<and>
    py_strip signature = s2s_signature sample_library secret (signature_payload nm np ts nonce ''svc'')"
proof -
  have "detect_auth_method sample_library sample_config = SHARED_SECRET"
    by (simp add: detect_auth_method_def sample_config_def)
  with sample_verify have "shared_verify_request sample_library sample_config sample_headers ''GET'' ''/p'' (Fin 7) no_nonces =
      (Inr \<lparr>id_service_name = ''svc'', id_method = SHARED_SECRET\<rparr>, \<lparr>ss_seen_nonces = [(''svc:n'', 7)], ss_drawn = 0\<rparr>)"
    by (simp add: verify_request_def)
  from accepted_request_is_signed [OF this] show ?thesis by simp
qed

definition SHARED_HEADERS :: "string list" where
  "SHARED_HEADERS = [''X-S2S-Method'', ''X-S2S-Service'', ''X-S2S-Timestamp'', ''X-S2S-Nonce'', ''X-S2S-Signature'']"

lemma shared_headers_lookup:
  assumes "one_spelling SHARED_HEADERS extra"
    and "headers = put_headers [(''X-S2S-Method'', a), (''X-S2S-Service'', b), (''X-S2S-Timestamp'', d),
           (''X-S2S-Nonce'', e), (''X-S2S-Signature'', f)] extra"
  shows "map_of (s2s_headers headers) ''x-s2s-method'' = Some (py_strip a)"
    "map_of (s2s_headers headers) ''x-s2s-service'' = Some (py_strip b)"
    "map_of (s2s_headers headers) ''x-s2s-timestamp'' = Some (py_strip d)"
    "map_of (s2s_headers headers) ''x-s2s-nonce'' = Some (py_strip e)"
    "map_of (s2s_headers headers) ''x-s2s-signature'' = Some (py_strip f)"
proof -
  let ?new = "[(''X-S2S-Method'', a), (''X-S2S-Service'', b), (''X-S2S-Timestamp'', d), (''X-S2S-Nonce'', e), (''X-S2S-Signature'', f)]"
  have "distinct (map (\<lambda>(k, v). py_lower k) ?new)" by (simp add: header_names_lower)
  moreover have "one_spelling (map fst ?new) extra" using assms(1) by (simp add: SHARED_HEADERS_def)
  ultimately have "map_of (s2s_headers headers) (py_lower k) = Some (py_strip v)" if "(k, v) \<in> set ?new" for k v
    using put_headers_lookup [OF _ _ that] unfolding s2s_headers_def assms(2) by blast
  note look = this [unfolded list.set insert_iff]
  show "map_of (s2s_headers headers) ''x-s2s-method'' = Some (py_strip a)"
    "map_of (s2s_headers headers) ''x-s2s-service'' = Some (py_strip b)"
    "map_of (s2s_headers headers) ''x-s2s-timestamp'' = Some (py_strip d)"
    "map_of (s2s_headers headers) ''x-s2s-nonce'' = Some (py_strip e)"
    "map_of (s2s_headers headers) ''x-s2s-signature'' = Some (py_strip f)"
    unfolding header_names_lower [symmetric] by (rule look, simp)+
qed

text \<open>C9. What one service signs with the shared secret, with a given time stamp or, as the gateway does, with the
  whole seconds of its clock (a finite reading from 0 on), with a nonce of its own or a drawn one, over any headers of the caller that do not
  spell a signature header in two ways, another service with the same secret accepts for the same method
  and path, as a request of the signing service. Conditions: its clock is within its window of the time
  stamp, it does not remember the nonce for this service, the HMAC is not empty, and the time stamp and
  those it remembers are below 2 to the 53rd, so that the comparison with the clock is exact.\<close>

theorem signed_request_is_accepted:
  assumes "sign_request lib c m p service extra timestamp nonce now s = (Inr headers, t)"
    and "detect_auth_method lib c = SHARED_SECRET" and "detect_auth_method lib c' = SHARED_SECRET"
    and "s2_shared_secret c' = s2_shared_secret c" and "\<forall>k x. sl_hmac_sha256 lib k x \<noteq> []"
    and "one_spelling SHARED_HEADERS extra"
    and "now = Fin clock" and "0 \<le> clock"
    and "ts = (case timestamp of None \<Rightarrow> \<lfloor>clock\<rfloor> | Some given \<Rightarrow> given)" and "\<bar>ts\<bar> < 2 ^ 53"
    and "\<not> exceeds (float_abs (float_sub later (Fin (of_int ts)))) (s2_replay_window_seconds c')"
    and "map_of (s2s_headers headers) ''x-s2s-nonce'' = Some n"
    and "map_of (ss_seen_nonces u) (nonce_key (py_strip service) n) = None"
    and "\<forall>(k, v)\<in>set (ss_seen_nonces u). \<bar>v\<bar> < 2 ^ 53"
  shows "\<exists>v. verify_request lib c' headers m p later u =
    (Inr \<lparr>id_service_name = py_strip service, id_method = SHARED_SECRET\<rparr>, v)"
proof -
  have stamp: "timestamp_or_now timestamp now = Inr ts"
    using assms(7-9) by (cases timestamp) (simp_all add: timestamp_or_now_def)
  obtain secret nm np sv k k' where pieces: "secret_of c = Inr secret" "normalize_method m = Inr nm" "normalize_path p = Inr np"
    and texts: "normalize_required_text (Some service) ''service_name'' = Inr sv" "normalize_required_text (Some k') ''nonce'' = Inr k"
    and headers: "headers = put_headers
            [(''X-S2S-Method'', ''shared_secret''), (''X-S2S-Service'', sv), (''X-S2S-Timestamp'', int_text ts),
             (''X-S2S-Nonce'', k), (''X-S2S-Signature'', s2s_signature lib secret (signature_payload nm np ts k sv))] extra"
    using assms(1,2) stamp by (auto simp: sign_request_def shared_sign_request_def bnd_Inr act_eval)
  have sv: "sv = py_strip service"
    using texts by (auto simp: normalize_required_text_def s2s_error_def split: if_splits)
  note h = shared_headers_lookup [OF assms(6) headers]
  have n: "n = k" using assms(12) h(4) required_text_strip [OF texts(2)] by simp
  have "\<bar>ts\<bar> < 10 ^ max_int_digits"
  proof -
    have "(2::int) ^ 53 \<le> 10 ^ 16" by simp
    also have "\<dots> \<le> 10 ^ max_int_digits" by (intro power_increasing) (simp_all add: max_int_digits_def)
    finally show ?thesis using assms(10) by linarith
  qed
  then have "py_int (int_text ts) = Some ts" by (rule py_int_int_text)
  then have ts: "parse_timestamp (Some (int_text ts)) = Inr ts"
    by (simp add: parse_timestamp_def normalize_required_text_def int_text_chars(1))
  have el: "elapsed later ts = Inr (float_sub later (Fin (of_int ts)))"
    using float_of_int_exact [of ts] assms(10) by (simp add: elapsed_def)
  have sg: "normalize_required_text (Some (s2s_signature lib secret x)) f = Inr (s2s_signature lib secret x)"
    "compare_texts (s2s_signature lib secret x) (s2s_signature lib secret x) = Inr True"
    "py_strip (s2s_signature lib secret x) = s2s_signature lib secret x" for x f
    using assms(5) by (simp_all add: normalize_required_text_def s2s_signature_def compare_texts_def)
  have secret: "secret_of c' = Inr secret" using pieces(1) assms(4) by (simp add: secret_of_def)
  obtain v where "remember sv n ts later (s2_replay_window_seconds c') u = (Inr (), v)"
    using remember_fresh [OF assms(13,14)] sv by blast
  then show ?thesis
    using assms(3,11) required_text_strip [OF texts(1)] required_text_strip [OF texts(2)]
    by (simp add: verify_request_def shared_verify_request_def h bnd_def act_eval ts el in_window_eval pieces sg n secret
        strip_kind int_text_chars sv [symmetric])
qed

text \<open>The call of the gateway: no time stamp and no nonce are given.\<close>

definition signed_sample :: "(string \<times> string) list" where
  "signed_sample = (''X-Trace'', ''1'') # sample_headers"

lemma sample_shared: "detect_auth_method sample_library sample_config = SHARED_SECRET"
  by (simp add: detect_auth_method_def sample_config_def)

lemma sample_sign:
  "sign_request sample_library sample_config ''GET'' ''/p'' ''svc'' [(''X-Trace'', ''1'')] None None (Fin (15 / 2)) no_nonces =
     (Inr signed_sample, no_nonces\<lparr>ss_drawn := 1\<rparr>)"
proof -
  have "normalize_method ''GET'' = Inr ''GET''" "normalize_path ''/p'' = Inr ''/p''" "hex_text ''k'' = ''6b''"
    "int_text 7 = ''7''" by code_simp+
  moreover have "normalize_required_text (Some ''svc'') f = Inr ''svc''" "normalize_required_text (Some ''n'') f = Inr ''n''" for f
    by (simp_all add: normalize_required_text_def text_defs)
  moreover have "secret_of sample_config = Inr (TextSecret ''x'')" by (simp add: sample_config_def secret_of_def)
  moreover have "s2s_signature sample_library (TextSecret ''x'') y = hex_text ''k''" for y
    by (simp add: s2s_signature_def sample_library_def)
  moreover have "timestamp_or_now None (Fin (15 / 2)) = Inr 7" by code_simp
  moreover have "sl_token_urlsafe sample_library k = ''n''" for k by (simp add: sample_library_def)
  ultimately show ?thesis
    by (simp add: sign_request_def sample_shared shared_sign_request_def bnd_def act_eval nonce_or_new_def put_headers_def
        sample_headers_def signed_sample_def no_nonces_def)
qed

theorem signed_request_is_accepted_witness:
  "\<exists>v. verify_request sample_library sample_config signed_sample ''GET'' ''/p'' (Fin 8) no_nonces =
    (Inr \<lparr>id_service_name = py_strip ''svc'', id_method = SHARED_SECRET\<rparr>, v)"
proof (rule signed_request_is_accepted [OF sample_sign sample_shared sample_shared, where n = "''n''"])
  have "\<bar>1 :: rat\<bar> \<le> 300" by simp
  moreover have "fl 1 = Fin 1" using float_of_int_exact [of 1] by (auto simp: float_of_int_def split: pyfloat.splits)
  ultimately show "\<not> exceeds (float_abs (float_sub (Fin 8) (Fin (of_int 7)))) (s2_replay_window_seconds sample_config)"
    by (simp add: exceeds_def float_lt_def float_sub_def sample_config_def)
  show "0 \<le> (15 / 2 :: rat)" by simp
  show "7 = (case None of None \<Rightarrow> \<lfloor>15 / 2 :: rat\<rfloor> | Some given \<Rightarrow> given)" by code_simp
  show "map_of (s2s_headers signed_sample) ''x-s2s-nonce'' = Some ''n''" by code_simp
  show "one_spelling SHARED_HEADERS [(''X-Trace'', ''1'')]" by (simp add: one_spelling_def SHARED_HEADERS_def)
qed (simp_all add: no_nonces_def sample_library_def)

text \<open>A service-account token proves nothing about the rest of its request: once a request was
  accepted, the same token with any unused nonce and any time stamp of the window is accepted for every
  method and path. The nonce check stops only exact copies.\<close>

theorem k8s_token_is_accepted_with_any_nonce:
  assumes "k8s_verify_request lib c validator headers m p now s = (Inr i, t)"
    and "map_of (s2s_headers other) ''authorization'' = map_of (s2s_headers headers) ''authorization''"
    and "map_of (s2s_headers other) ''x-s2s-method'' = map_of (s2s_headers headers) ''x-s2s-method''"
    and "request_stamp other nonce ts" and "elapsed later ts = Inr d"
    and "\<not> exceeds (float_abs d) (s2_replay_window_seconds c)"
    and "normalize_method m' = Inr nm" and "normalize_path p' = Inr np"
    and "map_of (ss_seen_nonces u) (nonce_key (id_service_name i) nonce) = None"
    and "\<forall>(k, v)\<in>set (ss_seen_nonces u). \<bar>v\<bar> < 2 ^ 53"
  shows "\<exists>v. k8s_verify_request lib c validator other m' p' later u = (Inr i, v)"
proof -
  from assms(1) obtain token review where r:
    "map_of (s2s_headers headers) ''x-s2s-method'' = Some (auth_method_value K8S_SA)"
    "bearer_token (s2s_headers headers) = Inr token" "validator token c = Inr review"
    "rv_audience review = s2_k8s_audience c" "s2_k8s_issuer c = None \<or> rv_issuer review = s2_k8s_issuer c"
    "i = \<lparr>id_service_name = rv_service_name review, id_method = K8S_SA\<rparr>"
    by (auto simp: k8s_verify_request_def Let_def bnd_Inr act_eval split: if_splits)
  have tok: "bearer_token (s2s_headers other) = Inr token"
    using r(2) by (simp add: bearer_token_def assms(2))
  obtain v where "remember (rv_service_name review) nonce ts later (s2_replay_window_seconds c) u = (Inr (), v)"
    using remember_fresh [of u "rv_service_name review" nonce ts later "s2_replay_window_seconds c"] assms(9,10) r(6) by auto
  then show ?thesis
    using assms(3,4,5,6,7,8) r(1,3,4,5,6) tok
    by (auto simp: k8s_verify_request_def Let_def bnd_def act_eval request_stamp_def remember_verified_nonce_def in_window_eval)
qed

section \<open>The gateway\<close>

lemma admit_outcome:
  assumes "admit rt lib g scope tm s = (Inr a, t)" "finally_do (app (ad_route a) (ad_scope a)) (release_slot g a tm) t = (r, u)"
  shows "gateway_state.more u = gateway_state.more (snd (app (ad_route a) (ad_scope a) t))"
proof -
  have "keeps (\<lambda>s. untouched s = x) (release_slot g a tm)" for x
    unfolding release_slot_def by (intro keeps_intros)
  from keepsD [OF this] have "untouched q = untouched p" if "release_slot g a tm p = (z, q)" for z p q
    using that by blast
  with assms(2) show ?thesis
    by (fastforce simp: finally_do_def untouched_def split: prod.splits sum.splits)
qed

lemma gateway_send_error_more: "gateway_state.more (snd (gateway_send_error e s)) = gateway_state.more s"
proof -
  have k: "keeps (\<lambda>s. gateway_state.more s = x) (send_error st code msg cid)"
    "keeps (\<lambda>s. gateway_state.more s = x) (modify (\<lambda>s. s\<lparr>gs_rate_headers := f s\<rparr>))" for x st code msg cid f
    unfolding send_error_def by (intro keeps_intros keeps_modify; simp)+
  have "keeps (\<lambda>s. gateway_state.more s = x) (gateway_send_error e)" for x
    unfolding gateway_send_error_def refuse_def by (cases e) (auto intro!: keeps_intros k)
  from this [of "gateway_state.more s"] show ?thesis by (simp add: keeps_def)
qed

text \<open>C6. A service behind the tenant middleware and the gateway only ever sees the identity of a verified
  token: either no service ran, and the services' own state is unchanged, or exactly one ran, on a
  matching route and in the token's context, with a scope whose tenant, role and subject headers are the
  token's, whatever headers the client sent.\<close>

theorem service_sees_token_identity:
  assumes "call_middleware rt jlib mw req now (call_gateway rt lib g scope tm app) s = (r, t)"
    and "sc_type req = ''http''"
  shows "gateway_state.more t = gateway_state.more s \<or>
    (\<exists>c route sc u. tenant_context_from_authorization_header jlib
           (map_of (headers_from_scope (sc_headers req)) ''authorization'') (mi_jwt_secret mw) (mi_expected_issuer mw)
           (mi_expected_audience mw) (map_of (headers_from_scope (sc_headers req)) ''x-correlation-id'') now = Inr c \<and>
       route \<in> set (gw_routes g) \<and> route_matches route (gw_path scope) \<and> carries_identity c sc \<and>
       as_context u = Some c \<and> gateway_state.more u = gateway_state.more s \<and>
       gateway_state.more t = gateway_state.more (snd (app route sc u)))"
  using call_middleware_cases [OF assms]
proof
  let ?h = "headers_from_scope (sc_headers req)"
  assume "\<exists>c. authenticate rt jlib mw ?h now s = (Inr c, s) \<and> with_context c (call_gateway rt lib g scope tm app) s = (r, t)"
  then obtain c u where au: "authenticate rt jlib mw ?h now s = (Inr c, s)"
    and u: "call_gateway rt lib g scope tm app (s\<lparr>as_context := Some c\<rparr>) = (r, u)" "t = u\<lparr>as_context := as_context s\<rparr>"
    unfolding with_context_def by (metis (no_types, lifting) case_prod_conv old.prod.exhaust prod.inject)
  obtain q v where ad: "admit rt lib g scope tm (s\<lparr>as_context := Some c\<rparr>) = (q, v)" by fastforce
  from admit_keeps [OF ad] have v: "gateway_state.more v = gateway_state.more s" "as_context v = Some c"
    by (simp_all add: untouched_def)
  show ?thesis
  proof (cases "\<exists>a. gw_type scope = ''http'' \<and> q = Inr a")
    case True
    then obtain a where a: "q = Inr a" "gw_type scope = ''http''" by blast
    note ad = ad [unfolded a(1)]
    have "gateway_state.more u = gateway_state.more (snd (app (ad_route a) (ad_scope a) v))"
      using u(1) a ad by (intro admit_outcome [OF ad]) (simp add: call_gateway_def)
    moreover have "ad_context a = c" using admit_Inr(1) [OF ad] by simp
    moreover have "ad_route a \<in> set (gw_routes g)"
      by (rule admit_steps [OF ad]) (auto simp: route_for_scope_def find_Some_iff split: option.splits)
    ultimately show ?thesis
      using admit_Inr(2,3) [OF ad] authenticate_Inr(2) [OF au] v u(2)
      by (intro disjI2 exI [where x = c] exI [where x = "ad_route a"] exI [where x = "ad_scope a"] exI [where x = v]) simp
  next
    case False
    have "gateway_state.more u = gateway_state.more s"
    proof (cases "gw_type scope = ''http''")
      case True
      with False ad u(1) obtain e where "gateway_send_error e v = (r, u)"
        by (auto simp: call_gateway_def split: sum.splits)
      with gateway_send_error_more [of e v] v show ?thesis by simp
    next
      case False
      with u(1) gateway_send_error_more [of "GatewayRouteNotFoundError (gw_path scope) None" "s\<lparr>as_context := Some c\<rparr>"]
      show ?thesis by (simp add: call_gateway_def)
    qed
    with u(2) show ?thesis by simp
  qed
qed (auto simp: not_served_def)

definition sample_gateway :: "s2s_config option \<Rightarrow> gateway" where
  "sample_gateway signing =
     \<lparr>gw_routes = [\<lparr>gr_service_name = ''svc'', gr_path_prefix = ''/svc''\<rparr>],
      gw_rate_policy = \<lparr>rl_limit = 2, rl_window_seconds = 60\<rparr>, gw_has_resources = True, gw_s2s = signing,
      gw_source_service_name = ''gw''\<rparr>"

definition sample_scope :: gateway_scope where
  "sample_scope =
     \<lparr>gw_type = ''http'', gw_path = ''/svc/p'', gw_method = ''GET'', gw_root_path = [], gw_raw_path = None,
      gw_headers = Some [Header ''X-Tenant-Id'' ''other'']\<rparr>"

definition sample_times :: gateway_times where
  "sample_times =
     \<lparr>gt_limiter = 61, gt_admit = 61, gt_retry = 61, gt_slot = 61, gt_sign = Fin 61, gt_release = 61\<rparr>"

definition idle_gateway :: "tenant_context option \<Rightarrow> nat gateway_state_scheme" where
  "idle_gateway ambient =
     \<lparr>as_sink = None, as_context = ambient, as_sent = [], gs_windows = [],
      gs_resources = fresh_manager sample_plan [], gs_s2s = no_nonces, gs_uuids = 0, gs_rate_headers = [], \<dots> = 0\<rparr>"

definition counting_app :: "gateway_route \<Rightarrow> gateway_scope \<Rightarrow> (nat gateway_state_scheme, unit) act" where
  "counting_app route sc = modify (\<lambda>s. gateway_state.more_update Suc s)"

theorem service_sees_token_identity_witness:
  "gateway_state.more (snd (call_middleware sample_runtime SecurityProperties.sample_library
     SecurityProperties.sample_middleware SecurityProperties.sample_scope (Fin 1)
     (call_gateway sample_runtime sample_library (sample_gateway None) sample_scope sample_times counting_app)
     (idle_gateway None))) = 0"
proof -
  obtain r t where run: "call_middleware sample_runtime SecurityProperties.sample_library
     SecurityProperties.sample_middleware SecurityProperties.sample_scope (Fin 1)
     (call_gateway sample_runtime sample_library (sample_gateway None) sample_scope sample_times counting_app)
     (idle_gateway None) = (r, t)" by (rule prod.exhaust)
  have "map_of (headers_from_scope (sc_headers SecurityProperties.sample_scope)) ''authorization'' = None"
    by (simp add: SecurityProperties.sample_scope_def py_lower_def lower_char_def Let_def)
  then have "tenant_context_from_authorization_header SecurityProperties.sample_library
      (map_of (headers_from_scope (sc_headers SecurityProperties.sample_scope)) ''authorization'') secret iss aud cid now \<noteq> Inr c"
    for secret iss aud cid now c
    by (simp add: tenant_context_from_authorization_header_def extract_bearer_token_def)
  with service_sees_token_identity [OF run] have "gateway_state.more t = gateway_state.more (idle_gateway None)"
    by (auto simp: SecurityProperties.sample_scope_def)
  then show ?thesis using run by (simp add: idle_gateway_def)
qed

text \<open>A service may do to the state what it likes, and may use the resource manager of the gateway for
  admissions, queues, storage and snapshots; only operation slots it does not take or give back itself.\<close>

fun slot_call :: "tenant_call \<Rightarrow> bool" where
  "slot_call (AcquireSlot c op now) = True"
| "slot_call (ReleaseSlot c op now) = True"
| "slot_call _ = False"

type_synonym 'z service = "gateway_route \<Rightarrow> gateway_scope \<Rightarrow> ('z gateway_state_scheme, unit) act"

definition takes_no_slots :: "'z service \<Rightarrow> bool" where
  "takes_no_slots app \<longleftrightarrow>
     (\<forall>route sc s r t. app route sc s = (r, t) \<longrightarrow>
        (\<exists>calls. (\<forall>k\<in>set calls. \<not> slot_call k) \<and> gs_resources t = tenant_run (gs_resources s) calls))"

lemma tenant_run_slots:
  "\<forall>k\<in>set calls. \<not> slot_call k \<Longrightarrow> slots x (tenant_run m calls) = slots x m"
proof (induction calls arbitrary: m)
  case (Cons k calls)
  have "tu_concurrent_operations (snd (usage_after k u)) = tu_concurrent_operations u" for u
    using Cons.prems by (cases k) simp_all
  then have "slots x (snd (tenant_step m k)) = slots x m"
    by (cases "call_target k") (simp_all add: tenant_step_None tenant_step_Some Let_def split_beta slots_current)
  with Cons show ?case by simp
qed simp

lemma service_slots:
  "takes_no_slots app \<Longrightarrow> app route sc s = (r, t) \<Longrightarrow> slots x (gs_resources t) = slots x (gs_resources s)"
  unfolding takes_no_slots_def using tenant_run_slots by metis

text \<open>One request: the slots of no tenant go down, and without signing they do not go up either.\<close>

lemma call_gateway_slots:
  assumes "call_gateway rt lib g scope tm app s = (r, t)" and "takes_no_slots app"
    and "\<And>k. 0 \<le> slots k (gs_resources s)"
  shows "slots x (gs_resources s) \<le> slots x (gs_resources t) \<and>
    (gw_s2s g = None \<longrightarrow> slots x (gs_resources t) = slots x (gs_resources s))"
proof -
  have err: "slots x (gs_resources q) = slots x (gs_resources p)" if "gateway_send_error e p = (z, q)" for e p z q
    using keepsD [OF send_error_resources that refl] by simp
  show ?thesis
  proof (cases "gw_type scope = ''http''")
    case True
    obtain q u where ad: "admit rt lib g scope tm s = (q, u)" by fastforce
    show ?thesis
    proof (cases q)
      case (Inl e)
      with ad True assms(1) err admit_refused_grows [OF ad [unfolded Inl], of x] admit_refused_slots [OF ad [unfolded Inl], of x]
      show ?thesis by (fastforce simp: call_gateway_def)
    next
      case (Inr a)
      note ad = ad [unfolded Inr]
      obtain z v where app: "app (ad_route a) (ad_scope a) u = (z, v)" by fastforce
      note v = service_slots [OF assms(2) app]
      have run: "finally_do (app (ad_route a) (ad_scope a)) (release_slot g a tm) u = (r, t)"
        using assms(1) True ad by (simp add: call_gateway_def)
      show ?thesis
      proof (cases "gw_has_resources g")
        case False
        with run app v admit_slots [OF ad, of x] show ?thesis
          by (auto simp: finally_do_def release_slot_def act_eval)
      next
        case True
        have op: "py_strip (ad_operation a) \<noteq> []"
          by (rule admit_steps [OF ad]) (simp add: operation_name_text)
        from release_slots [OF op admit_tenant_ok [OF ad True]] obtain sn m where
          "release_operation_slot (ad_context a) (ad_operation a) (gt_release tm) (gs_resources v) = (Inr sn, m)"
          and m: "\<And>k. slots k m = (if k = tenant_of (ad_context a) then max (slots k (gs_resources v) - 1) 0
                                  else slots k (gs_resources v))" by metis
        with run app True have "gs_resources t = m"
          by (auto simp: finally_do_def release_slot_def bnd_def act_eval on_resources_def)
        with m [of x] v [of x] admit_slots [OF ad, of x] True assms(3) [of x] show ?thesis by auto
      qed
    qed
  next
    case False
    with assms(1) err show ?thesis by (fastforce simp: call_gateway_def)
  qed
qed

text \<open>Any number of requests, each with its own configuration, context, clock and service.\<close>

record 'z gateway_request =
  gq_context :: "tenant_context option"
  gq_runtime :: runtime
  gq_library :: s2s_library
  gq_gateway :: gateway
  gq_scope :: gateway_scope
  gq_times :: gateway_times
  gq_service :: "'z service"

primrec gateway_run :: "'z gateway_state_scheme \<Rightarrow> 'z gateway_request list \<Rightarrow> 'z gateway_state_scheme" where
  "gateway_run s [] = s"
| "gateway_run s (q # qs) =
     gateway_run (snd (call_gateway (gq_runtime q) (gq_library q) (gq_gateway q) (gq_scope q) (gq_times q)
                         (gq_service q) (s\<lparr>as_context := gq_context q\<rparr>))) qs"

lemma gateway_run_slots:
  assumes "\<forall>q\<in>set qs. takes_no_slots (gq_service q)" and "\<And>k. 0 \<le> slots k (gs_resources s)"
  shows "slots x (gs_resources s) \<le> slots x (gs_resources (gateway_run s qs)) \<and>
    ((\<forall>q\<in>set qs. gw_s2s (gq_gateway q) = None) \<longrightarrow>
     slots x (gs_resources (gateway_run s qs)) = slots x (gs_resources s))"
  using assms
proof (induction qs arbitrary: s)
  case (Cons q qs)
  let ?s = "s\<lparr>as_context := gq_context q\<rparr>"
  let ?m = "call_gateway (gq_runtime q) (gq_library q) (gq_gateway q) (gq_scope q) (gq_times q) (gq_service q) ?s"
  obtain r t where run: "?m = (r, t)" by fastforce
  have same: "gs_resources ?s = gs_resources s" by simp
  have step: "slots k (gs_resources s) \<le> slots k (gs_resources t) \<and>
      (gw_s2s (gq_gateway q) = None \<longrightarrow> slots k (gs_resources t) = slots k (gs_resources s))" for k
    using call_gateway_slots [OF run] Cons.prems unfolding same by simp
  have "0 \<le> slots k (gs_resources t)" for k using step [of k] Cons.prems(2) [of k] by linarith
  from Cons.IH [OF _ this] Cons.prems(1) step [of x] run show ?case by auto
qed simp

text \<open>C25. Without request signing no operation slot is lost: after any number of requests in a row, of any
  tenants, whether they are refused, served, or end in an exception of the service, every tenant holds as
  many slots as before. The services may use the resource manager for all but operation slots; the slots
  held before are not negative (they never are, by the plan of the tenant).\<close>

theorem slots_are_returned:
  assumes "\<forall>q\<in>set requests. gw_s2s (gq_gateway q) = None \<and> takes_no_slots (gq_service q)"
    and "\<And>k. 0 \<le> slots k (gs_resources s)"
  shows "slots tenant (gs_resources (gateway_run s requests)) = slots tenant (gs_resources s)"
  using gateway_run_slots [of requests s tenant] assms by blast

lemma idle_slots: "slots k (gs_resources (idle_gateway x)) = 0"
  by (simp add: slots_def idle_gateway_def fresh_manager_def)

text \<open>A service that reserves storage and then fails.\<close>

definition storing_service :: "nat service" where
  "storing_service route sc =
     bnd (on_resources (reserve_storage_bytes sample_context 0 ''doc'' 61)) (\<lambda>_. fail (ExternalError ''app''))"

lemma storing_service_slots: "takes_no_slots storing_service"
proof -
  have "\<exists>calls. (\<forall>k\<in>set calls. \<not> slot_call k) \<and> gs_resources t = tenant_run (gs_resources s) calls"
    if "storing_service route sc s = (r, t)" for route sc r and s t :: "nat gateway_state_scheme"
    using that
    by (intro exI [of _ "[ReserveStorage sample_context 0 ''doc'' 61]"])
      (auto simp: storing_service_def bnd_def act_eval on_resources_def split: prod.splits sum.splits)
  then show ?thesis unfolding takes_no_slots_def by blast
qed

definition storing_request :: "nat gateway_request" where
  "storing_request =
     \<lparr>gq_context = Some sample_context, gq_runtime = sample_runtime, gq_library = sample_library,
      gq_gateway = sample_gateway None, gq_scope = sample_scope, gq_times = sample_times,
      gq_service = storing_service\<rparr>"

theorem slots_are_returned_witness:
  "slots ''t'' (gs_resources (gateway_run (idle_gateway None) [storing_request, storing_request])) = 0"
  using slots_are_returned [of "[storing_request, storing_request]" "idle_gateway None" "''t''"] storing_service_slots
  by (simp add: storing_request_def sample_gateway_def idle_slots)

lemma failing_signature:
  assumes "gw_type scope = ''http''" "as_context s = Some c" "route_for_scope g scope c = Inr route" "gw_has_resources g"
    and "on_windows (limiter_check (gw_rate_policy g) (rate_limit_key c route) (gt_limiter tm)) s = (Inr d, u)" "rl_allowed d"
    and "acquire_resources g c route (operation_name scope route) tm u = (Inr (), v)"
    and "gw_s2s g = Some cfg" "detect_auth_method lib cfg = SHARED_SECRET" "s2_shared_secret cfg = None"
  shows "\<exists>t. call_gateway rt lib g scope tm app s = (Inl (S2SAuthenticationError ''shared secret''), t) \<and>
    as_sent t = as_sent s \<and>
    (\<forall>x. slots x (gs_resources t) = slots x (gs_resources s) + (if x = tenant_of c then 1 else 0))"
proof -
  obtain cid w where "correlation_for rt c (raw_headers (gw_headers scope)) v = (Inr cid, w)"
    by (cases "or_else (tc_correlation_id c) (header_value (raw_headers (gw_headers scope)) ''x-correlation-id'')")
      (auto simp: correlation_for_def bnd_def act_eval)
  moreover have sg: "\<exists>y. on_s2s (sign_request lib cfg m p sv [] None None now) x = (Inl (S2SAuthenticationError ''shared secret''), y)"
    for m p sv now and x :: "'a gateway_state_scheme"
    using assms(9,10)
    by (simp add: on_s2s_def sign_request_def shared_sign_request_def secret_of_def s2s_error_def bnd_def act_eval)
  moreover from sg obtain t where "on_s2s (sign_request lib cfg (gw_method scope) (downstream_path route (gw_path scope))
      (gw_source_service_name g) [] None None (gt_sign tm)) w = (Inl (S2SAuthenticationError ''shared secret''), t)" by blast
  ultimately have ds: "downstream_scope rt lib g scope route c (gt_sign tm) v = (Inl (S2SAuthenticationError ''shared secret''), t)"
    using assms(8)
    by (simp add: downstream_scope_def downstream_headers_def signed_downstream_headers_def Let_def bnd_def act_eval)
  have ad: "admit rt lib g scope tm s = (Inl (S2SAuthenticationError ''shared secret''), t)"
    using assms(2,3,5,6,7) ds by (simp add: admit_def Let_def bnd_def act_eval resolve_context_def)
  have "gs_resources u = gs_resources s" using assms(5) by (auto simp: on_windows_def split: prod.splits)
  moreover have "gs_resources t = gs_resources v" using keepsD [OF downstream_scope_resources ds refl] .
  moreover have "as_sent t = as_sent s" using admit_keeps [OF ad] by (simp add: untouched_def)
  ultimately show ?thesis
    using acquire_resources_slots(1) [OF assms(7)] assms(1,4) ad
    by (simp add: call_gateway_def gateway_send_error_def fail_def)
qed

text \<open>C26. A signature that cannot be made costs the tenant a slot: when the gateway signs with a shared
  secret it does not have, an admitted request ends in the exception of the signing, no response is sent,
  and the tenant holds one operation slot more: right after the request, and at least that one more after
  any further requests, through gateways that sign or not, as long as the services behind them leave
  operation slots alone. (The slots held before are not negative.)\<close>

theorem failing_signature_leaks_slot:
  assumes "gw_type scope = ''http''" "as_context s = Some c" "route_for_scope g scope c = Inr route" "gw_has_resources g"
    and "on_windows (limiter_check (gw_rate_policy g) (rate_limit_key c route) (gt_limiter tm)) s = (Inr d, u)" "rl_allowed d"
    and "acquire_resources g c route (operation_name scope route) tm u = (Inr (), v)"
    and "gw_s2s g = Some cfg" "detect_auth_method lib cfg = SHARED_SECRET" "s2_shared_secret cfg = None"
    and "\<And>k. 0 \<le> slots k (gs_resources s)" and "\<forall>q\<in>set later. takes_no_slots (gq_service q)"
  shows "\<exists>t. call_gateway rt lib g scope tm app s = (Inl (S2SAuthenticationError ''shared secret''), t) \<and>
    as_sent t = as_sent s \<and>
    slots (tenant_of c) (gs_resources t) = slots (tenant_of c) (gs_resources s) + 1 \<and>
    slots (tenant_of c) (gs_resources s) + 1 \<le> slots (tenant_of c) (gs_resources (gateway_run t later))"
proof -
  obtain t where t: "call_gateway rt lib g scope tm app s = (Inl (S2SAuthenticationError ''shared secret''), t)"
      "as_sent t = as_sent s"
      "\<And>x. slots x (gs_resources t) = slots x (gs_resources s) + (if x = tenant_of c then 1 else 0)"
    using failing_signature [OF assms(1-10)] by blast
  have "0 \<le> slots k (gs_resources t)" for k using t(3) [of k] assms(11) [of k] by simp
  from gateway_run_slots [OF assms(12) this, of "tenant_of c"] t show ?thesis by simp
qed

definition secretless :: s2s_config where
  "secretless = sample_config\<lparr>s2_shared_secret := None\<rparr>"

definition sample_route :: gateway_route where
  "sample_route = \<lparr>gr_service_name = ''svc'', gr_path_prefix = ''/svc''\<rparr>"

lemma sample_limiter:
  "fst (on_windows (limiter_check (gw_rate_policy (sample_gateway x)) (rate_limit_key sample_context sample_route)
     (gt_limiter sample_times)) (idle_gateway y)) =
   Inr \<lparr>rl_allowed = True, rl_decision_limit = 2, rl_remaining = 1, rl_reset_at = 120, rl_retry_after_seconds = 0\<rparr>"
  "gs_resources (snd (on_windows (limiter_check (gw_rate_policy (sample_gateway x)) (rate_limit_key sample_context sample_route)
     (gt_limiter sample_times)) (idle_gateway y))) = fresh_manager sample_plan []"
proof -
  have "py_strip (rate_limit_key sample_context sample_route) \<noteq> []" by code_simp
  then show "fst (on_windows (limiter_check (gw_rate_policy (sample_gateway x)) (rate_limit_key sample_context sample_route)
     (gt_limiter sample_times)) (idle_gateway y)) =
   Inr \<lparr>rl_allowed = True, rl_decision_limit = 2, rl_remaining = 1, rl_reset_at = 120, rl_retry_after_seconds = 0\<rparr>"
  "gs_resources (snd (on_windows (limiter_check (gw_rate_policy (sample_gateway x)) (rate_limit_key sample_context sample_route)
     (gt_limiter sample_times)) (idle_gateway y))) = fresh_manager sample_plan []"
    by (simp_all add: on_windows_def limiter_check_def bnd_def act_eval idle_gateway_def sample_gateway_def sample_times_def)
qed

lemma sample_acquire:
  assumes "gs_resources s = fresh_manager sample_plan []"
  shows "fst (acquire_resources (sample_gateway x) sample_context sample_route ''get.svc'' sample_times s) = Inr ()"
proof -
  have "case admit_request sample_context ''svc'' ''get.svc'' 61 61 (fresh_manager sample_plan []) of
      (Inr d, m) \<Rightarrow> rd_allowed d \<and>
        (case acquire_operation_slot sample_context ''get.svc'' 61 m of (Inr d', m') \<Rightarrow> rd_allowed d' | _ \<Rightarrow> False)
    | _ \<Rightarrow> False"
    by code_simp
  then show ?thesis
    using assms
    by (auto simp: acquire_resources_def bnd_def act_eval on_resources_def sample_gateway_def sample_route_def
        sample_times_def split: prod.splits sum.splits)
qed

theorem failing_signature_leaks_slot_witness:
  "\<exists>t. call_gateway sample_runtime sample_library (sample_gateway (Some secretless)) sample_scope sample_times counting_app
     (idle_gateway (Some sample_context)) = (Inl (S2SAuthenticationError ''shared secret''), t) \<and>
     slots ''t'' (gs_resources t) = 1 \<and>
     1 \<le> slots ''t'' (gs_resources (gateway_run t [storing_request, storing_request]))"
proof -
  obtain d u where w: "on_windows (limiter_check (gw_rate_policy (sample_gateway (Some secretless)))
      (rate_limit_key sample_context sample_route) (gt_limiter sample_times)) (idle_gateway (Some sample_context)) = (Inr d, u)"
    "rl_allowed d" "gs_resources u = fresh_manager sample_plan []"
    using sample_limiter [of "Some secretless" "Some sample_context"] by (metis prod.collapse rate_limit_decision.select_convs(1))
  have op: "operation_name sample_scope sample_route = ''get.svc''" by code_simp
  obtain v where a: "acquire_resources (sample_gateway (Some secretless)) sample_context sample_route
      (operation_name sample_scope sample_route) sample_times u = (Inr (), v)"
    unfolding op using sample_acquire [OF w(3)] by (metis prod.collapse)
  have route: "route_for_scope (sample_gateway (Some secretless)) sample_scope sample_context = Inr sample_route"
    by code_simp
  have "tenant_of sample_context = ''t''" by code_simp
  moreover have "detect_auth_method sample_library secretless = SHARED_SECRET" "s2_shared_secret secretless = None"
    by (simp_all add: detect_auth_method_def secretless_def sample_config_def)
  moreover have "gw_type sample_scope = ''http''" "as_context (idle_gateway (Some sample_context)) = Some sample_context"
    "gw_has_resources (sample_gateway (Some secretless))" "gw_s2s (sample_gateway (Some secretless)) = Some secretless"
    by (simp_all add: sample_scope_def idle_gateway_def sample_gateway_def)
  ultimately show ?thesis
    using failing_signature_leaks_slot [OF _ _ route _ w(1,2) a, where app = counting_app and lib = sample_library
        and rt = sample_runtime and later = "[storing_request, storing_request]"] storing_service_slots
    by (auto simp: idle_slots storing_request_def)
qed

end
