(* ===== verification/Wallet.thy ===== *)
theory Wallet
  imports Events Rbac
begin

text \<open>
  \<open>wallet/api.py\<close>: the ledger of a tenant's member balances. A request carries a decimal
  amount of at most two places, here its rational value; after validation every amount is an integer
  of hundredths. The handlers take the tenant context of the request, the idempotency header and the
  body; what FastAPI does before them is the validation of the header, the query and the body.
\<close>

section \<open>Amounts\<close>

text \<open>
  \<open>quantize\<close> raises when the result has more than 28 digits, the precision of the default
  context. Sums of amounts are exact as long as they stay below that bound, and once the sum of
  amounts of one sign has passed it \<open>quantize\<close> fails.
\<close>

definition normalize_mcv :: "int \<Rightarrow> exn + int" where
  "normalize_mcv v = (if \<bar>v\<bar> < 10 ^ 28 then Inr v else Inl InvalidOperation)"

definition sum_mcv :: "int list \<Rightarrow> exn + int" where
  "sum_mcv vs = normalize_mcv (sum_list vs)"

definition mcv_to_string :: "int \<Rightarrow> string" where
  "mcv_to_string v =
     (let n = nat \<bar>v\<bar> in
      (if v < 0 then ''-'' else []) @ nat_digits (n div 100) @ ''.''
      @ nat_digits (n mod 100 div 10) @ nat_digits (n mod 10))"

text \<open>\<open>Field(max_digits=14, decimal_places=2)\<close>: at most twelve digits before the point.\<close>

definition mcv_in_range :: "int \<Rightarrow> bool" where
  "mcv_in_range v \<longleftrightarrow> \<bar>v\<bar> < 10 ^ 14"

section \<open>Requests\<close>

datatype wallet_operation_type = DISTRIBUTION_CREDIT | PAYOUT_DEBIT | MANUAL_ADJUSTMENT

fun operation_type_value :: "wallet_operation_type \<Rightarrow> string" where
  "operation_type_value DISTRIBUTION_CREDIT = ''distribution_credit''"
| "operation_type_value PAYOUT_DEBIT = ''payout_debit''"
| "operation_type_value MANUAL_ADJUSTMENT = ''manual_adjustment''"

definition parse_operation_type :: "string \<Rightarrow> wallet_operation_type option" where
  "parse_operation_type raw =
     find (\<lambda>t. operation_type_value t = py_lower (py_strip raw))
       [DISTRIBUTION_CREDIT, PAYOUT_DEBIT, MANUAL_ADJUSTMENT]"

record wallet_body =
  wb_operation_id :: "string option"
  wb_member_id :: string
  wb_amount_mcv :: rat
  wb_type :: string
  wb_ref_type :: string
  wb_ref_id :: string
  wb_period :: "string option"
  wb_distribution_hash :: "string option"
  wb_payout_share :: "pyfloat option"
  wb_created_at :: "pydt option"
  wb_metadata :: "(string \<times> json) list"

record wallet_request =
  wq_operation_id :: "string option"
  wq_member_id :: string
  wq_amount_mcv :: int
  wq_type :: wallet_operation_type
  wq_ref_type :: string
  wq_ref_id :: string
  wq_period :: "string option"
  wq_distribution_hash :: "string option"
  wq_payout_share :: "pyfloat option"
  wq_created_at :: "int option"
  wq_metadata :: "(string \<times> json) list"

definition reference_type_ok :: "string \<Rightarrow> bool" where
  "reference_type_ok s \<longleftrightarrow> head_tail is_lower word_char 63 s"

definition wallet_operation_create_request :: "runtime \<Rightarrow> wallet_body \<Rightarrow> exn + wallet_request" where
  "wallet_operation_create_request rt b =
     (case parse_operation_type (wb_type b) of
        None \<Rightarrow> Inl (ValidationError ''request'')
      | Some ty \<Rightarrow>
          let cents = 100 * wb_amount_mcv b in
          model ''request''
            (optional_ok token_ok (map_option pyd_strip (wb_operation_id b)) \<and>
             token_ok (pyd_strip (wb_member_id b)) \<and>
             of_int \<lfloor>cents\<rfloor> = cents \<and> mcv_in_range \<lfloor>cents\<rfloor> \<and> \<lfloor>cents\<rfloor> \<noteq> 0 \<and>
             reference_type_ok (pyd_strip (wb_ref_type b)) \<and> token_ok (pyd_strip (wb_ref_id b)) \<and>
             optional_ok period_ok (map_option pyd_strip (wb_period b)) \<and>
             optional_ok audit_hash_ok (map_option pyd_strip (wb_distribution_hash b)) \<and>
             optional_ok (finite_between 0 1) (wb_payout_share b))
            \<lparr>wq_operation_id = map_option pyd_strip (wb_operation_id b),
             wq_member_id = pyd_strip (wb_member_id b), wq_amount_mcv = \<lfloor>cents\<rfloor>, wq_type = ty,
             wq_ref_type = pyd_strip (wb_ref_type b), wq_ref_id = pyd_strip (wb_ref_id b),
             wq_period = map_option pyd_strip (wb_period b),
             wq_distribution_hash = map_option pyd_strip (wb_distribution_hash b),
             wq_payout_share = wb_payout_share b, wq_created_at = map_option as_utc (wb_created_at b),
             wq_metadata = obj_members (rt_pyd_json rt (JObj (wb_metadata b)))\<rparr>)"

definition dump_request :: "json_mode \<Rightarrow> wallet_request \<Rightarrow> json" where
  "dump_request jm q =
     JObj (opt_member ''operation_id'' JStr (wq_operation_id q)
           @ [(''member_id'', JStr (wq_member_id q)), (''amount_mcv'', JStr (mcv_to_string (wq_amount_mcv q))),
              (''type'', JStr (operation_type_value (wq_type q))), (''ref_type'', JStr (wq_ref_type q)),
              (''ref_id'', JStr (wq_ref_id q))]
           @ opt_member ''period'' JStr (wq_period q)
           @ opt_member ''distribution_hash'' JStr (wq_distribution_hash q)
           @ opt_member ''payout_share'' JFloat (wq_payout_share q)
           @ opt_member ''created_at'' (\<lambda>t. JStr (jm_time jm t)) (wq_created_at q)
           @ [(''metadata'', jm_value jm (JObj (wq_metadata q)))])"

definition wallet_request_hash ::
    "runtime \<Rightarrow> json_mode \<Rightarrow> string \<Rightarrow> string \<Rightarrow> wallet_request \<Rightarrow> string" where
  "wallet_request_hash rt jm tenant_id idempotency_key q =
     rt_sha256 rt (json_dumps (rt_float_repr rt)
       (JObj [(''tenant_id'', JStr tenant_id), (''idempotency_key'', JStr idempotency_key),
              (''payload'', dump_request jm q)]))"

section \<open>The repository\<close>

record wallet_record =
  wr_operation_id :: string
  wr_tenant_id :: string
  wr_member_id :: string
  wr_member_hash :: string
  wr_amount_mcv :: int
  wr_balance_after_mcv :: int
  wr_type :: string
  wr_ref_type :: string
  wr_ref_id :: string
  wr_period :: "string option"
  wr_distribution_hash :: "string option"
  wr_payout_share :: "pyfloat option"
  wr_metadata :: "(string \<times> json) list"
  wr_audit_hash :: string
  wr_idempotency_key :: string
  wr_request_hash :: string
  wr_created_by :: string
  wr_created_by_hash :: string
  wr_created_at :: int

record wallet_state = svc +
  operations :: "wallet_record list"

record wallet_balance =
  wl_tenant_id :: string
  wl_member_id :: string
  wl_balance_mcv :: int
  wl_credited_mcv :: int
  wl_debited_mcv :: int
  wl_operation_count :: nat

definition get_existing_operation ::
    "tenant_context \<Rightarrow> string \<Rightarrow> string \<Rightarrow> wallet_record list \<Rightarrow> exn + wallet_record option" where
  "get_existing_operation c idempotency_key request_hash ops =
     (case find (\<lambda>r. wr_tenant_id r = tc_tenant_id c \<and> wr_idempotency_key r = idempotency_key) ops of
        None \<Rightarrow> Inr None
      | Some r \<Rightarrow>
          if wr_request_hash r \<noteq> request_hash
          then Inl (SharedError 409 ''idempotency_conflict'' (tc_correlation_id c))
          else Inr (Some r))"

definition operation_exists :: "string \<Rightarrow> string \<Rightarrow> wallet_record list \<Rightarrow> bool" where
  "operation_exists tenant_id operation_id ops \<longleftrightarrow>
     list_ex (\<lambda>r. wr_tenant_id r = tenant_id \<and> wr_operation_id r = operation_id) ops"

definition add_operation :: "wallet_record \<Rightarrow> ('z wallet_state_scheme, wallet_record) act" where
  "add_operation r =
     bnd (gets (\<lambda>s. operation_exists (wr_tenant_id r) (wr_operation_id r) (operations s))) (\<lambda>dup.
     bnd (require (\<not> dup) (SharedError 409 ''wallet_operation_conflict'' None)) (\<lambda>_.
     bnd (modify (\<lambda>s. s\<lparr>operations := operations s @ [r]\<rparr>)) (\<lambda>_.
     ret r)))"

text \<open>\<open>TenantScopedRepository.list_for_tenant\<close> on the records of this repository.\<close>

fun own_operations :: "tenant_context \<Rightarrow> wallet_record list \<Rightarrow> exn + wallet_record list" where
  "own_operations c [] = Inr []"
| "own_operations c (r # rs) =
     ebind (validated_tenant_id (Some (JStr (wr_tenant_id r))) (tc_correlation_id c)) (\<lambda>tenant.
     ebind (own_operations c rs) (\<lambda>own.
     Inr (if tenant = tc_tenant_id c then r # own else own)))"

text \<open>A stable sort in descending order keeps the order of equal keys.\<close>

definition latest_first :: "wallet_record list \<Rightarrow> wallet_record list" where
  "latest_first rs = rev (sort_key wr_created_at (sort_key wr_operation_id (rev rs)))"

definition list_operations ::
    "tenant_context \<Rightarrow> string option \<Rightarrow> string option \<Rightarrow> string option \<Rightarrow> nat \<Rightarrow> nat
     \<Rightarrow> wallet_record list \<Rightarrow> exn + wallet_record list" where
  "list_operations c member_id ref_type ref_id limit offset ops =
     ebind (own_operations c ops) (\<lambda>own.
     Inr (take limit (drop offset (latest_first
       (filter (\<lambda>r. (member_id = None \<or> Some (wr_member_id r) = member_id) \<and>
                    (ref_type = None \<or> Some (wr_ref_type r) = ref_type) \<and>
                    (ref_id = None \<or> Some (wr_ref_id r) = ref_id)) own)))))"

definition balance_for_member ::
    "tenant_context \<Rightarrow> string \<Rightarrow> wallet_record list \<Rightarrow> exn + wallet_balance" where
  "balance_for_member c member_id ops =
     ebind (own_operations c ops) (\<lambda>own.
     let amounts = map wr_amount_mcv (filter (\<lambda>r. wr_member_id r = member_id) own) in
     ebind (sum_mcv (filter (\<lambda>a. 0 < a) amounts)) (\<lambda>credited.
     ebind (sum_mcv (map uminus (filter (\<lambda>a. a < 0) amounts))) (\<lambda>debited.
     ebind (normalize_mcv (credited - debited)) (\<lambda>balance.
     Inr \<lparr>wl_tenant_id = tc_tenant_id c, wl_member_id = member_id, wl_balance_mcv = balance,
          wl_credited_mcv = credited, wl_debited_mcv = debited,
          wl_operation_count = length amounts\<rparr>))))"

section \<open>The handlers\<close>

definition WALLET_RECORD_POLICY :: access_policy where
  "WALLET_RECORD_POLICY =
     \<lparr>pol_allowed_roles = [''council'', ''board''], pol_action = ''wallet.operation.record'',
      pol_resource_type = ''wallet''\<rparr>"

definition WALLET_READ_POLICY :: access_policy where
  "WALLET_READ_POLICY =
     \<lparr>pol_allowed_roles = [''council'', ''presidium'', ''board''], pol_action = ''wallet.read'',
      pol_resource_type = ''wallet''\<rparr>"

definition wallet_subject :: "tenant_context \<Rightarrow> exn + string" where
  "wallet_subject c =
     (case tc_subject c of
        None \<Rightarrow> Inl (SharedError 400 ''actor_required'' (tc_correlation_id c))
      | Some s \<Rightarrow>
          if py_strip s = [] then Inl (SharedError 400 ''actor_required'' (tc_correlation_id c)) else Inr s)"

text \<open>The response has the fields of the record but the request hash, which is left empty here.\<close>

definition operation_response :: "runtime \<Rightarrow> wallet_record \<Rightarrow> exn + wallet_record" where
  "operation_response rt r =
     model ''WalletOperationResponse''
       (token_ok (pyd_strip (wr_operation_id r)) \<and> tenant_id_ok (pyd_strip (wr_tenant_id r)) \<and>
        token_ok (pyd_strip (wr_member_id r)) \<and> mcv_in_range (wr_amount_mcv r) \<and>
        mcv_in_range (wr_balance_after_mcv r) \<and> token_ok (pyd_strip (wr_ref_id r)) \<and>
        optional_ok audit_hash_ok (map_option pyd_strip (wr_distribution_hash r)) \<and>
        audit_hash_ok (pyd_strip (wr_audit_hash r)) \<and> token_ok (pyd_strip (wr_idempotency_key r)) \<and>
        token_ok (pyd_strip (wr_created_by r)))
       (r\<lparr>wr_operation_id := pyd_strip (wr_operation_id r), wr_tenant_id := pyd_strip (wr_tenant_id r),
          wr_member_id := pyd_strip (wr_member_id r), wr_member_hash := pyd_strip (wr_member_hash r),
          wr_ref_type := pyd_strip (wr_ref_type r), wr_ref_id := pyd_strip (wr_ref_id r),
          wr_period := map_option pyd_strip (wr_period r),
          wr_distribution_hash := map_option pyd_strip (wr_distribution_hash r),
          wr_audit_hash := pyd_strip (wr_audit_hash r),
          wr_idempotency_key := pyd_strip (wr_idempotency_key r),
          wr_created_by := pyd_strip (wr_created_by r),
          wr_created_by_hash := pyd_strip (wr_created_by_hash r),
          wr_metadata := obj_members (rt_pyd_json rt (JObj (wr_metadata r))), wr_request_hash := []\<rparr>)"

definition opt_json :: "('a \<Rightarrow> json) \<Rightarrow> 'a option \<Rightarrow> json" where
  "opt_json f v = (case v of None \<Rightarrow> JNull | Some x \<Rightarrow> f x)"

definition wallet_audit_metadata ::
    "wallet_request \<Rightarrow> string \<Rightarrow> string \<Rightarrow> int \<Rightarrow> string \<Rightarrow> (string \<times> json) list" where
  "wallet_audit_metadata q operation_id member_hash balance_after created_by_hash =
     [(''operation_id'', JStr operation_id), (''member_hash'', JStr member_hash),
      (''amount_mcv'', JStr (mcv_to_string (wq_amount_mcv q))),
      (''balance_after_mcv'', JStr (mcv_to_string balance_after)),
      (''type'', JStr (operation_type_value (wq_type q))), (''ref_type'', JStr (wq_ref_type q)),
      (''ref_id'', JStr (wq_ref_id q)), (''period'', opt_json JStr (wq_period q)),
      (''distribution_hash'', opt_json JStr (wq_distribution_hash q)),
      (''payout_share'', opt_json JFloat (wq_payout_share q)),
      (''created_by_hash'', JStr created_by_hash), (''metadata'', JObj (wq_metadata q))]"

definition wallet_event_payload :: "wallet_record \<Rightarrow> (string \<times> json) list" where
  "wallet_event_payload r =
     [(''operation_id'', JStr (wr_operation_id r)), (''member_hash'', JStr (wr_member_hash r)),
      (''type'', JStr (wr_type r)), (''ref_type'', JStr (wr_ref_type r)),
      (''ref_id'', JStr (wr_ref_id r)), (''audit_hash'', JStr (wr_audit_hash r))]"

text \<open>The part of the handler that runs for a new idempotency key.\<close>

definition record_new_operation ::
    "runtime \<Rightarrow> tenant_context \<Rightarrow> string \<Rightarrow> string \<Rightarrow> wallet_request
     \<Rightarrow> ('z wallet_state_scheme, wallet_record) act" where
  "record_new_operation rt c idempotency_key request_hash q =
     bnd (id_or_new rt (wq_operation_id q) ''wallet-op'') (\<lambda>operation_id.
     bnd (gets (\<lambda>s. operation_exists (tc_tenant_id c) operation_id (operations s))) (\<lambda>dup.
     bnd (require (\<not> dup) (SharedError 409 ''wallet_operation_conflict'' (tc_correlation_id c))) (\<lambda>_.
     let created_at = (case wq_created_at q of None \<Rightarrow> rt_utcnow rt | Some t \<Rightarrow> t) in
     bnd (lift (wallet_subject c)) (\<lambda>created_by.
     let member_hash = subject_ref_hash rt (tc_tenant_id c) (wq_member_id q);
         created_by_hash = subject_ref_hash rt (tc_tenant_id c) created_by
     in
     bnd (gets operations) (\<lambda>ops.
     bnd (lift (balance_for_member c (wq_member_id q) ops)) (\<lambda>balance.
     bnd (lift (normalize_mcv (wl_balance_mcv balance + wq_amount_mcv q))) (\<lambda>balance_after.
     bnd (id_or_new rt (tc_correlation_id c) ''corr'') (\<lambda>audit_correlation.
     bnd (audit_log rt ''wallet.operation_recorded'' (tc_tenant_id c) None
            (Some (wallet_audit_metadata q operation_id member_hash balance_after created_by_hash))
            (AtTime (Aware created_at 0)) (Some audit_correlation) (Some created_by_hash) (Some ''wallet'')) (\<lambda>rec.
     bnd (add_operation
            \<lparr>wr_operation_id = operation_id, wr_tenant_id = tc_tenant_id c, wr_member_id = wq_member_id q,
             wr_member_hash = member_hash, wr_amount_mcv = wq_amount_mcv q,
             wr_balance_after_mcv = balance_after, wr_type = operation_type_value (wq_type q),
             wr_ref_type = wq_ref_type q, wr_ref_id = wq_ref_id q, wr_period = wq_period q,
             wr_distribution_hash = wq_distribution_hash q, wr_payout_share = wq_payout_share q,
             wr_metadata = wq_metadata q, wr_audit_hash = ar_audit_hash rec,
             wr_idempotency_key = idempotency_key, wr_request_hash = request_hash,
             wr_created_by = created_by, wr_created_by_hash = created_by_hash,
             wr_created_at = created_at\<rparr>) (\<lambda>r.
     bnd (new_id rt ''evt-wallet-operation-recorded'') (\<lambda>event_id.
     bnd (id_or_new rt (tc_correlation_id c) ''corr'') (\<lambda>event_correlation.
     bnd (emit event_id ''wallet.operation_recorded'' ''1.0'' (tc_tenant_id c) ''wallet'' event_correlation
            created_at (wallet_event_payload r) None) (\<lambda>_.
     lift (operation_response rt r))))))))))))))"

definition record_wallet_operation ::
    "runtime \<Rightarrow> json_mode \<Rightarrow> tenant_context option \<Rightarrow> string \<Rightarrow> wallet_body
     \<Rightarrow> ('z wallet_state_scheme, wallet_record) act" where
  "record_wallet_operation rt jm ambient idempotency_key body =
     bnd (lift (resolve_context ambient None)) (\<lambda>c.
     bnd (require (token_ok idempotency_key) (ValidationError ''request'')) (\<lambda>_.
     bnd (lift (wallet_operation_create_request rt body)) (\<lambda>q.
     bnd (lift (require_access ambient WALLET_RECORD_POLICY (Some c))) (\<lambda>actor.
     let request_hash = wallet_request_hash rt jm (tc_tenant_id c) idempotency_key q in
     bnd (gets operations) (\<lambda>ops.
     bnd (lift (get_existing_operation c idempotency_key request_hash ops)) (\<lambda>existing.
     case existing of
       Some r \<Rightarrow> lift (operation_response rt r)
     | None \<Rightarrow> record_new_operation rt actor idempotency_key request_hash q))))))"

definition ensure_member_read_allowed :: "tenant_context \<Rightarrow> string \<Rightarrow> exn + unit" where
  "ensure_member_read_allowed c member_id =
     (if tc_subject c = Some member_id then Inr ()
      else ebind (require_access None WALLET_READ_POLICY (Some c)) (\<lambda>_. Inr ()))"

definition has_governance_read_role :: "tenant_context \<Rightarrow> bool" where
  "has_governance_read_role c \<longleftrightarrow> list_ex (\<lambda>r. r \<in> {''council'', ''presidium'', ''board''}) (tc_roles c)"

definition balance_response :: "wallet_balance \<Rightarrow> exn + wallet_balance" where
  "balance_response b =
     model ''WalletBalanceResponse''
       (tenant_id_ok (pyd_strip (wl_tenant_id b)) \<and> token_ok (pyd_strip (wl_member_id b)) \<and>
        mcv_in_range (wl_balance_mcv b) \<and> mcv_in_range (wl_credited_mcv b) \<and> mcv_in_range (wl_debited_mcv b))
       (b\<lparr>wl_tenant_id := pyd_strip (wl_tenant_id b), wl_member_id := pyd_strip (wl_member_id b)\<rparr>)"

definition get_wallet_balance ::
    "tenant_context option \<Rightarrow> string option \<Rightarrow> ('z wallet_state_scheme, wallet_balance) act" where
  "get_wallet_balance ambient member_id =
     bnd (lift (resolve_context ambient None)) (\<lambda>c.
     bnd (require (optional_ok token_ok member_id) (ValidationError ''request'')) (\<lambda>_.
     bnd (lift (case member_id of Some m \<Rightarrow> Inr m | None \<Rightarrow> wallet_subject c)) (\<lambda>target.
     bnd (lift (ensure_member_read_allowed c target)) (\<lambda>_.
     bnd (gets operations) (\<lambda>ops.
     bnd (lift (balance_for_member c target ops)) (\<lambda>balance.
     lift (balance_response balance)))))))"

fun response_all :: "runtime \<Rightarrow> wallet_record list \<Rightarrow> exn + wallet_record list" where
  "response_all rt [] = Inr []"
| "response_all rt (r # rs) = ebind (operation_response rt r) (\<lambda>x. ebind (response_all rt rs) (\<lambda>xs. Inr (x # xs)))"

definition list_wallet_operations ::
    "runtime \<Rightarrow> tenant_context option \<Rightarrow> string option \<Rightarrow> string option \<Rightarrow> string option \<Rightarrow> int \<Rightarrow> int
     \<Rightarrow> ('z wallet_state_scheme, wallet_record list) act" where
  "list_wallet_operations rt ambient member_id ref_type ref_id limit offset =
     bnd (lift (resolve_context ambient None)) (\<lambda>c.
     bnd (require (optional_ok token_ok member_id \<and> optional_ok reference_type_ok ref_type \<and>
            optional_ok token_ok ref_id \<and> 1 \<le> limit \<and> limit \<le> 500 \<and> 0 \<le> offset)
            (ValidationError ''request'')) (\<lambda>_.
     bnd (lift (case member_id of
              Some m \<Rightarrow> Inr (Some m)
            | None \<Rightarrow> if has_governance_read_role c then Inr None else map_sum id Some (wallet_subject c))) (\<lambda>target.
     bnd (lift (case target of
              Some m \<Rightarrow> ensure_member_read_allowed c m
            | None \<Rightarrow> ebind (require_access ambient WALLET_READ_POLICY (Some c)) (\<lambda>_. Inr ()))) (\<lambda>_.
     bnd (gets operations) (\<lambda>ops.
     bnd (lift (list_operations c target ref_type ref_id (nat limit) (nat offset) ops)) (\<lambda>rs.
     lift (response_all rt rs)))))))"

section \<open>The ledger\<close>

text \<open>What a new record must be, given the records before it.\<close>

definition same_wallet :: "wallet_record \<Rightarrow> wallet_record \<Rightarrow> bool" where
  "same_wallet r x \<longleftrightarrow> wr_tenant_id x = wr_tenant_id r \<and> wr_member_id x = wr_member_id r"

definition wallet_total :: "string \<Rightarrow> string \<Rightarrow> wallet_record list \<Rightarrow> int" where
  "wallet_total tenant_id member_id ops =
     sum_list (map wr_amount_mcv (filter (\<lambda>x. wr_tenant_id x = tenant_id \<and> wr_member_id x = member_id) ops))"

definition follows :: "wallet_record list \<Rightarrow> wallet_record \<Rightarrow> bool" where
  "follows ops r \<longleftrightarrow>
     tenant_id_ok (wr_tenant_id r) \<and> wr_amount_mcv r \<noteq> 0 \<and>
     wr_balance_after_mcv r = wallet_total (wr_tenant_id r) (wr_member_id r) ops + wr_amount_mcv r \<and>
     (\<forall>x\<in>set ops. wr_tenant_id x = wr_tenant_id r \<longrightarrow>
        wr_operation_id x \<noteq> wr_operation_id r \<and> wr_idempotency_key x \<noteq> wr_idempotency_key r)"

definition ledger_ok :: "wallet_record list \<Rightarrow> bool" where
  "ledger_ok ops \<longleftrightarrow> (\<forall>pre r post. ops = pre @ r # post \<longrightarrow> follows pre r)"

lemma ledger_ok_Nil [simp]: "ledger_ok []"
  by (simp add: ledger_ok_def)

lemma ledger_ok_snoc [simp]: "ledger_ok (ops @ [r]) \<longleftrightarrow> ledger_ok ops \<and> follows ops r"
proof
  assume l: "ledger_ok (ops @ [r])"
  have "follows pre x" if "ops = pre @ x # post" for pre x post
    using l [unfolded ledger_ok_def, rule_format, of pre x "post @ [r]"] that by simp
  moreover have "follows ops r" using l [unfolded ledger_ok_def, rule_format, of ops r "[]"] by simp
  ultimately show "ledger_ok ops \<and> follows ops r" by (auto simp: ledger_ok_def)
next
  assume r: "ledger_ok ops \<and> follows ops r"
  have "follows pre x" if "ops @ [r] = pre @ x # post" for pre x post
  proof (cases post rule: rev_cases)
    case Nil
    with that r show ?thesis by simp
  next
    case (snoc p y)
    with that r show ?thesis by (auto simp: ledger_ok_def)
  qed
  then show "ledger_ok (ops @ [r])" by (auto simp: ledger_ok_def)
qed

lemma ledger_ok_tenant: "ledger_ok ops \<Longrightarrow> x \<in> set ops \<Longrightarrow> tenant_id_ok (wr_tenant_id x)"
  by (metis follows_def ledger_ok_def split_list)

lemma own_operations_filter:
  assumes "\<And>x. x \<in> set ops \<Longrightarrow> tenant_id_ok (wr_tenant_id x)"
  shows "own_operations c ops = Inr (filter (\<lambda>x. wr_tenant_id x = tc_tenant_id c) ops)"
  using assms by (induction ops) (simp_all add: validated_tenant_id_def)

lemma sum_signs:
  "sum_list (filter (\<lambda>a. 0 < a) as) - sum_list (map uminus (filter (\<lambda>a. a < 0) as)) = sum_list (as :: int list)"
  by (induction as) auto

lemma normalize_mcvD: "normalize_mcv v = Inr b \<Longrightarrow> b = v"
  by (simp add: normalize_mcv_def split: if_splits)

lemma balance_for_memberD:
  assumes "balance_for_member c m ops = Inr b" and "\<And>x. x \<in> set ops \<Longrightarrow> tenant_id_ok (wr_tenant_id x)"
  shows "wl_balance_mcv b = wallet_total (tc_tenant_id c) m ops"
    and "wl_balance_mcv b = wl_credited_mcv b - wl_debited_mcv b"
proof -
  let ?as = "map wr_amount_mcv (filter (\<lambda>r. wr_member_id r = m) (filter (\<lambda>x. wr_tenant_id x = tc_tenant_id c) ops))"
  have "wl_balance_mcv b = sum_list (filter (\<lambda>a. 0 < a) ?as) - sum_list (map uminus (filter (\<lambda>a. a < 0) ?as))"
    and split: "wl_balance_mcv b = wl_credited_mcv b - wl_debited_mcv b"
    using assms(1) own_operations_filter [OF assms(2), where c = c]
    by (auto simp: balance_for_member_def Let_def sum_mcv_def dest!: normalize_mcvD)
  then show "wl_balance_mcv b = wallet_total (tc_tenant_id c) m ops"
    by (simp add: sum_signs wallet_total_def filter_filter conj_commute)
  show "wl_balance_mcv b = wl_credited_mcv b - wl_debited_mcv b" by (rule split)
qed

section \<open>What a call does\<close>

definition wallet_entry :: "tenant_context \<Rightarrow> string \<Rightarrow> string \<Rightarrow> wallet_request \<Rightarrow> wallet_record \<Rightarrow> bool" where
  "wallet_entry c key request_hash q r \<longleftrightarrow>
     wr_tenant_id r = tc_tenant_id c \<and> wr_idempotency_key r = key \<and> wr_request_hash r = request_hash \<and>
     wr_amount_mcv r = wq_amount_mcv q \<and> wr_member_id r = wq_member_id q"

lemma operations_simps [simp]:
  "operations (sink_append r s) = operations s"
  by (simp add: sink_append_def)

lemma id_or_new_operations:
  assumes "\<And>i t. operations t = operations s \<Longrightarrow> Q (Inr i) t"
  shows "outcome (id_or_new rt given name) Q s"
  by (rule id_or_new_state) (simp add: assms)

lemma operation_exists_iff:
  "operation_exists t i ops \<longleftrightarrow> (\<exists>x\<in>set ops. wr_tenant_id x = t \<and> wr_operation_id x = i)"
  by (auto simp: operation_exists_def list_ex_iff)

definition records_new ::
    "runtime \<Rightarrow> tenant_context \<Rightarrow> string \<Rightarrow> string \<Rightarrow> wallet_request \<Rightarrow> wallet_record list
     \<Rightarrow> exn + wallet_record \<Rightarrow> 'z wallet_state_scheme \<Rightarrow> bool" where
  "records_new rt c key request_hash q ops r t \<longleftrightarrow>
     operations t = ops \<and> (\<exists>e. r = Inl e) \<or>
     (\<exists>x. operations t = ops @ [x] \<and> wallet_entry c key request_hash q x \<and> follows ops x \<and>
          (\<forall>y. r = Inr y \<longrightarrow> operation_response rt x = Inr y))"

lemma records_newI:
  assumes "operations t = operations s \<and> (\<exists>e. r = Inl e) \<or>
    (\<exists>x. operations t = operations s @ [x] \<and> wallet_entry c key h q x \<and> follows (operations s) x \<and>
          (\<forall>y. r = Inr y \<longrightarrow> operation_response rt x = Inr y))"
  shows "records_new rt c key h q (operations s) r t"
  using assms by (simp add: records_new_def)

lemma record_new_operation_rule:
  assumes ok: "ledger_ok (operations s)" and q: "wq_amount_mcv q \<noteq> 0"
    and fresh: "\<And>x. x \<in> set (operations s) \<Longrightarrow> wr_tenant_id x = tc_tenant_id c \<Longrightarrow> wr_idempotency_key x \<noteq> key"
  shows "outcome (record_new_operation rt c key h q) (records_new rt c key h q (operations s)) s"
proof -
  have entry: "follows (operations s) x"
    if "balance_for_member c (wq_member_id q) (operations s) = Inr b"
      "normalize_mcv (wl_balance_mcv b + wq_amount_mcv q) = Inr v" "tenant_id_ok (tc_tenant_id c)"
      "\<not> operation_exists (tc_tenant_id c) i (operations s)" "wr_tenant_id x = tc_tenant_id c"
      "wr_member_id x = wq_member_id q" "wr_amount_mcv x = wq_amount_mcv q" "wr_balance_after_mcv x = v"
      "wr_operation_id x = i" "wr_idempotency_key x = key" for b v i x
    using that(3-) normalize_mcvD [OF that(2)] balance_for_memberD(1) [OF that(1) ledger_ok_tenant [OF ok]] q fresh
    by (auto simp: follows_def operation_exists_iff)
  show ?thesis
    unfolding record_new_operation_def
    by (auto simp: act_simps Let_def add_operation_def wallet_entry_def audit_record_of_def split: sum.split
        intro!: id_or_new_operations audit_log_rule new_id_rule emit_rule records_newI)
      (auto intro: entry)
qed

lemma require_access_context: "require_access ambient p (Some c) = Inr a \<Longrightarrow> a = c"
  by (auto simp: require_access_def resolve_context_def Let_def split: if_splits)

lemma find_Some_mem: "find P xs = Some x \<Longrightarrow> x \<in> set xs \<and> P x"
  by (auto simp: find_Some_iff)

lemma get_existing_None:
  "get_existing_operation c key h ops = Inr None \<longleftrightarrow>
     (\<forall>x\<in>set ops. wr_tenant_id x = tc_tenant_id c \<longrightarrow> wr_idempotency_key x \<noteq> key)"
  by (auto simp: get_existing_operation_def find_None_iff split: option.splits if_splits dest: find_Some_mem)

lemma request_amount: "wallet_operation_create_request rt b = Inr q \<Longrightarrow> wq_amount_mcv q \<noteq> 0"
  by (auto simp: wallet_operation_create_request_def Let_def split: option.splits)

text \<open>A call either finds the record of its key, or writes one, or leaves the ledger alone and fails.\<close>

lemma record_wallet_operation_cases:
  assumes "record_wallet_operation rt jm ambient key body s = (r, t)" and "ledger_ok (operations s)"
  obtains (failed) e where "r = Inl e" "t = s"
    | (found) c q x where "ambient = Some c" "wallet_operation_create_request rt body = Inr q"
      "get_existing_operation c key (wallet_request_hash rt jm (tc_tenant_id c) key q) (operations s) = Inr (Some x)"
      "r = operation_response rt x" "t = s"
    | (new) c q where "ambient = Some c" "wallet_operation_create_request rt body = Inr q"
      "records_new rt c key (wallet_request_hash rt jm (tc_tenant_id c) key q) q (operations s) r t"
proof (cases ambient)
  case None
  with assms(1) failed show thesis by (auto simp: record_wallet_operation_def resolve_context_def bnd_def act_eval)
next
  case (Some c)
  note run = assms(1) [unfolded record_wallet_operation_def Some resolve_context_def option.case]
  consider "\<not> token_ok key" | e where "wallet_operation_create_request rt body = Inl e"
    | e where "require_access ambient WALLET_RECORD_POLICY (Some c) = Inl e"
    | q where "token_ok key" "wallet_operation_create_request rt body = Inr q"
      "require_access ambient WALLET_RECORD_POLICY (Some c) = Inr c"
    using require_access_context by (metis sum.exhaust)
  then show thesis
  proof cases
    case 1
    with run failed show thesis by (auto simp: bnd_def act_eval Let_def)
  next
    case 2
    with run failed show thesis by (cases "token_ok key") (auto simp: bnd_def act_eval Let_def)
  next
    case 3
    with run failed Some show thesis
      by (cases "token_ok key"; cases "wallet_operation_create_request rt body") (auto simp: bnd_def act_eval Let_def)
  next
    case (4 q)
    let ?h = "wallet_request_hash rt jm (tc_tenant_id c) key q"
    show thesis
    proof (cases "get_existing_operation c key ?h (operations s)")
      case (Inl e)
      with run 4 Some failed show thesis by (auto simp: bnd_def act_eval Let_def)
    next
      case (Inr v)
      show thesis
      proof (cases v)
        case (Some x)
        then show thesis
          using run 4 Inr \<open>ambient = Some c\<close> by (intro found [of c q x]) (simp_all add: bnd_def act_eval Let_def)
      next
        case None
        then have new_run: "record_new_operation rt c key ?h q s = (r, t)"
          using run 4 Inr \<open>ambient = Some c\<close> by (auto simp: bnd_def act_eval Let_def)
        have "records_new rt c key ?h q (operations s) r t"
          using outcomeD [OF record_new_operation_rule [OF assms(2) request_amount [OF 4(2)]] new_run] Inr None
          by (auto simp: get_existing_None)
        with 4 \<open>ambient = Some c\<close> new show thesis by blast
      qed
    qed
  qed
qed

lemma record_wallet_operation_ledger:
  assumes "record_wallet_operation rt jm ambient key body s = (r, t)" and "ledger_ok (operations s)"
  shows "ledger_ok (operations t)" and "\<exists>xs. operations t = operations s @ xs"
proof -
  have "ledger_ok (operations t) \<and> (\<exists>xs. operations t = operations s @ xs)"
    using assms(2) by (rule_tac record_wallet_operation_cases [OF assms]) (auto simp: records_new_def)
  then show "ledger_ok (operations t)" and "\<exists>xs. operations t = operations s @ xs" by auto
qed

section \<open>Runs\<close>

text \<open>The calls that write: a context, an idempotency key and a body.\<close>

type_synonym wallet_call = "tenant_context option \<times> string \<times> wallet_body"

fun wallet_run :: "runtime \<Rightarrow> json_mode \<Rightarrow> wallet_call list \<Rightarrow> 'z wallet_state_scheme \<Rightarrow> 'z wallet_state_scheme" where
  "wallet_run rt jm [] s = s"
| "wallet_run rt jm ((ambient, key, body) # calls) s =
     wallet_run rt jm calls (snd (record_wallet_operation rt jm ambient key body s))"

lemma wallet_run_ledger:
  "ledger_ok (operations s) \<Longrightarrow>
     ledger_ok (operations (wallet_run rt jm calls s)) \<and> (\<exists>xs. operations (wallet_run rt jm calls s) = operations s @ xs)"
proof (induction calls arbitrary: s)
  case (Cons k calls)
  obtain a key b where k: "k = (a, key, b)" by (rule prod_cases3)
  obtain r t where t: "record_wallet_operation rt jm a key b s = (r, t)" by fastforce
  from record_wallet_operation_ledger [OF t Cons.prems] obtain xs where
    "ledger_ok (operations t)" "operations t = operations s @ xs" by blast
  with Cons.IH [of t] show ?case by (auto simp: k t)
qed simp

text \<open>After a success the record of the key is in the ledger.\<close>

lemma recorded_is_found:
  assumes "record_wallet_operation rt jm ambient key body s = (Inr y, t)" and "ledger_ok (operations s)"
  shows "\<exists>c q x. ambient = Some c \<and> wallet_operation_create_request rt body = Inr q \<and>
    find (\<lambda>r. wr_tenant_id r = tc_tenant_id c \<and> wr_idempotency_key r = key) (operations t) = Some x \<and>
    wr_request_hash x = wallet_request_hash rt jm (tc_tenant_id c) key q \<and> operation_response rt x = Inr y"
  using assms
proof (cases rule: record_wallet_operation_cases)
  case (found c q x)
  then show ?thesis
    by (intro exI [where x = c] exI [where x = q] exI [where x = x])
      (auto simp: get_existing_operation_def split: option.splits if_splits)
next
  case (new c q)
  then obtain x where x: "operations t = operations s @ [x]" "wallet_entry c key (wallet_request_hash rt jm (tc_tenant_id c) key q) q x"
    "follows (operations s) x" "operation_response rt x = Inr y"
    by (auto simp: records_new_def)
  then have "find (\<lambda>r. wr_tenant_id r = tc_tenant_id c \<and> wr_idempotency_key r = key) (operations s) = None"
    by (auto simp: find_None_iff follows_def wallet_entry_def)
  with x new show ?thesis
    by (intro exI [where x = c] exI [where x = q] exI [where x = x]) (simp add: find_snoc wallet_entry_def)
qed simp

end
