(* ===== verification/WalletProperties.thy ===== *)
theory WalletProperties
  imports Wallet Samples
begin

text \<open>
  The properties of the member wallets: the ledger as a running balance, idempotent requests, and who may
  read a balance. All of them hold for the state after any sequence of requests of any callers.
\<close>

section \<open>A run\<close>

definition sample_mode :: json_mode where
  "sample_mode = \<lparr>jm_time = (\<lambda>_. ''t''), jm_value = (\<lambda>j. j)\<rparr>"

definition council_member :: "tenant_context option" where
  "council_member = Some \<lparr>tc_tenant_id = ''t'', tc_subject = Some ''c'', tc_roles = [''council''], tc_correlation_id = Some ''r''\<rparr>"

definition sample_credit :: wallet_body where
  "sample_credit =
     \<lparr>wb_operation_id = Some ''o'', wb_member_id = ''m'', wb_amount_mcv = 5, wb_type = ''distribution_credit'',
      wb_ref_type = ''d'', wb_ref_id = ''x'', wb_period = None, wb_distribution_hash = None, wb_payout_share = None,
      wb_created_at = None, wb_metadata = []\<rparr>"

definition empty_wallet :: wallet_state where
  "empty_wallet = \<lparr>audit_sink = None, uuids = 0, bus = [], operations = []\<rparr>"

definition one_credit :: wallet_state where
  "one_credit = wallet_run sample_runtime sample_mode [(council_member, ''k'', sample_credit)] empty_wallet"

lemma credit_run_case:
  "case record_wallet_operation sample_runtime sample_mode council_member ''k'' sample_credit empty_wallet of
     (r, t) \<Rightarrow> \<not> isl r \<and> map wr_amount_mcv (operations t) = [500] \<and> \<not> isl (fst (get_wallet_balance council_member (Some ''m'') t))"
  by code_simp

lemma credit_run_facts:
  "\<not> isl (fst (record_wallet_operation sample_runtime sample_mode council_member ''k'' sample_credit empty_wallet)) \<and>
   map wr_amount_mcv (operations one_credit) = [500] \<and>
   \<not> isl (fst (get_wallet_balance council_member (Some ''m'') one_credit))"
  using credit_run_case by (simp add: one_credit_def split_beta)

lemma empty_operations: "operations empty_wallet = []"
  by (simp add: empty_wallet_def)

text \<open>C27. Every entry of the ledger carries the running balance of its member: the sum of the member's
  amounts up to and including it. No entry has the amount zero, and within a tenant no two entries share
  an operation id or an idempotency key.\<close>

theorem wallet_ledger_is_running_balance:
  assumes "operations s = []" and "operations (wallet_run rt jm calls s) = pre @ r # post"
  shows "wr_balance_after_mcv r = wallet_total (wr_tenant_id r) (wr_member_id r) (pre @ [r]) \<and>
    wr_amount_mcv r \<noteq> 0 \<and>
    (\<forall>x\<in>set pre. wr_tenant_id x = wr_tenant_id r \<longrightarrow>
       wr_operation_id x \<noteq> wr_operation_id r \<and> wr_idempotency_key x \<noteq> wr_idempotency_key r)"
proof -
  have "ledger_ok (operations (wallet_run rt jm calls s))" using wallet_run_ledger [of s] assms(1) by simp
  with assms(2) have "follows pre r" by (auto simp: ledger_ok_def)
  then show ?thesis by (simp add: follows_def wallet_total_def)
qed

theorem wallet_ledger_is_running_balance_witness:
  "\<exists>r. operations one_credit = [r] \<and> wr_balance_after_mcv r = 500"
proof -
  obtain r where r: "operations one_credit = [] @ r # []" "wr_amount_mcv r = 500" using credit_run_facts by auto
  from wallet_ledger_is_running_balance [OF empty_operations r(1) [unfolded one_credit_def]] r show ?thesis
    by (simp add: wallet_total_def)
qed

text \<open>C28. A request that was answered once is answered the same way for ever: whatever requests come in
  between, sending it again returns the same response and writes nothing.\<close>

theorem repeated_request_is_not_recorded_twice:
  assumes "operations s0 = []" and "s = wallet_run rt jm earlier s0"
    and "record_wallet_operation rt jm ambient key body s = (Inr y, t)"
  shows "record_wallet_operation rt jm ambient key body (wallet_run rt jm later t) = (Inr y, wallet_run rt jm later t)"
proof -
  have ok: "ledger_ok (operations s)" using wallet_run_ledger [of s0] assms(1,2) by simp
  from recorded_is_found [OF assms(3) ok] obtain c q x where
    c: "ambient = Some c" "wallet_operation_create_request rt body = Inr q"
    and x: "find (\<lambda>r. wr_tenant_id r = tc_tenant_id c \<and> wr_idempotency_key r = key) (operations t) = Some x"
    and h: "wr_request_hash x = wallet_request_hash rt jm (tc_tenant_id c) key q" "operation_response rt x = Inr y"
    by blast
  have "ledger_ok (operations t)" using record_wallet_operation_ledger(1) [OF assms(3) ok] .
  then obtain xs where "operations (wallet_run rt jm later t) = operations t @ xs"
    using wallet_run_ledger [of t] by blast
  with x have "find (\<lambda>r. wr_tenant_id r = tc_tenant_id c \<and> wr_idempotency_key r = key)
      (operations (wallet_run rt jm later t)) = Some x"
    by (simp add: find_append_Some)
  moreover have "token_ok key" "require_access ambient WALLET_RECORD_POLICY (Some c) = Inr c"
    using assms(3) c
    by (auto simp: record_wallet_operation_def resolve_context_def bnd_def act_eval
        split: if_splits sum.splits dest: require_access_context)
  ultimately show ?thesis
    using c h
    by (simp add: record_wallet_operation_def resolve_context_def bnd_def act_eval get_existing_operation_def Let_def)
qed

theorem repeated_request_is_not_recorded_twice_witness:
  "\<exists>y. record_wallet_operation sample_runtime sample_mode council_member ''k'' sample_credit one_credit = (Inr y, one_credit)"
proof -
  obtain y t where run: "record_wallet_operation sample_runtime sample_mode council_member ''k'' sample_credit empty_wallet = (Inr y, t)"
    using credit_run_facts not_isl_Inr by blast
  have "record_wallet_operation sample_runtime sample_mode council_member ''k'' sample_credit (wallet_run sample_runtime sample_mode [] t)
      = (Inr y, wallet_run sample_runtime sample_mode [] t)"
    by (rule repeated_request_is_not_recorded_twice [OF empty_operations _ run, where earlier = "[]"]) simp
  with run show ?thesis by (simp add: one_credit_def)
qed

text \<open>A balance is the sum of the member's amounts, split into credits and debits, and only the member or a
  governance role of the same tenant reads it.\<close>

theorem balance_is_exact_and_private:
  assumes "operations s0 = []" and "s = wallet_run rt jm calls s0"
    and "get_wallet_balance ambient member s = (Inr b, t)"
  shows "t = s \<and> (\<exists>c target. ambient = Some c \<and> member \<in> {None, Some target} \<and>
    (tc_subject c = Some target \<or> (\<exists>r\<in>set (tc_roles c). r \<in> {''council'', ''presidium'', ''board''})) \<and>
    wl_balance_mcv b = wallet_total (tc_tenant_id c) target (operations s) \<and>
    wl_balance_mcv b = wl_credited_mcv b - wl_debited_mcv b)"
proof -
  have ok: "ledger_ok (operations s)" using wallet_run_ledger [of s0] assms(1,2) by simp
  obtain c target b' where c: "ambient = Some c" "t = s"
    and target: "(case member of Some m \<Rightarrow> Inr m | None \<Rightarrow> wallet_subject c) = Inr target"
    and allowed: "ensure_member_read_allowed c target = Inr ()"
    and b': "balance_for_member c target (operations s) = Inr b'" "balance_response b' = Inr b"
    using assms(3)
    by (auto simp: get_wallet_balance_def resolve_context_def bnd_Inr act_eval split: option.splits if_splits)
  have "wl_balance_mcv b = wl_balance_mcv b'" "wl_credited_mcv b = wl_credited_mcv b'" "wl_debited_mcv b = wl_debited_mcv b'"
    using b'(2) by (auto simp: balance_response_def)
  moreover have "tc_subject c = Some target \<or> (\<exists>r\<in>set (tc_roles c). r \<in> {''council'', ''presidium'', ''board''})"
    using allowed
    by (auto simp: ensure_member_read_allowed_def require_access_def resolve_context_def Let_def list_ex_iff
        WALLET_READ_POLICY_def split: if_splits)
  ultimately show ?thesis
    using balance_for_memberD [OF b'(1) ledger_ok_tenant [OF ok]] c target
    by (intro conjI exI [where x = c] exI [where x = target]) (auto split: option.splits)
qed

theorem balance_is_exact_and_private_witness:
  "\<exists>b. fst (get_wallet_balance council_member (Some ''m'') one_credit) = Inr b \<and>
     wl_balance_mcv b = wallet_total ''t'' ''m'' (operations one_credit)"
proof -
  obtain b t where run: "get_wallet_balance council_member (Some ''m'') one_credit = (Inr b, t)"
    using credit_run_facts not_isl_Inr by blast
  from balance_is_exact_and_private [OF empty_operations one_credit_def run] run show ?thesis
    by (auto simp: council_member_def)
qed

end
