(* ===== verification/Marketplace.thy ===== *)
theory Marketplace
  imports TenantResources
begin

text \<open>
  \<open>libs/shared/tenant_marketplace.py\<close>: the public catalog of tenants and the onboarding of new
  ones. Cooperatives submit applications, moderators decide, and an approval publishes a profile and
  configures the resource plan of the new tenant.
\<close>

section \<open>Validation\<close>

definition tenant_token_ok :: "string \<Rightarrow> bool" where
  "tenant_token_ok s \<longleftrightarrow> head_tail is_alnum tenant_char 63 s \<and> 2 \<le> length s"

definition slug_char :: "char \<Rightarrow> bool" where
  "slug_char c \<longleftrightarrow> is_lower c \<or> is_digit c"

definition slug_ok :: "string \<Rightarrow> bool" where
  "slug_ok s \<longleftrightarrow>
     3 \<le> length s \<and> length s \<le> 64 \<and> slug_char (hd s) \<and> slug_char (last s) \<and>
     list_all (\<lambda>c. slug_char c \<or> c = CHR ''-'') s"

definition validated_slug :: "string \<Rightarrow> exn + string" where
  "validated_slug slug =
     (let n = py_lower (py_strip slug) in if slug_ok n then Inr n else Inl (ValueError ''slug''))"

definition validated_token :: "string \<Rightarrow> string \<Rightarrow> exn + string" where
  "validated_token v label =
     (let n = py_strip v in if tenant_token_ok n then Inr n else Inl (ValueError label))"

fun validated_tokens :: "string list \<Rightarrow> string \<Rightarrow> exn + string list" where
  "validated_tokens [] label = Inr []"
| "validated_tokens (v # vs) label =
     ebind (validated_token v label) (\<lambda>n. ebind (validated_tokens vs label) (\<lambda>ns. Inr (n # ns)))"

definition validated_capabilities :: "string list \<Rightarrow> exn + string list" where
  "validated_capabilities cs =
     ebind (validated_tokens cs ''capability'') (\<lambda>ns.
     if ns = [] then Inl (ValueError ''capabilities'') else Inr ns)"

definition validated_secret_ref :: "string \<Rightarrow> string \<Rightarrow> exn + string" where
  "validated_secret_ref v label =
     (let n = py_strip v in if take 8 n = ''vault://'' then Inr n else Inl (ValueError label))"

definition opt_check :: "(string \<Rightarrow> exn + string) \<Rightarrow> string option \<Rightarrow> exn + string option" where
  "opt_check f v = (case v of None \<Rightarrow> Inr None | Some s \<Rightarrow> map_sum id Some (f s))"

definition REQUIRED_CHECKLIST :: "string list" where
  "REQUIRED_CHECKLIST = [''profile'', ''contacts'', ''data_policy'', ''council_review'']"

fun normalized_steps :: "(string \<times> bool) list \<Rightarrow> (string, bool) dict \<Rightarrow> exn + (string, bool) dict" where
  "normalized_steps [] d = Inr d"
| "normalized_steps ((step, ticked) # rest) d =
     ebind (validated_token step ''checklist.step'') (\<lambda>n. normalized_steps rest (AList.update n ticked d))"

definition normalized_checklist :: "(string \<times> bool) list \<Rightarrow> exn + (string, bool) dict" where
  "normalized_checklist cl =
     ebind (normalized_steps cl []) (\<lambda>d.
     Inr (fold (\<lambda>step d. if map_of d step = None then AList.update step False d else d) REQUIRED_CHECKLIST d))"

section \<open>Profiles, submissions and applications\<close>

datatype profile_status = PUBLISHED | HIDDEN | SUSPENDED

datatype application_status = SUBMITTED | NEEDS_CHANGES | REJECTED | PROVISIONED

datatype marketplace_decision = APPROVE | REQUEST_CHANGES | REJECT

fun profile_status_value :: "profile_status \<Rightarrow> string" where
  "profile_status_value PUBLISHED = ''published''"
| "profile_status_value HIDDEN = ''hidden''"
| "profile_status_value SUSPENDED = ''suspended''"

record profile =
  pf_tenant_id :: string
  pf_slug :: string
  pf_name :: string
  pf_region :: string
  pf_cooperative_type :: string
  pf_description :: string
  pf_member_count_range :: string
  pf_capabilities :: "string list"
  pf_status :: profile_status
  pf_published_at :: "int option"
  pf_resource_plan_name :: "string option"
  pf_contact_ref :: "string option"

definition tenant_profile ::
    "string \<Rightarrow> string \<Rightarrow> string \<Rightarrow> string \<Rightarrow> string \<Rightarrow> string \<Rightarrow> string \<Rightarrow> string list
     \<Rightarrow> profile_status \<Rightarrow> pydt option \<Rightarrow> string option \<Rightarrow> string option \<Rightarrow> exn + profile" where
  "tenant_profile tenant_id slug name region cooperative_type description member_count_range capabilities
     status published_at resource_plan_name contact_ref =
     ebind (plain_tenant_id tenant_id) (\<lambda>tenant.
     ebind (validated_slug slug) (\<lambda>sl.
     ebind (required_text name ''name'') (\<lambda>nm.
     ebind (validated_token region ''region'') (\<lambda>rg.
     ebind (validated_token cooperative_type ''cooperative_type'') (\<lambda>ct.
     ebind (required_text description ''description'') (\<lambda>ds.
     ebind (required_text member_count_range ''member_count_range'') (\<lambda>mr.
     ebind (validated_capabilities capabilities) (\<lambda>cs.
     ebind (opt_check (\<lambda>v. validated_secret_ref v ''contact_ref'') contact_ref) (\<lambda>cr.
     ebind (opt_check (\<lambda>v. required_text v ''resource_plan_name'') resource_plan_name) (\<lambda>pn.
     Inr \<lparr>pf_tenant_id = tenant, pf_slug = sl, pf_name = nm, pf_region = rg, pf_cooperative_type = ct,
          pf_description = ds, pf_member_count_range = mr, pf_capabilities = cs, pf_status = status,
          pf_published_at = map_option as_utc published_at, pf_resource_plan_name = pn,
          pf_contact_ref = cr\<rparr>))))))))))"

text \<open>The ISO text ends in \<open>Z\<close> here; \<open>iso_z\<close> is \<open>_isoformat_z\<close>.\<close>

definition as_public_dict :: "(int \<Rightarrow> string) \<Rightarrow> profile \<Rightarrow> (string \<times> json) list" where
  "as_public_dict iso_z p =
     [(''tenant_id'', JStr (pf_tenant_id p)), (''slug'', JStr (pf_slug p)), (''name'', JStr (pf_name p)),
      (''region'', JStr (pf_region p)), (''cooperative_type'', JStr (pf_cooperative_type p)),
      (''description'', JStr (pf_description p)), (''member_count_range'', JStr (pf_member_count_range p)),
      (''capabilities'', JList (map JStr (pf_capabilities p))),
      (''status'', JStr (profile_status_value (pf_status p)))]
     @ (case pf_published_at p of None \<Rightarrow> [] | Some t \<Rightarrow> [(''published_at'', JStr (iso_z t))])
     @ (case pf_resource_plan_name p of None \<Rightarrow> [] | Some n \<Rightarrow> [(''resource_plan_name'', JStr n)])"

record submission =
  sb_slug :: string
  sb_name :: string
  sb_region :: string
  sb_cooperative_type :: string
  sb_description :: string
  sb_expected_members :: int
  sb_capabilities :: "string list"
  sb_contact_ref :: string
  sb_requested_plan :: resource_plan
  sb_checklist :: "(string, bool) dict"

definition tenant_submission ::
    "string \<Rightarrow> string \<Rightarrow> string \<Rightarrow> string \<Rightarrow> string \<Rightarrow> int \<Rightarrow> string list \<Rightarrow> string
     \<Rightarrow> resource_plan \<Rightarrow> (string \<times> bool) list \<Rightarrow> exn + submission" where
  "tenant_submission slug name region cooperative_type description expected_members capabilities
     contact_ref requested_plan checklist =
     ebind (validated_slug slug) (\<lambda>sl.
     ebind (required_text name ''name'') (\<lambda>nm.
     ebind (validated_token region ''region'') (\<lambda>rg.
     ebind (validated_token cooperative_type ''cooperative_type'') (\<lambda>ct.
     ebind (required_text description ''description'') (\<lambda>ds.
     ebind (positive_amount expected_members ''expected_members'') (\<lambda>em.
     ebind (validated_capabilities capabilities) (\<lambda>cs.
     ebind (validated_secret_ref contact_ref ''contact_ref'') (\<lambda>cr.
     ebind (normalized_checklist checklist) (\<lambda>cl.
     Inr \<lparr>sb_slug = sl, sb_name = nm, sb_region = rg, sb_cooperative_type = ct, sb_description = ds,
          sb_expected_members = em, sb_capabilities = cs, sb_contact_ref = cr,
          sb_requested_plan = requested_plan, sb_checklist = cl\<rparr>)))))))))"

definition step_done :: "submission \<Rightarrow> string \<Rightarrow> bool" where
  "step_done sb step \<longleftrightarrow> map_of (sb_checklist sb) step = Some True"

definition submission_ready :: "submission \<Rightarrow> bool" where
  "submission_ready sb \<longleftrightarrow> list_all (step_done sb) REQUIRED_CHECKLIST"

definition submission_blockers :: "submission \<Rightarrow> string list" where
  "submission_blockers sb = filter (\<lambda>step. \<not> step_done sb step) REQUIRED_CHECKLIST"

record moderation_record =
  mr_reviewer_subject :: string
  mr_decision :: marketplace_decision
  mr_decided_at :: int
  mr_comment :: string
  mr_status_after :: application_status

record application =
  ap_application_id :: string
  ap_submission :: submission
  ap_applicant_subject :: string
  ap_submitted_at :: int
  ap_status :: application_status
  ap_moderation_history :: "moderation_record list"

definition ready_for_moderation :: "application \<Rightarrow> bool" where
  "ready_for_moderation a \<longleftrightarrow> ap_status a = SUBMITTED \<and> submission_ready (ap_submission a)"

definition application_blockers :: "application \<Rightarrow> string list" where
  "application_blockers a =
     (if ap_status a \<noteq> SUBMITTED then [''status''] else submission_blockers (ap_submission a))"

definition member_count_range :: "int \<Rightarrow> string" where
  "member_count_range n =
     (if n \<le> 10 then ''1-10'' else if n \<le> 25 then ''15-25'' else if n \<le> 50 then ''26-50''
      else if n \<le> 100 then ''51-100'' else ''100+'')"

section \<open>The marketplace\<close>

record marketplace =
  mk_profiles :: "(string, profile) dict"
  mk_profiles_by_slug :: "(string, string) dict"
  mk_applications :: "(string, application) dict"
  mk_applications_by_slug :: "(string, string) dict"
  mk_resources :: "resource_manager option"
  mk_uuids :: nat

definition ensure_slug_for_profile :: "string \<Rightarrow> string \<Rightarrow> ('z marketplace_scheme, unit) act" where
  "ensure_slug_for_profile slug tenant_id =
     bnd (gets (\<lambda>s. map_of (mk_profiles_by_slug s) slug)) (\<lambda>owner.
     require (owner = None \<or> owner = Some tenant_id) (ValueError ''slug''))"

definition slug_blocked_by_application :: "string \<Rightarrow> 'z marketplace_scheme \<Rightarrow> bool" where
  "slug_blocked_by_application slug s \<longleftrightarrow>
     (case map_of (mk_applications_by_slug s) slug of
        None \<Rightarrow> False
      | Some i \<Rightarrow> (case map_of (mk_applications s) i of None \<Rightarrow> False | Some a \<Rightarrow> ap_status a \<noteq> REJECTED))"

definition ensure_slug_for_application :: "string \<Rightarrow> ('z marketplace_scheme, unit) act" where
  "ensure_slug_for_application slug =
     bnd (gets (\<lambda>s. map_of (mk_profiles_by_slug s) slug)) (\<lambda>owner.
     bnd (require (owner = None) (ValueError ''slug'')) (\<lambda>_.
     bnd (gets (slug_blocked_by_application slug)) (\<lambda>blocked.
     require (\<not> blocked) (ValueError ''slug''))))"

definition store_profile :: "profile \<Rightarrow> ('z marketplace_scheme, unit) act" where
  "store_profile p =
     modify (\<lambda>s. s\<lparr>mk_profiles := AList.update (pf_tenant_id p) p (mk_profiles s),
                   mk_profiles_by_slug := AList.update (pf_slug p) (pf_tenant_id p) (mk_profiles_by_slug s)\<rparr>)"

definition publish_profile :: "profile \<Rightarrow> ('z marketplace_scheme, profile) act" where
  "publish_profile p =
     bnd (ensure_slug_for_profile (pf_slug p) (pf_tenant_id p)) (\<lambda>_.
     bnd (store_profile p) (\<lambda>_. ret p))"

definition list_catalog ::
    "string option \<Rightarrow> string option \<Rightarrow> ('z marketplace_scheme, profile list) act" where
  "list_catalog region cooperative_type =
     bnd (lift (opt_check (\<lambda>v. validated_token v ''region'') region)) (\<lambda>rg.
     bnd (lift (opt_check (\<lambda>v. validated_token v ''cooperative_type'') cooperative_type)) (\<lambda>ct.
     gets (\<lambda>s. sort_key pf_region (sort_key pf_slug
       (filter (\<lambda>p. pf_status p = PUBLISHED \<and> (rg = None \<or> Some (pf_region p) = rg) \<and>
                    (ct = None \<or> Some (pf_cooperative_type p) = ct)) (map snd (mk_profiles s)))))))"

definition validated_application_id :: "string \<Rightarrow> exn + string" where
  "validated_application_id i = validated_token i ''application_id''"

definition new_application_id :: "runtime \<Rightarrow> string \<Rightarrow> ('z marketplace_scheme, string) act" where
  "new_application_id rt slug =
     bnd (gets mk_uuids) (\<lambda>n.
     bnd (modify (\<lambda>s. s\<lparr>mk_uuids := Suc (mk_uuids s)\<rparr>)) (\<lambda>_.
     ret (''app-'' @ slug @ ''-'' @ take 8 (filter (\<lambda>c. c \<noteq> CHR ''-'') (rt_uuid4 rt n)))))"

text \<open>\<open>now\<close> is the reading of the clock.\<close>

definition submit_application ::
    "runtime \<Rightarrow> submission \<Rightarrow> tenant_context \<Rightarrow> pydt option \<Rightarrow> string option \<Rightarrow> pydt
     \<Rightarrow> ('z marketplace_scheme, application) act" where
  "submit_application rt sb applicant submitted_at application_id now =
     bnd (lift (required_text (case tc_subject applicant of None \<Rightarrow> [] | Some s \<Rightarrow> s) ''applicant.subject'')) (\<lambda>subject.
     bnd (case application_id of
            Some i \<Rightarrow> lift (validated_application_id i)
          | None \<Rightarrow> new_application_id rt (sb_slug sb)) (\<lambda>given.
     bnd (lift (validated_application_id given)) (\<lambda>aid.
     let a = \<lparr>ap_application_id = aid, ap_submission = sb, ap_applicant_subject = subject,
              ap_submitted_at = as_utc (case submitted_at of None \<Rightarrow> now | Some t \<Rightarrow> t),
              ap_status = SUBMITTED, ap_moderation_history = []\<rparr>
     in
     bnd (ensure_slug_for_application (sb_slug sb)) (\<lambda>_.
     bnd (gets (\<lambda>s. map_of (mk_applications s) given)) (\<lambda>old.
     bnd (require (old = None) (ValueError ''application_id'')) (\<lambda>_.
     bnd (modify (\<lambda>s. s\<lparr>mk_applications := AList.update given a (mk_applications s),
                        mk_applications_by_slug := AList.update (sb_slug sb) given (mk_applications_by_slug s)\<rparr>)) (\<lambda>_.
     ret a)))))))"

definition moderator_subject :: "tenant_context \<Rightarrow> exn + string" where
  "moderator_subject c =
     (if \<not> list_ex (\<lambda>r. r \<in> {''council'', ''presidium'', ''board''}) (tc_roles c)
      then Inl (ValueError ''moderator'')
      else required_text (case tc_subject c of None \<Rightarrow> [] | Some s \<Rightarrow> s) ''reviewer.subject'')"

definition application_or_raise :: "string \<Rightarrow> ('z marketplace_scheme, application) act" where
  "application_or_raise i =
     bnd (gets (\<lambda>s. map_of (mk_applications s) i)) (\<lambda>found.
     case found of None \<Rightarrow> fail (ValueError ''application'') | Some a \<Rightarrow> ret a)"

definition store_moderation_result ::
    "application \<Rightarrow> marketplace_decision \<Rightarrow> string \<Rightarrow> int \<Rightarrow> string \<Rightarrow> application_status
     \<Rightarrow> ('z marketplace_scheme, application) act" where
  "store_moderation_result a verdict reviewer decided_at comment status =
     bnd (lift (required_text reviewer ''reviewer_subject'')) (\<lambda>rv.
     let r = \<lparr>mr_reviewer_subject = rv, mr_decision = verdict, mr_decided_at = decided_at,
              mr_comment = py_strip comment, mr_status_after = status\<rparr>;
         updated = a\<lparr>ap_status := status, ap_moderation_history := ap_moderation_history a @ [r]\<rparr>
     in
     bnd (modify (\<lambda>s. s\<lparr>mk_applications := AList.update (ap_application_id a) updated (mk_applications s)\<rparr>)) (\<lambda>_.
     ret updated))"

definition on_manager :: "(resource_manager, unit) act \<Rightarrow> ('z marketplace_scheme, unit) act" where
  "on_manager m s =
     (case mk_resources s of
        None \<Rightarrow> (Inr (), s)
      | Some k \<Rightarrow> (case m k of (r, k') \<Rightarrow> (r, s\<lparr>mk_resources := Some k'\<rparr>)))"

record provisioning =
  pr_tenant_id :: string
  pr_application :: application
  pr_profile :: profile
  pr_resource_plan :: resource_plan

definition approve_application ::
    "application \<Rightarrow> string option \<Rightarrow> string \<Rightarrow> int \<Rightarrow> string \<Rightarrow> int \<Rightarrow> ('z marketplace_scheme, provisioning) act" where
  "approve_application a tenant_id reviewer decided_at comment now =
     (case tenant_id of
        None \<Rightarrow> fail (ValueError ''tenant_id required'')
      | Some given \<Rightarrow>
          bnd (require (ready_for_moderation a) (ValueError ''not ready'')) (\<lambda>_.
          bnd (lift (plain_tenant_id given)) (\<lambda>tenant.
          bnd (ensure_slug_for_profile (sb_slug (ap_submission a)) tenant) (\<lambda>_.
          bnd (gets (\<lambda>s. map_of (mk_profiles s) tenant)) (\<lambda>old.
          bnd (require (old = None) (ValueError ''tenant_id exists'')) (\<lambda>_.
          let sb = ap_submission a; plan = sb_requested_plan sb in
          bnd (lift (tenant_profile tenant (sb_slug sb) (sb_name sb) (sb_region sb) (sb_cooperative_type sb)
                 (sb_description sb) (member_count_range (sb_expected_members sb)) (sb_capabilities sb) PUBLISHED
                 (Some (Aware decided_at 0)) (Some (rp_name plan)) (Some (sb_contact_ref sb)))) (\<lambda>p.
          bnd (store_moderation_result a APPROVE reviewer decided_at comment PROVISIONED) (\<lambda>updated.
          bnd (store_profile p) (\<lambda>_.
          bnd (on_manager (configure_tenant tenant plan now)) (\<lambda>_.
          bnd (lift (plain_tenant_id tenant)) (\<lambda>t.
          ret \<lparr>pr_tenant_id = t, pr_application = updated, pr_profile = p, pr_resource_plan = plan\<rparr>)))))))))))"

datatype moderation_result = Moderated application | Provisioned provisioning

text \<open>
  \<open>now\<close> is the clock of the marketplace, \<open>manager_now\<close> the one of the resource manager.
\<close>

definition moderate_application ::
    "string \<Rightarrow> marketplace_decision \<Rightarrow> tenant_context \<Rightarrow> pydt option \<Rightarrow> string \<Rightarrow> string option
     \<Rightarrow> pydt \<Rightarrow> int \<Rightarrow> ('z marketplace_scheme, moderation_result) act" where
  "moderate_application application_id verdict reviewer decided_at comment tenant_id now manager_now =
     bnd (lift (moderator_subject reviewer)) (\<lambda>rv.
     bnd (lift (validated_application_id application_id)) (\<lambda>aid.
     let at_time = as_utc (case decided_at of None \<Rightarrow> now | Some t \<Rightarrow> t); text = py_strip comment in
     bnd (application_or_raise aid) (\<lambda>a.
     case verdict of
       APPROVE \<Rightarrow>
         bnd (approve_application a tenant_id rv at_time text manager_now) (\<lambda>p. ret (Provisioned p))
     | REQUEST_CHANGES \<Rightarrow>
         bnd (store_moderation_result a verdict rv at_time text NEEDS_CHANGES) (\<lambda>u. ret (Moderated u))
     | REJECT \<Rightarrow>
         bnd (store_moderation_result a verdict rv at_time text REJECTED) (\<lambda>u.
         bnd (modify (\<lambda>s. s\<lparr>mk_applications_by_slug :=
                AList.delete (sb_slug (ap_submission a)) (mk_applications_by_slug s)\<rparr>)) (\<lambda>_.
         ret (Moderated u))))))"

definition get_application :: "string \<Rightarrow> ('z marketplace_scheme, application) act" where
  "get_application i = bnd (lift (validated_application_id i)) application_or_raise"

definition list_applications ::
    "application_status option \<Rightarrow> 'z marketplace_scheme \<Rightarrow> application list" where
  "list_applications status s =
     sort_key ap_submitted_at (sort_key ap_application_id
       (filter (\<lambda>a. status = None \<or> Some (ap_status a) = status) (map snd (mk_applications s))))"

section \<open>What the operations keep\<close>

text \<open>A tenant's profile owns its slug, and an application is decided as its history says.\<close>

fun status_of_decision :: "marketplace_decision \<Rightarrow> application_status" where
  "status_of_decision APPROVE = PROVISIONED"
| "status_of_decision REQUEST_CHANGES = NEEDS_CHANGES"
| "status_of_decision REJECT = REJECTED"

definition history_ok :: "application \<Rightarrow> bool" where
  "history_ok a \<longleftrightarrow>
     ap_status a = (if ap_moderation_history a = [] then SUBMITTED else mr_status_after (last (ap_moderation_history a))) \<and>
     (\<forall>r\<in>set (ap_moderation_history a). mr_status_after r = status_of_decision (mr_decision r)) \<and>
     (\<forall>r\<in>set (tl (ap_moderation_history a)). mr_decision r \<noteq> APPROVE) \<and>
     (\<forall>r\<in>set (ap_moderation_history a). mr_decision r = APPROVE \<longrightarrow> submission_ready (ap_submission a))"

definition market_ok :: "'z marketplace_scheme \<Rightarrow> bool" where
  "market_ok s \<longleftrightarrow>
     (\<forall>t p. map_of (mk_profiles s) t = Some p \<longrightarrow> map_of (mk_profiles_by_slug s) (pf_slug p) = Some t) \<and>
     (\<forall>i a. map_of (mk_applications s) i = Some a \<longrightarrow> history_ok a \<and> slug_ok (sb_slug (ap_submission a)))"

lemma status_of_decision_not_submitted [simp]: "status_of_decision d \<noteq> SUBMITTED" "SUBMITTED \<noteq> status_of_decision d"
  by (cases d; simp)+

lemma history_ok_decided:
  assumes "history_ok a" and "mr_decision r = APPROVE \<Longrightarrow> ready_for_moderation a"
    and "mr_status_after r = status_of_decision (mr_decision r)"
  shows "history_ok (a\<lparr>ap_status := mr_status_after r, ap_moderation_history := ap_moderation_history a @ [r]\<rparr>)"
proof -
  have first: "ap_moderation_history a = []" if "ap_status a = SUBMITTED"
    using assms(1) that last_in_set [of "ap_moderation_history a"]
    by (auto simp: history_ok_def split: if_splits)
  show ?thesis
    using assms first by (cases "ap_moderation_history a") (auto simp: history_ok_def ready_for_moderation_def)
qed

lemma market_ok_applications [simp]:
  "market_ok (s\<lparr>mk_applications_by_slug := d\<rparr>) = market_ok s"
  "market_ok (s\<lparr>mk_uuids := n\<rparr>) = market_ok s"
  "market_ok (s\<lparr>mk_resources := k\<rparr>) = market_ok s"
  by (simp_all add: market_ok_def)

lemma market_ok_store_application:
  "market_ok s \<Longrightarrow> history_ok a \<Longrightarrow> slug_ok (sb_slug (ap_submission a)) \<Longrightarrow>
     market_ok (s\<lparr>mk_applications := AList.update i a (mk_applications s)\<rparr>)"
  by (auto simp: market_ok_def)

lemma market_ok_store_profile:
  assumes "market_ok s" and "map_of (mk_profiles_by_slug s) (pf_slug p) \<in> {None, Some (pf_tenant_id p)}"
  shows "market_ok (s\<lparr>mk_profiles := AList.update (pf_tenant_id p) p (mk_profiles s),
                   mk_profiles_by_slug := AList.update (pf_slug p) (pf_tenant_id p) (mk_profiles_by_slug s)\<rparr>)"
  using assms by (fastforce simp: market_ok_def split: if_splits)

lemma tenant_profile_fields:
  "tenant_profile tenant slug n r c d m cs st pa pn cr = Inr p \<Longrightarrow>
     pf_tenant_id p = py_strip tenant \<and> pf_slug p = py_lower (py_strip slug) \<and> slug_ok (pf_slug p)"
  by (auto simp: tenant_profile_def plain_tenant_id_def validated_slug_def Let_def split: if_splits)

lemma store_moderation_result_outcome:
  assumes "\<And>e. Q (Inl e) s"
    and "\<And>r. mr_decision r = d \<Longrightarrow> mr_status_after r = st \<Longrightarrow>
       Q (Inr (a\<lparr>ap_status := mr_status_after r, ap_moderation_history := ap_moderation_history a @ [r]\<rparr>))
         (s\<lparr>mk_applications := AList.update (ap_application_id a)
            (a\<lparr>ap_status := mr_status_after r, ap_moderation_history := ap_moderation_history a @ [r]\<rparr>) (mk_applications s)\<rparr>)"
  shows "outcome (store_moderation_result a d rv at_time text st) Q s"
  using assms(1) assms(2) [of "\<lparr>mr_reviewer_subject = _, mr_decision = d, mr_decided_at = at_time,
      mr_comment = py_strip text, mr_status_after = st\<rparr>"]
  by (auto simp: store_moderation_result_def act_simps Let_def split: sum.split)

lemma lower_slug: "slug_ok s \<Longrightarrow> py_lower (py_strip s) = s"
proof -
  assume s: "slug_ok s"
  have "lower_char c = c \<and> \<not> py_isspace c" if "c \<in> set s" for c
    using s that by (auto simp: slug_ok_def list_all_iff slug_char_def char_class_defs lower_char_def Let_def)
  then have "py_strip s = s" "map lower_char s = s"
    by (auto simp: py_strip_def list_all_iff intro!: strip_with_no_space map_idI)
  then show ?thesis by (simp add: py_lower_def)
qed

lemma on_manager_outcome:
  assumes "\<And>r k. Q r (s\<lparr>mk_resources := k\<rparr>)" and "Q (Inr ()) s"
  shows "outcome (on_manager m) Q s"
  using assms by (auto simp: on_manager_def outcome_def split: option.split prod.split)

lemma approve_application_ok:
  assumes ok: "market_ok s" and a: "history_ok a" "slug_ok (sb_slug (ap_submission a))"
  shows "outcome (approve_application a tenant_id rv t text now) (\<lambda>r u. market_ok u) s"
proof -
  let ?with = "\<lambda>r i. s\<lparr>mk_applications := AList.update i
      (a\<lparr>ap_status := PROVISIONED, ap_moderation_history := ap_moderation_history a @ [r]\<rparr>) (mk_applications s)\<rparr>"
  have decided: "market_ok (?with r i)"
    if "ready_for_moderation a" "mr_decision r = APPROVE" "mr_status_after r = PROVISIONED" for r i
    using market_ok_store_application [OF ok history_ok_decided [OF a(1)], of r i] that a(2) by simp
  have published: "market_ok ((?with r i)\<lparr>mk_profiles := AList.update (pf_tenant_id p) p (mk_profiles s),
             mk_profiles_by_slug := AList.update (pf_slug p) (pf_tenant_id p) (mk_profiles_by_slug s)\<rparr>)"
    if "ready_for_moderation a" "mr_decision r = APPROVE" "mr_status_after r = PROVISIONED"
      "plain_tenant_id given = Inr tenant"
      "map_of (mk_profiles_by_slug s) (sb_slug (ap_submission a)) \<in> {None, Some tenant}"
      "tenant_profile tenant (sb_slug (ap_submission a)) n rg c ds m cs st pa pn cr = Inr p"
    for r i p tenant given n rg c ds m cs st pa pn cr
  proof -
    have "py_strip tenant = tenant" using that(4) by (auto simp: plain_tenant_id_def split: if_splits)
    with tenant_profile_fields [OF that(6)] lower_slug [OF a(2)] that(5)
    have "map_of (mk_profiles_by_slug (?with r i)) (pf_slug p) \<in> {None, Some (pf_tenant_id p)}" by simp
    from market_ok_store_profile [OF decided [OF that(1,2,3)] this] show ?thesis by simp
  qed
  show ?thesis
    unfolding approve_application_def
    by (auto simp: act_simps ok Let_def ensure_slug_for_profile_def store_profile_def
        split: option.split sum.split intro!: store_moderation_result_outcome on_manager_outcome intro: published decided)
qed

lemma moderate_application_ok:
  assumes ok: "market_ok s"
  shows "outcome (moderate_application i verdict rv t text tenant now mnow) (\<lambda>r u. market_ok u) s"
proof -
  have other: "market_ok (s\<lparr>mk_applications := AList.update j
      (a\<lparr>ap_status := st, ap_moderation_history := ap_moderation_history a @ [r]\<rparr>) (mk_applications s)\<rparr>)"
    if "map_of (mk_applications s) k = Some a" "mr_decision r \<noteq> APPROVE" "st = mr_status_after r"
      "mr_status_after r = status_of_decision (mr_decision r)" for j k a r st
    using market_ok_store_application [OF ok history_ok_decided, of a r j] that ok by (auto simp: market_ok_def)
  have approve: "outcome (approve_application a tenant x y z mnow)
      (\<lambda>r u. ((\<exists>e. r = Inl e) \<longrightarrow> market_ok u) \<and> ((\<exists>p. r = Inr p) \<longrightarrow> market_ok u)) s"
    if "map_of (mk_applications s) k = Some a" for a k x y z
    using approve_application_ok [OF ok, of a tenant x y z mnow] that ok
    by (force simp: market_ok_def elim: outcome_mono)
  show ?thesis
    unfolding moderate_application_def application_or_raise_def
    by (auto simp: act_simps ok Let_def split: sum.split option.split marketplace_decision.split
        intro!: store_moderation_result_outcome approve other)
qed

lemma submit_application_ok:
  assumes ok: "market_ok s" and sb: "slug_ok (sb_slug sb)"
  shows "outcome (submit_application rt sb c t i now) (\<lambda>r u. market_ok u) s"
proof -
  have new: "history_ok \<lparr>ap_application_id = j, ap_submission = sb, ap_applicant_subject = x,
      ap_submitted_at = y, ap_status = SUBMITTED, ap_moderation_history = []\<rparr>" for j x y
    by (simp add: history_ok_def)
  show ?thesis
    unfolding submit_application_def new_application_id_def ensure_slug_for_application_def
    using ok sb new
    by (auto simp: act_simps Let_def market_ok_def split: sum.split option.split)
qed

lemma publish_profile_ok:
  "market_ok s \<Longrightarrow> outcome (publish_profile p) (\<lambda>r u. market_ok u) s"
  unfolding publish_profile_def ensure_slug_for_profile_def store_profile_def
  by (auto simp: act_simps intro!: market_ok_store_profile)

text \<open>What a successful approval did.\<close>

lemma approve_applicationD:
  assumes "approve_application a tenant_id rv t text now s = (Inr p, u)"
  shows "ready_for_moderation a" and "map_of (mk_profiles s) (pr_tenant_id p) = None"
    and "map_of (mk_profiles u) (pr_tenant_id p) = Some (pr_profile p)" and "pf_status (pr_profile p) = PUBLISHED"
    and "map_of (mk_profiles_by_slug u) (pf_slug (pr_profile p)) = Some (pr_tenant_id p)"
    and "mk_resources u = Some m \<Longrightarrow> plan_of m (pr_tenant_id p) = sb_requested_plan (ap_submission a)"
proof -
  obtain given tenant pr d t' where ready: "ready_for_moderation a" and tenant: "plain_tenant_id given = Inr tenant"
    and new: "map_of (mk_profiles s) tenant = None"
    and pr: "tenant_profile tenant (sb_slug (ap_submission a)) (sb_name (ap_submission a)) (sb_region (ap_submission a))
       (sb_cooperative_type (ap_submission a)) (sb_description (ap_submission a))
       (member_count_range (sb_expected_members (ap_submission a))) (sb_capabilities (ap_submission a)) PUBLISHED
       (Some (Aware t 0)) (Some (rp_name (sb_requested_plan (ap_submission a)))) (Some (sb_contact_ref (ap_submission a))) = Inr pr"
    and w: "on_manager (configure_tenant tenant (sb_requested_plan (ap_submission a)) now)
       (s\<lparr>mk_applications := d, mk_profiles := AList.update (pf_tenant_id pr) pr (mk_profiles s),
          mk_profiles_by_slug := AList.update (pf_slug pr) (pf_tenant_id pr) (mk_profiles_by_slug s)\<rparr>) = (Inr (), u)"
    and t': "plain_tenant_id tenant = Inr t'" and p: "pr_tenant_id p = t'" "pr_profile p = pr"
    using assms
    by (auto simp: approve_application_def store_moderation_result_def store_profile_def ensure_slug_for_profile_def
        Let_def bnd_Inr act_eval split: option.splits if_splits)
  have strip: "py_strip tenant = tenant" "tenant_id_ok tenant" using tenant by (auto simp: plain_tenant_id_def split: if_splits)
  have f: "pf_tenant_id pr = tenant" "pf_status pr = PUBLISHED"
    using pr strip by (auto simp: tenant_profile_def plain_tenant_id_def)
  have t': "t' = tenant" using t' strip by (simp add: plain_tenant_id_def)
  have u: "mk_profiles u = AList.update (pf_tenant_id pr) pr (mk_profiles s)"
    "mk_profiles_by_slug u = AList.update (pf_slug pr) (pf_tenant_id pr) (mk_profiles_by_slug s)"
    using w by (auto simp: on_manager_def split: option.splits prod.splits)
  show "ready_for_moderation a" "map_of (mk_profiles s) (pr_tenant_id p) = None"
    "map_of (mk_profiles u) (pr_tenant_id p) = Some (pr_profile p)" "pf_status (pr_profile p) = PUBLISHED"
    "map_of (mk_profiles_by_slug u) (pf_slug (pr_profile p)) = Some (pr_tenant_id p)"
    using ready new u f p t' by simp_all
  show "plan_of m (pr_tenant_id p) = sb_requested_plan (ap_submission a)" if "mk_resources u = Some m"
    using that w p(1) strip t'
    by (auto simp: on_manager_def configure_tenant_def bnd_def act_eval plain_tenant_id_def plan_of_def put_usage_def Let_def
        split: option.splits prod.splits)
qed

section \<open>Runs\<close>

datatype market_call =
    Publish profile
  | Submit submission tenant_context "pydt option" "string option" pydt
  | Moderate string marketplace_decision tenant_context "pydt option" string "string option" pydt int

fun market_step :: "runtime \<Rightarrow> market_call \<Rightarrow> 'z marketplace_scheme \<Rightarrow> 'z marketplace_scheme" where
  "market_step rt (Publish p) s = snd (publish_profile p s)"
| "market_step rt (Submit sb c t i now) s = snd (submit_application rt sb c t i now s)"
| "market_step rt (Moderate i v c t text tenant now mnow) s =
     snd (moderate_application i v c t text tenant now mnow s)"

text \<open>Submissions come from their constructor.\<close>

fun call_ok :: "market_call \<Rightarrow> bool" where
  "call_ok (Submit sb c t i now) \<longleftrightarrow>
     (\<exists>sl n r ct d em cs cr plan cl. tenant_submission sl n r ct d em cs cr plan cl = Inr sb)"
| "call_ok _ \<longleftrightarrow> True"

definition market_run :: "runtime \<Rightarrow> market_call list \<Rightarrow> 'z marketplace_scheme \<Rightarrow> 'z marketplace_scheme" where
  "market_run rt calls s = fold (market_step rt) calls s"

definition empty_market :: "'z marketplace_scheme \<Rightarrow> bool" where
  "empty_market s \<longleftrightarrow> mk_profiles s = [] \<and> mk_profiles_by_slug s = [] \<and> mk_applications s = []"

lemma tenant_submission_slug: "tenant_submission sl n r ct d em cs cr plan cl = Inr sb \<Longrightarrow> slug_ok (sb_slug sb)"
  by (auto simp: tenant_submission_def validated_slug_def Let_def split: if_splits)

lemma market_step_ok: "market_ok s \<Longrightarrow> call_ok k \<Longrightarrow> market_ok (market_step rt k s)"
  by (cases k)
    (auto intro: outcome_sndD [OF publish_profile_ok] outcome_sndD [OF moderate_application_ok]
      outcome_sndD [OF submit_application_ok [OF _ tenant_submission_slug]])

lemma market_run_ok:
  assumes "empty_market s" and "\<forall>k\<in>set calls. call_ok k"
  shows "market_ok (market_run rt calls s)"
proof -
  have "market_ok u \<Longrightarrow> \<forall>k\<in>set ks. call_ok k \<Longrightarrow> market_ok (fold (market_step rt) ks u)" for u ks
    by (induction ks arbitrary: u) (simp_all add: market_step_ok)
  moreover have "market_ok s" using assms(1) by (simp add: market_ok_def empty_market_def)
  ultimately show ?thesis using assms(2) by (simp add: market_run_def)
qed

end
