(* ===== verification/MarketProperties.thy ===== *)
theory MarketProperties
  imports Marketplace Samples
begin

text \<open>
  The properties of the tenant marketplace: unique slugs in the catalog, approvals only of complete and
  undecided applications, and what an approval sets up.
\<close>

section \<open>A run\<close>

definition sample_plan :: resource_plan where
  "sample_plan =
     \<lparr>rp_name = ''p'', rp_request_limit = 1, rp_window_seconds = 60, rp_concurrent_operations = 1,
      rp_storage_bytes = 0, rp_queue_depth = 0\<rparr>"

definition sample_submission :: submission where
  "sample_submission =
     \<lparr>sb_slug = ''abc'', sb_name = ''n'', sb_region = ''rg'', sb_cooperative_type = ''ct'', sb_description = ''d'',
      sb_expected_members = 1, sb_capabilities = [''cc''], sb_contact_ref = ''vault://x'',
      sb_requested_plan = sample_plan,
      sb_checklist = [(''profile'', True), (''contacts'', True), (''data_policy'', True), (''council_review'', True)]\<rparr>"

definition moderator :: tenant_context where
  "moderator = \<lparr>tc_tenant_id = ''t'', tc_subject = Some ''c'', tc_roles = [''council''], tc_correlation_id = None\<rparr>"

definition no_market :: marketplace where
  "no_market =
     \<lparr>mk_profiles = [], mk_profiles_by_slug = [], mk_applications = [], mk_applications_by_slug = [],
      mk_resources = Some \<lparr>rm_default_plan = sample_plan, rm_tenant_plans = [], rm_states = []\<rparr>, mk_uuids = 0\<rparr>"

definition sample_calls :: "market_call list" where
  "sample_calls =
     [Submit sample_submission moderator None (Some ''aa'') (Naive 0),
      Moderate ''aa'' APPROVE moderator None [] (Some ''t2'') (Naive 0) 0]"

lemma no_market_empty: "empty_market no_market"
  by (simp add: empty_market_def no_market_def)

lemma sample_submission_built:
  "tenant_submission ''abc'' ''n'' ''rg'' ''ct'' ''d'' 1 [''cc''] ''vault://x'' sample_plan
     [(''profile'', True), (''contacts'', True), (''data_policy'', True), (''council_review'', True)] = Inr sample_submission"
  by code_simp

lemma sample_calls_ok: "\<forall>k\<in>set sample_calls. call_ok k"
proof -
  have "call_ok (Submit sample_submission c t i now)" for c t i now
    unfolding call_ok.simps by (intro exI) (rule sample_submission_built)
  then show ?thesis by (simp add: sample_calls_def)
qed

lemma market_run_facts:
  "map (\<lambda>(t, p). (t, pf_slug p)) (mk_profiles (market_run sample_runtime sample_calls no_market)) = [(''t2'', ''abc'')] \<and>
   map (\<lambda>(i, a). (i, map mr_decision (ap_moderation_history a)))
     (mk_applications (market_run sample_runtime sample_calls no_market)) = [(''aa'', [APPROVE])]"
  by code_simp

text \<open>C29. Whatever profiles are published and applications decided, no two tenants of the catalog share a
  slug.\<close>

theorem catalog_slugs_are_unique:
  assumes "empty_market s" and "\<forall>k\<in>set calls. call_ok k"
    and "map_of (mk_profiles (market_run rt calls s)) t = Some p"
    and "map_of (mk_profiles (market_run rt calls s)) t' = Some p'" and "pf_slug p = pf_slug p'"
  shows "t = t'"
proof -
  have slug: "map_of (mk_profiles_by_slug (market_run rt calls s)) (pf_slug q) = Some x"
    if "map_of (mk_profiles (market_run rt calls s)) x = Some q" for x q
    using market_run_ok [OF assms(1,2), of rt] that by (simp add: market_ok_def)
  from slug [OF assms(3)] slug [OF assms(4)] assms(5) show ?thesis by simp
qed

theorem catalog_slugs_are_unique_witness:
  "\<exists>p. map_of (mk_profiles (market_run sample_runtime sample_calls no_market)) ''t2'' = Some p \<and> pf_slug p = ''abc'' \<and> ''t2'' = ''t2''"
proof -
  obtain p where p: "map_of (mk_profiles (market_run sample_runtime sample_calls no_market)) ''t2'' = Some p" "pf_slug p = ''abc''"
    using market_run_facts by auto
  from catalog_slugs_are_unique [OF no_market_empty sample_calls_ok p(1) p(1) refl] p show ?thesis by blast
qed

text \<open>C30. An application is approved at most once, as the first decision about it, and only with the whole
  checklist done; its status is always what the last decision made it.\<close>

theorem approval_is_the_first_decision:
  assumes "empty_market s" and "\<forall>k\<in>set calls. call_ok k"
    and "map_of (mk_applications (market_run rt calls s)) i = Some a"
  shows "ap_status a = (if ap_moderation_history a = [] then SUBMITTED
                        else status_of_decision (mr_decision (last (ap_moderation_history a)))) \<and>
    (\<forall>n<length (ap_moderation_history a). mr_decision (ap_moderation_history a ! n) = APPROVE \<longrightarrow>
       n = 0 \<and> submission_ready (ap_submission a))"
proof -
  have h: "history_ok a" using market_run_ok [OF assms(1,2), of rt] assms(3) by (auto simp: market_ok_def)
  have "n = 0" if "n < length (ap_moderation_history a)" "mr_decision (ap_moderation_history a ! n) = APPROVE" for n
  proof (rule ccontr)
    assume "n \<noteq> 0"
    then obtain m where "n = Suc m" by (cases n) auto
    then have "ap_moderation_history a ! n \<in> set (tl (ap_moderation_history a))"
      using that(1) by (simp add: nth_tl [symmetric])
    with h that(2) show False by (auto simp: history_ok_def)
  qed
  with h show ?thesis by (auto simp: history_ok_def)
qed

theorem approval_is_the_first_decision_witness:
  "\<exists>a. map_of (mk_applications (market_run sample_runtime sample_calls no_market)) ''aa'' = Some a \<and> ap_status a = PROVISIONED"
proof -
  obtain a where a: "map_of (mk_applications (market_run sample_runtime sample_calls no_market)) ''aa'' = Some a"
    "map mr_decision (ap_moderation_history a) = [APPROVE]" using market_run_facts by auto
  from approval_is_the_first_decision [OF no_market_empty sample_calls_ok a(1)] a show ?thesis by auto
qed

text \<open>An approval succeeds only for a moderator and a submitted application whose checklist is done, for a
  tenant without a profile; afterwards the tenant is in the catalog under the slug of the submission, and
  the resource manager holds the requested plan for it.\<close>

theorem approval_provisions_the_tenant:
  assumes "moderate_application i APPROVE reviewer t text tenant now mnow s = (Inr (Provisioned p), u)"
  shows "\<exists>a. map_of (mk_applications s) (py_strip i) = Some a \<and> ap_status a = SUBMITTED \<and>
    submission_ready (ap_submission a) \<and>
    (\<exists>r\<in>set (tc_roles reviewer). r \<in> {''council'', ''presidium'', ''board''}) \<and>
    map_of (mk_profiles s) (pr_tenant_id p) = None \<and>
    map_of (mk_profiles u) (pr_tenant_id p) = Some (pr_profile p) \<and> pf_status (pr_profile p) = PUBLISHED \<and>
    map_of (mk_profiles_by_slug u) (pf_slug (pr_profile p)) = Some (pr_tenant_id p) \<and>
    (\<forall>m. mk_resources u = Some m \<longrightarrow> plan_of m (pr_tenant_id p) = sb_requested_plan (ap_submission a))"
proof -
  obtain rv aid a x y z where rv: "moderator_subject reviewer = Inr rv" and aid: "validated_application_id i = Inr aid"
    and a: "map_of (mk_applications s) aid = Some a"
    and ap: "approve_application a tenant x y z mnow s = (Inr p, u)"
    using assms
    by (auto simp: moderate_application_def application_or_raise_def Let_def bnd_Inr act_eval split: option.splits)
  have "aid = py_strip i"
    using aid by (auto simp: validated_application_id_def validated_token_def Let_def split: if_splits)
  moreover have "\<exists>r\<in>set (tc_roles reviewer). r \<in> {''council'', ''presidium'', ''board''}"
    using rv by (auto simp: moderator_subject_def list_ex_iff split: if_splits)
  ultimately show ?thesis
    using a approve_applicationD [OF ap] by (intro exI [where x = a]) (simp add: ready_for_moderation_def)
qed

definition submitted_market :: marketplace where
  "submitted_market = market_run sample_runtime [Submit sample_submission moderator None (Some ''aa'') (Naive 0)] no_market"

lemma sample_approval:
  "case fst (moderate_application ''aa'' APPROVE moderator None [] (Some ''t2'') (Naive 0) 0 submitted_market) of
     Inr (Provisioned p) \<Rightarrow> pr_tenant_id p = ''t2'' | _ \<Rightarrow> False"
  by code_simp

theorem approval_provisions_the_tenant_witness:
  "\<exists>p u. moderate_application ''aa'' APPROVE moderator None [] (Some ''t2'') (Naive 0) 0 submitted_market = (Inr (Provisioned p), u) \<and>
     map_of (mk_profiles u) ''t2'' = Some (pr_profile p)"
proof -
  obtain p u where run: "moderate_application ''aa'' APPROVE moderator None [] (Some ''t2'') (Naive 0) 0 submitted_market
      = (Inr (Provisioned p), u)" and t: "pr_tenant_id p = ''t2''"
    using sample_approval by (cases "moderate_application ''aa'' APPROVE moderator None [] (Some ''t2'') (Naive 0) 0 submitted_market")
      (auto split: sum.splits moderation_result.splits)
  from approval_provisions_the_tenant [OF run] run t show ?thesis by auto
qed

text \<open>A cooperative with a slug of more than 51 characters cannot submit an application unless it names an
  application id itself: the id that the marketplace makes from the slug is longer than an id may be.\<close>

theorem long_slug_cannot_be_submitted:
  assumes "51 < length (sb_slug sb)" and "list_all is_alnum (filter (\<lambda>c. c \<noteq> CHR ''-'') (rt_uuid4 rt (mk_uuids s)))"
    and "8 \<le> length (filter (\<lambda>c. c \<noteq> CHR ''-'') (rt_uuid4 rt (mk_uuids s)))"
    and "tc_subject applicant = Some subject" and "py_strip subject \<noteq> []"
  shows "fst (submit_application rt sb applicant t None now s) = Inl (ValueError ''application_id'')"
proof -
  let ?x = "take 8 (filter (\<lambda>c. c \<noteq> CHR ''-'') (rt_uuid4 rt (mk_uuids s)))"
  let ?i = "''app-'' @ sb_slug sb @ ''-'' @ ?x"
  have x: "?x \<noteq> []" "length ?x = 8" "list_all is_alnum ?x"
    using assms(2,3) by (auto simp: list_all_iff dest: in_set_takeD)
  then have "last ?x \<in> set ?x" by simp
  with x(3) have "\<not> py_isspace (last ?i)" using x(1) by (simp add: list_all_iff)
  moreover have "\<not> py_isspace (hd ?i)" by (simp add: py_isspace_def)
  ultimately have "py_strip ?i = ?i" unfolding py_strip_def by (intro strip_with_hd_last) simp_all
  moreover have "\<not> head_tail is_alnum tenant_char 63 ?i" using assms(1) x(2) by simp
  ultimately have "validated_application_id ?i = Inl (ValueError ''application_id'')"
    by (simp add: validated_application_id_def validated_token_def tenant_token_ok_def Let_def del: head_tail.simps)
  then show ?thesis
    using assms(4,5) by (simp add: submit_application_def required_text_def new_application_id_def bnd_def act_eval)
qed

definition long_submission :: submission where
  "long_submission = sample_submission\<lparr>sb_slug := replicate 52 (CHR ''a'')\<rparr>"

definition hex_runtime :: runtime where
  "hex_runtime = sample_runtime\<lparr>rt_uuid4 := (\<lambda>_. ''0123-45678'')\<rparr>"

theorem long_slug_cannot_be_submitted_witness:
  "slug_ok (sb_slug long_submission) \<and>
   fst (submit_application hex_runtime long_submission moderator None None (Naive 0) no_market) = Inl (ValueError ''application_id'')"
proof
  show "slug_ok (sb_slug long_submission)" by code_simp
  have "list_all is_alnum (filter (\<lambda>c. c \<noteq> CHR ''-'') (rt_uuid4 hex_runtime (mk_uuids no_market)))"
    "8 \<le> length (filter (\<lambda>c. c \<noteq> CHR ''-'') (rt_uuid4 hex_runtime (mk_uuids no_market)))" "py_strip ''c'' \<noteq> []"
    by code_simp+
  then show "fst (submit_application hex_runtime long_submission moderator None None (Naive 0) no_market) = Inl (ValueError ''application_id'')"
    by (intro long_slug_cannot_be_submitted [where subject = "''c''"]) (simp_all add: long_submission_def moderator_def)
qed

end
