(* ===== verification/CommandCenter.thy ===== *)
theory CommandCenter
  imports Events Rbac
begin

text \<open>
  \<open>activity_command_center/command_center.py\<close> and the handlers of its \<open>api.py\<close>: the task
  queue of a tenant. A task is queued for autonomous work when its risk, the agent's confidence and the
  length of the queue of its feedback loop satisfy the tenant's thresholds, and escalated to the council
  otherwise. Only the council changes the thresholds.
\<close>

section \<open>The models\<close>

datatype feedback_loop = OPERATIONAL | STRATEGIC | ADAPTIVE

datatype task_status = TASK_QUEUED | NEEDS_COUNCIL_REVIEW | TASK_COMPLETED | TASK_CANCELED

datatype task_decision = ALLOW | ESCALATE

fun feedback_loop_value :: "feedback_loop \<Rightarrow> string" where
  "feedback_loop_value OPERATIONAL = ''operational''"
| "feedback_loop_value STRATEGIC = ''strategic''"
| "feedback_loop_value ADAPTIVE = ''adaptive''"

fun task_status_value :: "task_status \<Rightarrow> string" where
  "task_status_value TASK_QUEUED = ''queued''"
| "task_status_value NEEDS_COUNCIL_REVIEW = ''needs_council_review''"
| "task_status_value TASK_COMPLETED = ''completed''"
| "task_status_value TASK_CANCELED = ''canceled''"

fun task_decision_value :: "task_decision \<Rightarrow> string" where
  "task_decision_value ALLOW = ''allow''"
| "task_decision_value ESCALATE = ''escalate''"

text \<open>\<open>FEEDBACK_LOOP_CONFIGS\<close>: the hours after which a task of the loop is due.\<close>

fun window_hours :: "feedback_loop \<Rightarrow> int" where
  "window_hours OPERATIONAL = 8"
| "window_hours STRATEGIC = 48"
| "window_hours ADAPTIVE = 336"

record thresholds =
  th_tenant_id :: string
  th_revision :: int
  th_max_autonomous_risk_score :: pyfloat
  th_min_agent_confidence :: pyfloat
  th_operational_queue_limit :: int
  th_strategic_queue_limit :: int
  th_adaptive_queue_limit :: int
  th_updated_by :: "string option"
  th_updated_at :: int
  th_audit_hash :: string
  th_metadata :: "(string \<times> json) list"

definition queue_limit_ok :: "int \<Rightarrow> bool" where
  "queue_limit_ok n \<longleftrightarrow> 1 \<le> n \<and> n \<le> 10000"

definition threshold_settings ::
    "runtime \<Rightarrow> string \<Rightarrow> int \<Rightarrow> pyfloat \<Rightarrow> pyfloat \<Rightarrow> int \<Rightarrow> int \<Rightarrow> int \<Rightarrow> string option \<Rightarrow> int
     \<Rightarrow> string \<Rightarrow> (string \<times> json) list \<Rightarrow> exn + thresholds" where
  "threshold_settings rt tenant_id revision risk confidence operational strategic adaptive updated_by updated_at
     audit metadata =
     model ''ThresholdSettings''
       (tenant_id_ok (pyd_strip tenant_id) \<and> 1 \<le> revision \<and> finite_between 0 1 risk \<and>
        finite_between 0 1 confidence \<and> queue_limit_ok operational \<and> queue_limit_ok strategic \<and>
        queue_limit_ok adaptive \<and> optional_ok token_ok (map_option pyd_strip updated_by) \<and>
        audit_hash_ok (pyd_strip audit))
       \<lparr>th_tenant_id = pyd_strip tenant_id, th_revision = revision, th_max_autonomous_risk_score = risk,
        th_min_agent_confidence = confidence, th_operational_queue_limit = operational,
        th_strategic_queue_limit = strategic, th_adaptive_queue_limit = adaptive,
        th_updated_by = map_option pyd_strip updated_by, th_updated_at = updated_at,
        th_audit_hash = pyd_strip audit, th_metadata = obj_members (rt_pyd_json rt (JObj metadata))\<rparr>"

fun queue_limit_for :: "thresholds \<Rightarrow> feedback_loop \<Rightarrow> int" where
  "queue_limit_for th OPERATIONAL = th_operational_queue_limit th"
| "queue_limit_for th STRATEGIC = th_strategic_queue_limit th"
| "queue_limit_for th ADAPTIVE = th_adaptive_queue_limit th"

record task =
  ta_task_id :: string
  ta_tenant_id :: string
  ta_task_type :: string
  ta_title :: string
  ta_payload :: "(string \<times> json) list"
  ta_status :: task_status
  ta_assignee :: string
  ta_created_by :: string
  ta_agent_id :: "string option"
  ta_risk_score :: pyfloat
  ta_agent_confidence :: pyfloat
  ta_feedback_loop :: feedback_loop
  ta_policy_decision :: task_decision
  ta_policy_revision :: int
  ta_policy_reasons :: "string list"
  ta_due_at :: int
  ta_audit_hash :: string
  ta_created_at :: int
  ta_updated_at :: int

definition task_type_ok :: "string \<Rightarrow> bool" where
  "task_type_ok s \<longleftrightarrow> head_tail is_lower word_char 63 s"

definition task_fields_ok :: "task \<Rightarrow> bool" where
  "task_fields_ok t \<longleftrightarrow>
     token_ok (ta_task_id t) \<and> tenant_id_ok (ta_tenant_id t) \<and> task_type_ok (ta_task_type t) \<and>
     length_between 1 256 (ta_title t) \<and> token_ok (ta_assignee t) \<and> token_ok (ta_created_by t) \<and>
     optional_ok token_ok (ta_agent_id t) \<and> finite_between 0 1 (ta_risk_score t) \<and>
     finite_between 0 1 (ta_agent_confidence t) \<and> 1 \<le> ta_policy_revision t \<and>
     list_all (\<lambda>r. py_strip r \<noteq> []) (ta_policy_reasons t) \<and> audit_hash_ok (ta_audit_hash t)"

text \<open>\<open>ActivityTask(...)\<close>: the texts are trimmed, then every field is checked.\<close>

definition activity_task :: "runtime \<Rightarrow> task \<Rightarrow> exn + task" where
  "activity_task rt t =
     (let u = t\<lparr>ta_task_id := pyd_strip (ta_task_id t), ta_tenant_id := pyd_strip (ta_tenant_id t),
                ta_task_type := pyd_strip (ta_task_type t), ta_title := pyd_strip (ta_title t),
                ta_payload := obj_members (rt_pyd_json rt (JObj (ta_payload t))),
                ta_assignee := pyd_strip (ta_assignee t), ta_created_by := pyd_strip (ta_created_by t),
                ta_agent_id := map_option pyd_strip (ta_agent_id t),
                ta_policy_reasons := map pyd_strip (ta_policy_reasons t),
                ta_audit_hash := pyd_strip (ta_audit_hash t)\<rparr> in
      model ''ActivityTask'' (task_fields_ok u) u)"

record threshold_update =
  tu_max_autonomous_risk_score :: "pyfloat option"
  tu_min_agent_confidence :: "pyfloat option"
  tu_operational_queue_limit :: "int option"
  tu_strategic_queue_limit :: "int option"
  tu_adaptive_queue_limit :: "int option"
  tu_metadata :: "(string \<times> json) list"

record task_input =
  ti_task_type :: string
  ti_title :: string
  ti_payload :: "(string \<times> json) list"
  ti_assignee :: string
  ti_risk_score :: pyfloat
  ti_agent_confidence :: pyfloat
  ti_feedback_loop :: feedback_loop
  ti_task_id :: "string option"
  ti_event_id :: "string option"
  ti_agent_id :: "string option"

section \<open>The repository\<close>

record activity_state = svc +
  ac_thresholds :: "(string, thresholds) dict"
  ac_tasks :: "(string \<times> string, task) dict"

definition default_thresholds :: "runtime \<Rightarrow> string \<Rightarrow> exn + thresholds" where
  "default_thresholds rt tenant_id =
     threshold_settings rt tenant_id 1 (Fin (3152519739159347 / 4503599627370496))
       (Fin (5854679515581645 / 9007199254740992)) 50 25 10 None 0 (replicate 64 (CHR ''0''))
       [(''source'', JStr ''default'')]"

definition get_thresholds :: "runtime \<Rightarrow> string \<Rightarrow> ('z activity_state_scheme, thresholds) act" where
  "get_thresholds rt tenant_id =
     bnd (gets (\<lambda>s. map_of (ac_thresholds s) tenant_id)) (\<lambda>found.
     case found of
       Some th \<Rightarrow> ret th
     | None \<Rightarrow>
         bnd (lift (default_thresholds rt tenant_id)) (\<lambda>th.
         bnd (modify (\<lambda>s. s\<lparr>ac_thresholds := AList.update tenant_id th (ac_thresholds s)\<rparr>)) (\<lambda>_.
         ret th)))"

definition save_thresholds :: "thresholds \<Rightarrow> ('z activity_state_scheme, unit) act" where
  "save_thresholds th =
     modify (\<lambda>s. s\<lparr>ac_thresholds := AList.update (th_tenant_id th) th (ac_thresholds s)\<rparr>)"

definition task_key :: "task \<Rightarrow> string \<times> string" where
  "task_key t = (ta_tenant_id t, ta_task_id t)"

definition add_task :: "task \<Rightarrow> ('z activity_state_scheme, unit) act" where
  "add_task t =
     bnd (gets (\<lambda>s. map_of (ac_tasks s) (task_key t))) (\<lambda>old.
     bnd (require (old = None) ActivityTaskAlreadyExistsError) (\<lambda>_.
     modify (\<lambda>s. s\<lparr>ac_tasks := AList.update (task_key t) t (ac_tasks s)\<rparr>)))"

definition list_tasks ::
    "string \<Rightarrow> task_status option \<Rightarrow> feedback_loop option \<Rightarrow> 'z activity_state_scheme \<Rightarrow> task list" where
  "list_tasks tenant_id status loop s =
     sorted_values
       (\<lambda>(k, t). fst k = tenant_id \<and> (status = None \<or> Some (ta_status t) = status) \<and>
                 (loop = None \<or> Some (ta_feedback_loop t) = loop))
       ta_created_at (ac_tasks s)"

definition active_task :: "task \<Rightarrow> bool" where
  "active_task t \<longleftrightarrow> ta_status t = TASK_QUEUED \<or> ta_status t = NEEDS_COUNCIL_REVIEW"

definition active_task_count :: "string \<Rightarrow> feedback_loop \<Rightarrow> 'z activity_state_scheme \<Rightarrow> int" where
  "active_task_count tenant_id loop s =
     int (length (filter active_task (list_tasks tenant_id None (Some loop) s)))"

section \<open>The command center\<close>

definition coalesce :: "'a option \<Rightarrow> 'a \<Rightarrow> 'a" where
  "coalesce v fallback = (case v of None \<Rightarrow> fallback | Some x \<Rightarrow> x)"

definition update_thresholds ::
    "runtime \<Rightarrow> string \<Rightarrow> string \<Rightarrow> string \<Rightarrow> threshold_update \<Rightarrow> time_arg \<Rightarrow> string option
     \<Rightarrow> ('z activity_state_scheme, thresholds) act" where
  "update_thresholds rt tenant_id updated_by correlation_id up updated_at event_id =
     bnd (get_thresholds rt tenant_id) (\<lambda>old.
     bnd (lift (normalize_datetime rt updated_at)) (\<lambda>changed_at.
     let revision = th_revision old + 1;
         risk = coalesce (tu_max_autonomous_risk_score up) (th_max_autonomous_risk_score old);
         confidence = coalesce (tu_min_agent_confidence up) (th_min_agent_confidence old);
         operational = coalesce (tu_operational_queue_limit up) (th_operational_queue_limit old);
         strategic = coalesce (tu_strategic_queue_limit up) (th_strategic_queue_limit old);
         adaptive = coalesce (tu_adaptive_queue_limit up) (th_adaptive_queue_limit old)
     in
     bnd (audit_log rt ''activity.thresholds.updated'' tenant_id None
            (Some [(''revision'', JInt revision), (''max_autonomous_risk_score'', JFloat risk),
                   (''min_agent_confidence'', JFloat confidence), (''operational_queue_limit'', JInt operational),
                   (''strategic_queue_limit'', JInt strategic), (''adaptive_queue_limit'', JInt adaptive),
                   (''metadata'', JObj (tu_metadata up))])
            (AtTime (Aware changed_at 0)) (Some correlation_id)
            (Some (subject_ref_hash rt tenant_id updated_by)) (Some ''activity-command-center'')) (\<lambda>rec.
     bnd (lift (threshold_settings rt tenant_id revision risk confidence operational strategic adaptive
            (Some updated_by) changed_at (ar_audit_hash rec) (tu_metadata up))) (\<lambda>th.
     bnd (save_thresholds th) (\<lambda>_.
     bnd (id_or_new rt event_id ''evt-thresholds-updated'') (\<lambda>eid.
     bnd (emit eid ''activity.thresholds.updated'' ''1.0'' tenant_id ''activity-command-center'' correlation_id
            changed_at
            [(''revision'', JInt (th_revision th)), (''audit_hash'', JStr (th_audit_hash th)),
             (''max_autonomous_risk_score'', JFloat (th_max_autonomous_risk_score th)),
             (''min_agent_confidence'', JFloat (th_min_agent_confidence th))] None) (\<lambda>_.
     ret th)))))))"

definition policy_reasons ::
    "string \<Rightarrow> thresholds \<Rightarrow> feedback_loop \<Rightarrow> pyfloat \<Rightarrow> pyfloat \<Rightarrow> 'z activity_state_scheme \<Rightarrow> string list" where
  "policy_reasons tenant_id th loop risk confidence s =
     (if float_lt (th_max_autonomous_risk_score th) risk then [''risk_score_above_threshold''] else [])
     @ (if float_lt confidence (th_min_agent_confidence th) then [''confidence_below_threshold''] else [])
     @ (if queue_limit_for th loop \<le> active_task_count tenant_id loop s then [''queue_limit_reached''] else [])"

text \<open>The task that \<open>create_task\<close> builds from its input and the reasons to escalate it.\<close>

definition new_task ::
    "task_input \<Rightarrow> string \<Rightarrow> string \<Rightarrow> string \<Rightarrow> int \<Rightarrow> string list \<Rightarrow> string \<Rightarrow> int \<Rightarrow> task" where
  "new_task inp task_id tenant_id created_by revision reasons audit queued_at =
     \<lparr>ta_task_id = task_id, ta_tenant_id = tenant_id, ta_task_type = ti_task_type inp,
      ta_title = ti_title inp, ta_payload = ti_payload inp,
      ta_status = (if reasons \<noteq> [] then NEEDS_COUNCIL_REVIEW else TASK_QUEUED),
      ta_assignee = ti_assignee inp, ta_created_by = created_by, ta_agent_id = ti_agent_id inp,
      ta_risk_score = ti_risk_score inp, ta_agent_confidence = ti_agent_confidence inp,
      ta_feedback_loop = ti_feedback_loop inp,
      ta_policy_decision = (if reasons \<noteq> [] then ESCALATE else ALLOW), ta_policy_revision = revision,
      ta_policy_reasons = reasons, ta_due_at = queued_at + hours (window_hours (ti_feedback_loop inp)),
      ta_audit_hash = audit, ta_created_at = queued_at, ta_updated_at = queued_at\<rparr>"

definition task_audit_metadata ::
    "runtime \<Rightarrow> task_input \<Rightarrow> string \<Rightarrow> string \<Rightarrow> string \<Rightarrow> int \<Rightarrow> string list \<Rightarrow> (string \<times> json) list" where
  "task_audit_metadata rt inp task_id tenant_id created_by revision reasons =
     [(''task_id'', JStr task_id), (''task_type'', JStr (ti_task_type inp)),
      (''status'', JStr (task_status_value (if reasons \<noteq> [] then NEEDS_COUNCIL_REVIEW else TASK_QUEUED))),
      (''feedback_loop'', JStr (feedback_loop_value (ti_feedback_loop inp))),
      (''policy_decision'', JStr (task_decision_value (if reasons \<noteq> [] then ESCALATE else ALLOW))),
      (''policy_revision'', JInt revision), (''policy_reasons'', JList (map JStr reasons)),
      (''risk_score'', JFloat (ti_risk_score inp)), (''agent_confidence'', JFloat (ti_agent_confidence inp)),
      (''assignee_hash'', JStr (subject_ref_hash rt tenant_id (ti_assignee inp))),
      (''agent_hash'', (case ti_agent_id inp of None \<Rightarrow> JNull | Some a \<Rightarrow> JStr (subject_ref_hash rt tenant_id a))),
      (''created_by_hash'', JStr (subject_ref_hash rt tenant_id created_by))]"

text \<open>\<open>iso_z\<close> is \<open>format_datetime\<close>.\<close>

definition create_task ::
    "runtime \<Rightarrow> (int \<Rightarrow> string) \<Rightarrow> string \<Rightarrow> string \<Rightarrow> string \<Rightarrow> task_input \<Rightarrow> time_arg
     \<Rightarrow> ('z activity_state_scheme, task) act" where
  "create_task rt iso_z tenant_id created_by correlation_id inp created_at =
     bnd (lift (normalize_datetime rt created_at)) (\<lambda>queued_at.
     bnd (get_thresholds rt tenant_id) (\<lambda>th.
     bnd (gets (policy_reasons tenant_id th (ti_feedback_loop inp) (ti_risk_score inp) (ti_agent_confidence inp))) (\<lambda>reasons.
     bnd (id_or_new rt (ti_task_id inp) ''task'') (\<lambda>task_id.
     bnd (audit_log rt ''activity.task.created'' tenant_id None
            (Some (task_audit_metadata rt inp task_id tenant_id created_by (th_revision th) reasons))
            (AtTime (Aware queued_at 0)) (Some correlation_id)
            (Some (subject_ref_hash rt tenant_id created_by)) (Some ''activity-command-center'')) (\<lambda>rec.
     bnd (lift (activity_task rt
            (new_task inp task_id tenant_id created_by (th_revision th) reasons (ar_audit_hash rec) queued_at))) (\<lambda>t.
     bnd (add_task t) (\<lambda>_.
     bnd (id_or_new rt (ti_event_id inp) ''evt-task-created'') (\<lambda>eid.
     bnd (emit eid ''activity.task.created'' ''1.0'' tenant_id ''activity-command-center'' correlation_id queued_at
            [(''task_id'', JStr (ta_task_id t)), (''task_type'', JStr (ta_task_type t)),
             (''status'', JStr (task_status_value (ta_status t))),
             (''feedback_loop'', JStr (feedback_loop_value (ta_feedback_loop t))),
             (''policy_decision'', JStr (task_decision_value (ta_policy_decision t))),
             (''policy_revision'', JInt (ta_policy_revision t)), (''due_at'', JStr (iso_z (ta_due_at t))),
             (''audit_hash'', JStr (ta_audit_hash t))] None) (\<lambda>_.
     ret t)))))))))"

text \<open>Counting by status, over all tasks and by feedback loop.\<close>

definition count_status :: "task list \<Rightarrow> task_status \<Rightarrow> int" where
  "count_status ts st = int (length (filter (\<lambda>t. ta_status t = st) ts))"

definition queue_by_status :: "task list \<Rightarrow> (string, int) dict" where
  "queue_by_status ts =
     fold (\<lambda>t d. AList.update (task_status_value (ta_status t))
                  (coalesce (map_of d (task_status_value (ta_status t))) 0 + 1) d) ts []"

record loop_overview =
  lo_queued :: int
  lo_needs_council_review :: int
  lo_completed :: int
  lo_canceled :: int
  lo_window_hours :: int

definition feedback_loop_overview :: "task list \<Rightarrow> feedback_loop \<Rightarrow> loop_overview" where
  "feedback_loop_overview ts loop =
     (let own = filter (\<lambda>t. ta_feedback_loop t = loop) ts in
      \<lparr>lo_queued = count_status own TASK_QUEUED, lo_needs_council_review = count_status own NEEDS_COUNCIL_REVIEW,
       lo_completed = count_status own TASK_COMPLETED, lo_canceled = count_status own TASK_CANCELED,
       lo_window_hours = window_hours loop\<rparr>)"

record activity_overview =
  av_tenant_id :: string
  av_thresholds :: thresholds
  av_queue_total :: int
  av_queue_by_status :: "(string, int) dict"
  av_feedback_loops :: "(string, loop_overview) dict"
  av_generated_at :: int

definition overview ::
    "runtime \<Rightarrow> string \<Rightarrow> time_arg \<Rightarrow> ('z activity_state_scheme, activity_overview) act" where
  "overview rt tenant_id generated_at =
     bnd (gets (list_tasks tenant_id None None)) (\<lambda>ts.
     bnd (get_thresholds rt tenant_id) (\<lambda>th.
     bnd (lift (normalize_datetime rt generated_at)) (\<lambda>now.
     lift (model ''ActivityOverview'' (tenant_id_ok (pyd_strip tenant_id))
       \<lparr>av_tenant_id = pyd_strip tenant_id, av_thresholds = th, av_queue_total = int (length ts),
        av_queue_by_status = queue_by_status ts,
        av_feedback_loops = map (\<lambda>l. (feedback_loop_value l, feedback_loop_overview ts l)) [OPERATIONAL, STRATEGIC, ADAPTIVE],
        av_generated_at = now\<rparr>))))"

section \<open>The handlers\<close>

definition ACTIVITY_READ_POLICY :: access_policy where
  "ACTIVITY_READ_POLICY =
     \<lparr>pol_allowed_roles = [''council'', ''presidium'', ''board''], pol_action = ''activity.read'',
      pol_resource_type = ''activity_command_center''\<rparr>"

definition TASK_CREATE_POLICY :: access_policy where
  "TASK_CREATE_POLICY =
     \<lparr>pol_allowed_roles = [''council'', ''board'', ''member_full'', ''member_assoc''],
      pol_action = ''activity.task.create'', pol_resource_type = ''activity_command_center''\<rparr>"

definition THRESHOLD_READ_POLICY :: access_policy where
  "THRESHOLD_READ_POLICY =
     \<lparr>pol_allowed_roles = [''council'', ''presidium'', ''board'', ''member_full'', ''member_assoc''],
      pol_action = ''activity.thresholds.read'', pol_resource_type = ''activity_command_center''\<rparr>"

definition THRESHOLD_UPDATE_POLICY :: access_policy where
  "THRESHOLD_UPDATE_POLICY =
     \<lparr>pol_allowed_roles = [''council''], pol_action = ''activity.thresholds.update'',
      pol_resource_type = ''activity_command_center''\<rparr>"

definition activity_subject :: "tenant_context \<Rightarrow> exn + string" where
  "activity_subject c =
     (case tc_subject c of
        None \<Rightarrow> Inl (SharedError 400 ''actor_required'' (tc_correlation_id c))
      | Some s \<Rightarrow>
          if py_strip s = [] then Inl (SharedError 400 ''actor_required'' (tc_correlation_id c)) else Inr s)"

definition update_request_ok :: "threshold_update \<Rightarrow> string option \<Rightarrow> bool" where
  "update_request_ok up event_id \<longleftrightarrow>
     optional_ok (finite_between 0 1) (tu_max_autonomous_risk_score up) \<and>
     optional_ok (finite_between 0 1) (tu_min_agent_confidence up) \<and>
     optional_ok queue_limit_ok (tu_operational_queue_limit up) \<and>
     optional_ok queue_limit_ok (tu_strategic_queue_limit up) \<and>
     optional_ok queue_limit_ok (tu_adaptive_queue_limit up) \<and>
     optional_ok (length_between 1 128) (map_option pyd_strip event_id)"

definition put_thresholds ::
    "runtime \<Rightarrow> tenant_context option \<Rightarrow> threshold_update \<Rightarrow> pydt option \<Rightarrow> string option
     \<Rightarrow> ('z activity_state_scheme, thresholds) act" where
  "put_thresholds rt ambient up updated_at event_id =
     bnd (lift (resolve_context ambient None)) (\<lambda>c.
     bnd (require (update_request_ok up event_id) (ValidationError ''request'')) (\<lambda>_.
     bnd (lift (require_access ambient THRESHOLD_UPDATE_POLICY (Some c))) (\<lambda>actor.
     bnd (lift (activity_subject actor)) (\<lambda>updated_by.
     bnd (id_or_new rt (tc_correlation_id c) ''corr'') (\<lambda>correlation_id.
     update_thresholds rt (tc_tenant_id c) updated_by correlation_id
       (up\<lparr>tu_metadata := obj_members (rt_pyd_json rt (JObj (tu_metadata up)))\<rparr>)
       (case updated_at of None \<Rightarrow> NoTime | Some t \<Rightarrow> AtTime t) (map_option pyd_strip event_id))))))"

definition task_request_ok :: "task_input \<Rightarrow> bool" where
  "task_request_ok inp \<longleftrightarrow>
     optional_ok (length_between 1 128) (ti_task_id inp) \<and>
     optional_ok (length_between 1 128) (ti_event_id inp) \<and>
     task_type_ok (ti_task_type inp) \<and> length_between 1 256 (ti_title inp) \<and>
     token_ok (ti_assignee inp) \<and> optional_ok token_ok (ti_agent_id inp) \<and>
     finite_between 0 1 (ti_risk_score inp) \<and> finite_between 0 1 (ti_agent_confidence inp)"

text \<open>The request body trims its texts before they are checked and passed on.\<close>

definition trimmed_task_input :: "runtime \<Rightarrow> task_input \<Rightarrow> task_input" where
  "trimmed_task_input rt inp =
     inp\<lparr>ti_task_type := pyd_strip (ti_task_type inp), ti_title := pyd_strip (ti_title inp),
         ti_payload := obj_members (rt_pyd_json rt (JObj (ti_payload inp))),
         ti_assignee := pyd_strip (ti_assignee inp), ti_task_id := map_option pyd_strip (ti_task_id inp),
         ti_event_id := map_option pyd_strip (ti_event_id inp), ti_agent_id := map_option pyd_strip (ti_agent_id inp)\<rparr>"

definition post_task ::
    "runtime \<Rightarrow> (int \<Rightarrow> string) \<Rightarrow> tenant_context option \<Rightarrow> task_input \<Rightarrow> pydt option
     \<Rightarrow> ('z activity_state_scheme, task) act" where
  "post_task rt iso_z ambient body created_at =
     bnd (lift (resolve_context ambient None)) (\<lambda>c.
     let inp = trimmed_task_input rt body in
     bnd (require (task_request_ok inp) (ValidationError ''request'')) (\<lambda>_.
     bnd (lift (require_access ambient TASK_CREATE_POLICY (Some c))) (\<lambda>actor.
     bnd (lift (activity_subject actor)) (\<lambda>created_by.
     bnd (id_or_new rt (tc_correlation_id c) ''corr'') (\<lambda>correlation_id.
     create_task rt iso_z (tc_tenant_id c) created_by correlation_id inp
       (case created_at of None \<Rightarrow> NoTime | Some t \<Rightarrow> AtTime t))))))"

definition api_overview ::
    "runtime \<Rightarrow> tenant_context option \<Rightarrow> ('z activity_state_scheme, activity_overview) act" where
  "api_overview rt ambient =
     bnd (lift (resolve_context ambient None)) (\<lambda>c.
     bnd (lift (require_access ambient ACTIVITY_READ_POLICY (Some c))) (\<lambda>_.
     overview rt (tc_tenant_id c) NoTime))"

definition api_list_tasks ::
    "tenant_context option \<Rightarrow> task_status option \<Rightarrow> feedback_loop option
     \<Rightarrow> ('z activity_state_scheme, task list) act" where
  "api_list_tasks ambient status loop =
     bnd (lift (resolve_context ambient None)) (\<lambda>c.
     bnd (lift (require_access ambient ACTIVITY_READ_POLICY (Some c))) (\<lambda>_.
     gets (list_tasks (tc_tenant_id c) status loop)))"

definition api_get_thresholds ::
    "runtime \<Rightarrow> tenant_context option \<Rightarrow> ('z activity_state_scheme, thresholds) act" where
  "api_get_thresholds rt ambient =
     bnd (lift (resolve_context ambient None)) (\<lambda>c.
     bnd (lift (require_access ambient THRESHOLD_READ_POLICY (Some c))) (\<lambda>_.
     get_thresholds rt (tc_tenant_id c)))"

section \<open>What the operations do\<close>

definition current_thresholds :: "runtime \<Rightarrow> string \<Rightarrow> 'z activity_state_scheme \<Rightarrow> thresholds \<Rightarrow> bool" where
  "current_thresholds rt tenant_id s th \<longleftrightarrow>
     (case map_of (ac_thresholds s) tenant_id of None \<Rightarrow> default_thresholds rt tenant_id = Inr th | Some x \<Rightarrow> th = x)"

definition defaults_added :: "runtime \<Rightarrow> string \<Rightarrow> 'z activity_state_scheme \<Rightarrow> 'z activity_state_scheme \<Rightarrow> bool" where
  "defaults_added rt tenant_id s t \<longleftrightarrow>
     ac_thresholds t = ac_thresholds s \<or>
     (\<exists>th. map_of (ac_thresholds s) tenant_id = None \<and> default_thresholds rt tenant_id = Inr th \<and>
        ac_thresholds t = AList.update tenant_id th (ac_thresholds s))"

lemma activity_simps [simp]:
  "ac_tasks (sink_append r s) = ac_tasks s" "ac_thresholds (sink_append r s) = ac_thresholds s"
  "active_task_count tenant loop (s\<lparr>ac_thresholds := d\<rparr>) = active_task_count tenant loop s"
  "policy_reasons tenant th loop a b (s\<lparr>ac_thresholds := d\<rparr>) = policy_reasons tenant th loop a b s"
  by (simp_all add: sink_append_def active_task_count_def list_tasks_def policy_reasons_def)

lemma get_thresholds_rule:
  assumes "\<And>e. Q (Inl e) s"
    and "\<And>th d. current_thresholds rt tenant s th \<Longrightarrow> defaults_added rt tenant s (s\<lparr>ac_thresholds := d\<rparr>) \<Longrightarrow>
      Q (Inr th) (s\<lparr>ac_thresholds := d\<rparr>)"
  shows "outcome (get_thresholds rt tenant) Q s"
  using assms assms(2) [where d = "ac_thresholds s"]
  by (auto simp: get_thresholds_def act_simps current_thresholds_def defaults_added_def split: option.splits sum.splits)

lemma id_or_new_activity:
  assumes "\<And>i t. ac_tasks t = ac_tasks s \<Longrightarrow> ac_thresholds t = ac_thresholds s \<Longrightarrow> Q (Inr i) t"
  shows "outcome (id_or_new rt given name) Q s"
  by (rule id_or_new_state) (simp add: assms)

definition create_outcome ::
    "runtime \<Rightarrow> string \<Rightarrow> task_input \<Rightarrow> 'z activity_state_scheme \<Rightarrow> exn + task \<Rightarrow> 'z activity_state_scheme \<Rightarrow> bool" where
  "create_outcome rt tenant_id inp s r t \<longleftrightarrow>
     (\<exists>e. r = Inl e) \<and> ac_tasks t = ac_tasks s \<or>
     (\<exists>th i by h q tk. current_thresholds rt tenant_id s th \<and> tenant_id_ok tenant_id \<and>
        activity_task rt (new_task inp i tenant_id by (th_revision th)
          (policy_reasons tenant_id th (ti_feedback_loop inp) (ti_risk_score inp) (ti_agent_confidence inp) s) h q) = Inr tk \<and>
        map_of (ac_tasks s) (task_key tk) = None \<and> ac_tasks t = AList.update (task_key tk) tk (ac_tasks s) \<and>
        (r = Inr tk \<or> (\<exists>e. r = Inl e)))"

lemma create_outcome_failed: "ac_tasks t = ac_tasks s \<Longrightarrow> create_outcome rt tenant inp s (Inl e) t"
  by (simp add: create_outcome_def)

lemma create_outcome_created:
  "activity_task rt (new_task inp i tenant by (th_revision th)
      (policy_reasons tenant th (ti_feedback_loop inp) (ti_risk_score inp) (ti_agent_confidence inp) s) h q) = Inr tk \<Longrightarrow>
     current_thresholds rt tenant s th \<Longrightarrow> audit_record_of tenant cid rec \<Longrightarrow>
     map_of (ac_tasks s) (task_key tk) = None \<Longrightarrow> ac_tasks t = AList.update (task_key tk) tk (ac_tasks s) \<Longrightarrow>
     r = Inr tk \<or> (\<exists>e. r = Inl e) \<Longrightarrow> create_outcome rt tenant inp s r t"
  unfolding create_outcome_def audit_record_of_def by blast

lemma create_task_rule:
  "outcome (create_task rt iso_z tenant_id created_by cid inp created_at)
     (\<lambda>r t. defaults_added rt tenant_id s t \<and> create_outcome rt tenant_id inp s r t) s"
proof -
  have keep: "defaults_added rt tenant_id s t"
    if "defaults_added rt tenant_id s u" "ac_thresholds t = ac_thresholds u" for t u
    using that by (simp add: defaults_added_def)
  have d: "defaults_added rt tenant_id s s" by (simp add: defaults_added_def)
  show ?thesis
    unfolding create_task_def
    by (auto simp: act_simps d Let_def add_task_def split: sum.split
        intro!: get_thresholds_rule id_or_new_activity audit_log_rule emit_rule intro: keep create_outcome_failed)
      (rule create_outcome_created, assumption, assumption, assumption, assumption, simp, simp)+
qed

section \<open>The queue\<close>

lemma length_filter_sort [simp]: "length (filter P (sort_key f xs)) = length (filter P xs)"
  by (metis mset_filter mset_sort size_mset)

lemma active_task_count_eq:
  "active_task_count tenant loop s =
     int (length (filter (\<lambda>(k, t). fst k = tenant \<and> ta_feedback_loop t = loop \<and> active_task t) (ac_tasks s)))"
  unfolding active_task_count_def list_tasks_def sorted_values_def length_filter_sort
  by (simp add: filter_map filter_filter comp_def case_prod_unfold conj_ac)

lemma active_task_count_cong: "ac_tasks t = ac_tasks s \<Longrightarrow> active_task_count tenant loop t = active_task_count tenant loop s"
  by (simp add: active_task_count_eq)

lemma active_task_count_new:
  assumes "map_of (ac_tasks s) k = None" and "ac_tasks t = AList.update k v (ac_tasks s)"
  shows "active_task_count tenant loop s \<le> active_task_count tenant loop t"
  using assms by (simp add: active_task_count_eq dict_update_new)

text \<open>The task that was built: its status and decision follow from the reasons.\<close>

lemma activity_task_fields:
  assumes "activity_task rt (new_task inp i tenant by n reasons h q) = Inr tk"
  shows "ta_status tk = (if reasons = [] then TASK_QUEUED else NEEDS_COUNCIL_REVIEW)"
    and "ta_policy_decision tk = (if reasons = [] then ALLOW else ESCALATE)"
    and "ta_policy_revision tk = n"
  using assms by (auto simp: activity_task_def new_task_def Let_def)

lemma defaults_added_current:
  "defaults_added rt x s t \<Longrightarrow> current_thresholds rt tenant t th = current_thresholds rt tenant s th"
  unfolding defaults_added_def current_thresholds_def
  by (elim disjE exE conjE; cases "tenant = x"; cases "map_of (ac_thresholds s) tenant") (auto simp: update_conv')

text \<open>Apart from updates of thresholds, the current thresholds stay and the queue grows.\<close>

definition queue_grows ::
    "runtime \<Rightarrow> string \<Rightarrow> feedback_loop \<Rightarrow> 'z activity_state_scheme \<Rightarrow> 'z activity_state_scheme \<Rightarrow> bool" where
  "queue_grows rt tenant loop s t \<longleftrightarrow>
     (\<forall>th. current_thresholds rt tenant t th = current_thresholds rt tenant s th) \<and>
     active_task_count tenant loop s \<le> active_task_count tenant loop t"

lemma queue_grows_refl [simp]: "queue_grows rt tenant loop s s"
  by (simp add: queue_grows_def)

lemma queue_grows_defaults:
  "defaults_added rt x s (s\<lparr>ac_thresholds := d\<rparr>) \<Longrightarrow> queue_grows rt tenant loop s (s\<lparr>ac_thresholds := d\<rparr>)"
  by (simp add: queue_grows_def defaults_added_current)

lemma create_task_grows:
  assumes "create_task rt iso_z tenant_id created_by cid inp created_at s = (r, t)"
  shows "queue_grows rt tenant loop s t"
  using outcomeD [OF create_task_rule assms] active_task_count_cong [of t s]
  by (auto simp: queue_grows_def create_outcome_def defaults_added_current intro: active_task_count_new)

lemma create_task_full:
  assumes "create_task rt iso_z tenant_id created_by cid inp created_at s = (Inr tk, t)"
    and "current_thresholds rt tenant_id s th"
    and "queue_limit_for th (ti_feedback_loop inp) \<le> active_task_count tenant_id (ti_feedback_loop inp) s"
  shows "ta_status tk = NEEDS_COUNCIL_REVIEW"
proof -
  from outcomeD [OF create_task_rule assms(1)] obtain th' i a h q where cur: "current_thresholds rt tenant_id s th'"
    and tk: "activity_task rt (new_task inp i tenant_id a (th_revision th')
        (policy_reasons tenant_id th' (ti_feedback_loop inp) (ti_risk_score inp) (ti_agent_confidence inp) s) h q) = Inr tk"
    by (auto simp: create_outcome_def)
  have "th' = th" using cur assms(2) by (auto simp: current_thresholds_def split: option.splits)
  with activity_task_fields(1) [OF tk] assms(3) show ?thesis by (simp add: policy_reasons_def)
qed

section \<open>Updates of thresholds\<close>

definition thresholds_updated :: "runtime \<Rightarrow> string \<Rightarrow> 'z activity_state_scheme \<Rightarrow> 'z activity_state_scheme \<Rightarrow> bool" where
  "thresholds_updated rt tenant s t \<longleftrightarrow>
     (\<exists>old new d. current_thresholds rt tenant s old \<and> th_revision new = th_revision old + 1 \<and>
        defaults_added rt tenant s (s\<lparr>ac_thresholds := d\<rparr>) \<and> ac_thresholds t = AList.update tenant new d)"

lemma thresholds_updatedI:
  "threshold_settings rt tenant (th_revision old + 1) a b x y z u w h m = Inr new \<Longrightarrow> audit_record_of tenant cid rec \<Longrightarrow>
     current_thresholds rt tenant s old \<Longrightarrow> defaults_added rt tenant s (s\<lparr>ac_thresholds := d\<rparr>) \<Longrightarrow>
     ac_thresholds t = AList.update (th_tenant_id new) new d \<Longrightarrow> thresholds_updated rt tenant s t"
  unfolding thresholds_updated_def
  by (intro exI [where x = old] exI [where x = new] exI [where x = d])
    (auto simp: threshold_settings_def audit_record_of_def)

definition update_outcome :: "runtime \<Rightarrow> string \<Rightarrow> 'z activity_state_scheme \<Rightarrow> 'z activity_state_scheme \<Rightarrow> bool" where
  "update_outcome rt tenant s t \<longleftrightarrow>
     ac_tasks t = ac_tasks s \<and> (defaults_added rt tenant s t \<or> thresholds_updated rt tenant s t)"

lemma update_outcome_kept:
  "defaults_added rt tenant s u \<Longrightarrow> ac_tasks t = ac_tasks s \<Longrightarrow> ac_thresholds t = ac_thresholds u \<Longrightarrow>
     update_outcome rt tenant s t"
  by (simp add: update_outcome_def defaults_added_def)

lemma update_outcome_saved:
  "threshold_settings rt tenant (th_revision old + 1) a b x y z u w h m = Inr new \<Longrightarrow>
     current_thresholds rt tenant s old \<Longrightarrow> defaults_added rt tenant s (s\<lparr>ac_thresholds := d\<rparr>) \<Longrightarrow>
     audit_record_of tenant cid rec \<Longrightarrow> ac_tasks t = ac_tasks s \<Longrightarrow>
     ac_thresholds t = AList.update (th_tenant_id new) new d \<Longrightarrow> update_outcome rt tenant s t"
  unfolding update_outcome_def by (blast intro: thresholds_updatedI)

lemma update_thresholds_rule:
  "outcome (update_thresholds rt tenant a cid up at_time eid) (\<lambda>r t. update_outcome rt tenant s t) s"
proof -
  have d: "defaults_added rt tenant s s" by (simp add: defaults_added_def)
  show ?thesis
    unfolding update_thresholds_def save_thresholds_def
    by (auto simp: act_simps Let_def split: sum.split
        intro!: get_thresholds_rule id_or_new_activity audit_log_rule emit_rule intro: update_outcome_kept [OF d])
      ((rule update_outcome_saved, assumption, assumption, assumption, assumption, simp, simp | rule update_outcome_kept, assumption, simp, simp))+
qed

text \<open>The requests of the HTTP API.\<close>

datatype activity_call =
    PutThresholds "tenant_context option" threshold_update "pydt option" "string option"
  | PostTask "tenant_context option" task_input "pydt option"
  | GetThresholds "tenant_context option"
  | GetOverview "tenant_context option"

fun activity_step :: "runtime \<Rightarrow> (int \<Rightarrow> string) \<Rightarrow> activity_call \<Rightarrow> 'z activity_state_scheme \<Rightarrow> 'z activity_state_scheme" where
  "activity_step rt iso_z (PutThresholds ctx up updated_at event_id) s = snd (put_thresholds rt ctx up updated_at event_id s)"
| "activity_step rt iso_z (PostTask ctx inp created_at) s = snd (post_task rt iso_z ctx inp created_at s)"
| "activity_step rt iso_z (GetThresholds ctx) s = snd (api_get_thresholds rt ctx s)"
| "activity_step rt iso_z (GetOverview ctx) s = snd (api_overview rt ctx s)"

fun is_update :: "activity_call \<Rightarrow> bool" where
  "is_update (PutThresholds ctx up updated_at event_id) = True"
| "is_update k = False"

definition activity_run ::
    "runtime \<Rightarrow> (int \<Rightarrow> string) \<Rightarrow> activity_call list \<Rightarrow> 'z activity_state_scheme \<Rightarrow> 'z activity_state_scheme" where
  "activity_run rt iso_z calls s = fold (activity_step rt iso_z) calls s"

lemma get_thresholds_grows: "outcome (get_thresholds rt x) (\<lambda>r t. queue_grows rt tenant loop s t) s"
  by (rule get_thresholds_rule) (simp_all add: queue_grows_defaults)

lemma queue_grows_eq:
  "ac_tasks t = ac_tasks s \<Longrightarrow> ac_thresholds t = ac_thresholds s \<Longrightarrow> queue_grows rt tenant loop s t"
  using active_task_count_cong [of t s] by (simp add: queue_grows_def current_thresholds_def)

lemma queue_grows_trans:
  "queue_grows rt tenant loop s u \<Longrightarrow> queue_grows rt tenant loop u t \<Longrightarrow> queue_grows rt tenant loop s t"
  by (auto simp: queue_grows_def)

lemma create_task_grows_rule:
  assumes "ac_tasks u = ac_tasks s" and "ac_thresholds u = ac_thresholds s"
  shows "outcome (create_task rt iso_z x a cid inp at_time) (\<lambda>r t. queue_grows rt tenant loop s t) u"
  unfolding outcome_def
  by (auto split: prod.split intro: queue_grows_trans [OF queue_grows_eq [OF assms]] create_task_grows)

lemma other_steps_grow:
  assumes "\<not> is_update k"
  shows "queue_grows rt tenant loop s (activity_step rt iso_z k s)"
proof (cases k)
  case (PutThresholds ctx up u e)
  with assms show ?thesis by simp
next
  case (PostTask ctx inp created_at)
  have "outcome (post_task rt iso_z ctx inp created_at) (\<lambda>r t. queue_grows rt tenant loop s t) s"
    unfolding post_task_def
    by (auto simp: act_simps Let_def split: sum.split intro!: id_or_new_activity create_task_grows_rule)
  then show ?thesis by (simp add: PostTask outcome_snd)
next
  case (GetThresholds ctx)
  have "outcome (api_get_thresholds rt ctx) (\<lambda>r t. queue_grows rt tenant loop s t) s"
    unfolding api_get_thresholds_def by (auto simp: act_simps split: sum.split intro!: get_thresholds_grows)
  then show ?thesis by (simp add: GetThresholds outcome_snd)
next
  case (GetOverview ctx)
  have "outcome (api_overview rt ctx) (\<lambda>r t. queue_grows rt tenant loop s t) s"
    unfolding api_overview_def overview_def
    by (auto simp: act_simps split: sum.split intro!: get_thresholds_rule intro: queue_grows_defaults)
  then show ?thesis by (simp add: GetOverview outcome_snd)
qed

lemma activity_run_grows:
  "list_all (\<lambda>k. \<not> is_update k) calls \<Longrightarrow> queue_grows rt tenant loop s (activity_run rt iso_z calls s)"
  unfolding activity_run_def
  by (induction calls arbitrary: s) (auto intro: queue_grows_trans [OF other_steps_grow])

lemma put_thresholds_rule:
  "outcome (put_thresholds rt ambient up updated_at event_id)
     (\<lambda>r t. ac_tasks t = ac_tasks s \<and> ac_thresholds t = ac_thresholds s \<or>
       (\<exists>c. ambient = Some c \<and> ''council'' \<in> set (tc_roles c) \<and> update_outcome rt (tc_tenant_id c) s t)) s"
proof -
  have saved: "snd (update_thresholds rt x a cid v at_time eid u) = t \<Longrightarrow> ac_tasks u = ac_tasks s \<Longrightarrow>
      ac_thresholds u = ac_thresholds s \<Longrightarrow> update_outcome rt x s t" for x a cid v at_time eid u t
    using update_thresholds_rule [of rt x a cid v at_time eid u]
    by (simp add: outcome_snd update_outcome_def defaults_added_def thresholds_updated_def current_thresholds_def)
  have use: "outcome (update_thresholds rt x a cid v at_time eid) (\<lambda>r t. K t \<or> update_outcome rt x s t) u"
    if "ac_tasks u = ac_tasks s" "ac_thresholds u = ac_thresholds s" for x a cid v at_time eid u K
    using saved [OF refl that] by (simp add: outcome_snd)
  have council: "''council'' \<in> set (tc_roles c)" if "require_access (Some c) THRESHOLD_UPDATE_POLICY (Some c) = Inr actor" for c actor
    using that by (auto simp: require_access_def resolve_context_def THRESHOLD_UPDATE_POLICY_def list_ex_iff Let_def split: if_splits)
  show ?thesis
    unfolding put_thresholds_def
    by (cases ambient)
      (auto simp: act_simps Let_def resolve_context_def council split: sum.split intro!: id_or_new_activity use)
qed

lemma current_thresholds_unique:
  "current_thresholds rt tenant s th \<Longrightarrow> current_thresholds rt tenant s th' \<Longrightarrow> th' = th"
  by (auto simp: current_thresholds_def split: option.splits)

lemma thresholds_updated_current:
  assumes "thresholds_updated rt x s t" and "current_thresholds rt tenant s th"
    and "current_thresholds rt tenant t th'" and "th' \<noteq> th"
  shows "x = tenant \<and> th_revision th' = th_revision th + 1"
proof -
  obtain old new d where old: "current_thresholds rt x s old" "th_revision new = th_revision old + 1"
    and d: "defaults_added rt x s (s\<lparr>ac_thresholds := d\<rparr>)" and t: "ac_thresholds t = AList.update x new d"
    using assms(1) unfolding thresholds_updated_def by blast
  have other: "current_thresholds rt tenant t th' \<longleftrightarrow> current_thresholds rt tenant (s\<lparr>ac_thresholds := d\<rparr>) th'"
    if "x \<noteq> tenant" using that by (simp add: current_thresholds_def t update_conv')
  have "x = tenant"
    using other assms(2-4) defaults_added_current [OF d, of tenant th'] current_thresholds_unique by blast
  moreover from this have "th' = new" using assms(3) by (simp add: current_thresholds_def t)
  moreover have "old = th" using old(1) assms(2) \<open>x = tenant\<close> current_thresholds_unique by blast
  ultimately show ?thesis using old(2) by simp
qed

end
