(* ===== verification/ActivityProperties.thy ===== *)
theory ActivityProperties
  imports CommandCenter Samples
begin

text \<open>
  The properties of the activity command center: which tasks are queued for autonomous work, who changes
  the thresholds, and the fact that nothing ever leaves the queue.
\<close>

section \<open>A run\<close>

definition sample_task :: task_input where
  "sample_task =
     \<lparr>ti_task_type = ''post'', ti_title = ''x'', ti_payload = [], ti_assignee = ''a'', ti_risk_score = Fin 0,
      ti_agent_confidence = Fin 1, ti_feedback_loop = ADAPTIVE, ti_task_id = Some ''k'', ti_event_id = None,
      ti_agent_id = None\<rparr>"

definition empty_center :: activity_state where
  "empty_center = \<lparr>audit_sink = None, uuids = 0, bus = [], ac_thresholds = [], ac_tasks = []\<rparr>"

definition sample_iso :: "int \<Rightarrow> string" where
  "sample_iso t = ''t''"

lemma sample_create: "\<not> isl (fst (create_task sample_runtime sample_iso ''t'' ''c'' ''r'' sample_task NoTime empty_center))"
  by code_simp

text \<open>C31. A new task is queued for autonomous work exactly when its risk is not above the tenant's current
  threshold, the agent's confidence not below it, and the active tasks of its feedback loop are fewer
  than the limit; otherwise it waits for the council. It is stored under a new id and records the
  revision of the thresholds it was judged by.\<close>

theorem autonomous_tasks_satisfy_the_policy:
  assumes "create_task rt iso_z tenant_id created_by cid inp created_at s = (Inr tk, t)"
  shows "\<exists>th. current_thresholds rt tenant_id s th \<and> ta_policy_revision tk = th_revision th \<and>
    (ta_status tk = TASK_QUEUED \<longleftrightarrow>
       \<not> float_lt (th_max_autonomous_risk_score th) (ti_risk_score inp) \<and>
       \<not> float_lt (ti_agent_confidence inp) (th_min_agent_confidence th) \<and>
       active_task_count tenant_id (ti_feedback_loop inp) s < queue_limit_for th (ti_feedback_loop inp)) \<and>
    (ta_status tk = TASK_QUEUED \<and> ta_policy_decision tk = ALLOW \<or>
     ta_status tk = NEEDS_COUNCIL_REVIEW \<and> ta_policy_decision tk = ESCALATE) \<and>
    map_of (ac_tasks s) (task_key tk) = None \<and> ac_tasks t = AList.update (task_key tk) tk (ac_tasks s)"
proof -
  from outcomeD [OF create_task_rule assms] obtain th i a h q where th: "current_thresholds rt tenant_id s th"
    and tk: "activity_task rt (new_task inp i tenant_id a (th_revision th)
        (policy_reasons tenant_id th (ti_feedback_loop inp) (ti_risk_score inp) (ti_agent_confidence inp) s) h q) = Inr tk"
    and stored: "map_of (ac_tasks s) (task_key tk) = None" "ac_tasks t = AList.update (task_key tk) tk (ac_tasks s)"
    by (auto simp: create_outcome_def)
  from th stored activity_task_fields(1,2,3) [OF tk] show ?thesis
    by (intro exI [where x = th]) (simp add: policy_reasons_def not_le)
qed

theorem autonomous_tasks_satisfy_the_policy_witness:
  "\<exists>tk t. create_task sample_runtime sample_iso ''t'' ''c'' ''r'' sample_task NoTime empty_center = (Inr tk, t) \<and>
     ac_tasks t = [(task_key tk, tk)]"
proof -
  obtain tk t where run: "create_task sample_runtime sample_iso ''t'' ''c'' ''r'' sample_task NoTime empty_center = (Inr tk, t)"
    using sample_create not_isl_Inr by blast
  from autonomous_tasks_satisfy_the_policy [OF run] run show ?thesis by (auto simp: empty_center_def)
qed

section \<open>A center whose queue is full\<close>

definition strict_thresholds :: thresholds where
  "strict_thresholds =
     \<lparr>th_tenant_id = ''t'', th_revision = 1, th_max_autonomous_risk_score = Fin 1, th_min_agent_confidence = Fin 0,
      th_operational_queue_limit = 1, th_strategic_queue_limit = 1, th_adaptive_queue_limit = 1,
      th_updated_by = None, th_updated_at = 0, th_audit_hash = sample_digest, th_metadata = []\<rparr>"

definition waiting_task :: task where
  "waiting_task =
     \<lparr>ta_task_id = ''w'', ta_tenant_id = ''t'', ta_task_type = ''post'', ta_title = ''x'', ta_payload = [],
      ta_status = TASK_QUEUED, ta_assignee = ''a'', ta_created_by = ''c'', ta_agent_id = None, ta_risk_score = Fin 0,
      ta_agent_confidence = Fin 1, ta_feedback_loop = ADAPTIVE, ta_policy_decision = ALLOW, ta_policy_revision = 1,
      ta_policy_reasons = [], ta_due_at = 0, ta_audit_hash = sample_digest, ta_created_at = 0, ta_updated_at = 0\<rparr>"

definition full_center :: activity_state where
  "full_center =
     \<lparr>audit_sink = None, uuids = 0, bus = [], ac_thresholds = [(''t'', strict_thresholds)],
      ac_tasks = [((''t'', ''w''), waiting_task)]\<rparr>"

definition council_context :: tenant_context where
  "council_context =
     \<lparr>tc_tenant_id = ''t'', tc_subject = Some ''s'', tc_roles = [''council''], tc_correlation_id = Some ''r''\<rparr>"

definition raised_limit :: threshold_update where
  "raised_limit =
     \<lparr>tu_max_autonomous_risk_score = None, tu_min_agent_confidence = None, tu_operational_queue_limit = None,
      tu_strategic_queue_limit = None, tu_adaptive_queue_limit = Some 2, tu_metadata = []\<rparr>"

text \<open>C32. The thresholds of a tenant change only by a request of its own council: when a request leaves other
  thresholds in force than before, it is a \<open>PUT\<close> of thresholds in the context of that tenant with the
  council role, and the revision has grown by one.\<close>

theorem thresholds_change_only_by_the_council:
  assumes "current_thresholds rt tenant s th" and "current_thresholds rt tenant (activity_step rt iso_z k s) th'"
    and "th' \<noteq> th"
  shows "th_revision th' = th_revision th + 1 \<and>
    (\<exists>c up updated_at event_id. k = PutThresholds (Some c) up updated_at event_id \<and>
       ''council'' \<in> set (tc_roles c) \<and> tc_tenant_id c = tenant)"
proof -
  have same: False if "queue_grows rt tenant OPERATIONAL s (activity_step rt iso_z k s)"
    using that assms by (auto simp: queue_grows_def dest: current_thresholds_unique)
  then have "is_update k" using other_steps_grow by blast
  then obtain ctx up u e where k: "k = PutThresholds ctx up u e" by (cases k) auto
  let ?t = "snd (put_thresholds rt ctx up u e s)"
  have t: "activity_step rt iso_z k s = ?t" using k by simp
  from put_thresholds_rule [of rt ctx up u e s, THEN outcome_sndD]
  obtain c where ctx: "ctx = Some c" "''council'' \<in> set (tc_roles c)" and upd: "update_outcome rt (tc_tenant_id c) s ?t"
    using same queue_grows_eq unfolding t by blast
  have "thresholds_updated rt (tc_tenant_id c) s ?t"
    using upd same unfolding t by (auto simp: update_outcome_def queue_grows_def defaults_added_current active_task_count_cong [of ?t s])
  then have "tc_tenant_id c = tenant \<and> th_revision th' = th_revision th + 1"
    using thresholds_updated_current assms unfolding t by blast
  with k ctx show ?thesis by auto
qed

lemma raised_limit_run:
  "map_option th_adaptive_queue_limit (map_of (ac_thresholds (activity_step sample_runtime sample_iso
       (PutThresholds (Some council_context) raised_limit None None) full_center)) ''t'') = Some 2"
  by code_simp

theorem thresholds_change_only_by_the_council_witness:
  "\<exists>th'. current_thresholds sample_runtime ''t'' (activity_step sample_runtime sample_iso
       (PutThresholds (Some council_context) raised_limit None None) full_center) th' \<and> th_revision th' = 2"
proof -
  let ?t = "activity_step sample_runtime sample_iso (PutThresholds (Some council_context) raised_limit None None) full_center"
  obtain th' where th': "map_of (ac_thresholds ?t) ''t'' = Some th'" "th_adaptive_queue_limit th' = 2"
    using raised_limit_run by auto
  have cur: "current_thresholds sample_runtime ''t'' full_center strict_thresholds"
    by (simp add: current_thresholds_def full_center_def)
  have new: "current_thresholds sample_runtime ''t'' ?t th'" using th'(1) by (simp add: current_thresholds_def)
  have "th' \<noteq> strict_thresholds" using th'(2) by (auto simp: strict_thresholds_def)
  from thresholds_change_only_by_the_council [OF cur new this] new show ?thesis
    by (intro exI [where x = th']) (simp add: strict_thresholds_def)
qed

text \<open>Nothing leaves the queue: no operation completes or cancels a task. Once a feedback loop of a tenant
  holds as many active tasks as its limit allows, every later task of that loop is escalated, whatever
  tasks and queries of any tenant come in between, until the council changes the thresholds.\<close>

theorem full_queue_escalates_for_ever:
  assumes "current_thresholds rt (tc_tenant_id c) s th"
    and "queue_limit_for th (ti_feedback_loop inp) \<le> active_task_count (tc_tenant_id c) (ti_feedback_loop inp) s"
    and "list_all (\<lambda>k. \<not> is_update k) calls"
    and "post_task rt iso_z (Some c) inp created_at (activity_run rt iso_z calls s) = (Inr tk, t)"
  shows "ta_status tk = NEEDS_COUNCIL_REVIEW"
proof -
  let ?s = "activity_run rt iso_z calls s" and ?tenant = "tc_tenant_id c" and ?loop = "ti_feedback_loop inp"
  have grown: "queue_grows rt ?tenant ?loop s ?s" using activity_run_grows [OF assms(3)] .
  obtain a cid u where run: "create_task rt iso_z ?tenant a cid (trimmed_task_input rt inp)
      (case created_at of None \<Rightarrow> NoTime | Some t \<Rightarrow> AtTime t) u = (Inr tk, t)"
    and u: "ac_tasks u = ac_tasks ?s" "ac_thresholds u = ac_thresholds ?s"
    using assms(4)
    by (auto simp: post_task_def resolve_context_def bnd_Inr act_eval id_or_new_def new_id_def Let_def
        split: option.splits if_splits)
  have "queue_grows rt ?tenant ?loop s u" using grown queue_grows_eq [OF u] by (rule queue_grows_trans)
  then show ?thesis
    using assms(1,2) by (intro create_task_full [OF run]) (auto simp: queue_grows_def trimmed_task_input_def)
qed

lemma full_center_post:
  "\<not> isl (fst (post_task sample_runtime sample_iso (Some council_context) sample_task None
      (activity_run sample_runtime sample_iso [GetOverview (Some council_context)] full_center)))"
  by code_simp

theorem full_queue_escalates_for_ever_witness:
  "\<exists>tk t. post_task sample_runtime sample_iso (Some council_context) sample_task None
       (activity_run sample_runtime sample_iso [GetOverview (Some council_context)] full_center) = (Inr tk, t) \<and>
     ta_status tk = NEEDS_COUNCIL_REVIEW"
proof -
  obtain tk t where run: "post_task sample_runtime sample_iso (Some council_context) sample_task None
      (activity_run sample_runtime sample_iso [GetOverview (Some council_context)] full_center) = (Inr tk, t)"
    using full_center_post not_isl_Inr by blast
  have cur: "current_thresholds sample_runtime (tc_tenant_id council_context) full_center strict_thresholds"
    by (simp add: current_thresholds_def full_center_def council_context_def)
  have full: "queue_limit_for strict_thresholds (ti_feedback_loop sample_task)
      \<le> active_task_count (tc_tenant_id council_context) (ti_feedback_loop sample_task) full_center"
    by code_simp
  from full_queue_escalates_for_ever [OF cur full _ run] run show ?thesis by simp
qed

end
