(* ===== verification/Queries.thy ===== *)
theory Queries
  imports Encodings
begin

text \<open>
  Query strings as \<open>urllib.parse\<close> reads and writes them: \<open>parse_qsl\<close> with
  \<open>keep_blank_values=True\<close> and \<open>urlencode\<close>. A decoded name or value is held as its UTF-8 bytes,
  so that every code point a query can spell is covered; bytes that are no UTF-8 become the
  replacement character, as the decoder does with \<open>errors="replace"\<close>.
\<close>

section \<open>Decoding with replacement\<close>

text \<open>The number of continuation bytes after a first byte, and the range of the first of them.\<close>

definition utf8_lead :: "nat \<Rightarrow> (nat \<times> nat \<times> nat) option" where
  "utf8_lead n =
     (if 194 \<le> n \<and> n \<le> 223 then Some (1, 128, 191)
      else if n = 224 then Some (2, 160, 191)
      else if n = 237 then Some (2, 128, 159)
      else if 225 \<le> n \<and> n \<le> 239 then Some (2, 128, 191)
      else if n = 240 then Some (3, 144, 191)
      else if 241 \<le> n \<and> n \<le> 243 then Some (3, 128, 191)
      else if n = 244 then Some (3, 128, 143)
      else None)"

fun utf8_run :: "nat \<Rightarrow> nat \<Rightarrow> nat \<Rightarrow> string \<Rightarrow> nat" where
  "utf8_run 0 lo hi bs = 0"
| "utf8_run (Suc n) lo hi [] = 0"
| "utf8_run (Suc n) lo hi (b # bs) =
     (if lo \<le> byte b \<and> byte b \<le> hi then Suc (utf8_run n 128 191 bs) else 0)"

definition replacement_char :: string where
  "replacement_char = [CHR 0xEF, CHR 0xBF, CHR 0xBD]"

fun utf8_replace :: "string \<Rightarrow> string" where
  "utf8_replace [] = []"
| "utf8_replace (b # bs) =
     (if byte b < 128 then b # utf8_replace bs
      else case utf8_lead (byte b) of
        None \<Rightarrow> replacement_char @ utf8_replace bs
      | Some (n, lo, hi) \<Rightarrow>
          let k = utf8_run n lo hi bs in
          (if k = n then b # take n bs else replacement_char) @ utf8_replace (drop k bs))"

section \<open>Quoting\<close>

definition hex_value :: "char \<Rightarrow> nat option" where
  "hex_value c =
     (let n = byte c in
      if 48 \<le> n \<and> n \<le> 57 then Some (n - 48)
      else if 65 \<le> n \<and> n \<le> 70 then Some (n - 55)
      else if 97 \<le> n \<and> n \<le> 102 then Some (n - 87)
      else None)"

definition hex_pair :: "string \<Rightarrow> nat option" where
  "hex_pair s =
     (case s of
        a # b # _ \<Rightarrow> (case (hex_value a, hex_value b) of (Some x, Some y) \<Rightarrow> Some (16 * x + y) | _ \<Rightarrow> None)
      | _ \<Rightarrow> None)"

fun unquote_to_bytes :: "string \<Rightarrow> string" where
  "unquote_to_bytes [] = []"
| "unquote_to_bytes (c # s) =
     (if c = CHR 0x25 \<and> hex_pair s \<noteq> None then char_of (the (hex_pair s)) # unquote_to_bytes (drop 2 s)
      else utf8_char c @ unquote_to_bytes s)"

definition plus_to_space :: "string \<Rightarrow> string" where
  "plus_to_space = map (\<lambda>c. if c = CHR ''+'' then CHR '' '' else c)"

definition unquote_plus :: "string \<Rightarrow> string" where
  "unquote_plus s = utf8_replace (unquote_to_bytes (plus_to_space s))"

definition always_safe :: "char \<Rightarrow> bool" where
  "always_safe c \<longleftrightarrow> is_alnum c \<or> c \<in> set ''_.-~''"

definition upper_hex :: "nat \<Rightarrow> char" where
  "upper_hex n = (if n < 10 then char_of (48 + n) else char_of (55 + n))"

definition quote_byte :: "char \<Rightarrow> string" where
  "quote_byte c =
     (if always_safe c then [c] else if c = CHR '' '' then [CHR ''+'']
      else [CHR 0x25, upper_hex (byte c div 16), upper_hex (byte c mod 16)])"

definition quote_plus :: "string \<Rightarrow> string" where
  "quote_plus bs = concat (map quote_byte bs)"

section \<open>Query strings\<close>

definition parse_item :: "string \<Rightarrow> string \<times> string" where
  "parse_item s =
     (unquote_plus (takeWhile (\<lambda>c. c \<noteq> CHR ''='') s), unquote_plus (drop 1 (dropWhile (\<lambda>c. c \<noteq> CHR ''='') s)))"

definition parse_qsl :: "string \<Rightarrow> (string \<times> string) list" where
  "parse_qsl qs = map parse_item (filter (\<lambda>s. s \<noteq> []) (split_on (CHR ''&'') qs))"

definition encode_item :: "string \<times> string \<Rightarrow> string" where
  "encode_item kv = quote_plus (fst kv) @ ''='' @ quote_plus (snd kv)"

definition urlencode :: "(string \<times> string) list \<Rightarrow> string" where
  "urlencode kvs = join_with ''&'' (map encode_item kvs)"

section \<open>Reading back what was written\<close>

text \<open>What the decoder returns is well-formed: decoding it again changes nothing.\<close>

lemma utf8_run_take: "utf8_run n lo hi bs = n \<Longrightarrow> utf8_run n lo hi (take n bs @ ys) = n \<and> length (take n bs) = n"
  by (induction n lo hi bs rule: utf8_run.induct) (auto split: if_splits)

lemma utf8_replace_replacement [simp]: "utf8_replace (replacement_char @ ys) = replacement_char @ utf8_replace ys"
  by (simp add: replacement_char_def utf8_lead_def numeral_2_eq_2)

lemma utf8_replace_idem [simp]: "utf8_replace (utf8_replace bs) = utf8_replace bs"
proof (induction bs rule: utf8_replace.induct)
  case (2 b bs)
  show ?case
  proof (cases "byte b < 128 \<or> utf8_lead (byte b) = None")
    case True
    with 2 show ?thesis by (auto split: option.split)
  next
    case False
    then obtain n lo hi where lead: "\<not> byte b < 128" "utf8_lead (byte b) = Some (n, lo, hi)" by auto
    let ?k = "utf8_run n lo hi bs"
    have ih: "utf8_replace (utf8_replace (drop ?k bs)) = utf8_replace (drop ?k bs)"
      using 2(3) [OF lead refl refl refl] by simp
    show ?thesis
    proof (cases "?k = n")
      case True
      from utf8_run_take [OF True] have "utf8_run n lo hi (take n bs @ ys) = n" "length (take n bs) = n" for ys by simp_all
      with True lead ih show ?thesis by (simp del: length_take)
    next
      case False
      with lead ih show ?thesis by simp
    qed
  qed
qed simp

lemma utf8_replace_ascii: "list_all (\<lambda>c. byte c < 128) s \<Longrightarrow> utf8_replace s = s"
  by (induction s) auto

lemma hex_pair_upper:
  assumes "n < 256"
  shows "hex_pair (upper_hex (n div 16) # upper_hex (n mod 16) # s) = Some n"
proof -
  have "hex_value (upper_hex k) = Some k" if "k < 16" for k
    using that by (auto simp: hex_value_def upper_hex_def of_char_of Let_def)
  then show ?thesis using assms by (simp add: hex_pair_def)
qed

lemma byte_upper_hex: "k < 16 \<Longrightarrow> byte (upper_hex k) = (if k < 10 then 48 + k else 55 + k)"
  by (simp add: upper_hex_def of_char_of)

text \<open>What \<open>quote_plus\<close> writes.\<close>

definition query_char :: "char \<Rightarrow> bool" where
  "query_char c \<longleftrightarrow> always_safe c \<or> c = CHR ''+'' \<or> c = CHR 0x25"

lemma query_char_ascii: "query_char c \<Longrightarrow> byte c < 128"
  by (auto simp: query_char_def always_safe_def char_class_defs Let_def)

lemma query_char_no_sep:
  "query_char c \<Longrightarrow> c \<notin> {CHR ''&'', CHR ''='', CHR ''#'', CHR ''?'', CHR 0x09, CHR 0x0A, CHR 0x0D}"
  by (auto simp: query_char_def always_safe_def char_class_defs Let_def)

lemma upper_hex_alnum: "k < 16 \<Longrightarrow> is_alnum (upper_hex k)"
  by (auto simp: char_class_defs Let_def byte_upper_hex)

lemma quote_byte_chars: "list_all query_char (quote_byte c)"
  using upper_hex_alnum [of "byte c div 16"] upper_hex_alnum [of "byte c mod 16"] byte_bound [of c]
  by (auto simp: quote_byte_def query_char_def always_safe_def less_mult_imp_div_less)

lemma quote_plus_chars: "list_all query_char (quote_plus bs)"
  using quote_byte_chars by (induction bs) (auto simp: quote_plus_def)

lemma quote_plus_safe: "list_all always_safe s \<Longrightarrow> quote_plus s = s"
  by (induction s) (simp_all add: quote_plus_def quote_byte_def)

lemma alnum_not_plus: "is_alnum c \<Longrightarrow> c \<noteq> CHR ''+'' \<and> c \<noteq> CHR 0x25"
  by (auto simp: char_class_defs Let_def)

lemma safe_not_plus: "always_safe c \<Longrightarrow> c \<noteq> CHR ''+'' \<and> c \<noteq> CHR 0x25"
  by (auto simp: always_safe_def dest: alnum_not_plus)

lemma unquote_quote_byte:
  "unquote_to_bytes (plus_to_space (quote_byte c) @ s) = c # unquote_to_bytes s"
proof -
  let ?a = "upper_hex (byte c div 16)" and ?b = "upper_hex (byte c mod 16)"
  have hex: "is_alnum ?a" "is_alnum ?b"
    using upper_hex_alnum byte_bound [of c] by (simp_all add: less_mult_imp_div_less)
  consider "always_safe c" | "\<not> always_safe c" "c = CHR '' ''" | "\<not> always_safe c" "c \<noteq> CHR '' ''" by blast
  then show ?thesis
  proof cases
    case 1
    then have "byte c < 128" using query_char_ascii query_char_def by blast
    with 1 safe_not_plus [OF 1] show ?thesis
      by (simp add: quote_byte_def plus_to_space_def utf8_char_def)
  next
    case 2
    then show ?thesis by (simp add: quote_byte_def plus_to_space_def utf8_char_def)
  next
    case 3
    then have "plus_to_space (quote_byte c) = CHR 0x25 # ?a # ?b # []"
      using alnum_not_plus [OF hex(1)] alnum_not_plus [OF hex(2)] by (simp add: quote_byte_def plus_to_space_def)
    then show ?thesis using hex_pair_upper [of "byte c" s] by simp
  qed
qed

lemma plus_to_space_append: "plus_to_space (a @ b) = plus_to_space a @ plus_to_space b"
  by (simp add: plus_to_space_def)

lemma unquote_plus_quote_plus: "unquote_plus (quote_plus bs) = utf8_replace bs"
proof -
  have "unquote_to_bytes (plus_to_space (quote_plus bs)) = bs"
    by (induction bs) (simp_all add: quote_plus_def plus_to_space_append unquote_quote_byte, simp add: plus_to_space_def)
  then show ?thesis by (simp add: unquote_plus_def)
qed

lemma cut_at: "c \<notin> set a \<Longrightarrow> takeWhile (\<lambda>x. x \<noteq> c) (a @ c # b) = a \<and> dropWhile (\<lambda>x. x \<noteq> c) (a @ c # b) = c # b"
  by (induction a) auto

lemma parse_encode_item:
  "utf8_replace (fst kv) = fst kv \<Longrightarrow> utf8_replace (snd kv) = snd kv \<Longrightarrow> parse_item (encode_item kv) = kv"
proof -
  assume "utf8_replace (fst kv) = fst kv" "utf8_replace (snd kv) = snd kv"
  moreover have "CHR ''='' \<notin> set (quote_plus (fst kv))"
    using quote_plus_chars [of "fst kv"] query_char_no_sep by (auto simp: list_all_iff)
  ultimately show ?thesis
    by (simp add: parse_item_def encode_item_def cut_at unquote_plus_quote_plus)
qed

lemma encode_item_sep: "CHR ''&'' \<notin> set (encode_item kv)" "encode_item kv \<noteq> []"
  using quote_plus_chars [of "fst kv"] quote_plus_chars [of "snd kv"] query_char_no_sep
  by (auto simp: list_all_iff encode_item_def)

theorem parse_urlencode:
  assumes "\<And>kv. kv \<in> set kvs \<Longrightarrow> utf8_replace (fst kv) = fst kv \<and> utf8_replace (snd kv) = snd kv"
  shows "parse_qsl (urlencode kvs) = kvs"
proof (cases "kvs = []")
  case True
  then show ?thesis by (simp add: urlencode_def parse_qsl_def)
next
  case False
  then have "split_on (CHR ''&'') (urlencode kvs) = map encode_item kvs"
    unfolding urlencode_def using encode_item_sep by (intro split_on_join) auto
  moreover have "map parse_item (map encode_item kvs) = kvs"
    using assms parse_encode_item by (simp add: map_idI)
  ultimately show ?thesis using encode_item_sep(2) by (simp add: parse_qsl_def filter_True)
qed

lemma parse_qsl_decoded: "kv \<in> set (parse_qsl q) \<Longrightarrow> utf8_replace (fst kv) = fst kv \<and> utf8_replace (snd kv) = snd kv"
  by (auto simp: parse_qsl_def parse_item_def unquote_plus_def)

lemma urlencode_chars: "c \<in> set (urlencode kvs) \<Longrightarrow> query_char c \<or> c = CHR ''&'' \<or> c = CHR ''=''"
proof (induction kvs rule: induct_list012)
  case (2 kv)
  then show ?case
    using quote_plus_chars [of "fst kv"] quote_plus_chars [of "snd kv"]
    by (auto simp: urlencode_def encode_item_def list_all_iff)
next
  case (3 kv kw kvs)
  then show ?case
    using quote_plus_chars [of "fst kv"] quote_plus_chars [of "snd kv"]
    by (auto simp: urlencode_def encode_item_def list_all_iff)
qed (simp add: urlencode_def)

end
