(* ===== verification/Links.thy ===== *)
theory Links
  imports Queries Urls FloatArith "HOL-Library.Product_Lexorder"
begin

text \<open>
  \<open>cglr/link_rotator.py\<close>: the three referral links of a piece of content. The third goes to a
  partner drawn in proportion to the contribution weights, by the digest of a seed; every link carries
  tracking parameters in its query; a tracker counts the clicks.
\<close>

section \<open>The models\<close>

datatype referral_level = L1 | L2 | L3

fun referral_level_value :: "referral_level \<Rightarrow> string" where
  "referral_level_value L1 = ''L1''"
| "referral_level_value L2 = ''L2''"
| "referral_level_value L3 = ''L3''"

text \<open>\<open>REFERRAL_REWARD_RATES\<close>: the floats 0.20, 0.10 and 0.05.\<close>

fun reward_rate :: "referral_level \<Rightarrow> pyfloat" where
  "reward_rate L1 = Fin (3602879701896397 / 18014398509481984)"
| "reward_rate L2 = Fin (3602879701896397 / 36028797018963968)"
| "reward_rate L3 = Fin (3602879701896397 / 72057594037927936)"

fun nonneg_finite :: "pyfloat \<Rightarrow> bool" where
  "nonneg_finite (Fin a) = (0 \<le> a)"
| "nonneg_finite _ = False"

record link_target =
  lt_owner_id :: string
  lt_url :: string
  lt_weight :: pyfloat

definition http_url :: "(string \<Rightarrow> bool) \<Rightarrow> string \<Rightarrow> bool" where
  "http_url bracketed url =
     (case urlsplit bracketed url of
        Inl _ \<Rightarrow> False
      | Inr p \<Rightarrow> up_scheme p \<in> {''http'', ''https''} \<and> up_netloc p \<noteq> [])"

definition referral_link_target :: "(string \<Rightarrow> bool) \<Rightarrow> string \<Rightarrow> string \<Rightarrow> pyfloat \<Rightarrow> exn + link_target" where
  "referral_link_target bracketed owner_id url weight =
     model ''ReferralLinkTarget''
       (token_ok (pyd_strip owner_id) \<and> length_between 1 2048 (pyd_strip url) \<and>
        http_url bracketed (pyd_strip url) \<and> nonneg_finite weight)
       \<lparr>lt_owner_id = pyd_strip owner_id, lt_url = pyd_strip url, lt_weight = weight\<rparr>"

record route_request =
  rq_tenant_id :: string
  rq_content_id :: string
  rq_admin_link :: link_target
  rq_author_link :: link_target
  rq_l3_candidates :: "link_target list"
  rq_rotation_seed :: "string option"
  rq_l3_min_weight :: pyfloat

text \<open>The targets are models that were built before.\<close>

definition link_route_request :: "route_request \<Rightarrow> exn + route_request" where
  "link_route_request q =
     model ''LinkRouteRequest''
       (tenant_id_ok (pyd_strip (rq_tenant_id q)) \<and> token_ok (pyd_strip (rq_content_id q)) \<and>
        optional_ok (length_between 1 128) (map_option pyd_strip (rq_rotation_seed q)) \<and>
        nonneg_finite (rq_l3_min_weight q))
       (q\<lparr>rq_tenant_id := pyd_strip (rq_tenant_id q), rq_content_id := pyd_strip (rq_content_id q),
          rq_rotation_seed := map_option pyd_strip (rq_rotation_seed q)\<rparr>)"

record referral_link =
  rl_tenant_id :: string
  rl_content_id :: string
  rl_route_id :: string
  rl_level :: referral_level
  rl_owner_id :: string
  rl_url :: string
  rl_reward_share :: pyfloat
  rl_weight :: pyfloat
  rl_rotation_seed :: "string option"

definition referral_link :: "referral_link \<Rightarrow> exn + referral_link" where
  "referral_link l =
     model ''ReferralLink''
       (tenant_id_ok (pyd_strip (rl_tenant_id l)) \<and> token_ok (pyd_strip (rl_content_id l)) \<and>
        token_ok (pyd_strip (rl_route_id l)) \<and> token_ok (pyd_strip (rl_owner_id l)) \<and>
        length_between 1 2048 (pyd_strip (rl_url l)) \<and> finite_between 0 1 (rl_reward_share l) \<and>
        nonneg_finite (rl_weight l))
       (l\<lparr>rl_tenant_id := pyd_strip (rl_tenant_id l), rl_content_id := pyd_strip (rl_content_id l),
          rl_route_id := pyd_strip (rl_route_id l), rl_owner_id := pyd_strip (rl_owner_id l),
          rl_url := pyd_strip (rl_url l), rl_rotation_seed := map_option pyd_strip (rl_rotation_seed l)\<rparr>)"

record route_result =
  rr_tenant :: string
  rr_content :: string
  rr_min_weight :: pyfloat
  rr_links :: "referral_link list"

definition reward_distribution :: "route_result \<Rightarrow> (string \<times> string \<times> pyfloat) list" where
  "reward_distribution r =
     map (\<lambda>l. (referral_level_value (rl_level l), rl_owner_id l, rl_reward_share l)) (rr_links r)"

section \<open>The choice of a partner\<close>

text \<open>\<open>round(weight * WEIGHT_SCALE)\<close>; the rounding of an infinite product raises.\<close>

definition scale_weight :: "pyfloat \<Rightarrow> exn + nat" where
  "scale_weight w =
     (case float_mul w (Fin 1000) of
        Fin r \<Rightarrow>
          (let scaled = round_half_even r in
           if scaled \<le> 0 then Inl (LinkRotationError ''weight'') else Inr (nat scaled))
      | NaN \<Rightarrow> Inl (ValueError ''NaN'')
      | _ \<Rightarrow> Inl (ExternalError ''OverflowError''))"

fun scale_weights :: "link_target list \<Rightarrow> exn + nat list" where
  "scale_weights [] = Inr []"
| "scale_weights (c # cs) =
     ebind (scale_weight (lt_weight c)) (\<lambda>w. ebind (scale_weights cs) (\<lambda>ws. Inr (w # ws)))"

text \<open>\<open>int.from_bytes(digest[:16], "big")\<close>: the first 32 hexadecimal digits of the digest.\<close>

fun hex_number :: "nat \<Rightarrow> string \<Rightarrow> nat" where
  "hex_number acc [] = acc"
| "hex_number acc (c # cs) = hex_number (16 * acc + (case hex_value c of None \<Rightarrow> 0 | Some v \<Rightarrow> v)) cs"

definition seed_offset :: "runtime \<Rightarrow> string \<Rightarrow> nat \<Rightarrow> exn + nat" where
  "seed_offset rt seed total_weight =
     (if total_weight = 0 then Inl (LinkRotationError ''total weight'')
      else Inr (hex_number 0 (take 32 (rt_sha256 rt seed)) mod total_weight))"

text \<open>The loop over the candidates; \<open>fallback\<close> is returned when it ends without a choice.\<close>

fun walk_weights :: "nat \<Rightarrow> nat \<Rightarrow> 'a \<Rightarrow> ('a \<times> nat) list \<Rightarrow> 'a" where
  "walk_weights cumulative offset fallback [] = fallback"
| "walk_weights cumulative offset fallback ((c, w) # cs) =
     (if offset < cumulative + w then c else walk_weights (cumulative + w) offset fallback cs)"

definition eligible_candidates :: "pyfloat \<Rightarrow> link_target list \<Rightarrow> link_target list" where
  "eligible_candidates min_weight candidates =
     sort_key (\<lambda>c. (lt_owner_id c, lt_url c)) (filter (\<lambda>c. float_le min_weight (lt_weight c)) candidates)"

definition select_l3_partner :: "runtime \<Rightarrow> link_target list \<Rightarrow> string \<Rightarrow> pyfloat \<Rightarrow> exn + link_target" where
  "select_l3_partner rt candidates seed min_weight =
     (let eligible = eligible_candidates min_weight candidates in
      if eligible = [] then Inl (LinkRotationError ''no candidate'')
      else
        ebind (scale_weights eligible) (\<lambda>weights.
        ebind (seed_offset rt seed (sum_list weights)) (\<lambda>offset.
        Inr (walk_weights 0 offset (last eligible) (zip eligible weights)))))"

section \<open>The links\<close>

text \<open>The members in the order in which \<open>sort_keys=True\<close> writes them.\<close>

definition route_id :: "runtime \<Rightarrow> string \<Rightarrow> string \<Rightarrow> referral_level \<Rightarrow> link_target \<Rightarrow> string" where
  "route_id rt tenant_id content_id level target =
     take 32 (rt_sha256 rt
       (''{'' @ join_with '',''
          (map (\<lambda>(k, v). json_quote k @ '':'' @ json_quote v)
            [(''content_id'', content_id), (''level'', referral_level_value level), (''owner_id'', lt_owner_id target),
             (''tenant_id'', tenant_id), (''url'', lt_url target)]) @ ''}''))"

definition append_tracking_params :: "(string \<Rightarrow> bool) \<Rightarrow> string \<Rightarrow> (string \<times> string) list \<Rightarrow> exn + string" where
  "append_tracking_params bracketed url params =
     ebind (urlsplit bracketed url) (\<lambda>parts.
     let existing = filter (\<lambda>item. fst item \<notin> set (map fst params)) (parse_qsl (up_query parts)) in
     Inr (urlunsplit (parts\<lparr>up_query := urlencode (existing @ params)\<rparr>)))"

definition tracking_params :: "string \<Rightarrow> string \<Rightarrow> string \<Rightarrow> referral_level \<Rightarrow> string \<Rightarrow> (string \<times> string) list" where
  "tracking_params route tenant_id content_id level owner_id =
     [(''nmc_route_id'', route), (''nmc_tenant_id'', tenant_id), (''nmc_content_id'', content_id),
      (''nmc_level'', referral_level_value level), (''nmc_owner_id'', owner_id)]"

definition build_referral_link ::
    "runtime \<Rightarrow> (string \<Rightarrow> bool) \<Rightarrow> route_request \<Rightarrow> referral_level \<Rightarrow> link_target \<Rightarrow> string option
     \<Rightarrow> exn + referral_link" where
  "build_referral_link rt bracketed req level target rotation_seed =
     (let route = route_id rt (rq_tenant_id req) (rq_content_id req) level target in
      ebind (append_tracking_params bracketed (lt_url target)
               (tracking_params route (rq_tenant_id req) (rq_content_id req) level (lt_owner_id target))) (\<lambda>url.
      referral_link
        \<lparr>rl_tenant_id = rq_tenant_id req, rl_content_id = rq_content_id req, rl_route_id = route,
         rl_level = level, rl_owner_id = lt_owner_id target, rl_url = url, rl_reward_share = reward_rate level,
         rl_weight = lt_weight target, rl_rotation_seed = rotation_seed\<rparr>))"

definition resolve_rotation_seed :: "route_request \<Rightarrow> string" where
  "resolve_rotation_seed req =
     (case rq_rotation_seed req of
        Some s \<Rightarrow> s
      | None \<Rightarrow> rq_tenant_id req @ '':'' @ rq_content_id req @ '':L3'')"

definition generate_referral_links :: "runtime \<Rightarrow> (string \<Rightarrow> bool) \<Rightarrow> route_request \<Rightarrow> exn + route_result" where
  "generate_referral_links rt bracketed req =
     (let seed = resolve_rotation_seed req in
      ebind (select_l3_partner rt (rq_l3_candidates req) seed (rq_l3_min_weight req)) (\<lambda>partner.
      ebind (build_referral_link rt bracketed req L1 (rq_admin_link req) None) (\<lambda>l1.
      ebind (build_referral_link rt bracketed req L2 (rq_author_link req) None) (\<lambda>l2.
      ebind (build_referral_link rt bracketed req L3 partner (Some seed)) (\<lambda>l3.
      Inr \<lparr>rr_tenant = rq_tenant_id req, rr_content = rq_content_id req,
           rr_min_weight = rq_l3_min_weight req, rr_links = [l1, l2, l3]\<rparr>)))))"

section \<open>Clicks\<close>

record click_stats =
  ck_tenant_id :: string
  ck_content_id :: string
  ck_route_id :: string
  ck_level :: referral_level
  ck_owner_id :: string
  ck_reward_share :: pyfloat
  ck_click_count :: nat

record click_tracker =
  ct_click_counts :: "(string \<times> string, nat) dict"
  ct_links_by_route :: "(string \<times> string, referral_link) dict"

definition link_key :: "referral_link \<Rightarrow> string \<times> string" where
  "link_key l = (rl_tenant_id l, rl_route_id l)"

definition click_count :: "click_tracker \<Rightarrow> string \<times> string \<Rightarrow> nat" where
  "click_count s k = (case map_of (ct_click_counts s) k of None \<Rightarrow> 0 | Some n \<Rightarrow> n)"

definition stats_for_link :: "referral_link \<Rightarrow> click_tracker \<Rightarrow> click_stats" where
  "stats_for_link l s =
     \<lparr>ck_tenant_id = rl_tenant_id l, ck_content_id = rl_content_id l, ck_route_id = rl_route_id l,
      ck_level = rl_level l, ck_owner_id = rl_owner_id l, ck_reward_share = rl_reward_share l,
      ck_click_count = click_count s (link_key l)\<rparr>"

text \<open>A link is a validated model, so its statistics are one.\<close>

definition record_click :: "referral_link \<Rightarrow> (click_tracker, click_stats) act" where
  "record_click l =
     bnd (modify (\<lambda>s. s\<lparr>ct_links_by_route := AList.update (link_key l) l (ct_links_by_route s)\<rparr>)) (\<lambda>_.
     bnd (modify (\<lambda>s. s\<lparr>ct_click_counts :=
            AList.update (link_key l) (click_count s (link_key l) + 1) (ct_click_counts s)\<rparr>)) (\<lambda>_.
     gets (stats_for_link l)))"

definition stats_for_tenant :: "string \<Rightarrow> click_tracker \<Rightarrow> click_stats list" where
  "stats_for_tenant tenant_id s =
     sort_key ck_route_id
       (map (\<lambda>(k, l). stats_for_link l s) (filter (\<lambda>(k, l). fst k = tenant_id) (ct_links_by_route s)))"

fun add_level_clicks ::
    "string \<Rightarrow> (string \<times> string, referral_link) dict \<Rightarrow> (string \<times> string, nat) dict \<Rightarrow> (referral_level, nat) dict
     \<Rightarrow> exn + (referral_level, nat) dict" where
  "add_level_clicks tenant_id links [] totals = Inr totals"
| "add_level_clicks tenant_id links ((k, n) # counts) totals =
     (if fst k \<noteq> tenant_id then add_level_clicks tenant_id links counts totals
      else case map_of links k of
        None \<Rightarrow> Inl (ExternalError ''KeyError'')
      | Some l \<Rightarrow>
          add_level_clicks tenant_id links counts
            (AList.update (rl_level l) (the (map_of totals (rl_level l)) + n) totals))"

definition total_clicks_by_level :: "string \<Rightarrow> click_tracker \<Rightarrow> exn + (referral_level, nat) dict" where
  "total_clicks_by_level tenant_id s =
     add_level_clicks tenant_id (ct_links_by_route s) (ct_click_counts s) [(L1, 0), (L2, 0), (L3, 0)]"

section \<open>The draw\<close>

lemma walk_in:
  "cumulative \<le> offset \<Longrightarrow> offset < cumulative + sum_list (map snd xs) \<Longrightarrow> walk_weights cumulative offset fallback xs \<in> fst ` set xs"
  by (induction xs arbitrary: cumulative) (auto simp: add.assoc)

text \<open>Each candidate is drawn for as many offsets as it has weight.\<close>

lemma card_draws:
  "card {n. cumulative \<le> n \<and> n < cumulative + sum_list (map snd xs) \<and> walk_weights cumulative n fallback xs = c} =
     sum_list (map snd (filter (\<lambda>x. fst x = c) xs))"
proof (induction xs arbitrary: cumulative)
  case (Cons x xs)
  obtain d w where x: "x = (d, w)" by (cases x)
  let ?here = "{n. cumulative \<le> n \<and> n < cumulative + w \<and> d = c}"
  let ?rest = "{n. cumulative + w \<le> n \<and> n < cumulative + w + sum_list (map snd xs) \<and>
    walk_weights (cumulative + w) n fallback xs = c}"
  have split: "{n. cumulative \<le> n \<and> n < cumulative + sum_list (map snd (x # xs)) \<and>
      walk_weights cumulative n fallback (x # xs) = c} = ?here \<union> ?rest"
    by (auto simp: x)
  have "finite ?here" "finite ?rest" by (auto intro: finite_subset [of _ "{..< cumulative + w + sum_list (map snd xs)}"])
  then have "card (?here \<union> ?rest) = card ?here + card ?rest" by (rule card_Un_disjoint) auto
  moreover have "card ?here = (if d = c then w else 0)"
  proof -
    have "?here = (if d = c then {cumulative ..< cumulative + w} else {})" by auto
    then show ?thesis by simp
  qed
  ultimately show ?case using split Cons.IH [of "cumulative + w"] by (simp add: x)
qed simp

lemma scale_weight_pos: "scale_weight w = Inr n \<Longrightarrow> 0 < n"
  by (auto simp: scale_weight_def Let_def split: pyfloat.splits if_splits)

lemma scale_weights_iff:
  "scale_weights cs = Inr ws \<longleftrightarrow> list_all2 (\<lambda>c w. scale_weight (lt_weight c) = Inr w) cs ws"
  by (induction cs arbitrary: ws) (auto simp: list_all2_Cons1)

lemma scale_weights_length: "scale_weights cs = Inr ws \<Longrightarrow> length ws = length cs"
  by (simp add: scale_weights_iff list_all2_lengthD)

lemma scale_weights_fails: "(\<exists>ws. scale_weights cs = Inr ws) \<longleftrightarrow> (\<forall>c\<in>set cs. \<exists>w. scale_weight (lt_weight c) = Inr w)"
  by (induction cs) auto

lemma scale_weights_pos: "scale_weights cs = Inr ws \<Longrightarrow> cs \<noteq> [] \<Longrightarrow> 0 < sum_list ws"
  by (cases cs) (auto dest: scale_weight_pos)

lemma set_eligible [simp]: "set (eligible_candidates m cs) = {c \<in> set cs. float_le m (lt_weight c)}"
  by (auto simp: eligible_candidates_def)

lemma seed_offset_less: "seed_offset rt seed t = Inr k \<Longrightarrow> k < t"
  by (auto simp: seed_offset_def split: if_splits)

lemma select_l3_partner_Inr:
  assumes "select_l3_partner rt cs seed m = Inr c"
  obtains ws k where "scale_weights (eligible_candidates m cs) = Inr ws" and "k < sum_list ws"
    and "seed_offset rt seed (sum_list ws) = Inr k"
    and "c = walk_weights 0 k (last (eligible_candidates m cs)) (zip (eligible_candidates m cs) ws)"
proof -
  from assms obtain ws k where "scale_weights (eligible_candidates m cs) = Inr ws"
    and k: "seed_offset rt seed (sum_list ws) = Inr k"
    and "c = walk_weights 0 k (last (eligible_candidates m cs)) (zip (eligible_candidates m cs) ws)"
    by (auto simp: select_l3_partner_def Let_def split: if_splits)
  moreover from k have "k < sum_list ws" by (rule seed_offset_less)
  ultimately show ?thesis using that by blast
qed

lemma zip_weights: "length ws = length cs \<Longrightarrow> map snd (zip cs ws) = ws"
  by simp

lemma select_l3_partner_member:
  assumes "select_l3_partner rt cs seed m = Inr c"
  shows "c \<in> set cs" and "float_le m (lt_weight c)"
proof -
  let ?el = "eligible_candidates m cs"
  from assms obtain ws k where ws: "scale_weights ?el = Inr ws" and k: "k < sum_list ws"
    and c: "c = walk_weights 0 k (last ?el) (zip ?el ws)"
    by (rule select_l3_partner_Inr)
  have "c \<in> fst ` set (zip ?el ws)"
    unfolding c using k scale_weights_length [OF ws] by (intro walk_in) simp_all
  then have "c \<in> set ?el" by (auto dest: set_zip_leftD)
  then show "c \<in> set cs" and "float_le m (lt_weight c)" by simp_all
qed

lemma eligible_permuted:
  assumes "mset cs = mset ds" and "inj_on (\<lambda>c. (lt_owner_id c, lt_url c)) (set cs)"
  shows "eligible_candidates m cs = eligible_candidates m ds"
proof -
  let ?f = "\<lambda>c. (lt_owner_id c, lt_url c)" and ?P = "\<lambda>c. float_le m (lt_weight c)"
  have "mset (filter ?P cs) = mset (sort_key ?f (filter ?P ds))" using assms(1) by simp
  moreover have "inj_on ?f (set (filter ?P cs))" using assms(2) by (rule inj_on_subset) auto
  ultimately show ?thesis unfolding eligible_candidates_def by (rule sort_key_inj_key_eq) simp
qed

text \<open>The choice succeeds exactly when there is an eligible candidate and all their weights can be scaled.\<close>

lemma select_l3_partner_iff:
  "(\<exists>c. select_l3_partner rt cs seed m = Inr c) \<longleftrightarrow>
     (\<exists>c\<in>set cs. float_le m (lt_weight c)) \<and>
     (\<forall>c\<in>set cs. float_le m (lt_weight c) \<longrightarrow> (\<exists>w. scale_weight (lt_weight c) = Inr w))"
proof -
  let ?el = "eligible_candidates m cs"
  have nonempty: "?el \<noteq> [] \<longleftrightarrow> (\<exists>c\<in>set cs. float_le m (lt_weight c))"
    using set_eligible [of m cs] by (metis (mono_tags, lifting) empty_Collect_eq set_empty)
  have offset: "\<exists>k. seed_offset rt seed (sum_list ws) = Inr k" if "scale_weights ?el = Inr ws" "?el \<noteq> []" for ws
    using scale_weights_pos [OF that] unfolding seed_offset_def by (metis less_irrefl)
  have "(\<exists>c. select_l3_partner rt cs seed m = Inr c) \<longleftrightarrow> ?el \<noteq> [] \<and> (\<exists>ws. scale_weights ?el = Inr ws)"
    using offset by (fastforce simp: select_l3_partner_def Let_def split: if_splits)
  then show ?thesis unfolding nonempty scale_weights_fails by auto
qed

lemma scale_small_weight:
  assumes "0 < i" and "i \<le> 9007199254740"
  shows "scale_weight (Fin (of_int i)) = Inr (nat (1000 * i))"
proof -
  have "float_of_int (1000 * i) = Inr (Fin (of_int (1000 * i)))" using assms by (intro float_of_int_exact) simp_all
  then have "fl (of_int (1000 * i)) = Fin (of_int (1000 * i))" by (auto simp: float_of_int_def split: pyfloat.splits)
  moreover have "round_half_even (rat_of_int i * 1000) = i * 1000"
    using round_half_even_int [of "i * 1000"] by simp
  ultimately show ?thesis using assms by (simp add: scale_weight_def mult.commute)
qed

section \<open>The URL of a link\<close>

lemma lower_scheme_char: "scheme_char c \<Longrightarrow> scheme_char (lower_char c) \<and> lower_char (lower_char c) = lower_char c"
  by (auto simp: scheme_char_def char_class_defs lower_char_def Let_def of_char_of)

lemma scheme_char_plain: "scheme_char c \<Longrightarrow> 32 < byte c \<and> c \<notin> {CHR '':'', CHR 0x09, CHR 0x0A, CHR 0x0D}"
  by (auto simp: scheme_char_def char_class_defs Let_def)

lemma lower_alpha: "is_lower c \<or> is_upper c \<Longrightarrow> is_lower (lower_char c)"
  by (auto simp: char_class_defs lower_char_def Let_def of_char_of)

text \<open>The parts into which \<open>urlsplit\<close> cuts a URL with a scheme and a network location.\<close>

definition parts_ok :: "(string \<Rightarrow> bool) \<Rightarrow> url_parts \<Rightarrow> bool" where
  "parts_ok bracketed p \<longleftrightarrow>
     up_scheme p \<noteq> [] \<and> is_lower (hd (up_scheme p)) \<and> list_all scheme_char (up_scheme p) \<and>
     py_lower (up_scheme p) = up_scheme p \<and>
     up_netloc p \<noteq> [] \<and> list_all (\<lambda>c. c \<notin> set ''/?#'') (up_netloc p) \<and>
     (CHR ''['' \<in> set (up_netloc p)) = (CHR '']'' \<in> set (up_netloc p)) \<and>
     (CHR ''['' \<in> set (up_netloc p) \<longrightarrow> bracketed (up_netloc p)) \<and>
     (up_path p = [] \<or> hd (up_path p) = CHR ''/'') \<and> CHR ''?'' \<notin> set (up_path p) \<and>
     CHR ''#'' \<notin> set (up_path p) \<and> CHR ''#'' \<notin> set (up_query p) \<and>
     list_all (\<lambda>c. c \<notin> {CHR 0x09, CHR 0x0A, CHR 0x0D})
       (up_netloc p @ up_path p @ up_query p @ up_fragment p)"

lemma partition_at_cases:
  obtains "c \<notin> set s" "partition_at c s = (s, False, [])"
  | a b where "s = a @ c # b" "c \<notin> set a" "partition_at c s = (a, True, b)"
proof (cases "c \<in> set s")
  case True
  then obtain a b where "s = a @ c # b" "c \<notin> set a" by (meson split_list_first)
  then show ?thesis using that(2) partition_at_append by blast
next
  case False
  then show ?thesis using that(1) partition_at_absent by blast
qed

lemma span_append:
  "list_all P a \<Longrightarrow> t = [] \<or> \<not> P (hd t) \<Longrightarrow> takeWhile P (a @ t) = a \<and> dropWhile P (a @ t) = t"
  by (induction a) (cases t; auto)+

lemma urlsplit_unsplit:
  assumes "parts_ok bracketed p"
  shows "urlsplit bracketed (urlunsplit p) = Inr p"
proof -
  let ?q = "if up_query p \<noteq> [] then ''?'' @ up_query p else []"
  let ?f = "if up_fragment p \<noteq> [] then ''#'' @ up_fragment p else []"
  let ?tail = "up_path p @ ?q @ ?f"
  have url: "urlunsplit p = up_scheme p @ CHR '':'' # ''//'' @ up_netloc p @ ?tail"
    using assms by (cases "up_path p") (auto simp: urlunsplit_def parts_ok_def Let_def)
  have tabs: "list_all (\<lambda>c. c \<notin> {CHR 0x09, CHR 0x0A, CHR 0x0D}) (urlunsplit p)"
    using assms scheme_char_plain unfolding url parts_ok_def by (auto simp: list_all_iff)
  obtain a w where a: "up_scheme p = a # w" "scheme_char a"
    using assms by (cases "up_scheme p") (auto simp: parts_ok_def)
  have "dropWhile (\<lambda>c. byte c \<le> 32) (urlunsplit p) = urlunsplit p"
    using scheme_char_plain [OF a(2)] unfolding url a(1) by simp
  then have clean: "clean_url (urlunsplit p) = urlunsplit p"
    using tabs by (simp add: clean_url_def list_all_iff filter_True)
  have colon: "CHR '':'' \<notin> set (up_scheme p)"
    using assms scheme_char_plain by (auto simp: parts_ok_def list_all_iff)
  have scheme: "split_scheme (urlunsplit p) = (up_scheme p, ''//'' @ up_netloc p @ ?tail)"
    using assms by (simp add: url split_scheme_def partition_at_append [OF colon] parts_ok_def)
  have start: "?tail = [] \<or> hd ?tail \<in> set ''/?#''"
    using assms by (cases "up_path p") (auto simp: parts_ok_def)
  have netloc: "split_netloc (''//'' @ up_netloc p @ ?tail) = (up_netloc p, ?tail)"
    using assms span_append [of "\<lambda>c. c \<notin> set ''/?#''" "up_netloc p" ?tail] start
    by (simp add: split_netloc_def parts_ok_def del: list.set hd_append)
  have no_hash: "CHR ''#'' \<notin> set (up_path p @ ?q)" and no_mark: "CHR ''?'' \<notin> set (up_path p)"
    using assms unfolding parts_ok_def by (cases "up_query p = []"; simp)+
  have fragment: "partition_at (CHR ''#'') ?tail = (up_path p @ ?q, up_fragment p \<noteq> [], up_fragment p)"
    using partition_at_append [OF no_hash, of "up_fragment p"] partition_at_absent [OF no_hash]
    by (cases "up_fragment p = []") (simp_all del: set_append)
  have query: "partition_at (CHR ''?'') (up_path p @ ?q) = (up_path p, up_query p \<noteq> [], up_query p)"
    using partition_at_append [OF no_mark, of "up_query p"] partition_at_absent [OF no_mark]
    by (cases "up_query p = []") simp_all
  show ?thesis
    using assms unfolding urlsplit_def clean scheme prod.case netloc fragment query
    by (auto simp: parts_ok_def)
qed

lemma clean_url_chars: "list_all (\<lambda>c. c \<notin> {CHR 0x09, CHR 0x0A, CHR 0x0D}) (clean_url url)"
  by (simp add: clean_url_def list_all_iff)

lemma list_all_pieces: "list_all P s \<Longrightarrow> s = a @ b \<Longrightarrow> list_all P a \<and> list_all P b"
  by simp

text \<open>What the steps of \<open>urlsplit\<close> found.\<close>

lemma urlsplit_steps:
  assumes "urlsplit bracketed url = Inr p"
  obtains rest tail before where "split_scheme (clean_url url) = (up_scheme p, rest)"
    and "split_netloc rest = (up_netloc p, tail)"
    and "(CHR ''['' \<in> set (up_netloc p)) = (CHR '']'' \<in> set (up_netloc p))"
    and "CHR ''['' \<in> set (up_netloc p) \<longrightarrow> bracketed (up_netloc p)"
    and "\<exists>f. partition_at (CHR ''#'') tail = (before, f, up_fragment p)"
    and "\<exists>f. partition_at (CHR ''?'') before = (up_path p, f, up_query p)"
  using assms by (auto simp: urlsplit_def split: prod.splits if_splits)

lemma partition_at_parts:
  assumes "partition_at c s = (a, f, b)"
  shows "c \<notin> set a" and "s = (if f then a @ c # b else a)" and "\<not> f \<Longrightarrow> b = []"
  using partition_at_Some [of c s a b] partition_at_None [of c s a b] assms by (cases f; simp)+

lemma split_scheme_parts:
  assumes "split_scheme s = (scheme, rest)" and "scheme \<noteq> []"
  obtains a where "s = a @ CHR '':'' # rest" and "scheme = py_lower a" and "is_lower (hd scheme)"
    and "list_all scheme_char scheme" and "py_lower scheme = scheme"
proof -
  obtain a f b where part: "partition_at (CHR '':'') s = (a, f, b)" by (cases "partition_at (CHR '':'') s") auto
  with assms have a: "f" "a \<noteq> []" "is_lower (hd a) \<or> is_upper (hd a)" "list_all scheme_char a" "scheme = py_lower a" "rest = b"
    by (auto simp: split_scheme_def split: if_splits)
  have "is_lower (hd scheme)" using a(2,3,5) lower_alpha by (cases a) (auto simp: py_lower_def)
  moreover have "list_all scheme_char scheme" "py_lower scheme = scheme"
    using a(4,5) lower_scheme_char by (auto simp: py_lower_def list_all_iff)
  ultimately show ?thesis using that [of a] partition_at_parts(2) [OF part] a by simp
qed

lemma split_netloc_parts:
  assumes "split_netloc rest = (netloc, tail)" and "netloc \<noteq> []"
  shows "rest = ''//'' @ netloc @ tail" and "list_all (\<lambda>c. c \<notin> set ''/?#'') netloc"
    and "tail = [] \<or> hd tail \<in> set ''/?#''"
proof -
  let ?P = "\<lambda>c. c \<notin> set ''/?#''"
  have two: "take 2 rest = ''//''" and n: "netloc = takeWhile ?P (drop 2 rest)" and t: "tail = dropWhile ?P (drop 2 rest)"
    using assms by (auto simp: split_netloc_def split: if_splits)
  have "rest = take 2 rest @ drop 2 rest" by simp
  then show "rest = ''//'' @ netloc @ tail" unfolding two n t by simp
  show "list_all ?P netloc" unfolding n by (auto simp: list_all_iff dest: set_takeWhileD)
  show "tail = [] \<or> hd tail \<in> set ''/?#''" unfolding t using hd_dropWhile [of ?P] by blast
qed

lemma urlsplit_parts_ok:
  assumes "urlsplit bracketed url = Inr p" and "up_scheme p \<noteq> []" and "up_netloc p \<noteq> []"
  shows "parts_ok bracketed p"
    and "\<exists>a. clean_url url = a @ up_fragment p"
proof -
  from urlsplit_steps [OF assms(1)] obtain rest tail before f g where
    sch: "split_scheme (clean_url url) = (up_scheme p, rest)" and net: "split_netloc rest = (up_netloc p, tail)"
    and br: "(CHR ''['' \<in> set (up_netloc p)) = (CHR '']'' \<in> set (up_netloc p))"
      "CHR ''['' \<in> set (up_netloc p) \<longrightarrow> bracketed (up_netloc p)"
    and frag: "partition_at (CHR ''#'') tail = (before, f, up_fragment p)"
    and qry: "partition_at (CHR ''?'') before = (up_path p, g, up_query p)" by metis
  from split_scheme_parts [OF sch assms(2)] obtain a where a: "clean_url url = a @ CHR '':'' # rest"
    "is_lower (hd (up_scheme p))" "list_all scheme_char (up_scheme p)" "py_lower (up_scheme p) = up_scheme p" by metis
  note n = split_netloc_parts [OF net assms(3)]
  note fr = partition_at_parts [OF frag] and qr = partition_at_parts [OF qry]
  have "list_all (\<lambda>c. c \<notin> {CHR 0x09, CHR 0x0A, CHR 0x0D}) rest"
    using clean_url_chars [of url] a(1) by simp
  then have tabs: "list_all (\<lambda>c. c \<notin> {CHR 0x09, CHR 0x0A, CHR 0x0D}) (up_netloc p @ tail)" using n(1) by simp
  then have tabs': "list_all (\<lambda>c. c \<notin> {CHR 0x09, CHR 0x0A, CHR 0x0D}) (up_netloc p @ up_path p @ up_query p @ up_fragment p)"
    using fr(2,3) qr(2,3) by (cases f; cases g; simp)
  have path: "up_path p = [] \<or> hd (up_path p) = CHR ''/''"
    using n(3) fr(1,2) qr(1,2) by (cases "up_path p"; cases f; cases g; auto)
  have hash: "CHR ''#'' \<notin> set (up_path p)" "CHR ''#'' \<notin> set (up_query p)"
    using fr(1) qr(2,3) by (cases g; auto)+
  show "parts_ok bracketed p"
    unfolding parts_ok_def using assms(2,3) a n(2) br path qr(1) hash tabs' by blast
  show "\<exists>a. clean_url url = a @ up_fragment p"
    using a(1) n(1) fr(2,3) by (cases f) auto
qed

lemma parts_ok_query:
  assumes "parts_ok bracketed p" and "\<And>c. c \<in> set q \<Longrightarrow> query_char c \<or> c = CHR ''&'' \<or> c = CHR ''=''"
  shows "parts_ok bracketed (p\<lparr>up_query := q\<rparr>)"
proof -
  have "c \<notin> {CHR ''#'', CHR 0x09, CHR 0x0A, CHR 0x0D}" if "c \<in> set q" for c
    using assms(2) [OF that] query_char_no_sep by auto
  then show ?thesis using assms(1) unfolding parts_ok_def by (auto simp: list_all_iff)
qed

text \<open>A trimmed URL stays trimmed when its query is replaced.\<close>

lemma last_clean_url:
  assumes "url \<noteq> []" and "\<not> uni_space (last url)" and "clean_url url \<noteq> []"
  shows "last (clean_url url) = last url"
proof -
  let ?d = "dropWhile (\<lambda>c. byte c \<le> 32) url"
  have "?d \<noteq> []" using assms(3) unfolding clean_url_def by (metis filter.simps(1))
  moreover have "url = takeWhile (\<lambda>c. byte c \<le> 32) url @ ?d" by simp
  ultimately have l: "last ?d = last url" by (metis last_appendR)
  with assms(2) have keep: "last ?d \<notin> {CHR 0x09, CHR 0x0A, CHR 0x0D}" by (auto simp: uni_space_def)
  obtain w where w: "?d = w @ [last ?d]" using \<open>?d \<noteq> []\<close> by (metis append_butlast_last_id)
  have "clean_url url = filter (\<lambda>c. c \<notin> {CHR 0x09, CHR 0x0A, CHR 0x0D}) w @ [last ?d]"
    unfolding clean_url_def by (subst w) (use keep in simp)
  then show ?thesis using l by simp
qed

lemma query_char_visible: "query_char c \<or> c = CHR ''&'' \<or> c = CHR ''='' \<Longrightarrow> \<not> uni_space c"
  by (auto simp: query_char_def always_safe_def char_class_defs Let_def)

lemma urlencode_nonempty: "kvs \<noteq> [] \<Longrightarrow> urlencode kvs \<noteq> []"
  using encode_item_sep(2) by (cases kvs rule: remdups_adj.cases) (auto simp: urlencode_def)

lemma unsplit_last:
  assumes "parts_ok bracketed p" and "up_query p \<noteq> []"
  shows "last (urlunsplit p) = (if up_fragment p = [] then last (up_query p) else last (up_fragment p))"
  using assms by (auto simp: urlunsplit_def Let_def)

lemma tracked_url_trimmed:
  assumes "pyd_strip url = url" and "url \<noteq> []" and "urlsplit bracketed url = Inr p" and "up_scheme p \<noteq> []"
    and "up_netloc p \<noteq> []" and "kvs \<noteq> []"
  shows "pyd_strip (urlunsplit (p\<lparr>up_query := urlencode kvs\<rparr>)) = urlunsplit (p\<lparr>up_query := urlencode kvs\<rparr>)"
proof -
  let ?p = "p\<lparr>up_query := urlencode kvs\<rparr>" and ?u = "urlunsplit (p\<lparr>up_query := urlencode kvs\<rparr>)"
  note ok = urlsplit_parts_ok [OF assms(3-5)]
  have p: "parts_ok bracketed ?p" using ok(1) urlencode_chars by (rule parts_ok_query)
  have query: "up_query ?p \<noteq> []" using urlencode_nonempty [OF assms(6)] by simp
  obtain a w where sch: "up_scheme p = a # w" "is_lower a" using p by (cases "up_scheme p") (auto simp: parts_ok_def)
  have u: "?u = a # tl ?u" using sch(1) by (simp add: urlunsplit_def Let_def)
  have first: "\<not> uni_space (hd ?u)" using sch(2) by (subst u) (auto simp: char_class_defs Let_def)
  have "\<not> uni_space (last ?u)"
  proof (cases "up_fragment p = []")
    case True
    have "last (urlencode kvs) \<in> set (urlencode kvs)" using query by simp
    then show ?thesis using True unsplit_last [OF p query] urlencode_chars query_char_visible by auto
  next
    case False
    obtain b where b: "clean_url url = b @ up_fragment p" using ok(2) by blast
    have end_url: "\<not> uni_space (last url)"
      using strip_with_ends [of uni_space url] assms(1,2) by (simp add: pyd_strip_def)
    have "last (up_fragment p) = last url"
      using last_clean_url [OF assms(2) end_url] False b by simp
    then show ?thesis using False end_url unsplit_last [OF p query] by simp
  qed
  moreover have "?u \<noteq> []" by (subst u) simp
  ultimately show ?thesis using first unfolding pyd_strip_def by (intro strip_with_hd_last)
qed

lemma append_tracking_params_split:
  assumes "append_tracking_params bracketed url params = Inr u" and "http_url bracketed url"
    and "pyd_strip url = url" and "params \<noteq> []"
    and ascii: "\<And>kv. kv \<in> set params \<Longrightarrow> list_all (\<lambda>c. byte c < 128) (fst kv @ snd kv)"
  obtains p where "urlsplit bracketed url = Inr p" and "pyd_strip u = u"
    and "urlsplit bracketed u = Inr (p\<lparr>up_query := urlencode
           (filter (\<lambda>i. fst i \<notin> set (map fst params)) (parse_qsl (up_query p)) @ params)\<rparr>)"
    and "parse_qsl (urlencode (filter (\<lambda>i. fst i \<notin> set (map fst params)) (parse_qsl (up_query p)) @ params)) =
           filter (\<lambda>i. fst i \<notin> set (map fst params)) (parse_qsl (up_query p)) @ params"
proof -
  from assms(2) obtain p where p: "urlsplit bracketed url = Inr p" "up_scheme p \<noteq> []" "up_netloc p \<noteq> []"
    by (auto simp: http_url_def split: sum.splits)
  let ?items = "filter (\<lambda>i. fst i \<notin> set (map fst params)) (parse_qsl (up_query p)) @ params"
  have u: "u = urlunsplit (p\<lparr>up_query := urlencode ?items\<rparr>)"
    using assms(1) p(1) by (simp add: append_tracking_params_def Let_def)
  have "url \<noteq> []" using p by (auto simp: urlsplit_def clean_url_def split_scheme_def split_netloc_def)
  then have "pyd_strip u = u"
    unfolding u using assms(3,4) p by (intro tracked_url_trimmed) auto
  moreover have "parts_ok bracketed (p\<lparr>up_query := urlencode ?items\<rparr>)"
    using urlsplit_parts_ok(1) [OF p] urlencode_chars by (rule parts_ok_query)
  then have "urlsplit bracketed u = Inr (p\<lparr>up_query := urlencode ?items\<rparr>)"
    unfolding u by (rule urlsplit_unsplit)
  moreover have "parse_qsl (urlencode ?items) = ?items"
  proof (rule parse_urlencode)
    fix kv
    assume "kv \<in> set ?items"
    then consider "kv \<in> set (parse_qsl (up_query p))" | "kv \<in> set params" by auto
    then show "utf8_replace (fst kv) = fst kv \<and> utf8_replace (snd kv) = snd kv"
      using parse_qsl_decoded ascii utf8_replace_ascii by cases auto
  qed
  ultimately show ?thesis using that p(1) by blast
qed

section \<open>Counting clicks\<close>

definition click_all :: "referral_link list \<Rightarrow> click_tracker \<Rightarrow> click_tracker" where
  "click_all ls s = fold (\<lambda>l s. snd (record_click l s)) ls s"

definition no_clicks :: click_tracker where
  "no_clicks = \<lparr>ct_click_counts = [], ct_links_by_route = []\<rparr>"

definition counted :: "(string \<times> string \<Rightarrow> bool) \<Rightarrow> (string \<times> string, nat) dict \<Rightarrow> nat" where
  "counted P d = sum_list (map snd (filter (\<lambda>(k, n). P k) d))"

lemma record_click_state:
  "snd (record_click l s) =
     s\<lparr>ct_links_by_route := AList.update (link_key l) l (ct_links_by_route s),
       ct_click_counts := AList.update (link_key l) (click_count s (link_key l) + 1) (ct_click_counts s)\<rparr>"
  by (simp add: record_click_def bnd_def modify_def gets_def click_count_def)

lemma counted_update:
  "dict_ok d \<Longrightarrow>
     counted P (AList.update k ((case map_of d k of None \<Rightarrow> 0 | Some n \<Rightarrow> n) + 1) d) = counted P d + (if P k then 1 else 0)"
proof (induction d)
  case (Cons x d)
  then show ?case by (cases x) (auto simp: counted_def dict_ok_def)
qed (simp add: counted_def)

lemma click_all_counts:
  "ct_click_counts (click_all (ls @ [l]) s) =
     AList.update (link_key l)
       ((case map_of (ct_click_counts (click_all ls s)) (link_key l) of None \<Rightarrow> 0 | Some n \<Rightarrow> n) + 1)
       (ct_click_counts (click_all ls s))"
  "ct_links_by_route (click_all (ls @ [l]) s) = AList.update (link_key l) l (ct_links_by_route (click_all ls s))"
  by (simp_all add: click_all_def record_click_state click_count_def)

lemma click_all_ok: "dict_ok (ct_click_counts (click_all ls no_clicks))"
  by (induction ls rule: rev_induct) (simp_all only: click_all_counts dict_ok_update, simp add: click_all_def no_clicks_def)

lemma click_all_counted:
  "counted P (ct_click_counts (click_all ls no_clicks)) = length (filter (\<lambda>l. P (link_key l)) ls)"
proof (induction ls rule: rev_induct)
  case (snoc l ls)
  show ?case unfolding click_all_counts(1) counted_update [OF click_all_ok] snoc by simp
qed (simp add: click_all_def no_clicks_def counted_def)

lemma click_all_count: "click_count (click_all ls no_clicks) k = length (filter (\<lambda>l. link_key l = k) ls)"
proof (induction ls rule: rev_induct)
  case (snoc l ls)
  then show ?case by (auto simp: click_count_def click_all_counts(1) update_conv')
qed (simp add: click_all_def no_clicks_def click_count_def)

lemma click_all_keys:
  "map_of (ct_click_counts (click_all ls no_clicks)) k = None \<longleftrightarrow>
     map_of (ct_links_by_route (click_all ls no_clicks)) k = None"
proof (induction ls rule: rev_induct)
  case (snoc l ls)
  then show ?case by (simp add: click_all_counts update_conv')
qed (simp add: click_all_def no_clicks_def)

lemma click_all_links:
  "map_of (ct_links_by_route (click_all ls no_clicks)) k = Some l \<Longrightarrow> l \<in> set ls \<and> link_key l = k"
proof (induction ls rule: rev_induct)
  case (snoc x ls)
  then show ?case by (auto simp: click_all_counts update_conv' split: if_splits)
qed (simp add: click_all_def no_clicks_def)

lemma add_level_clicks_totals:
  assumes "\<And>k n. (k, n) \<in> set counts \<Longrightarrow> fst k = tenant \<Longrightarrow> \<exists>l. map_of links k = Some l \<and> rl_level l = lev k"
    and "\<And>v. map_of totals v \<noteq> None"
  shows "\<exists>r. add_level_clicks tenant links counts totals = Inr r \<and>
    (\<forall>v. map_of r v = Some (the (map_of totals v) + counted (\<lambda>k. fst k = tenant \<and> lev k = v) counts))"
  using assms
proof (induction counts arbitrary: totals)
  case Nil
  then show ?case by (simp add: counted_def)
next
  case (Cons x counts)
  obtain k n where x: "x = (k, n)" by (cases x)
  show ?case
  proof (cases "fst k = tenant")
    case True
    then obtain l where l: "map_of links k = Some l" "rl_level l = lev k" using Cons.prems(1) [of k n] x by auto
    let ?t = "AList.update (lev k) (the (map_of totals (lev k)) + n) totals"
    have "map_of ?t v \<noteq> None" for v using Cons.prems(2) [of v] by (simp add: update_conv')
    moreover have "\<exists>l. map_of links k' = Some l \<and> rl_level l = lev k'" if "(k', m) \<in> set counts" "fst k' = tenant" for k' m
      using that Cons.prems(1) [of k' m] by simp
    ultimately obtain r where r: "add_level_clicks tenant links counts ?t = Inr r"
      "\<forall>v. map_of r v = Some (the (map_of ?t v) + counted (\<lambda>k. fst k = tenant \<and> lev k = v) counts)"
      using Cons.IH [of ?t] by blast
    with True l show ?thesis by (auto simp: x counted_def update_conv')
  next
    case False
    have "\<exists>l. map_of links k' = Some l \<and> rl_level l = lev k'" if "(k', m) \<in> set counts" "fst k' = tenant" for k' m
      using that Cons.prems(1) [of k' m] by simp
    from Cons.IH [OF this Cons.prems(2)] False show ?thesis by (simp add: x counted_def)
  qed
qed

end
