(* ===== verification/LinksProperties.thy ===== *)
theory LinksProperties
  imports Links Samples
begin

text \<open>
  The properties of the referral links: how the partner is drawn, what a link carries, and the counts of
  its clicks.
\<close>

section \<open>A request\<close>

definition small_partner :: link_target where
  "small_partner = \<lparr>lt_owner_id = ''a'', lt_url = ''http://a/x?k=1'', lt_weight = Fin 1\<rparr>"

definition large_partner :: link_target where
  "large_partner = \<lparr>lt_owner_id = ''b'', lt_url = ''http://b/'', lt_weight = Fin 2\<rparr>"

definition dust_partner :: link_target where
  "dust_partner = \<lparr>lt_owner_id = ''c'', lt_url = ''http://c/'', lt_weight = Fin (1 / 4096)\<rparr>"

definition sample_route :: route_request where
  "sample_route =
     \<lparr>rq_tenant_id = ''t'', rq_content_id = ''c'', rq_admin_link = large_partner, rq_author_link = large_partner,
      rq_l3_candidates = [large_partner, small_partner], rq_rotation_seed = None, rq_l3_min_weight = Fin 0\<rparr>"

definition plain_bracket :: "string \<Rightarrow> bool" where
  "plain_bracket host = False"

text \<open>C33. The third link goes to a candidate that has the least contribution weight asked for, drawn by the
  digest of the seed in proportion to the weights: among the offsets below the sum of the scaled
  weights, each candidate is chosen for exactly as many as its own weight, and the loop never falls
  through to its last statement.\<close>

theorem partners_are_drawn_by_weight:
  assumes "select_l3_partner rt candidates seed min_weight = Inr c"
  shows "\<exists>weights offset. let eligible = eligible_candidates min_weight candidates; drawn = zip eligible weights in
    scale_weights eligible = Inr weights \<and> seed_offset rt seed (sum_list weights) = Inr offset \<and>
    offset < sum_list weights \<and> c = walk_weights 0 offset (last eligible) drawn \<and>
    c \<in> set candidates \<and> float_le min_weight (lt_weight c) \<and>
    (\<forall>d fallback. card {n. n < sum_list weights \<and> walk_weights 0 n fallback drawn = d} =
       sum_list (map snd (filter (\<lambda>x. fst x = d) drawn)))"
proof -
  let ?el = "eligible_candidates min_weight candidates"
  from assms obtain ws k where ws: "scale_weights ?el = Inr ws" and k: "k < sum_list ws"
    "seed_offset rt seed (sum_list ws) = Inr k" and c: "c = walk_weights 0 k (last ?el) (zip ?el ws)"
    by (rule select_l3_partner_Inr)
  have total: "map snd (zip ?el ws) = ws" using scale_weights_length [OF ws] by simp
  have "c \<in> set candidates \<and> float_le min_weight (lt_weight c)" using select_l3_partner_member [OF assms] by blast
  moreover have "card {n. n < sum_list ws \<and> walk_weights 0 n fallback (zip ?el ws) = d} =
      sum_list (map snd (filter (\<lambda>x. fst x = d) (zip ?el ws)))" for d fallback
    using card_draws [of 0 "zip ?el ws" fallback d] total by simp
  ultimately show ?thesis
    unfolding Let_def by (intro exI [where x = ws] exI [where x = k]) (simp only: ws k c simp_thms)
qed

lemma sample_draw:
  assumes "set cs = {large_partner, small_partner}"
  shows "\<exists>c. select_l3_partner sample_runtime cs ''s'' (Fin 0) = Inr c"
  unfolding select_l3_partner_iff assms
  using scale_small_weight [of 1] scale_small_weight [of 2] by (auto simp: large_partner_def small_partner_def)

theorem partners_are_drawn_by_weight_witness:
  "\<exists>weights. scale_weights (eligible_candidates (Fin 0) [large_partner, small_partner]) = Inr weights \<and>
     0 < sum_list weights"
proof -
  obtain c where "select_l3_partner sample_runtime [large_partner, small_partner] ''s'' (Fin 0) = Inr c"
    using sample_draw [of "[large_partner, small_partner]"] by auto
  from partners_are_drawn_by_weight [OF this] show ?thesis unfolding Let_def by force
qed

text \<open>The choice of the partner does not depend on the order in which the candidates are listed, as long
  as no two of them share owner and URL.\<close>

theorem partner_does_not_depend_on_order:
  assumes "mset candidates = mset others" and "inj_on (\<lambda>c. (lt_owner_id c, lt_url c)) (set candidates)"
  shows "select_l3_partner rt candidates seed min_weight = select_l3_partner rt others seed min_weight"
  unfolding select_l3_partner_def eligible_permuted [OF assms] ..

theorem partner_does_not_depend_on_order_witness:
  "\<exists>c. select_l3_partner sample_runtime [small_partner, large_partner] ''s'' (Fin 0) = Inr c \<and>
     select_l3_partner sample_runtime [large_partner, small_partner] ''s'' (Fin 0) = Inr c"
proof -
  have "inj_on (\<lambda>c. (lt_owner_id c, lt_url c)) (set [small_partner, large_partner])"
    by (simp add: small_partner_def large_partner_def)
  from partner_does_not_depend_on_order [OF _ this, of "[large_partner, small_partner]"]
    sample_draw [of "[large_partner, small_partner]"]
  show ?thesis by auto
qed

text \<open>A partner can be chosen exactly when some candidate has the least weight asked for and the weight of
  every such candidate can be scaled: one candidate whose weight rounds to no thousandth, or whose
  thousandfold is no finite float, blocks the choice among all the others.\<close>

theorem partner_selection_succeeds_iff:
  "(\<exists>c. select_l3_partner rt candidates seed min_weight = Inr c) \<longleftrightarrow>
     (\<exists>c. c \<in> set candidates \<and> float_le min_weight (lt_weight c)) \<and>
     {c. c \<in> set candidates \<and> float_le min_weight (lt_weight c)} \<subseteq> {c. \<exists>w. scale_weight (lt_weight c) = Inr w}"
  unfolding select_l3_partner_iff by auto

lemma hex_ascii: "audit_hash_ok h \<Longrightarrow> list_all (\<lambda>c. byte c < 128 \<and> \<not> uni_space c) (take n h)"
  by (auto simp: audit_hash_ok_def list_all_iff char_class_defs Let_def dest!: in_set_takeD)

lemma identifier_ascii:
  "token_ok s \<Longrightarrow> list_all (\<lambda>c. byte c < 128) s" "tenant_id_ok s \<Longrightarrow> list_all (\<lambda>c. byte c < 128) s"
  using token_chars [of s] tenant_id_chars [of s]
  by (auto simp: list_all_iff token_char_def tenant_char_def char_class_defs Let_def)

text \<open>C34. A referral link leads to the target's own address, with its scheme, host, path and fragment, and its
  query carries, after the target's own parameters without any that pose as tracking parameters,
  exactly the five tracking parameters of this route: reading the query back gives the values that were
  put in, whatever the target's query spells. The digest is taken to be hexadecimal, as SHA-256's is.\<close>

theorem links_carry_their_tracking:
  assumes digest: "\<And>text. audit_hash_ok (rt_sha256 rt text)"
    and "link_route_request raw = Inr req" and "referral_link_target bracketed owner url weight = Inr target"
    and "build_referral_link rt bracketed req level target seed = Inr l"
  shows "\<exists>p q. urlsplit bracketed (lt_url target) = Inr p \<and> urlsplit bracketed (rl_url l) = Inr (p\<lparr>up_query := q\<rparr>) \<and>
    parse_qsl q =
      filter (\<lambda>item. fst item \<notin> {''nmc_route_id'', ''nmc_tenant_id'', ''nmc_content_id'', ''nmc_level'', ''nmc_owner_id''})
        (parse_qsl (up_query p))
      @ [(''nmc_route_id'', rl_route_id l), (''nmc_tenant_id'', rl_tenant_id l), (''nmc_content_id'', rl_content_id l),
         (''nmc_level'', referral_level_value level), (''nmc_owner_id'', rl_owner_id l)]"
proof -
  let ?route = "route_id rt (rq_tenant_id req) (rq_content_id req) level target"
  let ?params = "tracking_params ?route (rq_tenant_id req) (rq_content_id req) level (lt_owner_id target)"
  from assms(4) obtain u where u: "append_tracking_params bracketed (lt_url target) ?params = Inr u"
    and l: "rl_url l = pyd_strip u" "rl_route_id l = pyd_strip ?route" "rl_tenant_id l = pyd_strip (rq_tenant_id req)"
      "rl_content_id l = pyd_strip (rq_content_id req)" "rl_owner_id l = pyd_strip (lt_owner_id target)"
    by (auto simp: build_referral_link_def referral_link_def Let_def)
  have ids: "tenant_id_ok (rq_tenant_id req)" "token_ok (rq_content_id req)"
    using assms(2) by (auto simp: link_route_request_def)
  have target: "token_ok (lt_owner_id target)" "http_url bracketed (lt_url target)" "pyd_strip (lt_url target) = lt_url target"
    using assms(3) by (auto simp: referral_link_target_def)
  have route: "list_all (\<lambda>c. byte c < 128) ?route" "pyd_strip ?route = ?route"
    using hex_ascii [OF digest] unfolding route_id_def pyd_strip_def
    by (auto simp: list_all_iff intro!: strip_with_no_space)
  have ascii: "list_all (\<lambda>c. byte c < 128) (fst kv @ snd kv)" if "kv \<in> set ?params" for kv
    using that route(1) identifier_ascii ids target(1) by (cases level) (auto simp: tracking_params_def)
  have names: "set (map fst ?params) =
      {''nmc_route_id'', ''nmc_tenant_id'', ''nmc_content_id'', ''nmc_level'', ''nmc_owner_id''}"
    by (simp add: tracking_params_def)
  have "?params \<noteq> []" by (simp add: tracking_params_def)
  from append_tracking_params_split [OF u target(2,3) this ascii] obtain p where
    "urlsplit bracketed (lt_url target) = Inr p" "pyd_strip u = u"
    "urlsplit bracketed u = Inr (p\<lparr>up_query := urlencode
       (filter (\<lambda>i. fst i \<notin> set (map fst ?params)) (parse_qsl (up_query p)) @ ?params)\<rparr>)"
    "parse_qsl (urlencode (filter (\<lambda>i. fst i \<notin> set (map fst ?params)) (parse_qsl (up_query p)) @ ?params)) =
       filter (\<lambda>i. fst i \<notin> set (map fst ?params)) (parse_qsl (up_query p)) @ ?params"
    by blast
  moreover have "?params = [(''nmc_route_id'', rl_route_id l), (''nmc_tenant_id'', rl_tenant_id l),
      (''nmc_content_id'', rl_content_id l), (''nmc_level'', referral_level_value level), (''nmc_owner_id'', rl_owner_id l)]"
    using l route(2) ids target(1) by (simp add: tracking_params_def)
  ultimately show ?thesis using l(1) unfolding names by metis
qed

lemma small_target: "referral_link_target plain_bracket ''a'' ''http://a/x?k=1'' (Fin 1) = Inr small_partner"
  by code_simp

lemma sample_request: "link_route_request sample_route = Inr sample_route"
  by code_simp

lemma sample_link: "\<exists>l. build_referral_link sample_runtime plain_bracket sample_route L3 small_partner None = Inr l"
proof -
  have "\<not> isl (build_referral_link sample_runtime plain_bracket sample_route L3 small_partner None)" by code_simp
  then show ?thesis by (cases "build_referral_link sample_runtime plain_bracket sample_route L3 small_partner None") auto
qed

theorem links_carry_their_tracking_witness:
  "\<exists>l p. build_referral_link sample_runtime plain_bracket sample_route L3 small_partner None = Inr l \<and>
     urlsplit plain_bracket (rl_url l) = Inr p \<and> hd (parse_qsl (up_query p)) = (''k'', ''1'')"
proof -
  have digest: "audit_hash_ok (rt_sha256 sample_runtime t)" for t
    by (simp add: sample_runtime_def sample_digest_def audit_hash_ok_def is_hex_def list_all_iff)
  obtain l where l: "build_referral_link sample_runtime plain_bracket sample_route L3 small_partner None = Inr l"
    using sample_link by blast
  have split: "urlsplit plain_bracket (lt_url small_partner) =
      Inr \<lparr>up_scheme = ''http'', up_netloc = ''a'', up_path = ''/x'', up_query = ''k=1'', up_fragment = []\<rparr>"
    by code_simp
  have item: "parse_qsl ''k=1'' = [(''k'', ''1'')]" by code_simp
  from links_carry_their_tracking [OF digest sample_request small_target l] l show ?thesis
    unfolding split by (auto simp: item)
qed

text \<open>The click counts add up: after any sequence of clicks the count of a route is the number of clicks on
  it, and the totals by level, when a route has one level, count every click of the tenant and none of
  another; the look-up of the link never fails.\<close>

theorem clicks_are_counted:
  assumes "\<And>l. l \<in> set clicks \<Longrightarrow> rl_level l = level_of (link_key l)"
  shows "click_count (click_all clicks no_clicks) k = length (filter (\<lambda>l. link_key l = k) clicks) \<and>
    (\<exists>totals. total_clicks_by_level tenant (click_all clicks no_clicks) = Inr totals \<and>
       map_of totals v = Some (length (filter (\<lambda>l. rl_tenant_id l = tenant \<and> rl_level l = v) clicks)))"
proof -
  let ?s = "click_all clicks no_clicks"
  have links: "\<exists>l. map_of (ct_links_by_route ?s) k = Some l \<and> rl_level l = level_of k"
    if "(k, n) \<in> set (ct_click_counts ?s)" for k n
  proof -
    have "map_of (ct_click_counts ?s) k = Some n" using that dict_set_iff [OF click_all_ok] by simp
    then obtain l where "map_of (ct_links_by_route ?s) k = Some l" using click_all_keys [of clicks k] by fastforce
    with click_all_links [OF this] assms show ?thesis by auto
  qed
  have "map_of [(L1, 0), (L2, 0), (L3, 0)] v \<noteq> None" for v :: referral_level by (cases v) auto
  with add_level_clicks_totals [of "ct_click_counts ?s" tenant "ct_links_by_route ?s" level_of "[(L1, 0), (L2, 0), (L3, 0)]"] links
  obtain totals where totals: "total_clicks_by_level tenant ?s = Inr totals"
    "map_of totals v = Some (the (map_of [(L1, 0), (L2, 0), (L3, 0)] v) +
       counted (\<lambda>k. fst k = tenant \<and> level_of k = v) (ct_click_counts ?s))"
    unfolding total_clicks_by_level_def by blast
  moreover have "counted (\<lambda>k. fst k = tenant \<and> level_of k = v) (ct_click_counts ?s) =
      length (filter (\<lambda>l. rl_tenant_id l = tenant \<and> rl_level l = v) clicks)"
    unfolding click_all_counted using assms by (intro arg_cong [where f = length] filter_cong) (auto simp: link_key_def)
  moreover have "the (map_of [(L1, 0), (L2, 0), (L3, 0 :: nat)] v) = 0" by (cases v) auto
  ultimately show ?thesis using click_all_count by simp
qed

definition sample_click :: referral_link where
  "sample_click =
     \<lparr>rl_tenant_id = ''t'', rl_content_id = ''c'', rl_route_id = ''r'', rl_level = L2, rl_owner_id = ''a'',
      rl_url = ''http://a/'', rl_reward_share = reward_rate L2, rl_weight = Fin 0, rl_rotation_seed = None\<rparr>"

theorem clicks_are_counted_witness:
  "click_count (click_all [sample_click, sample_click] no_clicks) (''t'', ''r'') = 2"
proof -
  have "rl_level l = (\<lambda>_. L2) (link_key l)" if "l \<in> set [sample_click, sample_click]" for l
    using that by (auto simp: sample_click_def)
  then have "click_count (click_all [sample_click, sample_click] no_clicks) (''t'', ''r'') =
      length (filter (\<lambda>l. link_key l = (''t'', ''r'')) [sample_click, sample_click])"
    by (rule clicks_are_counted [THEN conjunct1])
  then show ?thesis by (simp add: sample_click_def link_key_def)
qed

end
