(* ===== verification/Templates.thy ===== *)
theory Templates
  imports AuditLog
begin

text \<open>
  \<open>cglr/template_engine.py\<close>: the sandboxed renderer with its check of the syntax tree, its cache of
  compiled templates and the validation of the result. Jinja2 is a parameter: it parses a text to a
  tree, compiles it, and renders a compiled template in a context.
\<close>

section \<open>Jinja2\<close>

datatype jinja_error = SandboxSecurityError | TemplateSyntaxError | OtherTemplateError | NoTemplateError exn

text \<open>
  What the engine looks at in a node: the name of a blocked class (\<open>UNSAFE_NODE_TYPES\<close>), the attribute, the
  constant text of a subscript, the name of a filter or a test.
\<close>

datatype node_kind =
    UnsafeNode string
  | GetattrNode string
  | GetitemNode "string option"
  | FilterNode string
  | TestNode string
  | OtherNode

datatype template_node = TemplateNode (node_kind: node_kind) (child_nodes: "template_node list")

record 't jinja =
  jj_parse :: "string \<Rightarrow> jinja_error + template_node"
  jj_compile :: "string \<Rightarrow> jinja_error + 't"
  jj_render :: "'t \<Rightarrow> (string \<times> json) list \<Rightarrow> jinja_error + string"

section \<open>Requests and rules\<close>

definition is_private_name :: "string \<Rightarrow> bool" where
  "is_private_name name \<longleftrightarrow> take 1 name = ''_'' \<or> contains_text ''__'' name"

definition context_key_shape :: "string \<Rightarrow> bool" where
  "context_key_shape s \<longleftrightarrow> head_tail (\<lambda>c. is_lower c \<or> is_upper c) (\<lambda>c. is_alnum c \<or> c = CHR ''_'') 63 s"

record validation_rules =
  vr_min_length :: int
  vr_max_length :: int
  vr_required_blocks :: "string list"

definition template_validation_rules :: "int \<Rightarrow> int \<Rightarrow> string list \<Rightarrow> exn + validation_rules" where
  "template_validation_rules min_length max_length required_blocks =
     (let blocks = first_occurrences (map (\<lambda>b. py_strip (pyd_strip b)) required_blocks) in
      model ''TemplateValidationRules''
        (0 \<le> min_length \<and> 1 \<le> max_length \<and> [] \<notin> set blocks \<and> min_length \<le> max_length)
        \<lparr>vr_min_length = min_length, vr_max_length = max_length, vr_required_blocks = blocks\<rparr>)"

record render_request =
  rd_template_body :: string
  rd_context :: "(string \<times> json) list"
  rd_validation :: validation_rules

definition context_keys_ok :: "(string \<times> json) list \<Rightarrow> bool" where
  "context_keys_ok ctx \<longleftrightarrow> list_all (\<lambda>(k, v). context_key_shape k \<and> \<not> is_private_name k) ctx"

definition template_render_request ::
    "runtime \<Rightarrow> string \<Rightarrow> (string \<times> json) list \<Rightarrow> validation_rules \<Rightarrow> exn + render_request" where
  "template_render_request rt body ctx rules =
     (let members = obj_members (rt_pyd_json rt (JObj ctx)) in
      model ''TemplateRenderRequest'' (length_between 1 50000 (pyd_strip body) \<and> context_keys_ok members)
        \<lparr>rd_template_body = pyd_strip body, rd_context = members, rd_validation = rules\<rparr>)"

record render_result =
  rn_content :: string
  rn_content_length :: int
  rn_required_blocks :: "string list"

section \<open>The check of the tree\<close>

definition SAFE_FILTERS :: "string list" where
  "SAFE_FILTERS =
     [''capitalize'', ''default'', ''escape'', ''first'', ''float'', ''int'', ''join'', ''last'', ''length'', ''list'',
      ''lower'', ''replace'', ''round'', ''sort'', ''string'', ''title'', ''trim'', ''truncate'', ''upper'',
      ''wordcount'', ''wordwrap'']"

definition SAFE_TESTS :: "string list" where
  "SAFE_TESTS =
     [''boolean'', ''defined'', ''divisibleby'', ''eq'', ''equalto'', ''escaped'', ''even'', ''false'', ''float'', ''ge'',
      ''greaterthan'', ''gt'', ''in'', ''integer'', ''iterable'', ''le'', ''lessthan'', ''lower'', ''lt'', ''mapping'',
      ''ne'', ''none'', ''number'', ''odd'', ''sameas'', ''sequence'', ''string'', ''true'', ''undefined'', ''upper'']"

fun walk_nodes :: "template_node \<Rightarrow> template_node list" where
  "walk_nodes (TemplateNode k cs) = TemplateNode k cs # concat (map walk_nodes cs)"

fun reject_private_item_access :: "string option \<Rightarrow> exn + unit" where
  "reject_private_item_access None = Inr ()"
| "reject_private_item_access (Some key) =
     (if is_private_name key then Inl (TemplateSecurityError ''item'') else Inr ())"

fun reject_unsafe_node :: "node_kind \<Rightarrow> exn + unit" where
  "reject_unsafe_node (UnsafeNode name) = Inl (TemplateSecurityError ''node'')"
| "reject_unsafe_node (GetattrNode attr) =
     (if is_private_name attr then Inl (TemplateSecurityError ''attribute'') else Inr ())"
| "reject_unsafe_node (GetitemNode arg) = reject_private_item_access arg"
| "reject_unsafe_node (FilterNode name) =
     (if name \<notin> set SAFE_FILTERS then Inl (TemplateSecurityError ''filter'') else Inr ())"
| "reject_unsafe_node (TestNode name) =
     (if name \<notin> set SAFE_TESTS then Inl (TemplateSecurityError ''test'') else Inr ())"
| "reject_unsafe_node OtherNode = Inr ()"

fun reject_all :: "template_node list \<Rightarrow> exn + unit" where
  "reject_all [] = Inr ()"
| "reject_all (n # ns) = ebind (reject_unsafe_node (node_kind n)) (\<lambda>_. reject_all ns)"

definition reject_unsafe_nodes :: "template_node \<Rightarrow> exn + unit" where
  "reject_unsafe_nodes ast = reject_all (walk_nodes ast)"

section \<open>The engine\<close>

record 't template_engine =
  te_max_cache_size :: nat
  te_template_cache :: "(string, 't) dict"

definition template_engine :: "int \<Rightarrow> exn + 't template_engine" where
  "template_engine max_cache_size =
     (if max_cache_size < 0 then Inl (ValueError ''max_cache_size'')
      else Inr \<lparr>te_max_cache_size = nat max_cache_size, te_template_cache = []\<rparr>)"

text \<open>The two \<open>except\<close> clauses of \<open>render\<close>; other exceptions pass through.\<close>

fun engine_error :: "jinja_error \<Rightarrow> exn" where
  "engine_error SandboxSecurityError = TemplateSecurityError ''sandbox''"
| "engine_error TemplateSyntaxError = TemplateRenderError"
| "engine_error OtherTemplateError = TemplateRenderError"
| "engine_error (NoTemplateError e) = e"

definition validate_template_ast :: "'t jinja \<Rightarrow> string \<Rightarrow> exn + unit" where
  "validate_template_ast lib body =
     ebind (map_sum engine_error id (jj_parse lib body)) reject_unsafe_nodes"

text \<open>\<open>move_to_end\<close> takes the entry out and appends it; \<open>popitem(last=False)\<close> drops the first.\<close>

definition compiled_template :: "'t jinja \<Rightarrow> string \<Rightarrow> ('t template_engine, 't) act" where
  "compiled_template lib body =
     bnd (gets (\<lambda>s. map_of (te_template_cache s) body)) (\<lambda>cached.
     case cached of
       Some t \<Rightarrow>
         bnd (modify (\<lambda>s. s\<lparr>te_template_cache := AList.delete body (te_template_cache s) @ [(body, t)]\<rparr>)) (\<lambda>_.
         ret t)
     | None \<Rightarrow>
         bnd (lift (validate_template_ast lib body)) (\<lambda>_.
         bnd (lift (map_sum engine_error id (jj_compile lib body))) (\<lambda>t.
         bnd (modify (\<lambda>s.
           if 0 < te_max_cache_size s then
             (let grown = AList.update body t (te_template_cache s) in
              s\<lparr>te_template_cache := if te_max_cache_size s < length grown then tl grown else grown\<rparr>)
           else s)) (\<lambda>_.
         ret t))))"

definition rendered_violations :: "string \<Rightarrow> validation_rules \<Rightarrow> string list" where
  "rendered_violations content rules =
     (if int (length (py_strip content)) < vr_min_length rules then [''min_length''] else [])
     @ (if vr_max_length rules < int (length content) then [''max_length''] else [])
     @ (if filter (\<lambda>b. \<not> contains_text b content) (vr_required_blocks rules) \<noteq> [] then [''required_blocks''] else [])"

definition validate_rendered_content :: "string \<Rightarrow> validation_rules \<Rightarrow> exn + unit" where
  "validate_rendered_content content rules =
     (let violations = rendered_violations content rules in
      if violations \<noteq> [] then Inl (TemplateValidationError violations) else Inr ())"

text \<open>The result is a model, which trims the text it is given.\<close>

definition render_template :: "'t jinja \<Rightarrow> render_request \<Rightarrow> ('t template_engine, render_result) act" where
  "render_template lib req =
     bnd (compiled_template lib (rd_template_body req)) (\<lambda>t.
     bnd (lift (map_sum engine_error id (jj_render lib t (rd_context req)))) (\<lambda>content.
     bnd (lift (validate_rendered_content content (rd_validation req))) (\<lambda>_.
     ret \<lparr>rn_content = pyd_strip content, rn_content_length = int (length content),
          rn_required_blocks = map pyd_strip (vr_required_blocks (rd_validation req))\<rparr>)))"

section \<open>Only safe templates\<close>

fun safe_node :: "node_kind \<Rightarrow> bool" where
  "safe_node (UnsafeNode name) = False"
| "safe_node (GetattrNode attr) = (\<not> is_private_name attr)"
| "safe_node (GetitemNode arg) = (\<forall>key. arg = Some key \<longrightarrow> \<not> is_private_name key)"
| "safe_node (FilterNode name) = (name \<in> set SAFE_FILTERS)"
| "safe_node (TestNode name) = (name \<in> set SAFE_TESTS)"
| "safe_node OtherNode = True"

text \<open>The nodes of a tree, as the subtrees it has.\<close>

inductive subtree :: "template_node \<Rightarrow> template_node \<Rightarrow> bool" where
  subtree_self: "subtree n n"
| subtree_child: "subtree n c \<Longrightarrow> c \<in> set (child_nodes m) \<Longrightarrow> subtree n m"

lemma walk_nodes_subtree: "n \<in> set (walk_nodes m) \<longleftrightarrow> subtree n m"
proof
  show "n \<in> set (walk_nodes m) \<Longrightarrow> subtree n m"
  proof (induction m)
    case (TemplateNode k cs)
    then consider "n = TemplateNode k cs" | c where "c \<in> set cs" "n \<in> set (walk_nodes c)" by auto
    then show ?case using TemplateNode.IH subtree_child [of n _ "TemplateNode k cs"] by cases (auto intro: subtree_self)
  qed
  show "subtree n m \<Longrightarrow> n \<in> set (walk_nodes m)"
  proof (induction rule: subtree.induct)
    case (subtree_self n)
    show ?case by (cases n) simp
  next
    case (subtree_child n c m)
    then show ?case by (cases m) auto
  qed
qed

lemma reject_unsafe_node_safe: "reject_unsafe_node k = Inr () \<longleftrightarrow> safe_node k"
  by (cases k rule: reject_unsafe_node.cases; cases "case k of GetitemNode a \<Rightarrow> a | _ \<Rightarrow> None") auto

lemma reject_all_safe: "reject_all ns = Inr () \<longleftrightarrow> (\<forall>n\<in>set ns. safe_node (node_kind n))"
  by (induction ns) (auto simp: reject_unsafe_node_safe simp del: reject_unsafe_node.simps)

lemma reject_unsafe_nodes_safe: "reject_unsafe_nodes ast = Inr () \<longleftrightarrow> (\<forall>n. subtree n ast \<longrightarrow> safe_node (node_kind n))"
  by (auto simp: reject_unsafe_nodes_def reject_all_safe walk_nodes_subtree)

section \<open>The cache\<close>

text \<open>What the engine would do with a template it has not seen.\<close>

definition fresh_template :: "'t jinja \<Rightarrow> string \<Rightarrow> exn + 't" where
  "fresh_template lib body =
     ebind (validate_template_ast lib body) (\<lambda>_. map_sum engine_error id (jj_compile lib body))"

definition cache_ok :: "'t jinja \<Rightarrow> 't template_engine \<Rightarrow> bool" where
  "cache_ok lib s \<longleftrightarrow>
     dict_ok (te_template_cache s) \<and> length (te_template_cache s) \<le> te_max_cache_size s \<and>
     (\<forall>body t. (body, t) \<in> set (te_template_cache s) \<longrightarrow> fresh_template lib body = Inr t)"

lemma dict_ok_delete_append:
  "dict_ok d \<Longrightarrow> dict_ok (AList.delete k d @ [(k, v)])"
  by (auto simp: dict_ok_def delete_conv distinct_map_filter image_iff AList.delete_eq)

lemma set_delete_subset: "set (AList.delete k d) \<subseteq> set d"
  by (auto simp: AList.delete_eq)

lemma dict_ok_tl: "dict_ok d \<Longrightarrow> dict_ok (tl d)"
  by (cases d) (auto simp: dict_ok_def)

lemma length_delete_less: "map_of d k = Some v \<Longrightarrow> Suc (length (AList.delete k d)) \<le> length d"
  by (induction d) (auto simp: AList.delete_eq split: if_splits intro: le_trans [OF length_filter_le])

lemma compiled_template_result:
  assumes "cache_ok lib s" and "compiled_template lib body s = (r, t)"
  shows "r = fresh_template lib body" and "cache_ok lib t" and "te_max_cache_size t = te_max_cache_size s"
proof -
  have "r = fresh_template lib body \<and> cache_ok lib t \<and> te_max_cache_size t = te_max_cache_size s"
  proof (cases "map_of (te_template_cache s) body")
    case (Some u)
    then have fresh: "fresh_template lib body = Inr u" using assms(1) map_of_SomeD by (force simp: cache_ok_def)
    have t: "r = Inr u" "t = s\<lparr>te_template_cache := AList.delete body (te_template_cache s) @ [(body, u)]\<rparr>"
      using assms(2) Some by (auto simp: compiled_template_def bnd_def act_eval)
    have "cache_ok lib t"
      using assms(1) fresh length_delete_less [OF Some] set_delete_subset [of body "te_template_cache s"]
      unfolding t cache_ok_def by (auto simp: dict_ok_delete_append)
    with t fresh show ?thesis by simp
  next
    case None
    show ?thesis
    proof (cases "fresh_template lib body")
      case (Inl e)
      then have "r = Inl e \<and> t = s" using assms(2) None
        by (auto simp: compiled_template_def fresh_template_def bnd_def act_eval split: sum.splits)
      with Inl assms(1) show ?thesis by simp
    next
      case (Inr u)
      let ?grown = "te_template_cache s @ [(body, u)]"
      have grown: "AList.update body u (te_template_cache s) = ?grown" using None by (rule dict_update_new)
      have t: "r = Inr u" "t = (if 0 < te_max_cache_size s
          then s\<lparr>te_template_cache := if te_max_cache_size s < length ?grown then tl ?grown else ?grown\<rparr> else s)"
        using assms(2) None Inr grown
        by (auto simp: compiled_template_def fresh_template_def bnd_def act_eval Let_def split: sum.splits)
      have ok: "dict_ok ?grown" using assms(1) dict_ok_update [of "te_template_cache s" body u] grown
        by (simp add: cache_ok_def)
      have "\<forall>b v. (b, v) \<in> set ?grown \<longrightarrow> fresh_template lib b = Inr v"
        using assms(1) Inr by (auto simp: cache_ok_def)
      moreover have "set (tl ?grown) \<subseteq> set ?grown" by (cases "te_template_cache s") auto
      ultimately have "cache_ok lib t"
        using assms(1) ok dict_ok_tl [OF ok] unfolding t cache_ok_def by (auto split: if_splits)
      with t Inr show ?thesis by simp
    qed
  qed
  then show "r = fresh_template lib body" and "cache_ok lib t" and "te_max_cache_size t = te_max_cache_size s" by simp_all
qed

text \<open>The engine without a cache.\<close>

definition render_uncached :: "'t jinja \<Rightarrow> render_request \<Rightarrow> exn + render_result" where
  "render_uncached lib req =
     ebind (fresh_template lib (rd_template_body req)) (\<lambda>t.
     ebind (map_sum engine_error id (jj_render lib t (rd_context req))) (\<lambda>content.
     ebind (validate_rendered_content content (rd_validation req)) (\<lambda>_.
     Inr \<lparr>rn_content = pyd_strip content, rn_content_length = int (length content),
          rn_required_blocks = map pyd_strip (vr_required_blocks (rd_validation req))\<rparr>)))"

lemma render_template_run:
  "render_template lib req s =
     (render_uncached lib req, snd (compiled_template lib (rd_template_body req) s))" if "cache_ok lib s"
proof -
  obtain r t where run: "compiled_template lib (rd_template_body req) s = (r, t)" by fastforce
  have "r = fresh_template lib (rd_template_body req)" by (rule compiled_template_result(1) [OF that run])
  then show ?thesis
    by (cases r) (auto simp: run render_template_def render_uncached_def bnd_def act_eval ebind_def split: sum.splits)
qed

definition render_all :: "'t jinja \<Rightarrow> render_request list \<Rightarrow> 't template_engine \<Rightarrow> 't template_engine" where
  "render_all lib reqs s = fold (\<lambda>req s. snd (render_template lib req s)) reqs s"

lemma render_all_snoc: "render_all lib (reqs @ [req]) s = snd (render_template lib req (render_all lib reqs s))"
  by (simp add: render_all_def)

lemma new_engine_ok: "template_engine n = Inr s \<Longrightarrow> cache_ok lib s"
  by (auto simp: template_engine_def cache_ok_def dict_ok_def split: if_splits)

lemma render_all_ok:
  "cache_ok lib s \<Longrightarrow> cache_ok lib (render_all lib reqs s) \<and>
     te_max_cache_size (render_all lib reqs s) = te_max_cache_size s"
proof (induction reqs rule: rev_induct)
  case (snoc req reqs)
  let ?s = "render_all lib reqs s"
  obtain r t where run: "compiled_template lib (rd_template_body req) ?s = (r, t)" by fastforce
  from compiled_template_result [OF _ run] snoc show ?case
    by (simp add: render_all_snoc render_template_run run)
qed (simp add: render_all_def)

section \<open>The least recently used template goes\<close>

definition touch :: "'a \<Rightarrow> 'a list \<Rightarrow> 'a list" where
  "touch x xs = filter (\<lambda>y. y \<noteq> x) xs @ [x]"

text \<open>The bodies that compiled, without repetition, the last used at the end.\<close>

definition recency :: "'t jinja \<Rightarrow> render_request list \<Rightarrow> string list" where
  "recency lib reqs =
     fold touch (filter (\<lambda>b. \<not> isl (fresh_template lib b)) (map rd_template_body reqs)) []"

definition last_n :: "nat \<Rightarrow> 'a list \<Rightarrow> 'a list" where
  "last_n n xs = drop (length xs - n) xs"

lemma distinct_touch: "distinct xs \<Longrightarrow> distinct (touch x xs)"
  by (auto simp: touch_def)

lemma recency_snoc:
  "recency lib (reqs @ [req]) =
     (if \<exists>t. fresh_template lib (rd_template_body req) = Inr t then touch (rd_template_body req) (recency lib reqs)
      else recency lib reqs)"
  by (cases "fresh_template lib (rd_template_body req)") (simp_all add: recency_def)

lemma distinct_recency: "distinct (recency lib reqs)"
  by (induction reqs rule: rev_induct) (auto simp: recency_snoc distinct_touch, simp add: recency_def)

lemma length_filter_ne: "distinct xs \<Longrightarrow> length (filter (\<lambda>y. y \<noteq> x) xs) = (if x \<in> set xs then length xs - 1 else length xs)"
  by (induction xs) (auto simp: filter_id_conv dest: length_pos_if_in_set)

lemma last_n_split: "xs = take (length xs - n) xs @ last_n n xs" "length (last_n n xs) = min n (length xs)"
  by (auto simp: last_n_def)

lemma last_n_append: "length b = min n (length a + length b) \<Longrightarrow> last_n n (a @ b) = b"
  by (auto simp: last_n_def min_def split: if_splits)

text \<open>Using an entry of the last \<open>n\<close> moves it to the end; a new one pushes the first out.\<close>

lemma last_n_touch_old:
  assumes "distinct xs" and "x \<in> set (last_n n xs)"
  shows "last_n n (touch x xs) = touch x (last_n n xs)"
proof -
  let ?p = "take (length xs - n) xs" and ?l = "last_n n xs"
  have d: "distinct (?p @ ?l)" using assms(1) last_n_split(1) [where xs = xs and n = n] by simp
  then have "x \<notin> set ?p" using assms(2) by auto
  then have "touch x xs = ?p @ touch x ?l"
    by (subst last_n_split(1) [where xs = xs and n = n]) (auto simp: touch_def filter_id_conv)
  moreover have "length (touch x ?l) = length ?l"
    using assms(2) d length_filter_ne [of ?l x] by (cases ?l) (auto simp: touch_def)
  moreover have "length ?p + length ?l = length xs" by (metis last_n_split(1) length_append)
  ultimately show ?thesis using last_n_split(2) [where xs = xs and n = n] by (simp add: last_n_append)
qed

lemma last_n_touch_new:
  assumes "distinct xs" and "x \<notin> set (last_n n xs)"
  shows "last_n n (touch x xs) =
    (if n = 0 then [] else let ys = last_n n xs @ [x] in if n < length ys then tl ys else ys)"
proof -
  let ?p = "take (length xs - n) xs" and ?l = "last_n n xs"
  have t: "touch x xs = filter (\<lambda>y. y \<noteq> x) ?p @ ?l @ [x]"
    using assms(2) by (subst last_n_split(1) [where xs = xs and n = n]) (auto simp: touch_def filter_id_conv)
  show ?thesis
  proof (cases "length xs < n")
    case True
    then have "?p = []" by simp
    then have "touch x xs = ?l @ [x]" using t by (simp only: filter.simps append_Nil)
    then show ?thesis using True last_n_split(2) [where xs = xs and n = n]
      using last_n_append [of "?l @ [x]" n "[]"] by (auto simp: Let_def)
  next
    case False
    then have l: "length ?l = n" using last_n_split(2) [where xs = xs and n = n] by simp
    show ?thesis
    proof (cases "n = 0")
      case True
      then show ?thesis by (simp add: last_n_def)
    next
      case False
      then have "?l @ [x] = hd ?l # tl ?l @ [x]" using l by (cases ?l) auto
      then have "last_n n (touch x xs) = tl ?l @ [x]"
        using l False unfolding t last_n_def [of n "filter (\<lambda>y. y \<noteq> x) ?p @ ?l @ [x]"] by (simp add: drop_Suc)
      then show ?thesis using l False by (cases ?l) (auto simp: Let_def)
    qed
  qed
qed

lemma map_fst_delete: "map fst (AList.delete k d) = filter (\<lambda>y. y \<noteq> k) (map fst d)"
  by (induction d) (auto simp: AList.delete_eq)

lemma compiled_template_keys:
  assumes "cache_ok lib s" and "compiled_template lib body s = (r, t)"
  shows "map fst (te_template_cache t) =
    (if \<not> (\<exists>u. fresh_template lib body = Inr u) then map fst (te_template_cache s)
     else if body \<in> set (map fst (te_template_cache s)) then touch body (map fst (te_template_cache s))
     else if te_max_cache_size s = 0 then map fst (te_template_cache s)
     else let ks = map fst (te_template_cache s) @ [body] in if te_max_cache_size s < length ks then tl ks else ks)"
proof (cases "map_of (te_template_cache s) body")
  case (Some u)
  then have fresh: "fresh_template lib body = Inr u" using assms(1) map_of_SomeD by (force simp: cache_ok_def)
  have "t = s\<lparr>te_template_cache := AList.delete body (te_template_cache s) @ [(body, u)]\<rparr>"
    using assms(2) Some by (auto simp: compiled_template_def bnd_def act_eval)
  moreover have "body \<in> set (map fst (te_template_cache s))" using Some by (metis map_of_eq_None_iff option.simps(3) set_map)
  ultimately show ?thesis using fresh by (simp add: touch_def map_fst_delete)
next
  case None
  then have new: "body \<notin> set (map fst (te_template_cache s))" by (simp add: map_of_eq_None_iff)
  show ?thesis
  proof (cases "fresh_template lib body")
    case (Inl e)
    then have "t = s" using assms(2) None
      by (auto simp: compiled_template_def fresh_template_def bnd_def act_eval split: sum.splits)
    with Inl show ?thesis by simp
  next
    case (Inr u)
    let ?grown = "te_template_cache s @ [(body, u)]"
    have grown: "AList.update body u (te_template_cache s) = ?grown" using None by (rule dict_update_new)
    have "t = (if 0 < te_max_cache_size s
        then s\<lparr>te_template_cache := if te_max_cache_size s < length ?grown then tl ?grown else ?grown\<rparr> else s)"
      using assms(2) None Inr grown
      by (auto simp: compiled_template_def fresh_template_def bnd_def act_eval Let_def split: sum.splits)
    with new Inr show ?thesis by (auto simp: Let_def map_tl)
  qed
qed

lemma cache_is_recent:
  assumes "template_engine n = Inr s"
  shows "map fst (te_template_cache (render_all lib reqs s)) = last_n (nat n) (recency lib reqs)"
proof (induction reqs rule: rev_induct)
  case Nil
  then show ?case using assms by (auto simp: render_all_def recency_def last_n_def template_engine_def split: if_splits)
next
  case (snoc req reqs)
  let ?s = "render_all lib reqs s" and ?b = "rd_template_body req"
  have ok: "cache_ok lib ?s" and size: "te_max_cache_size ?s = nat n"
    using render_all_ok [OF new_engine_ok [OF assms]] assms by (auto simp: template_engine_def split: if_splits)
  obtain r t where run: "compiled_template lib ?b ?s = (r, t)" by fastforce
  have t: "render_all lib (reqs @ [req]) s = t" using ok by (simp add: render_all_snoc render_template_run run)
  show ?case
    unfolding t compiled_template_keys [OF ok run] size snoc recency_snoc
    using last_n_touch_old [OF distinct_recency, of ?b "nat n" lib reqs]
      last_n_touch_new [OF distinct_recency, of ?b "nat n" lib reqs]
    by (auto simp: last_n_def)
qed

end
