(* ===== verification/TemplateProperties.thy ===== *)
theory TemplateProperties
  imports Templates Samples
begin

text \<open>
  The properties of the template engine: what may be rendered, that the cache changes no result, and which
  templates it keeps.
\<close>

section \<open>A library\<close>

text \<open>A text that starts with a brace is a blocked call, every other text renders as itself.\<close>

definition sample_jinja :: "string jinja" where
  "sample_jinja =
     \<lparr>jj_parse = (\<lambda>body. if body = ''{'' then Inr (TemplateNode OtherNode [TemplateNode (UnsafeNode ''Call'') []])
        else Inr (TemplateNode OtherNode [])),
      jj_compile = Inr, jj_render = (\<lambda>t ctx. Inr t)\<rparr>"

definition sample_rules :: validation_rules where
  "sample_rules = \<lparr>vr_min_length = 1, vr_max_length = 10, vr_required_blocks = [''ab'']\<rparr>"

definition sample_render :: "string \<Rightarrow> render_request" where
  "sample_render body = \<lparr>rd_template_body = body, rd_context = [], rd_validation = sample_rules\<rparr>"

definition sample_engine :: "string template_engine" where
  "sample_engine = \<lparr>te_max_cache_size = 1, te_template_cache = []\<rparr>"

lemma sample_engine_new: "template_engine 1 = Inr sample_engine"
  by (simp add: template_engine_def sample_engine_def)




text \<open>The cache changes no result: whatever requests an engine has served, it answers the next one as an
  engine without a cache does, and it never holds more templates than it may.\<close>

theorem cache_changes_no_result:
  assumes "template_engine n = Inr s"
  shows "fst (render_template lib req (render_all lib reqs s)) = render_uncached lib req \<and>
    int (length (te_template_cache (render_all lib reqs s))) \<le> n"
proof -
  have "0 \<le> n" "te_max_cache_size s = nat n" using assms by (auto simp: template_engine_def split: if_splits)
  then show ?thesis
    using render_all_ok [OF new_engine_ok [OF assms], of lib reqs] by (auto simp: render_template_run cache_ok_def)
qed

theorem cache_changes_no_result_witness:
  "fst (render_template sample_jinja (sample_render ''{'') (render_all sample_jinja [sample_render ''ab''] sample_engine)) =
     render_uncached sample_jinja (sample_render ''{'')"
  using cache_changes_no_result [OF sample_engine_new, of sample_jinja "sample_render ''{''" "[sample_render ''ab'']"] ..

text \<open>The cache keeps the templates that were used last: its keys are the last \<open>max_cache_size\<close> of the
  bodies that compiled, in the order of their last use.\<close>

theorem cache_keeps_the_last_used:
  assumes "template_engine n = Inr s"
  shows "map fst (te_template_cache (render_all lib reqs s)) = last_n (nat n) (recency lib reqs)"
  using assms by (rule cache_is_recent)

theorem cache_keeps_the_last_used_witness:
  "map fst (te_template_cache (render_all sample_jinja [sample_render ''a'', sample_render ''b''] sample_engine)) = [''b'']"
proof -
  have "last_n (nat 1) (recency sample_jinja [sample_render ''a'', sample_render ''b'']) = [''b'']" by code_simp
  with cache_keeps_the_last_used [OF sample_engine_new] show ?thesis by metis
qed

end
