(* ===== verification/Cglr.thy ===== *)
theory Cglr
  imports Links Templates ContributionEvents Tenancy Jwt
begin

text \<open>
  \<open>cglr/api.py\<close>: the generator of content. A request is rendered by the template engine, gets its three
  referral links, is announced by an event, logged as a contribution of its author and stored under an
  idempotency key. The state holds the stored contents, the logged contributions, the engine with its
  cache and the sink of tenant denials; the parameter \<open>heading\<close> is the Russian heading of the list of links,
  whose letters lie beyond the code points of the model.
\<close>

section \<open>The request\<close>

record link_routing =
  lg_admin_link :: link_target
  lg_author_link :: link_target
  lg_l3_candidates :: "link_target list"
  lg_rotation_seed :: "string option"
  lg_l3_min_weight :: pyfloat

definition link_routing_input :: "link_routing \<Rightarrow> exn + link_routing" where
  "link_routing_input g =
     model ''LinkRoutingInput''
       (optional_ok (length_between 1 128) (map_option pyd_strip (lg_rotation_seed g)) \<and>
        nonneg_finite (lg_l3_min_weight g))
       (g\<lparr>lg_rotation_seed := map_option pyd_strip (lg_rotation_seed g)\<rparr>)"

record contribution_settings =
  cs_member_id :: "string option"
  cs_event_type :: contribution_event_type
  cs_platform :: platform
  cs_reach :: int
  cs_extra_reach :: int
  cs_metadata :: "(string \<times> json) list"
  cs_occurred_at :: "int option"

definition contribution_log_settings ::
    "runtime \<Rightarrow> string option \<Rightarrow> string \<Rightarrow> string \<Rightarrow> int \<Rightarrow> int \<Rightarrow> (string \<times> json) list \<Rightarrow> pydt option
     \<Rightarrow> exn + contribution_settings" where
  "contribution_log_settings rt member_id event_type platform reach extra_reach metadata occurred_at =
     (case (parse_event_type event_type, parse_platform platform) of
        (Inr e, Inr p) \<Rightarrow>
          model ''ContributionLogSettings''
            (optional_ok token_ok (map_option pyd_strip member_id) \<and> 0 \<le> reach \<and> 0 \<le> extra_reach)
            \<lparr>cs_member_id = map_option pyd_strip member_id, cs_event_type = e, cs_platform = p, cs_reach = reach,
             cs_extra_reach = extra_reach, cs_metadata = obj_members (rt_pyd_json rt (JObj metadata)),
             cs_occurred_at = map_option as_utc occurred_at\<rparr>
      | _ \<Rightarrow> Inl (ValidationError ''ContributionLogSettings''))"

record generate_request =
  gr_template_id :: string
  gr_template_body :: string
  gr_context :: "(string \<times> json) list"
  gr_validation :: validation_rules
  gr_platform_targets :: "string list"
  gr_link_routing :: link_routing
  gr_contribution :: contribution_settings

definition platform_target_ok :: "string \<Rightarrow> bool" where
  "platform_target_ok s \<longleftrightarrow> head_tail is_lower (\<lambda>c. is_lower c \<or> is_digit c \<or> c = CHR ''_'' \<or> c = CHR ''-'') 63 s"

text \<open>The nested models were built before.\<close>

definition generate_content_request :: "runtime \<Rightarrow> generate_request \<Rightarrow> exn + generate_request" where
  "generate_content_request rt q =
     (let members = obj_members (rt_pyd_json rt (JObj (gr_context q)));
          targets = map pyd_strip (gr_platform_targets q)
      in
      model ''GenerateContentRequest''
        (token_ok (pyd_strip (gr_template_id q)) \<and> length_between 1 50000 (pyd_strip (gr_template_body q)) \<and>
         context_keys_ok members \<and> list_all platform_target_ok targets)
        (q\<lparr>gr_template_id := pyd_strip (gr_template_id q), gr_template_body := pyd_strip (gr_template_body q),
           gr_context := members, gr_platform_targets := targets\<rparr>))"

section \<open>Hashes\<close>

definition dump_target :: "link_target \<Rightarrow> json" where
  "dump_target t =
     JObj [(''owner_id'', JStr (lt_owner_id t)), (''url'', JStr (lt_url t)), (''contribution_weight'', JFloat (lt_weight t))]"

definition dump_generate_request :: "json_mode \<Rightarrow> generate_request \<Rightarrow> json" where
  "dump_generate_request jm q =
     (let g = gr_link_routing q; c = gr_contribution q; v = gr_validation q in
      JObj [(''template_id'', JStr (gr_template_id q)), (''template_body'', JStr (gr_template_body q)),
            (''context'', jm_value jm (JObj (gr_context q))),
            (''validation'', JObj [(''min_length'', JInt (vr_min_length v)), (''max_length'', JInt (vr_max_length v)),
               (''required_blocks'', JList (map JStr (vr_required_blocks v)))]),
            (''platform_targets'', JList (map JStr (gr_platform_targets q))),
            (''link_routing'', JObj
               ([(''admin_link'', dump_target (lg_admin_link g)), (''author_link'', dump_target (lg_author_link g)),
                 (''l3_candidates'', JList (map dump_target (lg_l3_candidates g)))]
                @ opt_member ''rotation_seed'' JStr (lg_rotation_seed g)
                @ [(''l3_min_contribution_weight'', JFloat (lg_l3_min_weight g))])),
            (''contribution'', JObj
               (opt_member ''member_id'' JStr (cs_member_id c)
                @ [(''event_type'', JStr (event_type_value (cs_event_type c))),
                   (''platform'', JStr (platform_value (cs_platform c))), (''reach'', JInt (cs_reach c)),
                   (''extra_reach'', JInt (cs_extra_reach c)), (''metadata'', jm_value jm (JObj (cs_metadata c)))]
                @ opt_member ''occurred_at'' (\<lambda>t. JStr (jm_time jm t)) (cs_occurred_at c)))])"

definition generate_request_hash ::
    "runtime \<Rightarrow> json_mode \<Rightarrow> string \<Rightarrow> string \<Rightarrow> generate_request \<Rightarrow> string" where
  "generate_request_hash rt jm tenant_id idempotency_key q =
     hash_json_raw rt
       [(''tenant_id'', JStr tenant_id), (''idempotency_key'', JStr idempotency_key),
        (''payload'', dump_generate_request jm q)]"

definition dump_link :: "referral_link \<Rightarrow> json" where
  "dump_link l =
     JObj [(''tenant_id'', JStr (rl_tenant_id l)), (''content_id'', JStr (rl_content_id l)),
           (''route_id'', JStr (rl_route_id l)), (''level'', JStr (referral_level_value (rl_level l))),
           (''owner_id'', JStr (rl_owner_id l)), (''url'', JStr (rl_url l)), (''reward_share'', JFloat (rl_reward_share l)),
           (''contribution_weight'', JFloat (rl_weight l)),
           (''rotation_seed'', (case rl_rotation_seed l of None \<Rightarrow> JNull | Some s \<Rightarrow> JStr s))]"

definition content_hash :: "runtime \<Rightarrow> string \<Rightarrow> string \<Rightarrow> string \<Rightarrow> referral_link list \<Rightarrow> string" where
  "content_hash rt tenant_id template_id content links =
     hash_json_raw rt
       [(''tenant_id'', JStr tenant_id), (''template_id'', JStr template_id), (''content'', JStr content),
        (''links'', JList (map dump_link links))]"

section \<open>The state\<close>

record logged_contribution =
  lc_contribution_id :: string
  lc_tenant_id :: string
  lc_member_id :: string
  lc_event_type :: contribution_event_type
  lc_source_type :: string
  lc_source_ref :: string
  lc_points_awarded :: pyfloat
  lc_audit_hash :: string
  lc_idempotency_key :: string
  lc_occurred_at :: int
  lc_created_at :: int

record reward_item =
  ri_level :: referral_level
  ri_owner_id :: string
  ri_reward_share :: pyfloat

record generated_content =
  gc_content_id :: string
  gc_tenant_id :: string
  gc_template_id :: string
  gc_content :: string
  gc_content_with_links :: string
  gc_content_hash :: string
  gc_links :: "referral_link list"
  gc_reward_distribution :: "reward_item list"
  gc_contribution :: logged_contribution
  gc_idempotency_key :: string
  gc_request_hash :: string
  gc_created_at :: int

record 't cglr_state = svc +
  cg_records :: "generated_content list"
  cg_contributions :: "logged_contribution list"
  cg_engine :: "'t template_engine"
  cg_denials :: denial_sink

text \<open>An operation of the template engine, and one of the tenant guard, on their part of the state.\<close>

definition on_engine :: "('t template_engine, 'a) act \<Rightarrow> (('t, 'z) cglr_state_scheme, 'a) act" where
  "on_engine m s = (case m (cg_engine s) of (r, e) \<Rightarrow> (r, s\<lparr>cg_engine := e\<rparr>))"

definition on_denials :: "(denial_sink, 'a) act \<Rightarrow> (('t, 'z) cglr_state_scheme, 'a) act" where
  "on_denials m s = (case m (cg_denials s) of (r, d) \<Rightarrow> (r, s\<lparr>cg_denials := d\<rparr>))"

definition get_existing_generation ::
    "tenant_context \<Rightarrow> string \<Rightarrow> string \<Rightarrow> generated_content list \<Rightarrow> exn + generated_content option" where
  "get_existing_generation c idempotency_key request_hash records =
     (case find (\<lambda>r. gc_tenant_id r = tc_tenant_id c \<and> gc_idempotency_key r = idempotency_key) records of
        None \<Rightarrow> Inr None
      | Some r \<Rightarrow>
          if gc_request_hash r \<noteq> request_hash
          then Inl (SharedError 409 ''idempotency_conflict'' (tc_correlation_id c))
          else Inr (Some r))"

definition add_generation :: "generated_content \<Rightarrow> (('t, 'z) cglr_state_scheme, generated_content) act" where
  "add_generation r = bnd (modify (\<lambda>s. s\<lparr>cg_records := cg_records s @ [r]\<rparr>)) (\<lambda>_. ret r)"

text \<open>The fields that the tenant guard reads of a stored content.\<close>

definition guard_view :: "generated_content \<Rightarrow> db_record" where
  "guard_view r = [(''content_id'', JStr (gc_content_id r)), (''tenant_id'', JStr (gc_tenant_id r))]"

definition get_content_record ::
    "runtime \<Rightarrow> tenant_context \<Rightarrow> string \<Rightarrow> (('t, 'z) cglr_state_scheme, generated_content option) act" where
  "get_content_record rt c content_id =
     bnd (gets cg_records) (\<lambda>records.
     bnd (on_denials (get_owned rt ''generated_content'' None (map guard_view records) content_id (Some c) ''content_id'')) (\<lambda>owned.
     ret (case owned of None \<Rightarrow> None | Some _ \<Rightarrow> find (\<lambda>r. gc_content_id r = content_id) records)))"

section \<open>The handlers\<close>

definition generated_content_response :: "generated_content \<Rightarrow> exn + generated_content" where
  "generated_content_response r =
     model ''GeneratedContentResponse''
       (token_ok (pyd_strip (gc_content_id r)) \<and> tenant_id_ok (pyd_strip (gc_tenant_id r)) \<and>
        token_ok (pyd_strip (gc_template_id r)) \<and> audit_hash_ok (pyd_strip (gc_content_hash r)))
       (r\<lparr>gc_content_id := pyd_strip (gc_content_id r), gc_tenant_id := pyd_strip (gc_tenant_id r),
          gc_template_id := pyd_strip (gc_template_id r), gc_content := pyd_strip (gc_content r),
          gc_content_with_links := pyd_strip (gc_content_with_links r),
          gc_content_hash := pyd_strip (gc_content_hash r), gc_idempotency_key := [], gc_request_hash := []\<rparr>)"

definition rewards_of_links :: "referral_link list \<Rightarrow> reward_item list" where
  "rewards_of_links links =
     map (\<lambda>l. \<lparr>ri_level = rl_level l, ri_owner_id = rl_owner_id l, ri_reward_share = rl_reward_share l\<rparr>) links"

definition content_with_links :: "string \<Rightarrow> string \<Rightarrow> referral_link list \<Rightarrow> string" where
  "content_with_links heading content links =
     (if links = [] then content
      else rev (dropWhile py_isspace (rev content)) @ [CHR 0x0A, CHR 0x0A] @ heading @ [CHR 0x0A]
        @ join_with [CHR 0x0A] (map (\<lambda>l. referral_level_value (rl_level l) @ '': '' @ rl_url l) links))"

definition contribution_metadata :: "generate_request \<Rightarrow> string \<Rightarrow> string \<Rightarrow> (string \<times> json) list" where
  "contribution_metadata payload content_id hash =
     [(''source_type'', JStr ''cglr_generation''), (''content_id'', JStr content_id),
      (''template_id'', JStr (gr_template_id payload)), (''content_hash'', JStr hash),
      (''platform_targets'', JList (map JStr (gr_platform_targets payload))),
      (''metadata'', JObj (cs_metadata (gr_contribution payload)))]"

text \<open>\<open>payload.contribution.member_id or context.subject\<close>: an empty subject is still no \<open>None\<close>.\<close>

definition contribution_member :: "generate_request \<Rightarrow> tenant_context \<Rightarrow> exn + string" where
  "contribution_member payload c =
     (case (case cs_member_id (gr_contribution payload) of Some m \<Rightarrow> Some m | None \<Rightarrow> tc_subject c) of
        None \<Rightarrow> Inl (SharedError 400 ''validation_error'' (tc_correlation_id c))
      | Some m \<Rightarrow> Inr m)"

definition logged_contribution :: "logged_contribution \<Rightarrow> exn + logged_contribution" where
  "logged_contribution l =
     model ''LoggedContributionResponse''
       (token_ok (pyd_strip (lc_contribution_id l)) \<and> tenant_id_ok (pyd_strip (lc_tenant_id l)) \<and>
        token_ok (pyd_strip (lc_member_id l)) \<and> token_ok (pyd_strip (lc_source_ref l)) \<and>
        nonneg_finite (lc_points_awarded l) \<and> audit_hash_ok (pyd_strip (lc_audit_hash l)) \<and>
        token_ok (pyd_strip (lc_idempotency_key l)))
       (l\<lparr>lc_contribution_id := pyd_strip (lc_contribution_id l), lc_tenant_id := pyd_strip (lc_tenant_id l),
          lc_member_id := pyd_strip (lc_member_id l), lc_source_ref := pyd_strip (lc_source_ref l),
          lc_audit_hash := pyd_strip (lc_audit_hash l), lc_idempotency_key := pyd_strip (lc_idempotency_key l)\<rparr>)"

definition log_generation ::
    "runtime \<Rightarrow> tenant_context \<Rightarrow> generate_request \<Rightarrow> string \<Rightarrow> string \<Rightarrow> int
     \<Rightarrow> (('t, 'z) cglr_state_scheme, logged_contribution) act" where
  "log_generation rt c payload content_id hash occurred_at =
     (let settings = gr_contribution payload in
      bnd (lift (contribution_member payload c)) (\<lambda>member_id.
      bnd (lift (calculate_points (event_type_value (cs_event_type settings)) (Some (platform_value (cs_platform settings)))
             (cs_reach settings) (cs_extra_reach settings))) (\<lambda>calculated.
      bnd (new_id rt ''contribution'') (\<lambda>contribution_id.
      bnd (id_or_new rt (tc_correlation_id c) ''corr'') (\<lambda>correlation_id.
      bnd (record_contribution_event rt
             \<lparr>cl_contribution_id = contribution_id, cl_tenant_id = tc_tenant_id c, cl_member_id = member_id,
              cl_contribution_type = event_type_value (cs_event_type settings),
              cl_points_awarded = pt_final_points calculated,
              cl_metadata = contribution_metadata payload content_id hash,
              cl_occurred_at = AtTime (Aware occurred_at 0), cl_event_id = None, cl_audit_event_id = None,
              cl_correlation_id = correlation_id, cl_causation_id = Some content_id\<rparr>) (\<lambda>event_result.
      bnd (lift (logged_contribution
             \<lparr>lc_contribution_id = contribution_id, lc_tenant_id = tc_tenant_id c, lc_member_id = member_id,
              lc_event_type = cs_event_type settings, lc_source_type = ''cglr_generation'', lc_source_ref = content_id,
              lc_points_awarded = cx_points_awarded event_result, lc_audit_hash = cx_audit_hash event_result,
              lc_idempotency_key = ''cglr:'' @ content_id, lc_occurred_at = occurred_at,
              lc_created_at = rt_utcnow rt\<rparr>)) (\<lambda>logged.
      bnd (modify (\<lambda>s. s\<lparr>cg_contributions := cg_contributions s @ [logged]\<rparr>)) (\<lambda>_.
      ret logged))))))))"

definition publish_content_generated ::
    "runtime \<Rightarrow> tenant_context \<Rightarrow> generate_request \<Rightarrow> string \<Rightarrow> string \<Rightarrow> string
     \<Rightarrow> (('t, 'z) cglr_state_scheme, envelope) act" where
  "publish_content_generated rt c payload content_id hash idempotency_key =
     bnd (new_id rt ''evt-content'') (\<lambda>event_id.
     bnd (id_or_new rt (tc_correlation_id c) ''corr'') (\<lambda>correlation_id.
     emit event_id ''content.generated'' ''1.0'' (tc_tenant_id c) ''cglr'' correlation_id (rt_utcnow rt)
       [(''content_id'', JStr content_id), (''template_id'', JStr (gr_template_id payload)),
        (''content_hash'', JStr hash), (''platform_targets'', JList (map JStr (gr_platform_targets payload)))]
       (Some idempotency_key)))"

definition route_request_of :: "string \<Rightarrow> string \<Rightarrow> link_routing \<Rightarrow> exn + route_request" where
  "route_request_of tenant_id content_id g =
     link_route_request
       \<lparr>rq_tenant_id = tenant_id, rq_content_id = content_id, rq_admin_link = lg_admin_link g,
        rq_author_link = lg_author_link g, rq_l3_candidates = lg_l3_candidates g,
        rq_rotation_seed = lg_rotation_seed g, rq_l3_min_weight = lg_l3_min_weight g\<rparr>"

text \<open>The part of the handler for a new idempotency key.\<close>

definition generate_new_content ::
    "runtime \<Rightarrow> 't jinja \<Rightarrow> string \<Rightarrow> (string \<Rightarrow> bool) \<Rightarrow> tenant_context \<Rightarrow> string \<Rightarrow> string \<Rightarrow> generate_request
     \<Rightarrow> (('t, 'z) cglr_state_scheme, generated_content) act" where
  "generate_new_content rt lib heading bracketed c idempotency_key request_hash payload =
     bnd (new_id rt ''content'') (\<lambda>content_id.
     bnd (lift (template_render_request rt (gr_template_body payload) (gr_context payload) (gr_validation payload))) (\<lambda>req.
     bnd (on_engine (render_template lib req)) (\<lambda>rendered.
     bnd (lift (route_request_of (tc_tenant_id c) content_id (gr_link_routing payload))) (\<lambda>route.
     bnd (lift (generate_referral_links rt bracketed route)) (\<lambda>routed.
     let links = rr_links routed;
         hash = content_hash rt (tc_tenant_id c) (gr_template_id payload) (rn_content rendered) links
     in
     bnd (publish_content_generated rt c payload content_id hash idempotency_key) (\<lambda>_.
     bnd (log_generation rt c payload content_id hash
            (case cs_occurred_at (gr_contribution payload) of None \<Rightarrow> rt_utcnow rt | Some t \<Rightarrow> t)) (\<lambda>contribution.
     bnd (add_generation
            \<lparr>gc_content_id = content_id, gc_tenant_id = tc_tenant_id c, gc_template_id = gr_template_id payload,
             gc_content = rn_content rendered, gc_content_with_links = content_with_links heading (rn_content rendered) links,
             gc_content_hash = hash, gc_links = links, gc_reward_distribution = rewards_of_links links,
             gc_contribution = contribution, gc_idempotency_key = idempotency_key,
             gc_request_hash = request_hash, gc_created_at = rt_utcnow rt\<rparr>) (\<lambda>r.
     lift (generated_content_response r)))))))))"

definition generate_content ::
    "runtime \<Rightarrow> json_mode \<Rightarrow> 't jinja \<Rightarrow> string \<Rightarrow> (string \<Rightarrow> bool) \<Rightarrow> tenant_context option \<Rightarrow> string
     \<Rightarrow> generate_request \<Rightarrow> (('t, 'z) cglr_state_scheme, generated_content) act" where
  "generate_content rt jm lib heading bracketed ambient idempotency_key payload =
     bnd (lift (resolve_context ambient None)) (\<lambda>c.
     bnd (require (token_ok idempotency_key) (ValidationError ''request'')) (\<lambda>_.
     let request_hash = generate_request_hash rt jm (tc_tenant_id c) idempotency_key payload in
     bnd (gets cg_records) (\<lambda>records.
     bnd (lift (get_existing_generation c idempotency_key request_hash records)) (\<lambda>existing.
     case existing of
       Some r \<Rightarrow> lift (generated_content_response r)
     | None \<Rightarrow> generate_new_content rt lib heading bracketed c idempotency_key request_hash payload))))"

definition get_content ::
    "runtime \<Rightarrow> tenant_context option \<Rightarrow> string \<Rightarrow> (('t, 'z) cglr_state_scheme, generated_content) act" where
  "get_content rt ambient content_id =
     bnd (lift (resolve_context ambient None)) (\<lambda>c.
     bnd (require (token_ok content_id) (ValidationError ''request'')) (\<lambda>_.
     bnd (get_content_record rt c content_id) (\<lambda>found.
     case found of
       None \<Rightarrow> fail (SharedError 404 ''content_not_found'' (tc_correlation_id c))
     | Some r \<Rightarrow> lift (generated_content_response r))))"

section \<open>What the handlers do\<close>

lemma svc_rest_fields:
  assumes "svc_rest t = svc_rest s"
  shows "cg_records t = cg_records s" and "cg_contributions t = cg_contributions s"
  using arg_cong [OF assms, of cg_records] arg_cong [OF assms, of cg_contributions] by (simp_all add: svc_rest_def)

lemma svc_rest_uuids: "svc_rest (s\<lparr>uuids := n\<rparr>) = svc_rest s"
  by (simp add: svc_rest_def)

lemma on_engine_rule: "(\<And>r e. Q r (s\<lparr>cg_engine := e\<rparr>)) \<Longrightarrow> outcome (on_engine m) Q s"
  by (simp add: outcome_def on_engine_def split: prod.split)

text \<open>The contribution that a request books for a member: of the caller's tenant, of the kind of the request, for
  this content, with the points that the calculator gives.\<close>

definition contribution_booked ::
    "tenant_context \<Rightarrow> generate_request \<Rightarrow> string \<Rightarrow> string \<Rightarrow> logged_contribution \<Rightarrow> bool" where
  "contribution_booked c payload content_id member_id l \<longleftrightarrow>
     (let settings = gr_contribution payload in
      lc_tenant_id l = pyd_strip (tc_tenant_id c) \<and> lc_member_id l = pyd_strip member_id \<and>
      lc_event_type l = cs_event_type settings \<and> lc_source_type l = ''cglr_generation'' \<and>
      lc_source_ref l = pyd_strip content_id \<and>
      (\<exists>calculated.
         calculate_points (event_type_value (cs_event_type settings)) (Some (platform_value (cs_platform settings)))
           (cs_reach settings) (cs_extra_reach settings) = Inr calculated \<and>
         lc_points_awarded l = pt_final_points calculated))"

text \<open>The two events of a stored contribution.\<close>

definition announces :: "runtime \<Rightarrow> logged_contribution \<Rightarrow> envelope \<Rightarrow> envelope \<Rightarrow> bool" where
  "announces rt l e1 e2 \<longleftrightarrow>
     (\<exists>hash. lc_audit_hash l = pyd_strip hash \<and>
        events_of_contribution (lc_tenant_id l) (lc_contribution_id l)
          (member_id_hash rt (lc_tenant_id l) (lc_member_id l)) (event_type_value (lc_event_type l))
          (lc_points_awarded l) hash e1 e2)"

lemma event_type_value_normal: "normalize_enum_value (event_type_value e) = event_type_value e"
  by (induct e; code_simp)

lemma logged_contribution_announced:
  assumes "events_of_call rt
      \<lparr>cl_contribution_id = i, cl_tenant_id = tc_tenant_id c, cl_member_id = m,
       cl_contribution_type = event_type_value (cs_event_type (gr_contribution payload)), cl_points_awarded = p,
       cl_metadata = md, cl_occurred_at = occ, cl_event_id = None, cl_audit_event_id = None,
       cl_correlation_id = cid, cl_causation_id = cau\<rparr> hash e1 e2"
    and "logged_contribution
      \<lparr>lc_contribution_id = i, lc_tenant_id = tc_tenant_id c, lc_member_id = m,
       lc_event_type = cs_event_type (gr_contribution payload), lc_source_type = ''cglr_generation'', lc_source_ref = content_id,
       lc_points_awarded = p, lc_audit_hash = hash, lc_idempotency_key = k, lc_occurred_at = occurred,
       lc_created_at = now\<rparr> = Inr l"
    and "calculate_points (event_type_value (cs_event_type (gr_contribution payload)))
      (Some (platform_value (cs_platform (gr_contribution payload)))) (cs_reach (gr_contribution payload))
      (cs_extra_reach (gr_contribution payload)) = Inr calculated"
    and "p = pt_final_points calculated"
  shows "contribution_booked c payload content_id m l \<and> announces rt l e1 e2"
proof -
  have l: "lc_contribution_id l = pyd_strip i" "lc_tenant_id l = pyd_strip (tc_tenant_id c)" "lc_member_id l = pyd_strip m"
    "lc_event_type l = cs_event_type (gr_contribution payload)" "lc_source_type l = ''cglr_generation''"
    "lc_source_ref l = pyd_strip content_id" "lc_points_awarded l = p" "lc_audit_hash l = pyd_strip hash"
    using assms(2) by (auto simp: logged_contribution_def)
  have "contribution_booked c payload content_id m l"
    using assms(3,4) by (simp add: contribution_booked_def Let_def l)
  moreover have "announces rt l e1 e2"
    unfolding announces_def l using assms(1)
    by (intro exI [where x = hash]) (simp add: events_of_call_def event_type_value_normal)
  ultimately show ?thesis ..
qed

lemma log_generation_rule:
  assumes fails: "\<And>e t ms. cg_records t = cg_records s \<Longrightarrow> bus t = bus s @ ms \<Longrightarrow>
      isl (contribution_member payload c) \<longrightarrow> ms = [] \<and> cg_contributions t = cg_contributions s \<Longrightarrow> Q (Inl e) t"
    and succeeds: "\<And>l t ma mb m. cg_records t = cg_records s \<Longrightarrow> bus t = bus s @ [ma, mb] \<Longrightarrow>
      cg_contributions t = cg_contributions s @ [l] \<Longrightarrow> contribution_member payload c = Inr m \<Longrightarrow>
      contribution_booked c payload content_id m l \<Longrightarrow> announces rt l (pub_envelope ma) (pub_envelope mb) \<Longrightarrow> Q (Inr l) t"
  shows "outcome (log_generation rt c payload content_id hash occurred_at) Q s"
proof (cases "contribution_member payload c")
  case (Inl e)
  then show ?thesis using fails [of s "[]" e] by (simp add: log_generation_def Let_def act_simps)
next
  case (Inr m)
  have fail0: "Q (Inl e) t" if "bus t = bus s" "svc_rest t = svc_rest s" for e t
    using that svc_rest_fields [OF that(2)] Inr by (intro fails [of t "[]"]) simp_all
  have fail2: "Q (Inl e) t" if "bus t = bus s @ [m1, m2]" "svc_rest t = svc_rest s" for e t m1 m2
    using that svc_rest_fields [OF that(2)] Inr by (intro fails [of t "[m1, m2]"]) simp_all
  have done2: "Q (Inr l) (t\<lparr>cg_contributions := cg_contributions t @ [l]\<rparr>)"
    if "bus t = bus s @ [m1, m2]" "svc_rest t = svc_rest s"
      "contribution_booked c payload content_id m l \<and> announces rt l (pub_envelope m1) (pub_envelope m2)"
    for l t m1 m2
    using that svc_rest_fields [OF that(2)] Inr by (intro succeeds [where ma = m1 and mb = m2 and m = m]) simp_all
  show ?thesis
    unfolding log_generation_def Let_def Inr
    by (auto simp: act_simps new_id_def svc_rest_uuids Inr split: sum.split
        intro!: id_or_new_state record_contribution_event_rule intro: fail0 fail2)
      (rule done2, assumption, assumption, rule logged_contribution_announced, simp, simp, assumption, simp)+
qed

text \<open>What the handler makes of a new key: nothing is stored when it raises; otherwise one content, with three links,
  one contribution of the author and three events.\<close>

definition content_stored ::
    "runtime \<Rightarrow> tenant_context \<Rightarrow> string \<Rightarrow> string \<Rightarrow> generate_request \<Rightarrow> (('t, 'z) cglr_state_scheme)
     \<Rightarrow> exn + generated_content \<Rightarrow> ('t, 'z) cglr_state_scheme \<Rightarrow> bool" where
  "content_stored rt c key request_hash payload s r t \<longleftrightarrow>
     (\<exists>x m1 m2 m3 member_id.
        cg_records t = cg_records s @ [x] \<and> r = generated_content_response x \<and> bus t = bus s @ [m1, m2, m3] \<and>
        gc_tenant_id x = tc_tenant_id c \<and> gc_idempotency_key x = key \<and> gc_request_hash x = request_hash \<and>
        gc_content_hash x = content_hash rt (tc_tenant_id c) (gc_template_id x) (gc_content x) (gc_links x) \<and>
        map rl_level (gc_links x) = [L1, L2, L3] \<and> gc_reward_distribution x = rewards_of_links (gc_links x) \<and>
        ev_type (pub_envelope m1) = ''content.generated'' \<and>
        ev_tenant_id (pub_envelope m1) = py_strip (tc_tenant_id c) \<and>
        map_of (ev_payload (pub_envelope m1)) ''content_id'' = Some (JStr (gc_content_id x)) \<and>
        map_of (ev_payload (pub_envelope m1)) ''content_hash'' = Some (JStr (gc_content_hash x)) \<and>
        contribution_member payload c = Inr member_id \<and>
        contribution_booked c payload (gc_content_id x) member_id (gc_contribution x) \<and>
        cg_contributions t = cg_contributions s @ [gc_contribution x] \<and>
        announces rt (gc_contribution x) (pub_envelope m2) (pub_envelope m3))"

definition generation_failed ::
    "tenant_context \<Rightarrow> generate_request \<Rightarrow> ('t, 'z) cglr_state_scheme \<Rightarrow> exn + generated_content
     \<Rightarrow> ('t, 'z) cglr_state_scheme \<Rightarrow> bool" where
  "generation_failed c payload s r t \<longleftrightarrow>
     isl r \<and> cg_records t = cg_records s \<and>
     (isl (contribution_member payload c) \<longrightarrow> cg_contributions t = cg_contributions s)"

definition generation_result ::
    "runtime \<Rightarrow> tenant_context \<Rightarrow> string \<Rightarrow> string \<Rightarrow> generate_request \<Rightarrow> ('t, 'z) cglr_state_scheme
     \<Rightarrow> exn + generated_content \<Rightarrow> ('t, 'z) cglr_state_scheme \<Rightarrow> bool" where
  "generation_result rt c key request_hash payload s r t \<longleftrightarrow>
     generation_failed c payload s r t \<or> content_stored rt c key request_hash payload s r t"

lemma generated_levels: "generate_referral_links rt bracketed q = Inr r \<Longrightarrow> map rl_level (rr_links r) = [L1, L2, L3]"
  by (auto simp: generate_referral_links_def build_referral_link_def referral_link_def Let_def)

lemma generation_failed_early:
  "cg_records t = cg_records s \<Longrightarrow> isl (contribution_member payload c) \<longrightarrow> cg_contributions t = cg_contributions s \<Longrightarrow>
     generation_result rt c key h payload s (Inl e) t"
  by (simp add: generation_result_def generation_failed_def)

lemma generation_stored:
  assumes "generate_referral_links rt bracketed q = Inr routed"
    and "bus t = bus s @ [m1, m2, m3]" and "cg_records t = cg_records s"
    and "ev_type (pub_envelope m1) = py_strip ''content.generated''"
    and "ev_payload (pub_envelope m1) =
      [(''content_id'', JStr (gc_content_id x)), (''template_id'', tid), (''content_hash'', JStr (gc_content_hash x)), p]"
    and "contribution_member payload c = Inr m" and "cg_contributions t = cg_contributions s @ [l]"
    and "contribution_booked c payload (gc_content_id x) m l" and "announces rt l (pub_envelope m2) (pub_envelope m3)"
    and "ev_tenant_id (pub_envelope m1) = py_strip (tc_tenant_id c)"
    and "gc_links x = rr_links routed" and "gc_contribution x = l" and "r = generated_content_response x"
    and "gc_tenant_id x = tc_tenant_id c" and "gc_idempotency_key x = key" and "gc_request_hash x = hh"
    and "gc_content_hash x = content_hash rt (tc_tenant_id c) (gc_template_id x) (gc_content x) (gc_links x)"
    and "gc_reward_distribution x = rewards_of_links (gc_links x)"
  shows "generation_result rt c key hh payload s r (t\<lparr>cg_records := cg_records s @ [x]\<rparr>)"
proof -
  have "py_strip ''content.generated'' = ''content.generated''" by (simp add: text_defs)
  then show ?thesis
    using assms(2,4-18) generated_levels [OF assms(1)] unfolding generation_result_def content_stored_def
    by (intro disjI2 exI [where x = x] exI [where x = m1] exI [where x = m2] exI [where x = m3] exI [where x = m]) simp
qed

lemma generate_new_content_rule:
  "outcome (generate_new_content rt lib heading bracketed c key request_hash payload)
     (generation_result rt c key request_hash payload s) s"
  unfolding generate_new_content_def publish_content_generated_def
  by (auto simp: act_simps new_id_def Let_def add_generation_def split: sum.split
      intro!: on_engine_rule id_or_new_state emit_rule log_generation_rule
      intro: generation_failed_early)
    (rule generation_stored, assumption, assumption, assumption, assumption, (simp; fail)+)

lemma generate_content_cases:
  assumes "generate_content rt jm lib heading bracketed ambient key payload s = (r, t)"
  obtains (refused) "isl r" "t = s"
  | (found) c x where "ambient = Some c" "t = s" "r = generated_content_response x"
      "find (\<lambda>r. gc_tenant_id r = tc_tenant_id c \<and> gc_idempotency_key r = key) (cg_records s) = Some x"
      "gc_request_hash x = generate_request_hash rt jm (tc_tenant_id c) key payload"
  | (new) c where "ambient = Some c" "token_ok key"
      "find (\<lambda>r. gc_tenant_id r = tc_tenant_id c \<and> gc_idempotency_key r = key) (cg_records s) = None"
      "generation_result rt c key (generate_request_hash rt jm (tc_tenant_id c) key payload) payload s r t"
proof (cases "ambient = None \<or> \<not> token_ok key")
  case True
  then have "isl r \<and> t = s"
    using assms by (auto simp: generate_content_def resolve_context_def bnd_def act_eval split: option.splits)
  then show ?thesis using refused by blast
next
  case False
  then obtain c where c: "ambient = Some c" "token_ok key" by auto
  let ?hash = "generate_request_hash rt jm (tc_tenant_id c) key payload"
  show ?thesis
  proof (cases "find (\<lambda>r. gc_tenant_id r = tc_tenant_id c \<and> gc_idempotency_key r = key) (cg_records s)")
    case None
    then have "generate_new_content rt lib heading bracketed c key ?hash payload s = (r, t)"
      using assms c by (simp add: generate_content_def resolve_context_def get_existing_generation_def bnd_def act_eval Let_def)
    from outcomeD [OF generate_new_content_rule this] c None show ?thesis by (intro new) simp_all
  next
    case (Some x)
    show ?thesis
    proof (cases "gc_request_hash x = ?hash")
      case True
      then have "r = generated_content_response x \<and> t = s"
        using assms c Some
        by (simp add: generate_content_def resolve_context_def get_existing_generation_def bnd_def act_eval Let_def)
      with c Some True show ?thesis by (intro found) simp_all
    next
      case False
      then have "isl r \<and> t = s"
        using assms c Some
        by (auto simp: generate_content_def resolve_context_def get_existing_generation_def bnd_def act_eval Let_def)
      then show ?thesis using refused by blast
    qed
  qed
qed

section \<open>Sequences of requests\<close>

datatype cglr_call =
    GenerateContent "tenant_context option" string generate_request
  | GetContent "tenant_context option" string

fun cglr_step ::
    "runtime \<Rightarrow> json_mode \<Rightarrow> 't jinja \<Rightarrow> string \<Rightarrow> (string \<Rightarrow> bool) \<Rightarrow> cglr_call
     \<Rightarrow> ('t, 'z) cglr_state_scheme \<Rightarrow> ('t, 'z) cglr_state_scheme" where
  "cglr_step rt jm lib heading bracketed (GenerateContent ctx key payload) s =
     snd (generate_content rt jm lib heading bracketed ctx key payload s)"
| "cglr_step rt jm lib heading bracketed (GetContent ctx content_id) s = snd (get_content rt ctx content_id s)"

definition cglr_run ::
    "runtime \<Rightarrow> json_mode \<Rightarrow> 't jinja \<Rightarrow> string \<Rightarrow> (string \<Rightarrow> bool) \<Rightarrow> cglr_call list
     \<Rightarrow> ('t, 'z) cglr_state_scheme \<Rightarrow> ('t, 'z) cglr_state_scheme" where
  "cglr_run rt jm lib heading bracketed calls s = fold (cglr_step rt jm lib heading bracketed) calls s"

lemma on_denials_rule: "(\<And>r d. Q r (s\<lparr>cg_denials := d\<rparr>)) \<Longrightarrow> outcome (on_denials m) Q s"
  by (simp add: outcome_def on_denials_def split: prod.split)

lemma get_content_records: "cg_records (snd (get_content rt ctx content_id s)) = cg_records s"
proof -
  have "outcome (get_content rt ctx content_id) (\<lambda>r t. cg_records t = cg_records s) s"
    unfolding get_content_def get_content_record_def
    by (auto simp: act_simps split: sum.split option.split intro!: on_denials_rule)
  then show ?thesis by (simp add: outcome_snd)
qed

lemma cglr_step_appends: "\<exists>xs. cg_records (cglr_step rt jm lib heading bracketed k s) = cg_records s @ xs"
proof (cases k)
  case (GenerateContent ctx key payload)
  obtain r t where t: "generate_content rt jm lib heading bracketed ctx key payload s = (r, t)" by fastforce
  then have "\<exists>xs. cg_records t = cg_records s @ xs"
    by (cases rule: generate_content_cases) (auto simp: generation_result_def generation_failed_def content_stored_def)
  then show ?thesis by (simp add: GenerateContent t)
next
  case (GetContent ctx content_id)
  then show ?thesis by (simp add: get_content_records)
qed

lemma cglr_run_appends: "\<exists>xs. cg_records (cglr_run rt jm lib heading bracketed calls s) = cg_records s @ xs"
proof (induction calls arbitrary: s)
  case (Cons k calls)
  obtain xs where "cg_records (cglr_step rt jm lib heading bracketed k s) = cg_records s @ xs"
    using cglr_step_appends by blast
  with Cons [of "cglr_step rt jm lib heading bracketed k s"] show ?case by (auto simp: cglr_run_def)
qed (simp add: cglr_run_def)

text \<open>After a success the content of the key is stored.\<close>

lemma generated_is_found:
  assumes "generate_content rt jm lib heading bracketed ambient key payload s = (Inr y, t)"
  shows "\<exists>c x. ambient = Some c \<and> generated_content_response x = Inr y \<and>
    find (\<lambda>r. gc_tenant_id r = tc_tenant_id c \<and> gc_idempotency_key r = key) (cg_records t) = Some x \<and>
    gc_request_hash x = generate_request_hash rt jm (tc_tenant_id c) key payload"
  using assms
proof (cases rule: generate_content_cases)
  case (new c)
  then obtain x where "cg_records t = cg_records s @ [x]" "Inr y = generated_content_response x"
    "gc_tenant_id x = tc_tenant_id c" "gc_idempotency_key x = key"
    "gc_request_hash x = generate_request_hash rt jm (tc_tenant_id c) key payload"
    by (auto simp: generation_result_def generation_failed_def content_stored_def)
  with new show ?thesis by (auto simp: find_snoc)
qed auto

lemma generate_again:
  assumes "find (\<lambda>r. gc_tenant_id r = tc_tenant_id c \<and> gc_idempotency_key r = key) (cg_records s) = Some x"
    and "gc_request_hash x = generate_request_hash rt jm (tc_tenant_id c) key payload" and "token_ok key"
  shows "generate_content rt jm lib heading bracketed (Some c) key payload s = (generated_content_response x, s)"
  using assms by (simp add: generate_content_def resolve_context_def get_existing_generation_def bnd_def act_eval Let_def)

lemma generate_needs_key:
  "generate_content rt jm lib heading bracketed ambient key payload s = (Inr y, t) \<Longrightarrow> token_ok key"
  by (auto simp: generate_content_def bnd_Inr act_eval split: if_splits)

end
