(* ===== verification/CglrProperties.thy ===== *)
theory CglrProperties
  imports Cglr LinksProperties TemplateProperties
begin

text \<open>
  The properties of the content generator: what a success stores and announces, that a repeated request
  gets the same content, and what is left of a request without an author.
\<close>

section \<open>A request\<close>

text \<open>The digest is constant and small, so that the draw of the partner computes quickly.\<close>

definition zero_runtime :: runtime where
  "zero_runtime = sample_runtime\<lparr>rt_sha256 := \<lambda>text. replicate 64 (CHR ''0'')\<rparr>"

definition sample_mode :: json_mode where
  "sample_mode = \<lparr>jm_time = \<lambda>t. ''t'', jm_value = \<lambda>j. j\<rparr>"

definition author_context :: tenant_context where
  "author_context = \<lparr>tc_tenant_id = ''t'', tc_subject = Some ''m'', tc_roles = [], tc_correlation_id = Some ''r''\<rparr>"

definition anonymous_context :: tenant_context where
  "anonymous_context = author_context\<lparr>tc_subject := None\<rparr>"

definition plain_partner :: link_target where
  "plain_partner = \<lparr>lt_owner_id = ''a'', lt_url = ''http://a'', lt_weight = Fin 1\<rparr>"

definition sample_generation :: generate_request where
  "sample_generation =
     \<lparr>gr_template_id = ''p'', gr_template_body = ''ab'', gr_context = [], gr_validation = sample_rules,
      gr_platform_targets = [],
      gr_link_routing =
        \<lparr>lg_admin_link = plain_partner, lg_author_link = plain_partner, lg_l3_candidates = [plain_partner],
         lg_rotation_seed = None, lg_l3_min_weight = Fin 0\<rparr>,
      gr_contribution =
        \<lparr>cs_member_id = None, cs_event_type = CONTENT_CREATION, cs_platform = DEFAULT, cs_reach = 0, cs_extra_reach = 0,
         cs_metadata = [], cs_occurred_at = None\<rparr>\<rparr>"

definition empty_generator :: "string cglr_state" where
  "empty_generator =
     \<lparr>audit_sink = None, uuids = 0, bus = [], cg_records = [], cg_contributions = [], cg_engine = sample_engine,
      cg_denials = Some []\<rparr>"

section \<open>The run\<close>

definition sample_routing :: route_request where
  "sample_routing =
     \<lparr>rq_tenant_id = ''t'', rq_content_id = ''content-u'', rq_admin_link = plain_partner, rq_author_link = plain_partner,
      rq_l3_candidates = [plain_partner], rq_rotation_seed = None, rq_l3_min_weight = Fin 0\<rparr>"

lemma zero_digest: "rt_sha256 zero_runtime s = replicate 64 (CHR ''0'')"
  by (simp add: zero_runtime_def)

lemma plain_split:
  "urlsplit plain_bracket ''http://a'' =
     Inr \<lparr>up_scheme = ''http'', up_netloc = ''a'', up_path = [], up_query = [], up_fragment = []\<rparr>"
  by code_simp

lemma plain_query:
  "urlencode (tracking_params (replicate 32 (CHR ''0'')) ''t'' ''content-u'' level ''a'') =
     ''nmc_route_id='' @ replicate 32 (CHR ''0'') @ ''&nmc_tenant_id=t&nmc_content_id=content-u&nmc_level=''
     @ referral_level_value level @ ''&nmc_owner_id=a''"
proof -
  have zeros: "quote_plus (replicate 32 (CHR ''0'')) = replicate 32 (CHR ''0'')"
    by (rule quote_plus_safe) (simp add: list_all_iff always_safe_def char_class_defs)
  have names: "quote_plus ''nmc_route_id'' = ''nmc_route_id''" "quote_plus ''nmc_tenant_id'' = ''nmc_tenant_id''"
    "quote_plus ''nmc_content_id'' = ''nmc_content_id''" "quote_plus ''nmc_level'' = ''nmc_level''"
    "quote_plus ''nmc_owner_id'' = ''nmc_owner_id''" "quote_plus ''t'' = ''t''" "quote_plus ''a'' = ''a''"
    "quote_plus ''content-u'' = ''content-u''" "quote_plus (referral_level_value level) = referral_level_value level"
    by (rule quote_plus_safe, (cases level)?, simp_all add: always_safe_def char_class_defs)+
  show ?thesis
    by (simp add: urlencode_def encode_item_def tracking_params_def zeros names)
qed

lemma plain_append:
  "append_tracking_params plain_bracket ''http://a''
     (tracking_params (replicate 32 (CHR ''0'')) ''t'' ''content-u'' level ''a'') =
   Inr (''http://a?nmc_route_id='' @ replicate 32 (CHR ''0'') @ ''&nmc_tenant_id=t&nmc_content_id=content-u&nmc_level=''
     @ referral_level_value level @ ''&nmc_owner_id=a'')"
proof -
  have "parse_qsl [] = []" by code_simp
  then show ?thesis
    by (simp add: append_tracking_params_def plain_split plain_query Let_def urlunsplit_def)
qed

lemma plain_link: "\<exists>l. build_referral_link zero_runtime plain_bracket sample_routing level plain_partner seed = Inr l"
proof -
  have "route_id zero_runtime ''t'' ''content-u'' level plain_partner = replicate 32 (CHR ''0'')"
    by (simp add: route_id_def zero_digest take_replicate)
  moreover have "length_between 1 2048 (pyd_strip url) \<and> token_ok (pyd_strip (replicate 32 (CHR ''0'')))"
    if "url = ''http://a?nmc_route_id='' @ replicate 32 (CHR ''0'') @ ''&nmc_tenant_id=t&nmc_content_id=content-u&nmc_level=''
     @ referral_level_value level @ ''&nmc_owner_id=a''" for url
    unfolding that by (induct level; code_simp)
  moreover have "tenant_id_ok (pyd_strip ''t'') \<and> token_ok (pyd_strip ''content-u'') \<and> token_ok (pyd_strip ''a'')"
    by code_simp
  moreover have "finite_between 0 1 (reward_rate level)" by (cases level) simp_all
  ultimately show ?thesis
    using plain_append [of level]
    by (simp add: build_referral_link_def sample_routing_def plain_partner_def referral_link_def Let_def)
qed

lemma sample_links: "\<exists>r. generate_referral_links zero_runtime plain_bracket sample_routing = Inr r"
proof -
  have "\<exists>p. select_l3_partner zero_runtime [plain_partner] seed (Fin 0) = Inr p" for seed
    unfolding select_l3_partner_iff using scale_small_weight [of 1] by (simp add: plain_partner_def)
  then obtain p where p: "select_l3_partner zero_runtime [plain_partner] (resolve_rotation_seed sample_routing) (Fin 0) = Inr p"
    by blast
  then have "p = plain_partner" using select_l3_partner_member [OF p] by simp
  moreover obtain a b c where "build_referral_link zero_runtime plain_bracket sample_routing L1 plain_partner None = Inr a"
    "build_referral_link zero_runtime plain_bracket sample_routing L2 plain_partner None = Inr b"
    "build_referral_link zero_runtime plain_bracket sample_routing L3 plain_partner (Some (resolve_rotation_seed sample_routing)) = Inr c"
    using plain_link by blast
  moreover have "rq_admin_link sample_routing = plain_partner" "rq_author_link sample_routing = plain_partner"
    "rq_l3_candidates sample_routing = [plain_partner]" "rq_l3_min_weight sample_routing = Fin 0"
    by (simp_all add: sample_routing_def)
  ultimately show ?thesis using p by (simp add: generate_referral_links_def Let_def)
qed

definition announced :: "string cglr_state" where
  "announced = empty_generator\<lparr>uuids := 1, cg_engine := sample_engine\<lparr>te_template_cache := [(''ab'', ''ab'')]\<rparr>\<rparr>"

lemma sample_log:
  "\<not> isl (fst (bnd (publish_content_generated zero_runtime author_context sample_generation ''content-u'' h ''k'')
     (\<lambda>_. log_generation zero_runtime author_context sample_generation ''content-u'' h 0) announced))"
  by code_simp

lemma sample_render_run:
  "on_engine (render_template sample_jinja \<lparr>rd_template_body = ''ab'', rd_context = [], rd_validation = sample_rules\<rparr>)
     (empty_generator\<lparr>uuids := 1\<rparr>) =
   (Inr \<lparr>rn_content = ''ab'', rn_content_length = 2, rn_required_blocks = [''ab'']\<rparr>, announced)"
  by code_simp

lemma sample_request_one:
  "template_render_request zero_runtime ''ab'' [] sample_rules =
     Inr \<lparr>rd_template_body = ''ab'', rd_context = [], rd_validation = sample_rules\<rparr>"
proof -
  have "pyd_strip ''ab'' = ''ab'' \<and> context_keys_ok []" by code_simp
  then show ?thesis
    by (simp add: template_render_request_def zero_runtime_def sample_runtime_def model_def length_between_def)
qed

lemma sample_request_two:
  "route_request_of ''t'' ''content-u'' (gr_link_routing sample_generation) = Inr sample_routing"
  by code_simp

lemmas sample_requests = sample_request_one sample_request_two

lemma sample_new_id: "new_id zero_runtime ''content'' empty_generator = (Inr ''content-u'', empty_generator\<lparr>uuids := 1\<rparr>)"
  by code_simp

lemma sample_new_content:
  "\<exists>x t. generate_new_content zero_runtime sample_jinja heading plain_bracket author_context ''k'' key_hash sample_generation
     empty_generator = (Inr x, t)"
proof -
  obtain routed where routed: "generate_referral_links zero_runtime plain_bracket sample_routing = Inr routed"
    using sample_links by blast
  define h where "h = content_hash zero_runtime ''t'' ''p'' ''ab'' (rr_links routed)"
  obtain l t where log: "bnd (publish_content_generated zero_runtime author_context sample_generation ''content-u'' h ''k'')
     (\<lambda>_. log_generation zero_runtime author_context sample_generation ''content-u'' h 0) announced = (Inr l, t)"
    using not_isl_Inr [OF sample_log [of h]] by blast
  have parts: "tc_tenant_id author_context = ''t''" "gr_template_body sample_generation = ''ab''" "gr_context sample_generation = []"
    "gr_validation sample_generation = sample_rules" "gr_template_id sample_generation = ''p''"
    "cs_occurred_at (gr_contribution sample_generation) = None" "rt_utcnow zero_runtime = 0"
    by (simp_all add: author_context_def sample_generation_def zero_runtime_def sample_runtime_def)
  have response: "\<exists>y. generated_content_response x = Inr y"
    if "gc_content_id x = ''content-u''" "gc_tenant_id x = ''t''" "gc_template_id x = ''p''" "gc_content_hash x = h" for x
  proof -
    have "token_ok (pyd_strip ''content-u'') \<and> tenant_id_ok (pyd_strip ''t'') \<and> token_ok (pyd_strip ''p'') \<and>
        audit_hash_ok (pyd_strip (replicate 64 (CHR ''0'')))"
      by code_simp
    moreover have "h = replicate 64 (CHR ''0'')" by (simp add: h_def content_hash_def hash_json_raw_def zero_digest)
    ultimately show ?thesis by (simp add: generated_content_response_def that)
  qed
  show ?thesis
    using log response
    by (simp add: generate_new_content_def bnd_def act_eval sample_new_id sample_requests sample_render_run [simplified] parts routed
        add_generation_def Let_def flip: h_def split: prod.splits sum.splits)
qed

lemma sample_generate:
  "\<exists>x t. generate_content zero_runtime sample_mode sample_jinja heading plain_bracket (Some author_context) ''k''
     sample_generation empty_generator = (Inr x, t)"
proof -
  have "token_ok ''k''" by code_simp
  then show ?thesis
    using sample_new_content
    by (simp add: generate_content_def resolve_context_def get_existing_generation_def bnd_def act_eval Let_def
        empty_generator_def)
qed

section \<open>The properties\<close>

text \<open>C36. A success under a new idempotency key stores exactly one content of the caller's tenant, books
  exactly one contribution and publishes exactly three events. The content has its three links of the levels
  one to three and their rewards, under a hash of the text and the links; the first event is
  content.generated of this tenant, with this content and this hash. The contribution is that of the author
  (the member the request names, or the caller): of this tenant, for this content, of the kind of the
  request and with the points of the calculator; it is stored with the content. The other two events are
  contribution.recorded and audit.record.requested of this tenant, for this contribution, its kind, its
  points, its audit hash and the hash of its member.\<close>

theorem generated_content_is_announced:
  assumes "generate_content rt jm lib heading bracketed (Some c) key payload s = (Inr y, t)"
    and "find (\<lambda>r. gc_tenant_id r = tc_tenant_id c \<and> gc_idempotency_key r = key) (cg_records s) = None"
  shows "\<exists>x announced contribution audit author h.
    cg_records t = cg_records s @ [x] \<and> bus t = bus s @ [announced, contribution, audit] \<and>
    cg_contributions t = cg_contributions s @ [gc_contribution x] \<and>
    gc_tenant_id x = tc_tenant_id c \<and> gc_idempotency_key x = key \<and>
    gc_content_hash x = content_hash rt (tc_tenant_id c) (gc_template_id x) (gc_content x) (gc_links x) \<and>
    map rl_level (gc_links x) = [L1, L2, L3] \<and> gc_reward_distribution x = rewards_of_links (gc_links x) \<and>
    ev_type (pub_envelope announced) = ''content.generated'' \<and>
    ev_tenant_id (pub_envelope announced) = py_strip (tc_tenant_id c) \<and>
    map_of (ev_payload (pub_envelope announced)) ''content_id'' = Some (JStr (gc_content_id x)) \<and>
    map_of (ev_payload (pub_envelope announced)) ''content_hash'' = Some (JStr (gc_content_hash x)) \<and>
    contribution_member payload c = Inr author \<and>
    contribution_booked c payload (gc_content_id x) author (gc_contribution x) \<and>
    lc_audit_hash (gc_contribution x) = pyd_strip h \<and>
    events_of_contribution (pyd_strip (tc_tenant_id c)) (lc_contribution_id (gc_contribution x))
      (member_id_hash rt (pyd_strip (tc_tenant_id c)) (pyd_strip author))
      (event_type_value (cs_event_type (gr_contribution payload))) (lc_points_awarded (gc_contribution x)) h
      (pub_envelope contribution) (pub_envelope audit)"
  using assms(1)
proof (cases rule: generate_content_cases)
  case (new d)
  then have "content_stored rt c key (generate_request_hash rt jm (tc_tenant_id c) key payload) payload s (Inr y) t"
    by (simp add: generation_result_def generation_failed_def)
  then obtain x m1 m2 m3 author where x: "cg_records t = cg_records s @ [x]" "bus t = bus s @ [m1, m2, m3]"
      "cg_contributions t = cg_contributions s @ [gc_contribution x]"
      "gc_tenant_id x = tc_tenant_id c" "gc_idempotency_key x = key"
      "gc_content_hash x = content_hash rt (tc_tenant_id c) (gc_template_id x) (gc_content x) (gc_links x)"
      "map rl_level (gc_links x) = [L1, L2, L3]" "gc_reward_distribution x = rewards_of_links (gc_links x)"
      "ev_type (pub_envelope m1) = ''content.generated''" "ev_tenant_id (pub_envelope m1) = py_strip (tc_tenant_id c)"
      "map_of (ev_payload (pub_envelope m1)) ''content_id'' = Some (JStr (gc_content_id x))"
      "map_of (ev_payload (pub_envelope m1)) ''content_hash'' = Some (JStr (gc_content_hash x))"
      "contribution_member payload c = Inr author"
      "contribution_booked c payload (gc_content_id x) author (gc_contribution x)"
    and events: "announces rt (gc_contribution x) (pub_envelope m2) (pub_envelope m3)"
    unfolding content_stored_def by (elim exE conjE) (rule that, assumption+)
  have l: "lc_tenant_id (gc_contribution x) = pyd_strip (tc_tenant_id c)"
      "lc_member_id (gc_contribution x) = pyd_strip author"
      "lc_event_type (gc_contribution x) = cs_event_type (gr_contribution payload)"
    using x(14) by (simp_all add: contribution_booked_def Let_def)
  obtain h where "lc_audit_hash (gc_contribution x) = pyd_strip h"
      "events_of_contribution (pyd_strip (tc_tenant_id c)) (lc_contribution_id (gc_contribution x))
        (member_id_hash rt (pyd_strip (tc_tenant_id c)) (pyd_strip author))
        (event_type_value (cs_event_type (gr_contribution payload))) (lc_points_awarded (gc_contribution x)) h
        (pub_envelope m2) (pub_envelope m3)"
    using events unfolding announces_def l by blast
  with x show ?thesis
    by (intro exI [where x = x] exI [where x = m1] exI [where x = m2] exI [where x = m3] exI [where x = author]
        exI [where x = h]) (intro conjI)
qed (use assms in auto)

theorem generated_content_is_announced_witness:
  "\<exists>x t. cg_records (t :: string cglr_state) = [x] \<and> length (bus t) = 3 \<and> map rl_level (gc_links x) = [L1, L2, L3] \<and>
     lc_member_id (gc_contribution x) = pyd_strip ''m'' \<and> cg_contributions t = [gc_contribution x]"
proof -
  obtain y t where run: "generate_content zero_runtime sample_mode sample_jinja [] plain_bracket (Some author_context) ''k''
      sample_generation empty_generator = (Inr y, t)"
    using sample_generate by blast
  have empty: "cg_records empty_generator = []" "bus empty_generator = []" "cg_contributions empty_generator = []"
    by (simp_all add: empty_generator_def)
  have author: "contribution_member sample_generation author_context = Inr ''m''"
    by (simp add: contribution_member_def sample_generation_def author_context_def)
  from generated_content_is_announced [OF run] obtain x a b c where "cg_records t = [x]" "bus t = [a, b, c]"
    "map rl_level (gc_links x) = [L1, L2, L3]" "cg_contributions t = [gc_contribution x]"
    "contribution_booked author_context sample_generation (gc_content_id x) ''m'' (gc_contribution x)"
    by (auto simp: empty author)
  then show ?thesis
    by (intro exI [where x = x] exI [where x = t]) (simp add: contribution_booked_def Let_def)
qed

text \<open>C37. A request that succeeded gets the same content whenever it is repeated with its idempotency key, whatever
  other requests were served in between and however they ended, and the repetition changes nothing: no
  second content, contribution or event.\<close>

theorem repeated_generation_returns_the_same:
  assumes "generate_content rt jm lib heading bracketed ambient key payload s = (Inr y, t)"
  shows "generate_content rt jm lib heading bracketed ambient key payload (cglr_run rt jm lib heading bracketed calls t) =
    (Inr y, cglr_run rt jm lib heading bracketed calls t)"
proof -
  from generated_is_found [OF assms] obtain c x where c: "ambient = Some c" "generated_content_response x = Inr y"
    and x: "find (\<lambda>r. gc_tenant_id r = tc_tenant_id c \<and> gc_idempotency_key r = key) (cg_records t) = Some x"
      "gc_request_hash x = generate_request_hash rt jm (tc_tenant_id c) key payload"
    by blast
  obtain xs where "cg_records (cglr_run rt jm lib heading bracketed calls t) = cg_records t @ xs"
    using cglr_run_appends by blast
  then have "find (\<lambda>r. gc_tenant_id r = tc_tenant_id c \<and> gc_idempotency_key r = key)
      (cg_records (cglr_run rt jm lib heading bracketed calls t)) = Some x"
    using x by (simp add: find_append_Some)
  from generate_again [OF this x(2) generate_needs_key [OF assms]] c show ?thesis by simp
qed

theorem repeated_generation_returns_the_same_witness:
  "\<exists>y t. generate_content zero_runtime sample_mode sample_jinja [] plain_bracket (Some author_context) ''k'' sample_generation
     (cglr_run zero_runtime sample_mode sample_jinja [] plain_bracket [GetContent None ''x''] t) =
     (Inr y, cglr_run zero_runtime sample_mode sample_jinja [] plain_bracket [GetContent None ''x''] (t :: string cglr_state))"
proof -
  obtain y t where "generate_content zero_runtime sample_mode sample_jinja [] plain_bracket (Some author_context) ''k''
      sample_generation empty_generator = (Inr y, t)"
    using sample_generate by blast
  from repeated_generation_returns_the_same [OF this] show ?thesis by blast
qed

text \<open>The text and the links of a new content, as far as they are made before anything is announced.\<close>

definition content_prepared ::
    "runtime \<Rightarrow> 't jinja \<Rightarrow> (string \<Rightarrow> bool) \<Rightarrow> tenant_context \<Rightarrow> generate_request \<Rightarrow> ('t, 'z) cglr_state_scheme
     \<Rightarrow> string \<Rightarrow> string \<Rightarrow> ('t, 'z) cglr_state_scheme \<Rightarrow> bool" where
  "content_prepared rt lib bracketed c payload s content_id hash u \<longleftrightarrow>
     (\<exists>v request rendered route routed.
        new_id rt ''content'' s = (Inr content_id, v) \<and>
        template_render_request rt (gr_template_body payload) (gr_context payload) (gr_validation payload) = Inr request \<and>
        on_engine (render_template lib request) v = (Inr rendered, u) \<and>
        route_request_of (tc_tenant_id c) content_id (gr_link_routing payload) = Inr route \<and>
        generate_referral_links rt bracketed route = Inr routed \<and>
        hash = content_hash rt (tc_tenant_id c) (gr_template_id payload) (rn_content rendered) (rr_links routed))"

definition is_announcement :: "tenant_context \<Rightarrow> string \<Rightarrow> string \<Rightarrow> envelope \<Rightarrow> bool" where
  "is_announcement c content_id hash e \<longleftrightarrow>
     ev_type e = ''content.generated'' \<and> ev_tenant_id e = py_strip (tc_tenant_id c) \<and>
     map_of (ev_payload e) ''content_id'' = Some (JStr content_id) \<and>
     map_of (ev_payload e) ''content_hash'' = Some (JStr hash)"

lemma publish_content_generated_cases:
  assumes "publish_content_generated rt c payload content_id hash key s = (q, t)"
  shows "if isl q then bus t = bus s
    else \<exists>m. bus t = bus s @ [m] \<and> is_announcement c content_id hash (pub_envelope m)"
proof -
  have "py_strip ''content.generated'' = ''content.generated''" by (simp add: text_defs)
  then have "outcome (publish_content_generated rt c payload content_id hash key)
      (\<lambda>q t. if isl q then bus t = bus s
             else \<exists>m. bus t = bus s @ [m] \<and> is_announcement c content_id hash (pub_envelope m)) s"
    unfolding publish_content_generated_def
    by (auto simp: act_simps new_id_def is_announcement_def intro!: id_or_new_state emit_rule)
  from outcomeD [OF this assms] show ?thesis .
qed

lemma anonymous_new_content:
  assumes run: "generate_new_content rt lib heading bracketed c key request_hash payload s = (r, t)"
    and anonymous: "contribution_member payload c = Inl e"
  shows "if \<exists>content_id hash u envelope v. content_prepared rt lib bracketed c payload s content_id hash u \<and>
        publish_content_generated rt c payload content_id hash key u = (Inr envelope, v)
    then \<exists>content_id hash u m. content_prepared rt lib bracketed c payload s content_id hash u \<and>
        r = Inl e \<and> bus t = bus s @ [m] \<and> is_announcement c content_id hash (pub_envelope m)
    else bus t = bus s"
proof (cases "\<exists>content_id hash u. content_prepared rt lib bracketed c payload s content_id hash u")
  case False
  have "bus v = bus s" if "new_id rt ''content'' s = (q, v)" for q v
    using that by (auto simp: new_id_def bnd_def act_eval)
  moreover have "bus w = bus v" if "on_engine m v = (q, w)" for m q and v w :: "('a, 'b) cglr_state_scheme"
    using that by (auto simp: on_engine_def split: prod.splits)
  ultimately have "bus t = bus s"
    using run False
    by (fastforce simp: generate_new_content_def content_prepared_def bnd_def act_eval split: sum.splits prod.splits)
  with False show ?thesis by auto
next
  case True
  then obtain content_id hash u where p: "content_prepared rt lib bracketed c payload s content_id hash u" by blast
  then obtain v request rendered route routed where steps: "new_id rt ''content'' s = (Inr content_id, v)"
      "template_render_request rt (gr_template_body payload) (gr_context payload) (gr_validation payload) = Inr request"
      "on_engine (render_template lib request) v = (Inr rendered, u)"
      "route_request_of (tc_tenant_id c) content_id (gr_link_routing payload) = Inr route"
      "generate_referral_links rt bracketed route = Inr routed"
      "hash = content_hash rt (tc_tenant_id c) (gr_template_id payload) (rn_content rendered) (rr_links routed)"
    unfolding content_prepared_def by blast
  have unique: "content_id' = content_id \<and> hash' = hash \<and> u' = u"
    if "content_prepared rt lib bracketed c payload s content_id' hash' u'" for content_id' hash' u'
    using that steps by (auto simp: content_prepared_def)
  have "bus v = bus s" using steps(1) by (auto simp: new_id_def bnd_def act_eval)
  then have u: "bus u = bus s" using steps(3) by (auto simp: on_engine_def split: prod.splits)
  obtain q w where pub: "publish_content_generated rt c payload content_id hash key u = (q, w)" by fastforce
  note event = publish_content_generated_cases [OF pub]
  have rest: "generate_new_content rt lib heading bracketed c key request_hash payload s =
      (case q of Inl x \<Rightarrow> (Inl x, w) | Inr _ \<Rightarrow> (Inl e, w))"
    using steps pub anonymous
    by (simp add: generate_new_content_def log_generation_def bnd_def act_eval Let_def split: sum.split)
  show ?thesis
  proof (cases q)
    case (Inl x)
    then have "bus t = bus s" using event rest run u by simp
    with Inl pub unique show ?thesis by (auto split: if_splits)
  next
    case (Inr envelope)
    then obtain m where "bus t = bus s @ [m]" "is_announcement c content_id hash (pub_envelope m)" "r = Inl e"
      using event rest run u by auto
    moreover from Inr pub p have ex: "\<exists>content_id hash u envelope v.
        content_prepared rt lib bracketed c payload s content_id hash u \<and>
        publish_content_generated rt c payload content_id hash key u = (Inr envelope, v)"
      by blast
    ultimately show ?thesis unfolding if_P [OF ex] using p by blast
  qed
qed

text \<open>C38. A new request without an author, neither named in the request nor known from the caller's token, fails
  and stores neither content nor contribution. Yet when its key is valid and its text and its links could be made and announced,
  the request fails only when it comes to the author, with a validation error, and the one event
  content.generated of this tenant, with the identifier and the hash of the content that does not exist, stays
  on the bus; otherwise nothing is published.\<close>

theorem anonymous_content_is_never_stored:
  assumes "generate_content rt jm lib heading bracketed (Some c) key payload s = (r, t)"
    and "tc_subject c = None" and "cs_member_id (gr_contribution payload) = None"
    and "find (\<lambda>r. gc_tenant_id r = tc_tenant_id c \<and> gc_idempotency_key r = key) (cg_records s) = None"
  shows "isl r \<and> cg_records t = cg_records s \<and> cg_contributions t = cg_contributions s \<and>
    (if token_ok key \<and> (\<exists>content_id hash u e v. content_prepared rt lib bracketed c payload s content_id hash u \<and>
          publish_content_generated rt c payload content_id hash key u = (Inr e, v))
     then \<exists>content_id hash u m. content_prepared rt lib bracketed c payload s content_id hash u \<and>
          r = Inl (SharedError 400 ''validation_error'' (tc_correlation_id c)) \<and>
          bus t = bus s @ [m] \<and> is_announcement c content_id hash (pub_envelope m)
     else bus t = bus s)"
proof -
  let ?hash = "generate_request_hash rt jm (tc_tenant_id c) key payload"
  have author: "contribution_member payload c = Inl (SharedError 400 ''validation_error'' (tc_correlation_id c))"
    using assms(2,3) by (simp add: contribution_member_def)
  show ?thesis
  proof (cases "token_ok key")
    case False
    then have "isl r \<and> t = s"
      using assms(1) by (auto simp: generate_content_def resolve_context_def bnd_def act_eval)
    with False show ?thesis by simp
  next
    case True
    then have run: "generate_new_content rt lib heading bracketed c key ?hash payload s = (r, t)"
      using assms(1,4)
      by (simp add: generate_content_def resolve_context_def get_existing_generation_def bnd_def act_eval Let_def)
    from outcomeD [OF generate_new_content_rule run] author
    have "isl r \<and> cg_records t = cg_records s \<and> cg_contributions t = cg_contributions s"
      by (auto simp: generation_result_def generation_failed_def content_stored_def)
    with anonymous_new_content [OF run author] True show ?thesis by simp
  qed
qed

lemma anonymous_run:
  "tc_subject anonymous_context = None" "cs_member_id (gr_contribution sample_generation) = None"
  "cg_records empty_generator = []" "cg_contributions empty_generator = []" "bus empty_generator = []"
  "tc_correlation_id anonymous_context = Some ''r''" "tc_tenant_id anonymous_context = ''t''"
  by (simp_all add: anonymous_context_def author_context_def sample_generation_def empty_generator_def)

lemma anonymous_publishes:
  "\<not> isl (fst (publish_content_generated zero_runtime anonymous_context sample_generation ''content-u'' h ''k'' announced))"
  by code_simp

lemma anonymous_prepared:
  "\<exists>hash. content_prepared zero_runtime sample_jinja plain_bracket anonymous_context sample_generation empty_generator
     ''content-u'' hash announced"
proof -
  obtain routed where routed: "generate_referral_links zero_runtime plain_bracket sample_routing = Inr routed"
    using sample_links by blast
  have "gr_template_body sample_generation = ''ab''" "gr_context sample_generation = []"
    "gr_validation sample_generation = sample_rules"
    by (simp_all add: sample_generation_def)
  then show ?thesis
    using sample_new_id sample_requests sample_render_run routed
    by (simp add: content_prepared_def anonymous_run)
qed

theorem anonymous_content_is_never_stored_witness:
  "\<exists>t m. generate_content zero_runtime sample_mode sample_jinja [] plain_bracket (Some anonymous_context) ''k''
     sample_generation empty_generator = (Inl (SharedError 400 ''validation_error'' (Some ''r'')), t) \<and>
     cg_records t = [] \<and> cg_contributions t = [] \<and> bus t = [m] \<and>
     ev_type (pub_envelope m) = ''content.generated'' \<and> ev_tenant_id (pub_envelope m) = py_strip ''t''"
proof -
  obtain r t where run: "generate_content zero_runtime sample_mode sample_jinja [] plain_bracket (Some anonymous_context) ''k''
      sample_generation empty_generator = (r, t)"
    by fastforce
  obtain hash where p: "content_prepared zero_runtime sample_jinja plain_bracket anonymous_context sample_generation
      empty_generator ''content-u'' hash announced"
    using anonymous_prepared by blast
  obtain e v where "publish_content_generated zero_runtime anonymous_context sample_generation ''content-u'' hash ''k'' announced =
      (Inr e, v)"
    using not_isl_Inr [OF anonymous_publishes [of hash]] by blast
  moreover have "token_ok ''k''" by code_simp
  ultimately have announced: "token_ok ''k'' \<and> (\<exists>content_id hash u e v.
      content_prepared zero_runtime sample_jinja plain_bracket anonymous_context sample_generation empty_generator content_id hash u \<and>
      publish_content_generated zero_runtime anonymous_context sample_generation content_id hash ''k'' u = (Inr e, v))"
    using p by blast
  from anonymous_content_is_never_stored [OF run anonymous_run(1,2), unfolded if_P [OF announced]] run show ?thesis
    by (auto simp: anonymous_run is_announcement_def)
qed

end
