(* ===== verification/Vectors.thy ===== *)
theory Vectors
  imports Tenancy RawJson FloatArith "HOL-Library.Product_Lexorder"
begin

text \<open>
  \<open>libs/shared/vector.py\<close>, the in-memory store: every tenant and domain has a collection, named by a text
  from which unsafe characters are removed. A record carries the tenant in its metadata, and a query
  filters by it. The Chroma client of the module is not modelled.
\<close>

section \<open>Normalised values\<close>

definition has_space :: "string \<Rightarrow> bool" where
  "has_space s \<longleftrightarrow> list_ex py_isspace s"

definition normalize_unspaced :: "string \<Rightarrow> string \<Rightarrow> exn + string" where
  "normalize_unspaced label s =
     (if py_strip s = [] \<or> has_space (py_strip s) then Inl (ValueError label) else Inr (py_strip s))"

definition normalize_vector_id :: "string \<Rightarrow> exn + string" where
  "normalize_vector_id s = normalize_unspaced ''id'' s"

definition normalize_domain :: "string \<Rightarrow> exn + string" where
  "normalize_domain s = normalize_unspaced ''domain'' s"

definition normalize_metadata_key :: "string \<Rightarrow> string \<Rightarrow> exn + string" where
  "normalize_metadata_key label s = normalize_unspaced label s"

definition normalize_embedding :: "string \<Rightarrow> pyfloat list \<Rightarrow> exn + pyfloat list" where
  "normalize_embedding label v =
     (if v = [] \<or> \<not> list_all float_is_finite v then Inl (ValueError label) else Inr v)"

text \<open>Metadata values are \<open>bool | int | float | str\<close>, compared as Python compares them.\<close>

fun scalar_ok :: "json \<Rightarrow> bool" where
  "scalar_ok (JBool b) = True"
| "scalar_ok (JInt i) = True"
| "scalar_ok (JFloat f) = float_is_finite f"
| "scalar_ok (JStr s) = True"
| "scalar_ok _ = False"

fun scalar_number :: "json \<Rightarrow> rat option" where
  "scalar_number (JBool b) = Some (if b then 1 else 0)"
| "scalar_number (JInt i) = Some (of_int i)"
| "scalar_number (JFloat (Fin q)) = Some q"
| "scalar_number _ = None"

definition scalar_eq :: "json \<Rightarrow> json \<Rightarrow> bool" where
  "scalar_eq a b \<longleftrightarrow>
     (case (scalar_number a, scalar_number b) of
        (Some p, Some q) \<Rightarrow> p = q
      | _ \<Rightarrow> a = b)"

fun normalize_members :: "string \<Rightarrow> (string \<times> json) list \<Rightarrow> (string, json) dict \<Rightarrow> exn + (string, json) dict" where
  "normalize_members label [] d = Inr d"
| "normalize_members label ((k, v) # kvs) d =
     ebind (normalize_metadata_key label k) (\<lambda>key.
     if scalar_ok v then normalize_members label kvs (AList.update key v d) else Inl (ValueError label))"

definition normalize_metadata :: "string \<Rightarrow> (string \<times> json) list \<Rightarrow> exn + (string, json) dict" where
  "normalize_metadata label m = normalize_members label m []"

definition metadata_matches :: "(string, json) dict \<Rightarrow> (string, json) dict \<Rightarrow> bool" where
  "metadata_matches metadata expected \<longleftrightarrow>
     list_all (\<lambda>(k, v). case map_of metadata k of None \<Rightarrow> False | Some w \<Rightarrow> scalar_eq w v) expected"

section \<open>Collections\<close>

definition collection_char :: "char \<Rightarrow> bool" where
  "collection_char c \<longleftrightarrow> is_alnum c \<or> c = CHR ''_'' \<or> c = CHR ''-''"

text \<open>A run of unsafe characters becomes one underscore.\<close>

fun sub_unsafe :: "bool \<Rightarrow> string \<Rightarrow> string" where
  "sub_unsafe in_run [] = []"
| "sub_unsafe in_run (c # cs) =
     (if collection_char c then c # sub_unsafe False cs
      else if in_run then sub_unsafe True cs else CHR ''_'' # sub_unsafe True cs)"

definition collection_segment :: "runtime \<Rightarrow> string \<Rightarrow> string \<Rightarrow> exn + string" where
  "collection_segment rt label v =
     ebind (normalize_unspaced label v) (\<lambda>normalized.
     let safe = strip_with (\<lambda>c. c = CHR ''_'') (sub_unsafe False normalized) in
     if safe = [] then Inl (ValueError label)
     else Inr (take 96
       (if safe \<noteq> normalized then take 80 safe @ ''_'' @ take 12 (rt_sha256 rt normalized) else safe)))"

definition build_tenant_vector_collection_name ::
    "runtime \<Rightarrow> tenant_context option \<Rightarrow> string \<Rightarrow> tenant_context option \<Rightarrow> string \<Rightarrow> string \<Rightarrow> exn + string" where
  "build_tenant_vector_collection_name rt ambient domain context collection_prefix environment =
     ebind (resolve_context ambient context) (\<lambda>c.
     ebind (normalize_domain domain) (\<lambda>normalized.
     ebind (collection_segment rt ''collection_prefix'' collection_prefix) (\<lambda>a.
     ebind (collection_segment rt ''environment'' environment) (\<lambda>b.
     ebind (collection_segment rt ''tenant_id'' (tc_tenant_id c)) (\<lambda>t.
     ebind (collection_segment rt ''domain'' normalized) (\<lambda>d.
     Inr (join_with ''_'' [a, b, t, d])))))))"

section \<open>Records\<close>

record vector_record =
  vr_id :: string
  vr_embedding :: "pyfloat list"
  vr_document :: "string option"
  vr_metadata :: "(string, json) dict"

definition vector_record :: "vector_record \<Rightarrow> exn + vector_record" where
  "vector_record r =
     ebind (normalize_vector_id (vr_id r)) (\<lambda>i.
     ebind (normalize_embedding ''embedding'' (vr_embedding r)) (\<lambda>e.
     if \<not> optional_ok (\<lambda>d. py_strip d \<noteq> []) (vr_document r) then Inl (ValueError ''document'')
     else ebind (normalize_metadata ''metadata'' (vr_metadata r)) (\<lambda>m.
       Inr (r\<lparr>vr_id := i, vr_embedding := e, vr_metadata := m\<rparr>))))"

record search_result =
  sr_id :: string
  sr_distance :: pyfloat
  sr_metadata :: "(string, json) dict"
  sr_document :: "string option"

definition vector_search_result :: "search_result \<Rightarrow> exn + search_result" where
  "vector_search_result r =
     ebind (normalize_vector_id (sr_id r)) (\<lambda>i.
     if \<not> float_is_finite (sr_distance r) \<or> float_lt (sr_distance r) (Fin 0) then Inl (ValueError ''distance'')
     else ebind (normalize_metadata ''metadata'' (sr_metadata r)) (\<lambda>m.
       Inr (r\<lparr>sr_id := i, sr_metadata := m\<rparr>)))"

section \<open>The store\<close>

record vector_state =
  vs_collections :: "(string, (string, vector_record) dict) dict"
  vs_denials :: denial_sink

definition on_vector_denials :: "(denial_sink, 'a) act \<Rightarrow> ('z vector_state_scheme, 'a) act" where
  "on_vector_denials m s = (case m (vs_denials s) of (r, d) \<Rightarrow> (r, s\<lparr>vs_denials := d\<rparr>))"

record vector_settings =
  vg_prefix :: string
  vg_environment :: string

text \<open>\<open>InMemoryTenantVectorStore(...)\<close>.\<close>

definition in_memory_vector_store :: "runtime \<Rightarrow> string \<Rightarrow> string \<Rightarrow> exn + vector_settings" where
  "in_memory_vector_store rt collection_prefix environment =
     ebind (collection_segment rt ''collection_prefix'' collection_prefix) (\<lambda>p.
     ebind (collection_segment rt ''environment'' environment) (\<lambda>e.
     Inr \<lparr>vg_prefix = p, vg_environment = e\<rparr>))"

text \<open>A requested tenant in the metadata must be that of the context.\<close>

definition check_requested ::
    "runtime \<Rightarrow> tenant_context \<Rightarrow> string \<Rightarrow> (string, json) dict \<Rightarrow> ('z vector_state_scheme, unit) act" where
  "check_requested rt c resource_type m =
     (case map_of m ''tenant_id'' of
        None \<Rightarrow> ret ()
      | Some (JStr t) \<Rightarrow> on_vector_denials (assert_requested_tenant rt None (Some t) (Some c) resource_type)
      | Some _ \<Rightarrow> fail (TenantIsolationError ''vector metadata'' (tc_correlation_id c) False))"

definition tenant_metadata_for_record ::
    "runtime \<Rightarrow> tenant_context \<Rightarrow> string \<Rightarrow> (string \<times> json) list \<Rightarrow> ('z vector_state_scheme, (string, json) dict) act" where
  "tenant_metadata_for_record rt c domain metadata =
     bnd (lift (normalize_metadata ''metadata'' metadata)) (\<lambda>m.
     bnd (check_requested rt c ''vector_metadata'' m) (\<lambda>_.
     ret (AList.update ''domain'' (JStr domain) (AList.update ''tenant_id'' (JStr (tc_tenant_id c)) m))))"

definition tenant_metadata_filter ::
    "runtime \<Rightarrow> tenant_context \<Rightarrow> (string \<times> json) list option \<Rightarrow> ('z vector_state_scheme, (string, json) dict) act" where
  "tenant_metadata_filter rt c metadata =
     bnd (lift (normalize_metadata ''metadata_filter'' (case metadata of None \<Rightarrow> [] | Some m \<Rightarrow> m))) (\<lambda>m.
     bnd (check_requested rt c ''vector_filter'' m) (\<lambda>_.
     ret (AList.update ''tenant_id'' (JStr (tc_tenant_id c)) m)))"

definition collection_of :: "string \<Rightarrow> 'z vector_state_scheme \<Rightarrow> (string, vector_record) dict" where
  "collection_of name s = (case map_of (vs_collections s) name of None \<Rightarrow> [] | Some col \<Rightarrow> col)"

definition put_record :: "string \<Rightarrow> vector_record \<Rightarrow> 'z vector_state_scheme \<Rightarrow> 'z vector_state_scheme" where
  "put_record name r s =
     s\<lparr>vs_collections := AList.update name (AList.update (vr_id r) r (collection_of name s)) (vs_collections s)\<rparr>"

fun upsert_records ::
    "runtime \<Rightarrow> tenant_context \<Rightarrow> string \<Rightarrow> string \<Rightarrow> vector_record list \<Rightarrow> ('z vector_state_scheme, unit) act" where
  "upsert_records rt c domain name [] = ret ()"
| "upsert_records rt c domain name (r # rs) =
     bnd (tenant_metadata_for_record rt c domain (vr_metadata r)) (\<lambda>m.
     bnd (lift (vector_record (r\<lparr>vr_metadata := m\<rparr>))) (\<lambda>stored.
     bnd (modify (put_record name stored)) (\<lambda>_.
     upsert_records rt c domain name rs)))"

definition vector_upsert ::
    "runtime \<Rightarrow> vector_settings \<Rightarrow> tenant_context option \<Rightarrow> string \<Rightarrow> vector_record list \<Rightarrow> tenant_context option
     \<Rightarrow> ('z vector_state_scheme, unit) act" where
  "vector_upsert rt g ambient domain records context =
     bnd (require (records \<noteq> []) (ValueError ''records'')) (\<lambda>_.
     bnd (lift (resolve_context ambient context)) (\<lambda>c.
     bnd (lift (normalize_domain domain)) (\<lambda>normalized.
     bnd (lift (build_tenant_vector_collection_name rt ambient normalized (Some c) (vg_prefix g) (vg_environment g))) (\<lambda>name.
     bnd (modify (\<lambda>s. if map_of (vs_collections s) name = None
                       then s\<lparr>vs_collections := AList.update name [] (vs_collections s)\<rparr> else s)) (\<lambda>_.
     upsert_records rt c normalized name records)))))"

text \<open>\<open>(left - right) ** 2\<close> of floats: a finite base whose square is too large raises.\<close>

definition float_square :: "pyfloat \<Rightarrow> exn + pyfloat" where
  "float_square a =
     (if float_is_finite a \<and> \<not> float_is_finite (float_mul a a) then Inl (ExternalError ''OverflowError'')
      else Inr (case a of Fin _ \<Rightarrow> float_mul a a | NaN \<Rightarrow> NaN | _ \<Rightarrow> PosInf))"

fun squared_differences :: "pyfloat list \<Rightarrow> pyfloat list \<Rightarrow> exn + pyfloat list" where
  "squared_differences (a # as) (b # bs) =
     ebind (float_square (float_sub a b)) (\<lambda>q.
     ebind (squared_differences as bs) (\<lambda>qs. Inr (q # qs)))"
| "squared_differences _ _ = Inr []"

definition squared_l2_distance :: "pyfloat list \<Rightarrow> pyfloat list \<Rightarrow> exn + pyfloat" where
  "squared_l2_distance left right =
     (if length left \<noteq> length right then Inl (ValueError ''embedding'')
      else ebind (squared_differences left right) (\<lambda>qs. Inr (py_sum qs)))"

fun search_records ::
    "pyfloat list \<Rightarrow> (string, json) dict \<Rightarrow> vector_record list \<Rightarrow> exn + search_result list" where
  "search_records q expected [] = Inr []"
| "search_records q expected (r # rs) =
     (if \<not> metadata_matches (vr_metadata r) expected then search_records q expected rs
      else ebind (squared_l2_distance q (vr_embedding r)) (\<lambda>d.
        ebind (vector_search_result
          \<lparr>sr_id = vr_id r, sr_distance = d, sr_metadata = vr_metadata r, sr_document = vr_document r\<rparr>) (\<lambda>x.
        ebind (search_records q expected rs) (\<lambda>xs. Inr (x # xs)))))"

text \<open>The order of the results: the distances are finite.\<close>

definition result_key :: "search_result \<Rightarrow> rat \<times> string" where
  "result_key r = ((case sr_distance r of Fin d \<Rightarrow> d | _ \<Rightarrow> 0), sr_id r)"

definition vector_query ::
    "runtime \<Rightarrow> vector_settings \<Rightarrow> tenant_context option \<Rightarrow> string \<Rightarrow> pyfloat list \<Rightarrow> tenant_context option \<Rightarrow> int
     \<Rightarrow> (string \<times> json) list option \<Rightarrow> ('z vector_state_scheme, search_result list) act" where
  "vector_query rt g ambient domain embedding context limit metadata =
     bnd (require (0 < limit) (ValueError ''limit'')) (\<lambda>_.
     bnd (lift (resolve_context ambient context)) (\<lambda>c.
     bnd (lift (normalize_domain domain)) (\<lambda>normalized.
     bnd (lift (normalize_embedding ''query_embedding'' embedding)) (\<lambda>q.
     bnd (lift (build_tenant_vector_collection_name rt ambient normalized (Some c) (vg_prefix g) (vg_environment g))) (\<lambda>name.
     bnd (tenant_metadata_filter rt c metadata) (\<lambda>expected.
     bnd (gets (collection_of name)) (\<lambda>col.
     bnd (lift (search_records q expected (dict_values col))) (\<lambda>results.
     ret (take (nat limit) (sort_key result_key results))))))))))"

section \<open>What a query can see\<close>

definition normal_key :: "string \<Rightarrow> bool" where
  "normal_key k \<longleftrightarrow> k \<noteq> [] \<and> py_strip k = k \<and> \<not> has_space k"

lemma normalize_unspaced_Inr:
  "normalize_unspaced label s = Inr k \<longleftrightarrow> k = py_strip s \<and> normal_key k"
  by (auto simp: normalize_unspaced_def normal_key_def)

lemma normalize_unspaced_normal [simp]: "normal_key k \<Longrightarrow> normalize_unspaced label k = Inr k"
  by (simp add: normalize_unspaced_def normal_key_def)

definition normal_metadata :: "(string, json) dict \<Rightarrow> bool" where
  "normal_metadata d \<longleftrightarrow> dict_ok d \<and> list_all normal_key (map fst d)"

lemma normal_update: "normal_metadata d \<Longrightarrow> normal_key k \<Longrightarrow> normal_metadata (AList.update k v d)"
  using dom_update [of k v d] by (auto simp: normal_metadata_def list_all_iff simp flip: set_map)

lemma normalize_members_normal:
  "normalize_members label kvs d = Inr d' \<Longrightarrow> normal_metadata d \<Longrightarrow> normal_metadata d'"
  by (induction label kvs d rule: normalize_members.induct)
    (auto simp: normalize_metadata_key_def normalize_unspaced_Inr normal_update split: if_splits)

lemma normalize_metadata_normal: "normalize_metadata label m = Inr d \<Longrightarrow> normal_metadata d"
  by (auto simp: normalize_metadata_def normal_metadata_def dest!: normalize_members_normal)

lemma normalize_members_same:
  "normalize_members label kvs d = Inr d' \<Longrightarrow> normal_metadata kvs \<Longrightarrow> map_of d' = map_of d ++ map_of kvs"
proof (induction label kvs d rule: normalize_members.induct)
  case (2 label k v kvs d)
  from 2(3) have k: "normal_key k" and rest: "normal_metadata kvs" and new: "map_of kvs k = None"
    by (auto simp: normal_metadata_def dict_ok_def map_of_eq_None_iff)
  with 2 show ?case
    by (auto simp: normalize_metadata_key_def update_conv' fun_eq_iff map_add_def split: if_splits option.splits)
qed simp

lemma normalize_metadata_same:
  "normalize_metadata label m = Inr d \<Longrightarrow> normal_metadata m \<Longrightarrow> map_of d = map_of m"
  by (simp add: normalize_metadata_def normalize_members_same)

lemma tenant_key: "normal_key ''tenant_id''" "normal_key ''domain''"
  by (simp_all add: normal_key_def has_space_def text_defs)

text \<open>A stored record comes from an upsert of the tenant in its metadata.\<close>

type_synonym vector_call = "tenant_context option \<times> string \<times> vector_record list \<times> tenant_context option"

definition upserted :: "vector_call list \<Rightarrow> string \<Rightarrow> string \<Rightarrow> string option \<Rightarrow> bool" where
  "upserted calls tenant i document \<longleftrightarrow>
     (\<exists>ambient domain records context c r. (ambient, domain, records, context) \<in> set calls \<and>
        resolve_context ambient context = Inr c \<and> tc_tenant_id c = tenant \<and>
        r \<in> set records \<and> i = py_strip (vr_id r) \<and> document = vr_document r)"

definition record_ok :: "vector_call list \<Rightarrow> vector_record \<Rightarrow> bool" where
  "record_ok calls r \<longleftrightarrow>
     normal_metadata (vr_metadata r) \<and>
     (\<exists>tenant. map_of (vr_metadata r) ''tenant_id'' = Some (JStr tenant) \<and> upserted calls tenant (vr_id r) (vr_document r))"

definition stored_ok :: "vector_call list \<Rightarrow> 'z vector_state_scheme \<Rightarrow> bool" where
  "stored_ok calls s \<longleftrightarrow>
     (\<forall>name col k r. (name, col) \<in> set (vs_collections s) \<longrightarrow> (k, r) \<in> set col \<longrightarrow> record_ok calls r)"

lemma upsertedI:
  "(ambient, domain, records, context) \<in> set calls \<Longrightarrow> resolve_context ambient context = Inr c \<Longrightarrow> r \<in> set records \<Longrightarrow>
     upserted calls (tc_tenant_id c) (py_strip (vr_id r)) (vr_document r)"
  unfolding upserted_def by blast

fun vectors_run ::
    "runtime \<Rightarrow> vector_settings \<Rightarrow> vector_call list \<Rightarrow> 'z vector_state_scheme \<Rightarrow> 'z vector_state_scheme" where
  "vectors_run rt g [] s = s"
| "vectors_run rt g ((ambient, domain, records, context) # calls) s =
     vectors_run rt g calls (snd (vector_upsert rt g ambient domain records context s))"

lemma stored_ok_collection: "stored_ok calls s \<Longrightarrow> (k, r) \<in> set (collection_of name s) \<Longrightarrow> record_ok calls r"
  by (cases "map_of (vs_collections s) name") (auto simp: stored_ok_def collection_of_def dest!: map_of_SomeD)

lemma stored_ok_put:
  assumes "stored_ok calls s" and "record_ok calls r"
  shows "stored_ok calls (put_record name r s)"
proof -
  have "record_ok calls x" if "(k, x) \<in> set (AList.update (vr_id r) r (collection_of name s))" for k x
    using that set_update_subset [of "vr_id r" r "collection_of name s"] stored_ok_collection [OF assms(1)] assms(2) by auto
  then show ?thesis
    using set_update_subset [of name _ "vs_collections s"] assms(1) unfolding stored_ok_def put_record_def by fastforce
qed

lemma stored_ok_denials [simp]: "stored_ok calls (s\<lparr>vs_denials := d\<rparr>) = stored_ok calls s"
  by (simp add: stored_ok_def)

lemma on_vector_denials_rule: "(\<And>r d. Q r (s\<lparr>vs_denials := d\<rparr>)) \<Longrightarrow> outcome (on_vector_denials m) Q s"
  by (simp add: outcome_def on_vector_denials_def split: prod.split)

lemma check_requested_rule:
  "(\<And>r d. Q r (s\<lparr>vs_denials := d\<rparr>)) \<Longrightarrow> Q (Inr ()) s \<Longrightarrow> (\<And>e. Q (Inl e) s) \<Longrightarrow> outcome (check_requested rt c w m) Q s"
  by (auto simp: check_requested_def act_simps intro!: on_vector_denials_rule split: option.split json.split)

lemma record_metadata_ok:
  assumes "normalize_metadata ''metadata'' kvs = Inr m"
    and "vector_record (r\<lparr>vr_metadata := AList.update ''domain'' d (AList.update ''tenant_id'' (JStr t) m)\<rparr>) = Inr x"
    and "upserted calls t (py_strip (vr_id r)) (vr_document r)"
  shows "record_ok calls x"
proof -
  let ?m = "AList.update ''domain'' d (AList.update ''tenant_id'' (JStr t) m)"
  have n: "normal_metadata ?m"
    by (intro normal_update tenant_key normalize_metadata_normal [OF assms(1)])
  from assms(2) have x: "normalize_metadata ''metadata'' ?m = Inr (vr_metadata x)" "vr_id x = py_strip (vr_id r)"
    "vr_document x = vr_document r"
    by (auto simp: vector_record_def normalize_vector_id_def normalize_unspaced_Inr split: if_splits)
  have "map_of ?m ''tenant_id'' = Some (JStr t)" by (simp add: update_conv')
  then show ?thesis
    using x normalize_metadata_normal [OF x(1)] normalize_metadata_same [OF x(1) n] assms(3) by (simp add: record_ok_def)
qed

lemma upsert_records_ok:
  assumes "stored_ok calls s" and "\<And>r. r \<in> set rs \<Longrightarrow> upserted calls (tc_tenant_id c) (py_strip (vr_id r)) (vr_document r)"
  shows "outcome (upsert_records rt c domain name rs) (\<lambda>r t. stored_ok calls t) (s :: 'z vector_state_scheme)"
  using assms
proof (induction rs arbitrary: s)
  case (Cons r rs)
  have step: "outcome (upsert_records rt c domain name rs) (\<lambda>r t. stored_ok calls t) (put_record name x u)"
    if "stored_ok calls u" "normalize_metadata ''metadata'' (vr_metadata r) = Inr m"
      "vector_record (r\<lparr>vr_metadata := AList.update ''domain'' (JStr domain) (AList.update ''tenant_id'' (JStr (tc_tenant_id c)) m)\<rparr>) = Inr x"
    for x m and u :: "'z vector_state_scheme"
  proof (rule Cons.IH)
    show "stored_ok calls (put_record name x u)"
      using Cons.prems(2) [of r] by (intro stored_ok_put [OF that(1)] record_metadata_ok [OF that(2,3)]) simp
  qed (use Cons.prems(2) in auto)
  show ?case
    using Cons.prems(1) step
    by (auto simp: act_simps tenant_metadata_for_record_def intro!: check_requested_rule split: sum.split)
qed (simp add: act_simps)

lemma vector_upsert_ok:
  assumes "stored_ok calls s" and "(ambient, domain, records, context) \<in> set calls"
  shows "stored_ok calls (snd (vector_upsert rt g ambient domain records context s))"
proof -
  have fresh: "stored_ok calls (s\<lparr>vs_collections := AList.update name [] (vs_collections s)\<rparr>)" for name
    using assms(1) set_update_subset [of name "[]" "vs_collections s"] unfolding stored_ok_def by fastforce
  have "outcome (vector_upsert rt g ambient domain records context) (\<lambda>r t. stored_ok calls t) s"
    unfolding vector_upsert_def
    using assms fresh
    by (auto simp: act_simps intro!: upsert_records_ok upsertedI split: sum.split)
  then show ?thesis by (simp add: outcome_snd)
qed

lemma vectors_run_ok:
  "stored_ok calls s \<Longrightarrow> set ks \<subseteq> set calls \<Longrightarrow> stored_ok calls (vectors_run rt g ks s)"
  by (induction rt g ks s rule: vectors_run.induct) (auto intro: vector_upsert_ok)

lemma search_result_of:
  assumes "vector_search_result \<lparr>sr_id = vr_id r, sr_distance = d, sr_metadata = vr_metadata r, sr_document = vr_document r\<rparr> = Inr x"
  shows "sr_id x = py_strip (vr_id r) \<and> sr_document x = vr_document r \<and>
    normalize_metadata ''metadata'' (vr_metadata r) = Inr (sr_metadata x)"
  using assms
  by (auto simp: vector_search_result_def normalize_vector_id_def normalize_unspaced_Inr split: if_splits)

lemma search_records_from:
  "search_records q expected rs = Inr xs \<Longrightarrow> x \<in> set xs \<Longrightarrow>
     \<exists>r\<in>set rs. metadata_matches (vr_metadata r) expected \<and> sr_id x = py_strip (vr_id r) \<and> sr_document x = vr_document r \<and>
       normalize_metadata ''metadata'' (vr_metadata r) = Inr (sr_metadata x)"
proof (induction rs arbitrary: xs)
  case (Cons r rs)
  then show ?case using search_result_of [of r] by (cases "metadata_matches (vr_metadata r) expected") fastforce+
qed simp

lemma metadata_matches_tenant:
  assumes "metadata_matches m expected" and "map_of expected ''tenant_id'' = Some (JStr t)"
  shows "map_of m ''tenant_id'' = Some (JStr t)"
proof -
  have "(''tenant_id'', JStr t) \<in> set expected" using assms(2) by (rule map_of_SomeD)
  with assms(1) obtain w where "map_of m ''tenant_id'' = Some w" "scalar_eq w (JStr t)"
    by (auto simp: metadata_matches_def list_all_iff split: option.splits)
  then show ?thesis by (auto simp: scalar_eq_def split: option.splits)
qed

text \<open>What a successful query has read.\<close>

lemma vector_query_Inr:
  assumes "vector_query rt g ambient domain q context limit metadata s = (Inr xs, t)"
  obtains c name expected found where "0 < limit" "resolve_context ambient context = Inr c"
    "map_of expected ''tenant_id'' = Some (JStr (tc_tenant_id c))"
    "search_records q expected (dict_values (collection_of name s)) = Inr found"
    "xs = take (nat limit) (sort_key result_key found)"
proof -
  have col: "collection_of name (s\<lparr>vs_denials := d\<rparr>) = collection_of name s" for name d
    by (simp add: collection_of_def)
  have "outcome (vector_query rt g ambient domain q context limit metadata) (\<lambda>r t. \<forall>xs. r = Inr xs \<longrightarrow>
      (\<exists>c name expected found. 0 < limit \<and> resolve_context ambient context = Inr c \<and>
        map_of expected ''tenant_id'' = Some (JStr (tc_tenant_id c)) \<and>
        search_records q expected (dict_values (collection_of name s)) = Inr found \<and>
        xs = take (nat limit) (sort_key result_key found))) s"
    unfolding vector_query_def tenant_metadata_filter_def
    by (auto simp: act_simps normalize_embedding_def intro!: check_requested_rule split: sum.split if_splits)
      (auto simp: update_conv' col intro!: exI)
  from outcomeD [OF this assms] that show ?thesis by blast
qed

lemma vector_query_own:
  assumes "stored_ok calls s" and "vector_query rt g ambient domain q context limit metadata s = (Inr xs, t)"
  shows "\<exists>c. resolve_context ambient context = Inr c \<and> int (length xs) \<le> limit \<and> sorted (map result_key xs) \<and>
    (\<forall>x\<in>set xs. upserted calls (tc_tenant_id c) (sr_id x) (sr_document x))"
proof -
  obtain c name expected found where c: "0 < limit" "resolve_context ambient context = Inr c"
    and expected: "map_of expected ''tenant_id'' = Some (JStr (tc_tenant_id c))"
    and found: "search_records q expected (dict_values (collection_of name s)) = Inr found"
    and xs: "xs = take (nat limit) (sort_key result_key found)"
    using assms(2) by (rule vector_query_Inr)
  have "upserted calls (tc_tenant_id c) (sr_id x) (sr_document x)" if "x \<in> set xs" for x
  proof -
    from that have "x \<in> set found" by (auto simp: xs dest: in_set_takeD)
    from search_records_from [OF found this] obtain r where r: "r \<in> set (dict_values (collection_of name s))"
      "metadata_matches (vr_metadata r) expected" "sr_id x = py_strip (vr_id r)" "sr_document x = vr_document r"
      by blast
    then have "record_ok calls r" using stored_ok_collection [OF assms(1)] by (auto simp: dict_values_def)
    moreover have "map_of (vr_metadata r) ''tenant_id'' = Some (JStr (tc_tenant_id c))"
      using r(2) expected by (rule metadata_matches_tenant)
    ultimately have "upserted calls (tc_tenant_id c) (vr_id r) (vr_document r)" by (simp add: record_ok_def)
    then show ?thesis unfolding upserted_def using r(3,4) py_strip_idem by metis
  qed
  moreover have "sorted (map result_key xs)" by (simp add: xs take_map [symmetric] sorted_wrt_take)
  ultimately show ?thesis using c by (auto simp: xs)
qed

end
