(* ===== verification/VectorProperties.thy ===== *)
theory VectorProperties
  imports Vectors Samples
begin

text \<open>
  The properties of the vector store: a query sees nothing of another tenant, and what happens when two
  tenants share a collection.
\<close>

section \<open>Two tenants\<close>

definition vector_context :: "string \<Rightarrow> tenant_context" where
  "vector_context tenant = \<lparr>tc_tenant_id = tenant, tc_subject = None, tc_roles = [], tc_correlation_id = None\<rparr>"

definition plain_settings :: vector_settings where
  "plain_settings = \<lparr>vg_prefix = ''nmc'', vg_environment = ''dev''\<rparr>"

definition empty_vectors :: vector_state where
  "empty_vectors = \<lparr>vs_collections = [], vs_denials = None\<rparr>"

definition vector_call_of :: "string \<Rightarrow> string \<Rightarrow> string \<Rightarrow> vector_call" where
  "vector_call_of tenant domain document =
     (None, domain, [\<lparr>vr_id = ''x'', vr_embedding = [Fin 1], vr_document = Some document, vr_metadata = []\<rparr>],
      Some (vector_context tenant))"

definition vector_lookup :: "string \<Rightarrow> string \<Rightarrow> vector_state \<Rightarrow> (exn + search_result list) \<times> vector_state" where
  "vector_lookup tenant domain =
     vector_query sample_runtime plain_settings None domain [Fin 1] (Some (vector_context tenant)) 5 None"

text \<open>C39. Whatever any tenants have stored in whatever domains, a query returns at most as many records as
  asked for, the nearest first, and each of them was stored by a call of the tenant that asks: also when
  the names of two tenants' collections are the same, as the filter by tenant stays.\<close>

theorem vectors_stay_in_their_tenant:
  assumes "vs_collections s = []"
    and "vector_query rt g ambient domain q context limit metadata (vectors_run rt g calls s) = (Inr xs, t)"
  shows "\<exists>c. resolve_context ambient context = Inr c \<and> int (length xs) \<le> limit \<and> sorted (map result_key xs) \<and>
    (\<forall>x\<in>set xs. upserted calls (tc_tenant_id c) (sr_id x) (sr_document x))"
proof (rule vector_query_own [OF _ assms(2)])
  show "stored_ok calls (vectors_run rt g calls s)"
    by (rule vectors_run_ok) (simp_all add: stored_ok_def assms(1))
qed

theorem vectors_stay_in_their_tenant_witness:
  "\<exists>x. fst (vector_lookup ''a'' ''d'' (vectors_run sample_runtime plain_settings [vector_call_of ''a'' ''d'' ''m''] empty_vectors)) =
       Inr [x] \<and> upserted [vector_call_of ''a'' ''d'' ''m''] ''a'' (sr_id x) (sr_document x)"
proof -
  have "case vector_lookup ''a'' ''d'' (vectors_run sample_runtime plain_settings [vector_call_of ''a'' ''d'' ''m''] empty_vectors) of
      (Inr xs, t) \<Rightarrow> length xs = 1 | _ \<Rightarrow> False"
    by code_simp
  then obtain xs t where run: "vector_lookup ''a'' ''d''
      (vectors_run sample_runtime plain_settings [vector_call_of ''a'' ''d'' ''m''] empty_vectors) = (Inr xs, t)"
    and one: "length xs = 1"
    by (auto split: prod.splits sum.splits)
  have "vs_collections empty_vectors = []" by (simp add: empty_vectors_def)
  from vectors_stay_in_their_tenant [OF this run [unfolded vector_lookup_def]]
  have "\<forall>x\<in>set xs. upserted [vector_call_of ''a'' ''d'' ''m''] ''a'' (sr_id x) (sr_document x)"
    by (auto simp: resolve_context_def vector_context_def)
  moreover obtain x where "xs = [x]" using one by (cases xs) auto
  ultimately show ?thesis using run by auto
qed

section \<open>A shared collection\<close>

text \<open>A text of safe characters that neither starts nor ends with an underscore is its own segment.\<close>

lemma collection_char_plain: "collection_char c \<Longrightarrow> \<not> py_isspace c"
  unfolding collection_char_def by (elim disjE) (auto simp: py_isspace_def [of "CHR ''_''"] py_isspace_def [of "CHR ''-''"])

lemma safe_is_normal:
  assumes "list_all collection_char v" and "v \<noteq> []"
  shows "normal_key v"
proof -
  have "list_all (\<lambda>c. \<not> py_isspace c) v" using assms(1) collection_char_plain by (auto simp: list_all_iff)
  then show ?thesis
    using assms(2) by (auto simp: normal_key_def py_strip_def has_space_def list_all_iff list_ex_iff)
qed

lemma sub_safe: "list_all collection_char v \<Longrightarrow> sub_unsafe in_run v = v"
  by (induction v arbitrary: in_run) auto

lemma segment_of_safe:
  assumes "list_all collection_char v" "v \<noteq> []" "hd v \<noteq> CHR ''_''" "last v \<noteq> CHR ''_''" "length v \<le> 96"
  shows "collection_segment rt label v = Inr v"
  using assms safe_is_normal [OF assms(1,2)]
  by (simp add: collection_segment_def sub_safe strip_with_hd_last Let_def)

definition alnum_text :: "string \<Rightarrow> bool" where
  "alnum_text v \<longleftrightarrow> v \<noteq> [] \<and> list_all is_alnum v"

definition joined :: "string \<Rightarrow> string \<Rightarrow> string" where
  "joined a b = a @ ''_'' @ b"

lemma alnum_ends:
  assumes "alnum_text v"
  shows "hd v \<noteq> CHR ''_'' \<and> last v \<noteq> CHR ''_''"
proof -
  have "is_alnum (hd v)" "is_alnum (last v)" using assms by (auto simp: alnum_text_def list_all_iff)
  moreover have "\<not> is_alnum (CHR ''_'')" by code_simp
  ultimately show ?thesis by metis
qed

lemma alnum_segment: "alnum_text v \<Longrightarrow> length v \<le> 96 \<Longrightarrow> collection_segment rt label v = Inr v"
  using alnum_ends by (intro segment_of_safe) (auto simp: alnum_text_def collection_char_def list_all_iff)

lemma joined_segment:
  assumes "alnum_text a" "alnum_text b" "length a + length b < 96"
  shows "collection_segment rt label (joined a b) = Inr (joined a b)" "normal_key (joined a b)"
proof -
  have safe: "list_all collection_char (joined a b)" "joined a b \<noteq> []"
    using assms by (auto simp: joined_def alnum_text_def collection_char_def list_all_iff)
  then show "normal_key (joined a b)" by (rule safe_is_normal)
  show "collection_segment rt label (joined a b) = Inr (joined a b)"
    using assms alnum_ends [of a] alnum_ends [of b]
    by (intro segment_of_safe safe) (auto simp: joined_def alnum_text_def)
qed

lemma alnum_normal: "alnum_text v \<Longrightarrow> normal_key v"
  by (rule safe_is_normal) (auto simp: alnum_text_def collection_char_def list_all_iff)

text \<open>The tenant \<open>a\<close> in the domain \<open>b_c\<close> and the tenant \<open>a_b\<close> in the domain \<open>c\<close> have the same collection.\<close>

lemma colliding_names:
  assumes "alnum_text a" "alnum_text b" "alnum_text c" "length a + length b < 96" "length b + length c < 96"
    and "tc_tenant_id owner = a" "tc_tenant_id other = joined a b"
  shows "build_tenant_vector_collection_name rt ambient (joined b c) (Some owner) p e =
    build_tenant_vector_collection_name rt ambient' c (Some other) p e"
proof -
  have "collection_segment rt l a = Inr a" "collection_segment rt l c = Inr c" for l
    using assms by (auto intro: alnum_segment)
  moreover have "normalize_domain c = Inr c" "normalize_domain (joined b c) = Inr (joined b c)"
    using alnum_normal [OF assms(3)] joined_segment(2) [OF assms(2,3,5)] by (simp_all add: normalize_domain_def)
  ultimately show ?thesis
    using joined_segment(1) [OF assms(1,2,4)] joined_segment(1) [OF assms(2,3,5)] assms(6,7)
    by (simp add: build_tenant_vector_collection_name_def resolve_context_def ebind_def joined_def split: sum.split)
qed

text \<open>Every record is stored under its own identifier.\<close>

definition records_keyed :: "'z vector_state_scheme \<Rightarrow> bool" where
  "records_keyed s \<longleftrightarrow>
     (\<forall>name. dict_ok (collection_of name s) \<and>
        (\<forall>k r. (k, r) \<in> set (collection_of name s) \<longrightarrow> k = vr_id r \<and> py_strip (vr_id r) = vr_id r))"

lemma collection_of_put:
  "collection_of n (put_record name r s) =
     (if n = name then AList.update (vr_id r) r (collection_of name s) else collection_of n s)"
  by (simp add: collection_of_def put_record_def)

lemma records_keyed_put:
  assumes "records_keyed s" and "py_strip (vr_id r) = vr_id r"
  shows "records_keyed (put_record name r s)"
  using assms set_update_subset [of "vr_id r" r "collection_of name s"]
  unfolding records_keyed_def collection_of_put by (auto split: if_splits)

lemma records_keyed_denials [simp]: "records_keyed (s\<lparr>vs_denials := d\<rparr>) = records_keyed s"
  by (simp add: records_keyed_def collection_of_def)

lemma vector_record_id: "vector_record r = Inr x \<Longrightarrow> vr_id x = py_strip (vr_id r)"
  by (auto simp: vector_record_def normalize_vector_id_def normalize_unspaced_Inr split: if_splits)

lemma upsert_records_keyed:
  "records_keyed s \<Longrightarrow> outcome (upsert_records rt c domain name rs) (\<lambda>r t. records_keyed t) (s :: 'z vector_state_scheme)"
proof (induction rs arbitrary: s)
  case (Cons r rs)
  have step: "outcome (upsert_records rt c domain name rs) (\<lambda>r t. records_keyed t) (put_record name x u)"
    if "records_keyed u" "vector_record (r\<lparr>vr_metadata := m\<rparr>) = Inr x" for x m and u :: "'z vector_state_scheme"
    using vector_record_id [OF that(2)] by (intro Cons.IH records_keyed_put that(1)) simp
  show ?case
    using Cons.prems step
    by (auto simp: act_simps tenant_metadata_for_record_def intro!: check_requested_rule split: sum.split)
qed (simp add: act_simps)

text \<open>The creation of an empty collection.\<close>

definition with_collection :: "string \<Rightarrow> 'z vector_state_scheme \<Rightarrow> 'z vector_state_scheme" where
  "with_collection name s =
     (if map_of (vs_collections s) name = None
      then s\<lparr>vs_collections := AList.update name [] (vs_collections s)\<rparr> else s)"

lemma collection_of_with [simp]: "collection_of n (with_collection name s) = collection_of n s"
  by (auto simp: with_collection_def collection_of_def)

lemma with_collection_denials [simp]: "vs_denials (with_collection name s) = vs_denials s"
  by (simp add: with_collection_def)

lemma records_keyed_with [simp]: "records_keyed (with_collection name s) = records_keyed s"
  by (simp add: records_keyed_def)

lemma vectors_run_keyed: "records_keyed s \<Longrightarrow> records_keyed (vectors_run rt g calls s)"
proof (induction rt g calls s rule: vectors_run.induct)
  case (2 rt g ambient domain records ctx calls s)
  have "outcome (vector_upsert rt g ambient domain records ctx) (\<lambda>r t. records_keyed t) s"
    unfolding vector_upsert_def with_collection_def [symmetric]
    using 2(2) by (auto simp: act_simps intro!: upsert_records_keyed split: sum.split)
  with 2 show ?case by (simp add: outcome_snd)
qed simp

text \<open>A check of the requested tenant that passes leaves the state as it was, and passes in every state.\<close>

lemma check_requested_Inr:
  fixes s :: "'z vector_state_scheme"
  assumes "check_requested rt c ty m s = (Inr u, t)"
  shows "t = s \<and> (\<forall>v :: 'z vector_state_scheme. check_requested rt c ty m v = (Inr u, v))"
proof -
  have "d' = d \<and> (\<forall>e. assert_requested_tenant rt None (Some x) (Some c) ty e = (Inr (), e))"
    if "assert_requested_tenant rt None (Some x) (Some c) ty d = (Inr (), d')" for x d d'
  proof (cases "validated_tenant_id (Some (JStr x)) (tc_correlation_id c) = Inr (tc_tenant_id c)")
    case True
    then show ?thesis using that by (simp add: assert_requested_tenant_def resolve_context_def bnd_def act_eval del: validated_tenant_id_Inr)
  next
    case False
    then show ?thesis using that
      by (auto simp: assert_requested_tenant_def resolve_context_def deny_tenant_access_def bnd_Inr act_eval
          simp del: validated_tenant_id_Inr split: if_splits)
  qed
  then show ?thesis
    using assms by (fastforce simp: check_requested_def on_vector_denials_def act_eval split: option.splits json.splits prod.splits)
qed

lemma tenant_metadata_filter_Inr:
  fixes s v :: "'z vector_state_scheme"
  assumes "tenant_metadata_filter rt c metadata s = (Inr e, t)"
  shows "t = s" "map_of e ''tenant_id'' = Some (JStr (tc_tenant_id c))"
    "tenant_metadata_filter rt c metadata v = (Inr e, v)"
proof -
  from assms obtain m u w where m: "normalize_metadata ''metadata_filter'' (case metadata of None \<Rightarrow> [] | Some m \<Rightarrow> m) = Inr m"
    and check: "check_requested rt c ''vector_filter'' m s = (Inr u, w)"
    and e: "e = AList.update ''tenant_id'' (JStr (tc_tenant_id c)) m" "t = w"
    by (auto simp: tenant_metadata_filter_def bnd_Inr act_eval)
  note pass = check_requested_Inr [OF check]
  show "t = s" using pass e(2) by blast
  show "map_of e ''tenant_id'' = Some (JStr (tc_tenant_id c))" by (simp add: e(1))
  show "tenant_metadata_filter rt c metadata v = (Inr e, v)"
    using m pass by (simp add: tenant_metadata_filter_def bnd_def act_eval e(1))
qed

text \<open>A query reads the records of one collection that match its filter.\<close>

definition owned_by :: "string \<Rightarrow> vector_record \<Rightarrow> bool" where
  "owned_by tenant r \<longleftrightarrow> map_of (vr_metadata r) ''tenant_id'' = Some (JStr tenant)"

lemma vector_query_reads:
  assumes "resolve_context ambient context = Inr c"
    and "build_tenant_vector_collection_name rt ambient domain (Some c) (vg_prefix g) (vg_environment g) = Inr name"
    and "normal_key domain"
  shows "vector_query rt g ambient domain q context limit metadata s = (Inr xs, t) \<longleftrightarrow>
    0 < limit \<and> q \<noteq> [] \<and> list_all float_is_finite q \<and> t = s \<and>
    (\<exists>expected found. tenant_metadata_filter rt c metadata s = (Inr expected, s) \<and>
       search_records q expected (dict_values (collection_of name s)) = Inr found \<and>
       xs = take (nat limit) (sort_key result_key found))"
proof -
  have "normalize_domain domain = Inr domain" using assms(3) by (simp add: normalize_domain_def)
  then show ?thesis
    using assms(1,2) tenant_metadata_filter_Inr(1)
    by (fastforce simp: vector_query_def bnd_Inr act_eval normalize_embedding_def split: if_splits)
qed

lemma search_records_fewer:
  assumes "search_records q expected rs = Inr xs"
    and "\<forall>r\<in>set rs'. metadata_matches (vr_metadata r) expected \<longrightarrow> r \<in> set rs"
  shows "\<exists>xs'. search_records q expected rs' = Inr xs'"
proof -
  let ?fine = "\<lambda>r. \<exists>d x. squared_l2_distance q (vr_embedding r) = Inr d \<and>
      vector_search_result \<lparr>sr_id = vr_id r, sr_distance = d, sr_metadata = vr_metadata r, sr_document = vr_document r\<rparr> = Inr x"
  have fine: "\<forall>r\<in>set rs. metadata_matches (vr_metadata r) expected \<longrightarrow> ?fine r"
    if "search_records q expected rs = Inr xs" for rs xs
    using that by (induction rs arbitrary: xs) (auto split: if_splits)
  have "\<exists>xs. search_records q expected rs = Inr xs"
    if "\<forall>r\<in>set rs. metadata_matches (vr_metadata r) expected \<longrightarrow> ?fine r" for rs
    using that by (induction rs) auto
  with fine [OF assms(1)] assms(2) show ?thesis by blast
qed

text \<open>What a tenant that succeeds in storing leaves in a collection: its own records under the
  identifiers it gave, and otherwise only what was there.\<close>

lemma upsert_records_Inr:
  assumes "upsert_records rt c domain name rs s = (Inr (), t)" and "records_keyed s"
  shows "vs_denials t = vs_denials s \<and>
    (\<forall>i. i \<in> (\<lambda>r. py_strip (vr_id r)) ` set rs \<or> (\<exists>x. map_of (collection_of name s) i = Some x \<and> owned_by (tc_tenant_id c) x) \<longrightarrow>
       (\<exists>x. map_of (collection_of name t) i = Some x \<and> owned_by (tc_tenant_id c) x)) \<and>
    (\<forall>i x. map_of (collection_of name t) i = Some x \<longrightarrow>
       map_of (collection_of name s) i = Some x \<or> owned_by (tc_tenant_id c) x)"
  using assms
proof (induction rs arbitrary: s)
  case (Cons r rs)
  let ?own = "owned_by (tc_tenant_id c)"
  obtain m u stored where m: "tenant_metadata_for_record rt c domain (vr_metadata r) s = (Inr m, u)"
    and stored: "vector_record (r\<lparr>vr_metadata := m\<rparr>) = Inr stored"
    and rest: "upsert_records rt c domain name rs (put_record name stored u) = (Inr (), t)"
    using Cons.prems(1) by (auto simp: bnd_Inr act_eval)
  obtain n where n: "normalize_metadata ''metadata'' (vr_metadata r) = Inr n" and u: "u = s"
    and m': "m = AList.update ''domain'' (JStr domain) (AList.update ''tenant_id'' (JStr (tc_tenant_id c)) n)"
    using m check_requested_Inr by (fastforce simp: tenant_metadata_for_record_def bnd_Inr act_eval)
  have i: "vr_id stored = py_strip (vr_id r)" using vector_record_id [OF stored] by simp
  have "normalize_metadata ''metadata'' m = Inr (vr_metadata stored)"
    using stored by (auto simp: vector_record_def split: if_splits)
  moreover have "normal_metadata m"
    unfolding m' by (intro normal_update tenant_key normalize_metadata_normal [OF n])
  ultimately have own: "?own stored"
    using normalize_metadata_same by (simp add: owned_by_def m' update_conv')
  have keyed: "records_keyed (put_record name stored s)"
    using Cons.prems(2) i by (intro records_keyed_put) simp_all
  have col: "map_of (collection_of name (put_record name stored s)) k =
      (if k = py_strip (vr_id r) then Some stored else map_of (collection_of name s) k)" for k
    by (simp add: collection_of_put i)
  have "vs_denials (put_record name stored s) = vs_denials s" by (simp add: put_record_def)
  with Cons.IH [OF rest [unfolded u] keyed, unfolded col] own show ?case
    by (intro conjI allI impI) (simp, fastforce, metis option.inject)
qed (simp add: act_eval)

lemma vector_upsert_Inr:
  assumes "vector_upsert rt g ambient domain records context s = (Inr (), t)"
    and "resolve_context ambient context = Inr c" and "normal_key domain"
    and "build_tenant_vector_collection_name rt ambient domain (Some c) (vg_prefix g) (vg_environment g) = name"
  obtains n where "name = Inr n" "upsert_records rt c domain n records (with_collection n s) = (Inr (), t)"
proof -
  have "normalize_domain domain = Inr domain" using assms(3) by (simp add: normalize_domain_def)
  with assms obtain n where "name = Inr n" "upsert_records rt c domain n records (with_collection n s) = (Inr (), t)"
    by (cases "records = []") (auto simp: vector_upsert_def bnd_Inr act_eval with_collection_def)
  with that show thesis by blast
qed

text \<open>C40. Two tenants can share a collection, as its name joins the tenant and the domain by an underscore:
  the tenant \<open>a\<close> in the domain \<open>b_c\<close> and the tenant \<open>a_b\<close> in the domain \<open>c\<close> do, for any alphanumeric
  \<open>a\<close>, \<open>b\<close> and \<open>c\<close> short enough not to be cut. Whatever was stored before, when the second one stores
  records and its call returns, each of them takes the place of the record of the first one with the same
  identifier: a query of the first one that returned before the call still returns after it, without an
  error, but no result has the identifier of any of these records, and no denial is written to the audit
  trail.\<close>

theorem colliding_tenants_lose_vectors:
  assumes "alnum_text a" "alnum_text b" "alnum_text c" "length a + length b < 96" "length b + length c < 96"
    and "resolve_context ambient context = Inr owner" "tc_tenant_id owner = a"
    and "resolve_context ambient' context' = Inr other" "tc_tenant_id other = joined a b"
    and "vs_collections start = []" "s = vectors_run rt g calls start"
    and "vector_query rt g ambient (joined b c) q context limit metadata s = (Inr before, s')"
    and "vector_upsert rt g ambient' c records context' s = (Inr (), t)"
  shows "vs_denials t = vs_denials s \<and>
    (\<exists>after. vector_query rt g ambient (joined b c) q context limit metadata t = (Inr after, t) \<and>
       (\<forall>r\<in>set records. \<forall>x\<in>set after. sr_id x \<noteq> py_strip (vr_id r)))"
proof -
  let ?name = "build_tenant_vector_collection_name rt ambient (joined b c) (Some owner) (vg_prefix g) (vg_environment g)"
  note normal = joined_segment(2) [OF assms(2,3,5)] alnum_normal [OF assms(3)]
  have same: "build_tenant_vector_collection_name rt ambient' c (Some other) (vg_prefix g) (vg_environment g) = ?name"
    by (rule colliding_names [OF assms(1-5,7,9), symmetric])
  obtain n where n: "?name = Inr n" and run: "upsert_records rt other c n records (with_collection n s) = (Inr (), t)"
    by (rule vector_upsert_Inr [OF assms(13,8) normal(2) same])
  have "records_keyed start" using assms(10) by (simp add: records_keyed_def collection_of_def)
  then have keyed: "records_keyed (with_collection n s)" using assms(11) vectors_run_keyed by simp
  note stored = upsert_records_Inr [OF run keyed]
  have keyed_t: "records_keyed t"
    using outcomeD [OF upsert_records_keyed [OF keyed] run] .
  note reads = vector_query_reads [OF assms(6) n normal(1)]
  obtain expected found where e: "tenant_metadata_filter rt owner metadata s = (Inr expected, s)"
    and found: "search_records q expected (dict_values (collection_of n s)) = Inr found"
    and pre: "0 < limit" "q \<noteq> []" "list_all float_is_finite q"
    using assms(12) unfolding reads by blast
  note filter = tenant_metadata_filter_Inr [OF e]
  have distinct: "tc_tenant_id owner \<noteq> tc_tenant_id other"
    using assms(7,9) by (simp add: joined_def)
  have kept: "r \<in> set (dict_values (collection_of n s))"
    if r: "r \<in> set (dict_values (collection_of n t))" "metadata_matches (vr_metadata r) expected" for r
  proof -
    have own: "owned_by (tc_tenant_id owner) r"
      unfolding owned_by_def by (rule metadata_matches_tenant [OF r(2) filter(2)])
    obtain k where k: "(k, r) \<in> set (collection_of n t)" using r(1) by (auto simp: dict_values_def)
    then have "map_of (collection_of n t) k = Some r"
      using keyed_t dict_set_iff [of "collection_of n t"] by (auto simp: records_keyed_def)
    moreover have "\<not> owned_by (tc_tenant_id other) r" using own distinct by (simp add: owned_by_def)
    ultimately have "map_of (collection_of n s) k = Some r" using stored by fastforce
    then show ?thesis by (force simp: dict_values_def dest: map_of_SomeD)
  qed
  obtain after where after: "search_records q expected (dict_values (collection_of n t)) = Inr after"
    using search_records_fewer [OF found] kept by blast
  have gone: "sr_id x \<noteq> py_strip (vr_id r)" if r: "r \<in> set records" and found_x: "x \<in> set after" for r x
  proof
    assume x: "sr_id x = py_strip (vr_id r)"
    obtain y where y: "y \<in> set (dict_values (collection_of n t))" "metadata_matches (vr_metadata y) expected"
        "sr_id x = py_strip (vr_id y)"
      using search_records_from [OF after found_x] by blast
    obtain k where k: "(k, y) \<in> set (collection_of n t)" using y(1) by (auto simp: dict_values_def)
    then have "k = vr_id y" "py_strip (vr_id y) = vr_id y" "dict_ok (collection_of n t)"
      using keyed_t by (auto simp: records_keyed_def)
    then have "k = py_strip (vr_id r)" "map_of (collection_of n t) k = Some y"
      using y(3) x k by (simp_all add: dict_set_iff)
    moreover obtain z where "map_of (collection_of n t) (py_strip (vr_id r)) = Some z" "owned_by (tc_tenant_id other) z"
      using stored r by blast
    ultimately have "owned_by (tc_tenant_id other) y" by simp
    then show False
      using metadata_matches_tenant [OF y(2) filter(2)] distinct by (simp add: owned_by_def)
  qed
  have "vector_query rt g ambient (joined b c) q context limit metadata t =
      (Inr (take (nat limit) (sort_key result_key after)), t)"
    unfolding reads using pre filter(3) after by blast
  moreover have "vs_denials t = vs_denials s" using stored by simp
  ultimately show ?thesis using gone by (fastforce dest: in_set_takeD)
qed

text \<open>The tenant \<open>a\<close> has stored a record and finds it; the tenant \<open>a_b\<close> stores another one; the first is gone.\<close>

definition owner_call :: vector_call where
  "owner_call = vector_call_of ''a'' ''b_c'' ''m''"

definition after_owner :: vector_state where
  "after_owner = vectors_run sample_runtime plain_settings [owner_call] empty_vectors"

definition other_record :: vector_record where
  "other_record = \<lparr>vr_id = ''x'', vr_embedding = [Fin 1], vr_document = Some ''n'', vr_metadata = []\<rparr>"

lemma owner_finds:
  "case vector_lookup ''a'' ''b_c'' after_owner of (Inr xs, t) \<Rightarrow> map sr_id xs = [''x''] | _ \<Rightarrow> False"
  by code_simp

lemma other_stores:
  "case vector_upsert sample_runtime plain_settings None ''c'' [other_record] (Some (vector_context ''a_b'')) after_owner of
     (Inr _, t) \<Rightarrow> True | _ \<Rightarrow> False"
  by code_simp

theorem colliding_tenants_lose_vectors_witness:
  "\<exists>t before. vector_upsert sample_runtime plain_settings None ''c'' [other_record] (Some (vector_context ''a_b'')) after_owner =
       (Inr (), t) \<and> vs_denials t = vs_denials after_owner \<and>
     fst (vector_lookup ''a'' ''b_c'' after_owner) = Inr before \<and> map sr_id before = [''x''] \<and>
     (\<exists>after. fst (vector_lookup ''a'' ''b_c'' t) = Inr after \<and> ''x'' \<notin> sr_id ` set after)"
proof -
  obtain before s' where found: "vector_lookup ''a'' ''b_c'' after_owner = (Inr before, s')" "map sr_id before = [''x'']"
    using owner_finds by (auto split: prod.splits sum.splits)
  obtain t where stores: "vector_upsert sample_runtime plain_settings None ''c'' [other_record] (Some (vector_context ''a_b'')) after_owner =
      (Inr (), t)"
    using other_stores by (auto split: prod.splits sum.splits)
  have strip: "py_strip (vr_id \<lparr>vr_id = ''x'', vr_embedding = [Fin 1], vr_document = Some ''n'', vr_metadata = []\<rparr>) = ''x''"
    by (simp add: text_defs)
  have texts: "alnum_text ''a''" "alnum_text ''b''" "alnum_text ''c''" by code_simp+
  have names: "joined ''b'' ''c'' = ''b_c''" "joined ''a'' ''b'' = ''a_b''" by (simp_all add: joined_def)
  have contexts: "resolve_context None (Some (vector_context ''a'')) = Inr (vector_context ''a'')"
    "resolve_context None (Some (vector_context ''a_b'')) = Inr (vector_context ''a_b'')"
    "tc_tenant_id (vector_context ''a'') = ''a''" "tc_tenant_id (vector_context ''a_b'') = ''a_b''"
    by (simp_all add: resolve_context_def vector_context_def)
  have "vs_collections empty_vectors = []" by (simp add: empty_vectors_def)
  from colliding_tenants_lose_vectors [OF texts _ _ contexts(1,3,2) _ this after_owner_def, unfolded names,
      OF _ _ contexts(4) found(1) [unfolded vector_lookup_def] stores]
  have "vs_denials t = vs_denials after_owner \<and>
      (\<exists>after. fst (vector_lookup ''a'' ''b_c'' t) = Inr after \<and> ''x'' \<notin> sr_id ` set after)"
    by (force simp: vector_lookup_def other_record_def strip [simplified])
  with found stores show ?thesis by auto
qed

end
