(* ===== verification/Spec2Isabelle.thy ===== *)
theory Spec2Isabelle
  imports PayoutProperties SharedProperties PlatformProperties SecurityProperties LedgerProperties
    GatewayProperties WalletProperties MarketProperties ActivityProperties
    LinksProperties TemplateProperties CglrProperties VectorProperties
begin

text \<open>
  A verification library for the Media Center platform: Python services (\<open>services/\<close>) over
  shared libraries (\<open>libs/shared/\<close>). A service holds its state in a repository object,
  validates requests with pydantic models, writes audit records and publishes events; the shared
  libraries give identifiers, tenants, roles, audit, events, cache and resilience. Every definition
  is a translation of code under src/; the theorems are about these definitions.

  \<^bold>\<open>Foundations.\<close>
  \<open>Prelude\<close>: Python strings (characters of the first 256 code points), association lists for
  dicts, the exceptions of all services (\<open>exn\<close>), \<open>ebind\<close> for code that returns or raises,
  \<open>act\<close> for code that also threads a state: an exception keeps the writes made before it.
  \<open>Values\<close>: floats, JSON documents and their canonical text, instants in microseconds, and
  \<open>runtime\<close>, the parameter that stands for SHA-256, fresh identifiers, the clock and
  \<open>json.loads\<close> of a dumped text. \<open>Floats\<close>: rounding to binary64. \<open>RawJson\<close>: JSON texts with
  letters beyond ASCII unescaped. \<open>Urls\<close>: \<open>urlsplit\<close>.
  \<open>SharedModels\<close>: the identifier types of libs/shared/models.py.

  \<^bold>\<open>Shared libraries.\<close>
  \<open>AuditLog\<close> (audit_logger.py), \<open>Events\<close> (events.py: envelope, topics, in-memory bus),
  \<open>Tenancy\<close> (tenant.py: contexts, headers, denials, tenant-scoped repository), \<open>Rbac\<close>
  (rbac.py), \<open>Resilience\<close> (resilience.py: retries, budgets, circuit breaker), \<open>Cache\<close>
  (cache.py: tenant cache with expiry, counters and locks). \<open>SharedProperties\<close> states what they
  promise. \<open>Vectors\<close> (vector.py: the in-memory vector store, not the Chroma client) has its properties in
  \<open>VectorProperties\<close>.

  \<^bold>\<open>Payout gateway\<close> (services/hitl-payout-gateway).
  \<open>PayoutQueue\<close>, \<open>PayoutVeto\<close>, \<open>PayoutConfirm\<close>, \<open>PayoutConnectors\<close>,
  \<open>PayoutExecution\<close> and \<open>Redaction\<close> model the five managers and the audit redaction. The
  state \<open>gateway\<close> holds the four repositories, the audit sink, the bus and the connectors'
  own state of any type. Connectors and the event bus are functions on the state: they return or
  raise whatever they like. \<open>PayoutMachine\<close> composes the operations: a state machine of calls,
  an abstract life cycle that every call refines, and the invariants of the reachable states. Each
  operation has an outcome rule (what state it can leave and what it returned) from which these
  follow. \<open>PayoutRuns\<close> computes concrete runs, \<open>PayoutProperties\<close> states the properties.

  \<^bold>\<open>Tokens and second factor.\<close>
  \<open>Encodings\<close> (base64url, base32, UTF-8), \<open>Jwt\<close> (tenant.py: HS256 tokens, claims, bearer
  headers and the ASGI middleware with its error envelope) and \<open>Auth\<close> (auth.py: access tokens,
  single-use refresh tokens, time-based one-time passwords and the confirmations derived from them).
  HMAC, the parsing of JSON and the secrets drawn at random are parameters. \<open>SecurityProperties\<close>
  states what they promise. Times of one-time passwords are rationals; the floor division of the code
  is exact for times below 2^53 seconds.

  \<^bold>\<open>Gateway and service signatures.\<close>
  \<open>TenantResources\<close> (tenant_resources.py: plans, quotas, operation slots), \<open>S2sAuth\<close>
  (s2s_auth.py: signed requests with shared secrets, RSA keys or Kubernetes service accounts, and the
  cache of used nonces) and \<open>Gateway\<close> (gateway.py: routes, rate limiter, rewritten headers). The
  HMAC, the JWT library, files, environment, the TokenReview service and the random nonces are
  parameters; every clock reading is an argument. \<open>RateWindow\<close> is the locale of fixed-window
  counters, interpreted for the quotas and for the rate limiter; \<open>S2sReplay\<close> proves that a used
  nonce stays refused while its request could still be accepted; \<open>GatewayLemmas\<close> follows a request
  through the middleware, \<open>GatewayProperties\<close> states the properties. The service behind the gateway is any
  function on the state that returns or raises; requests are served one after another.

  \<^bold>\<open>Contribution ledger\<close> (services/contribution-ledger).
  \<open>FloatArith\<close> gives binary64 addition, multiplication, division, \<open>round\<close> and the compensated
  \<open>sum\<close> of Python, with error bounds. \<open>WeightEngine\<close> and \<open>WeightShares\<close>: weights and payout
  shares (weight_engine.py); up to 5000 members the accumulated rounding errors stay below half a
  unit of the last decimal, so every share is the float of an exact decimal and their sum is one.
  \<open>PointsCalculator\<close>, \<open>PayoutExporter\<close> and \<open>ContributionEvents\<close> model the three other
  modules, \<open>LedgerProperties\<close> states the properties.

  \<^bold>\<open>Platform services.\<close>
  \<open>PolicyManager\<close> (policy-manager) and \<open>ProxyRotation\<close> (neuro-agent-orchestrator), with
  their properties in \<open>PlatformProperties\<close>.

  \<^bold>\<open>Member services.\<close>
  \<open>Wallet\<close> (services/wallet/wallet/api.py) is the ledger of a tenant's member balances: amounts are
  integers of hundredths, \<open>quantize\<close> fails beyond the 28 digits of the decimal context, and how
  pydantic dumps a request in JSON mode is the parameter \<open>json_mode\<close>. \<open>Marketplace\<close>
  (libs/shared/tenant_marketplace.py) moderates applications of cooperatives, provisions them with the
  resource manager of \<open>TenantResources\<close> and lists them in a catalog. \<open>CommandCenter\<close>
  (services/activity-command-center) judges the tasks of agents by thresholds that only the council
  changes. \<open>WalletProperties\<close>, \<open>MarketProperties\<close> and \<open>ActivityProperties\<close> state what
  holds after any sequence of requests.

  \<^bold>\<open>Content generator\<close> (services/cglr).
  \<open>Queries\<close> is the part of \<open>urllib.parse\<close> that reads and writes query strings: decoded text is held as
  the bytes of its UTF-8 form, and reading what was written gives it back. \<open>Links\<close> (link_rotator.py)
  draws the partner of the third level and builds the tracked links, \<open>Templates\<close> (template_engine.py) checks
  syntax trees and caches compiled templates, \<open>Cglr\<close> (api.py) is the handler that renders, announces,
  logs and stores a content under its idempotency key. Jinja2, the check of bracketed hosts and the
  Russian heading of the list of links are parameters. \<open>LinksProperties\<close>, \<open>TemplateProperties\<close>
  and \<open>CglrProperties\<close> state the properties.

  \<^bold>\<open>Bounds and termination.\<close> No definition uses fuel. The loops are structural or terminate by
  a size measure (redaction and copies of JSON values, topic matching, the quotient loops of
  \<open>Floats\<close>). Integers are Python's and unbounded. Durations are exact rationals where the code
  adds floats of seconds; instants are integers of microseconds as \<open>datetime\<close> keeps them.

  \<^bold>\<open>Not modelled.\<close> Text beyond the first 256 code points; HTTP routing, SQL, RabbitMQ, Redis and
  other drivers (third-party code or pure transport); concurrency inside one operation (the
  in-memory classes run to completion between awaits); services that the manifest lists as not
  modelled, left for later extensions.
\<close>

end
